(* ===== verification/Prelude_C.thy ===== *)
theory Prelude_C
  imports Main "HOL-Library.Word" "HOL-Library.Monad_Syntax"
begin

text \<open>
  The vocabulary the component theories share: the machine integers of the 32-bit target,
  C memory regions as byte functions, and computations that may have undefined behaviour
  or may never return.

  A C object of several bytes is a function \<open>bytes\<close> from offsets to bytes together with the
  size the code declares for it.  A computation is an \<open>option\<close>: \<open>None\<close> stands for
  undefined behaviour of the C program (a write out of an object, a NULL dereference, a lock
  taken twice by its owner) and for a call that never returns, \<open>Some\<close> for a normal return.
  A theorem that some call equals \<open>Some x\<close> therefore says that it returns and is defined.
  The collection \<open>partial\<close> holds the rules of the predicate \<open>on_return\<close> (what holds of the
  result when there is one), which the component theories use as a small calculus.
\<close>

unbundle bit_operations_syntax

subsection \<open>Machine types\<close>

type_synonym u8 = "8 word"
type_synonym u32 = "32 word"
type_synonym u64 = "64 word"

text \<open>A region of memory: the byte at each offset.\<close>

type_synonym bytes = "nat \<Rightarrow> u8"

named_theorems partial \<open>rules that decompose an \<open>on_return\<close> goal\<close>
named_theorems mem_simps \<open>reading back what was written to a memory region\<close>

subsection \<open>Computations\<close>

definition on_return :: "'a option \<Rightarrow> ('a \<Rightarrow> bool) \<Rightarrow> bool" where
  "on_return m Q \<longleftrightarrow> (\<forall>x. m = Some x \<longrightarrow> Q x)"

lemma on_returnI [intro?]: "(\<And>x. m = Some x \<Longrightarrow> Q x) \<Longrightarrow> on_return m Q"
  by (simp add: on_return_def)

lemma on_returnD: "on_return m Q \<Longrightarrow> m = Some x \<Longrightarrow> Q x"
  by (simp add: on_return_def)

lemma on_return_Some [simp, partial]: "on_return (Some x) Q = Q x"
  by (simp add: on_return_def)

lemma on_return_None [simp, partial]: "on_return None Q"
  by (simp add: on_return_def)

lemma on_return_bind [partial]:
  "on_return (Option.bind m f) Q = on_return m (\<lambda>x. on_return (f x) Q)"
  by (cases m) simp_all

lemma on_return_if [partial]:
  "on_return (if b then m else n) Q = ((b \<longrightarrow> on_return m Q) \<and> (\<not> b \<longrightarrow> on_return n Q))"
  by simp

lemma on_return_mono: "on_return m P \<Longrightarrow> (\<And>x. P x \<Longrightarrow> Q x) \<Longrightarrow> on_return m Q"
  by (simp add: on_return_def)

lemma on_return_mono2:
  "on_return m (\<lambda>(a, b). P a b) \<Longrightarrow> (\<And>a b. P a b \<Longrightarrow> Q (a, b)) \<Longrightarrow> on_return m Q"
  by (auto simp: on_return_def)

lemma on_return_imp: "on_return m (\<lambda>x. b \<longrightarrow> Q x) = (b \<longrightarrow> on_return m Q)"
  by (auto simp: on_return_def)

lemma on_return_conj: "on_return m P \<Longrightarrow> on_return m Q \<Longrightarrow> on_return m (\<lambda>x. P x \<and> Q x)"
  by (simp add: on_return_def)

text \<open>The total counterpart: the computation returns, and \<open>Q\<close> holds of its result.\<close>

definition returns :: "'a option \<Rightarrow> ('a \<Rightarrow> bool) \<Rightarrow> bool" where
  "returns m Q \<longleftrightarrow> (\<exists>x. m = Some x \<and> Q x)"

lemma returns_Some [simp]: "returns (Some x) Q = Q x"
  by (simp add: returns_def)

lemma returns_None [simp]: "\<not> returns None Q"
  by (simp add: returns_def)

lemma returns_bind: "returns m P \<Longrightarrow> (\<And>x. P x \<Longrightarrow> returns (f x) Q) \<Longrightarrow> returns (Option.bind m f) Q"
  by (auto simp: returns_def)

lemma returns_bind_pair:
  "returns m (\<lambda>(a, v). P a v) \<Longrightarrow> (\<And>a v. P a v \<Longrightarrow> returns (f a v) Q) \<Longrightarrow>
   returns (Option.bind m (\<lambda>(a, v). f a v)) Q"
  by (auto simp: returns_def)

lemma returns_if:
  "(b \<Longrightarrow> returns m Q) \<Longrightarrow> (\<not> b \<Longrightarrow> returns n Q) \<Longrightarrow> returns (if b then m else n) Q"
  by simp

lemma returns_mono: "returns m P \<Longrightarrow> (\<And>x. P x \<Longrightarrow> Q x) \<Longrightarrow> returns m Q"
  by (auto simp: returns_def)

lemma returns_obtain: "returns m Q \<Longrightarrow> (\<And>x. m = Some x \<Longrightarrow> Q x \<Longrightarrow> thesis) \<Longrightarrow> thesis"
  by (auto simp: returns_def)

subsection \<open>Memory regions\<close>

definition memset :: "bytes \<Rightarrow> nat \<Rightarrow> u8 \<Rightarrow> nat \<Rightarrow> bytes" where
  "memset m off v n = (\<lambda>i. if off \<le> i \<and> i < off + n then v else m i)"

definition memcpy :: "bytes \<Rightarrow> nat \<Rightarrow> bytes \<Rightarrow> nat \<Rightarrow> nat \<Rightarrow> bytes" where
  "memcpy m off src soff n = (\<lambda>i. if off \<le> i \<and> i < off + n then src (soff + (i - off)) else m i)"

text \<open>A 32-bit object in little-endian order, as on the ARM target.\<close>

definition put32 :: "bytes \<Rightarrow> nat \<Rightarrow> u32 \<Rightarrow> bytes" where
  "put32 m off v = m(off := ucast v, off + 1 := ucast (drop_bit 8 v),
                     off + 2 := ucast (drop_bit 16 v), off + 3 := ucast (drop_bit 24 v))"

definition get32 :: "bytes \<Rightarrow> nat \<Rightarrow> u32" where
  "get32 m off = ucast (m off) OR push_bit 8 (ucast (m (off + 1))) OR
                 push_bit 16 (ucast (m (off + 2))) OR push_bit 24 (ucast (m (off + 3)))"

lemma memset_inside [mem_simps]: "off \<le> i \<Longrightarrow> i < off + n \<Longrightarrow> memset m off v n i = v"
  by (simp add: memset_def)

lemma memset_outside [mem_simps]: "i < off \<or> off + n \<le> i \<Longrightarrow> memset m off v n i = m i"
  by (auto simp: memset_def)

lemma memcpy_inside [mem_simps]:
  "off \<le> i \<Longrightarrow> i < off + n \<Longrightarrow> memcpy m off src soff n i = src (soff + (i - off))"
  by (simp add: memcpy_def)

lemma memcpy_outside [mem_simps]: "i < off \<or> off + n \<le> i \<Longrightarrow> memcpy m off src soff n i = m i"
  by (auto simp: memcpy_def)

lemma put32_outside [mem_simps]: "i < off \<or> off + 4 \<le> i \<Longrightarrow> put32 m off v i = m i"
  by (auto simp: put32_def)

lemma ucast_halves_u32:
  fixes v :: u32
  shows "ucast (ucast v :: u8) OR push_bit 8 (ucast (ucast (drop_bit 8 v) :: u8)) OR
   push_bit 16 (ucast (ucast (drop_bit 16 v) :: u8)) OR
   push_bit 24 (ucast (ucast (drop_bit 24 v) :: u8)) = v" (is "?l = v")
proof (rule bit_word_eqI)
  fix n assume "n < LENGTH(32)"
  then consider "n < 8" | "8 \<le> n" "n < 16" | "16 \<le> n" "n < 24" | "24 \<le> n" "n < 32"
    by fastforce
  then show "bit ?l n = bit v n"
    by cases (auto simp: bit_simps)
qed

lemma get32_put32_same [mem_simps]: "get32 (put32 m off v) off = v"
  by (simp add: get32_def put32_def ucast_halves_u32)

lemma get32_put32_other [mem_simps]:
  "off + 4 \<le> off' \<or> off' + 4 \<le> off \<Longrightarrow> get32 (put32 m off v) off' = get32 m off'"
  by (auto simp: get32_def put32_def)

lemma get32_memset_outside [mem_simps]:
  "off' + 4 \<le> off \<or> off + n \<le> off' \<Longrightarrow> get32 (memset m off v n) off' = get32 m off'"
  by (auto simp: get32_def memset_def)

lemma get32_memset_zero [mem_simps]:
  "off \<le> off' \<Longrightarrow> off' + 4 \<le> off + n \<Longrightarrow> get32 (memset m off 0 n) off' = 0"
  by (simp add: get32_def memset_def)

lemma get32_fun_upd_outside [mem_simps]:
  "i < off \<or> off + 4 \<le> i \<Longrightarrow> get32 (m(i := v)) off = get32 m off"
  by (auto simp: get32_def)

lemma get32_memcpy_outside [mem_simps]:
  "off' + 4 \<le> off \<or> off + n \<le> off' \<Longrightarrow> get32 (memcpy m off src soff n) off' = get32 m off'"
  by (auto simp: get32_def memcpy_def)

lemma get32_memcpy_inside [mem_simps]:
  "off \<le> off' \<Longrightarrow> off' + 4 \<le> off + n \<Longrightarrow> get32 (memcpy m off src soff n) off' = get32 src (soff + (off' - off))"
  by (simp add: get32_def memcpy_def Suc_diff_le add.assoc)

text \<open>The bytes of a NUL-terminated string stored in a region of size \<open>n\<close>: \<open>None\<close> when
  no byte of the region is zero, since \<open>strlen\<close> then runs out of the object.\<close>

fun c_string :: "bytes \<Rightarrow> nat \<Rightarrow> nat \<Rightarrow> u8 list option" where
  "c_string m off 0 = None"
| "c_string m off (Suc n) =
     (if m off = 0 then Some [] else map_option (Cons (m off)) (c_string m (Suc off) n))"

lemma c_string_nonzero: "c_string m off n = Some s \<Longrightarrow> 0 \<notin> set s"
  by (induction m off n arbitrary: s rule: c_string.induct) (auto split: if_splits)

lemma c_string_SomeD:
  "c_string m off n = Some s \<Longrightarrow> length s < n \<and> s = map m [off ..< off + length s] \<and> m (off + length s) = 0"
proof (induction m off n arbitrary: s rule: c_string.induct)
  case (2 m off n)
  show ?case
  proof (cases "m off = 0")
    case False
    with "2.prems" obtain s' where s': "c_string m (Suc off) n = Some s'" "s = m off # s'" by auto
    have "[off ..< off + length s] = off # [Suc off ..< Suc off + length s']"
      using s'(2) by (simp add: upt_conv_Cons del: upt_Suc)
    with "2.IH" [OF False s'(1)] s'(2) show ?thesis
      by (simp del: upt_Suc)
  qed (use "2.prems" in auto)
qed simp

subsection \<open>Lists\<close>

lemma foldl_upt_Suc: "i \<le> j \<Longrightarrow> foldl f s [i ..< Suc j] = f (foldl f s [i ..< j]) j"
  by simp

lemma foldl_upt_split: "i \<le> j \<Longrightarrow> j \<le> k \<Longrightarrow> foldl f s [i ..< k] = foldl f (foldl f s [i ..< j]) [j ..< k]"
  by (metis foldl_append upt_add_eq_append le_Suc_ex)

lemma foldl_cong_upt:
  "(\<And>s t. i \<le> t \<Longrightarrow> t < j \<Longrightarrow> f s t = g s t) \<Longrightarrow> foldl f s [i ..< j] = foldl g s [i ..< j]"
  by (rule foldl_cong) auto

end
