(* ===== verification/Sha1_Correct.thy ===== *)
theory Sha1_Correct
  imports Sha1
begin

text \<open>
  FIPS 180-4 for SHA-1 as functions on the whole message, and the proof that the streaming
  code of \<open>fingerprint/hash.c\<close> computes it.  The middle of the argument is the invariant
  \<open>absorbed\<close>: after any input the context holds the chaining value of the complete blocks,
  the bytes of the incomplete one, and the bit count split over two words.
\<close>

subsection \<open>The standard\<close>

definition spec_word :: "u8 list \<Rightarrow> nat \<Rightarrow> u32" where
  "spec_word block t = word_of_nat (unat (block ! (4 * t)) * 2 ^ 24 + unat (block ! (4 * t + 1)) * 2 ^ 16 +
     unat (block ! (4 * t + 2)) * 2 ^ 8 + unat (block ! (4 * t + 3)))"

fun spec_W :: "u8 list \<Rightarrow> nat \<Rightarrow> u32" where
  "spec_W block t =
     (if t < 16 then spec_word block t
      else word_rotl 1 (spec_W block (t - 3) XOR spec_W block (t - 8) XOR
                        spec_W block (t - 14) XOR spec_W block (t - 16)))"

declare spec_W.simps [simp del]

definition spec_f :: "nat \<Rightarrow> u32 \<Rightarrow> u32 \<Rightarrow> u32 \<Rightarrow> u32" where
  "spec_f t x y z =
     (if t < 20 then (x AND y) XOR (NOT x AND z)
      else if t < 40 then x XOR y XOR z
      else if t < 60 then (x AND y) XOR (x AND z) XOR (y AND z)
      else x XOR y XOR z)"

definition spec_K :: "nat \<Rightarrow> u32" where
  "spec_K t = (if t < 20 then 0x5A827999 else if t < 40 then 0x6ED9EBA1
               else if t < 60 then 0x8F1BBCDC else 0xCA62C1D6)"

definition spec_step :: "u8 list \<Rightarrow> sha1_regs \<Rightarrow> nat \<Rightarrow> sha1_regs" where
  "spec_step block = (\<lambda>(a, b, c, d, e) t.
     (word_rotl 5 a + spec_f t b c d + e + spec_K t + spec_W block t, a, word_rotl 30 b, c, d))"

definition spec_compress :: "u32 list \<Rightarrow> u8 list \<Rightarrow> u32 list" where
  "spec_compress H block =
    (let (a, b, c, d, e) = foldl (spec_step block) (H ! 0, H ! 1, H ! 2, H ! 3, H ! 4) [0 ..< 80]
     in [H ! 0 + a, H ! 1 + b, H ! 2 + c, H ! 3 + d, H ! 4 + e])"

function blocks64 :: "u8 list \<Rightarrow> u8 list list" where
  "blocks64 xs = (if xs = [] then [] else take 64 xs # blocks64 (drop 64 xs))"
  by pat_completeness auto
termination
  by (relation "measure length") auto

declare blocks64.simps [simp del]

definition be64 :: "u64 \<Rightarrow> u8 list" where
  "be64 v = map (\<lambda>k. ucast (drop_bit (8 * (7 - k)) v)) [0 ..< 8]"

definition spec_pad :: "u8 list \<Rightarrow> u8 list" where
  "spec_pad msg = msg @ [0x80] @ replicate ((119 - length msg mod 64) mod 64) 0 @
     be64 (word_of_nat (8 * length msg))"

definition spec_IV :: "u32 list" where
  "spec_IV = [0x67452301, 0xEFCDAB89, 0x98BADCFE, 0x10325476, 0xC3D2E1F0]"

definition spec_sha1 :: "u8 list \<Rightarrow> u32 list" where
  "spec_sha1 msg = foldl spec_compress spec_IV (blocks64 (spec_pad msg))"

subsection \<open>One block\<close>

lemma word_all_ones: "(x :: u32) AND 0xFFFFFFFF = x"
proof -
  have "(0xFFFFFFFF :: u32) = - 1" by simp
  then show ?thesis by (simp only: and.right_neutral)
qed

lemma SHA1CircularShift_rotl:
  "0 < n \<Longrightarrow> n < 32 \<Longrightarrow> SHA1CircularShift n w = word_rotl n w"
proof (rule bit_word_eqI)
  fix k assume "0 < n" "n < 32" "k < LENGTH(32)"
  moreover have "(k + 32 - n) mod 32 = (if n \<le> k then k - n else 32 + k - n)"
    using calculation by (auto simp: mod_if)
  ultimately show "bit (SHA1CircularShift n w) k = bit (word_rotl n w) k"
    by (auto simp: SHA1CircularShift_def word_all_ones bit_simps not_le dest: bit_imp_le_length)
qed

lemma schedule_word:
  fixes a b c d :: u8
  shows "push_bit 24 (ucast a) OR push_bit 16 (ucast b) OR push_bit 8 (ucast c) OR ucast d
       = (word_of_nat (unat a * 2 ^ 24 + unat b * 2 ^ 16 + unat c * 2 ^ 8 + unat d) :: u32)"
proof -
  have z: "push_bit 24 (ucast a) AND (push_bit 16 (ucast b) OR (push_bit 8 (ucast c) OR ucast d)) = (0 :: u32)"
    "push_bit 16 (ucast b) AND (push_bit 8 (ucast c) OR ucast d) = (0 :: u32)"
    "push_bit 8 (ucast c) AND ucast d = (0 :: u32)"
    by (rule bit_word_eqI; auto simp: bit_simps dest: bit_imp_le_length)+
  then show ?thesis
    by (simp add: disjunctive_add_eq_or [symmetric] push_bit_eq_mult or.assoc algebra_simps)
qed

lemma choose_bits_spec: "choose_bits x y z = (x AND y) XOR (NOT x AND z)"
  by (rule bit_word_eqI) (auto simp: choose_bits_def bit_simps)

lemma majority_bits_spec: "majority_bits x y z = (x AND y) XOR (x AND z) XOR (y AND z)"
  by (rule bit_word_eqI) (auto simp: majority_bits_def bit_simps)

lemma schedule_init_nth: "t < 16 \<Longrightarrow> schedule_init block ! t = spec_W block t"
  by (simp add: schedule_init_def spec_W.simps [of block t] spec_word_def schedule_word mult.commute)

lemma schedule_extend_prefix:
  "16 \<le> j \<Longrightarrow> length (foldl schedule_extend (schedule_init block) [16 ..< j]) = j \<and>
     (\<forall>t < j. foldl schedule_extend (schedule_init block) [16 ..< j] ! t = spec_W block t)"
proof (induction j rule: dec_induct)
  case base
  then show ?case by (simp add: schedule_init_nth) (simp add: schedule_init_def)
next
  case (step j)
  let ?W = "foldl schedule_extend (schedule_init block) [16 ..< j]"
  have "spec_W block j = word_rotl 1 (?W ! (j - 3) XOR ?W ! (j - 8) XOR ?W ! (j - 14) XOR ?W ! (j - 16))"
    using step by (simp add: spec_W.simps [of block j])
  with step show ?case
    by (auto simp: schedule_extend_def [of ?W j] SHA1CircularShift_rotl nth_append less_Suc_eq)
qed

lemma message_schedule_nth: "t < 80 \<Longrightarrow> message_schedule block ! t = spec_W block t"
  using schedule_extend_prefix [of 80 block] by (simp add: message_schedule_def)

lemma sha1_round_spec:
  assumes "t < 80" and "\<And>x y z. f x y z = spec_f t x y z" and "k = spec_K t"
  shows "sha1_round f k (message_schedule block) r t = spec_step block r t"
  using assms
  by (cases r) (simp add: sha1_round_def spec_step_def SHA1CircularShift_rotl word_all_ones
      message_schedule_nth Let_def ac_simps)

lemma SHA1ProcessMessageBlock_spec:
  "SHA1ProcessMessageBlock c = c\<lparr>
     Message_Digest := spec_compress (Message_Digest c) (Message_Block c),
     Message_Block_Index := 0\<rparr>"
proof -
  let ?b = "Message_Block c"
  have phase: "foldl (sha1_round f k (message_schedule ?b)) r [i ..< j] = foldl (spec_step ?b) r [i ..< j]"
    if "j \<le> 80" "\<And>t x y z. i \<le> t \<Longrightarrow> t < j \<Longrightarrow> f x y z = spec_f t x y z"
      "\<And>t. i \<le> t \<Longrightarrow> t < j \<Longrightarrow> k = spec_K t" for f k r i j
    using that by (intro foldl_cong_upt sha1_round_spec) auto
  have all: "foldl (spec_step ?b) r [0 ..< 80] =
      foldl (spec_step ?b) (foldl (spec_step ?b) (foldl (spec_step ?b)
        (foldl (spec_step ?b) r [0 ..< 20]) [20 ..< 40]) [40 ..< 60]) [60 ..< 80]" for r
    by (simp add: foldl_upt_split [of 0 60 80] foldl_upt_split [of 0 40 60] foldl_upt_split [of 0 20 40]
        del: upt_rec_numeral)
  have p1: "foldl (sha1_round choose_bits (sha1_K ! 0) (message_schedule ?b)) r [0 ..< 20] =
      foldl (spec_step ?b) r [0 ..< 20]" for r
    by (rule phase) (auto simp: choose_bits_spec spec_f_def sha1_K_def spec_K_def)
  have p2: "foldl (sha1_round parity_bits (sha1_K ! 1) (message_schedule ?b)) r [20 ..< 40] =
      foldl (spec_step ?b) r [20 ..< 40]" for r
    by (rule phase) (auto simp: parity_bits_def spec_f_def sha1_K_def spec_K_def)
  have p3: "foldl (sha1_round majority_bits (sha1_K ! 2) (message_schedule ?b)) r [40 ..< 60] =
      foldl (spec_step ?b) r [40 ..< 60]" for r
    by (rule phase) (auto simp: majority_bits_spec spec_f_def sha1_K_def spec_K_def)
  have p4: "foldl (sha1_round parity_bits (sha1_K ! 3) (message_schedule ?b)) r [60 ..< 80] =
      foldl (spec_step ?b) r [60 ..< 80]" for r
    by (rule phase) (auto simp: parity_bits_def spec_f_def sha1_K_def spec_K_def)
  show ?thesis
    unfolding SHA1ProcessMessageBlock_def spec_compress_def Let_def p1 p2 p3 p4 all [symmetric]
    by (simp add: word_all_ones split: prod.split del: upt_rec_numeral)
qed


subsection \<open>Splitting into blocks\<close>

lemma blocks64_Nil [simp]: "blocks64 [] = []"
  by (simp add: blocks64.simps)

lemma blocks64_block: "length b = 64 \<Longrightarrow> blocks64 (b @ xs) = b # blocks64 xs"
  by (subst blocks64.simps) auto

lemma blocks64_append: "64 dvd length xs \<Longrightarrow> blocks64 (xs @ ys) = blocks64 xs @ blocks64 ys"
proof (induction xs rule: blocks64.induct)
  case (1 xs)
  show ?case
  proof (cases "xs = []")
    case False
    then have len: "64 \<le> length xs" "64 dvd length (drop 64 xs)"
      using "1.prems" by (auto simp: dvd_imp_le)
    have "blocks64 (xs @ ys) = take 64 xs # blocks64 (drop 64 xs @ ys)"
      using len False by (subst blocks64.simps) simp
    also have "blocks64 (drop 64 xs @ ys) = blocks64 (drop 64 xs) @ blocks64 ys"
      by (rule "1.IH" [OF False len(2)])
    also have "take 64 xs # (blocks64 (drop 64 xs) @ blocks64 ys) = blocks64 xs @ blocks64 ys"
      using False by (simp add: blocks64.simps [of xs])
    finally show ?thesis .
  qed simp
qed

lemma length_be64 [simp]: "length (be64 v) = 8"
  by (simp add: be64_def)

lemma be64_split:
  assumes "unat hi * 2 ^ 32 + unat lo = n"
  shows "be64 (word_of_nat n) = be32 hi @ be32 lo"
proof -
  have "push_bit 32 (ucast hi) AND ucast lo = (0 :: u64)"
    by (rule bit_word_eqI) (auto simp: bit_simps dest: bit_imp_le_length)
  then have v: "(word_of_nat n :: u64) = push_bit 32 (ucast hi) OR ucast lo"
    by (simp add: assms [symmetric] disjunctive_add_eq_or [symmetric] push_bit_eq_mult)
  have high: "(ucast (drop_bit (32 + k) (word_of_nat n :: u64)) :: u8) = ucast (drop_bit k hi)" for k
    unfolding v by (rule bit_word_eqI) (auto simp: bit_simps dest: bit_imp_le_length)
  have low: "(ucast (drop_bit k (word_of_nat n :: u64)) :: u8) = ucast (drop_bit k lo)" if "k \<le> 24" for k
    unfolding v using that by (intro bit_word_eqI) (auto simp: bit_simps dest: bit_imp_le_length)
  have "be64 (word_of_nat n) = map (\<lambda>k. ucast (drop_bit k (word_of_nat n :: u64)))
      [32 + 24, 32 + 16, 32 + 8, 32 + 0, 24, 16, 8, 0]"
    by (simp add: be64_def upt_rec)
  then show ?thesis
    by (simp only: list.map high) (simp only: be32_def low list.map append.simps drop_bit_0 id_apply; simp add: low [of 0, simplified] low)
qed

subsection \<open>What the context holds after an input\<close>

definition absorbed :: "SHA1Context \<Rightarrow> u8 list \<Rightarrow> bool" where
  "absorbed c msg \<longleftrightarrow>
     (\<exists>full rest. msg = full @ rest \<and> 64 dvd length full \<and> length rest < 64 \<and>
        length (Message_Block c) = 64 \<and> Message_Block_Index c = length rest \<and>
        take (length rest) (Message_Block c) = rest \<and>
        Message_Digest c = foldl spec_compress spec_IV (blocks64 full)) \<and>
     unat (Length_High c) * 2 ^ 32 + unat (Length_Low c) = 8 * length msg \<and>
     \<not> Computed c \<and> \<not> Corrupted c"

lemma absorbed_index: "absorbed c msg \<Longrightarrow> Message_Block_Index c = length msg mod 64"
  by (auto simp: absorbed_def)

lemma absorbed_reset:
  "length (Message_Block c) = 64 \<Longrightarrow> absorbed (SHA1Reset c) []"
  by (simp add: absorbed_def SHA1Reset_def spec_IV_def)

text \<open>The two length words count bits without loss until \<open>2 ^ 64\<close>.\<close>

lemma length_words_step:
  fixes lo hi :: u32
  assumes eq: "unat hi * 2 ^ 32 + unat lo = 8 * n" and bound: "8 * (n + 1) < 2 ^ 64"
  shows "lo + 8 = 0 \<Longrightarrow> hi + 1 \<noteq> 0 \<and> unat (hi + 1) * 2 ^ 32 = 8 * (n + 1)"
    and "lo + 8 \<noteq> 0 \<Longrightarrow> unat hi * 2 ^ 32 + unat (lo + 8) = 8 * (n + 1)"
proof -
  have lo8: "unat lo mod 8 = 0"
  proof -
    have "8 dvd unat hi * 2 ^ 32 + unat lo" by (simp only: eq dvd_triv_left)
    moreover have "8 dvd unat hi * 2 ^ 32" by simp
    ultimately have "8 dvd unat lo" by (simp only: dvd_add_right_iff)
    then show ?thesis by simp
  qed
  have lo_lt: "unat lo < 2 ^ 32" using unsigned_less [of lo] by simp
  have sum: "unat (lo + 8) = (unat lo + 8) mod 2 ^ 32" by (simp add: unat_word_ariths)
  {
    assume "lo + 8 = 0"
    then have "(unat lo + 8) mod 2 ^ 32 = 0" using sum by simp
    then have top: "unat lo + 8 = 2 ^ 32" using lo_lt by (auto simp: mod_if split: if_splits)
    have "(unat hi + 1) * 2 ^ 32 = 8 * (n + 1)" using eq top by simp
    moreover from this bound have "unat hi + 1 < 2 ^ 32" by simp
    moreover from this have "unat (hi + 1) = unat hi + 1" by (simp add: unat_word_ariths)
    ultimately show "hi + 1 \<noteq> 0 \<and> unat (hi + 1) * 2 ^ 32 = 8 * (n + 1)"
      by (metis add_eq_0_iff_both_eq_0 one_neq_zero unsigned_0)
  }
  {
    assume "lo + 8 \<noteq> 0"
    then have "(unat lo + 8) mod 2 ^ 32 \<noteq> 0" using sum by (metis unat_eq_zero)
    moreover have "x + 8 \<le> 2 ^ 32" if "x < 2 ^ 32" "x mod 8 = 0" for x :: nat using that by simp presburger
    note this [OF lo_lt lo8]
    ultimately have "unat lo + 8 < 2 ^ 32" by (cases "unat lo + 8 = 2 ^ 32") auto
    then have "unat (lo + 8) = unat lo + 8" using sum by simp
    then show "unat hi * 2 ^ 32 + unat (lo + 8) = 8 * (n + 1)" using eq by simp
  }
qed

lemma absorbed_byte:
  assumes inv: "absorbed c msg" and bound: "8 * (length msg + 1) < 2 ^ 64"
  shows "absorbed (SHA1Input_byte c b) (msg @ [b])"
proof -
  from inv obtain full rest where
    msg: "msg = full @ rest" "64 dvd length full" "length rest < 64" and
    blk: "length (Message_Block c) = 64" "Message_Block_Index c = length rest"
      "take (length rest) (Message_Block c) = rest" and
    dig: "Message_Digest c = foldl spec_compress spec_IV (blocks64 full)" and
    len: "unat (Length_High c) * 2 ^ 32 + unat (Length_Low c) = 8 * length msg" and
    fl: "\<not> Computed c" "\<not> Corrupted c"
    by (auto simp: absorbed_def)
  note step = length_words_step [OF len bound]
  have ff: "b AND 0xFF = b"
  proof -
    have "(0xFF :: u8) = - 1" by simp
    then show ?thesis by (simp only: and.right_neutral)
  qed
  let ?blk = "(Message_Block c)[length rest := b]"
  have tk: "take (Suc (length rest)) ?blk = rest @ [b]"
    using msg blk by (simp add: take_Suc_conv_app_nth take_update_cancel)
  define hi where "hi = (if Length_Low c + 8 = 0 then Length_High c + 1 else Length_High c)"
  define c1 where "c1 = c\<lparr>Message_Block := ?blk, Message_Block_Index := length rest + 1,
      Length_Low := Length_Low c + 8, Length_High := hi\<rparr>"
  have c1: "SHA1Input_byte c b = (if length rest + 1 = 64 then SHA1ProcessMessageBlock c1 else c1)"
    using step blk fl by (auto simp: SHA1Input_byte_def put_block_byte_def Let_def word_all_ones ff c1_def hi_def)
  have bits: "unat (Length_High c1) * 2 ^ 32 + unat (Length_Low c1) = 8 * length (msg @ [b])"
    using step by (auto simp: c1_def hi_def)
  show ?thesis
  proof (cases "length rest + 1 = 64")
    case True
    then have blkeq: "?blk = rest @ [b]" using tk blk by simp
    have "absorbed (SHA1ProcessMessageBlock c1) (msg @ [b])"
      unfolding absorbed_def
      using msg blk dig fl True bits blkeq
      by (intro conjI exI [of _ "msg @ [b]"] exI [of _ "[]"])
         (auto simp: SHA1ProcessMessageBlock_spec c1_def blocks64_append blocks64_block [of "rest @ [b]" "[]", simplified])
    with c1 True show ?thesis by simp
  next
    case False
    then have "absorbed c1 (msg @ [b])"
      unfolding absorbed_def
      using msg blk dig fl bits tk
      by (intro conjI exI [of _ "full"] exI [of _ "rest @ [b]"]) (auto simp: c1_def)
    with c1 False show ?thesis by simp
  qed
qed

lemma absorbed_loop:
  "absorbed c msg \<Longrightarrow> 8 * length (msg @ bs) < 2 ^ 64 \<Longrightarrow> absorbed (SHA1Input_loop c bs) (msg @ bs)"
proof (induction bs arbitrary: c msg)
  case (Cons b bs)
  have nc: "\<not> Corrupted c" using Cons.prems(1) by (simp add: absorbed_def)
  have "absorbed (SHA1Input_byte c b) (msg @ [b])"
    by (rule absorbed_byte) (use Cons.prems in auto)
  then have "absorbed (SHA1Input_loop (SHA1Input_byte c b) bs) ((msg @ [b]) @ bs)"
    by (rule Cons.IH) (use Cons.prems in simp)
  with nc show ?case by simp
qed simp

lemma absorbed_input:
  "absorbed c msg \<Longrightarrow> 8 * length (msg @ bs) < 2 ^ 64 \<Longrightarrow> absorbed (SHA1Input c bs) (msg @ bs)"
  using absorbed_loop [of c msg bs] by (auto simp: SHA1Input_def absorbed_def)

subsection \<open>Padding\<close>

lemma zero_fill_eq:
  "Message_Block_Index c \<le> limit \<Longrightarrow> limit \<le> length (Message_Block c) \<Longrightarrow>
   zero_fill limit c = c\<lparr>
     Message_Block := take (Message_Block_Index c) (Message_Block c) @
        replicate (limit - Message_Block_Index c) 0 @ drop limit (Message_Block c),
     Message_Block_Index := limit\<rparr>"
proof (induction limit c rule: zero_fill.induct)
  case (1 limit c)
  show ?case
  proof (cases "Message_Block_Index c < limit")
    case True
    let ?i = "Message_Block_Index c"
    have "take (Suc ?i) ((Message_Block c)[?i := 0]) = take ?i (Message_Block c) @ [0]"
      using True "1.prems" by (simp add: take_Suc_conv_app_nth take_update_cancel)
    moreover have "replicate (limit - ?i) (0 :: u8) = 0 # replicate (limit - Suc ?i) 0"
      using True by (metis Suc_diff_Suc replicate_Suc)
    moreover have "zero_fill limit c = zero_fill limit (put_block_byte 0 c)"
      using True by (simp add: zero_fill.simps [of limit c])
    ultimately show ?thesis
      using "1.IH" [OF True] "1.prems" True by (simp add: put_block_byte_def)
  next
    case False
    with "1.prems" show ?thesis by (simp add: zero_fill.simps [of limit c])
  qed
qed

lemma byte_mask: "(ucast (x AND 0xFF) :: u8) = ucast (x :: u32)"
proof -
  have "x AND 0xFF = take_bit 8 x" by (simp add: take_bit_eq_mask mask_numeral)
  then show ?thesis by (intro bit_word_eqI) (auto simp: bit_simps)
qed

lemma put_length_eq:
  assumes "Message_Block c = xs @ ys" "length xs = 56" "length ys = 8"
  shows "put_length c = c\<lparr>Message_Block := xs @ be32 (Length_High c) @ be32 (Length_Low c)\<rparr>"
proof -
  from assms(3) obtain a0 a1 a2 a3 a4 a5 a6 a7 where "ys = [a0, a1, a2, a3, a4, a5, a6, a7]"
    by (auto simp: length_Suc_conv numeral_eq_Suc)
  with assms show ?thesis
    by (simp add: put_length_def list_update_append byte_mask be32_def)
qed

lemma pad_zeros:
  "n < 56 \<Longrightarrow> (119 - n) mod 64 = 55 - n" "56 \<le> n \<Longrightarrow> n < 64 \<Longrightarrow> (119 - n) mod 64 = 119 - (n :: nat)"
  by (simp_all add: mod_if)

lemma absorbed_pad:
  assumes inv: "absorbed c msg"
  shows "Message_Digest (SHA1PadMessage c) = spec_sha1 msg"
    and "Message_Block_Index (SHA1PadMessage c) = 0"
proof -
  from inv obtain full rest where
    msg: "msg = full @ rest" "64 dvd length full" "length rest < 64" and
    blk: "length (Message_Block c) = 64" "Message_Block_Index c = length rest"
      "take (length rest) (Message_Block c) = rest" and
    dig: "Message_Digest c = foldl spec_compress spec_IV (blocks64 full)" and
    len: "unat (Length_High c) * 2 ^ 32 + unat (Length_Low c) = 8 * length msg"
    by (auto simp: absorbed_def)
  let ?n = "length rest" and ?L = "be32 (Length_High c) @ be32 (Length_Low c)"
  have n: "length msg mod 64 = ?n" using msg by auto
  have pad: "spec_pad msg = full @ rest @ [0x80] @ replicate ((119 - ?n) mod 64) 0 @ ?L"
    unfolding spec_pad_def n be64_split [OF len] by (simp add: msg(1))
  have tk: "take (Suc ?n) ((Message_Block c)[?n := 0x80]) = rest @ [0x80]"
    using msg blk by (simp add: take_Suc_conv_app_nth take_update_cancel)
  have "Message_Digest (SHA1PadMessage c) = spec_sha1 msg \<and> Message_Block_Index (SHA1PadMessage c) = 0"
  proof (cases "?n < 56")
    case True
    have "zero_fill 56 (put_block_byte 0x80 c) = c\<lparr>
        Message_Block := (rest @ [0x80] @ replicate (55 - ?n) 0) @ drop 56 ((Message_Block c)[?n := 0x80]),
        Message_Block_Index := 56\<rparr>"
      using True blk tk by (subst zero_fill_eq) (auto simp: put_block_byte_def)
    moreover have "blocks64 (spec_pad msg) = blocks64 full @ [(rest @ [0x80] @ replicate (55 - ?n) 0) @ ?L]"
      using True msg(2) blocks64_block [of "(rest @ [0x80] @ replicate (55 - ?n) 0) @ ?L" "[]"]
      by (simp add: pad pad_zeros blocks64_append be32_def)
    moreover have "put_length (zero_fill 56 (put_block_byte 0x80 c)) = c\<lparr>
        Message_Block := (rest @ [0x80] @ replicate (55 - ?n) 0) @ ?L, Message_Block_Index := 56\<rparr>"
      unfolding calculation(1)
      by (subst put_length_eq [of _ "rest @ [0x80] @ replicate (55 - ?n) 0"]) (use True blk in auto)
    moreover have "SHA1PadMessage c = SHA1ProcessMessageBlock (put_length (zero_fill 56 (put_block_byte 0x80 c)))"
      using True blk by (simp add: SHA1PadMessage_def Let_def)
    ultimately show ?thesis
      using dig by (simp add: SHA1ProcessMessageBlock_spec spec_sha1_def)
  next
    case False
    define b1 where "b1 = rest @ [0x80] @ replicate (63 - ?n) (0 :: u8)"
    let ?b2 = "replicate 56 (0 :: u8)"
    have b1: "length b1 = 64" using False msg(3) by (simp add: b1_def)
    have z1: "zero_fill 64 (put_block_byte 0x80 c) = c\<lparr>Message_Block := b1, Message_Block_Index := 64\<rparr>"
      using False msg blk tk by (subst zero_fill_eq) (auto simp: put_block_byte_def b1_def)
    define c1 where "c1 = SHA1ProcessMessageBlock (c\<lparr>Message_Block := b1, Message_Block_Index := 64\<rparr>)"
    have c1: "c1 = c\<lparr>Message_Digest := spec_compress (Message_Digest c) b1, Message_Block := b1,
        Message_Block_Index := 0\<rparr>"
      by (simp add: SHA1ProcessMessageBlock_spec c1_def)
    have z2: "zero_fill 56 c1 = c1\<lparr>Message_Block := ?b2 @ drop 56 b1, Message_Block_Index := 56\<rparr>"
      using b1 by (subst zero_fill_eq) (auto simp: c1)
    have "replicate ((119 - ?n) mod 64) (0 :: u8) = replicate (63 - ?n) 0 @ ?b2"
      using False msg(3) by (simp add: pad_zeros replicate_add [symmetric])
    then have "blocks64 (spec_pad msg) = blocks64 full @ blocks64 (b1 @ ?b2 @ ?L)"
      using msg(2) by (simp add: pad blocks64_append b1_def)
    also have "blocks64 (b1 @ ?b2 @ ?L) = [b1, ?b2 @ ?L]"
      using blocks64_block [OF b1, of "?b2 @ ?L"] blocks64_block [of "?b2 @ ?L" "[]"]
      by (simp add: be32_def)
    finally have blocks: "blocks64 (spec_pad msg) = blocks64 full @ [b1, ?b2 @ ?L]" .
    have "put_length (zero_fill 56 c1) = (zero_fill 56 c1)\<lparr>Message_Block := ?b2 @ ?L\<rparr>"
      unfolding z2 using b1
      by (subst put_length_eq [of _ ?b2 "drop 56 b1"]) (simp_all add: c1)
    then have pm: "SHA1PadMessage c = SHA1ProcessMessageBlock ((zero_fill 56 c1)\<lparr>Message_Block := ?b2 @ ?L\<rparr>)"
      using False blk z1 by (simp add: SHA1PadMessage_def c1_def)
    show ?thesis
      unfolding pm z2 SHA1ProcessMessageBlock_spec by (simp add: dig blocks spec_sha1_def c1)
  qed
  then show "Message_Digest (SHA1PadMessage c) = spec_sha1 msg"
    and "Message_Block_Index (SHA1PadMessage c) = 0" by auto
qed

subsection \<open>The whole hash\<close>

lemma SHA1Result_fresh:
  "absorbed c msg \<Longrightarrow> SHA1Result c = (True, (SHA1PadMessage c)\<lparr>Computed := True\<rparr>)"
  by (simp add: SHA1Result_def absorbed_def)

lemma sha1_hash_digest:
  assumes "length (Message_Block sha) = 64" and "8 * length source < 2 ^ 64"
  shows "fst (sha1_hash sha source) = 0"
    and "Message_Digest (snd (sha1_hash sha source)) = spec_sha1 source"
proof -
  have "absorbed (SHA1Input (SHA1Reset sha) source) ([] @ source)"
    by (rule absorbed_input [OF absorbed_reset]) (use assms in auto)
  then have inv: "absorbed (SHA1Input (SHA1Reset sha) source) source" by simp
  then show "fst (sha1_hash sha source) = 0"
    and "Message_Digest (snd (sha1_hash sha source)) = spec_sha1 source"
    by (simp_all add: sha1_hash_def SHA1Result_fresh Let_def absorbed_pad(1))
qed

end
