(* ===== verification/Sha1_Props.thy ===== *)
theory Sha1_Props
  imports Sha1_Correct
begin

text \<open>
  What \<open>hash.c\<close> promises to its callers: the digest, the independence of how the message is cut
  into pieces, and what the two 64-bit hashes depend on.
\<close>

subsection \<open>Feeding a message in pieces\<close>

locale incremental =
  fixes feed :: "'c \<Rightarrow> 'b list \<Rightarrow> 'c"
  assumes feed_Nil: "feed c [] = c"
    and feed_append: "feed (feed c xs) ys = feed c (xs @ ys)"
begin

lemma feed_concat: "foldl feed c xss = feed c (concat xss)"
  by (induction xss arbitrary: c) (simp_all add: feed_Nil feed_append)

lemma feed_single: "feed c xs = foldl (\<lambda>c x. feed c [x]) c xs"
  using feed_concat [of c "map (\<lambda>x. [x]) xs"] by (simp add: foldl_map)

end

lemma SHA1ProcessMessageBlock_flags:
  "Computed (SHA1ProcessMessageBlock c) = Computed c" "Corrupted (SHA1ProcessMessageBlock c) = Corrupted c"
  by (simp_all add: SHA1ProcessMessageBlock_def Let_def split_beta)

lemma SHA1Input_byte_computed: "Computed (SHA1Input_byte c b) = Computed c"
  by (simp add: SHA1Input_byte_def put_block_byte_def Let_def SHA1ProcessMessageBlock_flags)

lemma SHA1Input_loop_computed: "Computed (SHA1Input_loop c xs) = Computed c"
  by (induction c xs rule: SHA1Input_loop.induct) (simp_all add: SHA1Input_byte_computed)

lemma SHA1Input_loop_corrupted: "Corrupted c \<Longrightarrow> SHA1Input_loop c xs = c"
  by (cases xs) simp_all

lemma SHA1Input_loop_append: "SHA1Input_loop c (xs @ ys) = SHA1Input_loop (SHA1Input_loop c xs) ys"
  by (induction c xs rule: SHA1Input_loop.induct) (simp_all add: SHA1Input_loop_corrupted)

lemma set_corrupted: "Corrupted c \<Longrightarrow> c\<lparr>Corrupted := True\<rparr> = c"
  by simp

lemma SHA1Input_append: "SHA1Input (SHA1Input c xs) ys = SHA1Input c (xs @ ys)"
proof (cases "Computed c \<or> Corrupted c")
  case True
  then show ?thesis by (auto simp: SHA1Input_def)
next
  case False
  then show ?thesis
    by (auto simp: SHA1Input_def SHA1Input_loop_append SHA1Input_loop_computed SHA1Input_loop_corrupted set_corrupted)
qed

interpretation sha1: incremental SHA1Input
  by unfold_locales (simp_all add: SHA1Input_append, simp add: SHA1Input_def)

lemma convert_spec:
  assumes "length (Message_Block sha) = 64" "8 * length s < 2 ^ 64"
  shows "convert_hash_to_number (snd (sha1_hash sha s)) =
    push_bit 32 (ucast (spec_sha1 s ! 0)) + ucast (spec_sha1 s ! 1)"
  by (simp add: convert_hash_to_number_def sha1_hash_digest [OF assms])

text \<open>C8: \<open>sha1_hash\<close> computes SHA-1.  For every message whose bit length fits the two length
  words (every message an \<open>int\<close> length can describe), whatever the shared context held before,
  the call returns 0 and leaves in \<open>Message_Digest\<close> the digest FIPS 180-4 defines.\<close>

theorem sha1_hash_correct:
  assumes "length (Message_Block sha) = 64" and "8 * length source < 2 ^ 64"
  shows "fst (sha1_hash sha source) = 0 \<and> Message_Digest (snd (sha1_hash sha source)) = spec_sha1 source"
  using sha1_hash_digest [OF assms] by simp

theorem sha1_hash_correct_witness:
  "fst (sha1_hash sha_initial [0x61, 0x62, 0x63]) = 0 \<and>
   Message_Digest (snd (sha1_hash sha_initial [0x61, 0x62, 0x63])) = spec_sha1 [0x61, 0x62, 0x63]"
  by (rule sha1_hash_correct) (simp_all add: sha_initial_def)

text \<open>The hash does not depend on how the message is fed.  Feeding any list of pieces one after
  the other leaves the context, its error flags included, that feeding their concatenation
  leaves, from every context.\<close>

theorem sha1_input_pieces:
  "foldl SHA1Input c xss = SHA1Input c (concat xss)"
  by (rule sha1.feed_concat)

text \<open>C40: the authenticator id of a file depends on its first \<open>MAX_FILE_LENGTH\<close> bytes only: it is the
  first 64 bits of their SHA-1, so two database files that differ only after 300000 bytes have
  the same id; a file that cannot be opened has the id 1.\<close>

theorem hash_file_prefix:
  assumes "length (Message_Block sha) = 64"
  shows "fst (hash_file sha None) = 1 \<and> fst (hash_file sha (Some contents)) =
    push_bit 32 (ucast (spec_sha1 (take 300000 contents) ! 0)) + ucast (spec_sha1 (take 300000 contents) ! 1)"
  using convert_spec [OF assms, of "take 300000 contents"]
  by (simp add: hash_file_def MAX_FILE_LENGTH_def)

theorem hash_file_prefix_witness:
  "fst (hash_file sha_initial (Some [1, 2])) = push_bit 32 (ucast (spec_sha1 [1, 2] ! 0)) + ucast (spec_sha1 [1, 2] ! 1)"
  using hash_file_prefix [of sha_initial "[1, 2]"] by (simp add: sha_initial_def)

text \<open>C39: \<open>hash_string\<close> sees a binary token only up to its first zero byte.  When the region holds
  one, the hash is the first 64 bits of the SHA-1 of the bytes before it, whatever follows; when
  it holds none, \<open>strlen\<close> runs out of it.\<close>

theorem hash_string_cut:
  assumes "length (Message_Block sha) = 64" and "8 * n < 2 ^ 64"
  shows "(\<forall>i < n. str i \<noteq> 0) \<and> hash_string sha str n = None \<or>
    (\<exists>k < n. str k = 0 \<and> (\<forall>i < k. str i \<noteq> 0) \<and>
       (let s = map str [0 ..< k] in map_option fst (hash_string sha str n) =
          Some (push_bit 32 (ucast (spec_sha1 s ! 0)) + ucast (spec_sha1 s ! 1))))"
proof (cases "c_string str 0 n")
  case None
  have "c_string str off m = None \<Longrightarrow> \<forall>i < m. str (off + i) \<noteq> 0" for off m
  proof (induction m arbitrary: off)
    case (Suc m)
    then have "str off \<noteq> 0" "\<forall>i < m. str (Suc off + i) \<noteq> 0"
      using Suc.IH [of "Suc off"] by (auto split: if_splits)
    then show ?case by (auto simp: less_Suc_eq_0_disj)
  qed simp
  from this [OF None] show ?thesis by (simp add: hash_string_def None)
next
  case (Some s)
  have s: "length s < n" "s = map str [0 ..< length s]" "str (length s) = 0"
    using c_string_SomeD [OF Some] by simp_all
  have "\<forall>i < length s. str i \<noteq> 0"
    using c_string_nonzero [OF Some] s(2) by (metis nth_map_upt nth_mem add_0 diff_zero)
  moreover have "map_option fst (hash_string sha str n) =
      Some (push_bit 32 (ucast (spec_sha1 s ! 0)) + ucast (spec_sha1 s ! 1))"
    using convert_spec [OF assms(1), of s] s(1) assms(2) by (simp add: hash_string_def Some)
  ultimately show ?thesis
    using s by (intro disjI2 exI [of _ "length s"]) (simp add: Let_def)
qed

theorem hash_string_cut_witness:
  "let str = (\<lambda>i. if i = 1 then 0 else 5) in
   (\<exists>k < 112. str k = 0 \<and> (let s = map str [0 ..< k] in
      map_option fst (hash_string sha_initial str 112) =
        Some (push_bit 32 (ucast (spec_sha1 s ! 0)) + ucast (spec_sha1 s ! 1))))"
proof -
  let ?str = "\<lambda>i. if i = 1 then 0 else 5 :: u8"
  have not_all: "\<not> (\<forall>i < (112 :: nat). ?str i \<noteq> 0)" by (auto intro: exI [of _ 1])
  have "(\<forall>i < (112 :: nat). ?str i \<noteq> 0) \<and> hash_string sha_initial ?str 112 = None \<or>
    (\<exists>k < 112. ?str k = 0 \<and> (\<forall>i < k. ?str i \<noteq> 0) \<and>
       (let s = map ?str [0 ..< k] in map_option fst (hash_string sha_initial ?str 112) =
          Some (push_bit 32 (ucast (spec_sha1 s ! 0)) + ucast (spec_sha1 s ! 1))))"
    by (rule hash_string_cut) (simp_all add: sha_initial_def)
  with not_all show ?thesis unfolding Let_def by blast
qed

end
