(* ===== verification/Pn547_Rows_A.thy ===== *)
theory Pn547_Rows_A
  imports Prelude_C
begin

text \<open>
  The bytes of \<open>gphDnldNfc_DlSequence\<close> (\<open>nfc/pn547/src/libpn547_fw.c\<close>), source rows 1 to 1500 of
  the initialiser: one inner list per source line, 150 lines per definition.
\<close>

definition fw_rows_00 :: "u8 list list" where
  "fw_rows_00 = [
    [0x00, 0xe4, 0xc0, 0x00, 0x1f, 0x01, 0x32, 0x14, 0x71, 0x71, 0x3f, 0x38],
    [0x26, 0x4a, 0x14, 0xb0, 0xd8, 0x17, 0x8a, 0x87, 0xbe, 0xbe, 0xda, 0x99],
    [0x97, 0xfa, 0xb9, 0xe3, 0xfa, 0x25, 0xd9, 0x84, 0xbe, 0x0e, 0x1b, 0xde],
    [0x18, 0x61, 0xde, 0x11, 0xa4, 0x6c, 0x13, 0x38, 0x90, 0x8a, 0x39, 0x83],
    [0xc8, 0xed, 0x25, 0x30, 0x14, 0x54, 0xfe, 0x30, 0x50, 0x57, 0x67, 0x6a],
    [0xe8, 0x65, 0xb0, 0x0f, 0x61, 0x66, 0x6d, 0xfa, 0xd2, 0xe7, 0x54, 0x5b],
    [0x87, 0x70, 0x97, 0x29, 0x94, 0x5a, 0x42, 0x75, 0xae, 0xba, 0x6a, 0x94],
    [0xe1, 0x49, 0x77, 0xb5, 0x05, 0xa0, 0x56, 0x28, 0x48, 0xd1, 0x1c, 0x04],
    [0xec, 0x85, 0x90, 0xcd, 0xa4, 0xbf, 0x5d, 0x4a, 0xa1, 0x83, 0x57, 0x0d],
    [0xc1, 0x2c, 0x05, 0xc7, 0x0c, 0xfa, 0xbb, 0x53, 0x97, 0x9b, 0x00, 0x47],
    [0x90, 0x77, 0x62, 0x2d, 0x16, 0xb4, 0x2c, 0x0c, 0x75, 0x03, 0xd9, 0x3b],
    [0x58, 0xb2, 0xf9, 0x19, 0xa1, 0x3a, 0xbb, 0x35, 0x0f, 0x74, 0x58, 0x39],
    [0x9f, 0xfb, 0x2b, 0x7b, 0xb9, 0xc6, 0x8c, 0x71, 0x72, 0x9a, 0x94, 0xbf],
    [0x6d, 0x71, 0x45, 0x3b, 0xc5, 0x2a, 0x3d, 0xf2, 0xef, 0xc5, 0x7d, 0x14],
    [0xe4, 0x3d, 0x34, 0xe6, 0xd9, 0x7b, 0xa5, 0x6f, 0xbc, 0x8b, 0x9f, 0xc3],
    [0x6e, 0xc1, 0x15, 0x86, 0xb0, 0x20, 0xed, 0x17, 0xeb, 0x6c, 0x87, 0x5e],
    [0xf9, 0xaa, 0x80, 0x25, 0x31, 0x89, 0x2e, 0x62, 0x05, 0x73, 0x21, 0xc1],
    [0xe2, 0x29, 0x20, 0x31, 0x15, 0x0c, 0xde, 0x9a, 0x17, 0x1e, 0x97, 0x73],
    [0x2a, 0x39, 0x20, 0xc7, 0x56, 0xd6, 0x63, 0x71, 0x97, 0x9a, 0xc7, 0x63],
    [0xb2, 0x0f, 0x02, 0x26, 0xc0, 0x00, 0x13, 0x20, 0x00, 0x02, 0xef, 0x19],
    [0xee, 0x19, 0xee, 0x19, 0xee, 0x19, 0x10, 0x1a, 0x27, 0x1a, 0x5c, 0x1a],
    [0xc3, 0x1a, 0xf2, 0x1a, 0xee, 0x19, 0xd2, 0x1e, 0x01, 0x1f, 0x72, 0x1e],
    [0xee, 0x19, 0xee, 0x19, 0xee, 0x19, 0x77, 0x1e, 0xee, 0x19, 0xee, 0x19],
    [0xee, 0x19, 0xee, 0x19, 0xee, 0x19, 0xfd, 0x1a, 0x0e, 0x1b, 0x13, 0x1b],
    [0xee, 0x19, 0x24, 0x1b, 0xee, 0x19, 0x2f, 0x1b, 0xee, 0x19, 0x24, 0x1f],
    [0x2f, 0x1f, 0x40, 0x1b, 0xee, 0x19, 0x5b, 0x1b, 0xee, 0x19, 0xee, 0x19],
    [0xee, 0x19, 0xee, 0x19, 0xee, 0x19, 0xee, 0x19, 0xee, 0x19, 0xee, 0x19],
    [0xee, 0x19, 0xee, 0x19, 0xee, 0x19, 0xa1, 0x1e, 0xee, 0x19, 0xc2, 0x1d],
    [0xee, 0x19, 0x74, 0x1b, 0xa3, 0x1b, 0xb0, 0x1b, 0xdd, 0x1b, 0x34, 0x1f],
    [0xee, 0x19, 0xf2, 0x1b, 0xee, 0x19, 0x15, 0x1c, 0xee, 0x19, 0x32, 0x1c],
    [0xee, 0x19, 0x55, 0x1c, 0xee, 0x19, 0x72, 0x1c, 0xee, 0x19, 0x9b, 0x1c],
    [0xee, 0x19, 0xcf, 0x1c, 0xee, 0x19, 0xb8, 0x1c, 0xee, 0x19, 0xfb, 0x1c],
    [0xee, 0x19, 0xe4, 0x1c, 0xee, 0x19, 0x27, 0x1d, 0xee, 0x19, 0x10, 0x1d],
    [0xee, 0x19, 0x53, 0x1d, 0xee, 0x19, 0x3c, 0x1d, 0xee, 0x19, 0x8a, 0x1d],
    [0xee, 0x19, 0x68, 0x1d, 0xee, 0x19, 0xee, 0x19, 0xee, 0x19, 0x9f, 0x1d],
    [0xee, 0x19, 0x79, 0x1d, 0xee, 0x19, 0xee, 0x19, 0xee, 0x19, 0xee, 0x19],
    [0xee, 0x19, 0xee, 0x19, 0xee, 0x19, 0xee, 0x19, 0xee, 0x19, 0xee, 0x19],
    [0xee, 0x19, 0xee, 0x19, 0xee, 0x19, 0x86, 0x1e, 0xee, 0x19, 0xc9, 0x1d],
    [0xee, 0x19, 0xee, 0x19, 0xee, 0x19, 0xe0, 0x1d, 0xee, 0x19, 0xee, 0x19],
    [0xee, 0x19, 0xf1, 0x1d, 0xee, 0x19, 0xee, 0x19, 0xee, 0x19, 0x02, 0x1e],
    [0x1d, 0x1e, 0xee, 0x19, 0xee, 0x19, 0x22, 0x1e, 0x35, 0x1e, 0xee, 0x19],
    [0xee, 0x19, 0x3c, 0x1e, 0xee, 0x19, 0xee, 0x19, 0xee, 0x19, 0x49, 0x1e],
    [0xee, 0x19, 0xee, 0x19, 0xee, 0x19, 0x56, 0x1e, 0x6d, 0x1e, 0xee, 0x19],
    [0xee, 0x19, 0xa8, 0x1e, 0xee, 0x19, 0xee, 0x19, 0xee, 0x19, 0xee, 0x19],
    [0xee, 0x19, 0xbd, 0x1e, 0xee, 0x19, 0xee, 0x19, 0xee, 0x19, 0xee, 0x19],
    [0xee, 0x19, 0xb4, 0x1d, 0xee, 0x19, 0xbb, 0x1d, 0xee, 0x19, 0xee, 0x19],
    [0xee, 0x19, 0x06, 0x08, 0x00, 0x04, 0x00, 0x00, 0x02, 0x17, 0x03, 0x0a],
    [0x22, 0x02, 0x00, 0x10, 0x00, 0x18, 0x0f, 0x20, 0x11, 0x02, 0x02, 0x05],
    [0x05, 0x01, 0x2a, 0x06, 0x08, 0x40, 0x04, 0x00, 0x00, 0x02, 0x16, 0x03],
    [0x0a, 0x22, 0x02, 0x00, 0x10, 0x03, 0x18, 0x0f, 0x20, 0x11, 0x02, 0x02],
    [0x05, 0x05, 0x00, 0x2a, 0x02, 0x02, 0x02, 0x02, 0x00, 0x03, 0x01, 0x02],
    [0x01, 0x01, 0x02, 0x00, 0x02, 0x01, 0x02, 0x02, 0x02, 0x02, 0x01, 0x03],
    [0x71, 0x00, 0x50, 0x08, 0x00, 0x00, 0x10, 0x01, 0x02, 0x00, 0x00, 0x00],
    [0x00, 0x23, 0x23, 0x00, 0x4e, 0x00, 0x28, 0x00, 0x60, 0x07, 0x36, 0x00],
    [0x37, 0x00, 0x0a, 0x10, 0x39, 0x00, 0x50, 0x01, 0x80, 0x00, 0x10, 0x00],
    [0x00, 0x01, 0x80, 0x00, 0x70, 0x00, 0x2f, 0x03, 0x48, 0x00, 0x00, 0x00],
    [0x00, 0x00, 0x00, 0x00, 0x00, 0x00, 0x00, 0x00, 0x00, 0x00, 0x0f, 0x00],
    [0x00, 0x00, 0x0f, 0x00, 0x00, 0x00, 0x00, 0x06, 0x1b, 0x23, 0x00, 0x00],
    [0x00, 0x00, 0x00, 0x00, 0x00, 0x00, 0x1b, 0x21, 0x00, 0x00, 0x00, 0x00],
    [0x00, 0x00, 0x00, 0x00, 0x00, 0x00, 0x92, 0x21, 0xcf, 0x02, 0x4a, 0x03],
    [0x00, 0x00, 0x2f, 0x03, 0x82, 0x00, 0xf0, 0x03, 0x00, 0x00, 0x49, 0x07],
    [0x00, 0x00, 0x36, 0x42, 0x00, 0x00, 0x92, 0x21, 0xcf, 0x02, 0x2f, 0x03],
    [0x00, 0x00, 0x2f, 0x03, 0x82, 0x00, 0xca, 0xc7, 0xef, 0x25, 0xde, 0x74],
    [0x9a, 0x33, 0x5c, 0xfb, 0x63, 0xf7, 0xaf, 0xa0, 0x4a, 0x97, 0x80, 0xf5],
    [0x10, 0xd1, 0xbb, 0x3f, 0x89, 0x01, 0xb9, 0x71, 0x8f, 0x0e, 0x8d, 0x32],
    [0x0b, 0x61, 0x02, 0x26, 0xc0, 0x00, 0x15, 0x20, 0x00, 0x02, 0x00, 0x02],
    [0x00, 0x00, 0x00, 0x00, 0x00, 0x00, 0x83, 0x4c, 0x00, 0x00, 0x92, 0x21],
    [0x01, 0x04, 0xdd, 0x13, 0xdd, 0x13, 0x50, 0x03, 0x7e, 0x00, 0xf8, 0x04],
    [0x00, 0x00, 0x1b, 0x21, 0x00, 0x00, 0x1b, 0x21, 0x00, 0x00, 0xe2, 0x84],
    [0x00, 0x00, 0x6c, 0x05, 0x00, 0x00, 0x6c, 0x05, 0x64, 0x00, 0x50, 0x00],
    [0x00, 0x00, 0x00, 0x00, 0x00, 0x00, 0x38, 0x2c, 0x05, 0x00, 0xb8, 0x07],
    [0x00, 0x00, 0x1d, 0x02, 0x1d, 0x02, 0x1d, 0x02, 0x00, 0x00, 0x80, 0x04],
    [0x00, 0x00, 0xa1, 0x05, 0x00, 0x00, 0x6c, 0x84, 0x00, 0x00, 0x00, 0x00],
    [0x00, 0x00, 0x10, 0x01, 0xc4, 0x21, 0x50, 0x03, 0x90, 0x00, 0xd0, 0x24],
    [0x00, 0x00, 0x00, 0x23, 0x00, 0x00, 0x00, 0x10, 0x00, 0x00, 0xc4, 0x21],
    [0x6e, 0x03, 0x2f, 0x03, 0xfd, 0x25, 0x2f, 0x03, 0x80, 0x00, 0x00, 0x08],
    [0x20, 0x00, 0x00, 0x08, 0x20, 0x00, 0x00, 0x10, 0x00, 0x00, 0xab, 0x01],
    [0x50, 0x03, 0xf4, 0x01, 0x04, 0x32, 0x26, 0x03, 0x1b, 0x21, 0xa2, 0x23],
    [0x12, 0x87, 0xa2, 0x06, 0x4d, 0x65, 0x9f, 0x06, 0x94, 0x85, 0x40, 0x1f],
    [0x01, 0x02, 0x01, 0x01, 0x01, 0x02, 0x02, 0x0f, 0x03, 0x01, 0x00, 0x80],
    [0x01, 0x00, 0x64, 0x00, 0x07, 0x23, 0x2f, 0x23, 0x00, 0x00, 0x00, 0x00],
    [0x10, 0x2b, 0x25, 0x10, 0x10, 0x10, 0x1c, 0x00, 0x01, 0x00, 0x00, 0x00],
    [0x00, 0x01, 0x01, 0x02, 0x3f, 0xc8, 0x00, 0xdc, 0x05, 0x28, 0x00, 0x28],
    [0x00, 0x28, 0x00, 0x00, 0x00, 0x00, 0x00, 0x00, 0x00, 0x00, 0x00, 0x00],
    [0x00, 0x00, 0x00, 0x00, 0x00, 0x00, 0x00, 0x00, 0x00, 0x00, 0x00, 0x00],
    [0x00, 0x00, 0x00, 0x00, 0x00, 0x00, 0x00, 0x00, 0x00, 0x00, 0x00, 0x00],
    [0x00, 0x00, 0x00, 0x00, 0x00, 0x00, 0x00, 0x00, 0x00, 0x00, 0x00, 0x00],
    [0x00, 0x00, 0x00, 0x00, 0x00, 0x00, 0x00, 0x00, 0x00, 0x00, 0x00, 0x00],
    [0x00, 0x00, 0x00, 0x00, 0x00, 0x00, 0x00, 0x01, 0x00, 0x00, 0x00, 0x00],
    [0x00, 0x00, 0x00, 0x00, 0x00, 0x00, 0x00, 0x00, 0x00, 0x00, 0x00, 0x00],
    [0x00, 0x00, 0x00, 0x00, 0x00, 0x00, 0x00, 0x00, 0x00, 0x00, 0x00, 0x00],
    [0x00, 0x00, 0x00, 0x00, 0x00, 0x00, 0x00, 0x00, 0x00, 0x00, 0x00, 0x00],
    [0x00, 0x00, 0x00, 0x00, 0x00, 0x00, 0x00, 0x00, 0x00, 0x00, 0x00, 0x00],
    [0x00, 0x00, 0x00, 0x00, 0x00, 0x00, 0x00, 0x00, 0x00, 0x00, 0x00, 0x00],
    [0x00, 0x00, 0x00, 0x01, 0x4e, 0x58, 0x50, 0x47, 0x01, 0x01, 0x00, 0x00],
    [0x01, 0xff, 0xff, 0xff, 0xff, 0xff, 0xff, 0xff, 0xff, 0x10, 0xff, 0x00],
    [0x00, 0x00, 0x00, 0x04, 0x05, 0x11, 0x13, 0x21, 0x23, 0x24, 0xff, 0x07],
    [0x00, 0xff, 0x00, 0x00, 0x00, 0x00, 0x00, 0x00, 0x00, 0x00, 0x00, 0x00],
    [0x00, 0x00, 0x00, 0x00, 0x00, 0x00, 0x00, 0x00, 0x00, 0x00, 0x00, 0x00],
    [0x00, 0x00, 0x00, 0x00, 0x00, 0x00, 0x00, 0x00, 0xee, 0x00, 0x01, 0x03],
    [0x03, 0x00, 0x00, 0xff, 0x00, 0x00, 0x00, 0x00, 0x00, 0x00, 0x00, 0x00],
    [0xe4, 0x00, 0x00, 0x00, 0x00, 0x00, 0x00, 0x00, 0x00, 0x00, 0x00, 0x00],
    [0x00, 0x00, 0x00, 0x00, 0x00, 0x03, 0x03, 0x00, 0x00, 0xff, 0x03, 0x01],
    [0x00, 0x00, 0x00, 0x00, 0x00, 0x00, 0x00, 0x00, 0x00, 0x00, 0x00, 0x00],
    [0x00, 0x00, 0x00, 0x00, 0x00, 0x00, 0x00, 0x00, 0x00, 0x00, 0x00, 0x00],
    [0x01, 0x01, 0x00, 0x00, 0x01, 0xff, 0xff, 0xff, 0xff, 0xff, 0xff, 0xff],
    [0xff, 0x10, 0xff, 0x00, 0x00, 0x00, 0x00, 0x04, 0x05, 0x11, 0x13, 0x21],
    [0x23, 0x24, 0xf0, 0x08, 0x00, 0xff, 0x00, 0x00, 0x00, 0x00, 0x00, 0x00],
    [0x00, 0x00, 0x00, 0x00, 0x00, 0x00, 0xac, 0xc7, 0x64, 0x3a, 0x65, 0x22],
    [0x2c, 0x5a, 0x66, 0x6b, 0x1d, 0x7d, 0xb6, 0x11, 0x69, 0x09, 0xd4, 0xe0],
    [0x65, 0xe3, 0xbb, 0x4f, 0x34, 0xbf, 0xa9, 0x14, 0xd1, 0x10, 0x0e, 0x2e],
    [0x1d, 0x67, 0x02, 0x26, 0xc0, 0x00, 0x17, 0x20, 0x00, 0x02, 0x00, 0x00],
    [0x00, 0x00, 0x00, 0x00, 0x00, 0x00, 0x00, 0x00, 0x00, 0x00, 0x00, 0x00],
    [0x00, 0x00, 0x00, 0x00, 0xee, 0x00, 0x01, 0x03, 0x03, 0x00, 0x00, 0xff],
    [0x00, 0x00, 0x00, 0x00, 0x00, 0x00, 0x00, 0x00, 0xe4, 0x00, 0x00, 0x00],
    [0x00, 0x00, 0x00, 0x00, 0x00, 0x00, 0x00, 0x00, 0x00, 0x00, 0x00, 0x00],
    [0x00, 0x03, 0x03, 0x00, 0x00, 0xff, 0x03, 0x01, 0x00, 0x00, 0x00, 0x00],
    [0x00, 0x00, 0x00, 0x00, 0x00, 0x00, 0x00, 0x00, 0x00, 0x00, 0x00, 0x00],
    [0x00, 0x00, 0x00, 0x00, 0x00, 0x00, 0x00, 0x00, 0x00, 0x01, 0x00, 0x00],
    [0x01, 0xff, 0xff, 0xff, 0xff, 0xff, 0xff, 0xff, 0xff, 0x10, 0x02, 0x00],
    [0x00, 0x00, 0x00, 0x00, 0x00, 0x00, 0xc0, 0x0f, 0x01, 0x01, 0xe8, 0x03],
    [0x00, 0x01, 0x00, 0x50, 0x04, 0x19, 0x00, 0x00, 0x00, 0xff, 0xff, 0x2c],
    [0x01, 0x01, 0x00, 0x00, 0x00, 0x00, 0x00, 0x00, 0x01, 0x08, 0x08, 0x01],
    [0x01, 0x01, 0x01, 0x01, 0x01, 0x01, 0x01, 0x01, 0x01, 0x01, 0x01, 0x01],
    [0x01, 0x01, 0x01, 0x01, 0x00, 0x00, 0x00, 0x00, 0x00, 0x00, 0x00, 0x00],
    [0x00, 0x00, 0x00, 0xe8, 0x03, 0x03, 0x01, 0x00, 0x01, 0x00, 0x01, 0x00],
    [0x00, 0x00, 0x00, 0x00, 0x00, 0x00, 0x00, 0x00, 0x00, 0x00, 0x00, 0x00],
    [0x00, 0x00, 0x00, 0x00, 0x00, 0x00, 0x00, 0x00, 0x00, 0x00, 0x00, 0x00],
    [0x00, 0x00, 0x00, 0x00, 0x00, 0x00, 0x00, 0x00, 0x00, 0x00, 0x00, 0x00],
    [0x00, 0x00, 0x00, 0x00, 0x00, 0x00, 0x00, 0x00, 0x00, 0x00, 0x00, 0x00],
    [0x00, 0x00, 0x00, 0x00, 0x00, 0x00, 0x00, 0x00, 0x00, 0x00, 0x00, 0x00],
    [0x00, 0x30, 0x01, 0x00, 0x00, 0x04, 0x00, 0x00, 0x00, 0x00, 0x00, 0x00],
    [0x00, 0x00, 0x00, 0x00, 0x81, 0x00, 0x00, 0x00, 0x00, 0x00, 0x00, 0x00],
    [0x00, 0x00, 0x05, 0x02, 0x00, 0x06, 0x04, 0x00, 0x00, 0x00, 0x00, 0x00],
    [0x00, 0x00, 0x00, 0x00, 0x00, 0x00, 0x00, 0x00, 0x00, 0x00, 0x00, 0x00],
    [0x00, 0x00, 0x00, 0x00, 0x00, 0x00, 0x00, 0x00, 0x00, 0x00, 0x00, 0x00],
    [0x00, 0x00, 0x00, 0x00, 0x08, 0x00, 0x00, 0x00, 0x00, 0x00, 0x00, 0x00],
    [0x00, 0x00, 0x00, 0x00, 0x00, 0x00, 0x00, 0x00, 0x00, 0x00, 0x00, 0x00],
    [0x00, 0x00, 0x00, 0x00, 0x00, 0x00, 0x00, 0x00, 0x00, 0x00, 0x00, 0x00],
    [0x00, 0x00, 0x00, 0x00, 0x00, 0x00, 0x00, 0x00, 0x00, 0x00, 0x00, 0x00],
    [0x00, 0x00, 0x00, 0x00, 0x00, 0x30, 0x00, 0x01, 0x0f, 0x00, 0x00, 0x00],
    [0x00, 0x00, 0x00, 0x00, 0x00, 0x00, 0x00, 0x00, 0x00, 0x00, 0x00, 0x00],
    [0x00, 0x00, 0x00, 0x00, 0x00, 0x00, 0x00, 0x00, 0x00, 0x00, 0x00, 0x00],
    [0x00, 0x00, 0x00, 0x00, 0xa0, 0xa1, 0xa2, 0xa3, 0xa4, 0xa5, 0xd3, 0xf7],
    [0xd3, 0xf7, 0xd3, 0xf7, 0xff, 0xff, 0xff, 0xff, 0xff, 0xff, 0xff, 0xff],
    [0xff, 0xff, 0xff, 0xff, 0xff, 0xff, 0xff, 0xff, 0xff, 0xff, 0xff, 0xff],
    [0xff, 0xff, 0xff, 0xff, 0xff, 0xff, 0xff, 0xff, 0xff, 0xff, 0xff, 0xff],
    [0xff, 0xff, 0xff, 0xff, 0xff, 0xff, 0xff, 0xff, 0xff, 0xff, 0xff, 0xff],
    [0xff, 0xff, 0xff, 0xff, 0xff, 0xff, 0xff, 0xff, 0xff, 0xff, 0xff, 0xff],
    [0xff, 0xff, 0xff, 0xff, 0xff, 0xff, 0xff, 0xff, 0xff, 0xff, 0xff, 0xff]]"

definition fw_rows_01 :: "u8 list list" where
  "fw_rows_01 = [
    [0xff, 0xff, 0xff, 0xff, 0xff, 0xff, 0xff, 0xff, 0xff, 0xff, 0xff, 0xff],
    [0xff, 0xff, 0xff, 0xff, 0x10, 0x03, 0x0e, 0x03, 0x00, 0x06, 0x00, 0x01],
    [0x02, 0x03, 0x81, 0x82, 0x02, 0xc8, 0x00, 0xff, 0x02, 0x00, 0x04, 0x00],
    [0x00, 0x00, 0x00, 0x88, 0x13, 0x00, 0x00, 0x00, 0x00, 0x00, 0x00, 0x00],
    [0x00, 0x00, 0x00, 0x00, 0x01, 0x00, 0xc2, 0x41, 0xeb, 0x1a, 0x70, 0x98],
    [0xa9, 0xa7, 0x8d, 0x16, 0xde, 0xf1, 0x41, 0x89, 0x58, 0x04, 0x10, 0x8d],
    [0x88, 0x78, 0x39, 0x7f, 0x0c, 0x0d, 0x78, 0xa5, 0x61, 0x66, 0x41, 0x41],
    [0x6a, 0xcc, 0x02, 0x26, 0xc0, 0x00, 0x19, 0x20, 0x00, 0x02, 0x00, 0x00],
    [0x00, 0x07, 0x00, 0x00, 0x01, 0x20, 0x4e, 0x00, 0x00, 0x00, 0x00, 0x00],
    [0x00, 0x00, 0x00, 0x00, 0x00, 0x00, 0x00, 0x00, 0x00, 0x00, 0x00, 0x00],
    [0x00, 0x00, 0x00, 0x00, 0x00, 0x00, 0x00, 0x00, 0x00, 0x00, 0x00, 0x00],
    [0x00, 0x00, 0x00, 0x00, 0x00, 0x00, 0x00, 0x00, 0x00, 0x00, 0x00, 0x00],
    [0x00, 0x00, 0x00, 0x00, 0x00, 0x00, 0x00, 0x00, 0x00, 0x00, 0x00, 0x00],
    [0x00, 0x00, 0x00, 0x00, 0x00, 0x00, 0x00, 0x00, 0x00, 0x00, 0x00, 0x00],
    [0x00, 0x00, 0x00, 0x00, 0x00, 0x00, 0x00, 0x00, 0x00, 0x00, 0x00, 0x00],
    [0x00, 0x00, 0x00, 0x00, 0x00, 0x00, 0x00, 0x00, 0x00, 0x00, 0x00, 0x00],
    [0x00, 0x00, 0x00, 0x00, 0x00, 0x00, 0x00, 0x00, 0x00, 0x00, 0x00, 0x00],
    [0x00, 0x00, 0x00, 0x00, 0x00, 0x00, 0x00, 0x00, 0x00, 0x00, 0x00, 0x00],
    [0x00, 0x00, 0x00, 0x00, 0x00, 0x00, 0x00, 0x00, 0x00, 0x00, 0x00, 0x00],
    [0x00, 0x00, 0x00, 0x00, 0x00, 0x00, 0x00, 0x00, 0x00, 0x00, 0x00, 0x00],
    [0x00, 0x00, 0x00, 0x00, 0x00, 0x00, 0x00, 0x00, 0x00, 0x00, 0x00, 0x00],
    [0x00, 0x00, 0x00, 0x00, 0x00, 0x00, 0x00, 0x00, 0x00, 0x00, 0x00, 0x00],
    [0x00, 0x00, 0x00, 0x00, 0x00, 0x00, 0x00, 0x00, 0x00, 0x00, 0x00, 0x00],
    [0x00, 0x00, 0x00, 0x00, 0x00, 0x00, 0x00, 0x00, 0x00, 0x00, 0x00, 0x00],
    [0x00, 0x00, 0x00, 0x00, 0x00, 0x00, 0x00, 0x00, 0x00, 0x00, 0x00, 0x00],
    [0x00, 0x00, 0x00, 0x00, 0x00, 0x00, 0x00, 0x00, 0x00, 0xc5, 0x01, 0x00],
    [0x00, 0x00, 0x00, 0x00, 0x00, 0x00, 0x00, 0x00, 0x00, 0x00, 0x00, 0x00],
    [0x00, 0x00, 0x00, 0x00, 0x00, 0x00, 0x00, 0x00, 0x00, 0x06, 0xe0, 0x19],
    [0x10, 0x00, 0x00, 0x00, 0xe0, 0x1a, 0x09, 0x00, 0x00, 0x00, 0x80, 0x7f],
    [0x4b, 0x00, 0x50, 0x00, 0x81, 0x47, 0xff, 0x02, 0x80, 0x35, 0x00, 0x00],
    [0x00, 0x00, 0x81, 0x40, 0x1f, 0x03, 0x05, 0x80, 0x45, 0x40, 0x82, 0x00],
    [0x00, 0x81, 0x2e, 0x04, 0x04, 0x81, 0x43, 0xff, 0xa0, 0xe1, 0x1a, 0xff],
    [0x00, 0xe1, 0x04, 0x0f, 0x05, 0x09, 0x80, 0x44, 0x20, 0xd8, 0x03, 0x00],
    [0x80, 0x45, 0x80, 0x40, 0x00, 0x00, 0x80, 0x17, 0x02, 0x00, 0x00, 0x00],
    [0x80, 0x03, 0x00, 0x00, 0x00, 0x00, 0x80, 0x4a, 0x00, 0x00, 0x00, 0x00],
    [0x80, 0x2d, 0x00, 0x00, 0x0c, 0x00, 0x80, 0x0f, 0x00, 0x00, 0x00, 0x00],
    [0x81, 0x43, 0xff, 0x2c, 0x80, 0x2c, 0x00, 0x00, 0x00, 0x00, 0x12, 0x80],
    [0x44, 0xa3, 0x90, 0x03, 0x00, 0x80, 0x34, 0xf7, 0x7f, 0x10, 0x08, 0x80],
    [0x33, 0x03, 0x40, 0x04, 0x00, 0x80, 0x30, 0xbf, 0x00, 0x20, 0x00, 0x80],
    [0x2f, 0x8f, 0x05, 0x80, 0x11, 0x82, 0x03, 0x00, 0xff, 0x00, 0x70, 0x82],
    [0x2b, 0xcc, 0x01, 0x88, 0x01, 0x80, 0x45, 0x80, 0x40, 0x00, 0x00, 0x80],
    [0x2e, 0x20, 0x0f, 0x00, 0x00, 0x81, 0x48, 0xff, 0x10, 0x81, 0x43, 0xff],
    [0x2c, 0x80, 0x42, 0x01, 0x00, 0xf1, 0xff, 0x80, 0x41, 0x01, 0x00, 0x00],
    [0x00, 0x81, 0x37, 0xfc, 0x00, 0x81, 0x16, 0xff, 0x00, 0x81, 0x15, 0xff],
    [0x00, 0xe0, 0x1a, 0x0b, 0x00, 0x00, 0x00, 0xe3, 0x04, 0x0f, 0x00, 0x1e],
    [0x00, 0x05, 0x00, 0x06, 0x00, 0x09, 0x80, 0x30, 0x00, 0x00, 0x00, 0x00],
    [0x80, 0x2f, 0x00, 0x00, 0x00, 0x01, 0x81, 0x12, 0xff, 0x00, 0x81, 0x0d],
    [0xff, 0x04, 0x81, 0x14, 0xff, 0x04, 0x82, 0x2b, 0x8c, 0x01, 0x00, 0x00],
    [0x80, 0x44, 0x20, 0xd8, 0x03, 0x00, 0x81, 0x48, 0xff, 0x00, 0x80, 0x4a],
    [0x00, 0x00, 0x00, 0x00, 0x01, 0x83, 0x44, 0x00, 0xc0, 0x01, 0x00, 0x00],
    [0x00, 0x00, 0x00, 0x03, 0x80, 0x41, 0x4c, 0xc1, 0x50, 0xfc, 0xaf, 0xc0],
    [0xe8, 0x59, 0x3b, 0xf3, 0x7b, 0x72, 0x5d, 0x75, 0xc2, 0xec, 0xbc, 0x0a],
    [0x79, 0x57, 0xec, 0xba, 0x9f, 0xa9, 0x50, 0xa9, 0xf2, 0xcf, 0x87, 0x23],
    [0x36, 0x92, 0x02, 0x26, 0xc0, 0x00, 0x1b, 0x20, 0x00, 0x02, 0x8e, 0x00],
    [0x00, 0x00, 0x81, 0x10, 0xff, 0x03, 0x80, 0x0f, 0x4b, 0x01, 0x04, 0x00],
    [0x01, 0x81, 0x13, 0xff, 0x00, 0x03, 0x81, 0x17, 0xff, 0x54, 0x80, 0x34],
    [0x00, 0x00, 0xe1, 0x03, 0x80, 0x33, 0x03, 0x01, 0x01, 0x00, 0x02, 0x80],
    [0x41, 0x8e, 0x00, 0x00, 0x00, 0x91, 0x0d, 0xff, 0x00, 0x03, 0x81, 0x17],
    [0xff, 0x38, 0x80, 0x34, 0x00, 0x00, 0xe1, 0x03, 0x80, 0x33, 0x03, 0x01],
    [0x01, 0x00, 0x05, 0x80, 0x4a, 0x00, 0x00, 0x00, 0x00, 0x80, 0x42, 0x88],
    [0x10, 0xff, 0xff, 0x80, 0x41, 0x82, 0x00, 0x00, 0x00, 0x81, 0x16, 0xff],
    [0x00, 0x81, 0x15, 0xff, 0x00, 0x04, 0x80, 0x44, 0x29, 0x00, 0x02, 0x00],
    [0x80, 0x34, 0x00, 0x00, 0xec, 0x03, 0x80, 0x33, 0x03, 0x01, 0x00, 0x50],
    [0x80, 0x2d, 0x50, 0x44, 0x0c, 0x00, 0x09, 0x80, 0x0f, 0x00, 0x00, 0x00],
    [0x00, 0x82, 0x03, 0xff, 0xff, 0x40, 0x3d, 0x80, 0x42, 0xf8, 0x10, 0xff],
    [0xff, 0x80, 0x41, 0x82, 0x07, 0x00, 0x00, 0x81, 0x16, 0xff, 0x19, 0x81],
    [0x15, 0xff, 0x01, 0x91, 0x0d, 0xff, 0x26, 0x91, 0x14, 0xff, 0x26, 0x80],
    [0x4a, 0x53, 0x07, 0x01, 0x1b, 0x02, 0x82, 0x03, 0xff, 0xff, 0x00, 0x00],
    [0x80, 0x41, 0x82, 0x00, 0x00, 0x00, 0x07, 0x80, 0x17, 0x03, 0x00, 0x40],
    [0x00, 0x80, 0x2c, 0x08, 0x00, 0x01, 0x00, 0x80, 0x2d, 0xdc, 0x50, 0x0c],
    [0x00, 0x80, 0x34, 0x00, 0x00, 0xe4, 0x03, 0x80, 0x33, 0x03, 0x01, 0x00],
    [0x50, 0x83, 0x44, 0xff, 0x3f, 0xfe, 0xff, 0x21, 0x00, 0x02, 0x00, 0x81],
    [0x2b, 0x07, 0x04, 0x03, 0x81, 0x2b, 0x07, 0x00, 0x83, 0x44, 0xff, 0x3f],
    [0xfe, 0xff, 0x21, 0x00, 0x02, 0x00, 0x80, 0x17, 0x23, 0x00, 0x00, 0x00],
    [0x07, 0x80, 0x4a, 0x56, 0x07, 0x01, 0x1b, 0x80, 0x0f, 0x00, 0x00, 0x0d],
    [0x00, 0x80, 0x42, 0x68, 0x10, 0xff, 0xff, 0x91, 0x0d, 0xff, 0x11, 0x91],
    [0x14, 0xff, 0x11, 0x81, 0x16, 0xff, 0x00, 0x81, 0x15, 0xff, 0x00, 0x05],
    [0x81, 0x2b, 0x07, 0x05, 0x80, 0x2c, 0x09, 0x00, 0x00, 0x00, 0x80, 0x2d],
    [0x15, 0x57, 0x1f, 0x00, 0x80, 0x34, 0x00, 0x00, 0xe1, 0x03, 0x80, 0x33],
    [0x03, 0x01, 0x01, 0x00, 0x07, 0x80, 0x4a, 0x56, 0x07, 0x01, 0x1b, 0x80],
    [0x0f, 0x00, 0x00, 0x15, 0x00, 0x80, 0x42, 0x68, 0x10, 0xff, 0xff, 0x91],
    [0x0d, 0xff, 0x07, 0x91, 0x14, 0xff, 0x07, 0x81, 0x16, 0xff, 0x00, 0x81],
    [0x15, 0xff, 0x00, 0x05, 0x81, 0x2b, 0x07, 0x06, 0x80, 0x2c, 0x09, 0x00],
    [0x00, 0x00, 0x80, 0x2d, 0x15, 0x88, 0x15, 0x00, 0x80, 0x34, 0x00, 0x00],
    [0xe1, 0x03, 0x80, 0x33, 0x03, 0x01, 0x01, 0x00, 0x08, 0x80, 0x0f, 0x00],
    [0x00, 0x35, 0x00, 0x80, 0x41, 0x8e, 0x00, 0x00, 0x00, 0x80, 0x42, 0xf0],
    [0x10, 0xff, 0xff, 0x91, 0x0d, 0xff, 0x03, 0x91, 0x14, 0xff, 0x03, 0x80],
    [0x4a, 0x15, 0x07, 0x00, 0x00, 0x81, 0x16, 0xff, 0x00, 0x81, 0x15, 0xff],
    [0x00, 0x05, 0x81, 0x2b, 0x07, 0x07, 0x80, 0x2c, 0x09, 0x00, 0x00, 0x00],
    [0x80, 0x2d, 0xdd, 0x33, 0x0f, 0x00, 0x80, 0x34, 0x00, 0x00, 0xe1, 0x03],
    [0x80, 0x33, 0x03, 0x01, 0x01, 0x00, 0x03, 0x83, 0x44, 0xff, 0x3f, 0xfe],
    [0xff, 0x21, 0x00, 0x02, 0x00, 0x80, 0x2d, 0x05, 0x48, 0x0c, 0x00, 0x80],
    [0x2c, 0x49, 0x02, 0x00, 0x00, 0x04, 0x80, 0x4a, 0x43, 0x07, 0x01, 0x07],
    [0x80, 0x42, 0x90, 0x10, 0xff, 0xff, 0x81, 0x16, 0xff, 0x00, 0x81, 0x15],
    [0xff, 0x00, 0x03, 0x83, 0x44, 0xff, 0x3f, 0xfe, 0xff, 0x21, 0x00, 0x02],
    [0x00, 0x80, 0x2d, 0x05, 0x48, 0x0c, 0x00, 0x80, 0x2c, 0x49, 0x02, 0x00],
    [0x00, 0x04, 0x80, 0x4a, 0x43, 0x07, 0xe2, 0x72, 0xee, 0x86, 0x35, 0xe5],
    [0xcd, 0xee, 0x2d, 0xc9, 0xc3, 0xd7, 0xd9, 0x4f, 0xa2, 0xc5, 0x86, 0x18],
    [0xa0, 0x05, 0x14, 0x53, 0x91, 0x7f, 0x6d, 0xdc, 0x53, 0xae, 0x22, 0x7c],
    [0xd8, 0x97, 0x02, 0x26, 0xc0, 0x00, 0x1d, 0x20, 0x00, 0x02, 0x01, 0x07],
    [0x80, 0x42, 0x88, 0x10, 0xff, 0xff, 0x81, 0x16, 0xff, 0x00, 0x81, 0x15],
    [0xff, 0x00, 0x03, 0x83, 0x44, 0xff, 0x3f, 0xfe, 0xff, 0x21, 0x00, 0x02],
    [0x00, 0x80, 0x2d, 0x05, 0x48, 0x0c, 0x00, 0x80, 0x2c, 0x49, 0x02, 0x00],
    [0x00, 0x04, 0x80, 0x4a, 0x43, 0x07, 0x01, 0x07, 0x80, 0x42, 0x88, 0x10],
    [0xff, 0xff, 0x81, 0x16, 0xff, 0x00, 0x81, 0x15, 0xff, 0x00, 0x03, 0x83],
    [0x44, 0xff, 0x3f, 0xfe, 0xff, 0x21, 0x00, 0x02, 0x00, 0x80, 0x2d, 0x05],
    [0x48, 0x0c, 0x00, 0x80, 0x2c, 0x49, 0x02, 0x00, 0x00, 0x04, 0x80, 0x42],
    [0x90, 0x10, 0xff, 0xff, 0x80, 0x4a, 0x32, 0x07, 0x01, 0x07, 0x81, 0x16],
    [0xff, 0x00, 0x81, 0x15, 0xff, 0x00, 0x02, 0x80, 0x2d, 0x05, 0xcc, 0x0c],
    [0x00, 0x83, 0x44, 0xff, 0x3f, 0xfe, 0xff, 0x21, 0x00, 0x02, 0x00, 0x02],
    [0x80, 0x2d, 0x05, 0xcc, 0x0c, 0x00, 0x83, 0x44, 0xff, 0x3f, 0xfe, 0xff],
    [0x21, 0x00, 0x02, 0x00, 0x04, 0x80, 0x42, 0x90, 0x10, 0xff, 0xff, 0x80],
    [0x4a, 0x43, 0x07, 0x01, 0x07, 0x81, 0x16, 0xff, 0x00, 0x81, 0x15, 0xff],
    [0x00, 0x04, 0x80, 0x42, 0x98, 0x10, 0xff, 0xff, 0x80, 0x4a, 0x63, 0x07],
    [0x01, 0x07, 0x81, 0x16, 0xff, 0x00, 0x81, 0x15, 0xff, 0x00, 0x01, 0x80],
    [0x2f, 0xaf, 0x05, 0x80, 0x17, 0x01, 0x80, 0x42, 0x01, 0x00, 0xf1, 0xf1],
    [0x01, 0x80, 0x44, 0xa3, 0x90, 0x03, 0x00, 0x04, 0x81, 0x2b, 0x40, 0x00],
    [0x80, 0x44, 0xa1, 0x90, 0x03, 0x00, 0x80, 0x30, 0xbf, 0x00, 0x20, 0x00],
    [0x80, 0x2f, 0x8f, 0x05, 0x80, 0x11, 0x03, 0x81, 0x2b, 0x40, 0x40, 0x80],
    [0x2f, 0x8f, 0x05, 0x80, 0x0d, 0x80, 0x30, 0x8f, 0x00, 0x04, 0x00, 0x03],
    [0x81, 0x2b, 0x40, 0x40, 0x80, 0x2f, 0x6f, 0x05, 0x80, 0x0d, 0x80, 0x30],
    [0x8f, 0x00, 0x04, 0x00, 0x05, 0x81, 0x2b, 0x40, 0x40, 0x80, 0x2f, 0x1f],
    [0x06, 0x80, 0x01, 0x80, 0x30, 0x9f, 0x00, 0x10, 0x00, 0x80, 0x44, 0xa0],
    [0x90, 0x03, 0x00, 0x81, 0x47, 0xff, 0x00, 0x01, 0x81, 0x47, 0xff, 0x02],
    [0x03, 0x80, 0x2f, 0xaf, 0x05, 0x80, 0x17, 0x80, 0x30, 0xbf, 0x00, 0x20],
    [0x00, 0x80, 0x44, 0xa3, 0x90, 0x03, 0x00, 0x01, 0x80, 0x30, 0x8f, 0x00],
    [0x04, 0x00, 0x02, 0x80, 0x2f, 0xaf, 0x05, 0x80, 0x0d, 0x80, 0x44, 0xa1],
    [0x90, 0x03, 0x00, 0x02, 0x80, 0x2f, 0xaf, 0x05, 0x80, 0x0d, 0x80, 0x44],
    [0xa1, 0x90, 0x03, 0x00, 0x04, 0x80, 0x2f, 0x7f, 0x04, 0x80, 0x0d, 0x80],
    [0x30, 0x8f, 0x00, 0x16, 0x00, 0x81, 0x47, 0xff, 0x00, 0x80, 0x44, 0xa3],
    [0x90, 0x03, 0x00, 0x01, 0x81, 0x47, 0xff, 0x02, 0x01, 0x81, 0x48, 0xff],
    [0x10, 0x03, 0x81, 0x43, 0xff, 0xa0, 0x81, 0x37, 0xfc, 0x00, 0x82, 0x2b],
    [0xcc, 0x01, 0x8c, 0x00, 0x05, 0x80, 0x42, 0xf8, 0x10, 0xff, 0xff, 0x80],
    [0x41, 0x82, 0x07, 0x00, 0x00, 0x81, 0x16, 0xff, 0x19, 0x81, 0x15, 0xff],
    [0x01, 0x80, 0x4a, 0x53, 0x07, 0x01, 0x1b, 0x01, 0x80, 0x41, 0x8e, 0x00],
    [0x00, 0x00, 0x04, 0x80, 0x42, 0x90, 0x10, 0xff, 0xff, 0x80, 0x4a, 0x43],
    [0x07, 0x01, 0x07, 0x81, 0x16, 0xff, 0x00, 0x81, 0x15, 0xff, 0x00, 0x04],
    [0x80, 0x42, 0x98, 0x10, 0xff, 0xff, 0x80, 0x4a, 0x63, 0x07, 0x01, 0x07],
    [0x81, 0x16, 0xff, 0x00, 0x81, 0x15, 0xff, 0x00, 0x08, 0x80, 0x30, 0xbf],
    [0x00, 0x20, 0x00, 0x80, 0x2f, 0x8f, 0x05, 0x80, 0x11, 0x82, 0x2b, 0xcc],
    [0x01, 0x8c, 0x00, 0x81, 0x48, 0xff, 0x10, 0x80, 0x44, 0xa3, 0x90, 0x03],
    [0x00, 0x80, 0x45, 0x80, 0x40, 0x00, 0x00, 0x80, 0x34, 0xf7, 0x7f, 0x10],
    [0x08, 0x80, 0x33, 0x03, 0x40, 0x04, 0xe7, 0x75, 0x45, 0x98, 0x92, 0x7b],
    [0x7a, 0x4d, 0xc6, 0xfb, 0x92, 0x17, 0x7f, 0xcc, 0x2b, 0xda, 0x8e, 0xa6],
    [0xe3, 0x24, 0x0c, 0x8f, 0xa1, 0x07, 0x71, 0x73, 0xaa, 0x5c, 0x59, 0x27],
    [0x75, 0x74, 0x00, 0xa6, 0xc0, 0x00, 0x1f, 0x20, 0x80, 0x00, 0x00, 0x06],
    [0x80, 0x2f, 0x00, 0x00, 0x00, 0x01, 0x80, 0x30, 0x00, 0x00, 0x00, 0x00],
    [0x80, 0x45, 0x40, 0x82, 0x00, 0x00, 0x82, 0x2e, 0x06, 0x02, 0x04, 0x00],
    [0x82, 0x2b, 0xcc, 0x01, 0x00, 0x00, 0x81, 0x48, 0xff, 0x00, 0x02, 0x81],
    [0x17, 0xff, 0x3a, 0x80, 0x2e, 0x26, 0x02, 0x00, 0x00, 0x01, 0x81, 0x17]]"

definition fw_rows_02 :: "u8 list list" where
  "fw_rows_02 = [
    [0x3f, 0x01, 0x01, 0x80, 0x2e, 0x25, 0x09, 0x00, 0x00, 0x00, 0x00, 0x00],
    [0x00, 0x00, 0x02, 0x00, 0x00, 0x82, 0x2b, 0xcc, 0x01, 0x00, 0x00, 0x81],
    [0x48, 0xff, 0x00, 0x80, 0x46, 0x00, 0x02, 0x01, 0x00, 0x02, 0x80, 0x17],
    [0x3a, 0x00, 0x00, 0x00, 0x80, 0x2e, 0x26, 0x02, 0x00, 0x00, 0x02, 0x81],
    [0x17, 0x3f, 0x01, 0x80, 0x2c, 0x00, 0x00, 0x00, 0x00, 0x01, 0x80, 0x2e],
    [0x25, 0x09, 0x00, 0x00, 0x00, 0x00, 0x09, 0x00, 0x00, 0x01, 0x80, 0x2c],
    [0x00, 0x00, 0x15, 0x98, 0x4f, 0xf5, 0x44, 0xf9, 0x1f, 0x36, 0x68, 0xcf],
    [0x58, 0xcf, 0x9c, 0x57, 0xc3, 0xd9, 0x32, 0x4c, 0xc7, 0x72, 0xa6, 0x5f],
    [0xe7, 0x6d, 0x52, 0xb9, 0x3d, 0x0d, 0x0f, 0xc9, 0xcb, 0xbf, 0xaf, 0x06],
    [0x51, 0x4a, 0x02, 0x26, 0xc0, 0x00, 0x90, 0x20, 0x00, 0x02, 0x3c, 0x00],
    [0x00, 0x00, 0xed, 0xbd, 0x20, 0x00, 0x75, 0xbf, 0x20, 0x00, 0x83, 0xa0],
    [0x20, 0x00, 0xa1, 0xa0, 0x20, 0x00, 0x2d, 0xd6, 0x20, 0x00, 0x63, 0xcc],
    [0x20, 0x00, 0x03, 0xcc, 0x20, 0x00, 0xf9, 0xd0, 0x20, 0x00, 0x91, 0xba],
    [0x20, 0x00, 0xc3, 0xd6, 0x20, 0x00, 0x51, 0xd7, 0x20, 0x00, 0x3d, 0xd6],
    [0x20, 0x00, 0xd3, 0xf7, 0x20, 0x00, 0xc5, 0x9f, 0xe8, 0x4f, 0xe4, 0x02],
    [0x00, 0x00, 0xee, 0x85, 0x00, 0x00, 0x9d, 0x9c, 0x20, 0x00, 0x78, 0x86],
    [0x00, 0x00, 0xc6, 0x88, 0x00, 0x00, 0x51, 0x93, 0x20, 0x00, 0xc8, 0x88],
    [0x00, 0x00, 0x6c, 0x3d, 0x00, 0x00, 0x9d, 0x9c, 0x20, 0x00, 0x78, 0x3d],
    [0x00, 0x00, 0x55, 0x83, 0x00, 0x00, 0x47, 0x96, 0x20, 0x00, 0x00, 0x00],
    [0x00, 0x00, 0xbd, 0x2c, 0x00, 0x00, 0xe7, 0x96, 0x20, 0x00, 0x00, 0x00],
    [0x00, 0x00, 0x8b, 0x87, 0x00, 0x00, 0x15, 0x97, 0x20, 0x00, 0x00, 0x00],
    [0x00, 0x00, 0x1e, 0x82, 0x00, 0x00, 0xa5, 0x93, 0x20, 0x00, 0x20, 0x82],
    [0x00, 0x00, 0x65, 0x7c, 0x00, 0x00, 0x67, 0x97, 0x20, 0x00, 0x00, 0x00],
    [0x00, 0x00, 0x77, 0x81, 0x00, 0x00, 0xd9, 0x97, 0x20, 0x00, 0x00, 0x00],
    [0x00, 0x00, 0x7f, 0x26, 0x00, 0x00, 0x1d, 0x98, 0x20, 0x00, 0x00, 0x00],
    [0x00, 0x00, 0x81, 0x23, 0x01, 0x00, 0xed, 0x98, 0x20, 0x00, 0x00, 0x00],
    [0x00, 0x00, 0x78, 0xbb, 0x00, 0x00, 0x9d, 0x9c, 0x20, 0x00, 0x84, 0xbb],
    [0x00, 0x00, 0x40, 0xba, 0x00, 0x00, 0x3d, 0x95, 0x20, 0x00, 0x42, 0xba],
    [0x00, 0x00, 0x3e, 0xbb, 0x00, 0x00, 0x41, 0x95, 0x20, 0x00, 0x40, 0xbb],
    [0x00, 0x00, 0xcc, 0xd9, 0x00, 0x00, 0x45, 0x94, 0x20, 0x00, 0xce, 0xd9],
    [0x00, 0x00, 0x04, 0xc4, 0x00, 0x00, 0x1d, 0x95, 0x20, 0x00, 0x06, 0xc4],
    [0x00, 0x00, 0xfd, 0xb5, 0x00, 0x00, 0x15, 0x9a, 0x20, 0x00, 0x00, 0x00],
    [0x00, 0x00, 0x18, 0xc5, 0x00, 0x00, 0x9d, 0x9c, 0x20, 0x00, 0x1c, 0xc5],
    [0x00, 0x00, 0x22, 0xc5, 0x00, 0x00, 0x09, 0x95, 0x20, 0x00, 0x24, 0xc5],
    [0x00, 0x00, 0x38, 0xb2, 0x00, 0x00, 0x9d, 0x9c, 0x20, 0x00, 0x40, 0xb2],
    [0x00, 0x00, 0x9a, 0x4a, 0x01, 0x00, 0x25, 0x93, 0x20, 0x00, 0xc4, 0x4a],
    [0x01, 0x00, 0x9a, 0x05, 0x00, 0x00, 0xa9, 0x98, 0x20, 0x00, 0xb0, 0x05],
    [0x00, 0x00, 0x5e, 0x35, 0x00, 0x00, 0x0d, 0x94, 0x20, 0x00, 0x7c, 0x35],
    [0x00, 0x00, 0x50, 0xc4, 0x00, 0x00, 0x11, 0x95, 0x20, 0x00, 0x52, 0xc4],
    [0x00, 0x00, 0x26, 0xc0, 0x00, 0x00, 0x4d, 0x95, 0x20, 0x00, 0x28, 0xc0],
    [0x00, 0x00, 0x94, 0xb1, 0x00, 0x00, 0x75, 0x95, 0x20, 0x00, 0x98, 0xb1],
    [0x00, 0x00, 0x9c, 0xc1, 0x00, 0x00, 0xa1, 0x95, 0x20, 0x00, 0x9e, 0xc1],
    [0x00, 0x00, 0x62, 0xbd, 0x00, 0x00, 0xab, 0x95, 0x20, 0x00, 0x64, 0xbd],
    [0x00, 0x00, 0x88, 0xbd, 0x00, 0x00, 0xc5, 0x95, 0x20, 0x00, 0x90, 0xbd],
    [0x00, 0x00, 0x56, 0xbe, 0x00, 0x00, 0xcb, 0x95, 0x20, 0x00, 0x58, 0xbe],
    [0x00, 0x00, 0xff, 0xff, 0xff, 0xff, 0xff, 0xff, 0xff, 0xff, 0xff, 0xff],
    [0xff, 0xff, 0x84, 0x3e, 0x01, 0x00, 0x9d, 0x9c, 0x20, 0x00, 0xa2, 0x3e],
    [0x01, 0x00, 0x5c, 0x33, 0x01, 0x00, 0xb9, 0x94, 0x20, 0x00, 0x5e, 0x33],
    [0x01, 0x00, 0x18, 0x3d, 0x01, 0x00, 0xf5, 0x99, 0x20, 0x00, 0x00, 0x00],
    [0x00, 0x00, 0x74, 0x84, 0x00, 0x00, 0x9d, 0x9c, 0x20, 0x00, 0x78, 0x84],
    [0x00, 0x00, 0x2a, 0x8a, 0x00, 0x00, 0x5d, 0x93, 0x20, 0x00, 0x32, 0x8a],
    [0x00, 0x00, 0x62, 0xdd, 0x00, 0x00, 0xc1, 0x93, 0x20, 0x00, 0x64, 0xdd],
    [0x00, 0x00, 0xf4, 0x15, 0x01, 0x00, 0xda, 0xb3, 0xf9, 0x80, 0x44, 0x43],
    [0x80, 0xfb, 0xd1, 0x3e, 0x97, 0x9f, 0x4a, 0xb0, 0x2c, 0x58, 0x46, 0x13],
    [0x60, 0x78, 0xd3, 0x9f, 0x65, 0x5e, 0xf6, 0xcb, 0xa5, 0xad, 0x0f, 0xe7],
    [0xda, 0x83, 0x02, 0x26, 0xc0, 0x00, 0x92, 0x20, 0x00, 0x02, 0x59, 0x94],
    [0x20, 0x00, 0xfa, 0x15, 0x01, 0x00, 0x66, 0x18, 0x01, 0x00, 0x6d, 0x94],
    [0x20, 0x00, 0x7e, 0x18, 0x01, 0x00, 0x7a, 0x18, 0x01, 0x00, 0x89, 0x94],
    [0x20, 0x00, 0x7c, 0x18, 0x01, 0x00, 0xda, 0xdd, 0x00, 0x00, 0x9d, 0x9c],
    [0x20, 0x00, 0xe2, 0xdd, 0x00, 0x00, 0x6c, 0x16, 0x01, 0x00, 0x9d, 0x9c],
    [0x20, 0x00, 0x8a, 0x16, 0x01, 0x00, 0x4c, 0x18, 0x01, 0x00, 0x9b, 0x94],
    [0x20, 0x00, 0x52, 0x18, 0x01, 0x00, 0xf6, 0x12, 0x01, 0x00, 0xb3, 0x94],
    [0x20, 0x00, 0x2e, 0x13, 0x01, 0x00, 0xff, 0xff, 0xff, 0xff, 0xff, 0xff],
    [0xff, 0xff, 0xff, 0xff, 0xff, 0xff, 0xfe, 0x2d, 0x00, 0x00, 0xe5, 0x95],
    [0x20, 0x00, 0x38, 0x2e, 0x00, 0x00, 0x74, 0x2d, 0x00, 0x00, 0x67, 0x93],
    [0x20, 0x00, 0x8c, 0x2d, 0x00, 0x00, 0x20, 0xd2, 0x00, 0x00, 0x3d, 0x94],
    [0x20, 0x00, 0x2e, 0xd2, 0x00, 0x00, 0x94, 0x88, 0x00, 0x00, 0xed, 0x93],
    [0x20, 0x00, 0x6a, 0x88, 0x00, 0x00, 0x82, 0x2b, 0x01, 0x00, 0x9d, 0x9c],
    [0x20, 0x00, 0x98, 0x2b, 0x01, 0x00, 0xd9, 0x17, 0x00, 0x00, 0x57, 0x98],
    [0x20, 0x00, 0x00, 0x00, 0x00, 0x00, 0xff, 0xff, 0xff, 0xff, 0xff, 0xff],
    [0xff, 0xff, 0xff, 0xff, 0xff, 0xff, 0x9c, 0x43, 0x01, 0x00, 0xbd, 0x94],
    [0x20, 0x00, 0x9e, 0x43, 0x01, 0x00, 0xdc, 0x43, 0x01, 0x00, 0x9d, 0x9c],
    [0x20, 0x00, 0xe0, 0x43, 0x01, 0x00, 0x6e, 0x72, 0x01, 0x00, 0xc1, 0x94],
    [0x20, 0x00, 0x72, 0x72, 0x01, 0x00, 0x7e, 0x72, 0x01, 0x00, 0xc9, 0x94],
    [0x20, 0x00, 0x80, 0x72, 0x01, 0x00, 0xff, 0xff, 0xff, 0xff, 0xff, 0xff],
    [0xff, 0xff, 0xff, 0xff, 0xff, 0xff, 0x3a, 0x41, 0x01, 0x00, 0xfd, 0x94],
    [0x20, 0x00, 0x3e, 0x41, 0x01, 0x00, 0x26, 0x41, 0x01, 0x00, 0xe5, 0x94],
    [0x20, 0x00, 0x3e, 0x41, 0x01, 0x00, 0x9e, 0x71, 0x01, 0x00, 0x9d, 0x9c],
    [0x20, 0x00, 0xcc, 0x71, 0x01, 0x00, 0x38, 0x57, 0x01, 0x00, 0x2d, 0x94],
    [0x20, 0x00, 0x3c, 0x57, 0x01, 0x00, 0xef, 0xc2, 0x7c, 0x61, 0xa4, 0x6c],
    [0x00, 0x00, 0xff, 0xb5, 0x07, 0x49, 0x08, 0x78, 0x00, 0x28, 0x04, 0xd0],
    [0x7c, 0x28, 0x02, 0xd0, 0xf8, 0x28, 0x03, 0xd0, 0xff, 0xbd, 0x03, 0x48],
    [0x0a, 0x90, 0xff, 0xbd, 0x03, 0x48, 0x0a, 0x90, 0xff, 0xbd, 0x26, 0x0c],
    [0x10, 0x00, 0xa2, 0x4a, 0x01, 0x00, 0xc6, 0x4a, 0x01, 0x00, 0x01, 0xb5],
    [0xf9, 0xf5, 0xd3, 0xf8, 0x01, 0xbc, 0x12, 0x28, 0x00, 0xbd, 0x00, 0xb5],
    [0x20, 0x46, 0xfe, 0xf5, 0x59, 0xff, 0x00, 0xbd, 0x0b, 0x4b, 0x99, 0x68],
    [0xff, 0x22, 0x92, 0x02, 0x02, 0xb4, 0x91, 0x43, 0x99, 0x60, 0x02, 0xbc],
    [0x08, 0x4b, 0x8a, 0x05, 0x92, 0x0d, 0x1a, 0x60, 0x00, 0x28, 0x07, 0xd0],
    [0x76, 0x1c, 0x05, 0x4b, 0x1e, 0x60, 0x86, 0x42, 0x02, 0xd3, 0x2a, 0x20],
    [0x04, 0x49, 0x01, 0x91, 0x70, 0x47, 0x00, 0x40, 0x02, 0x40, 0x70, 0x1b],
    [0x10, 0x00, 0x74, 0x1b, 0x10, 0x00, 0x1a, 0x2e, 0x00, 0x00, 0x03, 0x49],
    [0x09, 0x78, 0x03, 0x29, 0x01, 0xd0, 0x02, 0x49, 0x01, 0x91, 0x02, 0x49],
    [0x70, 0x47, 0xfe, 0x0a, 0x10, 0x00, 0x28, 0x82, 0x00, 0x00, 0x00, 0x41],
    [0x00, 0x40, 0x20, 0xb5, 0xfe, 0xf5, 0x79, 0xff, 0x40, 0x08, 0x09, 0xd1],
    [0x06, 0x49, 0x01, 0x20, 0x08, 0x70, 0x05, 0x4c, 0x60, 0x8b, 0x20, 0x83],
    [0x01, 0x46, 0x01, 0x20, 0xf7, 0xf5, 0xa9, 0xff, 0x28, 0x46, 0x20, 0xbd],
    [0x00, 0x00, 0x05, 0x0c, 0x10, 0x00, 0x50, 0x0b, 0x10, 0x00, 0x01, 0xb5],
    [0x08, 0x20, 0xfe, 0xf5, 0xb0, 0xff, 0x01, 0xbc, 0x02, 0x46, 0x10, 0x21],
    [0x88, 0x43, 0x02, 0xd0, 0x02, 0x49, 0x41, 0x07, 0x5e, 0xf7, 0x1d, 0x76],
    [0x57, 0x5f, 0x6c, 0x24, 0xb2, 0x37, 0xe1, 0xc7, 0x3e, 0xa5, 0x29, 0x12],
    [0x29, 0x5f, 0x48, 0x5b, 0xb2, 0x44, 0xcf, 0x9b, 0xd3, 0x8f, 0x87, 0xec],
    [0x80, 0x4c, 0x02, 0x26, 0xc0, 0x00, 0x94, 0x20, 0x00, 0x02, 0x02, 0x91],
    [0x10, 0x46, 0x00, 0xbd, 0x00, 0x00, 0x9e, 0x88, 0x00, 0x00, 0x00, 0xb5],
    [0x02, 0x28, 0x02, 0xd2, 0x04, 0x48, 0xfd, 0xf5, 0x91, 0xf8, 0x21, 0x7b],
    [0x01, 0x20, 0x88, 0x40, 0x02, 0x49, 0x08, 0x60, 0x00, 0xbd, 0x78, 0x05],
    [0x00, 0x00, 0xe8, 0xff, 0x01, 0x40, 0x02, 0x4d, 0x6d, 0x68, 0xed, 0x04],
    [0xed, 0x0f, 0x70, 0x47, 0x00, 0x00, 0x00, 0x40, 0x02, 0x40, 0x00, 0xb5],
    [0x00, 0xf0, 0x45, 0xfa, 0x00, 0xbd, 0x01, 0x20, 0x0a, 0x2c, 0x02, 0xd0],
    [0x02, 0x20, 0x01, 0x49, 0x01, 0x91, 0x68, 0x70, 0x70, 0x47, 0xda, 0xd9],
    [0x00, 0x00, 0x71, 0x68, 0xc9, 0x79, 0x09, 0x09, 0x00, 0x29, 0x01, 0xd0],
    [0x01, 0x49, 0x01, 0x91, 0x70, 0x47, 0x68, 0x16, 0x01, 0x00, 0x32, 0x24],
    [0x14, 0x40, 0x32, 0x2c, 0x04, 0xd1, 0x8c, 0x7a, 0x5d, 0x68, 0x2d, 0x5d],
    [0xae, 0x09, 0x01, 0xd0, 0x01, 0x49, 0x01, 0x91, 0x70, 0x47, 0xac, 0x18],
    [0x01, 0x00, 0x02, 0x68, 0x60, 0x32, 0x52, 0x88, 0x01, 0x23, 0xd2, 0x06],
    [0x00, 0xd5, 0x07, 0x23, 0x18, 0x00, 0x70, 0x47, 0x58, 0x89, 0x89, 0x7a],
    [0x88, 0x42, 0x05, 0xd1, 0xd0, 0x06, 0x01, 0xd5, 0x05, 0x20, 0x02, 0xe0],
    [0x04, 0x20, 0x00, 0xe0, 0x01, 0x20, 0x70, 0x47, 0x00, 0x20, 0x70, 0x47],
    [0x00, 0x00, 0x20, 0x68, 0x70, 0x47, 0x46, 0x1e, 0x70, 0x47, 0x82, 0x46],
    [0x8b, 0x46, 0x94, 0x46, 0x70, 0x47, 0x08, 0xb5, 0x90, 0x47, 0x88, 0xbc],
    [0xbe, 0x46, 0x00, 0x2b, 0x01, 0xd0, 0x02, 0x4f, 0x01, 0x97, 0x50, 0x46],
    [0x59, 0x46, 0x62, 0x46, 0x70, 0x47, 0x98, 0x72, 0x01, 0x00, 0x00, 0xb5],
    [0x0f, 0xb4, 0x01, 0x20, 0x00, 0xf0, 0xfb, 0xfb, 0x0f, 0xbc, 0x22, 0x46],
    [0x3b, 0x21, 0x03, 0x20, 0xff, 0xf5, 0x62, 0xfc, 0x00, 0xbd, 0x00, 0xb5],
    [0x03, 0xf6, 0xee, 0xfc, 0x00, 0xf0, 0x1e, 0xfe, 0x00, 0xbd, 0x09, 0x20],
    [0x30, 0x70, 0x00, 0x29, 0x70, 0x47, 0x0f, 0xb5, 0x00, 0xf0, 0xcb, 0xfa],
    [0x0f, 0xbc, 0x01, 0x21, 0x00, 0xbd, 0x03, 0xb5, 0x05, 0x48, 0x40, 0x7b],
    [0x00, 0x28, 0x02, 0xd1, 0x04, 0x48, 0xfd, 0xf5, 0x07, 0xf8, 0x03, 0xbc],
    [0x51, 0x72, 0x00, 0xbd, 0x00, 0x00, 0x54, 0x09, 0x10, 0x00, 0x6d, 0x01],
    [0x00, 0x00, 0x01, 0x21, 0x70, 0x47, 0x0f, 0xb5, 0x00, 0xf0, 0x92, 0xfa],
    [0x01, 0xbc, 0x00, 0x07, 0x0e, 0xbd, 0x06, 0x28, 0x0b, 0xd1, 0x07, 0xb4],
    [0x06, 0x49, 0x08, 0x68, 0x42, 0x03, 0xd2, 0x0f, 0x01, 0x2a, 0x03, 0xd1],
    [0x04, 0x48, 0x04, 0x90, 0x07, 0xbc, 0x70, 0x47, 0x07, 0xbc, 0x27, 0x46],
    [0x70, 0x47, 0x30, 0x40, 0x01, 0x40, 0x0a, 0xc1, 0x00, 0x00, 0x0f, 0xb5],
    [0x07, 0x48, 0xc0, 0x7a, 0x00, 0x28, 0x06, 0xd1, 0x06, 0x48, 0x80, 0x88],
    [0x00, 0x28, 0x02, 0xd0, 0x03, 0xf6, 0x47, 0xfa, 0x0f, 0xbd, 0x03, 0x48],
    [0x06, 0x90, 0x0f, 0xbd, 0x00, 0x00, 0xb5, 0x10, 0x10, 0x00, 0x40, 0x11],
    [0x10, 0x00, 0x04, 0xb2, 0x00, 0x00, 0x39, 0x78, 0x49, 0x1c, 0x49, 0x07],
    [0x49, 0x0f, 0x70, 0x47, 0x0f, 0xb5, 0x00, 0xf0, 0x94, 0xfa, 0x00, 0x28],
    [0x02, 0xd0, 0x0f, 0xbc, 0x21, 0x79, 0x00, 0xbd, 0x01, 0x48, 0x06, 0x90],
    [0x0f, 0xbd, 0x44, 0xbd, 0x00, 0x00, 0x40, 0x1c, 0xc9, 0xb2, 0x70, 0x47],
    [0x03, 0x28, 0x00, 0xd1, 0x35, 0x71, 0x28, 0x46, 0x70, 0x47, 0x10, 0xb5],
    [0x72, 0xb6, 0x01, 0x46, 0x06, 0x20, 0xfc, 0xf5, 0x82, 0xfb, 0x62, 0xb6],
    [0x10, 0xbd, 0xf8, 0xb5, 0x04, 0x46, 0xa2, 0x48, 0x0d, 0x46, 0x80, 0x68],
    [0x17, 0x46, 0x86, 0x05, 0xa1, 0x48, 0xb6, 0x0d, 0x00, 0x7c, 0x00, 0x06],
    [0x05, 0xd5, 0x22, 0x04, 0x32, 0x43, 0x9f, 0xf7, 0x64, 0x39, 0xe4, 0x0d],
    [0x67, 0xd1, 0x69, 0x93, 0x31, 0x83, 0xdd, 0x4c, 0xf5, 0x1e, 0x3c, 0x35],
    [0x95, 0xb3, 0x0a, 0x17, 0x9f, 0x92, 0x04, 0x61, 0xcb, 0x20, 0x60, 0x2d],
    [0x1a, 0x8f, 0x02, 0x26, 0xc0, 0x00, 0x96, 0x20, 0x00, 0x02, 0x08, 0x21],
    [0x03, 0x20, 0xff, 0xf5, 0xdb, 0xfb, 0xbd, 0x42, 0x0a, 0xd9, 0x78, 0x00],
    [0x85, 0x42, 0x05, 0xd2, 0x68, 0x08, 0xb4, 0x42, 0x01, 0xd9, 0x24, 0x1a]]"

definition fw_rows_03 :: "u8 list list" where
  "fw_rows_03 = [
    [0x00, 0xe0, 0x24, 0x18, 0x1e, 0x20, 0x0e, 0xe0, 0x00, 0x20, 0xf9, 0xf5],
    [0xe6, 0xfa, 0x92, 0x48, 0x81, 0x68, 0xff, 0x22, 0x92, 0x02, 0x91, 0x43],
    [0x92, 0x4a, 0x52, 0x68, 0x12, 0x06, 0x92, 0x0b, 0x11, 0x43, 0x81, 0x60],
    [0x1f, 0x20, 0x8e, 0x49, 0x0c, 0x60, 0xf8, 0xbd, 0xf8, 0xb5, 0x04, 0x46],
    [0x0d, 0x46, 0x03, 0x20, 0x00, 0xf0, 0x41, 0xfb, 0x29, 0x46, 0x20, 0x46],
    [0xfe, 0xf5, 0x7d, 0xfe, 0x07, 0x46, 0x83, 0x20, 0x00, 0xf0, 0x39, 0xfb],
    [0x03, 0x2c, 0x3a, 0xd1, 0x2c, 0x46, 0x40, 0x34, 0xe0, 0x7f, 0x00, 0x28],
    [0x35, 0xd1, 0xa8, 0x68, 0x01, 0x25, 0x46, 0x68, 0xfe, 0xf5, 0x1f, 0xfe],
    [0x81, 0x49, 0x89, 0x78, 0x03, 0x29, 0x0e, 0xd1, 0x00, 0x28, 0x01, 0xd0],
    [0x01, 0x28, 0x28, 0xd1, 0x20, 0x7f, 0x00, 0x28, 0x00, 0xd1, 0x02, 0x25],
    [0x71, 0x5d, 0xd4, 0x29, 0x03, 0xd1, 0x71, 0x19, 0x49, 0x78, 0x00, 0x29],
    [0x03, 0xd0, 0x20, 0x7f, 0x02, 0x28, 0x16, 0xd0, 0x19, 0xe0, 0x00, 0x28],
    [0x02, 0xd0, 0x02, 0x28, 0x02, 0xd0, 0x14, 0xe0, 0x74, 0x48, 0x08, 0xe0],
    [0x73, 0x48, 0x78, 0x38, 0xff, 0xf5, 0x71, 0xfa, 0x60, 0x7f, 0x05, 0x28],
    [0x04, 0xd0, 0x6f, 0x48, 0x50, 0x30, 0xff, 0xf5, 0x6a, 0xfa, 0x06, 0xe0],
    [0x6d, 0x48, 0x44, 0x30, 0xf9, 0xe7, 0x6c, 0x48, 0x40, 0x79, 0x02, 0x28],
    [0x01, 0xd0, 0x38, 0x46, 0xf8, 0xbd, 0x68, 0x48, 0x60, 0x30, 0xf0, 0xe7],
    [0x10, 0xb5, 0x04, 0x46, 0x68, 0x48, 0x80, 0x68, 0x40, 0x07, 0x40, 0x0f],
    [0xc0, 0x1e, 0x02, 0x28, 0x03, 0xd8, 0x09, 0x20, 0x40, 0x34, 0xe0, 0x77],
    [0x10, 0xbd, 0x04, 0x20, 0x00, 0xf0, 0xe7, 0xfa, 0x20, 0x46, 0xf9, 0xf5],
    [0xd8, 0xfa, 0x84, 0x20, 0x00, 0xf0, 0xe1, 0xfa, 0x10, 0xbd, 0xf8, 0xb5],
    [0x07, 0x46, 0x5c, 0x48, 0x00, 0x24, 0x41, 0x68, 0x04, 0x22, 0x11, 0x43],
    [0x41, 0x60, 0x56, 0x48, 0x59, 0x4d, 0x01, 0x79, 0xc0, 0x35, 0x09, 0x07],
    [0x09, 0x0f, 0x56, 0x04, 0x03, 0x29, 0x06, 0xd1, 0xc0, 0x78, 0x40, 0x07],
    [0x03, 0xd1, 0x28, 0x69, 0x30, 0x43, 0x28, 0x61, 0x01, 0x24, 0x05, 0x20],
    [0x00, 0xf0, 0xc5, 0xfa, 0x38, 0x46, 0xff, 0xf5, 0x1d, 0xf8, 0x07, 0x46],
    [0x85, 0x20, 0x00, 0xf0, 0xbe, 0xfa, 0x00, 0x2c, 0x02, 0xd0, 0x28, 0x69],
    [0xb0, 0x43, 0x28, 0x61, 0x38, 0x46, 0xf8, 0xbd, 0xf8, 0xb5, 0x05, 0x46],
    [0x07, 0x20, 0x00, 0xf0, 0xb2, 0xfa, 0x28, 0x46, 0xfe, 0xf5, 0x77, 0xfa],
    [0x87, 0x20, 0x00, 0xf0, 0xac, 0xfa, 0x44, 0x4e, 0xe8, 0x05, 0x34, 0x7f],
    [0x05, 0xd5, 0x43, 0x48, 0x01, 0x21, 0x00, 0x68, 0x49, 0x02, 0xfc, 0xf5],
    [0xae, 0xf9, 0x28, 0x07, 0x07, 0xd5, 0x40, 0x4f, 0x38, 0x78, 0x84, 0x42],
    [0x02, 0xd1, 0x08, 0x20, 0xf8, 0xf5, 0x1e, 0xf8, 0x3c, 0x70, 0x3a, 0x48],
    [0x20, 0x30, 0xc0, 0x88, 0x00, 0x05, 0x0c, 0xd5, 0x3b, 0x48, 0x05, 0x42],
    [0x09, 0xd0, 0xf0, 0x7f, 0x00, 0x28, 0x03, 0xd1, 0x01, 0x2c, 0x05, 0xd0],
    [0x02, 0x2c, 0x03, 0xd0, 0x08, 0x20, 0xf8, 0xf5, 0x08, 0xf8, 0xf8, 0xbd],
    [0x30, 0x48, 0x80, 0x30, 0x81, 0x6b, 0x04, 0x22, 0x11, 0x43, 0x81, 0x63],
    [0xf8, 0xbd, 0x70, 0xb5, 0x04, 0x46, 0x2c, 0x48, 0x0d, 0x46, 0x01, 0x21],
    [0x20, 0x30, 0xc9, 0x02, 0xc3, 0x88, 0x16, 0x46, 0x01, 0x2c, 0x02, 0xd0],
    [0x00, 0x2c, 0x06, 0xd0, 0x07, 0xe0, 0x0b, 0x43, 0xc3, 0x80, 0x27, 0x49],
    [0x04, 0x20, 0x08, 0x70, 0x01, 0xe0, 0x02, 0xa0, 0x26, 0x71, 0x1a, 0xfd],
    [0xc3, 0x72, 0x46, 0xef, 0xad, 0xe8, 0xdb, 0xe8, 0x73, 0x40, 0x8d, 0xc3],
    [0x06, 0xdb, 0xd5, 0xcc, 0x5f, 0xab, 0x89, 0x5e, 0xb4, 0x1d, 0xab, 0x07],
    [0x0b, 0xb4, 0x02, 0x26, 0xc0, 0x00, 0x98, 0x20, 0x00, 0x02, 0x8b, 0x43],
    [0xc3, 0x80, 0x08, 0x20, 0x00, 0xf0, 0x65, 0xfa, 0x32, 0x46, 0x29, 0x46],
    [0x20, 0x46, 0xfe, 0xf5, 0xb1, 0xfc, 0x88, 0x20, 0x00, 0xf0, 0x5d, 0xfa],
    [0x70, 0xbd, 0x10, 0xb5, 0x1b, 0x49, 0x00, 0x22, 0x88, 0x68, 0x0a, 0x60],
    [0x40, 0x07, 0x40, 0x0f, 0x04, 0x28, 0x07, 0xd1, 0x1e, 0x20, 0xfc, 0xf5],
    [0x83, 0xfe, 0x1a, 0x48, 0xc1, 0x68, 0x82, 0x15, 0x11, 0x43, 0xc1, 0x60],
    [0x14, 0x48, 0x20, 0x30, 0xc0, 0x88, 0x00, 0x05, 0x05, 0xd5, 0x10, 0x48],
    [0x80, 0x30, 0x81, 0x6b, 0x04, 0x22, 0x91, 0x43, 0x81, 0x63, 0x10, 0xbd],
    [0x10, 0xb5, 0x04, 0x46, 0x09, 0x48, 0x00, 0x78, 0x02, 0x28, 0x04, 0xd1],
    [0x03, 0x20, 0x00, 0x02, 0x84, 0x43, 0xf7, 0xf5, 0xb9, 0xff, 0x0d, 0x48],
    [0xc4, 0x61, 0x10, 0xbd, 0x00, 0x00, 0x00, 0x40, 0x02, 0x40, 0x60, 0x17],
    [0x20, 0x00, 0x70, 0x1b, 0x10, 0x00, 0x08, 0x0b, 0x10, 0x00, 0xd4, 0x13],
    [0x20, 0x00, 0x00, 0x0c, 0x10, 0x00, 0x00, 0x40, 0x00, 0x40, 0x50, 0x0b],
    [0x10, 0x00, 0x04, 0x0b, 0x10, 0x00, 0xa4, 0x1b, 0x10, 0x00, 0x01, 0x00],
    [0x00, 0x04, 0x00, 0x41, 0x00, 0x40, 0xc0, 0x7f, 0x00, 0x40, 0x06, 0x48],
    [0x80, 0x68, 0x06, 0x4a, 0x80, 0x07, 0x80, 0x0f, 0xd1, 0x69, 0x28, 0x30],
    [0x7f, 0x23, 0x5b, 0x01, 0x99, 0x43, 0x40, 0x01, 0x01, 0x43, 0xd1, 0x61],
    [0x70, 0x47, 0x00, 0x00, 0x02, 0x40, 0x00, 0x40, 0x02, 0x40, 0x05, 0x48],
    [0xc1, 0x7e, 0x05, 0x48, 0x00, 0x29, 0x01, 0xd0, 0x0f, 0x21, 0x02, 0xe0],
    [0x02, 0x49, 0xc0, 0x39, 0x09, 0x79, 0xc1, 0x74, 0x70, 0x47, 0x40, 0x18],
    [0x20, 0x00, 0xb0, 0x17, 0x10, 0x00, 0xf8, 0xb5, 0x04, 0x46, 0x42, 0x7c],
    [0x0d, 0x46, 0x50, 0x1c, 0x86, 0x07, 0xb6, 0x0f, 0xe1, 0x7b, 0x00, 0x2d],
    [0x5d, 0xd0, 0x07, 0x2d, 0x0c, 0xd0, 0x20, 0x7b, 0x04, 0x23, 0x20, 0x27],
    [0x01, 0x28, 0x09, 0xd0, 0x02, 0x28, 0x1c, 0xd0, 0x01, 0x27, 0x04, 0x28],
    [0x2c, 0xd0, 0x05, 0x28, 0x4f, 0xd1, 0x4c, 0xe0, 0x10, 0x20, 0x0e, 0xe0],
    [0x03, 0x2d, 0x4a, 0xd1, 0xc8, 0x06, 0x48, 0xd5, 0x20, 0x7c, 0x52, 0x1e],
    [0x86, 0x07, 0xb6, 0x0f, 0x2a, 0x40, 0x96, 0x42, 0x41, 0xd1, 0x62, 0x74],
    [0xc0, 0x06, 0x02, 0xd5, 0x08, 0x20, 0x01, 0x43, 0x01, 0xe0, 0x39, 0x43],
    [0x19, 0x43, 0xe1, 0x73, 0x37, 0xe0, 0x04, 0x2d, 0x35, 0xd1, 0xc8, 0x06],
    [0x33, 0xd5, 0x20, 0x7c, 0x52, 0x1e, 0x86, 0x07, 0x90, 0x07, 0xb6, 0x0f],
    [0x80, 0x0f, 0x86, 0x42, 0x2b, 0xd1, 0x39, 0x43, 0x60, 0x74, 0x19, 0x43],
    [0x48, 0x08, 0x40, 0x00, 0xe0, 0x73, 0x24, 0xe0, 0x0a, 0x2d, 0x22, 0xd1],
    [0x20, 0x68, 0x02, 0x68, 0x42, 0x60, 0x88, 0x06, 0x03, 0xd5, 0x20, 0x68],
    [0xfe, 0xf5, 0xe6, 0xff, 0x02, 0xe0, 0x20, 0x46, 0x08, 0xf6, 0xc0, 0xfc],
    [0x20, 0x68, 0x60, 0x30, 0x40, 0x88, 0xc0, 0x07, 0x02, 0xd1, 0xe0, 0x7b],
    [0xc0, 0x07, 0x02, 0xd0, 0x02, 0x20, 0x20, 0x73, 0x00, 0xe0, 0x27, 0x73],
    [0x66, 0x74, 0xe0, 0x7b, 0xcf, 0x21, 0x08, 0x40, 0xe0, 0x73, 0xc0, 0x07],
    [0x00, 0xd0, 0x16, 0x20, 0xf8, 0xbd, 0x0b, 0x2d, 0x0c, 0xd0, 0x0a, 0x20],
    [0x00, 0xf0, 0x89, 0xf9, 0x29, 0x46, 0x20, 0x46, 0x08, 0xf6, 0xdb, 0xfc],
    [0x04, 0x46, 0x8a, 0x20, 0x00, 0xf0, 0x81, 0xf9, 0x20, 0x46, 0xf8, 0xbd],
    [0x01, 0x21, 0x20, 0x46, 0x08, 0xf6, 0x76, 0xfc, 0x00, 0x28, 0xf8, 0xd1],
    [0x66, 0x74, 0xe0, 0x7b, 0xef, 0x21, 0x08, 0x40, 0xe0, 0x73, 0x27, 0x73],
    [0x00, 0x20, 0xf8, 0xbd, 0x00, 0x00, 0x10, 0xb5, 0x40, 0x30, 0x00, 0x8b],
    [0x43, 0x22, 0x92, 0x01, 0x10, 0x42, 0x39, 0x23, 0x70, 0xc4, 0x5b, 0xb1],
    [0x98, 0xb5, 0x52, 0x68, 0x7b, 0xc9, 0xe3, 0x4b, 0x0a, 0x95, 0x52, 0x17],
    [0x8c, 0x67, 0xf1, 0x7e, 0xfb, 0x95, 0xe2, 0xc5, 0x11, 0x47, 0xfd, 0xa6],
    [0x56, 0x64, 0x02, 0x26, 0xc0, 0x00, 0x9a, 0x20, 0x00, 0x02, 0x03, 0xd0],
    [0x03, 0x48, 0x06, 0xf6, 0x28, 0xf8, 0x10, 0xbd, 0x12, 0x20, 0x10, 0xbd],
    [0x00, 0x00, 0xac, 0x18, 0x10, 0x00, 0x10, 0xb5, 0x36, 0x48, 0x41, 0x7c],
    [0x36, 0x48, 0x00, 0x29, 0x00, 0x68, 0x09, 0xd0, 0x04, 0x0c, 0x00, 0x20],
    [0xc0, 0x43, 0xf7, 0xf5, 0xbf, 0xf9, 0x32, 0x49, 0x20, 0x05, 0x03, 0xd4],
    [0x48, 0x7b, 0x02, 0xe0, 0x84, 0xb2, 0xf4, 0xe7, 0x88, 0x7b, 0x2f, 0x4c],
    [0x00, 0x28, 0x02, 0xd0, 0x22, 0x68, 0x00, 0x2a, 0x05, 0xd0, 0x20, 0x68],
    [0x01, 0x28, 0x06, 0xd0, 0x01, 0xf6, 0x74, 0xfd, 0x10, 0xbd, 0x00, 0x01],
    [0xf7, 0xf5, 0x5f, 0xf9, 0x10, 0xbd, 0x88, 0x7b, 0x00, 0x01, 0xf7, 0xf5],
    [0x5a, 0xf9, 0x00, 0x20, 0x20, 0x60, 0x10, 0xbd, 0x10, 0xb5, 0x20, 0x48],
    [0x41, 0x7c, 0x23, 0x48, 0x00, 0x29, 0x11, 0xd0, 0x44, 0x88, 0x55, 0x20],
    [0xfc, 0xf5, 0x5e, 0xfd, 0x1e, 0x49, 0x06, 0x20, 0x08, 0x70, 0x1f, 0x48],
    [0x00, 0x88, 0x00, 0x28, 0x08, 0xd0, 0xa0, 0x42, 0x06, 0xd0, 0x0b, 0x20],
    [0x00, 0xf0, 0x1f, 0xf9, 0x0c, 0x20, 0x05, 0xe0, 0x04, 0x88, 0xec, 0xe7],
    [0x8b, 0x20, 0x00, 0xf0, 0x18, 0xf9, 0x8c, 0x20, 0x00, 0xf0, 0x15, 0xf9],
    [0x10, 0xbd, 0x16, 0x48, 0x17, 0x4a, 0x01, 0x68, 0x17, 0x48, 0x00, 0x78],
    [0x13, 0x18, 0xdb, 0x7a, 0x03, 0x2b, 0x0b, 0xd1, 0x40, 0x01, 0x40, 0x18],
    [0x20, 0x38, 0x01, 0x78, 0x12, 0x78, 0xc9, 0x08, 0x52, 0x1c, 0xc9, 0x00],
    [0x52, 0x07, 0x52, 0x0f, 0x11, 0x43, 0x01, 0x70, 0x70, 0x47, 0x40, 0x1c],
    [0x05, 0x28, 0x00, 0xd1, 0x01, 0x20, 0x0b, 0x49, 0x09, 0x78, 0x88, 0x42],
    [0x01, 0xd1, 0x01, 0x20, 0x70, 0x47, 0x00, 0x20, 0x70, 0x47, 0x88, 0x10],
    [0x10, 0x00, 0x00, 0x40, 0x02, 0x40, 0x9c, 0x10, 0x10, 0x00, 0x78, 0x1b],
    [0x10, 0x00, 0x30, 0x10, 0x10, 0x00, 0xfa, 0x18, 0x10, 0x00, 0x60, 0x10],
    [0x10, 0x00, 0xb5, 0x10, 0x10, 0x00, 0x48, 0x09, 0x10, 0x00, 0x10, 0xb5],
    [0x51, 0x4c, 0x20, 0x68, 0x00, 0x28, 0x03, 0xd0, 0x0a, 0xf6, 0x4c, 0xfe],
    [0x00, 0x20, 0x20, 0x60, 0x10, 0xbd, 0x70, 0xb5, 0x04, 0x46, 0x4c, 0x48],
    [0x00, 0x78, 0x03, 0x28, 0x03, 0xd1, 0x14, 0x2c, 0x01, 0xd1, 0x0c, 0xf6],
    [0x44, 0xfe, 0x49, 0x4d, 0x21, 0x46, 0x68, 0x78, 0x0c, 0xf6, 0xba, 0xfc],
    [0x00, 0x28, 0x09, 0xd0, 0x68, 0x78, 0x21, 0x46, 0x0c, 0xf6, 0x46, 0xfb],
    [0x00, 0x28, 0x03, 0xd0, 0x68, 0x78, 0x21, 0x46, 0x0c, 0xf6, 0x1d, 0xfe],
    [0x70, 0xbd, 0x10, 0xb5, 0x40, 0x4c, 0x21, 0x78, 0x06, 0x29, 0x06, 0xd0],
    [0x07, 0x29, 0x0c, 0xd0, 0x08, 0x29, 0x0f, 0xd0, 0x14, 0x29, 0x13, 0xd1],
    [0x0e, 0xe0, 0x3b, 0x48, 0xf9, 0xf5, 0x1a, 0xfd, 0x3a, 0x48, 0xf9, 0xf5],
    [0x2e, 0xfd, 0x14, 0x20, 0x00, 0xe0, 0x02, 0x20, 0x20, 0x70, 0xff, 0xf7],
    [0xc2, 0xff, 0x10, 0xbd, 0x00, 0x20, 0xf9, 0xe7, 0x00, 0x28, 0x03, 0xd1],
    [0x34, 0x48, 0x00, 0x78, 0x00, 0x28, 0xf6, 0xd0, 0x14, 0x20, 0xff, 0xf7],
    [0xc0, 0xff, 0x10, 0xbd, 0x00, 0x29, 0x01, 0xd0, 0x0c, 0x30, 0xc0, 0xb2],
    [0x2f, 0x49, 0x08, 0x28, 0x06, 0xd0, 0x06, 0x28, 0x03, 0xd1, 0x49, 0x7d],
    [0x00, 0x29, 0x00, 0xd1, 0x08, 0x20, 0x70, 0x47, 0x0a, 0x7d, 0x00, 0x2a],
    [0xfb, 0xd1, 0x06, 0x20, 0xf5, 0xe7, 0x10, 0xb5, 0x24, 0x48, 0x41, 0x78],
    [0x22, 0x48, 0x00, 0x78, 0x05, 0x28, 0x03, 0xd0, 0x06, 0x28, 0x02, 0xd0],
    [0x00, 0x20, 0x10, 0xbd, 0x08, 0x20, 0xff, 0xf7, 0xdf, 0xff, 0x04, 0x46],
    [0x0c, 0xf6, 0x06, 0xff, 0x20, 0x46, 0x10, 0xbd, 0x10, 0xb5, 0x03, 0x46],
    [0x00, 0x20, 0x04, 0xe0, 0x0c, 0x5c, 0xaf, 0x34, 0x64, 0x6c, 0x1e, 0x1e],
    [0xc3, 0x43, 0x24, 0xa1, 0x36, 0x48, 0xe7, 0x7e, 0xfc, 0xfd, 0xdc, 0x4b],
    [0xa2, 0xd8, 0x0d, 0xf6, 0xbd, 0xb2, 0xb6, 0x8a, 0x8f, 0xc0, 0x8e, 0x4d],
    [0x79, 0x2a, 0x02, 0x26, 0xc0, 0x00, 0x9c, 0x20, 0x00, 0x02, 0x9c, 0x42],
    [0x04, 0xd0, 0x40, 0x1c, 0xc0, 0xb2, 0x90, 0x42, 0xf8, 0xd3, 0xff, 0x20],
    [0x10, 0xbd, 0x08, 0xb5, 0x68, 0x46, 0xf6, 0xf5, 0x0e, 0xfd, 0x68, 0x46],
    [0x00, 0x78, 0x08, 0xbd, 0x10, 0xb5, 0x00, 0x24, 0x04, 0x20, 0x0a, 0xf6],
    [0x72, 0xfd, 0x01, 0x28, 0x05, 0xd0, 0x04, 0x20, 0x0a, 0xf6, 0x7d, 0xfd],
    [0x04, 0x46, 0x20, 0x46, 0x10, 0xbd, 0x0a, 0xf6, 0x86, 0xfe, 0xfa, 0xe7],
    [0x10, 0xb5, 0x02, 0x46, 0x80, 0x21, 0x01, 0x20, 0xff, 0xf5, 0xba, 0xf8],
    [0x10, 0xbd, 0x10, 0xb5, 0x09, 0x48, 0x01, 0x21, 0x00, 0x68, 0xc9, 0x02],
    [0xfb, 0xf5, 0x5e, 0xff, 0x10, 0xbd, 0xfc, 0x18, 0x10, 0x00, 0xda, 0x1b],
    [0x10, 0x00, 0x28, 0x0c, 0x10, 0x00, 0x04, 0x19, 0x10, 0x00, 0xa1, 0x1b],
    [0x10, 0x00, 0xe0, 0x18, 0x20, 0x00, 0x04, 0x0b, 0x10, 0x00, 0x08, 0xb5],
    [0x68, 0x46, 0xf6, 0xf5, 0xda, 0xfc, 0x68, 0x46, 0x00, 0x78, 0x00, 0x28],
    [0x01, 0xd0, 0x07, 0x20, 0x08, 0xbd, 0x02, 0x48, 0xc0, 0x6a, 0x00, 0x01],
    [0xc0, 0x0e, 0x08, 0xbd, 0x00, 0x00, 0x40, 0x40, 0x02, 0x40, 0x70, 0x47],
    [0x10, 0xb5, 0x1a, 0x49, 0x0a, 0x78, 0x82, 0x42, 0x02, 0xd0, 0x08, 0x70]]"

definition fw_rows_04 :: "u8 list list" where
  "fw_rows_04 = [
    [0xf9, 0xf5, 0x93, 0xfb, 0x10, 0xbd, 0xf8, 0xb5, 0x00, 0x24, 0x07, 0x46],
    [0x0d, 0x46, 0x01, 0x26, 0x30, 0x46, 0xa0, 0x40, 0x28, 0x42, 0x03, 0xd0],
    [0x21, 0x46, 0x38, 0x46, 0xf9, 0xf5, 0x3b, 0xfb, 0x64, 0x1c, 0xe4, 0xb2],
    [0x20, 0x2c, 0xf3, 0xd3, 0xf8, 0xbd, 0x41, 0x06, 0x10, 0xb5, 0xc0, 0x09],
    [0x49, 0x0e, 0xc0, 0x01, 0xf9, 0xf5, 0x2f, 0xfb, 0x10, 0xbd, 0x10, 0xb5],
    [0x0a, 0x4a, 0x3d, 0x21, 0x12, 0x68, 0x49, 0x1e, 0xc9, 0xb2, 0x0c, 0x23],
    [0x4b, 0x43, 0x9b, 0x18, 0x5b, 0x68, 0x5b, 0x1c, 0xf7, 0xd1, 0x08, 0x18],
    [0xc1, 0xb2, 0x00, 0x22, 0x2f, 0x20, 0xf9, 0xf5, 0x34, 0xfb, 0x10, 0xbd],
    [0x00, 0x00, 0x7c, 0x1b, 0x10, 0x00, 0x80, 0x09, 0x10, 0x00, 0x38, 0xb5],
    [0x0a, 0x49, 0x08, 0x4c, 0xc9, 0x68, 0x00, 0x91, 0xff, 0xf5, 0x3c, 0xf9],
    [0x08, 0x49, 0x10, 0x22, 0x20, 0x46, 0xf6, 0xf5, 0x27, 0xfe, 0x05, 0x49],
    [0x04, 0x22, 0x10, 0x31, 0x68, 0x46, 0xf6, 0xf5, 0x21, 0xfe, 0x38, 0xbd],
    [0x00, 0x00, 0x98, 0x0b, 0x10, 0x00, 0xc0, 0x0a, 0x10, 0x00, 0xda, 0x19],
    [0x20, 0x00, 0xf8, 0xb5, 0xd7, 0x4c, 0x02, 0x26, 0x20, 0x79, 0xd6, 0x4d],
    [0xc7, 0x06, 0x41, 0x09, 0x20, 0x46, 0xff, 0x0e, 0x00, 0x68, 0x00, 0x29],
    [0x06, 0xd0, 0x01, 0x29, 0x63, 0xd0, 0x03, 0x29, 0x73, 0xd0, 0x04, 0x29],
    [0x6e, 0xd1, 0x88, 0xe0, 0x01, 0x24, 0x08, 0x2f, 0x1f, 0xd0, 0x0e, 0xdc],
    [0x05, 0x2f, 0x4b, 0xd0, 0x06, 0x2f, 0x43, 0xd0, 0x07, 0x2f, 0x13, 0xd1],
    [0xcb, 0x49, 0x49, 0x68, 0x09, 0x06, 0x0f, 0xd5, 0x03, 0x28, 0x0e, 0xd0],
    [0x05, 0x28, 0x0e, 0xd0, 0x5b, 0xe0, 0x09, 0x2f, 0x34, 0xd0, 0x1b, 0x2f],
    [0x06, 0xd1, 0x0a, 0xf6, 0x7c, 0xf9, 0xc4, 0x48, 0x80, 0x68, 0x80, 0x01],
    [0x3f, 0xd5, 0x2e, 0x70, 0xf8, 0xbd, 0x0d, 0x20, 0x35, 0xe0, 0x0e, 0x20],
    [0x33, 0xe0, 0x10, 0x20, 0x01, 0xf0, 0xff, 0xfd, 0xbf, 0x48, 0x00, 0x7f],
    [0x01, 0x28, 0xf3, 0xd1, 0xbc, 0x4d, 0x00, 0x24, 0x40, 0x35, 0x28, 0x6a],
    [0xc0, 0x05, 0x11, 0xd0, 0x0a, 0x2c, 0xeb, 0xd1, 0xb9, 0x48, 0x09, 0x21],
    [0x40, 0x38, 0x03, 0xf6, 0xd4, 0xfc, 0xb6, 0x48, 0x00, 0x21, 0x40, 0x38],
    [0x03, 0xf6, 0xcf, 0xfc, 0xb4, 0x48, 0x01, 0x21, 0x40, 0x38, 0x03, 0xf6],
    [0xca, 0xfc, 0xf8, 0xbd, 0x14, 0x20, 0xfc, 0xf5, 0xa1, 0xfb, 0x64, 0x1c],
    [0xa4, 0xb2, 0x0a, 0x2c, 0xe3, 0xd1, 0xc2, 0xe8, 0x88, 0xd4, 0x65, 0x29],
    [0xb5, 0xa0, 0x9a, 0x6d, 0x8f, 0xe3, 0x9b, 0x28, 0x4d, 0xec, 0x56, 0x35],
    [0x34, 0x4b, 0xbe, 0x08, 0xc9, 0x6e, 0xd0, 0xc8, 0xe4, 0x41, 0xb3, 0x30],
    [0x5d, 0x7e, 0x02, 0x26, 0xc0, 0x00, 0x9e, 0x20, 0x00, 0x02, 0xe7, 0xe7],
    [0x11, 0x20, 0x0a, 0xe0, 0x68, 0x46, 0x09, 0xf6, 0x93, 0xfa, 0x00, 0x98],
    [0x40, 0x30, 0xc4, 0x77, 0xaa, 0x48, 0x00, 0x78, 0x01, 0x28, 0x03, 0xd0],
    [0x13, 0x20, 0x01, 0xf0, 0xcc, 0xfd, 0xf8, 0xbd, 0x01, 0xf0, 0x2f, 0xfe],
    [0xf8, 0xbd, 0x2c, 0x70, 0xf8, 0xbd, 0x05, 0x28, 0x05, 0xd0, 0x08, 0x28],
    [0x05, 0xd0, 0x09, 0x28, 0x09, 0xd0, 0x00, 0x20, 0xef, 0xe7, 0x0a, 0x20],
    [0xed, 0xe7, 0x0f, 0x20, 0x01, 0xf0, 0xb9, 0xfd, 0x4d, 0xe0, 0x02, 0xe0],
    [0x7b, 0xe0, 0x0f, 0x20, 0xe5, 0xe7, 0x00, 0x2f, 0x04, 0xd0, 0x19, 0x2f],
    [0x06, 0xd0, 0x1a, 0x2f, 0x73, 0xd1, 0x03, 0xe0, 0x00, 0xf0, 0xba, 0xfe],
    [0x18, 0x20, 0xda, 0xe7, 0x00, 0xf0, 0xb6, 0xfe, 0x19, 0x2f, 0x06, 0xd0],
    [0x17, 0x20, 0x01, 0xf0, 0xa2, 0xfd, 0x00, 0x20, 0x00, 0xf0, 0xae, 0xfe],
    [0xf8, 0xbd, 0x16, 0x20, 0xf7, 0xe7, 0x89, 0x49, 0x3b, 0x46, 0x09, 0x1f],
    [0x0e, 0xf6, 0x9d, 0xf8, 0x1e, 0x53, 0x53, 0xa0, 0x10, 0xa0, 0x14, 0x1e],
    [0x33, 0xa0, 0xa0, 0x73, 0x77, 0x7b, 0x7f, 0x11, 0xa0, 0xa0, 0x75, 0xa0],
    [0x3a, 0x3c, 0x21, 0xa0, 0xa0, 0xa0, 0x99, 0xa0, 0x83, 0xa0, 0x2f, 0xa0],
    [0xe6, 0xe7, 0x01, 0xf0, 0xb3, 0xfd, 0xf8, 0xbd, 0x01, 0x21, 0xc9, 0x07],
    [0x88, 0x42, 0x03, 0xd1, 0x00, 0xf0, 0xb1, 0xfd, 0x01, 0x20, 0xac, 0xe7],
    [0x02, 0x20, 0xaa, 0xe7, 0x8e, 0x70, 0x05, 0x20, 0xa7, 0xe7, 0x01, 0xf0],
    [0xa0, 0xfd, 0x02, 0x28, 0xed, 0xd1, 0x20, 0x68, 0x02, 0x28, 0x04, 0xd1],
    [0x05, 0x22, 0x11, 0x46, 0x78, 0x48, 0x0d, 0xf6, 0x96, 0xfa, 0x07, 0x20],
    [0x99, 0xe7, 0x00, 0xf0, 0x75, 0xfe, 0x08, 0x20, 0x95, 0xe7, 0x02, 0x0c],
    [0x00, 0x07, 0x0a, 0x80, 0x00, 0x0f, 0xc8, 0x70, 0x03, 0x20, 0x8e, 0xe7],
    [0x09, 0x20, 0x8c, 0xe7, 0x01, 0xf0, 0x85, 0xfd, 0x05, 0x28, 0xd2, 0xd1],
    [0x28, 0x78, 0x02, 0x28, 0xcf, 0xd1, 0x00, 0x21, 0x01, 0x20, 0x00, 0xf0],
    [0x0a, 0xff, 0x01, 0x21, 0x80, 0x20, 0x00, 0xf0, 0x06, 0xff, 0x1c, 0x20],
    [0x01, 0xf0, 0x49, 0xfd, 0x00, 0x21, 0x80, 0x20, 0x00, 0xf0, 0xff, 0xfe],
    [0xf8, 0xbd, 0x01, 0xf0, 0x6e, 0xfd, 0x05, 0x28, 0x06, 0xd0, 0x23, 0x21],
    [0x03, 0x20, 0x22, 0x68, 0xfe, 0xf5, 0x3e, 0xff, 0xf8, 0xbd, 0x41, 0xe0],
    [0x20, 0x79, 0xc0, 0x06, 0xc0, 0x0e, 0x01, 0x28, 0x0b, 0xd0, 0x00, 0x21],
    [0x01, 0x20, 0x00, 0xf0, 0xea, 0xfe, 0x20, 0x68, 0x00, 0xf0, 0x3c, 0xfe],
    [0x28, 0x78, 0x03, 0x28, 0x03, 0xd0, 0x06, 0x20, 0x59, 0xe7, 0x01, 0x21],
    [0xf2, 0xe7, 0x12, 0x20, 0x55, 0xe7, 0x14, 0x20, 0x53, 0xe7, 0x15, 0x20],
    [0x51, 0xe7, 0x00, 0xf0, 0x2d, 0xfe, 0x19, 0x20, 0x4d, 0xe7, 0x00, 0xf0],
    [0x29, 0xfe, 0x1a, 0x20, 0x49, 0xe7, 0x00, 0xf0, 0x25, 0xfe, 0x1b, 0x20],
    [0x45, 0xe7, 0x01, 0x20, 0xff, 0xf7, 0xa7, 0xfe, 0x20, 0x68, 0x40, 0x68],
    [0x01, 0x78, 0x20, 0x29, 0x06, 0xd1, 0x06, 0x70, 0x40, 0x78, 0x01, 0x28],
    [0x02, 0xd1, 0x02, 0x20, 0xff, 0xf7, 0x9b, 0xfe, 0x03, 0x20, 0x00, 0xf0],
    [0x92, 0xf8, 0x20, 0x68, 0x0a, 0xf6, 0xfa, 0xf8, 0xc2, 0xe7, 0x03, 0x20],
    [0x00, 0xf0, 0x8b, 0xf8, 0x20, 0x68, 0x0a, 0xf6, 0x92, 0xfa, 0xbb, 0xe7],
    [0xfc, 0xf5, 0x91, 0xfa, 0xb8, 0xe7, 0x3c, 0x48, 0x00, 0x24, 0xc5, 0x78],
    [0x00, 0xf0, 0x43, 0xfd, 0x34, 0x4f, 0x36, 0x4e, 0xfe, 0xf5, 0x89, 0xff],
    [0x01, 0x46, 0x30, 0x4a, 0x02, 0x20, 0xfe, 0xf5, 0x8f, 0xfe, 0x00, 0x28],
    [0x03, 0xd0, 0x64, 0x1c, 0x02, 0x2c, 0x03, 0xd0, 0x40, 0xe0, 0xff, 0xf7],
    [0xa6, 0xfe, 0x3c, 0xe0, 0x72, 0xb6, 0x6d, 0x30, 0x10, 0x55, 0x80, 0x31],
    [0xba, 0x31, 0xc3, 0xbd, 0xc5, 0x4f, 0xad, 0xd3, 0x26, 0x1b, 0x37, 0x63],
    [0x92, 0x03, 0xba, 0xb2, 0x46, 0x60, 0x36, 0x8b, 0xc9, 0x28, 0x5c, 0x09],
    [0x77, 0x36, 0x02, 0x26, 0xc0, 0x00, 0xa0, 0x20, 0x00, 0x02, 0x31, 0x48],
    [0x00, 0x78, 0x02, 0x28, 0x07, 0xd1, 0xf8, 0xf5, 0x46, 0xfd, 0x00, 0x28],
    [0x03, 0xd1, 0xff, 0x20, 0x01, 0x30, 0xf8, 0xf5, 0x63, 0xfa, 0x62, 0xb6],
    [0xe8, 0x07, 0x07, 0xd0, 0xf0, 0x7f, 0x0c, 0x38, 0x04, 0x28, 0x03, 0xd8],
    [0x38, 0x78, 0x03, 0x28, 0x00, 0xd1, 0x63, 0x24, 0xa8, 0x07, 0x08, 0xd5],
    [0x38, 0x78, 0x01, 0x28, 0x05, 0xd1, 0x1e, 0x48, 0x80, 0x68, 0x80, 0x01],
    [0x01, 0xd5, 0xf8, 0xf5, 0xfa, 0xfd, 0x68, 0x07, 0x0c, 0xd5, 0x38, 0x78],
    [0x03, 0x28, 0x09, 0xd1, 0x19, 0x48, 0x1e, 0x49, 0x80, 0x68, 0x08, 0x40],
    [0x09, 0x1f, 0x88, 0x42, 0x04, 0xd0, 0x49, 0x1c, 0x88, 0x42, 0x01, 0xd0],
    [0x63, 0x2c, 0x08, 0xd1, 0x10, 0x48, 0x07, 0x21, 0x01, 0x71, 0x05, 0x21],
    [0x01, 0x60, 0xff, 0xf7, 0x6a, 0xfe, 0x00, 0x20, 0xf0, 0x77, 0x00, 0x24],
    [0x00, 0x20, 0xfe, 0xf5, 0x44, 0xff, 0xad, 0xe7, 0x08, 0xb5, 0x00, 0x23],
    [0x00, 0x93, 0x53, 0x21, 0x11, 0x4b, 0x0e, 0x22, 0xc9, 0x00, 0x10, 0x48],
    [0xfb, 0xf5, 0x46, 0xff, 0x04, 0x49, 0x08, 0x39, 0x08, 0x60, 0x00, 0x20],
    [0x08, 0xbd, 0x01, 0x48, 0x08, 0x38, 0x00, 0x68, 0x70, 0x47, 0x88, 0x1b],
    [0x10, 0x00, 0x08, 0x0b, 0x10, 0x00, 0x00, 0x40, 0x02, 0x40, 0x00, 0x40],
    [0x00, 0x40, 0x50, 0x0b, 0x10, 0x00, 0x04, 0x0c, 0x10, 0x00, 0xb8, 0x1b],
    [0x10, 0x00, 0x00, 0x19, 0x20, 0x00, 0xfd, 0x0a, 0x10, 0x00, 0x07, 0x00],
    [0x00, 0x02, 0xd1, 0x9f, 0x20, 0x00, 0xa8, 0x13, 0x10, 0x00, 0xf8, 0xb5],
    [0x1d, 0x49, 0x01, 0x27, 0x0a, 0x7c, 0xd2, 0x07, 0x93, 0x0e, 0x1b, 0x4a],
    [0x12, 0x68, 0x95, 0x00, 0xf8, 0x22, 0x15, 0x40, 0x0a, 0x7f, 0x14, 0x07],
    [0x66, 0x0d, 0x0c, 0x7d, 0x39, 0x46, 0xa4, 0x1d, 0xa1, 0x40, 0xcc, 0xb2],
    [0xc0, 0x21, 0x01, 0x28, 0x11, 0xd0, 0x02, 0x28, 0x10, 0xd1, 0x13, 0x48],
    [0x00, 0x2a, 0x08, 0xd0, 0x02, 0x21, 0x81, 0x60, 0x11, 0x48, 0x40, 0x38],
    [0x41, 0x6b, 0x10, 0x24, 0xa1, 0x43, 0x41, 0x63, 0x00, 0xe0, 0x87, 0x60],
    [0x19, 0x46, 0x29, 0x40, 0x00, 0xe0, 0x21, 0x46, 0x0a, 0x42, 0x08, 0xd0],
    [0x0a, 0x48, 0x40, 0x38, 0x41, 0x6b, 0x10, 0x22, 0x11, 0x43, 0x41, 0x63],
    [0x30, 0x46, 0xfc, 0xf5, 0xfd, 0xf9, 0xf8, 0xbd, 0x05, 0x48, 0x40, 0x38],
    [0x41, 0x6b, 0x10, 0x22, 0x91, 0x43, 0x41, 0x63, 0x70, 0x47, 0x60, 0x17],
    [0x20, 0x00, 0x24, 0x09, 0x10, 0x00, 0x40, 0x40, 0x02, 0x40, 0xfb, 0x4a],
    [0xd1, 0x6a, 0x07, 0x23, 0x1b, 0x07, 0x40, 0x07, 0x99, 0x43, 0x40, 0x08],
    [0x01, 0x43, 0xd1, 0x62, 0x70, 0x47, 0xf7, 0x4b, 0x10, 0xb5, 0x00, 0x20],
    [0x18, 0x80, 0x9a, 0x1e, 0x50, 0x70, 0xf3, 0x48, 0xc0, 0x6a, 0xf4, 0x49],
    [0x40, 0x02, 0x40, 0x0e, 0x49, 0x7a, 0xc0, 0x00, 0x81, 0x29, 0x0b, 0xd3],
    [0xf1, 0x4c, 0xc0, 0x3c, 0x82, 0x29, 0x13, 0xd0, 0xa0, 0x7c, 0xef, 0x49],
    [0x40, 0x01, 0x49, 0x78, 0x09, 0x19, 0xee, 0x4c, 0x49, 0x78, 0x21, 0x71],
    [0x81, 0x05, 0x0f, 0xd5, 0x10, 0x21, 0x08, 0x43, 0xe9, 0x49, 0x82, 0x24],
    [0x20, 0x31, 0x09, 0x7a, 0x21, 0x42, 0x05, 0xd0, 0x22, 0x21, 0x04, 0xe0],
    [0xe5, 0x48, 0x40, 0x38, 0x80, 0x7b, 0xe8, 0xe7, 0x11, 0x21, 0x51, 0x70],
    [0xe2, 0x4a, 0x20, 0x3a, 0x11, 0x7d, 0x99, 0x70, 0x00, 0x28, 0x0a, 0xd0],
    [0xe2, 0x4c, 0x12, 0x7c, 0x20, 0x43, 0x00, 0x2a, 0x03, 0xd0, 0xca, 0x07],
    [0x01, 0xd1, 0x04, 0x22, 0x10, 0x43, 0x01, 0x22, 0x1a, 0x80, 0xc9, 0x07],
    [0x02, 0xd0, 0x00, 0xf0, 0x98, 0xfa, 0x01, 0xe0, 0x02, 0xf6, 0x75, 0xff],
    [0xda, 0x48, 0xc1, 0x7c, 0xda, 0x48, 0x6a, 0xcd, 0x99, 0x14, 0x0f, 0x34],
    [0xfd, 0x6f, 0x30, 0x7f, 0x0f, 0xf4, 0xa2, 0xf2, 0xd1, 0x26, 0x14, 0x80],
    [0xde, 0x85, 0x7a, 0x6f, 0xae, 0x2e, 0xbe, 0x3b, 0xb8, 0xe0, 0x07, 0x16],
    [0xc7, 0x3c, 0x02, 0x26, 0xc0, 0x00, 0xa2, 0x20, 0x00, 0x02, 0x00, 0x29],
    [0x41, 0x88, 0x03, 0xd0, 0x01, 0x22, 0x92, 0x02, 0x11, 0x43, 0x01, 0xe0],
    [0xd7, 0x4a, 0x11, 0x40, 0x41, 0x80, 0x10, 0xbd, 0xf8, 0xb5, 0xd3, 0x48],
    [0x00, 0x21, 0xcc, 0x4e, 0x81, 0x72, 0x30, 0x88, 0x02, 0x24, 0xb5, 0x1e],
    [0x20, 0x28, 0x47, 0xd0, 0x0c, 0xdc, 0x04, 0x28, 0x23, 0xd0, 0x04, 0xdc],
    [0x01, 0x28, 0x12, 0xd0, 0x02, 0x28, 0x66, 0xd1, 0x1a, 0xe0, 0x08, 0x28],
    [0x34, 0xd0, 0x10, 0x28, 0x61, 0xd1, 0x34, 0xe0, 0x40, 0x28, 0x3a, 0xd0],
    [0x80, 0x28, 0x3b, 0xd0, 0xff, 0x38, 0x01, 0x38, 0x3b, 0xd0, 0xff, 0x38],
    [0x01, 0x38, 0x56, 0xd1, 0x3a, 0xe0, 0x29, 0x70, 0x01, 0x20, 0xff, 0xf7],
    [0x1d, 0xfd, 0x03, 0xf6, 0x15, 0xf9, 0x04, 0x46, 0x01, 0x20, 0xff, 0xf7],
    [0x34, 0xff, 0x46, 0xe0, 0x03, 0xf6, 0x21, 0xf9, 0x47, 0xe0, 0xb4, 0x48],
    [0x02, 0x24, 0xc0, 0x6a, 0x40, 0x00, 0x40, 0x0f, 0x3d, 0xd1, 0x03, 0xf6],
    [0x28, 0xf9, 0x04, 0x46, 0x1e, 0x28, 0x02, 0xd0, 0x2a, 0x2c, 0x07, 0xd0],
    [0x35, 0xe0, 0xaf, 0x48, 0x20, 0x38, 0x40, 0x7f, 0x40, 0x07, 0x40, 0x0f],
    [0xff, 0xf7, 0x5d, 0xff, 0x1e, 0x24, 0x08, 0xf6, 0x40, 0xff, 0x2a, 0xe0],
    [0x03, 0xf6, 0x56, 0xf9, 0x02, 0xe0, 0x68, 0x78, 0x03, 0xf6, 0x25, 0xf9],
    [0x04, 0x46, 0x22, 0xe0, 0x03, 0xf6, 0x52, 0xf9, 0xfa, 0xe7, 0x03, 0xf6],
    [0x5e, 0xf9, 0xf7, 0xe7, 0x03, 0xf6, 0x8a, 0xf9, 0xf4, 0xe7, 0x03, 0xf6],
    [0xc8, 0xf9, 0xf1, 0xe7, 0x28, 0x78, 0x01, 0x28, 0x0a, 0xd1, 0x9c, 0x49],
    [0x40, 0x39, 0x88, 0x68, 0xa4, 0x4a, 0x80, 0x0a, 0x12, 0x68, 0x80, 0x02],
    [0x92, 0x05, 0x92, 0x0d, 0x10, 0x43, 0x88, 0x60, 0x03, 0xf6, 0xc2, 0xf9],
    [0x04, 0x46, 0x03, 0x20, 0x00, 0x02, 0xf7, 0xf5, 0x6e, 0xfa, 0xff, 0xf7],
    [0x21, 0xff, 0x0f, 0x2c, 0x0a, 0xd0, 0x10, 0x2c, 0x0f, 0xd0, 0xf4, 0x70],
    [0xb0, 0x78, 0x99, 0x4f, 0xc0, 0x07, 0x0c, 0xd0, 0x8f, 0x48, 0x00, 0xf0],
    [0x39, 0xfa, 0x22, 0xe0, 0x93, 0x48, 0x20, 0x38, 0xc0, 0x7f, 0x01, 0x28],
    [0x01, 0xd0, 0x0c, 0x28, 0xef, 0xd3, 0x02, 0x24, 0xed, 0xe7, 0x30, 0x88],
    [0x04, 0x28, 0x08, 0xd9, 0x02, 0x2c, 0x01, 0xd0, 0x02, 0x20, 0x03, 0xe0]]"

definition fw_rows_05 :: "u8 list list" where
  "fw_rows_05 = [
    [0x28, 0x78, 0x00, 0x28, 0x01, 0xd1, 0x01, 0x20, 0x28, 0x70, 0x82, 0x48],
    [0x02, 0xf6, 0xd9, 0xfe, 0xf0, 0x78, 0x20, 0x28, 0x01, 0xd0, 0x1f, 0x28],
    [0x05, 0xd1, 0x37, 0x80, 0x04, 0x22, 0x22, 0x21, 0x02, 0x20, 0xfe, 0xf5],
    [0x2f, 0xfd, 0x30, 0x88, 0xb8, 0x42, 0x03, 0xd1, 0x23, 0x2c, 0x01, 0xd0],
    [0x08, 0xf6, 0xdd, 0xfe, 0xf0, 0x78, 0xf8, 0xbd, 0x10, 0xb5, 0x76, 0x4c],
    [0xa0, 0x78, 0xc0, 0x07, 0x02, 0xd0, 0x00, 0xf0, 0xde, 0xf9, 0x20, 0x80],
    [0x10, 0xbd, 0x10, 0xb5, 0x03, 0x07, 0x01, 0xd5, 0x00, 0x20, 0x10, 0xbd],
    [0x03, 0x24, 0x07, 0x23, 0x00, 0x29, 0x09, 0xd0, 0x01, 0x2a, 0x0b, 0xd0],
    [0x00, 0x23, 0x41, 0x06, 0x49, 0x0f, 0x01, 0x40, 0x75, 0x48, 0x0b, 0x40],
    [0xc0, 0x5c, 0x10, 0xbd, 0x6a, 0x49, 0x20, 0x31, 0x09, 0x7d, 0x05, 0xe0],
    [0x69, 0x49, 0x67, 0x4a, 0x49, 0x78, 0xe0, 0x3a, 0x89, 0x18, 0xc9, 0x7f],
    [0x61, 0x1a, 0xcb, 0x40, 0xeb, 0xe7, 0xf3, 0xb5, 0x83, 0xb0, 0x00, 0x24],
    [0x64, 0x4e, 0x6b, 0x48, 0x08, 0xf6, 0x90, 0xff, 0x60, 0x48, 0x5f, 0x49],
    [0xc0, 0x38, 0x40, 0x39, 0x80, 0x7c, 0x89, 0x7b, 0x01, 0x43, 0x00, 0x91],
    [0x30, 0x7d, 0x00, 0x28, 0x07, 0xd1, 0x70, 0x7d, 0x0c, 0x28, 0x04, 0xd1],
    [0x63, 0x48, 0x08, 0x21, 0x41, 0x70, 0x08, 0xf6, 0x1a, 0xff, 0x55, 0x48],
    [0xc0, 0x78, 0x12, 0x28, 0x03, 0x98, 0xe3, 0x20, 0x17, 0x07, 0x1d, 0x97],
    [0x5f, 0xfe, 0x16, 0x68, 0x86, 0x49, 0xd5, 0x12, 0x36, 0x23, 0x6a, 0x58],
    [0xe6, 0x04, 0x14, 0x2d, 0x15, 0xec, 0x5d, 0x8d, 0x1d, 0xa0, 0x11, 0xf6],
    [0x69, 0x9e, 0x02, 0x26, 0xc0, 0x00, 0xa4, 0x20, 0x00, 0x02, 0x05, 0xd0],
    [0x02, 0xf6, 0xe8, 0xff, 0x04, 0x46, 0x12, 0x28, 0x0c, 0xd0, 0x0d, 0xe0],
    [0x7f, 0x28, 0x0b, 0xd0, 0x03, 0x28, 0x09, 0xd2, 0x59, 0x48, 0x40, 0x78],
    [0x01, 0x28, 0x48, 0xd1, 0x4c, 0x48, 0x04, 0x24, 0xc4, 0x70, 0x44, 0xe0],
    [0x04, 0x24, 0x42, 0xe0, 0x54, 0x48, 0x40, 0x78, 0x01, 0x28, 0x3e, 0xd1],
    [0x03, 0x98, 0x7f, 0x28, 0x02, 0xd0, 0x1d, 0x2c, 0x38, 0xd0, 0x38, 0xe0],
    [0x44, 0x48, 0x80, 0x78, 0xc0, 0x07, 0x34, 0xd1, 0x35, 0x78, 0x00, 0x27],
    [0x2c, 0xe0, 0x0e, 0x20, 0x78, 0x43, 0x81, 0x19, 0x14, 0x31, 0x48, 0x7b],
    [0x42, 0x06, 0x52, 0x0e, 0x40, 0x2a, 0x03, 0xd3, 0x40, 0x22, 0x4a, 0x73],
    [0xbf, 0x22, 0x04, 0xe0, 0x20, 0x2a, 0x04, 0xd9, 0x20, 0x22, 0x4a, 0x73],
    [0xdf, 0x22, 0x10, 0x40, 0x00, 0xe0, 0x00, 0x20, 0x01, 0x90, 0x00, 0x28],
    [0x12, 0xd0, 0x03, 0x2d, 0x10, 0xd0, 0x0e, 0x20, 0x68, 0x43, 0x84, 0x19],
    [0x20, 0x46, 0x14, 0x30, 0x2a, 0x22, 0x0c, 0xf6, 0xae, 0xff, 0x20, 0x34],
    [0x01, 0x98, 0x60, 0x70, 0x6d, 0x1c, 0x1b, 0x24, 0x2d, 0x48, 0x12, 0x21],
    [0xed, 0xb2, 0xc1, 0x70, 0x7f, 0x1c, 0xff, 0xb2, 0xaf, 0x42, 0xd0, 0xd3],
    [0x35, 0x70, 0x00, 0xe0, 0x02, 0x24, 0x04, 0x98, 0x28, 0x4b, 0x00, 0x28],
    [0x1a, 0xd1, 0x30, 0x4a, 0x59, 0x7a, 0x52, 0x78, 0x01, 0x20, 0x01, 0x2a],
    [0x04, 0xd0, 0x02, 0x2a, 0x11, 0xd0, 0x03, 0x2a, 0x10, 0xd1, 0x0c, 0xe0],
    [0x21, 0x22, 0x92, 0x5d, 0x95, 0x06, 0x03, 0xd5, 0x08, 0x46, 0x02, 0x29],
    [0x03, 0xd1, 0x07, 0xe0, 0x81, 0x29, 0x00, 0xd3, 0x02, 0x24, 0x51, 0x06],
    [0x02, 0xd5, 0x98, 0x7a, 0x00, 0xe0, 0x08, 0x46, 0x04, 0x2c, 0x2a, 0xd1],
    [0x01, 0x28, 0x7e, 0xd9, 0x21, 0x49, 0x49, 0x78, 0x01, 0x29, 0x05, 0xd0],
    [0x17, 0x4d, 0x02, 0x29, 0x49, 0xd0, 0x03, 0x29, 0x1f, 0xd1, 0x63, 0xe0],
    [0x02, 0x28, 0x01, 0xd0, 0x81, 0x28, 0x36, 0xd3, 0x0f, 0x48, 0x80, 0x78],
    [0xc0, 0x07, 0x02, 0xd0, 0x01, 0x20, 0x00, 0xf0, 0xf4, 0xf8, 0x00, 0x98],
    [0x02, 0xf6, 0x78, 0xfe, 0x03, 0x98, 0x02, 0xf6, 0x5c, 0xff, 0x04, 0x46],
    [0x04, 0x28, 0x73, 0xd1, 0x0a, 0x48, 0x01, 0x22, 0x40, 0x30, 0xc0, 0x7a],
    [0x00, 0x99, 0xff, 0xf7, 0x22, 0xff, 0x00, 0x28, 0x6a, 0xd0, 0x02, 0xf6],
    [0x40, 0xff, 0x67, 0xe0, 0x00, 0x00, 0x40, 0x40, 0x02, 0x40, 0x92, 0x1b],
    [0x10, 0x00, 0x80, 0x17, 0x20, 0x00, 0x28, 0x0c, 0x10, 0x00, 0x90, 0x16],
    [0x10, 0x00, 0x03, 0x02, 0x00, 0x00, 0xe0, 0x18, 0x20, 0x00, 0x70, 0x0b],
    [0x10, 0x00, 0xff, 0xfb, 0x00, 0x00, 0x70, 0x1b, 0x10, 0x00, 0x00, 0x02],
    [0x00, 0x00, 0x1c, 0xfa, 0x20, 0x00, 0xfc, 0x0b, 0x10, 0x00, 0x03, 0x28],
    [0x4a, 0xd1, 0x02, 0xf6, 0x65, 0xfe, 0x03, 0x98, 0x02, 0xf6, 0x2b, 0xff],
    [0x04, 0x46, 0x04, 0x28, 0x42, 0xd1, 0x00, 0x20, 0x3e, 0xe0, 0x58, 0x48],
    [0xaf, 0x78, 0x80, 0x78, 0xc0, 0x07, 0x02, 0xd0, 0x01, 0x20, 0x00, 0xf0],
    [0xb0, 0xf8, 0x0d, 0x20, 0x47, 0x43, 0x7d, 0x19, 0x68, 0x7c, 0xc0, 0x07],
    [0x32, 0xd0, 0x00, 0x98, 0x02, 0xf6, 0x89, 0xfe, 0x28, 0x7c, 0x02, 0x22],
    [0x00, 0x99, 0xff, 0xf7, 0xe0, 0xfe, 0x4e, 0x49, 0x88, 0x77, 0x03, 0x98],
    [0x02, 0xf6, 0x0b, 0xff, 0x04, 0x46, 0x23, 0xe0, 0xa8, 0x78, 0x13, 0x21],
    [0x48, 0x43, 0x40, 0x19, 0xc0, 0x1d, 0x01, 0x78, 0x01, 0x29, 0x1b, 0xd1],
    [0x40, 0x78, 0xfe, 0x28, 0x18, 0xd1, 0x02, 0xf6, 0xb0, 0xfe, 0x03, 0x98],
    [0x02, 0xf6, 0xf9, 0xfe, 0x00, 0xe0, 0x05, 0xe0, 0x04, 0x46, 0x04, 0x28],
    [0x0e, 0xd1, 0x02, 0xf6, 0xe6, 0xfd, 0x94, 0x10, 0xc3, 0x7b, 0xa1, 0xd2],
    [0x3d, 0x54, 0x5b, 0x74, 0x07, 0x54, 0x82, 0xc4, 0xe1, 0x2c, 0xa3, 0xa4],
    [0x1b, 0xed, 0xbe, 0xbc, 0x7b, 0xbb, 0xc6, 0x10, 0x96, 0xad, 0x4d, 0xcf],
    [0xc6, 0xd1, 0x02, 0x26, 0xc0, 0x00, 0xa6, 0x20, 0x00, 0x02, 0x09, 0xe0],
    [0x3e, 0x48, 0x00, 0x88, 0x10, 0x28, 0x07, 0xd1, 0x98, 0x7a, 0x01, 0x28],
    [0x04, 0xd9, 0x3a, 0x48, 0x80, 0x1e, 0x40, 0x78, 0x02, 0xf6, 0xc6, 0xfe],
    [0x38, 0x48, 0x80, 0x78, 0xc0, 0x07, 0x20, 0x46, 0x03, 0xd0, 0x00, 0xf0],
    [0x60, 0xf9, 0x04, 0x46, 0x12, 0xe0, 0x02, 0xf6, 0xa6, 0xfd, 0x04, 0x46],
    [0x04, 0x28, 0x11, 0xd0, 0x1b, 0x2c, 0x04, 0xd3, 0x1d, 0x2c, 0x02, 0xd8],
    [0x30, 0x78, 0x00, 0x28, 0x06, 0xd1, 0x2e, 0x48, 0x38, 0x21, 0x40, 0x38],
    [0x82, 0x68, 0x03, 0x20, 0xfe, 0xf5, 0xb6, 0xfb, 0x25, 0x2c, 0x01, 0xd1],
    [0xff, 0xf7, 0x8c, 0xfe, 0x20, 0x46, 0x05, 0xb0, 0xf0, 0xbd, 0x10, 0xb5],
    [0xff, 0xf7, 0xd5, 0xfa, 0x00, 0x28, 0x01, 0xd0, 0x00, 0x20, 0x10, 0xbd],
    [0x23, 0x48, 0x00, 0x88, 0x00, 0x28, 0xfa, 0xd0, 0x01, 0x20, 0x10, 0xbd],
    [0x10, 0xb5, 0x1f, 0x49, 0x8a, 0x78, 0xd2, 0x07, 0x05, 0xd0, 0x01, 0x20],
    [0x88, 0x70, 0x08, 0x46, 0x00, 0xf0, 0xfa, 0xf8, 0x10, 0xbd, 0x00, 0x28],
    [0x08, 0xd0, 0x1b, 0x48, 0x40, 0x78, 0x40, 0x1f, 0x02, 0x28, 0x03, 0xd8],
    [0x18, 0x48, 0x40, 0x38, 0x08, 0xf6, 0xfd, 0xfe, 0x15, 0x48, 0x02, 0xf6],
    [0x53, 0xfd, 0x10, 0xbd, 0x70, 0xb5, 0x12, 0x4c, 0x05, 0x46, 0xa1, 0x78],
    [0xc8, 0x07, 0x05, 0xd0, 0x81, 0x20, 0xa0, 0x70, 0x20, 0x46, 0x00, 0xf0],
    [0xdf, 0xf8, 0x05, 0xe0, 0x02, 0xf6, 0xd6, 0xff, 0x00, 0x2d, 0x01, 0xd0],
    [0x00, 0x20, 0x20, 0x80, 0xff, 0xf7, 0x36, 0xfd, 0x03, 0x20, 0x00, 0x02],
    [0xf7, 0xf5, 0x7d, 0xf8, 0x70, 0xbd, 0x10, 0xb5, 0x06, 0x49, 0x89, 0x78],
    [0xc9, 0x07, 0x01, 0xd0, 0x00, 0xf0, 0x2c, 0xf9, 0x04, 0x46, 0x25, 0x28],
    [0x01, 0xd1, 0xff, 0xf7, 0x3d, 0xfe, 0x20, 0x46, 0x10, 0xbd, 0x92, 0x1b],
    [0x10, 0x00, 0x50, 0x0b, 0x10, 0x00, 0xfc, 0x0b, 0x10, 0x00, 0x10, 0xb5],
    [0x04, 0x46, 0x01, 0x20, 0x00, 0x2c, 0x00, 0xd0, 0x00, 0x20, 0x00, 0x21],
    [0xf8, 0xf5, 0x13, 0xfe, 0x01, 0x21, 0x20, 0x46, 0xf8, 0xf5, 0x0f, 0xfe],
    [0x10, 0xbd, 0x10, 0xb5, 0x04, 0x46, 0x00, 0xf0, 0x1a, 0xf9, 0x96, 0x49],
    [0x20, 0x22, 0x48, 0x88, 0x10, 0x43, 0x48, 0x80, 0x95, 0x48, 0x84, 0x80],
    [0x10, 0xbd, 0x93, 0x48, 0x04, 0x21, 0x82, 0x88, 0x48, 0x04, 0x01, 0x0c],
    [0x08, 0x46, 0x10, 0x40, 0xfa, 0xd0, 0x70, 0x47, 0xf8, 0xb5, 0x01, 0x27],
    [0x8f, 0x4e, 0x04, 0x46, 0x7f, 0x02, 0x60, 0x04, 0x04, 0x0c, 0xbc, 0x42],
    [0x06, 0xd1, 0xb1, 0x7c, 0x70, 0x7c, 0x09, 0x02, 0x04, 0x24, 0x08, 0x43],
    [0xfb, 0xf5, 0xe6, 0xfe, 0x87, 0x48, 0x25, 0x46, 0x80, 0x88, 0x05, 0x40],
    [0xef, 0xd0, 0x02, 0x2d, 0x04, 0xd0, 0x04, 0x22, 0x22, 0x21, 0x02, 0x20],
    [0xfe, 0xf5, 0x1c, 0xfb, 0x28, 0x46, 0xf8, 0xbd, 0xf8, 0xb5, 0x7f, 0x4f],
    [0x04, 0x46, 0x00, 0x88, 0x79, 0x88, 0x05, 0x46, 0x00, 0x29, 0x10, 0xd0],
    [0x88, 0x42, 0x51, 0xd1, 0xe0, 0x78, 0x02, 0x28, 0x35, 0xd0, 0x0f, 0x28],
    [0x3f, 0xd0, 0x1b, 0x28, 0x48, 0xd0, 0x1d, 0x28, 0x46, 0xd0, 0x03, 0x28],
    [0x39, 0xd0, 0x01, 0x20, 0x40, 0x02, 0x78, 0x80, 0x60, 0xe0, 0xe1, 0x78],
    [0x1f, 0x29, 0x12, 0xd0, 0x04, 0xdc, 0x02, 0x29, 0x0f, 0xd0, 0x1e, 0x29],
    [0x04, 0xd1, 0x0c, 0xe0, 0x20, 0x29, 0x07, 0xd0, 0x26, 0x29, 0x08, 0xd0],
    [0x03, 0x21, 0x78, 0x80, 0x39, 0x70, 0x20, 0x28, 0x07, 0xd0, 0x09, 0xe0],
    [0x01, 0x25, 0x6d, 0x02, 0x48, 0xe0, 0xff, 0xf7, 0xb1, 0xff, 0x05, 0x46],
    [0x3f, 0xe0, 0x00, 0x20, 0x02, 0xf6, 0x08, 0xfe, 0x20, 0x88, 0xff, 0xf7],
    [0xa9, 0xff, 0x05, 0x46, 0x21, 0x88, 0x0e, 0x37, 0x43, 0x1d, 0xc6, 0xd2],
    [0x2e, 0x10, 0x0e, 0x62, 0xb2, 0x05, 0x88, 0xd9, 0x86, 0xd7, 0x0b, 0x56],
    [0x12, 0xfb, 0x67, 0x25, 0xc6, 0x3a, 0x0a, 0x10, 0x80, 0x56, 0x11, 0x43],
    [0x04, 0x91, 0x02, 0x26, 0xc0, 0x00, 0xa8, 0x20, 0x00, 0x02, 0xff, 0x20],
    [0x99, 0x30, 0x01, 0x40, 0xa9, 0x42, 0x32, 0xd9, 0x08, 0xf6, 0x8d, 0xfc],
    [0x2f, 0xe0, 0x38, 0x78, 0x40, 0x1e, 0x00, 0x06, 0x00, 0x0e, 0x38, 0x70],
    [0x03, 0xd0, 0x04, 0x22, 0x22, 0x21, 0x02, 0x20, 0x23, 0xe0, 0x16, 0x26],
    [0x19, 0xe0, 0x40, 0x29, 0x01, 0xd1, 0x0f, 0x28, 0x06, 0xd0, 0x16, 0x26],
    [0x00, 0xf0, 0x9c, 0xf8, 0x05, 0x46, 0x1f, 0x2e, 0x12, 0xd1, 0x18, 0xe0],
    [0x1a, 0x26, 0xf7, 0xe7, 0xca, 0x1f, 0xff, 0x3a, 0xfa, 0x3a, 0x12, 0xd0],
    [0xe1, 0x78, 0x02, 0x29, 0xcb, 0xd0, 0x20, 0x2d, 0x02, 0xd1, 0x00, 0x20],
    [0x02, 0xf6, 0xd6, 0xfd, 0x1a, 0x26, 0x00, 0xf0, 0x87, 0xf8, 0x05, 0x46],
    [0x20, 0x20, 0x31, 0x46, 0x01, 0x43, 0x00, 0x22, 0x03, 0x20, 0xfe, 0xf5],
    [0xa7, 0xfa, 0x79, 0x88, 0xc8, 0x1f, 0xff, 0x38, 0xfa, 0x38, 0x01, 0xd0],
    [0x02, 0x20, 0xe0, 0x70, 0x25, 0x80, 0xf8, 0xbd, 0xf8, 0xb5, 0x05, 0x46],
    [0x00, 0x20, 0xff, 0xf7, 0x3e, 0xff, 0x3f, 0x4c, 0x60, 0x88, 0xc1, 0x1f],
    [0xff, 0x39, 0xfa, 0x39, 0x20, 0xd1, 0x08, 0xf6, 0x46, 0xfc, 0x03, 0x26],
    [0x26, 0x70, 0x3b, 0x4f, 0xff, 0xf7, 0xb8, 0xfc, 0x02, 0x28, 0x03, 0xd0],
    [0x28, 0x88, 0x20, 0x28, 0x04, 0xd0, 0x06, 0xe0, 0x20, 0x78, 0x40, 0x1e],
    [0x20, 0x70, 0x03, 0xe0, 0x00, 0x20, 0x02, 0xf6, 0xa3, 0xfd, 0x26, 0x70],
    [0xb9, 0x7c, 0x78, 0x7c, 0x09, 0x02, 0x08, 0x43, 0xfb, 0xf5, 0x36, 0xfe],
    [0x00, 0x20, 0xfe, 0xf5, 0x1a, 0xfb, 0x20, 0x78, 0x00, 0x28, 0xe3, 0xd1],
    [0x20, 0x20, 0x28, 0x80, 0x00, 0xf0, 0x3f, 0xf8, 0x08, 0xf6, 0x21, 0xfc],
    [0xf8, 0xbd, 0x10, 0xb5, 0x28, 0x49, 0x04, 0x46, 0x0a, 0x78, 0x03, 0x2a],
    [0x0c, 0xd1, 0x02, 0x22, 0x0a, 0x70, 0x02, 0x2c, 0x07, 0xd0, 0x0f, 0x2c],
    [0x06, 0xd1, 0x24, 0x49, 0x49, 0x78, 0x06, 0x29, 0x01, 0xd0, 0x05, 0x29],
    [0x02, 0xd1, 0x24, 0x20, 0x04, 0x2c, 0x16, 0xd0, 0xa0, 0x42, 0x14, 0xd1],
    [0xc8, 0x20, 0xfb, 0xf5, 0x0f, 0xfe, 0x00, 0xf0, 0x20, 0xf8, 0x08, 0xf6],
    [0x02, 0xfc, 0x1b, 0x2c, 0x0c, 0xd0, 0x1d, 0x2c, 0x0a, 0xd0, 0x18, 0x21],
    [0x16, 0x48, 0x60, 0x38, 0x82, 0x68, 0x20, 0x20, 0x01, 0x43, 0x03, 0x20],
    [0xfe, 0xf5, 0x40, 0xfa, 0x25, 0x20, 0x10, 0xbd, 0x1a, 0x21, 0xf3, 0xe7],
    [0x10, 0xb5, 0x0f, 0x28, 0x03, 0xd0, 0x02, 0x28, 0x01, 0xd0, 0x03, 0x28],
    [0x04, 0xd1, 0x00, 0xf0, 0x04, 0xf8, 0x08, 0xf6, 0xe6, 0xfb, 0x25, 0x20],
    [0x10, 0xbd, 0x0a, 0x48, 0x00, 0x21, 0x41, 0x80, 0x03, 0x21, 0x01, 0x70],
    [0x00, 0x20, 0xcc, 0xe6, 0x10, 0xb5, 0xff, 0xf7, 0xf6, 0xff, 0x08, 0xf6],
    [0xd8, 0xfb, 0x04, 0x22, 0x22, 0x21, 0x02, 0x20, 0xfe, 0xf5, 0x1e, 0xfa],
    [0xff, 0xf7, 0xdb, 0xfe, 0x10, 0xbd, 0x70, 0x0b, 0x10, 0x00, 0x96, 0x1b],
    [0x10, 0x00, 0xe0, 0x18, 0x20, 0x00, 0x08, 0x0b, 0x10, 0x00, 0x10, 0xb5],
    [0x05, 0x22, 0x22, 0x21, 0x02, 0x20, 0xfe, 0xf5, 0xde, 0xf9, 0xff, 0x48],
    [0x41, 0x78, 0x02, 0x29, 0x00, 0xd0, 0x03, 0x21, 0x01, 0x70, 0xfd, 0x48],
    [0x81, 0x68, 0x89, 0x02, 0x09, 0x0f, 0x09, 0xd0, 0x81, 0x68, 0x01, 0x22],
    [0x92, 0x05, 0x91, 0x43, 0xfa, 0x4a, 0x92, 0x7f, 0xd2, 0x07, 0x52, 0x0a]]"

definition fw_rows_06 :: "u8 list list" where
  "fw_rows_06 = [
    [0x11, 0x43, 0x81, 0x60, 0x10, 0xbd, 0x10, 0xb5, 0x04, 0x46, 0x01, 0xf0],
    [0x84, 0xf8, 0x03, 0x2c, 0x04, 0xd1, 0x01, 0x20, 0x02, 0xf6, 0x6d, 0xfa],
    [0x08, 0xf6, 0xa1, 0xfb, 0xff, 0xf7, 0x3b, 0xfe, 0x00, 0x28, 0x17, 0xd0],
    [0xee, 0x48, 0x40, 0x30, 0xc0, 0x6a, 0x40, 0x00, 0x40, 0x0f, 0x09, 0xd0],
    [0x40, 0x1e, 0xc0, 0xb2, 0xff, 0xf7, 0x87, 0x78, 0x86, 0x17, 0xa7, 0x5b],
    [0xe2, 0xb5, 0xec, 0x77, 0x9e, 0x37, 0xe0, 0x90, 0xa0, 0xf0, 0xc8, 0x49],
    [0x6c, 0xdf, 0xb8, 0x40, 0x2d, 0x82, 0xa2, 0x5f, 0x75, 0x9d, 0x58, 0x77],
    [0xcb, 0x5b, 0x02, 0x26, 0xc0, 0x00, 0xaa, 0x20, 0x00, 0x02, 0xad, 0xfb],
    [0xea, 0x48, 0x0a, 0x21, 0x40, 0x7f, 0xc0, 0x08, 0x48, 0x43, 0x05, 0xe0],
    [0xe7, 0x49, 0x40, 0x31, 0x48, 0x78, 0x89, 0x78, 0x09, 0x02, 0x08, 0x43],
    [0x01, 0xf0, 0x6b, 0xf8, 0x10, 0xbd, 0x10, 0xb5, 0xff, 0xf7, 0xa5, 0xfb],
    [0xff, 0xf7, 0x27, 0xf9, 0x04, 0x46, 0xdd, 0x48, 0x05, 0x22, 0x11, 0x46],
    [0x1c, 0x30, 0x0c, 0xf6, 0xec, 0xfc, 0xda, 0x49, 0x00, 0x2c, 0x0d, 0xd0],
    [0x02, 0x20, 0x48, 0x70, 0xe0, 0x06, 0x81, 0x0f, 0xd8, 0x48, 0x81, 0x68],
    [0x02, 0xd0, 0x42, 0x04, 0x11, 0x43, 0x01, 0xe0, 0x49, 0x00, 0x49, 0x08],
    [0x81, 0x60, 0x10, 0xbd, 0x03, 0x20, 0x48, 0x70, 0x10, 0xbd, 0xf8, 0xb5],
    [0xd3, 0x48, 0xcf, 0x4d, 0x00, 0x68, 0x00, 0x26, 0xc0, 0x03, 0x04, 0x0c],
    [0xee, 0x71, 0x2e, 0x70, 0x01, 0x20, 0x28, 0x71, 0x6e, 0x71, 0xee, 0x70],
    [0xae, 0x70, 0xae, 0x71, 0x04, 0x20, 0x28, 0x72, 0x02, 0xf6, 0x49, 0xf9],
    [0x02, 0xf6, 0xab, 0xf9, 0x02, 0x20, 0xff, 0xf7, 0x24, 0xfb, 0xc8, 0x48],
    [0xc5, 0x4f, 0x06, 0x60, 0xa1, 0x07, 0x06, 0xd5, 0x79, 0x68, 0x89, 0x05],
    [0x03, 0xd5, 0x01, 0x21, 0x01, 0x60, 0x00, 0xf6, 0xc2, 0xfc, 0xbe, 0x48],
    [0x24, 0x30, 0x06, 0x75, 0x08, 0xf6, 0x49, 0xfa, 0x08, 0xf6, 0x39, 0xfb],
    [0xbb, 0x48, 0x0c, 0x30, 0x08, 0xf6, 0x3a, 0xfc, 0xb9, 0x48, 0x10, 0x30],
    [0x08, 0xf6, 0x32, 0xfc, 0x08, 0xf6, 0x1c, 0xfc, 0x68, 0x61, 0xe8, 0x68],
    [0x40, 0x30, 0x06, 0x83, 0x02, 0xf6, 0xdd, 0xfd, 0xe8, 0x68, 0x02, 0xf6],
    [0x6e, 0xfb, 0xff, 0x21, 0x55, 0x31, 0x28, 0x69, 0x0c, 0xf6, 0x9c, 0xfc],
    [0xae, 0x61, 0xff, 0xf7, 0x9a, 0xff, 0xff, 0xf7, 0x90, 0xf8, 0x00, 0x28],
    [0x10, 0xd0, 0x79, 0x68, 0xc1, 0x22, 0xd2, 0x01, 0x11, 0x43, 0x79, 0x60],
    [0x02, 0x28, 0x09, 0xd1, 0xad, 0x48, 0x80, 0x7f, 0xc0, 0x07, 0x0d, 0xd0],
    [0xa7, 0x48, 0x40, 0x30, 0xc1, 0x6a, 0xc2, 0x14, 0x11, 0x43, 0xc1, 0x62],
    [0x78, 0x68, 0x00, 0x06, 0x14, 0xd5, 0x68, 0x78, 0xa7, 0x4d, 0x02, 0x28],
    [0x03, 0xd0, 0x06, 0xe0, 0xfb, 0xf5, 0xf9, 0xfa, 0xf4, 0xe7, 0x00, 0xf0],
    [0xc8, 0xff, 0x01, 0x28, 0x09, 0xd0, 0xa0, 0x07, 0x00, 0xd5, 0x2e, 0x61],
    [0x02, 0x20, 0xff, 0xf7, 0xca, 0xf8, 0x01, 0x20, 0x00, 0xf0, 0xcd, 0xff],
    [0xf8, 0xbd, 0x9d, 0x48, 0x41, 0x68, 0x04, 0x22, 0x11, 0x43, 0x41, 0x60],
    [0x02, 0x20, 0xff, 0xf7, 0x3c, 0xff, 0x60, 0x07, 0xf4, 0xd5, 0x2e, 0x61],
    [0xf8, 0xbd, 0x10, 0xb5, 0x90, 0x4c, 0x60, 0x69, 0x00, 0x78, 0x03, 0x28],
    [0x0b, 0xd1, 0xe0, 0x68, 0x00, 0x68, 0x00, 0x28, 0x07, 0xd0, 0x40, 0x89],
    [0x00, 0x28, 0x04, 0xd0, 0x00, 0xf0, 0x9c, 0xff, 0xe1, 0x68, 0x00, 0x20],
    [0x08, 0x60, 0x10, 0xbd, 0x10, 0xb5, 0x86, 0x4c, 0x60, 0x69, 0x00, 0x78],
    [0x03, 0x28, 0x18, 0xd0, 0x01, 0x20, 0xff, 0xf7, 0x8b, 0xfd, 0x82, 0x48],
    [0x24, 0x30, 0xf9, 0xf5, 0x6d, 0xfc, 0x02, 0xf6, 0x9d, 0xf9, 0x85, 0x49],
    [0x00, 0x20, 0x08, 0x61, 0x7f, 0x48, 0x41, 0x68, 0x80, 0x22, 0x91, 0x43],
    [0x41, 0x60, 0x21, 0x78, 0x05, 0x20, 0x00, 0xf0, 0x71, 0xff, 0x00, 0x20],
    [0x00, 0xf0, 0x8f, 0xff, 0x10, 0xbd, 0xff, 0xf7, 0xcc, 0xff, 0x09, 0x21],
    [0xe0, 0x68, 0x02, 0xf6, 0xda, 0xfd, 0xff, 0xf7, 0xb7, 0xfa, 0xe0, 0xe7],
    [0x73, 0x49, 0xc9, 0x68, 0x08, 0x60, 0x70, 0x47, 0x70, 0xb5, 0x70, 0x4b],
    [0x70, 0x4a, 0x18, 0x33, 0x0f, 0x28, 0x09, 0xd1, 0xd9, 0x78, 0x49, 0x1c],
    [0xd9, 0x70, 0x11, 0x79, 0x4c, 0x07, 0xa4, 0x0f, 0x01, 0x2c, 0x0d, 0xd1],
    [0xc9, 0x07, 0x0b, 0xd0, 0x6a, 0x49, 0x37, 0xc4, 0xde, 0x3f, 0xca, 0x94],
    [0x7f, 0x78, 0xcf, 0xeb, 0x7f, 0x0f, 0xf4, 0xa8, 0x04, 0x1e, 0xab, 0xb2],
    [0x2a, 0x1d, 0x77, 0xd9, 0x2d, 0x92, 0xdb, 0x36, 0x37, 0x41, 0xd9, 0x06],
    [0xbc, 0x7d, 0x02, 0x26, 0xc0, 0x00, 0xac, 0x20, 0x00, 0x02, 0x8c, 0x68],
    [0x01, 0x25, 0xad, 0x05, 0xac, 0x43, 0x8c, 0x60, 0x51, 0x69, 0x49, 0x78],
    [0x59, 0x70, 0x91, 0x69, 0x00, 0xf0, 0x44, 0xff, 0x70, 0xbd, 0x10, 0xb5],
    [0x04, 0x46, 0x61, 0x48, 0x0f, 0x2c, 0x13, 0xd0, 0x07, 0xdc, 0x01, 0x21],
    [0x02, 0x2c, 0x11, 0xd0, 0x03, 0x2c, 0x12, 0xd0, 0x0e, 0x2c, 0x14, 0xd1],
    [0x01, 0xe0, 0x27, 0x2c, 0x11, 0xd1, 0xc0, 0x68, 0x60, 0x30, 0x00, 0x79],
    [0x80, 0x07, 0x01, 0xd5, 0x01, 0x20, 0x08, 0xe0, 0x00, 0x20, 0x06, 0xe0],
    [0x17, 0x20, 0x04, 0xe0, 0x81, 0x71, 0x18, 0x20, 0x01, 0xe0, 0x81, 0x71],
    [0x16, 0x20, 0x00, 0xf0, 0x29, 0xff, 0x20, 0x46, 0xff, 0xf7, 0x3f, 0xfd],
    [0x25, 0x28, 0x08, 0xd1, 0x57, 0x48, 0x03, 0x21, 0x81, 0x70, 0x06, 0x20],
    [0x00, 0xf0, 0x16, 0xff, 0x01, 0x20, 0x00, 0xf0, 0x34, 0xff, 0x10, 0xbd],
    [0xfe, 0xb5, 0x49, 0x4e, 0x00, 0x24, 0xb4, 0x71, 0xf0, 0x68, 0x62, 0x21],
    [0x09, 0x5a, 0x09, 0x06, 0x02, 0xd5, 0x69, 0x46, 0x01, 0x60, 0x4c, 0x81],
    [0x4d, 0x49, 0xca, 0x88, 0x82, 0x63, 0x49, 0x69, 0x41, 0x63, 0x4b, 0x49],
    [0x0d, 0x78, 0x01, 0x2d, 0x06, 0xd1, 0xa9, 0x1e, 0x44, 0x63, 0x81, 0x87],
    [0x01, 0x20, 0xb0, 0x70, 0x00, 0xf0, 0x02, 0xff, 0xf0, 0x68, 0x01, 0x68],
    [0x41, 0x60, 0x71, 0x69, 0x4b, 0x78, 0x0d, 0xf6, 0x82, 0xf9, 0x09, 0x2a],
    [0x06, 0x06, 0x1a, 0x27, 0x2a, 0x2a, 0x2a, 0x18, 0x2a, 0x00, 0x6a, 0x21],
    [0x0c, 0x54, 0xfd, 0xf5, 0x5b, 0xfd, 0x07, 0x46, 0x70, 0x69, 0x40, 0x78],
    [0x01, 0x28, 0x0f, 0xd1, 0x0f, 0x2f, 0x0d, 0xd1, 0xf0, 0x68, 0x60, 0x30],
    [0x80, 0x7a, 0x04, 0x28, 0x08, 0xd1, 0x0e, 0x27, 0x06, 0xe0, 0x07, 0x22],
    [0x00, 0xe0, 0x00, 0x22, 0x04, 0x21, 0xfd, 0xf5, 0xb4, 0xfe, 0x07, 0x46],
    [0x01, 0x2d, 0x0b, 0xd0, 0x16, 0x2f, 0x01, 0xd0, 0x00, 0xf0, 0xd6, 0xfe],
    [0x38, 0x46, 0xfe, 0xbd, 0xfd, 0xf5, 0x3c, 0xfd, 0xf3, 0xe7, 0x08, 0xf6],
    [0x58, 0xfc, 0xf0, 0xe7, 0xb4, 0x70, 0xf5, 0xe7, 0x21, 0x49, 0xc9, 0x68],
    [0x40, 0x31, 0x0a, 0x8b, 0x82, 0x43, 0x0a, 0x83, 0x70, 0x47, 0x1d, 0x4a],
    [0xd3, 0x68, 0x60, 0x33, 0x5a, 0x88, 0x00, 0x29, 0x01, 0xd0, 0x02, 0x43],
    [0x00, 0xe0, 0x82, 0x43, 0x5a, 0x80, 0x70, 0x47, 0x18, 0x49, 0xc9, 0x68],
    [0x40, 0x31, 0x0a, 0x8b, 0x02, 0x43, 0x0a, 0x83, 0x70, 0x47, 0xf8, 0xb5],
    [0x14, 0x4d, 0x06, 0x46, 0xe8, 0x68, 0x84, 0x68, 0x40, 0x30, 0xc0, 0x7f],
    [0x05, 0x28, 0x02, 0xd1, 0x03, 0x20, 0xfe, 0xf7, 0x36, 0xfc, 0x68, 0x69],
    [0x14, 0x4f, 0x40, 0x78, 0x40, 0x37, 0x07, 0x28, 0x11, 0xd1, 0x78, 0x79],
    [0x03, 0x28, 0x0e, 0xd1, 0xe8, 0x68, 0x40, 0x30, 0xc0, 0x7f, 0x00, 0x28],
    [0x09, 0xd1, 0x60, 0x89, 0x03, 0x28, 0x06, 0xd3, 0x60, 0x68, 0x41, 0x78],
    [0xd4, 0x29, 0x02, 0xd1, 0x80, 0x78, 0x00, 0x28, 0x20, 0xd0, 0x07, 0x21],
    [0xe8, 0x68, 0x02, 0xf6, 0xf2, 0xfc, 0x04, 0x46, 0x15, 0xe0, 0x9c, 0x1b],
    [0x10, 0x00, 0x00, 0x40, 0x02, 0x40, 0x60, 0x17, 0x20, 0x00, 0x24, 0x09],
    [0x10, 0x00, 0x78, 0x1b, 0x10, 0x00, 0xa0, 0x15, 0x20, 0x00, 0xc0, 0x0b],
    [0x10, 0x00, 0x00, 0x40, 0x00, 0x40, 0x84, 0x1b, 0x10, 0x00, 0x78, 0x16],
    [0x10, 0x00, 0x22, 0x19, 0x10, 0x00, 0x04, 0x28, 0x0c, 0xd0, 0x15, 0x2c],
    [0x0c, 0xd0, 0x10, 0xe0, 0x00, 0x21, 0xfe, 0x48, 0x08, 0xf6, 0xd6, 0xfc],
    [0x04, 0x28, 0x02, 0xd0, 0xe8, 0x68, 0xfd, 0xf5, 0x15, 0xfa, 0xf8, 0xbd],
    [0x00, 0x24, 0x04, 0xe0, 0x07, 0x21, 0xe8, 0x68, 0x02, 0xf6, 0xc5, 0xfc],
    [0x04, 0x46, 0x78, 0x79, 0x03, 0x28, 0x0c, 0xba, 0x53, 0x5a, 0x6c, 0x52],
    [0x8e, 0xec, 0x99, 0x50, 0xee, 0xfa, 0x4c, 0x77, 0xc2, 0x16, 0xde, 0x98],
    [0x41, 0x4f, 0x63, 0x02, 0x64, 0xf1, 0x4d, 0xb9, 0x18, 0x42, 0xa1, 0x13],
    [0xd2, 0xd9, 0x02, 0x26, 0xc0, 0x00, 0xae, 0x20, 0x00, 0x02, 0x07, 0xd1],
    [0x00, 0x2c, 0x05, 0xd1, 0xe8, 0x68, 0x40, 0x30, 0xc0, 0x7f, 0x00, 0x28],
    [0x00, 0xd0, 0x0f, 0x24, 0xe8, 0x79, 0x01, 0x28, 0x0c, 0xd1, 0x03, 0x2c],
    [0x0a, 0xd0, 0x0f, 0x2c, 0x08, 0xd0, 0x09, 0x2c, 0x04, 0xd0, 0x08, 0x2c],
    [0x02, 0xd0, 0x0f, 0x20, 0xff, 0xf7, 0xd8, 0xfe, 0x00, 0x20, 0xe8, 0x71],
    [0x23, 0x1f, 0x0d, 0xf6, 0xc6, 0xf8, 0x0e, 0x09, 0x08, 0x09, 0x08, 0x33],
    [0x33, 0x08, 0x08, 0x08, 0x08, 0x4c, 0x82, 0x08, 0x7f, 0x08, 0xd0, 0xe7],
    [0x05, 0x21, 0xc9, 0x01, 0x01, 0x20, 0xfe, 0xf7, 0x2e, 0xff, 0x68, 0x69],
    [0x01, 0x78, 0x03, 0x29, 0x06, 0xd1, 0x41, 0x78, 0x06, 0x29, 0x03, 0xd1],
    [0xe9, 0x68, 0x04, 0x22, 0x40, 0x31, 0x4a, 0x80, 0xdc, 0x49, 0x88, 0x22],
    [0x8a, 0x70, 0x7a, 0x79, 0x03, 0x2a, 0x02, 0xd1, 0x42, 0x78, 0x07, 0x2a],
    [0x0b, 0xd0, 0x0f, 0x20, 0xff, 0xf7, 0xae, 0xfe, 0x06, 0x2c, 0xb2, 0xd1],
    [0x01, 0x20, 0x00, 0x21, 0x40, 0x02, 0xff, 0xf7, 0x4e, 0xff, 0x00, 0x20],
    [0x5d, 0xe0, 0x01, 0x22, 0xea, 0x71, 0xc0, 0x78, 0x88, 0x70, 0xf1, 0xe7],
    [0x01, 0x2e, 0x10, 0xd0, 0x02, 0x2e, 0x0e, 0xd0, 0x21, 0x46, 0x12, 0x20],
    [0x00, 0xf0, 0xf8, 0xfd, 0x07, 0x2e, 0x08, 0xd1, 0xe8, 0x68, 0x40, 0x30],
    [0x40, 0x8b, 0xc0, 0x04, 0x03, 0xd5, 0x01, 0x20, 0x00, 0x03, 0xff, 0xf7],
    [0x3f, 0xff, 0xff, 0xf7, 0x4c, 0xfe, 0x02, 0x20, 0x00, 0xf0, 0x09, 0xfe],
    [0xf8, 0xbd, 0xe8, 0x68, 0x81, 0x68, 0x49, 0x89, 0x00, 0x29, 0x05, 0xd1],
    [0x69, 0x69, 0x49, 0x78, 0x05, 0x29, 0x06, 0xd0, 0x06, 0x29, 0x04, 0xd0],
    [0x68, 0x69, 0x40, 0x78, 0x03, 0x28, 0x0e, 0xd0, 0x18, 0xe0, 0x00, 0x68],
    [0x00, 0x28, 0x01, 0xd0, 0x00, 0xf0, 0xde, 0xfd, 0xe8, 0x68, 0x02, 0xf6],
    [0x48, 0xf8, 0xe8, 0x68, 0x41, 0x68, 0x01, 0x60, 0x08, 0xf6, 0x5f, 0xfb],
    [0xf8, 0xbd, 0x01, 0x20, 0x00, 0x21, 0x40, 0x02, 0xff, 0xf7, 0x0b, 0xff],
    [0xc0, 0x20, 0xff, 0xf7, 0x01, 0xff, 0x0f, 0x20, 0xff, 0xf7, 0x5e, 0xfe],
    [0xe8, 0x68, 0x60, 0x30, 0x00, 0x79, 0x80, 0x07, 0x01, 0xd5, 0x01, 0x20],
    [0x00, 0xe0, 0x00, 0x20, 0x00, 0xf0, 0xbc, 0xfd, 0xff, 0xf7, 0x13, 0xfe],
    [0xf8, 0xbd, 0xff, 0xf7, 0x10, 0xfe, 0x68, 0x69, 0x01, 0x78, 0x03, 0x29],
    [0x02, 0xd1, 0x40, 0x78, 0x02, 0x28, 0xf5, 0xd9, 0x17, 0x20, 0x00, 0xf0],
    [0xad, 0xfd, 0xf8, 0xbd, 0x70, 0xb5, 0xa0, 0x4d, 0x04, 0x46, 0x18, 0x3d],
    [0x28, 0x79, 0x06, 0x21, 0x01, 0x40, 0xa1, 0x42, 0x06, 0xd0, 0xc1, 0x07],
    [0x05, 0xd0, 0x21, 0x46, 0x0e, 0x20, 0x00, 0xf0, 0x95, 0xfd, 0x2c, 0x71],
    [0x70, 0xbd, 0x04, 0x2c, 0xfc, 0xd1, 0x08, 0x21, 0x08, 0x43, 0x28, 0x71],
    [0x70, 0xbd, 0x70, 0xb5, 0x06, 0x46, 0x93, 0x48, 0x00, 0x24, 0x40, 0x30],
    [0xc4, 0x77, 0xff, 0xf7, 0xe6, 0xfd, 0x91, 0x4d, 0x18, 0x3d, 0x0d, 0x2e],
    [0x1d, 0xd0, 0x05, 0x21, 0xe8, 0x68, 0x02, 0xf6, 0xf0, 0xfb, 0x22, 0x28],
    [0x16, 0xd1, 0xe8, 0x68, 0x40, 0x30, 0x04, 0x83, 0x6c, 0x71, 0xec, 0x70],
    [0x02, 0x20, 0xfe, 0xf7, 0x8e, 0xfe, 0x04, 0x20, 0xff, 0xf7, 0xcc, 0xff],
    [0x02, 0x20, 0x00, 0xf0, 0x8e, 0xfd, 0x86, 0x49, 0x48, 0x7e, 0x89, 0x7e],
    [0x09, 0x02, 0x08, 0x43, 0x00, 0xf0, 0x91, 0xfd, 0xff, 0xf7, 0xb6, 0xf8],
    [0x70, 0xbd, 0x03, 0x21, 0xe0, 0xe7, 0xf8, 0xb5, 0x7f, 0x4c, 0x02, 0x46],
    [0x18, 0x3c, 0x60, 0x69, 0x13, 0x46, 0x46, 0x78, 0x20, 0x46, 0xc0, 0x68],
    [0x00, 0x25, 0x01, 0x46, 0x80, 0x27, 0x60, 0x31, 0x0c, 0xf6, 0xe5, 0xff],
    [0x1d, 0x27, 0x27, 0x27, 0x27, 0x27, 0x36, 0x95, 0x14, 0xc5, 0x5d, 0xf5],
    [0xf3, 0x31, 0xd4, 0x05, 0xa2, 0x61, 0xc7, 0x1f, 0x3b, 0xfd, 0xd9, 0x4c],
    [0x68, 0xfa, 0x1b, 0x8a, 0x9c, 0x8a, 0x1b, 0x76, 0xf6, 0x45, 0x30, 0x2c],
    [0x41, 0xe7, 0x02, 0x26, 0xc0, 0x00, 0xb0, 0x20, 0x00, 0x02, 0x10, 0x5e],
    [0x27, 0x96, 0x82, 0x27, 0x27, 0x27, 0x33, 0x33, 0x27, 0x37, 0x27, 0x3d],
    [0x39, 0x52, 0x27, 0x78, 0x76, 0x7c, 0x72, 0x6f, 0x61, 0x56, 0x27, 0x00],
    [0x02, 0xf6, 0x36, 0xf8, 0x71, 0x48, 0x81, 0x68, 0x89, 0x0a, 0x89, 0x02],
    [0x81, 0x60, 0x60, 0x69, 0x00, 0x78, 0x03, 0x28, 0x0c, 0xd0, 0xa0, 0x79]]"

definition fw_rows_07 :: "u8 list list" where
  "fw_rows_07 = [
    [0xff, 0xf7, 0x22, 0xfb, 0x6c, 0x48, 0x81, 0x78, 0x06, 0x20, 0x00, 0xf0],
    [0x2f, 0xfd, 0x01, 0x20, 0x00, 0xf0, 0x4d, 0xfd, 0xa5, 0x71, 0xf8, 0xbd],
    [0xff, 0xf7, 0x89, 0xfd, 0x63, 0x48, 0x0c, 0x30, 0xf9, 0xf5, 0x12, 0xfa],
    [0x09, 0x21, 0xe0, 0x68, 0x02, 0xf6, 0x93, 0xfb, 0xea, 0xe7, 0x10, 0x46],
    [0xff, 0xf7, 0x8f, 0xff, 0xf8, 0xbd, 0x04, 0x21, 0x3f, 0xe0, 0x30, 0x46],
    [0xff, 0xf7, 0x6f, 0xfe, 0xf8, 0xbd, 0x03, 0x2e, 0x02, 0xd1, 0xca, 0x88],
    [0x3a, 0x43, 0xca, 0x80, 0x08, 0xf6, 0xa3, 0xfa, 0xe0, 0x68, 0x00, 0x68],
    [0x40, 0x89, 0x00, 0x28, 0x03, 0xd0, 0x60, 0x69, 0x40, 0x78, 0x03, 0x28],
    [0xee, 0xd1, 0x00, 0xf0, 0x0f, 0xfd, 0xe0, 0x68, 0x05, 0x60, 0xf8, 0xbd],
    [0xa5, 0x71, 0x08, 0xf6, 0xc7, 0xfa, 0x04, 0xe0, 0xff, 0xf7, 0xe8, 0xfd],
    [0x03, 0x28, 0x00, 0xd1, 0x27, 0x20, 0xff, 0xf7, 0xb2, 0xfd, 0xf8, 0xbd],
    [0xff, 0xf7, 0xe0, 0xfd, 0xf9, 0xe7, 0x08, 0xf6, 0xf0, 0xf9, 0xe0, 0x68],
    [0x01, 0x68, 0x60, 0x69, 0xc0, 0x78, 0x02, 0xf6, 0xa4, 0xf9, 0x43, 0x49],
    [0x88, 0x70, 0x0d, 0x20, 0xff, 0xf7, 0x84, 0xfd, 0xf8, 0xbd, 0x00, 0xf0],
    [0x7c, 0xfd, 0xf8, 0xbd, 0x8d, 0x72, 0x00, 0xf0, 0x49, 0xfd, 0xf8, 0xbd],
    [0x0b, 0x21, 0x00, 0xe0, 0x0a, 0x21, 0x02, 0xf6, 0x4a, 0xfb, 0xf8, 0xbd],
    [0xca, 0x88, 0xba, 0x43, 0xca, 0x80, 0x08, 0xf6, 0x66, 0xfa, 0xcc, 0xe7],
    [0x00, 0x20, 0x02, 0xf6, 0x81, 0xf9, 0x00, 0x28, 0x04, 0xd0, 0x07, 0x28],
    [0x02, 0xd0, 0xff, 0xf7, 0x3b, 0xfd, 0xf8, 0xbd, 0x04, 0x20, 0x20, 0x70],
    [0x01, 0xf6, 0xb8, 0xff, 0x29, 0x46, 0xa5, 0x71, 0x13, 0x20, 0x00, 0xf0],
    [0xbd, 0xfc, 0xf8, 0xbd, 0x00, 0xf0, 0xf3, 0xfc, 0xf8, 0xbd, 0xf8, 0xb5],
    [0x2b, 0x4d, 0xff, 0x24, 0x18, 0x3d, 0x69, 0x69, 0x00, 0x28, 0x30, 0xd0],
    [0x03, 0x28, 0x2d, 0xd1, 0x48, 0x78, 0x29, 0x4e, 0x08, 0x28, 0x01, 0xd1],
    [0x7f, 0x20, 0x30, 0x80, 0x48, 0x78, 0x03, 0x28, 0x08, 0xd1, 0xf0, 0x78],
    [0x03, 0x28, 0x05, 0xd1, 0xe8, 0x68, 0x08, 0xf6, 0xa2, 0xf9, 0xe8, 0x68],
    [0x08, 0xf6, 0xb5, 0xf9, 0x32, 0x88, 0xd0, 0xb2, 0x03, 0x28, 0x05, 0xd2],
    [0x0e, 0x21, 0x48, 0x43, 0x29, 0x69, 0x40, 0x18, 0x20, 0x30, 0x44, 0x78],
    [0xf1, 0x78, 0xd0, 0xb2, 0xff, 0xf7, 0x23, 0xf9, 0xff, 0x2c, 0x07, 0xd0],
    [0x31, 0x88, 0x0e, 0x22, 0xc9, 0xb2, 0x51, 0x43, 0x2a, 0x69, 0x89, 0x18],
    [0x20, 0x31, 0x4c, 0x70, 0x04, 0x28, 0x01, 0xd1, 0x00, 0xf0, 0x54, 0xfd],
    [0xf8, 0xbd, 0x28, 0x69, 0x00, 0x27, 0xff, 0x30, 0x21, 0x30, 0xc7, 0x74],
    [0x0d, 0x48, 0xc9, 0x78, 0x81, 0x70, 0x00, 0x21, 0x7f, 0x20, 0xff, 0xf7],
    [0x08, 0xf9, 0x04, 0x46, 0x24, 0x28, 0xf8, 0xd0, 0x28, 0x69, 0x04, 0x2c],
    [0x06, 0x78, 0xe9, 0xd0, 0x1b, 0x2c, 0x28, 0xd3, 0x1d, 0x2c, 0x26, 0xd8],
    [0x00, 0x2e, 0x24, 0xd0, 0x00, 0x25, 0x70, 0x1e, 0x02, 0x4f, 0x00, 0x90],
    [0x16, 0xe0, 0x10, 0x0b, 0x10, 0x00, 0xb4, 0x1b, 0x10, 0x00, 0x60, 0x17],
    [0x20, 0x00, 0x00, 0x40, 0x02, 0x40, 0x84, 0x1b, 0x10, 0x00, 0x00, 0x98],
    [0x85, 0x42, 0x10, 0xd1, 0x1b, 0x2c, 0x0a, 0xd0, 0x1c, 0x2c, 0x0a, 0xd0],
    [0x03, 0x20, 0x38, 0x70, 0x09, 0x20, 0xa3, 0x0c, 0xd9, 0x95, 0x64, 0xb1],
    [0x2c, 0x5a, 0xfe, 0x1e, 0x62, 0xf7, 0x58, 0x05, 0x73, 0xb8, 0x6b, 0xc8],
    [0xbd, 0xbc, 0xcf, 0x92, 0x3b, 0x3d, 0x02, 0xd4, 0x12, 0x84, 0xd0, 0x10],
    [0x11, 0x52, 0x02, 0x26, 0xc0, 0x00, 0xb2, 0x20, 0x00, 0x02, 0xff, 0xf7],
    [0xed, 0xfc, 0x6d, 0x1c, 0xb5, 0x42, 0xf0, 0xd3, 0xf8, 0xbd, 0x00, 0x20],
    [0xf5, 0xe7, 0x01, 0x20, 0xf3, 0xe7, 0x02, 0x20, 0xf1, 0xe7, 0x25, 0x2c],
    [0x02, 0xd0, 0xa8, 0x79, 0xff, 0xf7, 0x2c, 0xfa, 0x01, 0x20, 0x00, 0xf0],
    [0x5c, 0xfc, 0xf8, 0xbd, 0xf8, 0xb5, 0xff, 0x48, 0x00, 0x90, 0x00, 0x7f],
    [0x00, 0x25, 0x01, 0x28, 0x07, 0xd1, 0xf7, 0xf5, 0x89, 0xfb, 0x01, 0x28],
    [0x03, 0xd9, 0xfb, 0x48, 0x40, 0x6a, 0xc0, 0x07, 0x41, 0xd1, 0xfa, 0x4f],
    [0xfb, 0x4e, 0x78, 0x78, 0x07, 0x28, 0x2c, 0xd1, 0xf6, 0x48, 0xf9, 0x4c],
    [0x40, 0x38, 0x80, 0x68, 0x40, 0x68, 0x41, 0x78, 0xd4, 0x29, 0x18, 0xd1],
    [0x81, 0x78, 0x04, 0x29, 0x15, 0xd1, 0x61, 0x79, 0x03, 0x29, 0x12, 0xd1],
    [0x00, 0x79, 0xc0, 0x08, 0x38, 0x79, 0x05, 0xd0, 0x00, 0x07, 0x00, 0x0f],
    [0x02, 0x28, 0x0a, 0xd1, 0xf0, 0x48, 0x05, 0xe0, 0x00, 0x07, 0x00, 0x0f],
    [0x06, 0x28, 0x04, 0xd1, 0xed, 0x48, 0x14, 0x38, 0xfd, 0xf5, 0x87, 0xfc],
    [0x01, 0x25, 0xe9, 0x48, 0x10, 0x30, 0xc0, 0x79, 0x01, 0x28, 0x06, 0xd1],
    [0xb8, 0x78, 0x02, 0x28, 0x03, 0xd1, 0xe5, 0x48, 0x40, 0x79, 0x02, 0x28],
    [0x07, 0xd0, 0x07, 0x21, 0xf0, 0x68, 0x02, 0xf6, 0x68, 0xfa, 0x04, 0x46],
    [0x15, 0x28, 0x11, 0xd0, 0x15, 0xe0, 0xdb, 0x48, 0x01, 0x21, 0x40, 0x38],
    [0x08, 0xf6, 0x64, 0xfa, 0x04, 0x46, 0x04, 0x28, 0x04, 0xd0, 0xd7, 0x48],
    [0x40, 0x38, 0xfc, 0xf5, 0xa1, 0xff, 0xf8, 0xbd, 0xd9, 0x48, 0x03, 0x21],
    [0x41, 0x71, 0x06, 0xe0, 0x07, 0x21, 0xf0, 0x68, 0x02, 0xf6, 0x4f, 0xfa],
    [0x04, 0x46, 0x00, 0x2c, 0x0d, 0xd0, 0x00, 0x2d, 0x07, 0xd0, 0x38, 0x79],
    [0x00, 0x07, 0x00, 0x0f, 0x02, 0x28, 0x0c, 0xd0, 0xd1, 0x48, 0xfd, 0xf5],
    [0x50, 0xfc, 0x04, 0x2c, 0x0a, 0xd0, 0x06, 0x2c, 0x08, 0xd0, 0xf0, 0x68],
    [0x40, 0x30, 0x01, 0x7f, 0x01, 0x29, 0x4a, 0xd0, 0x5c, 0xe0, 0xca, 0x48],
    [0x14, 0x38, 0xf0, 0xe7, 0x00, 0x98, 0x00, 0x7f, 0x00, 0x28, 0x02, 0xd0],
    [0x20, 0x20, 0xfc, 0xf5, 0x9c, 0xff, 0x03, 0x20, 0xfe, 0xf7, 0xd3, 0xfc],
    [0x70, 0x69, 0x40, 0x78, 0x01, 0x28, 0x02, 0xd1, 0x07, 0x20, 0xfe, 0xf7],
    [0xcc, 0xfc, 0x70, 0x69, 0x41, 0x78, 0x07, 0x29, 0x0a, 0xd0, 0xf0, 0x68],
    [0x60, 0x30, 0x01, 0x79, 0x89, 0x06, 0x02, 0xd5, 0x40, 0x88, 0x80, 0x05],
    [0x08, 0xd5, 0x06, 0x2c, 0x06, 0xd0, 0x1b, 0xe0, 0x01, 0x21, 0xf1, 0x71],
    [0xb6, 0x49, 0xc0, 0x78, 0x18, 0x31, 0x88, 0x70, 0xf0, 0x68, 0xdf, 0x22],
    [0x60, 0x30, 0x01, 0x79, 0x11, 0x40, 0x01, 0x71, 0x06, 0x2c, 0x0d, 0xd1],
    [0x0f, 0x20, 0xff, 0xf7, 0x31, 0xfc, 0x01, 0x20, 0x00, 0x21, 0x40, 0x02],
    [0xff, 0xf7, 0xd3, 0xfc, 0xc0, 0x20, 0xff, 0xf7, 0xc9, 0xfc, 0x00, 0x20],
    [0x00, 0xf0, 0x8e, 0xfb, 0x70, 0x69, 0x40, 0x78, 0x02, 0x28, 0x02, 0xd1],
    [0x8e, 0x20, 0xfe, 0xf7, 0x9a, 0xfc, 0x05, 0x20, 0x00, 0xf0, 0x9d, 0xfb],
    [0xf8, 0xbd, 0xc1, 0x7f, 0x00, 0x29, 0x0f, 0xd1, 0x00, 0x8b, 0x40, 0x07],
    [0x0c, 0xd5, 0xa3, 0x48, 0xff, 0xf7, 0xb2, 0xfc, 0x00, 0x21, 0x02, 0x22],
    [0x08, 0x46, 0xfc, 0xf5, 0xd9, 0xfe, 0x02, 0x22, 0x11, 0x46, 0x01, 0x20],
    [0xfc, 0xf5, 0xd4, 0xfe, 0x84, 0x20, 0xfc, 0xf5, 0x46, 0xff, 0xf8, 0xbd],
    [0x01, 0x78, 0x03, 0x22, 0x53, 0x1a, 0x07, 0x21, 0xd9, 0x40, 0x43, 0x78],
    [0x80, 0x78, 0xd3, 0x1a, 0x70, 0x22, 0xda, 0x40, 0x12, 0x09, 0x12, 0x01],
    [0x11, 0x43, 0x00, 0x28, 0x00, 0xd0, 0x80, 0x20, 0x08, 0x43, 0x70, 0x47],
    [0xf8, 0xb5, 0x8e, 0x4e, 0x00, 0x27, 0x4d, 0x00, 0x22, 0x52, 0x4b, 0xb5],
    [0x05, 0xe3, 0x3b, 0x54, 0x8d, 0xb3, 0x2f, 0x0e, 0x71, 0x20, 0x8f, 0xd8],
    [0xfc, 0x4d, 0x26, 0xdb, 0xcf, 0x23, 0x44, 0xf5, 0xb7, 0x98, 0x5f, 0xb7],
    [0x6e, 0x9e, 0x02, 0x26, 0xc0, 0x00, 0xb4, 0x20, 0x00, 0x02, 0x34, 0x69],
    [0xdf, 0x34, 0x00, 0x28, 0x40, 0xd0, 0x8f, 0x49, 0x02, 0x28, 0x6b, 0xd0],
    [0xc0, 0x28, 0x6f, 0xd1, 0x8e, 0x48, 0x89, 0x7e, 0x8d, 0x4d, 0x41, 0x38],
    [0x00, 0x29, 0x69, 0xd0, 0x00, 0x2d, 0x25, 0xd0, 0x00, 0x28, 0x23, 0xd0],
    [0x40, 0x78, 0x00, 0x28, 0x63, 0xd0, 0x04, 0x22, 0xa9, 0x1c, 0x20, 0x46],
    [0x0b, 0xf6, 0xdb, 0xff, 0xa8, 0x79, 0x20, 0x71, 0x03, 0x22, 0xe9, 0x1d],
    [0x60, 0x1d, 0x0b, 0xf6, 0xd4, 0xff, 0xa8, 0x7a, 0xa0, 0x72, 0x29, 0x46],
    [0x03, 0x22, 0x1b, 0x31, 0x68, 0x46, 0x0b, 0xf6, 0xcc, 0xff, 0xff, 0x21],
    [0x30, 0x69, 0xea, 0x7a, 0x54, 0x31, 0x0a, 0x54, 0x29, 0x46, 0xff, 0x30],
    [0x0c, 0x31, 0x45, 0x30, 0x0b, 0xf6, 0xc1, 0xff, 0x03, 0x20, 0x20, 0x73],
    [0x0c, 0x20, 0xff, 0xf7, 0x67, 0xfc, 0x68, 0x46, 0xff, 0xf7, 0xae, 0xff],
    [0x20, 0x72, 0x81, 0x20, 0x60, 0x72, 0xa0, 0x7a, 0xc0, 0x07, 0x3b, 0xd0],
    [0x01, 0x21, 0x40, 0xe0, 0x70, 0x49, 0x04, 0x22, 0xdf, 0x31, 0x20, 0x46],
    [0x0b, 0xf6, 0xab, 0xff, 0x6d, 0x49, 0x04, 0x22, 0xe3, 0x31, 0x20, 0x1d],
    [0x0b, 0xf6, 0xa5, 0xff, 0x69, 0x49, 0xe0, 0x39, 0x08, 0x79, 0x0a, 0x78],
    [0x00, 0x01, 0x02, 0x43, 0x67, 0x48, 0xa2, 0x72, 0xc8, 0x30, 0xc0, 0x7f],
    [0x6a, 0x46, 0x00, 0x01, 0x40, 0x1c, 0xe0, 0x72, 0x04, 0x20, 0x20, 0x73],
    [0x61, 0x48, 0xc0, 0x38, 0x40, 0x79, 0x10, 0x70, 0x50, 0x70, 0x97, 0x70],
    [0x4a, 0x7d, 0xff, 0x21, 0x30, 0x69, 0x54, 0x31, 0x0a, 0x54, 0x5b, 0x49],
    [0xff, 0x30, 0xca, 0x39, 0x45, 0x30, 0x0b, 0xf6, 0x84, 0xff, 0xc3, 0xe7],
    [0x59, 0x4d, 0x58, 0x48, 0x7c, 0x3d, 0x49, 0x7d, 0xbd, 0x38, 0x93, 0xe7],
    [0x1e, 0xe0, 0x04, 0x21, 0x20, 0x46, 0xfc, 0xf5, 0x7c, 0xfa, 0x9b, 0xe7],
    [0x30, 0x69, 0xff, 0x30, 0x01, 0x30, 0x40, 0x78, 0x80, 0x07, 0x03, 0xd4],
    [0x00, 0x21, 0x02, 0x20, 0xff, 0xf7, 0x0d, 0xfc, 0x30, 0x69, 0x01, 0x22],
    [0xdd, 0x21, 0x0a, 0x54, 0xff, 0x21, 0x03, 0x31, 0x0f, 0x54, 0x4a, 0x49],
    [0xe0, 0x30, 0x68, 0x31, 0xc9, 0x78, 0x81, 0x77, 0x20, 0x46, 0x0a, 0x30],
    [0x00, 0xf0, 0xc3, 0xfb, 0xf8, 0xbd, 0xfe, 0xb5, 0x07, 0x46, 0x00, 0x20],
    [0x3f, 0x4e, 0x01, 0x90, 0x34, 0x69, 0xcf, 0x34, 0x00, 0x29, 0x15, 0xd0],
    [0x40, 0x48, 0x02, 0x29, 0x43, 0xd0, 0xc0, 0x29, 0x6c, 0xd1, 0x3e, 0x4d],
    [0x40, 0x7e, 0x26, 0x3d, 0x00, 0x28, 0x67, 0xd0, 0x00, 0x2d, 0x7e, 0xd0],
    [0x28, 0x46, 0x20, 0x30, 0x01, 0x90, 0x80, 0x78, 0x00, 0x28, 0x3c, 0xd0],
    [0x70, 0x7a, 0x01, 0x28, 0x35, 0xd0, 0x38, 0xe0, 0x36, 0x49, 0xc8, 0x31],
    [0x88, 0x7a, 0x82, 0x06, 0x01, 0xd5, 0x00, 0x2f, 0x03, 0xd0, 0x42, 0x06],
    [0x52, 0xd5, 0x01, 0x2f, 0x50, 0xd1, 0x62, 0x7b, 0x02, 0x43, 0x62, 0x73],
    [0x08, 0x7a, 0x20, 0x70, 0x48, 0x7a, 0x60, 0x70, 0xca, 0x7a, 0x2c, 0x49],
    [0x22, 0x73, 0xd4, 0x31, 0xa0, 0x1c, 0x0b, 0xf6, 0x24, 0xff, 0x28, 0x48],
    [0x69, 0x46, 0xc0, 0x38, 0x40, 0x79, 0x08, 0x70, 0x48, 0x70, 0x00, 0x20],
    [0x25, 0x4b, 0x88, 0x70, 0xe0, 0x3b, 0x1a, 0x79, 0x30, 0x69, 0x12, 0x01],
    [0x59, 0x13, 0x52, 0x1c, 0x0a, 0x54, 0xff, 0x21, 0x5a, 0x79, 0x44, 0x31],
    [0x0a, 0x54, 0x99, 0x1d, 0xff, 0x30, 0x35, 0x30, 0x41, 0xe0, 0x1d, 0x4d],
    [0x00, 0x7d, 0xa2, 0x3d, 0xbc, 0xe7, 0x01, 0x20, 0xc0, 0x02, 0xff, 0xf7],
    [0xaf, 0xfb, 0xaa, 0x78, 0x22, 0x73, 0xe9, 0x1c, 0xa0, 0x1c, 0x0b, 0xf6],
    [0xfe, 0xfe, 0xa8, 0x7b, 0x20, 0x70, 0xe8, 0x7b, 0x60, 0x70, 0x60, 0x7b],
    [0x69, 0x7b, 0xff, 0x22, 0x08, 0x43, 0xcf, 0x8a, 0x62, 0x2e, 0xe5, 0x13],
    [0x88, 0xf4, 0xf6, 0x76, 0x71, 0x97, 0x5a, 0xba, 0x8a, 0x64, 0xc2, 0x77],
    [0xcf, 0xb7, 0x22, 0xc8, 0xec, 0x76, 0x06, 0x47, 0x78, 0xc2, 0x9f, 0x37],
    [0x91, 0xb5, 0x02, 0x26, 0xc0, 0x00, 0xb6, 0x20, 0x00, 0x02, 0x60, 0x73],
    [0x01, 0x98, 0x01, 0x32, 0x01, 0x78, 0x30, 0x69, 0x11, 0x54, 0x01, 0x99],
    [0x49, 0x78, 0x01, 0x91, 0xff, 0x21, 0x2a, 0x7c, 0x44, 0x31, 0x0a, 0x54],
    [0x29, 0x46, 0xff, 0x30, 0x11, 0x31, 0x35, 0x30, 0x0b, 0xf6, 0xe3, 0xfe],
    [0x03, 0x22, 0x13, 0xe0, 0x45, 0xe0, 0x50, 0x0b, 0x10, 0x00, 0x40, 0x40],
    [0x00, 0x40, 0x08, 0x0b, 0x10, 0x00, 0x9c, 0x1b, 0x10, 0x00, 0x00, 0x0c],
    [0x10, 0x00, 0x60, 0x13, 0x20, 0x00, 0xe1, 0x07, 0x00, 0x00, 0xe0, 0x18],
    [0x20, 0x00, 0x18, 0x17, 0x20, 0x00, 0x04, 0xe0, 0x29, 0x46, 0x23, 0x31],
    [0x68, 0x46, 0x0b, 0xf6, 0xc8, 0xfe, 0x20, 0x7b, 0x00, 0x28, 0x07, 0xd1],
    [0x04, 0x20, 0x20, 0x73, 0x08, 0x20, 0xa0, 0x70, 0x03, 0x21, 0xe0, 0x1c],
    [0xfc, 0xf5, 0xc1, 0xf9, 0x30, 0x69, 0x01, 0x22, 0xcd, 0x21, 0x0a, 0x54],
    [0xf8, 0x49, 0xe0, 0x30, 0xc9, 0x78, 0x81, 0x77, 0x68, 0x46, 0xff, 0xf7],
    [0xa7, 0xfe, 0x01, 0x46, 0x30, 0x69, 0xff, 0x22, 0x11, 0x54, 0x01, 0x99],
    [0xff, 0x30, 0xc9, 0x07, 0xc9, 0x0f, 0x4a, 0x00, 0x01, 0x30, 0x42, 0x70],
    [0x02, 0x20, 0xff, 0xf7, 0x44, 0xfb, 0x30, 0x69, 0xff, 0x30, 0x01, 0x30],
    [0x00, 0xf0, 0x05, 0xfb, 0x01, 0x2f, 0x03, 0xd0, 0x03, 0x20, 0xff, 0xf7],
    [0x45, 0xfb, 0xfe, 0xbd, 0x21, 0x20, 0xfa, 0xe7, 0xf0, 0xb5, 0xe7, 0x4e]]"

definition fw_rows_08 :: "u8 list list" where
  "fw_rows_08 = [
    [0x00, 0x27, 0xf0, 0x68, 0x85, 0xb0, 0x40, 0x30, 0x07, 0x83, 0x01, 0x20],
    [0x39, 0x46, 0x40, 0x02, 0xff, 0xf7, 0x2b, 0xfb, 0x35, 0x46, 0x1c, 0x35],
    [0x28, 0x78, 0x05, 0x28, 0x25, 0xd1, 0x77, 0x72, 0xc2, 0x22, 0x05, 0x21],
    [0x28, 0x46, 0x0b, 0xf6, 0x92, 0xfe, 0x00, 0x24, 0xff, 0x20, 0x69, 0x46],
    [0x08, 0x70, 0x02, 0x2c, 0x01, 0xd2, 0x09, 0x22, 0x03, 0xe0, 0x04, 0x22],
    [0x04, 0x2c, 0x00, 0xd1, 0x06, 0x22, 0x80, 0x20, 0x02, 0x43, 0x08, 0x46],
    [0x0c, 0x71, 0xd5, 0x49, 0x01, 0xf0, 0xc5, 0xf8, 0x00, 0x2c, 0x05, 0xd1],
    [0x69, 0x46, 0x09, 0x78, 0x00, 0x29, 0x01, 0xd1, 0x01, 0x21, 0x71, 0x72],
    [0x28, 0x55, 0x64, 0x1c, 0xe4, 0xb2, 0x05, 0x2c, 0xe0, 0xd3, 0xfe, 0xf7],
    [0xa4, 0xfa, 0x04, 0x46, 0xc0, 0x07, 0x0a, 0xd0, 0x30, 0x69, 0xc0, 0x30],
    [0x07, 0x77, 0x29, 0x79, 0x01, 0x20, 0xff, 0xf7, 0xf8, 0xfe, 0x29, 0x78],
    [0x00, 0x20, 0xff, 0xf7, 0xf4, 0xfe, 0xa0, 0x07, 0x02, 0xd5, 0x68, 0x78],
    [0xff, 0xf7, 0x52, 0xfe, 0x60, 0x07, 0x16, 0xd5, 0xa8, 0x78, 0x02, 0x28],
    [0x01, 0xd0, 0xc0, 0x28, 0x11, 0xd1, 0xc0, 0x49, 0x88, 0x7d, 0xc9, 0x7e],
    [0x08, 0x43, 0x0c, 0xd0, 0x31, 0x69, 0x01, 0x20, 0xff, 0x31, 0x01, 0x31],
    [0x08, 0x71, 0x00, 0x03, 0xff, 0xf7, 0xe2, 0xfa, 0x01, 0x20, 0x00, 0x21],
    [0x40, 0x02, 0xff, 0xf7, 0xd2, 0xfa, 0x28, 0x79, 0x00, 0x28, 0x35, 0xd1],
    [0x60, 0x07, 0x01, 0xd5, 0x00, 0xf0, 0x5e, 0xfa, 0x20, 0x07, 0x03, 0xd5],
    [0xff, 0x20, 0x01, 0x30, 0xff, 0xf7, 0xd0, 0xfa, 0xe0, 0x06, 0x03, 0xd5],
    [0x03, 0x20, 0x40, 0x02, 0xff, 0xf7, 0xca, 0xfa, 0x1d, 0x20, 0x04, 0x42],
    [0x22, 0xd0, 0x34, 0x69, 0x3f, 0x21, 0x8e, 0x34, 0x20, 0x46, 0x0b, 0xf6],
    [0x2f, 0xfe, 0xa6, 0x49, 0xa0, 0x31, 0x88, 0x79, 0x60, 0x73, 0xa7, 0x48],
    [0xa0, 0x38, 0xc0, 0x7d, 0xa0, 0x73, 0xca, 0x79, 0x3e, 0x21, 0x0a, 0x55],
    [0x00, 0x2a, 0x08, 0xd0, 0x02, 0x21, 0x08, 0x43, 0xa0, 0x73, 0x9e, 0x49],
    [0x20, 0x46, 0xa8, 0x31, 0x0f, 0x30, 0x0b, 0xf6, 0x00, 0xfe, 0x31, 0x69],
    [0x08, 0x22, 0xff, 0x31, 0x09, 0x31, 0x20, 0x46, 0x0b, 0xf6, 0xf9, 0xfd],
    [0x98, 0x48, 0x20, 0x38, 0xc0, 0x7e, 0xe0, 0x05, 0x0c, 0xf8, 0xf5, 0xaf],
    [0xcc, 0x62, 0x2d, 0x7f, 0xdc, 0xb2, 0xd5, 0x4d, 0xe6, 0x4f, 0xd4, 0x4a],
    [0x5e, 0xb9, 0x91, 0xd8, 0xcf, 0xe4, 0xa6, 0x95, 0x45, 0x05, 0x6b, 0x31],
    [0x17, 0x3d, 0x02, 0x26, 0xc0, 0x00, 0xb8, 0x20, 0x00, 0x02, 0x01, 0x28],
    [0x03, 0xd1, 0x01, 0x21, 0x10, 0x20, 0xff, 0xf7, 0x90, 0xfa, 0x05, 0xb0],
    [0xf0, 0xbd, 0xf8, 0xb5, 0x01, 0x25, 0x95, 0x4e, 0x92, 0x4c, 0x0e, 0x28],
    [0x08, 0xd0, 0x0a, 0xdc, 0x00, 0x28, 0x07, 0xd0, 0x07, 0x28, 0x28, 0xd0],
    [0x0a, 0x28, 0x7e, 0xd0, 0x0d, 0x28, 0x01, 0xd1, 0xff, 0xf7, 0xa9, 0xfb],
    [0xf8, 0xbd, 0x59, 0x27, 0xff, 0x00, 0x0f, 0x28, 0x08, 0xd0, 0x10, 0x28],
    [0x62, 0xd0, 0x11, 0x28, 0x72, 0xd0, 0x13, 0x28, 0xf4, 0xd1, 0xff, 0xf7],
    [0xef, 0xfc, 0xf8, 0xbd, 0x00, 0x20, 0xfe, 0xf7, 0x25, 0xfa, 0x39, 0x46],
    [0x01, 0x20, 0xfe, 0xf7, 0x2a, 0xfa, 0x0e, 0x20, 0xfe, 0xf7, 0x39, 0xfa],
    [0x00, 0x20, 0xe0, 0x71, 0x7e, 0x48, 0x65, 0x71, 0x24, 0x30, 0xf8, 0xf5],
    [0x05, 0xfe, 0x02, 0x20, 0xff, 0xf7, 0x70, 0xfb, 0xf8, 0xbd, 0x60, 0x79],
    [0x00, 0x28, 0xfb, 0xd0, 0x60, 0x69, 0x00, 0x78, 0x03, 0x28, 0xf7, 0xd0],
    [0xff, 0xf7, 0x1a, 0xff, 0x82, 0x20, 0xfe, 0xf7, 0x22, 0xfa, 0x77, 0x48],
    [0x00, 0x7a, 0x01, 0x28, 0x03, 0xd1, 0xb0, 0x69, 0x02, 0x21, 0x08, 0x43],
    [0xb0, 0x61, 0x74, 0x4f, 0xb8, 0x68, 0xc1, 0x0f, 0x02, 0x20, 0x01, 0xf6],
    [0xda, 0xfa, 0x06, 0x46, 0x32, 0x28, 0x05, 0xd1, 0xf8, 0xf5, 0xf8, 0xf9],
    [0x00, 0x28, 0x01, 0xd0, 0xfa, 0xf5, 0x19, 0xfe, 0xfe, 0xf7, 0xa7, 0xf9],
    [0x05, 0x46, 0x02, 0x28, 0x0a, 0xd0, 0x34, 0x2e, 0x08, 0xd0, 0xb8, 0x68],
    [0xc1, 0x0f, 0x02, 0x20, 0x01, 0xf6, 0x37, 0xfa, 0x00, 0x28, 0x01, 0xd0],
    [0xfa, 0xf5, 0x09, 0xfe, 0xe0, 0x68, 0x00, 0x21, 0x01, 0x60, 0x01, 0xf6],
    [0x4e, 0xff, 0x01, 0x21, 0xe0, 0x68, 0x01, 0xf6, 0x4a, 0xff, 0x02, 0x2d],
    [0x03, 0xd1, 0x38, 0x69, 0x29, 0x04, 0x88, 0x43, 0x38, 0x61, 0xe0, 0x68],
    [0x40, 0x30, 0x01, 0x8b, 0x41, 0x83, 0xf8, 0xbd, 0x5c, 0x4f, 0x38, 0x7f],
    [0x01, 0x28, 0x07, 0xd1, 0xf7, 0xf5, 0x1e, 0xf8, 0x01, 0x28, 0x03, 0xd9],
    [0x59, 0x48, 0x40, 0x6a, 0xc0, 0x07, 0xf2, 0xd1, 0x38, 0x7f, 0x00, 0x28],
    [0x05, 0xd1, 0x10, 0x20, 0x01, 0xe0, 0x3d, 0xe0, 0x2a, 0xe0, 0xf6, 0xf5],
    [0x2f, 0xfc, 0x4f, 0x48, 0x04, 0x27, 0x00, 0x7a, 0x01, 0x28, 0x06, 0xd1],
    [0x4e, 0x48, 0x80, 0x68, 0x00, 0x28, 0x02, 0xda, 0xf0, 0x68, 0x38, 0x43],
    [0xf0, 0x60, 0x04, 0x21, 0xe0, 0x68, 0x01, 0xf6, 0x1a, 0xff, 0x15, 0x28],
    [0x03, 0xd1, 0x04, 0x21, 0xe0, 0x68, 0x01, 0xf6, 0x14, 0xff, 0xe0, 0x68],
    [0x40, 0x30, 0x41, 0x7f, 0x06, 0x29, 0x08, 0xd1, 0x00, 0x8b, 0x09, 0x21],
    [0xc9, 0x01, 0x08, 0x42, 0x03, 0xd1, 0xc0, 0x04, 0x01, 0xd4, 0x42, 0x48],
    [0x05, 0x70, 0x27, 0x72, 0x08, 0x20, 0xf5, 0xf5, 0x2c, 0xff, 0xf8, 0xbd],
    [0x08, 0x21, 0xe0, 0x68, 0x01, 0xf6, 0xfd, 0xfe, 0x04, 0x28, 0xf8, 0xd1],
    [0x39, 0x46, 0x00, 0x20, 0xfe, 0xf7, 0x8d, 0xf9, 0x05, 0x20, 0x00, 0xf0],
    [0xa2, 0xf8, 0x07, 0x20, 0x00, 0x02, 0xff, 0xf7, 0xbd, 0xf9, 0xf8, 0xbd],
    [0x20, 0x79, 0xc0, 0x07, 0x03, 0xd0, 0x01, 0x20, 0x00, 0xf0, 0x97, 0xf8],
    [0xf8, 0xbd, 0xe5, 0x70, 0xf8, 0xbd, 0x10, 0xb5, 0x29, 0x49, 0x0b, 0x78],
    [0x00, 0x2b, 0x07, 0xd0, 0x02, 0x28, 0x0b, 0xd0, 0x0c, 0xf6, 0xfd, 0xfa],
    [0x06, 0x09, 0x0f, 0x12, 0x15, 0x1d, 0x20, 0x09, 0x01, 0x28, 0x02, 0xd1],
    [0x08, 0x71, 0x00, 0xf0, 0xc5, 0xf9, 0x10, 0xbd, 0x01, 0xf6, 0x54, 0xfb],
    [0xff, 0xf7, 0xd0, 0xf8, 0x10, 0xbd, 0x00, 0xf0, 0x6d, 0xf9, 0x10, 0xbd],
    [0xff, 0xf7, 0x0f, 0xff, 0x10, 0xbd, 0x00, 0x28, 0xfc, 0xd0, 0x0a, 0x28],
    [0xfa, 0xd1, 0x01, 0x20, 0x00, 0xf0, 0x43, 0xa4, 0xf2, 0x0c, 0x79, 0x91],
    [0x7e, 0xa9, 0xf1, 0x8f, 0x97, 0x33, 0xcf, 0xc6, 0x79, 0x76, 0x01, 0x21],
    [0x4b, 0x72, 0x91, 0x96, 0xb8, 0x6c, 0x24, 0x59, 0x92, 0x4f, 0x22, 0x81],
    [0x82, 0xd9, 0x02, 0x26, 0xc0, 0x00, 0xba, 0x20, 0x00, 0x02, 0x6f, 0xf8],
    [0x10, 0xbd, 0xff, 0xf7, 0x92, 0xfb, 0x10, 0xbd, 0xff, 0xf7, 0xe7, 0xfa],
    [0x10, 0xbd, 0x13, 0x48, 0x00, 0x78, 0x70, 0x47, 0x10, 0xb5, 0x11, 0x4c],
    [0x01, 0x21, 0x20, 0x79, 0x08, 0x43, 0x20, 0x71, 0x61, 0x79, 0x01, 0x29],
    [0x05, 0xd0, 0x80, 0x07, 0x0a, 0xd5, 0x04, 0x20, 0xff, 0xf7, 0x92, 0xfa],
    [0x0e, 0xe0, 0x41, 0x07, 0x01, 0xd5, 0x02, 0x20, 0xf8, 0xe7, 0x00, 0x07],
    [0xf5, 0xd4, 0x07, 0xe0, 0xe0, 0x78, 0x00, 0x28, 0x04, 0xd0, 0x00, 0x20],
    [0xe0, 0x70, 0x01, 0x20, 0x00, 0xf0, 0x47, 0xf8, 0x20, 0x79, 0xf7, 0x21],
    [0x08, 0x40, 0x20, 0x71, 0x10, 0xbd, 0x80, 0x17, 0x20, 0x00, 0x9c, 0x1b],
    [0x10, 0x00, 0xf9, 0xfa, 0x20, 0x00, 0xe0, 0x18, 0x20, 0x00, 0x00, 0x00],
    [0x01, 0x40, 0x00, 0x0a, 0x10, 0x00, 0x00, 0x40, 0x02, 0x40, 0x50, 0x0b],
    [0x10, 0x00, 0x40, 0x40, 0x00, 0x40, 0x07, 0x0c, 0x10, 0x00, 0x10, 0xb5],
    [0xd2, 0x48, 0xc0, 0x68, 0x03, 0xf6, 0xa4, 0xfd, 0xe4, 0xe7, 0xcf, 0x49],
    [0x02, 0x20, 0x08, 0x70, 0x70, 0x47, 0xcd, 0x48, 0x80, 0x78, 0x70, 0x47],
    [0x0a, 0x46, 0x20, 0x21, 0x10, 0xb5, 0x01, 0x43, 0x03, 0x20, 0xfd, 0xf5],
    [0x89, 0xf9, 0xd5, 0xe7, 0xc8, 0x49, 0xc9, 0x68, 0x89, 0x68, 0xf3, 0xe7],
    [0xc6, 0x48, 0xc0, 0x68, 0x01, 0x68, 0x03, 0x20, 0xee, 0xe7, 0x10, 0xb5],
    [0x00, 0x24, 0x05, 0xe0, 0x64, 0x20, 0xfa, 0xf5, 0x37, 0xfd, 0x64, 0x1c],
    [0x32, 0x2c, 0x03, 0xd2, 0xfc, 0xf5, 0xf5, 0xfb, 0x02, 0x28, 0xf5, 0xd0],
    [0xfc, 0xf5, 0xf1, 0xfb, 0xbc, 0xe7, 0x10, 0xb5, 0x04, 0x46, 0x04, 0x22],
    [0x22, 0x21, 0x02, 0x20, 0xfd, 0xf5, 0x68, 0xf9, 0xb8, 0x48, 0x04, 0x70],
    [0xb2, 0xe7, 0x10, 0xb5, 0x04, 0x46, 0xb5, 0x48, 0x24, 0x30, 0xf8, 0xf5],
    [0xbd, 0xfc, 0xb3, 0x48, 0x00, 0x23, 0xb3, 0x4a, 0x21, 0x46, 0x24, 0x30],
    [0xf8, 0xf5, 0xa5, 0xfc, 0xa4, 0xe7, 0x7c, 0xb5, 0xaf, 0x4d, 0xe8, 0x68],
    [0x04, 0x68, 0x68, 0x46, 0x07, 0xf6, 0xea, 0xfb, 0x20, 0x79, 0xc0, 0x07],
    [0x02, 0xd0, 0x20, 0x78, 0x69, 0x46, 0x48, 0x70, 0x21, 0x79, 0x88, 0x07],
    [0x03, 0xd5, 0x60, 0x78, 0x00, 0x1d, 0xc0, 0xb2, 0x00, 0xe0, 0x00, 0x20],
    [0x49, 0x07, 0x03, 0xd5, 0xa1, 0x78, 0x09, 0x1d, 0xc9, 0xb2, 0x00, 0xe0],
    [0x00, 0x21, 0x01, 0xf6, 0x33, 0xfa, 0x69, 0x46, 0xc8, 0x70, 0x68, 0x46],
    [0x07, 0xf6, 0x6b, 0xfb, 0x20, 0x79, 0x00, 0x07, 0x09, 0xd5, 0xe0, 0x78],
    [0x80, 0x09, 0x01, 0x28, 0x06, 0xd0, 0x02, 0x28, 0x03, 0xd1, 0x08, 0x21],
    [0xe8, 0x68, 0x40, 0x30, 0x41, 0x80, 0x7c, 0xbd, 0x20, 0x21, 0xf9, 0xe7],
    [0x7c, 0xb5, 0xff, 0xf7, 0x9d, 0xff, 0x94, 0x4e, 0xf0, 0x68, 0x00, 0x68],
    [0x45, 0x68, 0x6c, 0x78, 0xe1, 0x06, 0x04, 0xd5, 0x40, 0x89, 0x08, 0x28],
    [0x16, 0xd1, 0xa9, 0x1c, 0x05, 0xe0, 0x20, 0x07, 0x00, 0x0f, 0x06, 0x21],
    [0x48, 0x43, 0x8e, 0x49, 0x41, 0x18, 0x06, 0x22, 0x68, 0x46, 0x0b, 0xf6],
    [0x22, 0xfc, 0x20, 0x06, 0x01, 0xd5, 0x61, 0x21, 0x00, 0xe0, 0x60, 0x21],
    [0x28, 0x78, 0x6a, 0x46, 0x01, 0xf6, 0x6c, 0xfa, 0x04, 0x00, 0x05, 0xd0],
    [0x28, 0x24, 0x01, 0xf6, 0x63, 0xfa, 0xf0, 0x68, 0xfc, 0xf5, 0x45, 0xfb],
    [0x21, 0x46, 0x0b, 0x20, 0xff, 0xf7, 0x66, 0xff, 0x7c, 0xbd, 0x70, 0xb5],
    [0x7e, 0x4e, 0xf0, 0x68, 0x01, 0x68, 0x44, 0x68, 0x49, 0x68, 0x0d, 0x78],
    [0xff, 0xf7, 0x68, 0xff, 0x61, 0x68, 0xc2, 0x20, 0x08, 0x70, 0x61, 0x68],
    [0xff, 0x20, 0x48, 0x70, 0x02, 0x20, 0x60, 0x81, 0x00, 0x22, 0x59, 0x21],
    [0xf0, 0x68, 0xfc, 0xf5, 0x32, 0xff, 0xcd, 0x4b, 0x1e, 0x5f, 0xcd, 0xc0],
    [0xe9, 0xf6, 0x94, 0x9f, 0xdf, 0x3a, 0x57, 0xf5, 0xc8, 0xb4, 0xdb, 0xc3],
    [0xbd, 0x82, 0x1e, 0x74, 0x18, 0x31, 0xc5, 0x3a, 0x42, 0xac, 0x46, 0x7e],
    [0x9f, 0xe4, 0x02, 0x26, 0xc0, 0x00, 0xbc, 0x20, 0x00, 0x02, 0x0e, 0x28],
    [0x05, 0xd1, 0xf0, 0x68, 0x81, 0x68, 0x49, 0x68, 0x09, 0x78, 0x0a, 0x29],
    [0x04, 0xd0, 0x02, 0x21, 0x0c, 0x20, 0xff, 0xf7, 0x43, 0xff, 0x70, 0xbd],
    [0x70, 0x49, 0x41, 0x63, 0x04, 0x21, 0x61, 0x81, 0x60, 0x68, 0x0b, 0xf6],
    [0xfb, 0xfb, 0x60, 0x68, 0x00, 0x22, 0x05, 0x70, 0x59, 0x21, 0xf0, 0x68],
    [0xfc, 0xf5, 0x17, 0xff, 0x02, 0x28, 0x01, 0xd0, 0x0f, 0x21, 0xe9, 0xe7],
    [0x00, 0x21, 0xe7, 0xe7, 0x10, 0xb5, 0x05, 0x20, 0xff, 0xf7, 0x4b, 0xff],
    [0x08, 0x20, 0xfe, 0xf7, 0xc7, 0xff, 0x03, 0xe7, 0xf8, 0xb5, 0x60, 0x49],
    [0x7a, 0x39, 0x48, 0x78, 0x02, 0x28, 0x2b, 0xd1, 0x5c, 0x4e, 0xcd, 0x78],
    [0x30, 0x69, 0xff, 0x21, 0x01, 0x27, 0x05, 0x31, 0x0f, 0x54, 0xc4, 0x1d],
    [0xff, 0x34, 0x02, 0x20, 0x20, 0x75, 0x00, 0x20, 0xa0, 0x74, 0x69, 0x08],
    [0x80, 0x31, 0xe1, 0x74, 0x08, 0x21, 0xa0, 0x1c, 0xfb, 0xf5, 0xb7, 0xfe],
    [0xb8, 0x1e, 0x20, 0x80, 0xa7, 0x70, 0xfe, 0x20, 0xe0, 0x70, 0x20, 0x46],
    [0xff, 0x22, 0x08, 0x21, 0x0a, 0x30, 0x0b, 0xf6, 0xba, 0xfb, 0xf0, 0x68],
    [0x40, 0x30, 0x01, 0x8b, 0x38, 0x03, 0x01, 0x40, 0xc0, 0x10, 0xff, 0xf7],
    [0x40, 0xf8, 0x06, 0x20, 0x05, 0x40, 0x68, 0x01, 0xff, 0xf7, 0x46, 0xf8],
    [0xf8, 0xbd, 0x01, 0x78, 0x8a, 0x09, 0x02, 0xd1, 0x30, 0x22, 0x11, 0x43],
    [0x01, 0x70, 0x70, 0x47, 0x70, 0xb5, 0x04, 0x46, 0x00, 0x21, 0x10, 0x20],
    [0xff, 0xf7, 0x2d, 0xf8, 0x3f, 0x4d, 0x00, 0x2c, 0x04, 0xd0, 0x0f, 0x2c],
    [0x3a, 0xd0, 0x15, 0x2c, 0x17, 0xd1, 0x2e, 0xe0, 0xfe, 0xf7, 0xbd, 0xfc],
    [0x00, 0x28, 0x02, 0xd0, 0xfe, 0xf7, 0x94, 0xfa, 0x00, 0xe0, 0x23, 0x20],
    [0x1d, 0x28, 0x06, 0xd0, 0x0c, 0xdc, 0x00, 0x28, 0x03, 0xd0, 0x0f, 0x28],
    [0x01, 0xd0, 0x1b, 0x28, 0x05, 0xd1, 0x00, 0x20, 0xfe, 0xf7, 0x29, 0xfa],
    [0x04, 0x20, 0xff, 0xf7, 0xe8, 0xfe, 0x70, 0xbd, 0x20, 0x28, 0x0b, 0xd0],
    [0x23, 0x28, 0xfa, 0xd1, 0x31, 0x48, 0xc0, 0x6a, 0x2e, 0x49, 0x40, 0x00],
    [0x66, 0x31, 0x89, 0x7f, 0x40, 0x0f, 0x01, 0x29, 0x04, 0xd0, 0x08, 0xe0],
    [0x00, 0x20, 0xfe, 0xf7, 0xbd, 0xfc, 0x04, 0xe0, 0x69, 0x79, 0x00, 0x29],
    [0x01, 0xd1, 0x00, 0x28, 0x03, 0xd0, 0x68, 0x78, 0xfe, 0xf7, 0x45, 0xfe],
    [0x70, 0xbd, 0x00, 0x21, 0x10, 0x20, 0xff, 0xf7, 0xa7, 0xfe, 0x70, 0xbd]]"

definition fw_rows_09 :: "u8 list list" where
  "fw_rows_09 = [
    [0x00, 0x20, 0xfe, 0xf7, 0xab, 0xfc, 0x02, 0x20, 0x28, 0x70, 0x09, 0x22],
    [0x22, 0x21, 0xfd, 0xf5, 0x2d, 0xf8, 0x70, 0xbd, 0x1e, 0x48, 0x10, 0xb5],
    [0x40, 0x38, 0x41, 0x68, 0x80, 0x22, 0x11, 0x43, 0x41, 0x60, 0x81, 0x68],
    [0x89, 0x0a, 0x89, 0x02, 0x81, 0x60, 0x81, 0x68, 0x89, 0x02, 0x0a, 0x0f],
    [0x18, 0x49, 0x82, 0x68, 0x06, 0xd0, 0x8a, 0x43, 0x17, 0x49, 0x89, 0x7f],
    [0xc9, 0x07, 0x49, 0x0a, 0x0a, 0x43, 0x00, 0xe0, 0x8a, 0x43, 0x82, 0x60],
    [0x0d, 0x48, 0x40, 0x78, 0x02, 0x28, 0x03, 0xd1, 0xff, 0xf7, 0x8d, 0xfe],
    [0x01, 0x28, 0x08, 0xd0, 0x01, 0x20, 0xff, 0xf7, 0x98, 0xfe, 0x01, 0x21],
    [0xc9, 0x07, 0x05, 0x20, 0xff, 0xf7, 0x72, 0xfe, 0x4e, 0xe6, 0x02, 0x20],
    [0xfe, 0xf7, 0x07, 0xfe, 0x08, 0x22, 0x22, 0x21, 0x02, 0x20, 0xfc, 0xf5],
    [0xf9, 0xff, 0xf0, 0xe7, 0x00, 0x00, 0x9c, 0x1b, 0x10, 0x00, 0x99, 0xa9],
    [0x20, 0x00, 0x7a, 0x18, 0x20, 0x00, 0x9f, 0x06, 0x00, 0x00, 0x40, 0x40],
    [0x02, 0x40, 0x00, 0x00, 0x40, 0x00, 0x60, 0x17, 0x20, 0x00, 0x70, 0xb5],
    [0x33, 0x4a, 0xff, 0x21, 0x11, 0x70, 0x32, 0x49, 0x02, 0x68, 0x0a, 0x60],
    [0x40, 0x68, 0xa4, 0x25, 0x48, 0x60, 0x58, 0x32, 0xfc, 0x62, 0x2a, 0x54],
    [0xf8, 0x12, 0x0f, 0x8a, 0x34, 0xaa, 0x3e, 0xd6, 0xba, 0x13, 0x2f, 0x45],
    [0xdf, 0x61, 0xac, 0x69, 0x9c, 0xf0, 0x8e, 0x30, 0x4f, 0xe3, 0xdb, 0x8e],
    [0xdd, 0x89, 0x02, 0x26, 0xc0, 0x00, 0xbe, 0x20, 0x00, 0x02, 0xf8, 0xf5],
    [0x88, 0xfa, 0x00, 0xf0, 0xa9, 0xf8, 0x08, 0xf6, 0x0e, 0xfc, 0x2d, 0x48],
    [0x30, 0x22, 0x2d, 0x4b, 0x2c, 0x49, 0x87, 0x38, 0x98, 0x47, 0x00, 0xf0],
    [0xba, 0xf8, 0x00, 0xf0, 0x36, 0xfc, 0x00, 0xf0, 0xb0, 0xfe, 0x00, 0xf0],
    [0xf2, 0xff, 0x0b, 0xf6, 0x42, 0xfa, 0x02, 0xf0, 0x8e, 0xf8, 0x02, 0xf0],
    [0xf2, 0xfb, 0x03, 0xf0, 0x08, 0xfc, 0x24, 0x48, 0x00, 0x68, 0xc0, 0x03],
    [0x04, 0x0c, 0xe0, 0x06, 0x80, 0x0f, 0x01, 0xd0, 0x00, 0xf0, 0x0e, 0xfc],
    [0x21, 0x48, 0xa1, 0x04, 0x04, 0xd5, 0x41, 0x68, 0x02, 0x15, 0x91, 0x43],
    [0x41, 0x60, 0xa2, 0x25, 0xe1, 0x04, 0x03, 0xd5, 0x01, 0x68, 0x09, 0x0c],
    [0x09, 0x04, 0x01, 0x60, 0x1b, 0x49, 0x0c, 0x42, 0x1d, 0xd0, 0x41, 0x68],
    [0x80, 0x22, 0x91, 0x43, 0x41, 0x60, 0x61, 0x05, 0x01, 0xd5, 0xa1, 0x25],
    [0x17, 0xe0, 0xe1, 0x05, 0x89, 0x0f, 0x01, 0xd0, 0xa3, 0x25, 0x12, 0xe0],
    [0x61, 0x06, 0x0e, 0xd5, 0x41, 0x68, 0xc9, 0x06, 0x01, 0xd5, 0x00, 0x25],
    [0x05, 0xe0, 0x41, 0x68, 0x89, 0x06, 0x01, 0xd5, 0x01, 0x25, 0x00, 0xe0],
    [0xa0, 0x25, 0x41, 0x68, 0x30, 0x22, 0x91, 0x43, 0x41, 0x60, 0xa4, 0x2d],
    [0x04, 0xd0, 0x2a, 0x46, 0x05, 0x21, 0x03, 0x20, 0xfc, 0xf5, 0x55, 0xff],
    [0x00, 0x20, 0x70, 0xbd, 0x00, 0x00, 0x7c, 0x1b, 0x10, 0x00, 0x58, 0x11],
    [0x10, 0x00, 0x47, 0x12, 0x10, 0x00, 0x51, 0x4a, 0x01, 0x00, 0x24, 0x09],
    [0x10, 0x00, 0x00, 0x40, 0x02, 0x40, 0xc0, 0x87, 0x00, 0x00, 0x1c, 0xb5],
    [0xfd, 0xf5, 0x0b, 0xf8, 0x04, 0x46, 0x26, 0x48, 0x00, 0x79, 0x00, 0x28],
    [0x02, 0xd0, 0x25, 0x48, 0xf8, 0xf5, 0xa5, 0xf9, 0x03, 0xf0, 0x97, 0xfc],
    [0x6a, 0x46, 0x21, 0x46, 0x03, 0x20, 0xfc, 0xf5, 0x07, 0xff, 0x00, 0x28],
    [0x21, 0xd1, 0x68, 0x46, 0x08, 0xf6, 0x10, 0xfd, 0x68, 0x46, 0x02, 0x79],
    [0x53, 0x09, 0x0c, 0xf6, 0x5a, 0xf8, 0x05, 0x0d, 0x07, 0x04, 0x0a, 0x10],
    [0x18, 0x00, 0x00, 0xf0, 0xba, 0xfe, 0x12, 0xe0, 0x00, 0xf0, 0xb2, 0xf9],
    [0x0f, 0xe0, 0x01, 0xf0, 0x14, 0xfa, 0x0c, 0xe0, 0x01, 0xf0, 0x6b, 0xfc],
    [0x09, 0xe0, 0xd0, 0x06, 0xc0, 0x0e, 0x05, 0x28, 0x05, 0xd1, 0x00, 0x20],
    [0x00, 0xf0, 0x68, 0xfc, 0x01, 0xe0, 0xfa, 0xf5, 0xd6, 0xfa, 0x02, 0x20],
    [0xfc, 0xf5, 0xdf, 0xff, 0xff, 0xf7, 0xa5, 0xfd, 0x00, 0x28, 0xcf, 0xd0],
    [0x00, 0x20, 0xfc, 0xf5, 0xd8, 0xff, 0xcb, 0xe7, 0x08, 0xb5, 0x00, 0x23],
    [0x00, 0x93, 0x23, 0x21, 0x08, 0x4b, 0x0a, 0x22, 0x09, 0x01, 0x07, 0x48],
    [0xf9, 0xf5, 0xda, 0xff, 0x07, 0x49, 0x08, 0x60, 0x08, 0xbd, 0x05, 0x48],
    [0x00, 0x68, 0x70, 0x47, 0x00, 0x00, 0xc0, 0x15, 0x20, 0x00, 0x15, 0x9d],
    [0x20, 0x00, 0xd9, 0xbe, 0x20, 0x00, 0x38, 0x19, 0x10, 0x00, 0xd4, 0x18],
    [0x10, 0x00, 0x10, 0xb5, 0x04, 0x21, 0xfb, 0x48, 0x0b, 0xf6, 0x42, 0xfa],
    [0x10, 0xbd, 0x70, 0xb5, 0x04, 0x46, 0x08, 0x78, 0x01, 0x22, 0x0d, 0x46],
    [0x01, 0x28, 0x10, 0xd0, 0x00, 0x21, 0x00, 0x28, 0x11, 0xd0, 0x61, 0x70],
    [0x68, 0x78, 0x29, 0x1d, 0x80, 0x1e, 0xe0, 0x70, 0x6a, 0x78, 0x20, 0x1d],
    [0x92, 0x1e, 0x0b, 0xf6, 0x14, 0xfa, 0xa8, 0x78, 0x20, 0x70, 0x02, 0x20],
    [0x70, 0xbd, 0x28, 0x79, 0xa0, 0x70, 0x62, 0x70, 0xf7, 0xe7, 0xeb, 0x48],
    [0x00, 0x1f, 0x00, 0x78, 0x05, 0x28, 0x03, 0xd0, 0xa2, 0x70, 0x02, 0x20],
    [0x60, 0x70, 0xee, 0xe7, 0xa1, 0x70, 0xfa, 0xe7, 0xf3, 0xb5, 0x06, 0x46],
    [0x8f, 0xb0, 0x09, 0x20, 0x0c, 0x90, 0xe4, 0x48, 0x00, 0x25, 0x40, 0x78],
    [0x0b, 0x90, 0x00, 0xf0, 0x63, 0xfd, 0x27, 0x41, 0xee, 0xa5, 0xb4, 0xf6],
    [0x4c, 0x10, 0x1c, 0x9d, 0x4e, 0xae, 0x10, 0x0a, 0xcc, 0x8f, 0xd8, 0xf7],
    [0x73, 0x1e, 0xbb, 0x99, 0xa6, 0x69, 0xf2, 0x61, 0xe6, 0xbc, 0xa7, 0x33],
    [0x6f, 0x34, 0x02, 0x26, 0xc0, 0x00, 0xc0, 0x20, 0x00, 0x02, 0x0d, 0x90],
    [0x30, 0x79, 0x69, 0x46, 0xc0, 0x06, 0xc0, 0x0e, 0x08, 0x76, 0x0a, 0x90],
    [0x01, 0x28, 0x21, 0xd0, 0x34, 0x68, 0x03, 0x20, 0x21, 0x46, 0x08, 0xf6],
    [0x4c, 0xfb, 0xd9, 0x4e, 0x69, 0x46, 0x36, 0x1f, 0x30, 0x78, 0x48, 0x76],
    [0xd9, 0x48, 0x05, 0x94, 0x00, 0x78, 0xc2, 0x28, 0x72, 0xd0, 0xb7, 0x1e],
    [0x7b, 0x78, 0x22, 0x46, 0x68, 0x46, 0x0a, 0x99, 0x00, 0xf0, 0x51, 0xfd],
    [0x00, 0x20, 0x78, 0x70, 0x00, 0xf0, 0x21, 0xff, 0x07, 0x46, 0x68, 0x46],
    [0x00, 0x78, 0x02, 0x28, 0x1a, 0xd0, 0x01, 0x28, 0x14, 0xd0, 0x43, 0xe0],
    [0xfd, 0xf7, 0xe2, 0xfd, 0x04, 0x00, 0x6f, 0xd0, 0x60, 0x68, 0xc0, 0x1c],
    [0x60, 0x60, 0x31, 0x68, 0x4a, 0x89, 0x49, 0x68, 0x0b, 0xf6, 0xbf, 0xf9],
    [0x30, 0x68, 0x00, 0x21, 0x40, 0x89, 0x60, 0x81, 0x0a, 0x20, 0x01, 0xf0],
    [0xd8, 0xfa, 0xce, 0xe7, 0x68, 0x46, 0x00, 0x79, 0xa0, 0x28, 0x2f, 0xd1],
    [0x70, 0x78, 0xc2, 0x28, 0x03, 0xd1, 0x00, 0x21, 0x04, 0x20, 0x03, 0xf0],
    [0x1c, 0xf9, 0x68, 0x46, 0x80, 0x78, 0x70, 0x70, 0x00, 0x28, 0x1f, 0xd0],
    [0xb8, 0x42, 0x03, 0xd1, 0xb9, 0x49, 0x09, 0x78, 0x14, 0x29, 0x10, 0xd0],
    [0xb9, 0x49, 0xb8, 0x42, 0x0c, 0x60, 0x09, 0xd1, 0xb5, 0x4d, 0x28, 0x78],
    [0x14, 0x28, 0x05, 0xd0, 0x00, 0x20, 0x01, 0xf0, 0x88, 0xf8, 0x08, 0x20],
    [0x28, 0x70, 0x01, 0xe0, 0x00, 0xf0, 0xb5, 0xff, 0x01, 0x25, 0x69, 0x46],
    [0x10, 0x98, 0xff, 0xf7, 0x64, 0xff, 0x0c, 0x90, 0xab, 0x48, 0x00, 0x21],
    [0x80, 0x1f, 0x01, 0x70, 0x68, 0x46, 0x00, 0x78, 0x01, 0x28, 0x17, 0xd8],
    [0xa7, 0x48, 0x80, 0x1f, 0x01, 0x78, 0x00, 0x29, 0x12, 0xd0, 0x00, 0x21],
    [0x01, 0x70, 0x68, 0x46, 0x80, 0x78, 0x00, 0x28, 0x0c, 0xd0, 0x0d, 0x99],
    [0x88, 0x42, 0x04, 0xd0, 0xa3, 0x48, 0x04, 0x60, 0x00, 0xf0, 0x95, 0xff],
    [0x01, 0x25, 0x69, 0x46, 0x10, 0x98, 0xff, 0xf7, 0x44, 0xff, 0x0c, 0x90],
    [0x70, 0x78, 0xc2, 0x28, 0x3c, 0xd0, 0x20, 0x28, 0x0a, 0xd0, 0x00, 0x28],
    [0x08, 0xd0, 0x33, 0x78, 0x0b, 0xf6, 0x4d, 0xff, 0x09, 0x36, 0x0b, 0x16],
    [0x2d, 0x36, 0x0b, 0x16, 0x36, 0x0b, 0x36, 0x00, 0x05, 0xa9, 0x03, 0x20],
    [0x03, 0xf0, 0xc7, 0xf8, 0x2d, 0xe0, 0x21, 0x28, 0x02, 0xd0, 0x00, 0x2d],
    [0x03, 0xd0, 0x28, 0xe0, 0x05, 0x20, 0x0b, 0x99, 0x09, 0xe0, 0x08, 0x20],
    [0x0b, 0x99, 0x0f, 0xe0, 0x21, 0x28, 0x02, 0xd0, 0x00, 0x2d, 0x09, 0xd0],
    [0x1d, 0xe0, 0x04, 0x20, 0x0b, 0x99, 0xfd, 0xf7, 0x21, 0xfd, 0x21, 0x46],
    [0x0a, 0x9a, 0x09, 0xf6, 0x48, 0xff, 0x14, 0xe0, 0x06, 0x20, 0x0b, 0x99],
    [0xfd, 0xf7, 0x18, 0xfd, 0x21, 0x46, 0x0a, 0x9a, 0x0a, 0xf6, 0x56, 0xfc],
    [0x0b, 0xe0, 0x09, 0x20, 0x0b, 0x99, 0xfd, 0xf7, 0x0f, 0xfd, 0x21, 0x46],
    [0x0a, 0x9a, 0x0a, 0xf6, 0xe5, 0xfa, 0x02, 0xe0, 0x20, 0x46, 0x08, 0xf6],
    [0x0f, 0xfb, 0x0c, 0x98, 0x11, 0xb0, 0xf0, 0xbd, 0xf0, 0xb5, 0x77, 0x4d],
    [0x04, 0x46, 0x2d, 0x1f, 0x28, 0x1d, 0x29, 0x78, 0x40, 0x78, 0x09, 0x27],
    [0x85, 0xb0, 0x81, 0x42, 0x01, 0xd1, 0x03, 0x29, 0x5f, 0xd0, 0x71, 0x49],
    [0x01, 0x22, 0x89, 0x1f, 0x4a, 0x70, 0x28, 0x70, 0xc2, 0x20, 0x68, 0x70],
    [0x00, 0x20, 0x08, 0x70, 0x00, 0xf0, 0x6c, 0xfc, 0x00, 0xf0, 0x78, 0xfc],
    [0x06, 0x46, 0x00, 0x23, 0x1a, 0x46, 0x0f, 0x21, 0x68, 0x46, 0x00, 0xf0],
    [0x7e, 0xfc, 0x68, 0x46, 0x80, 0x78, 0xc2, 0x28, 0x02, 0xd1, 0x29, 0x78],
    [0x07, 0x29, 0x44, 0xd1, 0x2b, 0x78, 0x02, 0x21, 0x0b, 0xf6, 0xe5, 0xfe],
    [0x08, 0x3d, 0x34, 0x3d, 0x2b, 0x3d, 0x9a, 0x74, 0x18, 0x6b, 0xab, 0xc0],
    [0xd6, 0x15, 0x10, 0x65, 0x6f, 0x07, 0xdb, 0x54, 0xc0, 0xb7, 0x17, 0x3e],
    [0x1e, 0x71, 0x8f, 0x83, 0xdf, 0x13, 0x90, 0x3f, 0x53, 0xb2, 0xb5, 0x8d],
    [0x17, 0x07, 0x02, 0x26, 0xc0, 0x00, 0xc2, 0x20, 0x00, 0x02, 0x05, 0x05],
    [0x29, 0x3d, 0x00, 0x28, 0x18, 0xd0, 0x60, 0x49, 0x68, 0x70, 0x09, 0x78],
    [0xc2, 0x29, 0x06, 0xd0, 0xfd, 0xf7, 0xdd, 0xfc, 0x5b, 0x49, 0x01, 0x20],
    [0x89, 0x1f, 0x08, 0x70, 0x29, 0xe0, 0xb0, 0x42, 0x02, 0xd0, 0x00, 0xf0],
    [0x06, 0xff, 0x01, 0xe0, 0xfd, 0xf7, 0xd1, 0xfc, 0x69, 0x46, 0x20, 0x46],
    [0xff, 0xf7, 0xb3, 0xfe, 0x07, 0x46, 0x1c, 0xe0, 0x00, 0x20, 0x68, 0x70],
    [0x52, 0x48, 0x00, 0x78, 0x14, 0x28, 0x16, 0xd1, 0xfd, 0xf7, 0xc3, 0xfc],
    [0x13, 0xe0, 0x00, 0x20, 0x10, 0xe0, 0x02, 0x20, 0xa0, 0x70, 0x60, 0x70],
    [0x26, 0x70, 0x07, 0x46, 0x0a, 0xf6, 0xa9, 0xfa, 0x02, 0x20, 0x07, 0xe0],
    [0x00, 0x20, 0xa0, 0x70, 0x61, 0x70, 0x02, 0x27, 0x26, 0x70, 0x02, 0x2e],
    [0x08, 0xd0, 0xc0, 0x20, 0x68, 0x70, 0x00, 0x21, 0x04, 0x20, 0x03, 0xf0],
    [0x28, 0xf8, 0x38, 0x46, 0x05, 0xb0, 0xf0, 0xbd, 0x69, 0x70, 0xf6, 0xe7],
    [0xf0, 0xb5, 0x04, 0x46, 0x00, 0x79, 0x09, 0x26, 0xc5, 0x06, 0xed, 0x0e],
    [0x89, 0xb0, 0x08, 0x2d, 0x05, 0xd0, 0x09, 0x2d, 0x03, 0xd0, 0x0f, 0x2d],
    [0x01, 0xd0, 0x0d, 0x2d, 0x08, 0xd1, 0x20, 0x68, 0x07, 0x90, 0x00, 0x28],
    [0x1e, 0xd0, 0x04, 0x22, 0x07, 0xa9, 0x34, 0x48, 0x0b, 0xf6, 0x9b, 0xf8],
    [0x33, 0x4a, 0x33, 0x49, 0x12, 0x1f, 0x90, 0x78, 0x00, 0x90, 0x2b, 0x46],
    [0x00, 0x27, 0x10, 0x78, 0x49, 0x78, 0x0b, 0xf6, 0x7c, 0xfe, 0x1c, 0xcb],
    [0xcb, 0xd3, 0xde, 0xd3, 0x16, 0x2d, 0xd3, 0x4a, 0x4a, 0xd3, 0xe5, 0xe5],
    [0xfd, 0x54, 0x6e, 0x41, 0xd3, 0x72, 0x46, 0xd3, 0xd3, 0x9e, 0x9e, 0x9e],
    [0xd3, 0x9e, 0xfc, 0xd3, 0x26, 0x48, 0x01, 0x21, 0x41, 0x70, 0x28, 0x49],
    [0xc9, 0x78, 0xc1, 0x70, 0xde, 0xe7, 0xc3, 0x20, 0x50, 0x70, 0x26, 0x49],
    [0x17, 0x70, 0x01, 0x20, 0x08, 0x70, 0x20, 0x68, 0x00, 0x28, 0x03, 0xda],
    [0x02, 0xf0, 0x95, 0xfa, 0x07, 0x26, 0xb1, 0xe0, 0x22, 0x48, 0xc1, 0x6a],
    [0x22, 0x4a, 0x11, 0x40, 0xc1, 0x62, 0x68, 0x46, 0x47, 0x71, 0x00, 0x26],
    [0x07, 0x71, 0xa7, 0xe0, 0x20, 0x68, 0x01, 0x06, 0x09, 0x0e, 0x0b, 0xd0],
    [0xc0, 0xb2, 0x03, 0x28, 0x08, 0xd0, 0x68, 0x46, 0x47, 0x71, 0x03, 0x20],
    [0x69, 0x46, 0x08, 0x71, 0xc3, 0x20, 0x50, 0x70, 0x00, 0x26, 0x97, 0xe0],
    [0x02, 0x20, 0x69, 0x46, 0x48, 0x71, 0xf4, 0xe7, 0x01, 0x20, 0x00, 0xf0],
    [0x5d, 0xfa, 0x09, 0xb0, 0xf0, 0xbd, 0x69, 0x46, 0x4f, 0x71, 0x01, 0x20],
    [0xed, 0xe7, 0x08, 0x48, 0x0a, 0x49, 0x80, 0x1f, 0x07, 0x70, 0xc2, 0x20],
    [0x08, 0x70, 0x28, 0x46, 0x00, 0xf0, 0xfb, 0xf8, 0x7d, 0xe0, 0x20, 0x68],
    [0x00, 0x28, 0x14, 0xd0, 0x01, 0xa9, 0x20, 0x46, 0x00, 0xf0, 0xbd, 0xf8],
    [0xe7, 0xe7, 0xde, 0x1b, 0x10, 0x00, 0x28, 0x0c, 0x10, 0x00, 0xe2, 0x1b],
    [0x10, 0x00, 0xfc, 0x18, 0x10, 0x00, 0xb4, 0x1b, 0x10, 0x00, 0x22, 0x19],
    [0x10, 0x00, 0x40, 0x40, 0x02, 0x40, 0xff, 0xff, 0x00, 0xf0, 0x06, 0x26],
    [0x66, 0xe0, 0x01, 0xa8, 0xff, 0xf7, 0xfa, 0xfe, 0x5f, 0xe0, 0x15, 0x46],
    [0x05, 0x28, 0x02, 0xd0, 0x06, 0x28, 0x04, 0xd0, 0x06, 0xe0, 0x08, 0x46],
    [0x09, 0xf6, 0x1a, 0xff, 0x02, 0xe0, 0x08, 0x46, 0x0a, 0xf6, 0x84, 0xf8],
    [0x68, 0x78, 0xc3, 0x28, 0x02, 0xd0, 0x00, 0x28, 0x04, 0xd0, 0x12, 0xe0],
    [0xa2, 0x20, 0x01, 0xf0, 0x1f, 0xff, 0x0e, 0xe0, 0x28, 0x78, 0x07, 0x28]]"

end
