(* ===== verification/Pn547_Rows_B.thy ===== *)
theory Pn547_Rows_B
  imports Prelude_C
begin

text \<open>
  The bytes of \<open>gphDnldNfc_DlSequence\<close> (\<open>nfc/pn547/src/libpn547_fw.c\<close>), source rows 1501 to 2883 of
  the initialiser: one inner list per source line, 150 lines per definition.
\<close>

definition fw_rows_10 :: "u8 list list" where
  "fw_rows_10 = [
    [0x01, 0xd0, 0x01, 0x20, 0x04, 0xe0, 0x20, 0x68, 0xc0, 0xb2, 0x09, 0x28],
    [0x09, 0xd0, 0x02, 0x20, 0x69, 0x46, 0x08, 0x71, 0x01, 0x20, 0x48, 0x71],
    [0x00, 0x26, 0xc3, 0x20, 0x68, 0x70, 0xef, 0xab, 0x32, 0x52, 0xc0, 0xaf],
    [0x21, 0x5a, 0x56, 0x9f, 0x3c, 0x0f, 0x05, 0x9a, 0xcb, 0x91, 0x91, 0xed],
    [0x5f, 0xb1, 0xd8, 0x3f, 0x11, 0xf6, 0xdd, 0x21, 0x67, 0xa3, 0x1b, 0x8e],
    [0x67, 0xfc, 0x02, 0x26, 0xc0, 0x00, 0xc4, 0x20, 0x00, 0x02, 0x2f, 0x70],
    [0x36, 0xe0, 0x03, 0x20, 0xf4, 0xe7, 0x52, 0x78, 0x20, 0x2a, 0x09, 0xd0],
    [0x00, 0x2a, 0x07, 0xd0, 0xc2, 0x2a, 0x05, 0xd2, 0x07, 0x28, 0x03, 0xd0],
    [0x24, 0x68, 0x16, 0x2d, 0x09, 0xd0, 0x09, 0xe0, 0x00, 0x98, 0x11, 0x28],
    [0x03, 0xd0, 0x68, 0x46, 0x08, 0x26, 0x05, 0x71, 0x22, 0xe0, 0x00, 0x20],
    [0x26, 0xe0, 0x17, 0x25, 0x21, 0x2a, 0x8c, 0xd1, 0x80, 0x4a, 0x12, 0x78],
    [0x01, 0x2a, 0x88, 0xd0, 0x05, 0x28, 0x00, 0xd0, 0x04, 0x20, 0xfd, 0xf7],
    [0xaf, 0xfb, 0x06, 0x46, 0x21, 0x46, 0x03, 0x20, 0x08, 0xf6, 0x2f, 0xf9],
    [0x2a, 0x46, 0x21, 0x46, 0x30, 0x46, 0x09, 0xf6, 0xd0, 0xfd, 0x78, 0xe7],
    [0x00, 0x98, 0x11, 0x28, 0x0b, 0xd0, 0x01, 0xa9, 0x20, 0x46, 0xff, 0xf7],
    [0xbd, 0xfd, 0x06, 0x46, 0x09, 0x2e, 0x85, 0xd0, 0x01, 0xa9, 0x30, 0x46],
    [0x02, 0xf0, 0x27, 0xff, 0x69, 0xe7, 0x01, 0x20, 0x03, 0xf0, 0x9a, 0xfa],
    [0x65, 0xe7, 0x20, 0x68, 0x08, 0xf6, 0x96, 0xf9, 0x20, 0x68, 0x03, 0xf0],
    [0x85, 0xf9, 0x5e, 0xe7, 0x0b, 0x2d, 0x16, 0xd0, 0x32, 0x20, 0x69, 0x46],
    [0x08, 0x76, 0x20, 0x68, 0x00, 0x28, 0x04, 0xd0, 0x02, 0x28, 0x12, 0xd0],
    [0x18, 0x28, 0x0e, 0xd0, 0x03, 0x20, 0x48, 0x76, 0x02, 0x23, 0x00, 0x22],
    [0x00, 0x93, 0x06, 0xab, 0x11, 0x46, 0x10, 0x46, 0x00, 0xf0, 0xa0, 0xfb],
    [0x47, 0xe7, 0x0a, 0xe0, 0x05, 0xe0, 0x40, 0x20, 0xe7, 0xe7, 0x09, 0x20],
    [0xef, 0xe7, 0xb2, 0x20, 0xed, 0xe7, 0x5a, 0x48, 0x02, 0xf0, 0x96, 0xfb],
    [0x3b, 0xe7, 0x20, 0x68, 0x0a, 0xf6, 0x8b, 0xfe, 0x37, 0xe7, 0x10, 0xb5],
    [0xfd, 0xf7, 0xb1, 0xfb, 0x03, 0xf0, 0x72, 0xf9, 0x03, 0x28, 0x03, 0xd3],
    [0x00, 0x21, 0x06, 0x20, 0x01, 0xf0, 0x99, 0xf8, 0x10, 0xbd, 0x70, 0xb5],
    [0x50, 0x4d, 0x0c, 0x46, 0xc3, 0x21, 0x2d, 0x1f, 0x69, 0x70, 0x00, 0x68],
    [0x02, 0x28, 0x0b, 0xd0, 0x00, 0xf0, 0xaa, 0xf8, 0x01, 0x20, 0xfd, 0xf7],
    [0x24, 0xfb, 0x21, 0x46, 0x06, 0x20, 0x02, 0xf0, 0xd6, 0xfe, 0x00, 0x28],
    [0x1a, 0xd0, 0x1d, 0xe0, 0x21, 0x46, 0x06, 0x20, 0x02, 0xf0, 0xcf, 0xfe],
    [0x00, 0x28, 0x17, 0xd1, 0x44, 0x48, 0x00, 0x78, 0x15, 0x28, 0x07, 0xd0],
    [0x04, 0x21, 0x15, 0x20, 0x01, 0xf0, 0x75, 0xf8, 0x11, 0x20, 0xfd, 0xf7],
    [0xf0, 0xfa, 0x07, 0xe0, 0x00, 0xf0, 0xd3, 0xff, 0x02, 0x28, 0x03, 0xd0],
    [0x02, 0x21, 0x15, 0x20, 0x01, 0xf0, 0x69, 0xf8, 0x00, 0x21, 0x0e, 0x20],
    [0x01, 0xf0, 0x65, 0xf8, 0x00, 0x20, 0x28, 0x70, 0x70, 0xbd, 0x70, 0xb5],
    [0x05, 0x46, 0x36, 0x48, 0x34, 0x4c, 0x41, 0x7a, 0x33, 0x4a, 0x24, 0x1f],
    [0x04, 0x20, 0x52, 0x78, 0x22, 0x70, 0x81, 0x29, 0x0a, 0xd3, 0x00, 0x20],
    [0x81, 0x29, 0x00, 0xd0, 0x7c, 0x20, 0x2e, 0x49, 0x48, 0x70, 0x09, 0x78],
    [0x00, 0xf0, 0x0e, 0xf8, 0x21, 0x21, 0x00, 0xe0, 0x20, 0x21, 0x61, 0x70],
    [0x09, 0x2d, 0x01, 0xd0, 0x04, 0x20, 0x70, 0xbd, 0x03, 0x28, 0x01, 0xd0],
    [0x05, 0x20, 0x70, 0xbd, 0x09, 0x20, 0x70, 0xbd, 0xf3, 0xb5, 0x07, 0x46],
    [0x25, 0x48, 0x04, 0x21, 0xc0, 0x38, 0x38, 0x18, 0x80, 0x7c, 0x81, 0xb0],
    [0x00, 0x28, 0x0b, 0xd0, 0x1f, 0x48, 0x21, 0x4d, 0x00, 0x1f, 0x00, 0x78],
    [0x01, 0x28, 0x07, 0xd0, 0x02, 0x28, 0x08, 0xd0, 0x05, 0x28, 0x03, 0xd0],
    [0x06, 0x28, 0x04, 0xd0, 0x08, 0x46, 0xfe, 0xbd, 0x05, 0x20, 0x01, 0x21],
    [0x01, 0xe0, 0x04, 0x20, 0x02, 0x21, 0x29, 0x70, 0x39, 0x46, 0xfd, 0xf7],
    [0xdd, 0xfa, 0x06, 0x46, 0x17, 0x48, 0x00, 0x78, 0x01, 0x28, 0x01, 0xd9],
    [0x03, 0x24, 0x00, 0xe0, 0x00, 0x24, 0xc6, 0x5e, 0xc5, 0xf3, 0xac, 0x5f],
    [0xe5, 0xd2, 0x4d, 0x94, 0x6f, 0xd3, 0xe6, 0x77, 0xee, 0x73, 0x23, 0xce],
    [0xfd, 0x3c, 0x15, 0x35, 0xf4, 0xb2, 0x28, 0x0d, 0xd3, 0x0e, 0x28, 0x05],
    [0xbc, 0xe4, 0x02, 0x26, 0xc0, 0x00, 0xc6, 0x20, 0x00, 0x02, 0x0f, 0x48],
    [0x00, 0x78, 0x02, 0x28, 0x07, 0xd0, 0x02, 0x98, 0x15, 0x28, 0x06, 0xd0],
    [0x2a, 0x78, 0x21, 0x46, 0x38, 0x46, 0x00, 0xf0, 0xbe, 0xff, 0x20, 0x46],
    [0xfe, 0xbd, 0x08, 0xf6, 0x8f, 0xf8, 0x03, 0x21, 0x01, 0x70, 0x80, 0x21],
    [0x0e, 0x43, 0x46, 0x70, 0x50, 0x21, 0x81, 0x70, 0x09, 0x49, 0xc4, 0x70],
    [0x08, 0x60, 0x00, 0x20, 0x00, 0xf0, 0xcb, 0xfd, 0xed, 0xe7, 0x39, 0x0c],
    [0x10, 0x00, 0xde, 0x1b, 0x10, 0x00, 0x28, 0x0c, 0x10, 0x00, 0x80, 0x17],
    [0x20, 0x00, 0x3a, 0x0c, 0x10, 0x00, 0x90, 0x16, 0x10, 0x00, 0x00, 0x19],
    [0x10, 0x00, 0x10, 0xb5, 0x00, 0x22, 0x85, 0x21, 0x03, 0x20, 0xfc, 0xf5],
    [0x7e, 0xfb, 0x10, 0xbd, 0x10, 0xb5, 0x81, 0x48, 0x80, 0x7f, 0x00, 0x28],
    [0x0c, 0xd0, 0x80, 0x48, 0xf7, 0xf5, 0x02, 0xff, 0x80, 0x48, 0x00, 0x23],
    [0x01, 0x7b, 0x40, 0x7b, 0x7f, 0x4a, 0x00, 0x02, 0x01, 0x43, 0x7b, 0x48],
    [0xf7, 0xf5, 0xe7, 0xfe, 0x10, 0xbd, 0x10, 0xb5, 0x79, 0x49, 0x00, 0x20],
    [0x08, 0x75, 0x02, 0x22, 0x09, 0x1f, 0x0a, 0x70, 0x48, 0x70, 0x78, 0x48],
    [0xc0, 0x6a, 0x40, 0x02, 0x40, 0x0e, 0x03, 0xd0, 0x03, 0xf0, 0x94, 0xf8],
    [0x03, 0x28, 0x01, 0xd2, 0xff, 0xf7, 0xda, 0xff, 0x10, 0xbd, 0x10, 0xb5],
    [0x04, 0x46, 0x6e, 0x48, 0xf7, 0xf5, 0xde, 0xfe, 0x6c, 0x49, 0x20, 0x46],
    [0x1e, 0x31, 0xfc, 0xf5, 0x5a, 0xfa, 0xff, 0xf7, 0xcd, 0xff, 0x10, 0xbd],
    [0xf0, 0xb5, 0x85, 0xb0, 0x06, 0x46, 0x02, 0x20, 0x69, 0x46, 0x08, 0x70],
    [0x66, 0x4d, 0x00, 0x20, 0x2d, 0x1f, 0x03, 0x90, 0x68, 0x78, 0x01, 0x28],
    [0x71, 0xd1, 0x00, 0x20, 0x68, 0x70, 0xfd, 0xf7, 0xc4, 0xfa, 0x07, 0x46],
    [0x01, 0x2e, 0x54, 0xd0, 0x28, 0x78, 0x00, 0x24, 0x01, 0x28, 0x12, 0xd1],
    [0x5e, 0x49, 0x01, 0x24, 0x40, 0x31, 0x48, 0x78, 0x89, 0x78, 0x09, 0x02],
    [0x08, 0x43, 0x5d, 0x49, 0x88, 0x42, 0x00, 0xd3, 0x08, 0x46, 0x64, 0x21],
    [0x48, 0x43, 0xff, 0x21, 0x08, 0x31, 0x0a, 0xf6, 0x3c, 0xfe, 0x80, 0xb2],
    [0x03, 0x90, 0x00, 0x2e, 0x05, 0xd1, 0x57, 0x48, 0x40, 0x78, 0x00, 0x28],
    [0x01, 0xd1, 0x08, 0x20, 0x04, 0x43, 0x52, 0x4e, 0x40, 0x3e, 0x30, 0x6a],
    [0xc1, 0x07, 0x04, 0x20, 0x00, 0x29, 0x02, 0xd0, 0x10, 0x21, 0x0c, 0x43],
    [0x00, 0xe0, 0x04, 0x43, 0x00, 0x2f, 0x00, 0xd0, 0x04, 0x43, 0x71, 0x6b],
    [0x02, 0x20, 0x81, 0x43, 0x71, 0x63, 0x4c, 0x48, 0x01, 0x68, 0xc9, 0x06],
    [0xfc, 0xd1, 0x41, 0x68, 0x40, 0x22, 0x91, 0x43, 0x41, 0x60, 0x64, 0x20],
    [0xf9, 0xf5, 0xe6, 0xfe, 0x01, 0xaa, 0x00, 0x21, 0x03, 0x20, 0xfc, 0xf5],
    [0xc9, 0xfa, 0x01, 0x27, 0x00, 0x28, 0x28, 0xd0, 0x00, 0xf0, 0xa2, 0xf9],
    [0x79, 0x02, 0xc0, 0x28, 0x70, 0x68, 0x2b, 0xd0, 0x88, 0x43, 0x70, 0x60],
    [0x40, 0x48, 0x47, 0x74, 0xfe, 0xf5, 0x85, 0xfe, 0x6a, 0x46, 0x20, 0x46],
    [0x03, 0x99, 0xf3, 0xf5, 0x71, 0xfe, 0x68, 0x46, 0x00, 0x78, 0x00, 0x28],
    [0x11, 0xd0, 0x35, 0x48, 0x40, 0x38, 0x00, 0x6a, 0xc0, 0x07, 0x04, 0xd0],
    [0x36, 0x48, 0x41, 0x68, 0x40, 0x22, 0x11, 0x43, 0x41, 0x60, 0x28, 0x78],
    [0x00, 0x28, 0x11, 0xd0, 0x00, 0x22, 0x91, 0x21, 0x02, 0x20, 0xfc, 0xf5],
    [0xf9, 0xfa, 0x05, 0xb0, 0xf0, 0xbd, 0x68, 0x46, 0x01, 0x7a, 0x03, 0x20],
    [0x01, 0x9a, 0xfc, 0xf5, 0x22, 0xfb, 0x68, 0x46, 0x07, 0x70, 0xe2, 0xe7],
    [0x08, 0x43, 0xd2, 0xe7, 0xff, 0xf7, 0x3e, 0xff, 0xef, 0xe7, 0x21, 0x49],
    [0x10, 0xb5, 0x01, 0x20, 0x09, 0x1f, 0x48, 0x70, 0x24, 0x48, 0x00, 0x78],
    [0x14, 0x28, 0x03, 0xd0, 0x02, 0x20, 0xdc, 0x37, 0xe6, 0xba, 0x6a, 0x06],
    [0xc6, 0x72, 0xda, 0x73, 0x74, 0x9d, 0xb3, 0xc9, 0x78, 0xd7, 0xec, 0xcb],
    [0xa6, 0x06, 0x36, 0xf9, 0x60, 0x9e, 0x12, 0x00, 0x60, 0x63, 0x23, 0x43],
    [0x24, 0x6c, 0x02, 0x26, 0xc0, 0x00, 0xc8, 0x20, 0x00, 0x02, 0xff, 0xf7],
    [0x65, 0xff, 0x10, 0xbd, 0x01, 0x20, 0x00, 0xf0, 0xe2, 0xfc, 0x10, 0xbd],
    [0x19, 0x49, 0x10, 0xb5, 0x09, 0x1f, 0x1f, 0x4c, 0x08, 0x70, 0x00, 0x28],
    [0x04, 0xd0, 0x08, 0x1d, 0x00, 0x7d, 0x00, 0x28, 0x14, 0xd0, 0x1a, 0xe0],
    [0x02, 0xf0, 0xd4, 0xff, 0x03, 0x28, 0x0e, 0xd8, 0x14, 0x48, 0xc0, 0x6a],
    [0x19, 0x49, 0x40, 0x02, 0x09, 0x78, 0x40, 0x0e, 0x08, 0x43, 0x06, 0xd1],
    [0x08, 0xf6, 0x41, 0xf8, 0x21, 0x78, 0x08, 0x43, 0x0f, 0xd0, 0xff, 0xf7],
    [0x0d, 0xff, 0x10, 0xbd, 0x08, 0xf6, 0x39, 0xf8, 0x00, 0x28, 0x02, 0xd1],
    [0x20, 0x78, 0x00, 0x28, 0x05, 0xd0, 0x00, 0x22, 0x91, 0x21, 0x02, 0x20],
    [0xfc, 0xf5, 0xac, 0xfa, 0x10, 0xbd, 0xff, 0xf7, 0xc0, 0xff, 0x10, 0xbd],
    [0x00, 0x00, 0xe0, 0x18, 0x20, 0x00, 0xdc, 0x18, 0x10, 0x00, 0x60, 0x17],
    [0x20, 0x00, 0x59, 0xc6, 0x20, 0x00, 0x40, 0x40, 0x02, 0x40, 0xc4, 0x09],
    [0x00, 0x00, 0x28, 0x0c, 0x10, 0x00, 0x00, 0x00, 0x02, 0x40, 0x88, 0x10],
    [0x10, 0x00, 0xf7, 0x18, 0x10, 0x00, 0xa1, 0x1b, 0x10, 0x00, 0xf7, 0xb5],
    [0x9a, 0xb0, 0x04, 0x46, 0x00, 0x79, 0x00, 0x27, 0x16, 0x90, 0xc2, 0x20],
    [0x69, 0x46, 0x88, 0x70, 0x88, 0x75, 0x08, 0xa9, 0x88, 0x72, 0xac, 0x48],
    [0x16, 0x46, 0x80, 0x7b, 0x19, 0x90, 0x0a, 0xa8, 0x18, 0x90, 0x17, 0x97],
    [0x38, 0x46, 0xc0, 0xe0, 0xa8, 0x48, 0x38, 0x18, 0x02, 0x7c, 0xa6, 0x48],
    [0x92, 0x1c, 0x0f, 0x30, 0x39, 0x18, 0x0f, 0xa8, 0x0a, 0xf6, 0x89, 0xfd],
    [0x08, 0xa8, 0x40, 0x7f, 0xbf, 0x1c, 0xc0, 0x19, 0xc7, 0xb2, 0x20, 0x78],
    [0xff, 0x28, 0x15, 0xd0, 0xfe, 0x28, 0x4b, 0xd0, 0xe5, 0x78, 0x21, 0x79],
    [0x15, 0x91, 0x14, 0x90, 0x08, 0xa8, 0x00, 0x7f, 0x14, 0x99, 0x88, 0x42],
    [0x57, 0xd1, 0x08, 0xa9, 0xc9, 0x7f, 0x29, 0x42, 0x53, 0xd0, 0x00, 0x28],
    [0x45, 0xd0, 0x01, 0x28, 0x5e, 0xd0, 0x02, 0x28, 0x4d, 0xd1, 0x7b, 0xe0],
    [0xfd, 0xf7, 0x7b, 0xf9, 0x94, 0x49, 0x89, 0x68, 0x8d, 0x0b, 0xf0, 0x21],
    [0x0d, 0x40, 0x01, 0xd0, 0x00, 0x28, 0x02, 0xd0, 0x01, 0x21, 0x81, 0x40],
    [0xcd, 0xb2, 0x00, 0x20, 0x15, 0x90, 0x08, 0xa8, 0x00, 0x7f, 0x14, 0x90],
    [0x30, 0x06, 0x1b, 0xd5, 0x08, 0xa8, 0x80, 0x7f, 0x02, 0x28, 0x04, 0xd1],
    [0x00, 0x20, 0x00, 0xf0, 0xcb, 0xfd, 0x00, 0x28, 0x08, 0xd0, 0x08, 0xa8],
    [0x80, 0x7f, 0xc0, 0x28, 0x05, 0xd1, 0x7c, 0x20, 0x00, 0xf0, 0xc2, 0xfd],
    [0x00, 0x28, 0x00, 0xd1, 0x00, 0x25, 0x08, 0xa8, 0x80, 0x7f, 0x00, 0x28],
    [0x04, 0xd0, 0x80, 0x48, 0x00, 0x78, 0x00, 0x28, 0x00, 0xd1, 0x00, 0x25],
    [0x70, 0x06, 0xbd, 0xd5, 0x08, 0xa8, 0x80, 0x7f, 0x00, 0x28, 0xb9, 0xd1],
    [0x00, 0x25, 0xb7, 0xe7, 0x08, 0xa8, 0x00, 0x7f, 0x14, 0x90, 0xa0, 0x20],
    [0xc7, 0x25, 0x15, 0x90, 0xfe, 0x20, 0x16, 0x90, 0xae, 0xe7, 0x16, 0x98],
    [0xff, 0x28, 0x09, 0xd0, 0x10, 0xa8, 0x01, 0x78, 0x16, 0x98, 0x81, 0x42],
    [0x4b, 0xd1, 0x68, 0x46, 0x80, 0x78, 0xc2, 0x28, 0x0a, 0xd0, 0x46, 0xe0],
    [0x68, 0x46, 0x80, 0x78, 0xc2, 0x28, 0x05, 0xd0, 0x10, 0xa8, 0x00, 0x78],
    [0x00, 0x28, 0x01, 0xd0, 0x02, 0x28, 0x3c, 0xd1, 0x14, 0x22, 0x0f, 0xa9],
    [0x68, 0x46, 0x1c, 0xe0, 0x10, 0xa8, 0x00, 0x78, 0x15, 0x99, 0x88, 0x42],
    [0x0e, 0xd0, 0x04, 0x28, 0x04, 0xd0, 0xa0, 0x28, 0x05, 0xd0, 0x05, 0x28],
    [0x05, 0xd0, 0x2c, 0xe0, 0xf1, 0x07, 0x05, 0xd1, 0x29, 0xe0, 0xb1, 0x06],
    [0x00, 0xe0, 0xb1, 0x07, 0x00, 0x29, 0x24, 0xda, 0x69, 0x46, 0x89, 0x7d],
    [0xc2, 0x29, 0x01, 0xd0, 0xa0, 0x28, 0xa9, 0x9a, 0xfa, 0x76, 0x7b, 0x80],
    [0xce, 0xff, 0xc7, 0x95, 0x63, 0xe7, 0x99, 0xba, 0xc7, 0x23, 0x9b, 0x3e],
    [0x1b, 0x98, 0x0a, 0xee, 0x70, 0x41, 0x6c, 0x7b, 0xe2, 0x56, 0xa9, 0x7a],
    [0x6f, 0xf8, 0x02, 0x26, 0xc0, 0x00, 0xca, 0x20, 0x00, 0x02, 0x1e, 0xd1],
    [0x14, 0x22, 0x0f, 0xa9, 0x05, 0xa8, 0x0a, 0xf6, 0xf0, 0xfc, 0x18, 0xe0],
    [0x08, 0xa8, 0x80, 0x7a, 0xc2, 0x28, 0x14, 0xd1, 0x30, 0x07, 0x03, 0xd5],
    [0x14, 0x22, 0x0f, 0xa9, 0x18, 0x98, 0xf2, 0xe7, 0x70, 0x07, 0x0c, 0xd4],
    [0x08, 0xa8, 0x42, 0x7f, 0x60, 0x78, 0x82, 0x42, 0x07, 0xd8, 0x92, 0x1e],
    [0x21, 0x1d, 0x0f, 0xad, 0x10, 0xa8, 0x0a, 0xf6, 0xfd, 0xfc, 0x00, 0x28],
    [0x21, 0xd0, 0x17, 0x98, 0x40, 0x1c, 0xc0, 0xb2, 0x17, 0x90, 0x19, 0x99]]"

definition fw_rows_11 :: "u8 list list" where
  "fw_rows_11 = [
    [0x88, 0x42, 0x00, 0xd2, 0x3a, 0xe7, 0x00, 0x25, 0x6e, 0x46, 0x1b, 0x98],
    [0x14, 0x21, 0x40, 0x5d, 0x48, 0x43, 0x80, 0x19, 0x80, 0x78, 0xc2, 0x28],
    [0x19, 0xd0, 0x1b, 0x98, 0x14, 0x22, 0x40, 0x5d, 0x48, 0x43, 0x81, 0x19],
    [0x20, 0x46, 0x0a, 0xf6, 0xbc, 0xfc, 0x1b, 0x98, 0x14, 0x21, 0x40, 0x5d],
    [0x48, 0x43, 0x80, 0x19, 0x80, 0x78, 0x1d, 0xb0, 0xf0, 0xbd, 0x62, 0x78],
    [0x21, 0x1d, 0x92, 0x1e, 0x28, 0x1d, 0x0a, 0xf6, 0xae, 0xfc, 0x60, 0x78],
    [0x08, 0xa9, 0x48, 0x77, 0xc0, 0xe7, 0x6d, 0x1c, 0xed, 0xb2, 0x03, 0x2d],
    [0xd9, 0xd3, 0x03, 0x20, 0x20, 0x70, 0xc2, 0x20, 0xa0, 0x70, 0xea, 0xe7],
    [0x00, 0xb5, 0x85, 0xb0, 0xfe, 0x20, 0x69, 0x46, 0x08, 0x70, 0x08, 0x22],
    [0x2f, 0x49, 0x68, 0x46, 0xff, 0xf7, 0xef, 0xfe, 0x2e, 0x49, 0x08, 0x70],
    [0x05, 0xb0, 0x00, 0xbd, 0x00, 0xb5, 0x85, 0xb0, 0xff, 0x20, 0x69, 0x46],
    [0x08, 0x70, 0x08, 0x71, 0x28, 0x49, 0x69, 0x22, 0xc9, 0x1e, 0x68, 0x46],
    [0xff, 0xf7, 0xdf, 0xfe, 0xf0, 0xe7, 0xff, 0xb5, 0x04, 0x46, 0x81, 0xb0],
    [0xff, 0x20, 0x20, 0x70, 0x24, 0x48, 0x21, 0x4b, 0x00, 0x78, 0xdb, 0x1c],
    [0x18, 0x5c, 0x20, 0x71, 0x22, 0x48, 0x05, 0x25, 0x87, 0x78, 0x01, 0x29],
    [0x1d, 0xd8, 0x50, 0x89, 0x51, 0x68, 0x07, 0x28, 0x19, 0xd3, 0x08, 0x78],
    [0x80, 0x08, 0x16, 0xd1, 0x48, 0x78, 0xa4, 0x28, 0x13, 0xd1, 0x88, 0x78],
    [0x04, 0x28, 0x10, 0xd1, 0x0e, 0x79, 0x70, 0x1f, 0x0b, 0x28, 0x07, 0xd8],
    [0x32, 0x46, 0x49, 0x1d, 0x20, 0x1d, 0x0a, 0xf6, 0x60, 0xfc, 0xb6, 0x1c],
    [0x66, 0x70, 0x01, 0x25, 0x04, 0x98, 0x38, 0x43, 0x01, 0xd0, 0x20, 0x20],
    [0x05, 0x43, 0x2a, 0x46, 0x0d, 0x49, 0x20, 0x46, 0xff, 0xf7, 0xab, 0xfe],
    [0x68, 0x07, 0x0c, 0xd4, 0x00, 0x2f, 0x0a, 0xd0, 0x0b, 0x4a, 0xa1, 0x78],
    [0x50, 0x78, 0x88, 0x42, 0x05, 0xd0, 0xc2, 0x28, 0x03, 0xd0, 0x20, 0x78],
    [0x01, 0x28, 0x00, 0xd1, 0x51, 0x70, 0x05, 0xb0, 0xf0, 0xbd, 0x00, 0x19],
    [0x20, 0x00, 0x00, 0x40, 0x02, 0x40, 0x25, 0x0c, 0x10, 0x00, 0xfc, 0xfa],
    [0x20, 0x00, 0xe2, 0x1b, 0x10, 0x00, 0xda, 0x1b, 0x10, 0x00, 0x80, 0x17],
    [0x20, 0x00, 0x9c, 0x49, 0xff, 0x20, 0x08, 0x70, 0x9c, 0x48, 0x00, 0x21],
    [0x01, 0x60, 0x9b, 0x48, 0x01, 0x70, 0xc3, 0x21, 0x41, 0x70, 0x41, 0x21],
    [0x81, 0x70, 0x3f, 0x21, 0xc1, 0x70, 0x70, 0x47, 0x10, 0xb5, 0x04, 0x46],
    [0xfd, 0xf7, 0x33, 0xf8, 0x00, 0x28, 0x22, 0x46, 0x02, 0xd0, 0x43, 0x21],
    [0x03, 0x20, 0x01, 0xe0, 0x80, 0x21, 0x00, 0x20, 0xfc, 0xf5, 0x00, 0xf9],
    [0x10, 0xbd, 0x10, 0xb5, 0x90, 0x49, 0x01, 0x20, 0x07, 0xf6, 0xcb, 0xfe],
    [0x04, 0x46, 0x41, 0x68, 0x03, 0x22, 0x01, 0x20, 0x07, 0xf6, 0x12, 0xff],
    [0x00, 0x28, 0x05, 0xd0, 0x01, 0x20, 0x07, 0xf6, 0xcd, 0xfe, 0x01, 0xf0],
    [0x7f, 0xfc, 0x10, 0xbd, 0x61, 0x68, 0x01, 0x20, 0x8a, 0x78, 0xc9, 0x1c],
    [0x07, 0xf6, 0x04, 0xff, 0x60, 0x68, 0x80, 0x78, 0xc0, 0x1c, 0x60, 0x81],
    [0x20, 0x46, 0xff, 0xf7, 0xd1, 0xff, 0xc0, 0x8c, 0xe6, 0x4f, 0x2e, 0x99],
    [0x10, 0x2a, 0xcb, 0x4c, 0xb4, 0x76, 0x5d, 0xd0, 0x1a, 0x7b, 0x55, 0xde],
    [0xa8, 0x40, 0x30, 0x50, 0x0a, 0x54, 0xaa, 0x95, 0x39, 0x8a, 0xed, 0xe5],
    [0x29, 0x55, 0x02, 0x26, 0xc0, 0x00, 0xcc, 0x20, 0x00, 0x02, 0x10, 0xbd],
    [0xff, 0xb5, 0x83, 0xb0, 0x07, 0x46, 0x01, 0x20, 0x0c, 0x9d, 0x07, 0xf6],
    [0x1b, 0xff, 0x06, 0x46, 0x7c, 0x49, 0x01, 0x20, 0x07, 0xf6, 0xa3, 0xfe],
    [0x00, 0x95, 0x05, 0x9b, 0x04, 0x9a, 0x04, 0x00, 0x39, 0x46, 0x0c, 0xd0],
    [0x0a, 0xf6, 0x93, 0xfb, 0x60, 0x68, 0x2a, 0x46, 0xc0, 0x1c, 0x06, 0x99],
    [0x0a, 0xf6, 0xdb, 0xfb, 0x20, 0x46, 0xff, 0xf7, 0xb3, 0xff, 0x07, 0xb0],
    [0xf0, 0xbd, 0x01, 0xa8, 0x0a, 0xf6, 0x9b, 0xfb, 0xe8, 0x1c, 0x86, 0x42],
    [0xf7, 0xd9, 0x03, 0x22, 0x01, 0xa9, 0x01, 0x20, 0x07, 0xf6, 0xe8, 0xfe],
    [0x2a, 0x46, 0x01, 0x20, 0x06, 0x99, 0x07, 0xf6, 0xe3, 0xfe, 0xec, 0xe7],
    [0x70, 0xb5, 0x04, 0x46, 0x64, 0x48, 0x0d, 0x46, 0x00, 0x78, 0x07, 0xf6],
    [0x5e, 0xfd, 0x06, 0x46, 0x2b, 0x46, 0x22, 0x46, 0x02, 0x21, 0x0a, 0xf6],
    [0x4d, 0xfb, 0x30, 0x46, 0xff, 0xf7, 0x90, 0xff, 0x70, 0xbd, 0x01, 0xb5],
    [0x01, 0x21, 0x68, 0x46, 0xff, 0xf7, 0xea, 0xff, 0x08, 0xbd, 0x7f, 0xb5],
    [0x04, 0x68, 0x00, 0x79, 0xc0, 0x06, 0xc0, 0x0e, 0x0b, 0xd0, 0x03, 0x28],
    [0x08, 0xd1, 0x56, 0x48, 0x00, 0x68, 0xa0, 0x42, 0x7b, 0xd1, 0xff, 0x21],
    [0x01, 0x31, 0x20, 0x46, 0x00, 0xf0, 0xc5, 0xfc, 0x7f, 0xbd, 0x20, 0x46],
    [0x02, 0xf0, 0xd8, 0xfd, 0x00, 0x28, 0xf9, 0xd1, 0xff, 0xf7, 0xd2, 0xfc],
    [0x21, 0x46, 0x01, 0x20, 0x07, 0xf6, 0xf5, 0xfc, 0x4b, 0x49, 0x08, 0x70],
    [0x69, 0x46, 0x20, 0x46, 0x0a, 0xf6, 0xf2, 0xfa, 0x03, 0x94, 0xe0, 0x28],
    [0x61, 0xd0, 0x48, 0x4a, 0x41, 0x21, 0x91, 0x70, 0x69, 0x46, 0x09, 0x78],
    [0x00, 0x29, 0x0b, 0xd0, 0x05, 0x28, 0x4c, 0xd0, 0x68, 0x46, 0x84, 0x78],
    [0xc5, 0x78, 0x03, 0x2c, 0x1c, 0xd0, 0x0f, 0x2c, 0x1c, 0xd0, 0x01, 0x2c],
    [0x1e, 0xd0, 0x24, 0xe0, 0x05, 0x28, 0x68, 0x46, 0x81, 0x78, 0x0f, 0xd0],
    [0x00, 0x29, 0x04, 0xd0, 0x01, 0x29, 0x05, 0xd0, 0x03, 0x29, 0x09, 0xd1],
    [0x05, 0xe0, 0x02, 0xf0, 0x9b, 0xfc, 0x7f, 0xbd, 0x01, 0xf0, 0xa9, 0xfa],
    [0x7f, 0xbd, 0x00, 0xf0, 0x2d, 0xfd, 0x7f, 0xbd, 0x05, 0x20, 0x01, 0xf0],
    [0xbc, 0xf9, 0x7f, 0xbd, 0xff, 0x24, 0x0a, 0xe0, 0x03, 0x24, 0x08, 0x22],
    [0x33, 0x49, 0x02, 0xe0, 0x32, 0x49, 0x08, 0x22, 0x08, 0x31, 0x28, 0x46],
    [0xfc, 0xf7, 0x56, 0xff, 0x05, 0x46, 0x29, 0x46, 0x20, 0x46, 0x02, 0xf0],
    [0x44, 0xfd, 0x00, 0x28, 0x17, 0xd1, 0x2b, 0x48, 0x00, 0x1f, 0x02, 0x5d],
    [0x74, 0x30, 0x40, 0x19, 0x11, 0x5c, 0x09, 0x20, 0xff, 0x29, 0x08, 0xd0],
    [0x0b, 0x06, 0x00, 0x2b, 0x6b, 0x46, 0x1b, 0x79, 0x05, 0xda, 0x49, 0x06],
    [0x49, 0x0e, 0x8b, 0x42, 0x03, 0xd3, 0x00, 0x20, 0x01, 0xe0, 0x8b, 0x42],
    [0xfb, 0xd0, 0x00, 0x28, 0x03, 0xd0, 0xff, 0xf7, 0x7c, 0xff, 0x7f, 0xbd],
    [0x07, 0xe0, 0x50, 0x19, 0x1d, 0x49, 0x80, 0x00, 0x10, 0x31, 0x09, 0x58],
    [0x68, 0x46, 0x88, 0x47, 0xf5, 0xe7, 0x20, 0x46, 0x07, 0xf6, 0x0a, 0xfd],
    [0xf1, 0xe7, 0x38, 0xb5, 0x1c, 0x46, 0x04, 0x9b, 0x00, 0x93, 0x13, 0x46],
    [0x0a, 0x46, 0x01, 0x46, 0x20, 0x46, 0x0a, 0xf6, 0xca, 0xfa, 0x20, 0x46],
    [0xff, 0xf7, 0xf0, 0xfe, 0x38, 0xbd, 0x10, 0xb5, 0x04, 0x46, 0x02, 0x20],
    [0xfc, 0xf7, 0x68, 0xff, 0x20, 0x46, 0xe1, 0x68, 0x0a, 0xf6, 0x21, 0xfa],
    [0x10, 0xbd, 0x10, 0xb5, 0x04, 0x46, 0x03, 0x20, 0xfc, 0xf7, 0x81, 0xff],
    [0x20, 0x46, 0xe1, 0x68, 0x0a, 0xf6, 0xcb, 0xf9, 0x10, 0xbd, 0x10, 0xb5],
    [0x81, 0x68, 0x09, 0x78, 0x0a, 0xf6, 0x39, 0xf9, 0x10, 0xbd, 0x54, 0x11],
    [0x10, 0x00, 0xe8, 0x1b, 0x10, 0x00, 0x01, 0xbe, 0xca, 0xad, 0xb2, 0xeb],
    [0x2f, 0xbf, 0xfe, 0x02, 0xa1, 0x90, 0xb6, 0xd8, 0xe9, 0x73, 0x4d, 0x54],
    [0xad, 0x7e, 0x21, 0x0f, 0x91, 0xff, 0x76, 0xb8, 0x1c, 0xb6, 0xc5, 0xce],
    [0x6a, 0x1f, 0x02, 0x26, 0xc0, 0x00, 0xce, 0x20, 0x00, 0x02, 0xda, 0x1b],
    [0x10, 0x00, 0xc1, 0xcb, 0x20, 0x00, 0x10, 0xfb, 0x20, 0x00, 0x70, 0xb5],
    [0xfa, 0x4c, 0x03, 0x20, 0x20, 0x70, 0x00, 0x25, 0x65, 0x70, 0xa5, 0x70],
    [0xe5, 0x60, 0xf7, 0x48, 0xa5, 0x60, 0x05, 0x60, 0x07, 0xf6, 0x1f, 0xfe],
    [0x09, 0xf6, 0x75, 0xfd, 0x09, 0xf6, 0x3d, 0xf8, 0xf4, 0x48, 0x40, 0x7e],
    [0x20, 0x71, 0xe5, 0x80, 0x00, 0x28, 0x03, 0xd0, 0xfc, 0xf7, 0xe9, 0xfe],
    [0x02, 0x28, 0x04, 0xd1, 0x07, 0x21, 0xc9, 0x02, 0x00, 0x20, 0xfc, 0xf7],
    [0x32, 0xff, 0xe5, 0x70, 0x70, 0xbd, 0x70, 0xb5, 0x05, 0x46, 0xeb, 0x48],
    [0xea, 0x4c, 0x29, 0x18, 0xcc, 0x3c, 0x00, 0x20, 0xfb, 0xf5, 0x8d, 0xfe],
    [0x7c, 0x2d, 0x00, 0xd1, 0x64, 0x1d, 0xe1, 0x1c, 0x00, 0x20, 0xfb, 0xf5],
    [0x8c, 0xfe, 0x70, 0xbd, 0xe5, 0x49, 0x00, 0x28, 0x48, 0x68, 0x03, 0xd0],
    [0x0a, 0x15, 0x90, 0x43, 0x48, 0x60, 0x70, 0x47, 0xff, 0x22, 0x01, 0x32],
    [0xf9, 0xe7, 0xe0, 0x48, 0x40, 0x78, 0x00, 0x28, 0x02, 0xd0, 0xdf, 0x48],
    [0x00, 0x78, 0x70, 0x47, 0x02, 0x20, 0x70, 0x47, 0xdb, 0x49, 0x00, 0x28],
    [0x48, 0x68, 0x02, 0xd0, 0x40, 0x05, 0xc0, 0x0f, 0x70, 0x47, 0xc0, 0x05],
    [0xfb, 0xe7, 0x10, 0xb5, 0xd7, 0x4c, 0x15, 0x20, 0x20, 0x70, 0x60, 0x78],
    [0xff, 0xf7, 0xf0, 0xff, 0x00, 0x28, 0x03, 0xd1, 0xd5, 0x48, 0xc0, 0x78],
    [0x3d, 0x28, 0x04, 0xd1, 0xff, 0xf7, 0xdf, 0xff, 0x02, 0x21, 0x01, 0xf0],
    [0x73, 0xfa, 0x60, 0x78, 0xff, 0xf7, 0xce, 0xff, 0xd0, 0x49, 0x00, 0x20],
    [0x08, 0x70, 0x10, 0xbd, 0xfe, 0xb5, 0xca, 0x4d, 0xc9, 0x4b, 0x6a, 0x78],
    [0xcd, 0x49, 0x00, 0x2a, 0x1e, 0xd0, 0x58, 0x68, 0x05, 0x24, 0x40, 0x05],
    [0x49, 0x88, 0x5e, 0x68, 0xc0, 0x0f, 0x1f, 0x15, 0x3e, 0x43, 0x5e, 0x60],
    [0x14, 0x23, 0x2b, 0x70, 0xc0, 0x4b, 0x71, 0x3b, 0xd2, 0x18, 0x53, 0x7a],
    [0x12, 0x7a, 0x1b, 0x02, 0x13, 0x43, 0x01, 0x22, 0x99, 0x42, 0x00, 0xd0],
    [0x00, 0x22, 0xbf, 0x4d, 0xbe, 0x49, 0x2a, 0x70, 0xc9, 0x78, 0x00, 0x28],
    [0x0b, 0xd0, 0x3d, 0x29, 0x0b, 0xd0, 0xfe, 0xbd, 0x58, 0x68, 0x00, 0x24],
    [0xc0, 0x05, 0x09, 0x88, 0x5e, 0x68, 0xc0, 0x0f, 0xff, 0x27, 0x01, 0x37],
    [0xde, 0xe7, 0x3c, 0x29, 0xf3, 0xd0, 0xff, 0xf7, 0xa2, 0xff, 0x00, 0x21],
    [0x01, 0xf0, 0x36, 0xfa, 0x28, 0x78, 0x00, 0x28, 0xeb, 0xd0, 0xab, 0x48],
    [0x05, 0x22, 0xcc, 0x38, 0x21, 0x18, 0x68, 0x46, 0x0a, 0xf6, 0x47, 0xfa],
    [0x68, 0x46, 0x01, 0xf0, 0x03, 0xfb, 0xfe, 0xbd, 0xfe, 0xb5, 0x05, 0x46],
    [0x00, 0x20, 0x04, 0x46, 0x01, 0x90, 0xa6, 0x48, 0xa4, 0x49, 0x40, 0x78],
    [0x71, 0x39, 0x41, 0x18, 0x4a, 0x7a, 0x0b, 0x7a, 0x11, 0x02, 0x9d, 0x4f],
    [0x19, 0x43, 0xf9, 0x80, 0x0f, 0x21, 0xa5, 0x4a, 0x00, 0x28, 0x51, 0x73],
    [0x16, 0xd0, 0xa4, 0x48, 0x01, 0x26, 0x00, 0x7b, 0x00, 0x28, 0x34, 0xd0],
    [0x0f, 0x20, 0xfc, 0xf7, 0x9a, 0xfe, 0xa1, 0x48, 0x32, 0x46, 0x41, 0x5d],
    [0x80, 0x20, 0x01, 0x43, 0x01, 0x20, 0xfb, 0xf5, 0x07, 0xff, 0x00, 0x2c],
    [0x02, 0xd0, 0x9d, 0x49, 0x01, 0x20, 0x08, 0x70, 0x01, 0x98, 0xfe, 0xbd],
    [0x99, 0x48, 0x00, 0x26, 0x20, 0x38, 0xc0, 0x7c, 0x00, 0x28, 0x1c, 0xd0],
    [0x01, 0x2d, 0xe8, 0xd1, 0x68, 0x46, 0xf4, 0xf5, 0x69, 0xf8, 0x8c, 0x48],
    [0x00, 0x6a, 0xc0, 0x07, 0x05, 0xd1, 0x68, 0x46, 0x00, 0x78, 0x01, 0x28],
    [0x0f, 0xd0, 0x02, 0x28, 0x0d, 0xd0, 0x68, 0x46, 0x00, 0x78, 0x00, 0x28],
    [0x07, 0xd1, 0x38, 0x79, 0x00, 0x28, 0x04, 0xd0, 0x0f, 0x20, 0xfc, 0xf7],
    [0x6c, 0xfe, 0x01, 0x24, 0xcf, 0xe7, 0x36, 0x90, 0xa7, 0xd1, 0xf8, 0xdd],
    [0x91, 0x87, 0x94, 0x0c, 0x77, 0x57, 0x42, 0x0e, 0x15, 0xed, 0xbb, 0x42],
    [0xda, 0xbe, 0x99, 0xfd, 0x31, 0x0c, 0x33, 0x8b, 0xba, 0x3c, 0x00, 0x69],
    [0x76, 0x3d, 0x02, 0x26, 0xc0, 0x00, 0xd0, 0x20, 0x00, 0x02, 0x8f, 0x20],
    [0xcb, 0xe7, 0x0a, 0x20, 0xfe, 0xbd, 0x10, 0xb5, 0x80, 0x48, 0x40, 0x78],
    [0x00, 0x28, 0x03, 0xd0, 0x00, 0x20, 0x07, 0xf6, 0xa9, 0xfd, 0x10, 0xbd],
    [0x01, 0x20, 0xfa, 0xe7, 0x10, 0xb5, 0x02, 0x46, 0x00, 0x21, 0x03, 0x20],
    [0xfb, 0xf5, 0x9b, 0xfe, 0x73, 0x48, 0x10, 0x30, 0xf6, 0xf5, 0xd7, 0xfa],
    [0x10, 0xbd, 0x7c, 0xb5, 0x75, 0x4d, 0x28, 0x78, 0x14, 0x28, 0x02, 0xd0],
    [0x00, 0xf0, 0xca, 0xfa, 0x7c, 0xbd, 0x6e, 0x48, 0x69, 0x78, 0xc0, 0x38],
    [0x00, 0x29, 0x22, 0xd0, 0x44, 0x7a, 0x80, 0x7a, 0x00, 0x02, 0x04, 0x43],
    [0x20, 0xd0, 0x14, 0x20, 0xfc, 0xf7, 0x65, 0xfd, 0x66, 0x48, 0x00, 0x21],
    [0x10, 0x30, 0xf6, 0xf5, 0x03, 0xfa, 0x00, 0x28, 0x01, 0xd0, 0xf9, 0xf5],
    [0x40, 0xfa, 0x1d, 0x23, 0x6f, 0x4a, 0x60, 0x48, 0x01, 0x93, 0x00, 0x92],
    [0x23, 0x46, 0x00, 0x22, 0x01, 0x21, 0x10, 0x30, 0xf6, 0xf5, 0x1a, 0xfa],
    [0x5c, 0x48, 0x10, 0x30, 0xf6, 0xf5, 0x44, 0xfa, 0x06, 0x20, 0x28, 0x70],
    [0x7c, 0xbd, 0xc4, 0x79, 0x00, 0x7a, 0xdb, 0xe7, 0x00, 0x20, 0xff, 0xf7],
    [0x63, 0xff, 0x07, 0x20, 0xf5, 0xe7, 0x70, 0xb5, 0x03, 0x46, 0x0a, 0xf6],
    [0x8c, 0xff, 0x06, 0x04, 0x1e, 0x23, 0x1e, 0x1e, 0x1e, 0x23, 0x00, 0x20],
    [0x00, 0xf0, 0x98, 0xfa, 0x01, 0x20, 0xff, 0xf7, 0x53, 0xff, 0x00, 0x28],
    [0x11, 0xd0, 0x53, 0x48, 0x15, 0x25, 0xc1, 0x78, 0x50, 0x4c, 0x3d, 0x29],
    [0x0a, 0xd1, 0x61, 0x78, 0x00, 0x29, 0x09, 0xd0, 0x00, 0x20, 0x07, 0xf6]]"

definition fw_rows_12 :: "u8 list list" where
  "fw_rows_12 = [
    [0x47, 0xfd, 0x01, 0x20, 0xff, 0xf7, 0x42, 0xff, 0x00, 0x28, 0x00, 0xd0],
    [0x25, 0x70, 0x70, 0xbd, 0x25, 0x70, 0x3f, 0x21, 0xc1, 0x70, 0x70, 0xbd],
    [0xf9, 0xf5, 0xfd, 0xf9, 0x70, 0xbd, 0x70, 0xb5, 0x4e, 0x4b, 0x18, 0x89],
    [0x00, 0x28, 0x19, 0xd1, 0x3d, 0x4c, 0x20, 0x78, 0x41, 0x1c, 0xc9, 0xb2],
    [0x21, 0x70, 0x04, 0x29, 0x01, 0xd1, 0x00, 0x21, 0x21, 0x70, 0xc9, 0xb2],
    [0x8a, 0x00, 0x47, 0x4d, 0x89, 0x18, 0x6a, 0x5c, 0x00, 0x2a, 0x0a, 0xd0],
    [0x05, 0x20, 0x18, 0x81, 0x5a, 0x81, 0x48, 0x19, 0x18, 0x60, 0x40, 0x1c],
    [0x58, 0x60, 0x40, 0x48, 0xfc, 0xf7, 0x84, 0xfd, 0x70, 0xbd, 0x20, 0x70],
    [0x70, 0xbd, 0xf8, 0xb5, 0x0d, 0x46, 0x30, 0x49, 0x03, 0x46, 0xae, 0x31],
    [0x4e, 0x7a, 0x2b, 0x4c, 0x32, 0x4f, 0x0a, 0xf6, 0x3a, 0xff, 0x06, 0x14],
    [0x14, 0x04, 0x1f, 0x14, 0x14, 0x3d, 0xff, 0xf7, 0xc1, 0xfe, 0x00, 0x2d],
    [0x0f, 0xd0, 0x2d, 0x48, 0x00, 0x78, 0x00, 0x28, 0x07, 0xd0, 0x81, 0x2e],
    [0x02, 0xd3, 0xa0, 0x78, 0x00, 0x28, 0x03, 0xd0, 0xe0, 0x68, 0xfc, 0xf7],
    [0x63, 0xfd, 0xf8, 0xbd, 0xff, 0xf7, 0xbd, 0xff, 0xf8, 0xbd, 0x22, 0x48],
    [0x40, 0x78, 0x00, 0x28, 0xfa, 0xd1, 0x3f, 0x20, 0xf8, 0x70, 0x14, 0xe0],
    [0xff, 0xf7, 0x8d, 0xfe, 0x00, 0x2d, 0x03, 0xd0, 0xe0, 0x68, 0x00, 0xf0],
    [0x82, 0xfa, 0xf8, 0xbd, 0xf8, 0x78, 0x3d, 0x28, 0x09, 0xd1, 0x19, 0x48],
    [0x40, 0x78, 0x00, 0x28, 0x0a, 0xd0, 0x00, 0x20, 0x07, 0xf6, 0xdc, 0xfc],
    [0x00, 0x20, 0xff, 0xf7, 0x76, 0xff, 0x02, 0x21, 0x15, 0x20, 0x00, 0xf0],
    [0x36, 0xfa, 0xf8, 0xbd, 0x01, 0x20, 0x07, 0xf6, 0xd1, 0xfc, 0xde, 0xe7],
    [0xf9, 0xf5, 0x91, 0xf9, 0xf8, 0xbd, 0x70, 0xb5, 0x0e, 0x4c, 0x0f, 0x4b],
    [0x21, 0x78, 0x14, 0x25, 0x15, 0x22, 0xdb, 0x78, 0x06, 0x4e, 0x06, 0x29],
    [0x75, 0xd0, 0x2a, 0xdc, 0x00, 0x29, 0x33, 0xd0, 0x01, 0x29, 0x31, 0xd0],
    [0x02, 0x29, 0x4b, 0xd0, 0x03, 0x29, 0x6d, 0xd1, 0x62, 0xe0, 0xf4, 0x18],
    [0x10, 0x00, 0xec, 0x1b, 0x10, 0x00, 0xbe, 0xf5, 0x8f, 0xf6, 0x71, 0xab],
    [0xed, 0x2b, 0x5b, 0x36, 0xfe, 0x1a, 0xe5, 0xb7, 0xe6, 0xbd, 0x45, 0xf6],
    [0xb9, 0xe5, 0xd2, 0xa2, 0x77, 0x71, 0x20, 0x64, 0x9d, 0x1c, 0xc3, 0xed],
    [0xae, 0x11, 0x02, 0x26, 0xc0, 0x00, 0xd2, 0x20, 0x00, 0x02, 0xc0, 0x19],
    [0x20, 0x00, 0xd2, 0x16, 0x20, 0x00, 0x00, 0x40, 0x02, 0x40, 0x28, 0x0c],
    [0x10, 0x00, 0x27, 0x0c, 0x10, 0x00, 0xda, 0x1b, 0x10, 0x00, 0x25, 0x0c],
    [0x10, 0x00, 0x30, 0x10, 0x10, 0x00, 0x54, 0x09, 0x10, 0x00, 0x60, 0x14],
    [0x20, 0x00, 0x98, 0xfb, 0x20, 0x00, 0x9c, 0x10, 0x10, 0x00, 0x1f, 0xd0],
    [0x20, 0x00, 0xe0, 0x11, 0x10, 0x00, 0x14, 0x12, 0x10, 0x00, 0x07, 0x29],
    [0x5b, 0xd0, 0x08, 0x29, 0x64, 0xd0, 0x14, 0x29, 0x07, 0xd0, 0x15, 0x29],
    [0x64, 0xd1, 0xff, 0xf7, 0x2a, 0xff, 0x70, 0xbd, 0xff, 0xf7, 0x73, 0xff],
    [0x70, 0xbd, 0x01, 0x28, 0x04, 0xd0, 0x02, 0x28, 0x12, 0xd0, 0x04, 0x28],
    [0x58, 0xd1, 0x08, 0xe0, 0x02, 0x20, 0x00, 0xf0, 0xbf, 0xf9, 0x00, 0x20],
    [0xff, 0xf7, 0x7a, 0xfe, 0x00, 0x28, 0x07, 0xd1, 0x70, 0xbd, 0x22, 0x70],
    [0x12, 0xe0, 0x01, 0x21, 0x08, 0x46, 0x01, 0xf0, 0x99, 0xf8, 0x70, 0xbd],
    [0x25, 0x70, 0x70, 0xbd, 0x00, 0x28, 0x10, 0xd0, 0x01, 0x28, 0xfa, 0xd0],
    [0x04, 0x28, 0x02, 0xd0, 0x05, 0x28, 0x3d, 0xd1, 0xf4, 0xe7, 0x22, 0x70],
    [0x3d, 0x2b, 0x02, 0xd0, 0x3e, 0x2b, 0xea, 0xd0, 0x70, 0xbd, 0x00, 0x20],
    [0x07, 0xf6, 0x5e, 0xfc, 0x14, 0xe0, 0x00, 0x20, 0x00, 0xf0, 0x9a, 0xf9],
    [0x01, 0x20, 0xff, 0xf7, 0x55, 0xfe, 0x70, 0xbd, 0x00, 0x28, 0xfc, 0xd0],
    [0x01, 0x28, 0xfa, 0xd0, 0x04, 0x28, 0x04, 0xd0, 0x05, 0x28, 0x23, 0xd1],
    [0x06, 0xe0, 0x0a, 0xe0, 0x20, 0xe0, 0x22, 0x70, 0xff, 0xf7, 0x97, 0xfe],
    [0x00, 0x20, 0xb6, 0xe7, 0x25, 0x70, 0xf0, 0x68, 0x00, 0xf0, 0xdd, 0xf9],
    [0x70, 0xbd, 0x01, 0x28, 0x14, 0xd1, 0x00, 0x20, 0xff, 0xf7, 0x3a, 0xfe],
    [0x07, 0x20, 0x20, 0x70, 0x70, 0xbd, 0x04, 0x28, 0x02, 0xd0, 0x05, 0x28],
    [0x0a, 0xd1, 0x02, 0xe0, 0x00, 0xf0, 0x68, 0xf9, 0x70, 0xbd, 0xff, 0xf7],
    [0x94, 0xfe, 0x70, 0xbd, 0x02, 0x28, 0x04, 0xd0, 0x03, 0x28, 0x17, 0xd0],
    [0xf9, 0xf5, 0xeb, 0xf8, 0x70, 0xbd, 0xff, 0xf7, 0xdf, 0xfd, 0xb6, 0x48],
    [0x00, 0x78, 0x00, 0x28, 0xf8, 0xd0, 0x19, 0x20, 0x40, 0x01, 0xf9, 0xf5],
    [0x05, 0xf9, 0xfc, 0xf7, 0x4e, 0xfc, 0xb1, 0x68, 0x00, 0x29, 0xef, 0xd0],
    [0x00, 0x22, 0x09, 0xf6, 0x77, 0xfb, 0x00, 0x20, 0xb0, 0x60, 0x70, 0xbd],
    [0xff, 0xf7, 0xb1, 0xfd, 0xfc, 0xf7, 0xe3, 0xfb, 0x70, 0xbd, 0xfe, 0xb5],
    [0x04, 0x68, 0x00, 0x79, 0xaa, 0x4d, 0xc0, 0x06, 0xc0, 0x0e, 0x16, 0x28],
    [0x72, 0xd0, 0x10, 0xdc, 0x0b, 0x28, 0x70, 0xd0, 0x06, 0xdc, 0x00, 0x28],
    [0x14, 0xd0, 0x03, 0x28, 0x7b, 0xd0, 0x07, 0x28, 0x6b, 0xd1, 0x7c, 0xe0],
    [0x13, 0x28, 0x66, 0xd0, 0x14, 0x28, 0x67, 0xd0, 0x15, 0x28, 0x64, 0xd1],
    [0x85, 0xe0, 0x03, 0x46, 0x17, 0x3b, 0x0a, 0xf6, 0x1c, 0xfe, 0x07, 0x87],
    [0x8e, 0x9b, 0x6d, 0xa8, 0xa4, 0xa4, 0xa8, 0x00, 0x9b, 0x4e, 0x68, 0x78],
    [0x30, 0x70, 0x21, 0x46, 0x02, 0x20, 0x07, 0xf6, 0x88, 0xf9, 0x98, 0x49],
    [0x08, 0x70, 0x69, 0x46, 0x20, 0x46, 0x07, 0xf6, 0xf4, 0xfb, 0x09, 0x28],
    [0x13, 0xd0, 0x01, 0x28, 0x05, 0xd0, 0x06, 0x28, 0x0b, 0xd0, 0x28, 0x78],
    [0x06, 0x28, 0x16, 0xd0, 0x1b, 0xe0, 0x68, 0x46, 0x80, 0x78, 0x00, 0x28],
    [0x07, 0xd1, 0x68, 0x46, 0x40, 0x78, 0x03, 0x21, 0x0a, 0xe0, 0x68, 0x46],
    [0x80, 0x78, 0x00, 0x28, 0x03, 0xd0, 0x20, 0x46, 0x07, 0xf6, 0xec, 0xf9],
    [0x3e, 0xe0, 0x68, 0x46, 0x40, 0x78, 0x08, 0x21, 0x00, 0xf0, 0xb9, 0xfa],
    [0x38, 0xe0, 0x86, 0x48, 0xf6, 0xf5, 0xde, 0xf8, 0x85, 0x48, 0xf6, 0xf5],
    [0x8d, 0xf8, 0x68, 0x46, 0x40, 0x78, 0x33, 0x4f, 0x86, 0x2e, 0xcb, 0xf6],
    [0x88, 0xaf, 0x30, 0x1a, 0x73, 0x70, 0xf7, 0x44, 0x7c, 0x1e, 0xc6, 0x63],
    [0x25, 0x12, 0x8c, 0x5e, 0x68, 0xd3, 0x16, 0x21, 0x6e, 0x80, 0x13, 0xa9],
    [0x5f, 0xfb, 0x02, 0x26, 0xc0, 0x00, 0xd4, 0x20, 0x00, 0x02, 0x04, 0x28],
    [0x0e, 0xd0, 0x05, 0x28, 0x0a, 0xd0, 0x10, 0x28, 0x0a, 0xd0, 0x11, 0x28],
    [0x06, 0xd0, 0x69, 0x46, 0x20, 0x46, 0x00, 0xf0, 0xac, 0xfa, 0x00, 0x28],
    [0x08, 0xd0, 0x21, 0xe0, 0x00, 0x22, 0x00, 0xe0, 0x01, 0x22, 0x69, 0x46],
    [0x20, 0x46, 0x00, 0xf0, 0x1e, 0xfd, 0xf4, 0xe7, 0x68, 0x46, 0x80, 0x78],
    [0x00, 0x28, 0x02, 0xd0, 0x01, 0x28, 0x0a, 0xd0, 0x12, 0xe0, 0x68, 0x46],
    [0xc0, 0x78, 0x10, 0x28, 0x0b, 0xd1, 0x0d, 0xe0, 0x1f, 0xe0, 0x2e, 0xe0],
    [0x0d, 0xe0, 0x46, 0xe0, 0x19, 0xe0, 0x68, 0x46, 0xc0, 0x78, 0x10, 0x28],
    [0x01, 0xd0, 0x11, 0x28, 0x02, 0xd1, 0x30, 0x78, 0x00, 0xf0, 0x29, 0xff],
    [0xff, 0xf7, 0x00, 0xf9, 0xfe, 0xbd, 0x20, 0x46, 0x00, 0xf0, 0x19, 0xf9],
    [0xfe, 0xbd, 0x28, 0x78, 0x14, 0x28, 0xf8, 0xd1, 0x02, 0x20, 0xfc, 0xf7],
    [0xac, 0xf8, 0x20, 0x46, 0xfc, 0xf7, 0xde, 0xfb, 0xfe, 0xbd, 0x02, 0x20],
    [0x00, 0xe0, 0x03, 0x20, 0xff, 0xf7, 0xa1, 0xfe, 0xfe, 0xbd, 0x04, 0x20],
    [0xff, 0xf7, 0x9d, 0xfe, 0x00, 0x20, 0x03, 0xe0, 0x05, 0x20, 0xff, 0xf7],
    [0x98, 0xfe, 0x01, 0x20, 0xff, 0xf7, 0x14, 0xf9, 0xfe, 0xbd, 0xff, 0xf7],
    [0x00, 0xfd, 0x58, 0x48, 0x01, 0x78, 0x01, 0x29, 0x02, 0xd1, 0xc0, 0x68],
    [0x00, 0xf0, 0xf3, 0xf8, 0x68, 0x78, 0xff, 0xf7, 0xc8, 0xfc, 0xfe, 0xbd],
    [0x20, 0x78, 0x00, 0x28, 0xfb, 0xd1, 0x00, 0x22, 0x2f, 0x21, 0x03, 0x20],
    [0xfb, 0xf5, 0x76, 0xfc, 0xfe, 0xbd, 0x21, 0x46, 0x09, 0xf6, 0x14, 0xfe],
    [0xfe, 0xbd, 0xf9, 0xf5, 0x08, 0xf8, 0xfe, 0xbd, 0x4c, 0x49, 0x00, 0x28],
    [0x48, 0x68, 0x02, 0xd0, 0x40, 0x04, 0xc0, 0x0f, 0x70, 0x47, 0x80, 0x04],
    [0xfb, 0xe7, 0x10, 0xb5, 0xff, 0xf7, 0xe6, 0xfa, 0x04, 0x46, 0x02, 0x28],
    [0x03, 0xd0, 0xc0, 0x2c, 0x06, 0xd0, 0xc2, 0x20, 0x10, 0xbd, 0x00, 0x20],
    [0x07, 0xf6, 0x2e, 0xfb, 0x00, 0x20, 0x06, 0xe0, 0x01, 0x20, 0x07, 0xf6],
    [0x29, 0xfb, 0x38, 0x4a, 0x01, 0x21, 0x05, 0x20, 0x11, 0x70, 0xff, 0xf7],
    [0xdf, 0xff, 0x00, 0x28, 0x03, 0xd0, 0x00, 0x20, 0xff, 0xf7, 0x51, 0xfe],
    [0x00, 0xe0, 0xc2, 0x24, 0x20, 0x46, 0x10, 0xbd, 0x38, 0x49, 0x41, 0x18],
    [0xc9, 0x7c, 0x00, 0x29, 0x07, 0xd0, 0x34, 0x49, 0x00, 0x28, 0x48, 0x68],
    [0x04, 0xd0, 0x01, 0x22, 0x92, 0x03, 0x10, 0x43, 0x48, 0x60, 0x70, 0x47],
    [0x01, 0x22, 0x52, 0x03, 0xf9, 0xe7, 0x10, 0xb5, 0x04, 0x46, 0x2f, 0x48],
    [0x41, 0x78, 0x00, 0x29, 0x10, 0xd0, 0x2e, 0x49, 0x3d, 0x20, 0xc8, 0x70],
    [0x00, 0x20, 0xff, 0xf7, 0xe3, 0xff, 0x19, 0x20, 0xff, 0xf7, 0xe0, 0xff],
    [0x01, 0x20, 0x07, 0xf6, 0xf7, 0xfa, 0x00, 0x2c, 0x02, 0xd0, 0x00, 0x20],
    [0xff, 0xf7, 0x25, 0xfe, 0x00, 0x20, 0xff, 0xf7, 0x62, 0xfc, 0x7c, 0x20],
    [0xff, 0xf7, 0x5f, 0xfc, 0x10, 0xbd, 0x70, 0xb5, 0x05, 0x46, 0x0e, 0x46],
    [0x01, 0x2a, 0x08, 0xd0, 0x02, 0x2a, 0x08, 0xd0, 0x00, 0x24, 0xf8, 0xf5],
    [0xa4, 0xff, 0x31, 0x46, 0x28, 0x46, 0xa0, 0x47, 0x70, 0xbd, 0x1c, 0x4c],
    [0xf9, 0xe7, 0x1c, 0x4c, 0xf7, 0xe7, 0x00, 0xb5, 0x16, 0x49, 0x00, 0x28],
    [0x4a, 0x68, 0x06, 0xd0, 0x01, 0x23, 0x9b, 0x03, 0x9a, 0x43, 0x4a, 0x60],
    [0xff, 0xf7, 0x52, 0xfc, 0x00, 0xbd, 0x01, 0x23, 0x5b, 0x03, 0xf7, 0xe7],
    [0x10, 0xb5, 0xff, 0xf7, 0x16, 0xfd, 0x01, 0x20, 0xff, 0xf7, 0xc2, 0xfc],
    [0x07, 0x49, 0x08, 0x20, 0x08, 0x70, 0x10, 0xbd, 0x08, 0x49, 0x10, 0x39],
    [0xca, 0x68, 0x03, 0x49, 0x00, 0x2a, 0x00, 0xd0, 0x40, 0x1c, 0x08, 0x70],
    [0x70, 0x47, 0x25, 0x0c, 0x10, 0x00, 0x8c, 0xbd, 0xa6, 0xaa, 0x54, 0x31],
    [0x43, 0x71, 0xaa, 0x73, 0x69, 0xaa, 0xee, 0x72, 0xec, 0xd3, 0xce, 0xae],
    [0x4b, 0x2f, 0x8c, 0x9e, 0xfc, 0x04, 0x54, 0x0c, 0x9f, 0x01, 0xc2, 0x26],
    [0x3e, 0x98, 0x02, 0x26, 0xc0, 0x00, 0xd6, 0x20, 0x00, 0x02, 0x28, 0x0c],
    [0x10, 0x00, 0x26, 0x0c, 0x10, 0x00, 0x24, 0x0c, 0x10, 0x00, 0x04, 0x19],
    [0x10, 0x00, 0x40, 0x11, 0x10, 0x00, 0x00, 0x40, 0x02, 0x40, 0x40, 0x14],
    [0x20, 0x00, 0x00, 0x19, 0x20, 0x00, 0xda, 0x1b, 0x10, 0x00, 0x25, 0x5b],
    [0x01, 0x00, 0xf9, 0x5c, 0x01, 0x00, 0x0a, 0x46, 0x80, 0x21, 0x10, 0xb5],
    [0x01, 0x43, 0x02, 0x20, 0xfb, 0xf5, 0xc2, 0xfb, 0x10, 0xbd, 0x10, 0xb5],
    [0xff, 0x29, 0x2a, 0xd9, 0x68, 0x4a, 0x53, 0x68, 0x00, 0x2b, 0x17, 0xd0],
    [0x00, 0x21, 0x51, 0x60, 0x13, 0x78, 0x01, 0x68, 0x80, 0x24, 0xc9, 0x18],
    [0x41, 0x60, 0x0b, 0x78, 0xe0, 0x31, 0x23, 0x43, 0x8b, 0x77, 0x41, 0x68],
    [0xfe, 0x31, 0x41, 0x60, 0x51, 0x78, 0x49, 0x1c, 0x41, 0x81, 0x41, 0x68],
    [0xc9, 0x1e, 0x41, 0x60, 0x41, 0x89, 0x00, 0xf0, 0xab, 0xf8, 0x10, 0xbd],
    [0x49, 0x1c, 0x51, 0x70, 0x41, 0x68, 0x0b, 0x78, 0x5b, 0x06, 0x5b, 0x0e],
    [0x0b, 0x70, 0xff, 0x21, 0x41, 0x81, 0x50, 0x60, 0x03, 0x68, 0x41, 0x68],
    [0xc9, 0x1a, 0x11, 0x70, 0xe9, 0xe7, 0x42, 0x68, 0xd2, 0x1e, 0x42, 0x60],
    [0xe9, 0xe7, 0x70, 0xb5, 0x00, 0x25, 0x00, 0x28, 0x03, 0xd0, 0x4f, 0x49],
    [0x0d, 0x60, 0x07, 0xf6, 0x85, 0xf8, 0x4e, 0x4c, 0x20, 0x78, 0x00, 0x28],
    [0x03, 0xd0, 0x03, 0x20, 0x00, 0xf0, 0x9f, 0xfd, 0x25, 0x70, 0x70, 0xbd],
    [0x70, 0xb5, 0x06, 0x46, 0x0d, 0x46, 0x00, 0x20, 0xff, 0xf7, 0xe9, 0xff],
    [0x48, 0x48, 0x00, 0x78, 0x07, 0xf6, 0x2b, 0xf8, 0x04, 0x46, 0x40, 0x68],
    [0x2a, 0x46, 0xc0, 0x1c, 0x31, 0x46, 0x09, 0xf6, 0x84, 0xfe, 0x29, 0x46],
    [0x20, 0x46, 0x00, 0xf0, 0x71, 0xf8, 0x70, 0xbd, 0x70, 0xb5, 0x05, 0x46],
    [0x3d, 0x48, 0x0c, 0x46, 0x05, 0x60, 0x3e, 0x48, 0x00, 0x78, 0x15, 0x28],
    [0x06, 0xd0, 0x3c, 0x48, 0x00, 0x2c, 0x40, 0x78, 0x0c, 0xd0, 0x01, 0x29],
    [0x0d, 0xd0, 0x0e, 0xe0, 0x08, 0x46, 0x07, 0xf6, 0x2b, 0xfa, 0x20, 0x46],
    [0xff, 0xf7, 0xe4, 0xfe, 0x00, 0x28, 0x14, 0xd0, 0x00, 0x20, 0x0f, 0xe0],
    [0x7c, 0x28, 0x0a, 0xd0, 0x01, 0xe0, 0x00, 0x28, 0x07, 0xd0, 0x32, 0x48],
    [0x00, 0x78, 0x00, 0x28, 0x09, 0xd0, 0x28, 0x46, 0xfc, 0xf7, 0x82, 0xfa],
    [0x70, 0xbd, 0xff, 0xf7, 0x64, 0xfc, 0x01, 0x20, 0xff, 0xf7, 0x45, 0xfd],
    [0x70, 0xbd, 0x28, 0x46, 0xff, 0xf7, 0xa9, 0xff, 0x70, 0xbd, 0x38, 0xb5],
    [0x04, 0x46, 0x0d, 0x46, 0x40, 0x68, 0x11, 0x46, 0x80, 0x1e, 0x1a, 0x46],
    [0x60, 0x60, 0x00, 0x23, 0x00, 0x93, 0x23, 0x46, 0x28, 0x46, 0x07, 0xf6]]"

definition fw_rows_13 :: "u8 list list" where
  "fw_rows_13 = [
    [0x8f, 0xfa, 0xff, 0xf7, 0x8c, 0xfb, 0x02, 0x28, 0x04, 0xd0, 0x01, 0x21],
    [0x20, 0x46, 0xff, 0xf7, 0xb9, 0xff, 0x38, 0xbd, 0x00, 0x21, 0xf9, 0xe7],
    [0x3e, 0xb5, 0xc4, 0x68, 0x1d, 0x48, 0x40, 0x68, 0xc0, 0x04, 0x1a, 0xd5],
    [0x17, 0x49, 0x01, 0x20, 0x08, 0x70, 0x60, 0x89, 0x69, 0x46, 0xc0, 0x1e],
    [0x60, 0x81, 0x60, 0x68, 0xc0, 0x1c, 0x60, 0x60, 0x20, 0x46, 0x07, 0xf6],
    [0x34, 0xfa, 0x09, 0x28, 0x07, 0xd0, 0x14, 0x49, 0xf8, 0x20, 0x08, 0x70],
    [0x69, 0x46, 0x20, 0x46, 0x00, 0xf0, 0xdb, 0xf8, 0x3e, 0xbd, 0x00, 0x20],
    [0xff, 0xf7, 0x6f, 0xff, 0x3e, 0xbd, 0x03, 0x21, 0x01, 0x20, 0x00, 0xf0],
    [0x6e, 0xfc, 0x3e, 0xbd, 0x08, 0xb5, 0xcb, 0xb2, 0x00, 0x93, 0x03, 0x46],
    [0x00, 0x22, 0x03, 0x21, 0x10, 0x46, 0xff, 0xf7, 0xe4, 0xfa, 0x08, 0xbd],
    [0x00, 0x00, 0xe4, 0x1b, 0x10, 0x00, 0x00, 0x19, 0x10, 0x00, 0xf6, 0x18],
    [0x10, 0x00, 0x54, 0x11, 0x10, 0x00, 0x28, 0x0c, 0x10, 0x00, 0x25, 0x0c],
    [0x10, 0x00, 0x00, 0x40, 0x02, 0x40, 0x1c, 0x5d, 0x00, 0xbe, 0x36, 0x1c],
    [0x45, 0x6c, 0xeb, 0xb1, 0x58, 0x5c, 0xab, 0x3c, 0x0a, 0xb4, 0x76, 0xd5],
    [0x78, 0x98, 0xff, 0x31, 0x59, 0xed, 0xa5, 0x3e, 0xff, 0x4f, 0xac, 0x89],
    [0xc5, 0xf6, 0x02, 0x26, 0xc0, 0x00, 0xd8, 0x20, 0x00, 0x02, 0x26, 0x0c],
    [0x10, 0x00, 0x3e, 0xb5, 0x01, 0x79, 0x51, 0x4c, 0xcb, 0x06, 0xdb, 0x0e],
    [0x0a, 0xf6, 0xd9, 0xfb, 0x09, 0x69, 0x1b, 0x1b, 0x1b, 0x1b, 0x06, 0x10],
    [0x12, 0x94, 0x1b, 0x00, 0x00, 0x68, 0x01, 0x28, 0x03, 0xd9, 0xc0, 0xb2],
    [0x00, 0xf0, 0xff, 0xfb, 0x3e, 0xbd, 0x00, 0xf0, 0xec, 0xfb, 0x3e, 0xbd],
    [0xe1, 0x20, 0x0c, 0xe0, 0x00, 0x68, 0x01, 0x28, 0x08, 0xd0, 0x02, 0x28],
    [0x0a, 0xd0, 0x04, 0x28, 0x0a, 0xd0, 0x08, 0x28, 0x22, 0xd0, 0xf8, 0xf5],
    [0x52, 0xfe, 0x3e, 0xbd, 0xe3, 0x20, 0x00, 0xf0, 0xe3, 0xfc, 0x3e, 0xbd],
    [0xe2, 0x20, 0xfa, 0xe7, 0x3e, 0x48, 0x41, 0x6b, 0x02, 0x22, 0x91, 0x43],
    [0x41, 0x63, 0x41, 0x6b, 0x49, 0x08, 0x49, 0x00, 0x41, 0x63, 0xf2, 0xf5],
    [0x12, 0xff, 0x01, 0xaa, 0x00, 0x21, 0x02, 0x20, 0xf2, 0xf5, 0x04, 0xfe],
    [0x68, 0x46, 0x00, 0x79, 0x08, 0x28, 0xe8, 0xd0, 0x00, 0x22, 0x07, 0x21],
    [0x03, 0x20, 0xfb, 0xf5, 0x99, 0xfa, 0x3e, 0xbd, 0xfc, 0xf7, 0xbf, 0xf9],
    [0x00, 0x28, 0x1f, 0xd0, 0x01, 0x28, 0xf8, 0xd1, 0xf6, 0xf5, 0xf3, 0xf8],
    [0x04, 0x20, 0x06, 0xf6, 0x34, 0xff, 0x00, 0x28, 0x03, 0xd0, 0x29, 0x48],
    [0x8c, 0x38, 0x06, 0xf6, 0x85, 0xff, 0x20, 0x7c, 0x00, 0x28, 0x03, 0xd0],
    [0x26, 0x48, 0x45, 0x30, 0x06, 0xf6, 0x7e, 0xff, 0x24, 0x48, 0x20, 0x30],
    [0x00, 0x79, 0x00, 0x28, 0x03, 0xd0, 0x21, 0x48, 0x3c, 0x30, 0x06, 0xf6],
    [0x75, 0xff, 0x07, 0xf6, 0x13, 0xff, 0x3e, 0xbd, 0xf2, 0xf5, 0x7b, 0xfc],
    [0xf2, 0xf5, 0x4b, 0xfc, 0xf6, 0xf5, 0xb8, 0xf8, 0x3e, 0xbd, 0x00, 0x68],
    [0x10, 0x28, 0x18, 0xd0, 0x06, 0xdc, 0x04, 0x28, 0x15, 0xd0, 0x05, 0x28],
    [0x13, 0xd0, 0x09, 0x28, 0xf4, 0xd1, 0x0d, 0xe0, 0x11, 0x28, 0x0e, 0xd0],
    [0x15, 0x28, 0x09, 0xd0, 0x1d, 0x28, 0xed, 0xd1, 0x14, 0x48, 0x00, 0x78],
    [0x06, 0x28, 0xe9, 0xd1, 0x01, 0x20, 0xff, 0xf7, 0x5e, 0xfc, 0x3e, 0xbd],
    [0x08, 0xf6, 0x5d, 0xff, 0x3e, 0xbd, 0x0f, 0x4c, 0x21, 0x78, 0x00, 0x29],
    [0x05, 0xd0, 0x08, 0xf6, 0x2e, 0xfc, 0x20, 0x78, 0x40, 0x1e, 0x20, 0x70],
    [0x3e, 0xbd, 0x08, 0xf6, 0x16, 0xfc, 0xfc, 0xf7, 0x8a, 0xf9, 0x3e, 0xbd],
    [0x00, 0x68, 0x04, 0x23, 0x00, 0x93, 0x02, 0x90, 0x02, 0xab, 0x13, 0x22],
    [0x0f, 0x21, 0x03, 0x20, 0xff, 0xf7, 0x5a, 0xf9, 0x3e, 0xbd, 0xec, 0x11],
    [0x10, 0x00, 0x00, 0x40, 0x02, 0x40, 0x28, 0x0c, 0x10, 0x00, 0xf5, 0x18],
    [0x10, 0x00, 0x08, 0xb5, 0x00, 0x23, 0x0a, 0x46, 0x02, 0x21, 0x00, 0x93],
    [0x07, 0xf6, 0x8f, 0xf8, 0x08, 0xbd, 0x70, 0xb5, 0x06, 0x46, 0xfc, 0x48],
    [0x0c, 0x46, 0x00, 0x78, 0x00, 0x28, 0x13, 0xd0, 0x7c, 0x28, 0x13, 0xd0],
    [0x80, 0x20, 0x61, 0x78, 0x1b, 0x29, 0x11, 0xd8, 0xf8, 0x4a, 0x51, 0x5c],
    [0x01, 0x42, 0x0d, 0xd0, 0x48, 0x07, 0xc0, 0x0e, 0x11, 0x46, 0x70, 0x31],
    [0x0a, 0x58, 0x21, 0x46, 0x30, 0x46, 0x90, 0x47, 0x05, 0x46, 0x04, 0xe0],
    [0x40, 0x20, 0xec, 0xe7, 0x20, 0x20, 0xea, 0xe7, 0x07, 0x25, 0x07, 0x2d],
    [0x04, 0xd0, 0x09, 0x2d, 0x05, 0xd0, 0x0b, 0x2d, 0x0b, 0xd1, 0x0c, 0xe0],
    [0xa0, 0x78, 0x00, 0x28, 0x03, 0xd0, 0x30, 0x46, 0x06, 0xf6, 0xf8, 0xfe],
    [0x03, 0xe0, 0x60, 0x78, 0x03, 0x21, 0xff, 0xf7, 0xc6, 0xff, 0x28, 0x46],
    [0x70, 0xbd, 0x60, 0x78, 0x07, 0x21, 0xf8, 0xe7, 0xfe, 0xb5, 0x05, 0x46],
    [0x00, 0x20, 0x0c, 0x46, 0x01, 0x90, 0x00, 0x90, 0xdf, 0x4f, 0x06, 0x46],
    [0x89, 0x78, 0x38, 0x78, 0x00, 0x29, 0x1c, 0xd0, 0xde, 0x49, 0x89, 0x78],
    [0xff, 0x29, 0x15, 0xd0, 0xf8, 0x28, 0x56, 0xa2, 0x94, 0x32, 0xc0, 0x52],
    [0x63, 0xa6, 0xe4, 0x07, 0xcd, 0xa5, 0xbf, 0x38, 0xb5, 0xcf, 0x10, 0xcc],
    [0x90, 0xed, 0x45, 0xb8, 0x78, 0x9e, 0x97, 0x33, 0xa9, 0x74, 0x15, 0xdc],
    [0x87, 0xee, 0x02, 0x26, 0xc0, 0x00, 0xda, 0x20, 0x00, 0x02, 0x0b, 0xd0],
    [0x60, 0x78, 0x80, 0x21, 0x08, 0x43, 0x69, 0x68, 0x08, 0x70, 0xa0, 0x78],
    [0xe1, 0x78, 0x80, 0x01, 0x08, 0x43, 0x69, 0x68, 0x02, 0x26, 0x48, 0x70],
    [0xd5, 0x48, 0x80, 0x78, 0x10, 0x28, 0x76, 0xd0, 0x11, 0x28, 0x75, 0xd0],
    [0x14, 0x28, 0x73, 0xd0, 0x09, 0x20, 0x00, 0x90, 0x97, 0xe0, 0xe1, 0x78],
    [0x04, 0x29, 0x14, 0xd0, 0x06, 0xdc, 0x01, 0x29, 0x5b, 0xd0, 0x02, 0x29],
    [0x5d, 0xd0, 0x03, 0x29, 0x06, 0xd1, 0x08, 0xe0, 0x10, 0x29, 0x0e, 0xd0],
    [0x11, 0x29, 0x16, 0xd0, 0x14, 0x29, 0x33, 0xd0, 0x0b, 0x20, 0x00, 0x90],
    [0x86, 0xe0, 0x21, 0x46, 0x07, 0xf6, 0x4d, 0xf9, 0x82, 0xe0, 0x21, 0x46],
    [0x07, 0xf6, 0x5e, 0xf9, 0x7e, 0xe0, 0xf8, 0x28, 0x2a, 0x46, 0x21, 0x46],
    [0x02, 0xd0, 0x07, 0xf6, 0x76, 0xf9, 0x77, 0xe0, 0x07, 0xf6, 0x98, 0xfa],
    [0x74, 0xe0, 0xf8, 0x28, 0x17, 0xd0, 0xa1, 0x68, 0x09, 0x78, 0x06, 0x29],
    [0x01, 0xd0, 0x12, 0x29, 0x03, 0xd1, 0xa1, 0x88, 0x01, 0x29, 0x00, 0xd1],
    [0x01, 0x91, 0x2a, 0x46, 0x21, 0x46, 0x07, 0xf6, 0x45, 0xfb, 0x01, 0x98],
    [0x01, 0x28, 0x61, 0xd1, 0x38, 0x78, 0xb3, 0x49, 0x41, 0x18, 0x00, 0x20],
    [0xfb, 0xf5, 0x67, 0xf8, 0x5a, 0xe0, 0x2a, 0x46, 0x21, 0x46, 0x07, 0xf6],
    [0xf5, 0xfb, 0x55, 0xe0, 0xf8, 0x28, 0x04, 0xd0, 0x2a, 0x46, 0x21, 0x46],
    [0x07, 0xf6, 0x57, 0xfd, 0x4e, 0xe0, 0xaa, 0x49, 0x04, 0x22, 0x77, 0x31],
    [0xaa, 0x48, 0xf2, 0xf5, 0x4b, 0xff, 0xa7, 0x49, 0x11, 0x22, 0xf3, 0x31],
    [0xa8, 0x48, 0xf2, 0xf5, 0x45, 0xff, 0x04, 0x22, 0xa7, 0x49, 0xa7, 0x48],
    [0xf2, 0xf5, 0x40, 0xff, 0x60, 0x78, 0x00, 0x21, 0xff, 0xf7, 0x37, 0xff],
    [0x38, 0xe0, 0x21, 0x46, 0x07, 0xf6, 0xbc, 0xfd, 0x34, 0xe0, 0x04, 0x20],
    [0xfc, 0xf7, 0xf1, 0xf8, 0xa1, 0x4d, 0x28, 0x78, 0x00, 0x28, 0x04, 0xd0],
    [0x21, 0x46, 0x38, 0x78, 0x05, 0xe0, 0x0f, 0xe0, 0x11, 0xe0, 0x38, 0x78],
    [0xf8, 0x28, 0x03, 0xd0, 0x21, 0x46, 0x07, 0xf6, 0x5b, 0xfd, 0x21, 0xe0],
    [0x01, 0x21, 0x29, 0x70, 0x21, 0x46, 0x07, 0xf6, 0x55, 0xfd, 0x00, 0x20],
    [0x28, 0x70, 0x19, 0xe0, 0xe0, 0x78, 0x00, 0x28, 0x02, 0xd0, 0x00, 0x20],
    [0x68, 0x81, 0x09, 0xe0, 0x68, 0x68, 0x05, 0x22, 0x80, 0x19, 0x91, 0x49],
    [0x09, 0xf6, 0x51, 0xfc, 0x05, 0x20, 0x76, 0x1d, 0x68, 0x81, 0xf6, 0xb2],
    [0x38, 0x78, 0xf8, 0x28, 0x08, 0xd0, 0x31, 0x46, 0x28, 0x46, 0xff, 0xf7],
    [0x6e, 0xfd, 0x83, 0x48, 0xff, 0x21, 0x81, 0x70, 0x00, 0x98, 0xfe, 0xbd],
    [0xe3, 0x78, 0xa2, 0x78, 0x01, 0x21, 0x28, 0x46, 0xff, 0xf7, 0xed, 0xfd],
    [0xf3, 0xe7, 0x70, 0xb5, 0x02, 0x46, 0x7a, 0x48, 0x8b, 0x78, 0x00, 0x24],
    [0x00, 0x78, 0x00, 0x2b, 0x02, 0xd0, 0x01, 0x2b, 0x1a, 0xd1, 0x16, 0xe0],
    [0xca, 0x78, 0x01, 0x2a, 0x0d, 0xd0, 0x02, 0x2a, 0x0e, 0xd0, 0x03, 0x2a],
    [0x03, 0xd0, 0x04, 0x2a, 0x04, 0xd0, 0x0b, 0x24, 0x0f, 0xe0, 0x07, 0xf6],
    [0x02, 0xfe, 0x0c, 0xe0, 0x07, 0xf6, 0x14, 0xfe, 0x09, 0xe0, 0x07, 0xf6],
    [0x5e, 0xfe, 0x06, 0xe0, 0x07, 0xf6, 0x2d, 0xfe, 0x03, 0xe0, 0xcb, 0x78],
    [0x01, 0x2b, 0x02, 0xd0, 0x09, 0x24, 0x20, 0x46, 0x70, 0xbd, 0x07, 0xf6],
    [0x81, 0xfe, 0x00, 0x28, 0xf9, 0xd1, 0x67, 0x4d, 0x28, 0x78, 0x06, 0x28],
    [0x05, 0xd1, 0x6d, 0x48, 0xf5, 0xf5, 0xea, 0xfc, 0x6c, 0x48, 0xf5, 0xf5],
    [0xfe, 0xfc, 0x68, 0x78, 0x00, 0x28, 0x03, 0xd0, 0x6a, 0x48, 0x00, 0x78],
    [0x00, 0x28, 0xe8, 0xd1, 0x01, 0x20, 0xff, 0xf7, 0xec, 0xfa, 0xe4, 0xe7],
    [0x10, 0xb5, 0x88, 0x78, 0x00, 0x28, 0x73, 0xd6, 0x62, 0xcb, 0x21, 0x62],
    [0xd6, 0x47, 0xb4, 0x27, 0xa0, 0x94, 0xc6, 0x25, 0x4e, 0x02, 0x44, 0x99],
    [0x8a, 0x23, 0x6a, 0x48, 0x2d, 0x10, 0x42, 0x7f, 0x3a, 0xf2, 0x21, 0xe7],
    [0x23, 0x46, 0x02, 0x26, 0xc0, 0x00, 0xdc, 0x20, 0x00, 0x02, 0x01, 0xd0],
    [0x09, 0x20, 0x10, 0xbd, 0x58, 0x48, 0xca, 0x78, 0x00, 0x78, 0x01, 0x2a],
    [0x0d, 0xd0, 0x02, 0x2a, 0x21, 0xd0, 0x03, 0x2a, 0x03, 0xd0, 0x04, 0x2a],
    [0x04, 0xd0, 0x0b, 0x20, 0x10, 0xbd, 0x07, 0xf6, 0x6e, 0xfe, 0x16, 0xe0],
    [0x07, 0xf6, 0x88, 0xfe, 0x13, 0xe0, 0x51, 0x4a, 0x12, 0x1d, 0x80, 0x18],
    [0x00, 0x7b, 0x00, 0x28, 0x06, 0xd0, 0x8a, 0x88, 0x00, 0x2a, 0x03, 0xd0],
    [0x01, 0x28, 0x03, 0xd0, 0x0a, 0x22, 0x02, 0xe0, 0x03, 0x22, 0x00, 0xe0],
    [0x06, 0x22, 0x48, 0x78, 0x11, 0x46, 0xff, 0xf7, 0x86, 0xfe, 0x00, 0x20],
    [0x10, 0xbd, 0x07, 0xf6, 0x93, 0xfe, 0xfa, 0xe7, 0x38, 0xb5, 0x03, 0x46],
    [0x41, 0x48, 0x8a, 0x78, 0x00, 0x24, 0x00, 0x78, 0x00, 0x2a, 0x02, 0xd0],
    [0x01, 0x2a, 0x27, 0xd0, 0x29, 0xe0, 0xca, 0x78, 0x01, 0x2a, 0x0d, 0xd0],
    [0x02, 0x2a, 0x0b, 0xd0, 0x03, 0x2a, 0x03, 0xd0, 0x04, 0x2a, 0x04, 0xd0],
    [0x0b, 0x20, 0x38, 0xbd, 0x07, 0xf6, 0xf1, 0xfe, 0x1c, 0xe0, 0x07, 0xf6],
    [0x0b, 0xff, 0x19, 0xe0, 0x37, 0x4a, 0x12, 0x1d, 0x80, 0x18, 0xc0, 0x7a],
    [0x00, 0x28, 0x06, 0xd0, 0x8a, 0x88, 0x00, 0x2a, 0x03, 0xd0, 0x01, 0x28],
    [0x03, 0xd0, 0x05, 0x20, 0x02, 0xe0, 0x03, 0x20, 0x00, 0xe0, 0x06, 0x20],
    [0x4a, 0x78, 0x01, 0x46, 0x10, 0x46, 0xff, 0xf7, 0x50, 0xfe, 0x03, 0xe0],
    [0xca, 0x78, 0x02, 0x2a, 0x02, 0xd0, 0x09, 0x24, 0x20, 0x46, 0x38, 0xbd],
    [0xf8, 0x28, 0x03, 0xd0, 0x19, 0x46, 0x07, 0xf6, 0x0d, 0xff, 0xf7, 0xe7],
    [0x88, 0x88, 0x02, 0x22, 0xc3, 0xb2, 0x00, 0x93, 0x48, 0x78, 0x8b, 0x68],
    [0x01, 0x21, 0x06, 0xf6, 0xd0, 0xfe, 0xed, 0xe7, 0xf8, 0xb5, 0x06, 0x46],
    [0x14, 0x20, 0x42, 0x43, 0x1d, 0x48, 0x00, 0x25, 0x34, 0x30, 0x14, 0x18],
    [0x00, 0x95, 0x19, 0x48, 0x8b, 0x78, 0x00, 0x78, 0x2f, 0x46, 0x00, 0x2b],
    [0x02, 0xd0, 0x01, 0x2b, 0x48, 0xd0, 0x4a, 0xe0, 0xcb, 0x78, 0x03, 0x2b],
    [0x07, 0xd0, 0x04, 0x2b, 0x07, 0xd0, 0x01, 0x2b, 0x07, 0xd0, 0x02, 0x2b],
    [0x3c, 0xd0, 0x0b, 0x25, 0x40, 0xe0, 0xa2, 0x68, 0x44, 0xe0, 0xe2, 0x68],
    [0x42, 0xe0, 0x8b, 0x68, 0x1b, 0x78, 0x02, 0x2b, 0x05, 0xd1, 0x8b, 0x88],
    [0x05, 0x2b, 0x02, 0xd8, 0x01, 0x24, 0x1f, 0x46, 0x00, 0x94, 0x09, 0x4b],
    [0x08, 0x4c, 0x34, 0x33, 0x9a, 0x58, 0x90, 0x47, 0x00, 0x98, 0x01, 0x28],
    [0x2a, 0xd1, 0x07, 0x48, 0x21, 0x78, 0x01, 0x2f, 0x1d, 0xd0, 0x09, 0x18],
    [0x01, 0x20, 0xfa, 0xf5, 0x0c, 0xff, 0x21, 0xe0, 0x00, 0x00, 0x26, 0x0c],
    [0x10, 0x00, 0x9c, 0xfb, 0x20, 0x00, 0x28, 0x0c, 0x10, 0x00, 0x5c, 0x16],
    [0x20, 0x00, 0xec, 0x7e, 0x01, 0x00, 0x68, 0x7f, 0x01, 0x00, 0x61, 0x17],
    [0x20, 0x00, 0x7a, 0x7f, 0x01, 0x00, 0x25, 0x0c, 0x10, 0x00, 0x2b, 0x0c],
    [0x10, 0x00, 0x04, 0x19, 0x10, 0x00, 0xf7, 0x18, 0x10, 0x00, 0x09, 0x18],
    [0x00, 0x20, 0xe0, 0xe7, 0x62, 0x68, 0x09, 0xe0, 0xc9, 0x78, 0x10, 0x29],
    [0x02, 0xd0, 0x09, 0x25, 0x28, 0x46, 0xf8, 0xbd, 0x7c, 0x28, 0x03, 0xd0],
    [0x22, 0x69, 0x31, 0x46, 0x90, 0x47, 0xf7, 0xe7, 0xfb, 0xf7, 0x30, 0xff],
    [0x07, 0x00, 0xf3, 0xd0, 0x78, 0x68, 0xc0, 0x1c, 0x78, 0x60, 0x72, 0x89],
    [0x71, 0x68, 0x09, 0xf6, 0x0e, 0xfb, 0x70, 0x89, 0x78, 0x81, 0x55, 0x48],
    [0x22, 0x69, 0x39, 0x46, 0x00, 0x78, 0x90, 0x47, 0x30, 0x46, 0x06, 0xf6],
    [0xeb, 0xfc, 0xe1, 0xe7, 0x4b, 0x78, 0x51, 0x4a, 0x9a, 0x5c, 0x7f, 0xe7],
    [0x10, 0xb5, 0x0c, 0x46, 0x4e, 0x49, 0x09, 0x78, 0xf8, 0x29, 0x04, 0xd0]]"

definition fw_rows_14 :: "u8 list list" where
  "fw_rows_14 = [
    [0x41, 0x89, 0xff, 0xf7, 0x1e, 0xfc, 0x82, 0x5a, 0xf5, 0xa4, 0xa2, 0x90],
    [0xc5, 0xc0, 0x88, 0x8f, 0x9f, 0x15, 0x46, 0xaa, 0xcb, 0x2c, 0x55, 0xdf],
    [0x51, 0x11, 0x57, 0x0d, 0xe8, 0x02, 0x09, 0x5f, 0x2d, 0xb3, 0xe2, 0x17],
    [0x41, 0x8f, 0x02, 0x26, 0xc0, 0x00, 0xde, 0x20, 0x00, 0x02, 0x00, 0x20],
    [0x10, 0xbd, 0x4b, 0x49, 0x09, 0x78, 0x06, 0x29, 0x03, 0xd0, 0x07, 0x29],
    [0x01, 0xd0, 0x08, 0x29, 0x02, 0xd1, 0x62, 0x78, 0x19, 0x2a, 0x18, 0xd0],
    [0x61, 0x78, 0x0a, 0x29, 0x1a, 0xd0, 0x0b, 0x29, 0x18, 0xd0, 0x0c, 0x29],
    [0x16, 0xd0, 0x01, 0x21, 0xff, 0xf7, 0x60, 0xfc, 0xa0, 0x78, 0x01, 0x28],
    [0xe5, 0xd1, 0x40, 0x49, 0x08, 0x78, 0x01, 0x28, 0x10, 0xd0, 0x00, 0x28],
    [0xdf, 0xd1, 0xe0, 0x78, 0x21, 0x28, 0xdc, 0xd0, 0x01, 0x20, 0x08, 0x70],
    [0xd9, 0xe7, 0x0b, 0x21, 0x10, 0x46, 0xff, 0xf7, 0x86, 0xfd, 0xd4, 0xe7],
    [0x00, 0x21, 0xff, 0xf7, 0x49, 0xfc, 0xd0, 0xe7, 0xe0, 0x78, 0x21, 0x28],
    [0xcd, 0xd1, 0x00, 0x20, 0xef, 0xe7, 0xf8, 0xb5, 0x05, 0x46, 0x0c, 0x20],
    [0x42, 0x43, 0x2f, 0x4f, 0x2e, 0x48, 0x8e, 0x78, 0x66, 0x3f, 0x00, 0x24],
    [0xd3, 0x19, 0x00, 0x78, 0x00, 0x2e, 0x02, 0xd0, 0x01, 0x2e, 0x30, 0xd0],
    [0x34, 0xe0, 0xce, 0x78, 0x03, 0x2e, 0x0d, 0xd0, 0x04, 0x2e, 0x0f, 0xd0],
    [0x01, 0x2e, 0x11, 0xd0, 0x02, 0x2e, 0x11, 0xd0, 0x10, 0x2e, 0x12, 0xd0],
    [0x48, 0x78, 0x07, 0x21, 0xff, 0xf7, 0x5d, 0xfd, 0x0b, 0x24, 0x27, 0xe0],
    [0x9a, 0x68, 0x08, 0xf6, 0x02, 0xf8, 0x23, 0xe0, 0x9a, 0x68, 0x08, 0xf6],
    [0x17, 0xf8, 0x1f, 0xe0, 0xba, 0x58, 0x00, 0xe0, 0x5a, 0x68, 0x90, 0x47],
    [0x1a, 0xe0, 0x6a, 0x68, 0x1d, 0x4e, 0x92, 0x78, 0x1d, 0x2a, 0x08, 0xd0],
    [0x1e, 0x2a, 0x08, 0xd0, 0x00, 0x22, 0x32, 0x70, 0x9b, 0x68, 0x2a, 0x46],
    [0x08, 0xf6, 0x2b, 0xf8, 0x0c, 0xe0, 0x01, 0x22, 0xf7, 0xe7, 0x03, 0x22],
    [0xf5, 0xe7, 0xca, 0x78, 0x10, 0x2a, 0x07, 0xd0, 0x11, 0x2a, 0x0a, 0xd0],
    [0x28, 0x46, 0x06, 0xf6, 0x61, 0xfc, 0x09, 0x24, 0x20, 0x46, 0xf8, 0xbd],
    [0x9b, 0x68, 0x2a, 0x46, 0x08, 0xf6, 0xdf, 0xf8, 0xf8, 0xe7, 0x0d, 0x4e],
    [0x01, 0x22, 0x32, 0x70, 0x9b, 0x68, 0x2a, 0x46, 0x08, 0xf6, 0x04, 0xf9],
    [0x00, 0x28, 0xef, 0xd1, 0x06, 0x48, 0x09, 0x49, 0x40, 0x78, 0x01, 0x22],
    [0x41, 0x18, 0x08, 0x48, 0xf2, 0xf5, 0x20, 0xfd, 0xe6, 0xe7, 0x26, 0x0c],
    [0x10, 0x00, 0x1e, 0xfc, 0x20, 0x00, 0x28, 0x0c, 0x10, 0x00, 0xf7, 0x18],
    [0x10, 0x00, 0xf5, 0x18, 0x10, 0x00, 0x3a, 0x0c, 0x10, 0x00, 0xd2, 0x16],
    [0x20, 0x00, 0xeb, 0x7e, 0x01, 0x00, 0x10, 0xb5, 0xb8, 0x48, 0x08, 0xf6],
    [0xaa, 0xfd, 0x10, 0xbd, 0x38, 0xb5, 0x00, 0x21, 0x6a, 0x46, 0x11, 0x70],
    [0x80, 0x68, 0x00, 0x78, 0x02, 0x28, 0x02, 0xd3, 0x09, 0x20, 0x10, 0x70],
    [0x44, 0xe0, 0xb1, 0x4c, 0x00, 0x28, 0x60, 0x68, 0x45, 0xd0, 0x20, 0x21],
    [0x08, 0x43, 0x60, 0x60, 0x11, 0x22, 0xae, 0x49, 0xaf, 0x48, 0xf2, 0xf5],
    [0xf3, 0xfc, 0xac, 0x49, 0xbb, 0x22, 0x1c, 0x31, 0xad, 0x48, 0xf2, 0xf5],
    [0xed, 0xfc, 0x01, 0x22, 0xac, 0x49, 0xac, 0x48, 0xf2, 0xf5, 0xe8, 0xfc],
    [0xaa, 0x49, 0x09, 0x22, 0xda, 0x39, 0xaa, 0x48, 0xf2, 0xf5, 0xe2, 0xfc],
    [0xa7, 0x49, 0x00, 0x20, 0xcd, 0x39, 0xfa, 0xf5, 0xf2, 0xfd, 0xa1, 0x49],
    [0x00, 0x20, 0x0f, 0x39, 0xfa, 0xf5, 0xe1, 0xfd, 0x60, 0x68, 0x80, 0x21],
    [0x88, 0x43, 0x60, 0x60, 0x60, 0x68, 0x09, 0x01, 0x88, 0x43, 0x60, 0x60],
    [0x60, 0x68, 0x49, 0x00, 0x88, 0x43, 0x60, 0x60, 0x98, 0x48, 0x40, 0x30],
    [0xc1, 0x6a, 0x9d, 0x4a, 0x11, 0x40, 0xc1, 0x62, 0x01, 0x20, 0x01, 0xf0],
    [0xee, 0xfb, 0x06, 0xf6, 0x6e, 0xfc, 0x00, 0x28, 0x02, 0xd0, 0x64, 0x20],
    [0xf8, 0xf5, 0xa4, 0xfa, 0xf2, 0xf5, 0x1a, 0xfb, 0x68, 0x46, 0x00, 0x78],
    [0xfe, 0xf7, 0x43, 0xfe, 0x38, 0xbd, 0x3a, 0x72, 0x95, 0xea, 0x91, 0x22],
    [0x36, 0x90, 0xd7, 0x88, 0x85, 0x8e, 0x67, 0x10, 0x37, 0x52, 0xb8, 0x53],
    [0x49, 0x3a, 0x42, 0x39, 0x34, 0x61, 0x66, 0x0b, 0x05, 0x8a, 0x29, 0x6c],
    [0xa6, 0x22, 0x02, 0x26, 0xc0, 0x00, 0xe0, 0x20, 0x00, 0x02, 0x10, 0x21],
    [0x08, 0x43, 0x60, 0x60, 0xd8, 0xe7, 0x1c, 0xb5, 0x92, 0x49, 0x6a, 0x46],
    [0x89, 0x7e, 0x51, 0x71, 0x00, 0x21, 0x11, 0x71, 0x90, 0x71, 0x03, 0x23],
    [0x00, 0x93, 0x01, 0xab, 0x0a, 0x46, 0x02, 0x20, 0xfe, 0xf7, 0xee, 0xfd],
    [0x1c, 0xbd, 0x3e, 0xb5, 0x69, 0x46, 0x04, 0x46, 0x08, 0x71, 0x00, 0x20],
    [0x48, 0x71, 0x01, 0x20, 0x01, 0xf0, 0xc3, 0xfb, 0xa0, 0x2c, 0x08, 0xd0],
    [0x02, 0x23, 0x00, 0x93, 0x00, 0x22, 0x01, 0xab, 0x11, 0x46, 0x03, 0x20],
    [0xfe, 0xf7, 0xda, 0xfd, 0x3e, 0xbd, 0x01, 0xa8, 0x04, 0x22, 0x80, 0x49],
    [0x02, 0x30, 0x09, 0xf6, 0xc8, 0xf9, 0x06, 0x23, 0xef, 0xe7, 0x10, 0xb5],
    [0x86, 0xb0, 0x6a, 0x46, 0x00, 0x21, 0x11, 0x70, 0x7a, 0x49, 0x50, 0x1c],
    [0x12, 0x22, 0x1b, 0x31, 0x09, 0xf6, 0xbb, 0xf9, 0x79, 0x48, 0x6a, 0x46],
    [0x00, 0x78, 0xd0, 0x74, 0x78, 0x48, 0x78, 0x49, 0xc0, 0x78, 0x10, 0x75],
    [0x08, 0x7a, 0x49, 0x7a, 0x17, 0x24, 0x09, 0x02, 0x08, 0x43, 0x01, 0x0a],
    [0x51, 0x75, 0x90, 0x75, 0x02, 0x20, 0x01, 0xf0, 0x92, 0xfb, 0x21, 0x46],
    [0x68, 0x46, 0xfe, 0xf7, 0xdf, 0xfd, 0x06, 0xb0, 0x10, 0xbd, 0xf8, 0xb5],
    [0x06, 0x46, 0x0f, 0x46, 0x01, 0xf0, 0x90, 0xfb, 0x05, 0x46, 0x6c, 0x48],
    [0x00, 0x78, 0x06, 0xf6, 0x38, 0xfb, 0x04, 0x46, 0x05, 0x2e, 0x0c, 0xd0],
    [0x06, 0x2d, 0x0a, 0xd0, 0x07, 0x2d, 0x08, 0xd0, 0x02, 0x46, 0x83, 0x21],
    [0x00, 0x20, 0xfa, 0xf5, 0x75, 0xfe, 0x20, 0x46, 0x06, 0xf6, 0x70, 0xfb],
    [0xf8, 0xbd, 0x60, 0x68, 0x02, 0x23, 0xc6, 0x70, 0x60, 0x68, 0x08, 0x22],
    [0x07, 0x71, 0x00, 0x93, 0x23, 0x46, 0x00, 0x21, 0x03, 0x20, 0xfe, 0xf7],
    [0x5a, 0xfe, 0xf8, 0xbd, 0x70, 0xb5, 0x81, 0x68, 0x01, 0x24, 0x0b, 0x78],
    [0x00, 0x22, 0x02, 0x26, 0x86, 0xb0, 0x25, 0x46, 0x01, 0x2b, 0x1f, 0xd0],
    [0x02, 0x2b, 0x02, 0xd0, 0x03, 0x2b, 0x17, 0xd1, 0x01, 0xe0, 0x01, 0x22],
    [0x15, 0xe0, 0x4b, 0x78, 0x06, 0x26, 0x01, 0x2b, 0x0b, 0xd1, 0x8b, 0x78],
    [0x01, 0x2b, 0x08, 0xd1, 0xcb, 0x78, 0x02, 0x2b, 0x05, 0xd1, 0x0b, 0x79],
    [0x01, 0x2b, 0x02, 0xd1, 0x49, 0x79, 0x01, 0x29, 0x00, 0xd0, 0x09, 0x22],
    [0x03, 0x24, 0x00, 0x2a, 0x04, 0xd0, 0x00, 0xe0, 0x09, 0x22, 0x68, 0x46],
    [0x02, 0x70, 0x0c, 0xe0, 0x00, 0x79, 0xb0, 0x42, 0xf8, 0xd1, 0x38, 0x4e],
    [0x70, 0x68, 0x00, 0x05, 0x02, 0xd4, 0x70, 0x68, 0xc0, 0x04, 0x04, 0xd5],
    [0x01, 0x20, 0x69, 0x46, 0x08, 0x70, 0x01, 0x21, 0x20, 0xe0, 0x01, 0x2c],
    [0x06, 0xd0, 0x07, 0xf6, 0xc5, 0xfa, 0x3e, 0x48, 0xc0, 0x78, 0x3f, 0x28],
    [0x04, 0xd0, 0x0a, 0xe0, 0x70, 0x68, 0x01, 0x21, 0xc9, 0x02, 0x09, 0xe0],
    [0x3b, 0x48, 0x00, 0x78, 0x15, 0x28, 0x02, 0xd1, 0x01, 0x20, 0xff, 0xf7],
    [0xe4, 0xf9, 0x70, 0x68, 0x01, 0x21, 0x09, 0x03, 0x08, 0x43, 0x70, 0x60],
    [0x00, 0x20, 0x69, 0x46, 0x08, 0x70, 0xff, 0x20, 0x48, 0x70, 0x8d, 0x70],
    [0xcc, 0x70, 0x04, 0x21, 0x68, 0x46, 0xfe, 0xf7, 0x59, 0xfd, 0x06, 0xb0],
    [0x70, 0xbd, 0x70, 0xb5, 0x80, 0x68, 0x00, 0x24, 0x00, 0x78, 0x00, 0x28],
    [0x1b, 0xd0, 0x01, 0x28, 0x08, 0xd0, 0x02, 0x28, 0x17, 0xd0, 0x03, 0x28],
    [0x06, 0xd0, 0x09, 0x24, 0x20, 0x46, 0xfe, 0xf7, 0x58, 0xfd, 0x70, 0xbd],
    [0x0b, 0x21, 0x00, 0xe0, 0x0c, 0x21, 0x15, 0x4e, 0x72, 0x68, 0x01, 0x25],
    [0x8d, 0x40, 0x2a, 0x42, 0x07, 0xd0, 0x03, 0x28, 0x01, 0xd1, 0x07, 0xf6],
    [0x85, 0xfa, 0x70, 0x68, 0xa8, 0x43, 0x70, 0x60, 0xea, 0xe7, 0x01, 0x24],
    [0xe8, 0xe7, 0x1c, 0xb5, 0x01, 0x21, 0x5f, 0xe0, 0x50, 0x0d, 0xe3, 0x02],
    [0xba, 0xf8, 0x2f, 0xec, 0xee, 0x82, 0x8f, 0x18, 0x02, 0x29, 0x1e, 0x23],
    [0x6c, 0x97, 0xfc, 0xc8, 0xfb, 0xc0, 0x79, 0x39, 0xcc, 0x3e, 0xe9, 0x5a],
    [0x14, 0x6e, 0x02, 0x26, 0xc0, 0x00, 0xe2, 0x20, 0x00, 0x02, 0x6a, 0x46],
    [0x11, 0x71, 0x50, 0x71, 0x91, 0x71, 0x03, 0x23, 0x00, 0x93, 0x01, 0xab],
    [0x06, 0x22, 0x00, 0x21, 0x03, 0x20, 0xfe, 0xf7, 0xf5, 0xfc, 0x1c, 0xbd],
    [0x01, 0xb5, 0x82, 0xb0, 0x01, 0x23, 0x00, 0x93, 0x02, 0xab, 0x07, 0x22],
    [0x00, 0x21, 0x03, 0x20, 0xfe, 0xf7, 0xea, 0xfc, 0x0e, 0xbd, 0x04, 0xff],
    [0x20, 0x00, 0x00, 0x40, 0x02, 0x40, 0x85, 0x17, 0x20, 0x00, 0x24, 0xfa],
    [0x20, 0x00, 0x35, 0xfa, 0x20, 0x00, 0xd8, 0x19, 0x20, 0x00, 0xf8, 0xfa],
    [0x20, 0x00, 0xf0, 0xfa, 0x20, 0x00, 0xff, 0xff, 0x00, 0xf0, 0xc0, 0x18],
    [0x20, 0x00, 0xbf, 0x15, 0x20, 0x00, 0xd0, 0x0a, 0x10, 0x00, 0xfc, 0x7f],
    [0x01, 0x00, 0x00, 0x10, 0x20, 0x00, 0x54, 0x11, 0x10, 0x00, 0xda, 0x1b],
    [0x10, 0x00, 0x28, 0x0c, 0x10, 0x00, 0x08, 0xb5, 0x0d, 0x48, 0x00, 0x78],
    [0x06, 0xf6, 0x57, 0xfa, 0x0c, 0x49, 0x49, 0x68, 0x09, 0x05, 0x0c, 0xd5],
    [0x41, 0x68, 0x00, 0x22, 0x8b, 0x78, 0x00, 0x93, 0x03, 0x46, 0x01, 0x21],
    [0x10, 0x46, 0xfe, 0xf7, 0x88, 0xfd, 0x01, 0x20, 0xff, 0xf7, 0xaf, 0xff],
    [0x08, 0xbd, 0x01, 0x21, 0x05, 0x20, 0xff, 0xf7, 0x00, 0xff, 0x08, 0xbd],
    [0x00, 0x00, 0x54, 0x11, 0x10, 0x00, 0x00, 0x40, 0x02, 0x40, 0xf0, 0xb5],
    [0x00, 0x24, 0x85, 0xb0, 0x05, 0x46, 0x21, 0x46, 0x00, 0x28, 0x00, 0xd0],
    [0x05, 0x21, 0x28, 0x48, 0x05, 0x22, 0x09, 0x18, 0x68, 0x46, 0x04, 0x91],
    [0x09, 0xf6, 0x8d, 0xf8, 0x26, 0x48, 0x2a, 0x18, 0x00, 0x20, 0x25, 0x49],
    [0x25, 0x4b, 0x09, 0x5c, 0x5b, 0x1d, 0x8a, 0x18, 0x1e, 0x5c, 0x69, 0x46],
    [0x09, 0x18, 0x00, 0x23, 0x17, 0x78, 0x95, 0x5d, 0x01, 0x2e, 0x02, 0xd1],
    [0x02, 0x2d, 0x00, 0xd0, 0x00, 0x25, 0x02, 0x2f, 0x06, 0xd1, 0x00, 0x2d],
    [0x04, 0xd0, 0x0d, 0x78, 0x01, 0x2d, 0x07, 0xd0, 0x01, 0x23, 0x03, 0xe0],
    [0x0d, 0x78, 0x01, 0x2d, 0x02, 0xd1, 0x02, 0x23, 0x0b, 0x70, 0x01, 0x23],
    [0x23, 0x43, 0x40, 0x1c, 0xc0, 0xb2, 0x1c, 0x46, 0x04, 0x28, 0xda, 0xd9],
    [0x00, 0x2b, 0x1e, 0xd0, 0x05, 0x22, 0x02, 0xa8, 0x04, 0x99, 0x09, 0xf6],
    [0x5e, 0xf8, 0x00, 0x20, 0x6d, 0x46, 0x04, 0x46, 0x02, 0xaa, 0x29, 0x5c],
    [0x13, 0x5c, 0x99, 0x42, 0x04, 0xd0, 0x11, 0x54, 0x02, 0x29, 0x02, 0xd1],
    [0x2c, 0x54, 0x00, 0xe0, 0x14, 0x54, 0x40, 0x1c, 0xc0, 0xb2, 0x05, 0x28],
    [0xf1, 0xd3, 0x10, 0x46, 0x00, 0xf0, 0x08, 0xf9, 0x05, 0x22, 0x68, 0x46],
    [0x04, 0x99, 0xf2, 0xf5, 0x03, 0xfb, 0x05, 0xb0, 0xf0, 0xbd, 0xf4, 0x18],
    [0x20, 0x00, 0x76, 0x16, 0x20, 0x00, 0x1c, 0xff, 0x20, 0x00, 0x10, 0xb5],
    [0x04, 0x46, 0xa0, 0x48, 0xa1, 0x4b, 0x00, 0x78, 0x14, 0x28, 0x02, 0xd0],
    [0x15, 0x28, 0x03, 0xd0, 0x04, 0xe0, 0x00, 0x2c, 0x05, 0xd0, 0x01, 0xe0],
    [0x01, 0x2c, 0x02, 0xd0, 0x3f, 0x20, 0xd8, 0x70, 0x10, 0xbd, 0xd9, 0x70],
    [0x3c, 0x29, 0x04, 0xd1, 0x02, 0x2a, 0x07, 0xd0, 0x01, 0x20, 0x06, 0xf6],
    [0xe1, 0xfb, 0x96, 0x48, 0x00, 0x5d, 0xfe, 0xf7, 0x10, 0xff, 0x10, 0xbd],
    [0x00, 0x20, 0xf6, 0xe7, 0x0e, 0xb5, 0x93, 0x4a, 0x12, 0x78, 0x01, 0x2a],
    [0x13, 0xd1, 0x6b, 0x46, 0x18, 0x71, 0x59, 0x71, 0x9a, 0x71, 0x01, 0x28],
    [0x02, 0xd0, 0x80, 0x20, 0xd8, 0x71, 0x00, 0xe0, 0xda, 0x71, 0x00, 0x20],
    [0x18, 0x72, 0x05, 0x23, 0x00, 0x93, 0x02, 0x46, 0x01, 0xab, 0x02, 0x21],
    [0x03, 0x20, 0xfe, 0xf7, 0x0d, 0xfc, 0x0e, 0xbd, 0xf8, 0xb5, 0x80, 0x68],
    [0x00, 0x26, 0x04, 0x78, 0x45, 0x78, 0x82, 0x4f, 0x01, 0x2c, 0x05, 0xd0],
    [0x02, 0x2c, 0x03, 0xd0, 0x83, 0x48, 0xfa, 0x7f, 0xa7, 0xf1, 0x23, 0x5c],
    [0x08, 0x81, 0xbf, 0x15, 0x12, 0x73, 0xce, 0x2f, 0x28, 0x6d, 0x81, 0x99],
    [0x5b, 0x6a, 0xae, 0xca, 0xf3, 0x8d, 0x8c, 0x98, 0xe9, 0x7e, 0x2c, 0x98],
    [0xbb, 0x9d, 0x02, 0x26, 0xc0, 0x00, 0xe4, 0x20, 0x00, 0x02, 0x00, 0x78],
    [0x84, 0x42, 0x01, 0xd1, 0x01, 0x2d, 0x01, 0xd9, 0x09, 0x26, 0x05, 0xe0],
    [0x01, 0x2c, 0x17, 0xd0, 0x29, 0x46, 0x20, 0x46, 0x00, 0xf0, 0xcc, 0xf8],
    [0x30, 0x46, 0xfe, 0xf7, 0x32, 0xfc, 0x00, 0x2e, 0x3d, 0xd1, 0x01, 0x2c],
    [0x3b, 0xd1, 0xf8, 0x78, 0x3f, 0x28, 0x38, 0xd1, 0x00, 0x2d, 0x25, 0xd0],
    [0x01, 0x2d, 0x34, 0xd1, 0x00, 0x20, 0xfe, 0xf7, 0x2f, 0xfd, 0x01, 0x28],
    [0x21, 0xd0, 0x24, 0xe0, 0x71, 0x49, 0x28, 0x46, 0x49, 0x1c, 0xfa, 0xf5],
    [0x98, 0xfb, 0x01, 0x2d, 0x12, 0xd0, 0x3e, 0x20, 0xf8, 0x70, 0x00, 0x20],
    [0xff, 0xf7, 0xaf, 0xf8, 0x19, 0x20, 0xff, 0xf7, 0xac, 0xf8, 0x6b, 0x48]]"

definition fw_rows_15 :: "u8 list list" where
  "fw_rows_15 = [
    [0x41, 0x68, 0x82, 0x14, 0x91, 0x43, 0x41, 0x60, 0xf9, 0x78, 0x22, 0x46],
    [0x28, 0x46, 0xff, 0xf7, 0x80, 0xff, 0xd1, 0xe7, 0x00, 0x20, 0xff, 0xf7],
    [0x6e, 0xf8, 0xf5, 0xe7, 0x01, 0x21, 0x08, 0x46, 0x0b, 0xe0, 0x00, 0x21],
    [0x02, 0x20, 0xff, 0xf7, 0x95, 0xff, 0x7c, 0x20, 0xfe, 0xf7, 0x04, 0xfd],
    [0x01, 0x28, 0x04, 0xd1, 0x5d, 0x48, 0x00, 0x21, 0x00, 0x78, 0xff, 0xf7],
    [0x8b, 0xff, 0xf8, 0xbd, 0x38, 0xb5, 0x80, 0x68, 0x00, 0x78, 0x02, 0x28],
    [0x03, 0xd3, 0x09, 0x20, 0xfe, 0xf7, 0xe9, 0xfb, 0x38, 0xbd, 0x54, 0x4c],
    [0x21, 0x46, 0xfa, 0xf5, 0x60, 0xfb, 0x00, 0x20, 0x69, 0x46, 0x08, 0x70],
    [0x01, 0x20, 0x48, 0x70, 0x02, 0x21, 0x68, 0x46, 0xfe, 0xf7, 0xca, 0xfb],
    [0x60, 0x78, 0x00, 0x28, 0x01, 0xd0, 0x00, 0x21, 0x00, 0xe0, 0x01, 0x21],
    [0x01, 0x20, 0xff, 0xf7, 0x6b, 0xff, 0x38, 0xbd, 0xfe, 0xb5, 0x4b, 0x4f],
    [0x00, 0x21, 0x3a, 0x68, 0x08, 0x46, 0x03, 0x24, 0x23, 0x46, 0x83, 0x40],
    [0x13, 0x42, 0x34, 0xd0, 0x01, 0x26, 0x01, 0xab, 0x5e, 0x54, 0x49, 0x1c],
    [0x35, 0x46, 0x85, 0x40, 0xc9, 0xb2, 0x15, 0x42, 0x02, 0xd0, 0x00, 0x25],
    [0x5d, 0x54, 0x00, 0xe0, 0x5e, 0x54, 0x49, 0x1c, 0xc9, 0xb2, 0x5c, 0x54],
    [0x49, 0x1c, 0xc9, 0xb2, 0x0a, 0x28, 0x01, 0xd2, 0x02, 0x25, 0x01, 0xe0],
    [0x3a, 0x4d, 0x2d, 0x78, 0x5d, 0x54, 0x36, 0x4d, 0x49, 0x1c, 0x46, 0x08],
    [0xad, 0x1c, 0xc9, 0xb2, 0xad, 0x5d, 0x5d, 0x54, 0x49, 0x1c, 0xc9, 0xb2],
    [0x82, 0x2d, 0x0e, 0xd0, 0x04, 0x25, 0x5d, 0x54, 0x49, 0x1c, 0x84, 0x40],
    [0xa2, 0x43, 0xcb, 0xb2, 0x3a, 0x60, 0x00, 0x93, 0x01, 0xab, 0x0a, 0x22],
    [0x01, 0x21, 0x03, 0x20, 0xfe, 0xf7, 0x54, 0xfb, 0xfe, 0xbd, 0x5c, 0x54],
    [0xf0, 0xe7, 0x80, 0x1c, 0xc0, 0xb2, 0x14, 0x28, 0xc2, 0xd3, 0xfe, 0xbd],
    [0x70, 0xb5, 0x05, 0x46, 0x01, 0x24, 0xfe, 0xf7, 0x8a, 0xfc, 0x02, 0x28],
    [0x1a, 0xd0, 0x0a, 0x22, 0x23, 0x48, 0x00, 0x78, 0x01, 0x28, 0x14, 0xd1],
    [0x24, 0x48, 0x01, 0x68, 0x00, 0x29, 0x00, 0xd0, 0x00, 0x24, 0x00, 0x21],
    [0x6b, 0x5c, 0x06, 0x68, 0x93, 0x40, 0x33, 0x43, 0x92, 0x1c, 0x49, 0x1c],
    [0xc9, 0xb2, 0xd2, 0xb2, 0x03, 0x60, 0x05, 0x29, 0xf4, 0xd3, 0x00, 0x2c],
    [0x01, 0xd0, 0xff, 0xf7, 0x9b, 0xff, 0x70, 0xbd, 0x00, 0x22, 0xe3, 0xe7],
    [0x70, 0xb5, 0x04, 0x46, 0x00, 0x20, 0x0d, 0x46, 0x02, 0x2c, 0x00, 0xd0],
    [0x19, 0x20, 0x01, 0x2d, 0x07, 0xd0, 0xfe, 0xf7, 0xf8, 0xff, 0x22, 0x46],
    [0x3c, 0x21, 0x28, 0x46, 0xff, 0xf7, 0xd1, 0xfe, 0x70, 0xbd, 0xfe, 0xf7],
    [0xaf, 0xff, 0x08, 0x48, 0x02, 0x2c, 0x41, 0x78, 0x02, 0xd0, 0x00, 0x29],
    [0x02, 0xd0, 0xf0, 0xe7, 0x7c, 0x29, 0xee, 0xd1, 0x01, 0x78, 0x14, 0x29],
    [0xeb, 0xd1, 0x03, 0x21, 0x01, 0x70, 0x00, 0x20, 0xfe, 0xf7, 0xb6, 0xfc],
    [0x70, 0xbd, 0x28, 0x0c, 0x10, 0x00, 0x2b, 0xd7, 0xa3, 0x4f, 0xcf, 0x2d],
    [0xc9, 0x06, 0x78, 0xdd, 0x6e, 0x92, 0x60, 0x11, 0x45, 0xb0, 0x5a, 0x80],
    [0x78, 0x8e, 0x17, 0xca, 0x2a, 0xd3, 0x1c, 0x54, 0xec, 0x0c, 0x9f, 0x72],
    [0xaa, 0x66, 0x02, 0x26, 0xc0, 0x00, 0xe6, 0x20, 0x00, 0x02, 0xda, 0x1b],
    [0x10, 0x00, 0x26, 0xff, 0x20, 0x00, 0x00, 0x19, 0x20, 0x00, 0x27, 0x0c],
    [0x10, 0x00, 0x00, 0x40, 0x02, 0x40, 0xec, 0x1b, 0x10, 0x00, 0xfa, 0x48],
    [0x00, 0x21, 0x01, 0x70, 0x01, 0x71, 0x09, 0x22, 0x42, 0x71, 0x01, 0x22],
    [0xc2, 0x70, 0x03, 0x46, 0x81, 0x70, 0x0c, 0x33, 0x19, 0x60, 0x82, 0x71],
    [0x41, 0x70, 0x70, 0x47, 0xf1, 0xb5, 0x86, 0xb0, 0x06, 0x98, 0x00, 0x24],
    [0x80, 0x68, 0x00, 0x90, 0x11, 0x22, 0xf0, 0x49, 0x03, 0x94, 0xf0, 0x48],
    [0xf2, 0xf5, 0x8e, 0xf9, 0x06, 0x98, 0x01, 0x79, 0x00, 0x98, 0x49, 0x1e],
    [0x00, 0x78, 0x42, 0x00, 0x80, 0x18, 0x81, 0x42, 0x01, 0xd0, 0x09, 0x24],
    [0x5a, 0xe0, 0x00, 0x20, 0x4f, 0xe0, 0x00, 0x98, 0x0a, 0x22, 0x47, 0x18],
    [0x78, 0x78, 0xe7, 0x49, 0xfb, 0xf7, 0xc0, 0xfa, 0x05, 0x46, 0xe5, 0x49],
    [0xbe, 0x78, 0xf8, 0x78, 0x06, 0x22, 0x41, 0x39, 0x02, 0x90, 0xfb, 0xf7],
    [0xb7, 0xfa, 0x04, 0x90, 0xff, 0x2d, 0x05, 0xd0, 0xff, 0x28, 0x03, 0xd0],
    [0x00, 0x2e, 0x01, 0xd0, 0x04, 0x2e, 0x01, 0xd3, 0x09, 0x24, 0x31, 0xe0],
    [0x00, 0x27, 0xf0, 0x07, 0x07, 0xd0, 0x01, 0x20, 0xa8, 0x40, 0xc7, 0xb2],
    [0xd7, 0x48, 0x29, 0x18, 0x02, 0x98, 0xfa, 0xf5, 0x64, 0xfa, 0xb0, 0x07],
    [0x0b, 0xd5, 0x29, 0x46, 0x10, 0x31, 0x01, 0x20, 0x88, 0x40, 0x38, 0x43],
    [0xc7, 0xb2, 0xd0, 0x48, 0x09, 0x30, 0x29, 0x18, 0x02, 0x98, 0xfa, 0xf5],
    [0x56, 0xfa, 0x03, 0x98, 0x38, 0x42, 0x01, 0xd0, 0x01, 0x24, 0x02, 0xe0],
    [0x03, 0x98, 0x38, 0x43, 0x03, 0x90, 0xcb, 0x48, 0x0a, 0x30, 0x40, 0x5d],
    [0x86, 0x43, 0x00, 0xd0, 0x01, 0x24, 0x04, 0x99, 0x01, 0x20, 0x88, 0x40],
    [0xc7, 0x49, 0x14, 0x31, 0x49, 0x5d, 0x88, 0x43, 0x00, 0x06, 0x00, 0x0e],
    [0x00, 0xd0, 0x01, 0x24, 0x01, 0x98, 0xc0, 0x1c, 0xc0, 0xb2, 0x01, 0x90],
    [0x06, 0x98, 0x01, 0x99, 0x00, 0x79, 0x40, 0x1e, 0x88, 0x42, 0xa8, 0xdc],
    [0x00, 0x2c, 0x03, 0xd0, 0xbb, 0x49, 0xff, 0x20, 0xfa, 0xf5, 0x2d, 0xfa],
    [0x20, 0x46, 0xfe, 0xf7, 0xae, 0xfa, 0x07, 0xb0, 0xf0, 0xbd, 0xf8, 0xb5],
    [0x06, 0x46, 0x87, 0x68, 0xc0, 0x68, 0x00, 0x90, 0xb3, 0x48, 0x00, 0x25],
    [0x45, 0x70, 0xb2, 0x48, 0x40, 0x1f, 0x40, 0x79, 0xff, 0x28, 0x0c, 0xd0],
    [0x38, 0x78, 0x31, 0x79, 0x40, 0x00, 0x40, 0x1c, 0x81, 0x42, 0x00, 0xd0],
    [0x09, 0x25, 0x01, 0xf0, 0x3d, 0xf8, 0x03, 0x28, 0x03, 0xd3, 0xa0, 0x25],
    [0x22, 0xe0, 0x01, 0x25, 0xf7, 0xe7, 0x00, 0x2d, 0x1e, 0xd1, 0xaa, 0x48],
    [0xc1, 0x6a, 0xaa, 0x4a, 0x11, 0x40, 0xc1, 0x62, 0x01, 0x24, 0x10, 0xe0],
    [0xa6, 0x49, 0x38, 0x5d, 0x0c, 0x22, 0x0c, 0x39, 0xfb, 0xf7, 0x3a, 0xfa],
    [0xff, 0x28, 0x0e, 0xd0, 0xa3, 0x4a, 0xd1, 0x6a, 0x10, 0x30, 0x01, 0x23],
    [0x83, 0x40, 0x19, 0x43, 0xd1, 0x62, 0xa4, 0x1c, 0xe4, 0xb2, 0x30, 0x79],
    [0xa0, 0x42, 0xeb, 0xd8, 0x00, 0x2d, 0x05, 0xd0, 0x00, 0xe0, 0x09, 0x25],
    [0x28, 0x46, 0xfe, 0xf7, 0x6c, 0xfa, 0xf8, 0xbd, 0x95, 0x48, 0x00, 0x21],
    [0x01, 0x70, 0x03, 0x21, 0x41, 0x71, 0x00, 0x98, 0x05, 0xf6, 0xfe, 0xff],
    [0x01, 0x21, 0xc9, 0x07, 0x05, 0x20, 0xfe, 0xf7, 0x32, 0xff, 0xf8, 0xbd],
    [0x70, 0xb5, 0x86, 0x68, 0x00, 0x24, 0x35, 0x78, 0x00, 0x2d, 0x1a, 0xd0],
    [0xff, 0x2d, 0x18, 0xd0, 0x70, 0x78, 0x0a, 0x22, 0x8c, 0x49, 0xfb, 0xf7],
    [0x09, 0xfa, 0xff, 0x28, 0x11, 0xd0, 0xb0, 0x78, 0x86, 0x4e, 0x88, 0x49],
    [0xb0, 0x71, 0x06, 0x22, 0x41, 0x39, 0xfb, 0xf7, 0xff, 0xf9, 0xff, 0x28],
    [0x07, 0xd0, 0x6d, 0x1e, 0xe9, 0xb2, 0x1b, 0x06, 0x50, 0x3c, 0x65, 0x1f],
    [0x35, 0x1d, 0x90, 0x21, 0xaa, 0xac, 0x42, 0xc3, 0xdf, 0xce, 0x96, 0xba],
    [0x6a, 0x80, 0xd6, 0x98, 0x7b, 0x53, 0x21, 0x37, 0xa1, 0xcb, 0xc1, 0xfd],
    [0xa6, 0xc6, 0x02, 0x26, 0xc0, 0x00, 0xe8, 0x20, 0x00, 0x02, 0x01, 0x20],
    [0x31, 0x70, 0x03, 0x29, 0x03, 0xd9, 0x01, 0x24, 0x11, 0xe0, 0x09, 0x24],
    [0x0f, 0xe0, 0xb2, 0x79, 0x02, 0x2a, 0x02, 0xd0, 0x03, 0x2a, 0x02, 0xd0],
    [0x02, 0xe0, 0x02, 0x20, 0x00, 0xe0, 0x03, 0x20, 0x09, 0x04, 0x01, 0x22],
    [0x01, 0x43, 0x72, 0x70, 0x07, 0x20, 0xfe, 0xf7, 0xfe, 0xfe, 0x20, 0x46],
    [0xfe, 0xf7, 0x27, 0xfa, 0x70, 0xbd, 0x1c, 0xb5, 0x00, 0x20, 0x69, 0x46],
    [0x08, 0x71, 0x01, 0x23, 0x00, 0x93, 0x01, 0xab, 0x03, 0x22, 0x01, 0x21],
    [0x02, 0x20, 0xfe, 0xf7, 0xd9, 0xf9, 0x1c, 0xbd, 0xf8, 0xb5, 0x05, 0x46],
    [0x0e, 0x46, 0x14, 0x46, 0x00, 0x20, 0x06, 0xf6, 0xf3, 0xf8, 0x01, 0x46],
    [0xa0, 0x1c, 0x81, 0x42, 0x01, 0xd2, 0x01, 0x20, 0xf8, 0xbd, 0x68, 0x46],
    [0x05, 0x70, 0x44, 0x70, 0x02, 0x22, 0x69, 0x46, 0x00, 0x20, 0x06, 0xf6],
    [0xd5, 0xf8, 0x22, 0x46, 0x31, 0x46, 0x00, 0x20, 0x06, 0xf6, 0xd0, 0xf8],
    [0x00, 0x20, 0xf8, 0xbd, 0xff, 0xb5, 0x83, 0xb0, 0x03, 0x98, 0x03, 0x27],
    [0x40, 0x68, 0x0c, 0x46, 0xc0, 0x1c, 0x00, 0x90, 0x01, 0x20, 0x15, 0x46],
    [0x1e, 0x46, 0x01, 0x90, 0xfb, 0x29, 0x1c, 0xd0, 0x04, 0xdc, 0x03, 0x2c],
    [0x24, 0xd0, 0x05, 0x2c, 0x14, 0xd1, 0x04, 0xe0, 0xfc, 0x2c, 0x0e, 0xd0],
    [0xfd, 0x2c, 0x0f, 0xd1, 0x12, 0xe0, 0x68, 0x78, 0x00, 0x28, 0x19, 0xd1],
    [0x0b, 0x21, 0x00, 0x98, 0x08, 0xf6, 0xaa, 0xfd, 0x00, 0x98, 0x29, 0x78],
    [0x01, 0x70, 0x0b, 0x26, 0x10, 0xe0, 0x00, 0x27, 0x3c, 0x46, 0x01, 0x97],
    [0x1a, 0x46, 0x29, 0x46, 0x07, 0xe0, 0x02, 0x27, 0x28, 0x78, 0x9e, 0x1e],
    [0x01, 0x90, 0x6c, 0x78, 0xf6, 0xb2, 0x32, 0x46, 0xa9, 0x1c, 0x00, 0x98],
    [0x08, 0xf6, 0x7b, 0xfd, 0x23, 0x46, 0x00, 0x96, 0x39, 0x46, 0x01, 0x9a],
    [0x03, 0x98, 0x08, 0xf6, 0x26, 0xfd, 0x10, 0xe7, 0xff, 0xb5, 0x81, 0xb0],
    [0x01, 0x98, 0x00, 0x24, 0x0a, 0x9d, 0x0e, 0x46, 0x17, 0x46, 0x00, 0x28],
    [0x0e, 0xd0, 0x04, 0x9b, 0xff, 0xf7, 0xb6, 0xff, 0x01, 0x98, 0x00, 0x28],
    [0x08, 0xd0, 0x00, 0x2d, 0x02, 0xd0, 0xfe, 0xf7, 0x3b, 0xf9, 0x09, 0xe0],
    [0x04, 0x22, 0x01, 0xa9, 0xff, 0x20, 0x02, 0xe0, 0x39, 0x46, 0x30, 0x46],
    [0x04, 0x9a, 0xff, 0xf7, 0x89, 0xff, 0x04, 0x46, 0x20, 0x46, 0x05, 0xb0],
    [0xf0, 0xbd, 0x10, 0xb5, 0x88, 0xb0, 0x00, 0xf0, 0x38, 0xf8, 0x06, 0x90],
    [0x02, 0x22, 0x69, 0x46, 0x00, 0x20, 0x06, 0xf6, 0x4f, 0xf8, 0x00, 0x28],
    [0x0e, 0xd0, 0x00, 0x20, 0x06, 0xf6, 0x0a, 0xf8, 0x27, 0x4c, 0xa2, 0x78],
    [0x00, 0x2a, 0x05, 0xd0, 0x2e, 0x21, 0x03, 0x20, 0xfa, 0xf5, 0x55, 0xfa],
    [0x00, 0x20, 0xa0, 0x70, 0x08, 0xb0, 0x10, 0xbd, 0x68, 0x46, 0x00, 0x78],
    [0xff, 0x28, 0x10, 0xd0, 0x68, 0x46, 0x42, 0x78, 0x01, 0xa9, 0x00, 0x20],
    [0x06, 0xf6, 0x34, 0xf8, 0x68, 0x46, 0x43, 0x78, 0x01, 0x78, 0x01, 0xaa],
    [0x06, 0x98, 0xff, 0xf7, 0x75, 0xff, 0x06, 0x98, 0xfe, 0xf7, 0xfe, 0xf8],
    [0xde, 0xe7, 0x43, 0x21, 0x03, 0x20, 0x06, 0x9a, 0xfa, 0xf5, 0x06, 0xfa],
    [0x68, 0x46, 0x42, 0x78, 0x06, 0xa9, 0x00, 0x20, 0x06, 0xf6, 0x1e, 0xf8],
    [0xef, 0xe7, 0x10, 0xb5, 0x16, 0x49, 0x00, 0x20, 0x05, 0xf6, 0xcb, 0xff],
    [0x10, 0xbd, 0x7c, 0xb5, 0x06, 0x46, 0x00, 0x25, 0x00, 0xf0, 0xfe, 0xfe],
    [0x01, 0x46, 0x04, 0x46, 0xb0, 0x68, 0x00, 0x78, 0x03, 0x28, 0x03, 0xd9],
    [0x09, 0x20, 0xfe, 0xf7, 0x4e, 0xf9, 0x7c, 0xbd, 0x05, 0x29, 0x2d, 0xd0],
    [0x06, 0x29, 0x18, 0xd0, 0x07, 0x29, 0x01, 0xd0, 0x08, 0x29, 0x3f, 0xd1],
    [0x00, 0x28, 0x10, 0xd1, 0x08, 0x2c, 0x1d, 0xd8, 0x96, 0x6f, 0x7f, 0x7f],
    [0x06, 0x11, 0x63, 0xd4, 0xba, 0x5e, 0xca, 0x4b, 0xe1, 0xbf, 0xa4, 0x99],
    [0x35, 0xac, 0xbc, 0xd9, 0x34, 0xe1, 0x07, 0x25, 0xa0, 0x08, 0xb2, 0xa7],
    [0x7b, 0x10, 0x02, 0x26, 0xc0, 0x00, 0xea, 0x20, 0x00, 0x02, 0x3b, 0xd0],
    [0x20, 0xe0, 0x1c, 0x19, 0x10, 0x00, 0x85, 0x17, 0x20, 0x00, 0x24, 0xfa],
    [0x20, 0x00, 0x76, 0xff, 0x20, 0x00, 0x40, 0x40, 0x02, 0x40, 0xff, 0xff],
    [0x00, 0xf0, 0x49, 0xe9, 0x20, 0x00, 0x01, 0x25, 0x1b, 0xe0, 0x01, 0x28],
    [0x04, 0xd0, 0x02, 0x28, 0x02, 0xd0, 0x03, 0x28, 0x0a, 0xd1, 0x06, 0xe0],
    [0xfb, 0xf7, 0x0b, 0xf9, 0x00, 0x21, 0x13, 0x20, 0xfe, 0xf7, 0xf7, 0xfd],
    [0x0a, 0xe0, 0xfd, 0xf7, 0x50, 0xfd, 0x07, 0xe0, 0x02, 0x24, 0x05, 0xe0],
    [0x00, 0x28, 0xe8, 0xd1, 0x02, 0x24, 0x20, 0x46, 0x00, 0xf0, 0xb5, 0xfe],
    [0x00, 0x20, 0xfb, 0xf7, 0x82, 0xf8, 0xf0, 0x68, 0x05, 0xf6, 0xac, 0xfe],
    [0x01, 0x20, 0x69, 0x46, 0x08, 0x71, 0x06, 0x20, 0x48, 0x71, 0x8d, 0x71],
    [0xff, 0xf7, 0xa7, 0xff, 0x00, 0x28, 0x05, 0xd0, 0x01, 0x23, 0x04, 0xe0],
    [0x02, 0x20, 0x00, 0xf0, 0xa0, 0xfe, 0xe1, 0xe7, 0x00, 0x23, 0x00, 0x93],
    [0x03, 0x23, 0x01, 0xaa, 0xfb, 0x21, 0xff, 0xf7, 0x3b, 0xff, 0x02, 0x2c],
    [0xa9, 0xd1, 0xfb, 0xf7, 0xda, 0xf8, 0x00, 0x21, 0x05, 0x20, 0xfe, 0xf7],
    [0xc6, 0xfd, 0x7c, 0xbd, 0xf1, 0xb5, 0x86, 0xb0, 0x06, 0x98, 0x00, 0x24],
    [0x83, 0x68, 0x02, 0x21, 0x18, 0x78, 0x26, 0x46, 0x00, 0x28, 0x46, 0xd1],
    [0x06, 0x98, 0x00, 0x79, 0x84, 0x46, 0x80, 0x1e, 0x02, 0x90, 0xc8, 0x28],
    [0x37, 0xd9, 0x40, 0xe0, 0x58, 0x5c, 0x6f, 0x46, 0x38, 0x70, 0x86, 0x46],
    [0x5a, 0x18, 0x50, 0x78, 0x78, 0x70, 0x95, 0x78, 0xbd, 0x70, 0xc0, 0x2d],
    [0x01, 0xd0, 0x02, 0x2d, 0x0b, 0xd8, 0xd5, 0x78, 0xfd, 0x70, 0x75, 0x46],
    [0x00, 0x2d, 0x04, 0xd0, 0x01, 0x2d, 0x0b, 0xd0, 0x02, 0x2d, 0x02, 0xd1]]"

definition fw_rows_16 :: "u8 list list" where
  "fw_rows_16 = [
    [0x13, 0xe0, 0x03, 0x28, 0x01, 0xd0, 0x09, 0x24, 0x1e, 0xe0, 0x10, 0x79],
    [0x38, 0x71, 0x02, 0x28, 0xf9, 0xd8, 0x10, 0xe0, 0x03, 0x28, 0xf6, 0xd1],
    [0x10, 0x79, 0x38, 0x71, 0x04, 0x28, 0x0a, 0xd0, 0x05, 0x28, 0x08, 0xd0],
    [0xa0, 0x28, 0xee, 0xd1, 0x05, 0xe0, 0xc2, 0x1f, 0x0c, 0x2a, 0xea, 0xd2],
    [0xc9, 0x1e, 0x40, 0x18, 0xc1, 0xb2, 0x09, 0x2c, 0x06, 0xd0, 0x76, 0x1c],
    [0x49, 0x1d, 0xf6, 0xb2, 0xc9, 0xb2, 0x4a, 0x1d, 0x94, 0x45, 0xc5, 0xd2],
    [0x58, 0x78, 0xb0, 0x42, 0x01, 0xd1, 0x8c, 0x45, 0x03, 0xd0, 0x09, 0x24],
    [0x03, 0xe0, 0x03, 0x24, 0x01, 0xe0, 0x00, 0x2c, 0x04, 0xd0, 0xfc, 0x49],
    [0x00, 0x20, 0xfa, 0xf5, 0x1e, 0xf8, 0x08, 0xe0, 0x02, 0x98, 0x18, 0x70],
    [0x06, 0x98, 0xf8, 0x49, 0x02, 0x79, 0x89, 0x1c, 0x18, 0x46, 0xf1, 0xf5],
    [0xff, 0xfe, 0x20, 0x46, 0xfe, 0xf7, 0x89, 0xf8, 0xd9, 0xe5, 0x38, 0xb5],
    [0x00, 0x79, 0x00, 0x24, 0x00, 0x28, 0x00, 0xd0, 0x09, 0x24, 0x20, 0x46],
    [0xfe, 0xf7, 0x7f, 0xf8, 0x00, 0x2c, 0x1f, 0xd1, 0xfb, 0xf7, 0x48, 0xf8],
    [0x05, 0x00, 0x1b, 0xd0, 0x68, 0x68, 0xeb, 0x4a, 0x00, 0x23, 0xc3, 0x70],
    [0x0b, 0x3a, 0x91, 0x7b, 0x00, 0x29, 0x08, 0xd0, 0x01, 0x71, 0x54, 0x7b],
    [0xe7, 0x49, 0x22, 0x46, 0x09, 0x1d, 0x40, 0x1d, 0x08, 0xf6, 0x1d, 0xfc],
    [0x01, 0xe0, 0x03, 0x71, 0x00, 0x24, 0xa4, 0x1c, 0xe3, 0xb2, 0x00, 0x93],
    [0x2b, 0x46, 0x02, 0x22, 0x01, 0x21, 0x03, 0x20, 0xfe, 0xf7, 0xef, 0xf8],
    [0x38, 0xbd, 0x10, 0xb5, 0xde, 0x49, 0x00, 0x24, 0x89, 0x79, 0x01, 0x29],
    [0x03, 0xd1, 0xdc, 0x49, 0x49, 0x78, 0x03, 0x29, 0x04, 0xd0, 0x06, 0x24],
    [0x20, 0x46, 0xfe, 0xf7, 0x4e, 0xf8, 0x10, 0xbd, 0x81, 0x68, 0xd6, 0x48],
    [0x05, 0x22, 0xc0, 0x1d, 0x08, 0xf6, 0xfb, 0xfb, 0xfb, 0xf7, 0x29, 0xf8],
    [0xd3, 0x49, 0x0d, 0x20, 0xc9, 0x1d, 0xae, 0xb4, 0xa3, 0x76, 0xb8, 0x43],
    [0x95, 0xb4, 0x3c, 0x6d, 0x5b, 0x0f, 0x00, 0x04, 0xe9, 0xb7, 0xef, 0xde],
    [0xdf, 0xd9, 0x2d, 0xc1, 0x2e, 0xa2, 0xe6, 0x22, 0xd9, 0xdb, 0x9c, 0xc1],
    [0x50, 0xc7, 0x02, 0x26, 0xc0, 0x00, 0xec, 0x20, 0x00, 0x02, 0xfe, 0xf7],
    [0x14, 0xfd, 0xed, 0xe7, 0xfe, 0xb5, 0x04, 0x46, 0xfb, 0xf7, 0x08, 0xf8],
    [0x01, 0x90, 0x00, 0x28, 0x14, 0xd0, 0x45, 0x68, 0xa0, 0x78, 0xe8, 0x70],
    [0xcd, 0x48, 0x05, 0x23, 0x01, 0x78, 0x29, 0x71, 0xa1, 0x78, 0x00, 0x29],
    [0x0b, 0xd0, 0x03, 0x20, 0xe8, 0x70, 0xdb, 0x1e, 0xdb, 0xb2, 0x00, 0x93],
    [0x08, 0x22, 0x01, 0x21, 0x03, 0x20, 0x01, 0x9b, 0xfe, 0xf7, 0xb5, 0xf8],
    [0xfe, 0xbd, 0x00, 0x24, 0x11, 0xe0, 0x13, 0x21, 0x61, 0x43, 0x09, 0x18],
    [0x48, 0x7e, 0xc9, 0x1d, 0x80, 0x1e, 0xc6, 0xb2, 0xee, 0x54, 0x5b, 0x1c],
    [0xdf, 0xb2, 0xe8, 0x19, 0x32, 0x46, 0x08, 0xf6, 0xc6, 0xfb, 0xb8, 0x19],
    [0x64, 0x1c, 0xc3, 0xb2, 0xe4, 0xb2, 0xb9, 0x48, 0x01, 0x78, 0xa1, 0x42],
    [0xe9, 0xd8, 0xdc, 0xe7, 0xfe, 0xb5, 0x06, 0x46, 0x00, 0x24, 0xb6, 0x48],
    [0x00, 0x94, 0x01, 0x27, 0x02, 0x25, 0x00, 0x78, 0x05, 0xf6, 0x53, 0xfd],
    [0x01, 0x90, 0x30, 0x79, 0x03, 0x28, 0x06, 0xd3, 0xb1, 0x68, 0x09, 0x78],
    [0x4a, 0x00, 0x89, 0x18, 0x49, 0x1c, 0x81, 0x42, 0x01, 0xd0, 0x05, 0x24],
    [0x55, 0xe0, 0xa9, 0x48, 0x05, 0x21, 0xc0, 0x1d, 0x08, 0xf6, 0xba, 0xfb],
    [0x38, 0xe0, 0xc2, 0x5d, 0x7f, 0x1c, 0xf9, 0xb2, 0x43, 0x5c, 0x49, 0x1c],
    [0xc9, 0xb2, 0x01, 0x2b, 0x01, 0xd0, 0x02, 0x25, 0xed, 0xe7, 0x00, 0x2a],
    [0x0b, 0xd0, 0x01, 0x2a, 0x04, 0xd0, 0x02, 0x2a, 0x02, 0xd0, 0x03, 0x2a],
    [0x08, 0xd1, 0x0f, 0xe0, 0x43, 0x5c, 0x9c, 0x48, 0xc0, 0x1d, 0x83, 0x54],
    [0x11, 0xe0, 0x40, 0x5c, 0x06, 0x28, 0x01, 0xd9, 0x09, 0x24, 0x27, 0xe0],
    [0x9c, 0x4b, 0x1b, 0x5c, 0x97, 0x48, 0xc0, 0x1d, 0x03, 0x70, 0x06, 0xe0],
    [0x40, 0x5c, 0x03, 0x07, 0x9b, 0x0f, 0xf3, 0xd1, 0x93, 0x4b, 0xdb, 0x1d],
    [0xd8, 0x70, 0x09, 0x2c, 0x18, 0xd0, 0x90, 0x4f, 0x01, 0x20, 0xff, 0x1d],
    [0x3b, 0x79, 0x90, 0x40, 0x03, 0x43, 0x3b, 0x71, 0x49, 0x1c, 0x00, 0x98],
    [0xcf, 0xb2, 0x40, 0x1c, 0xc0, 0xb2, 0x00, 0x90, 0xb0, 0x68, 0x00, 0x99],
    [0x02, 0x78, 0x8a, 0x42, 0xc1, 0xd8, 0x05, 0x2c, 0x0f, 0xd0, 0x86, 0x48],
    [0x80, 0x79, 0x01, 0x28, 0x05, 0xd0, 0x08, 0xe0, 0xb0, 0x68, 0x42, 0x55],
    [0x6d, 0x1c, 0xed, 0xb2, 0xe8, 0xe7, 0x86, 0x48, 0x40, 0x78, 0x20, 0x28],
    [0x0e, 0xd0, 0x06, 0x24, 0x01, 0x25, 0xb0, 0x68, 0x0b, 0x22, 0x04, 0x70],
    [0xb1, 0x68, 0xa8, 0x1e, 0x48, 0x70, 0x00, 0x95, 0x01, 0x21, 0x02, 0x20],
    [0x01, 0x9b, 0xfe, 0xf7, 0x22, 0xf8, 0xfe, 0xbd, 0x78, 0x49, 0x1d, 0x20],
    [0xc9, 0x1d, 0xfe, 0xf7, 0x5e, 0xfc, 0xec, 0xe7, 0xf8, 0xb5, 0x74, 0x4d],
    [0x04, 0x46, 0x28, 0x79, 0x0e, 0x46, 0x17, 0x46, 0x02, 0x28, 0x06, 0xd0],
    [0x00, 0xf0, 0x26, 0xfd, 0x08, 0x28, 0x14, 0xd1, 0x28, 0x79, 0x01, 0x28],
    [0x11, 0xd1, 0x06, 0x20, 0x38, 0x70, 0x03, 0x21, 0x31, 0x55, 0x64, 0x1c],
    [0xe0, 0xb2, 0x02, 0x22, 0x32, 0x54, 0x40, 0x1c, 0xc4, 0xb2, 0x69, 0x71],
    [0x01, 0x20, 0x28, 0x71, 0x00, 0x22, 0x2e, 0x21, 0x03, 0x20, 0xfa, 0xf5],
    [0x36, 0xf8, 0x20, 0x46, 0xf8, 0xbd, 0xf8, 0xb5, 0x0f, 0x46, 0x63, 0x49],
    [0x04, 0x46, 0x4a, 0x78, 0x63, 0x49, 0x00, 0x20, 0x0e, 0x46, 0xff, 0x36],
    [0x35, 0x36, 0x35, 0x46, 0xff, 0x31, 0x0c, 0x35, 0x21, 0x31, 0x05, 0x2a],
    [0x1a, 0xd0, 0x0b, 0x46, 0x60, 0x3b, 0x06, 0x2a, 0x37, 0xd0, 0x07, 0x2a],
    [0x34, 0xd1, 0x00, 0x2f, 0x04, 0xd0, 0x18, 0x7b, 0x0f, 0x30, 0xc5, 0xb2],
    [0x92, 0x39, 0x06, 0xe0, 0x57, 0x48, 0x56, 0x49, 0x80, 0x30, 0x40, 0x7b],
    [0x0e, 0x30, 0xc5, 0xb2, 0x4f, 0x31, 0x8f, 0xdf, 0xd0, 0x43, 0x3a, 0xf6],
    [0x81, 0xdf, 0xa1, 0x0a, 0x18, 0x16, 0x65, 0x10, 0x24, 0xde, 0x5e, 0x64],
    [0x17, 0xeb, 0x5c, 0x91, 0x8f, 0xf2, 0xcc, 0xc0, 0x8c, 0x0a, 0x91, 0x9f],
    [0xc4, 0x04, 0x02, 0x26, 0xc0, 0x00, 0xee, 0x20, 0x00, 0x02, 0x25, 0x70],
    [0x2a, 0x46, 0x60, 0x1c, 0x08, 0xf6, 0xf1, 0xfa, 0x6d, 0x1c, 0x4e, 0xe0],
    [0xc8, 0x7c, 0x89, 0x7c, 0x00, 0x01, 0x09, 0x07, 0x09, 0x0f, 0x08, 0x43],
    [0x20, 0x70, 0x01, 0x20, 0x00, 0x2f, 0x15, 0xd0, 0x4b, 0x48, 0x4a, 0x49],
    [0x40, 0x30, 0x87, 0x7a, 0xe8, 0x78, 0x3a, 0x46, 0xc0, 0x19, 0x20, 0x70],
    [0x60, 0x1c, 0x46, 0x31, 0x08, 0xf6, 0xd9, 0xfa, 0x7f, 0x1c, 0xed, 0x78],
    [0xff, 0xb2, 0xe0, 0x19, 0x2a, 0x46, 0x31, 0x46, 0x08, 0xf6, 0xd1, 0xfa],
    [0x78, 0x19, 0xc0, 0xb2, 0xf8, 0xbd, 0x00, 0x2f, 0x10, 0xd0, 0xed, 0x7c],
    [0x68, 0x1c, 0x20, 0x70, 0x3d, 0x48, 0x89, 0x7c, 0x20, 0x30, 0x80, 0x7b],
    [0x2a, 0x46, 0x00, 0x01, 0x08, 0x43, 0x60, 0x70, 0xa0, 0x1c, 0x3c, 0x49],
    [0x08, 0xf6, 0xbd, 0xfa, 0xad, 0x1c, 0x1a, 0xe0, 0xed, 0x78, 0x0d, 0x21],
    [0x28, 0x46, 0x08, 0x30, 0x20, 0x70, 0x98, 0x7f, 0x04, 0x22, 0x48, 0x43],
    [0x32, 0x49, 0x41, 0x18, 0xdf, 0x31, 0x60, 0x1c, 0x08, 0xf6, 0xad, 0xfa],
    [0x33, 0x49, 0x04, 0x22, 0x4b, 0x39, 0x60, 0x1d, 0x08, 0xf6, 0xa7, 0xfa],
    [0x20, 0x46, 0x2a, 0x46, 0x31, 0x46, 0x09, 0x30, 0x08, 0xf6, 0xa1, 0xfa],
    [0x09, 0x35, 0xe8, 0xb2, 0xf8, 0xbd, 0x13, 0x22, 0x51, 0x43, 0x26, 0x4a],
    [0x10, 0xb5, 0x89, 0x18, 0x4c, 0x7e, 0x29, 0x4b, 0xa2, 0x1e, 0x9b, 0x78],
    [0xd2, 0xb2, 0x11, 0x2b, 0x08, 0xd0, 0x02, 0x23, 0x03, 0x70, 0x42, 0x70],
    [0xc9, 0x1d, 0x80, 0x1c, 0x08, 0xf6, 0x8b, 0xfa, 0x20, 0x46, 0x10, 0xbd],
    [0x01, 0x23, 0xf5, 0xe7, 0x70, 0xb5, 0x04, 0x46, 0x0e, 0x20, 0x41, 0x43],
    [0x1a, 0x48, 0x09, 0x18, 0x08, 0x7d, 0x20, 0x70, 0x48, 0x7d, 0x0e, 0x46],
    [0x60, 0x70, 0x20, 0x36, 0x35, 0x78, 0xa5, 0x70, 0x16, 0x31, 0xe0, 0x1c],
    [0x2a, 0x46, 0x08, 0xf6, 0x74, 0xfa, 0xed, 0x1c, 0xe8, 0xb2, 0x01, 0x21],
    [0x21, 0x54, 0x40, 0x1c, 0xc0, 0xb2, 0x71, 0x78, 0x21, 0x54, 0x40, 0x1c],
    [0xc0, 0xb2, 0x70, 0xbd, 0x70, 0xb5, 0x05, 0x46, 0x0a, 0x48, 0x0a, 0x4a],
    [0x01, 0x78, 0x00, 0x24, 0x53, 0x78, 0x09, 0x48, 0x09, 0xf6, 0x4b, 0xf8],
    [0x0a, 0x5b, 0x06, 0x3f, 0x28, 0x2d, 0x06, 0x3f, 0x1d, 0x33, 0x55, 0x5b],
    [0x28, 0x46, 0xff, 0xf7, 0xcf, 0xff, 0x20, 0xe0, 0x00, 0x00, 0x0b, 0x19],
    [0x20, 0x00, 0x1c, 0x19, 0x10, 0x00, 0x08, 0x0b, 0x10, 0x00, 0x90, 0x16],
    [0x10, 0x00, 0x54, 0x11, 0x10, 0x00, 0x3b, 0xff, 0x20, 0x00, 0xda, 0x1b],
    [0x10, 0x00, 0xd4, 0x17, 0x10, 0x00, 0xde, 0x1b, 0x10, 0x00, 0xfc, 0x48],
    [0x80, 0x7b, 0x00, 0x28, 0x39, 0xd1, 0xd0, 0x78, 0x00, 0x28, 0xe1, 0xd0],
    [0xfa, 0x48, 0x80, 0x78, 0x00, 0x28, 0xdd, 0xd0, 0x28, 0x46, 0xff, 0xf7],
    [0x96, 0xff, 0x04, 0x46, 0x2d, 0xe0, 0x0a, 0x24, 0x61, 0x43, 0x09, 0x18],
    [0x89, 0x1d, 0x22, 0x46, 0x24, 0xe0, 0x04, 0x24, 0x21, 0x46, 0x28, 0x46],
    [0x08, 0xf6, 0x40, 0xfa, 0xef, 0x48, 0x1e, 0x38, 0x01, 0x7f, 0x29, 0x70],
    [0x40, 0x7f, 0x68, 0x70, 0x1b, 0xe0, 0x0d, 0x22, 0x51, 0x43, 0x0e, 0x18],
    [0xf4, 0x7a, 0xf1, 0x1d, 0x64, 0x1e, 0x2c, 0x70, 0x68, 0x1c, 0x04, 0x22],
    [0x08, 0xf6, 0x15, 0xfa, 0x24, 0x1f, 0xe4, 0xb2, 0x31, 0x46, 0x0c, 0x31],
    [0x68, 0x1d, 0x22, 0x46, 0x08, 0xf6, 0x0d, 0xfa, 0x64, 0x1d, 0xe4, 0xb2],
    [0x05, 0xe0, 0x10, 0x24, 0x22, 0x46, 0x01, 0x1d, 0x28, 0x46, 0x08, 0xf6],
    [0x04, 0xfa, 0x20, 0x46, 0x70, 0xbd, 0xf7, 0xb5, 0xde, 0x48, 0xde, 0x4b],
    [0x01, 0x78, 0x58, 0x78, 0xde, 0x4a, 0x82, 0xb0, 0x16, 0x5c, 0x0b, 0x32],
    [0x15, 0x5c, 0x0b, 0x32, 0x14, 0x5c, 0x55, 0x03, 0x5c, 0xb4, 0xb2, 0x91],
    [0x87, 0x71, 0xbe, 0x30, 0x09, 0x6f, 0xd0, 0xbe, 0x10, 0xf0, 0xd5, 0xa3],
    [0xeb, 0x2b, 0x5b, 0x46, 0x1d, 0x86, 0xe5, 0xf2, 0x35, 0x32, 0xf2, 0x1f],
    [0x79, 0x6c, 0x02, 0x26, 0xc0, 0x00, 0xf0, 0x20, 0x00, 0x02, 0xdb, 0x4a],
    [0x37, 0x46, 0x52, 0x7a, 0x81, 0x2a, 0x00, 0xd3, 0x14, 0x46, 0xd4, 0x4a],
    [0x03, 0x46, 0x92, 0x78, 0x00, 0x92, 0xd1, 0x4a, 0x40, 0x3a, 0x08, 0xf6],
    [0xd4, 0xff, 0x09, 0x70, 0x2a, 0x5e, 0x17, 0x70, 0x25, 0x5e, 0x06, 0x22],
    [0x70, 0x00, 0x04, 0x98, 0x00, 0x28, 0x01, 0xd1, 0x80, 0x26, 0x37, 0x46],
    [0xcd, 0x48, 0xc0, 0x78, 0x00, 0xf0, 0xee, 0xfa, 0x80, 0x19, 0xc6, 0xb2],
    [0x00, 0x98, 0x00, 0xf0, 0xe9, 0xfa, 0xc0, 0x19, 0xc7, 0xb2, 0x58, 0xe0],
    [0x13, 0x20, 0x41, 0x43, 0x88, 0x18, 0xc1, 0x79, 0x01, 0x29, 0x52, 0xd1],
    [0x00, 0x7a, 0xfe, 0x28, 0x4f, 0xd1, 0x05, 0x25, 0x4d, 0xe0, 0xc3, 0x48],
    [0x84, 0x79, 0x4a, 0xe0, 0x04, 0x98, 0x00, 0x28, 0x47, 0xd1, 0x80, 0x26],
    [0x44, 0xe0, 0x0e, 0x20, 0x41, 0x43, 0x88, 0x18, 0x20, 0x30, 0x40, 0x78],
    [0x01, 0x24, 0x68, 0x21, 0x08, 0x42, 0x21, 0xd0, 0x81, 0x06, 0x01, 0xd5],
    [0x04, 0x25, 0x02, 0xe0, 0x41, 0x06, 0x00, 0xd5, 0x05, 0x25, 0x01, 0x07],
    [0x33, 0xd5, 0xb3, 0x49, 0x4a, 0x78, 0x00, 0x2a, 0x05, 0xd0, 0x02, 0x9a],
    [0x80, 0x06, 0x14, 0x78, 0x0c, 0xd5, 0x04, 0x25, 0x0b, 0xe0, 0xb1, 0x48],
    [0x44, 0x7b, 0x01, 0x2c, 0x03, 0xd1, 0x02, 0x98, 0x00, 0x78, 0x80, 0x28],
    [0x21, 0xd1, 0x80, 0x24, 0x25, 0x46, 0x1e, 0xe0, 0x80, 0x25, 0x00, 0x20],
    [0x48, 0x70, 0x1a, 0xe0, 0x02, 0x98, 0x00, 0x78, 0x80, 0x28, 0x02, 0xd0],
    [0xa8, 0x48, 0xc4, 0x79, 0x13, 0xe0, 0x80, 0x24, 0x11, 0xe0, 0x02, 0x28],
    [0x07, 0xd1, 0x0d, 0x20, 0x41, 0x43, 0x88, 0x18, 0x40, 0x7c, 0x01, 0x24],
    [0xc0, 0x07, 0x04, 0xd0, 0x04, 0x25, 0x04, 0x98, 0x00, 0x28, 0x02, 0xd0],
    [0x03, 0xe0, 0x00, 0x25, 0xf9, 0xe7, 0x81, 0x26, 0x37, 0x46, 0x03, 0x98],
    [0x87, 0x70, 0x03, 0x98, 0x05, 0x70, 0x03, 0x98, 0x46, 0x70, 0x02, 0x98],
    [0x04, 0x70, 0x1a, 0xe4, 0xf8, 0xb5, 0x01, 0x26, 0x04, 0x46, 0x17, 0x46],
    [0x04, 0x29, 0x00, 0xd0, 0x00, 0x26, 0x91, 0x48, 0x01, 0x25, 0x00, 0x78],
    [0x3a, 0x46, 0x40, 0x1c, 0x20, 0x70, 0x8e, 0x48, 0x69, 0x46, 0x80, 0x1d],
    [0xff, 0xf7, 0x5b, 0xff, 0x00, 0x2e, 0x03, 0xd0, 0x8b, 0x48, 0x02, 0x25],
    [0x80, 0x79, 0x60, 0x70, 0x69, 0x46, 0x08, 0x78, 0x60, 0x55, 0x6d, 0x1c],
    [0xe8, 0xb2, 0x89, 0x78, 0x21, 0x54, 0x40, 0x1c, 0xc5, 0xb2, 0x00, 0x2e],
    [0x0c, 0xd0, 0x68, 0x46, 0x00, 0x78, 0x05, 0x28, 0x13, 0xd0, 0x85, 0x48],
    [0x40, 0x7a, 0x60, 0x55, 0x6d, 0x1c, 0xe8, 0xb2, 0x01, 0x21, 0x21, 0x54],
    [0x40, 0x1c, 0xc5, 0xb2, 0x00, 0x2f, 0x0a, 0xd0, 0x60, 0x19, 0x40, 0x1c],
    [0xff, 0xf7, 0xd0, 0xfe, 0x60, 0x55, 0x6d, 0x1c, 0x28, 0x18, 0xc0, 0xb2]]"

definition fw_rows_17 :: "u8 list list" where
  "fw_rows_17 = [
    [0x05, 0xe0, 0xfb, 0x20, 0xeb, 0xe7, 0x00, 0x20, 0x60, 0x55, 0x6d, 0x1c],
    [0xe8, 0xb2, 0x00, 0x2e, 0x24, 0xd0, 0x69, 0x46, 0x49, 0x78, 0x21, 0x54],
    [0x40, 0x1c, 0x72, 0x4e, 0xc5, 0xb2, 0x70, 0x78, 0x07, 0x28, 0x07, 0xd1],
    [0x00, 0x2f, 0x05, 0xd0, 0xf0, 0x78, 0x00, 0xf0, 0x33, 0xfa, 0x61, 0x19],
    [0x20, 0x39, 0xc8, 0x77, 0xf0, 0x78, 0x6c, 0x49, 0x40, 0x07, 0x40, 0x0f],
    [0xc9, 0x1f, 0x08, 0x5c, 0x60, 0x55, 0x61, 0x19, 0x48, 0x70, 0xad, 0x1c],
    [0xed, 0xb2, 0x60, 0x19, 0x40, 0x1c, 0x39, 0x46, 0xff, 0xf7, 0xf1, 0xfd],
    [0x60, 0x55, 0x6d, 0x1c, 0x28, 0x18, 0x06, 0xe0, 0x60, 0x49, 0x09, 0x78],
    [0x03, 0x29, 0x00, 0xd1, 0x01, 0x21, 0x21, 0x54, 0x40, 0x1c, 0xc0, 0xb2],
    [0xf8, 0xbd, 0x70, 0xb5, 0x5c, 0x4c, 0x01, 0x20, 0xe0, 0x70, 0x00, 0xf0],
    [0xeb, 0xfa, 0x26, 0x46, 0x01, 0x46, 0xc6, 0xa7, 0xac, 0x31, 0xa5, 0xcb],
    [0xe4, 0xda, 0x6c, 0xe6, 0x5c, 0x83, 0x78, 0x4d, 0x7c, 0xc0, 0x82, 0x6a],
    [0xe4, 0xa3, 0x4d, 0x05, 0x64, 0x66, 0x75, 0x55, 0x3f, 0x04, 0x2e, 0xf5],
    [0x72, 0xec, 0x02, 0x26, 0xc0, 0x00, 0xf2, 0x20, 0x00, 0x02, 0x0c, 0x36],
    [0x30, 0x68, 0x00, 0x25, 0x00, 0x28, 0x06, 0xd0, 0x06, 0x29, 0x0d, 0xd0],
    [0x07, 0x29, 0x0b, 0xd0, 0x05, 0xf6, 0xd2, 0xfa, 0x35, 0x60, 0xa2, 0x78],
    [0x00, 0x2a, 0x04, 0xd0, 0x2e, 0x21, 0x03, 0x20, 0xf9, 0xf5, 0xfd, 0xfd],
    [0xa5, 0x70, 0x70, 0xbd, 0x72, 0x79, 0x31, 0x79, 0x00, 0xf0, 0x8a, 0xfa],
    [0xf0, 0xe7, 0xff, 0xb5, 0x04, 0x46, 0x49, 0x48, 0x4f, 0x49, 0xc0, 0x78],
    [0xc9, 0x78, 0x00, 0x26, 0x81, 0xb0, 0x1d, 0x46, 0x88, 0x42, 0x1d, 0xd1],
    [0x47, 0x48, 0x40, 0x78, 0x00, 0x28, 0x19, 0xd0, 0x4a, 0x49, 0x00, 0x27],
    [0x48, 0x78, 0x02, 0x28, 0x01, 0xd0, 0xc0, 0x28, 0x08, 0xd1, 0x47, 0x48],
    [0x00, 0x78, 0xc2, 0x28, 0x10, 0xd0, 0x08, 0x78, 0x01, 0x28, 0x0d, 0xd0],
    [0x03, 0x28, 0x0b, 0xd0, 0x04, 0x20, 0x05, 0xf6, 0x4a, 0xfa, 0x00, 0x28],
    [0x0d, 0xd0, 0x03, 0x98, 0x00, 0x28, 0x01, 0xd0, 0x05, 0xf6, 0x61, 0xfb],
    [0x30, 0x46, 0x40, 0xe7, 0x21, 0x68, 0x01, 0x20, 0x08, 0x70, 0x20, 0x68],
    [0x02, 0x26, 0x47, 0x70, 0xf6, 0xe7, 0x28, 0x68, 0x00, 0x28, 0x02, 0xd0],
    [0x00, 0x20, 0x05, 0xf6, 0x6b, 0xfb, 0x04, 0x20, 0x05, 0xf6, 0x41, 0xfa],
    [0x28, 0x60, 0x04, 0x21, 0x35, 0x48, 0x05, 0xf6, 0x01, 0xfb, 0x2b, 0x48],
    [0xc7, 0x70, 0x28, 0x68, 0x40, 0x68, 0xc0, 0x1c, 0x20, 0x60, 0x03, 0x9a],
    [0x02, 0x99, 0xff, 0xf7, 0x23, 0xff, 0x06, 0x46, 0xdc, 0xe7, 0xf0, 0xb5],
    [0x8d, 0xb0, 0x06, 0x46, 0x05, 0xa8, 0x01, 0x90, 0x23, 0x48, 0x00, 0x25],
    [0x00, 0x79, 0x0c, 0x46, 0x0b, 0x90, 0x0a, 0x95, 0x05, 0x20, 0x69, 0x46],
    [0x08, 0x72, 0x2f, 0x46, 0x28, 0x46, 0x05, 0xf6, 0xab, 0xfb, 0x00, 0x90],
    [0x72, 0xb6, 0xff, 0xf7, 0x64, 0xfb, 0x03, 0x90, 0x00, 0x28, 0x00, 0xd0],
    [0x01, 0x20, 0x0c, 0x90, 0x00, 0xf0, 0x66, 0xfa, 0x17, 0x49, 0x04, 0x90],
    [0x0c, 0x31, 0x08, 0x68, 0x00, 0x28, 0x05, 0xd0, 0x05, 0xf6, 0x52, 0xfa],
    [0x13, 0x49, 0x00, 0x20, 0x0c, 0x31, 0x08, 0x60, 0x04, 0x9b, 0x9b, 0x1e],
    [0x08, 0xf6, 0x4f, 0xfe, 0x07, 0x9f, 0x05, 0x05, 0x05, 0xbd, 0xbd, 0x05],
    [0x43, 0x00, 0x08, 0x2e, 0x02, 0xd0, 0x00, 0x2e, 0x29, 0xd0, 0x2b, 0xe0],
    [0x00, 0x98, 0x05, 0x28, 0x28, 0xd9, 0x01, 0x98, 0x00, 0x21, 0x01, 0x70],
    [0x07, 0x21, 0x41, 0x70, 0x21, 0x78, 0x1a, 0x29, 0x1b, 0xd0, 0xa1, 0x21],
    [0x81, 0x70, 0x03, 0x25, 0xfd, 0x20, 0xfb, 0xe0, 0x00, 0x00, 0xd0, 0x16],
    [0x10, 0x00, 0xde, 0x1b, 0x10, 0x00, 0x1c, 0x19, 0x10, 0x00, 0x08, 0x0b],
    [0x10, 0x00, 0x49, 0xff, 0x20, 0x00, 0x80, 0x17, 0x20, 0x00, 0xe0, 0x18],
    [0x20, 0x00, 0xb4, 0x1b, 0x10, 0x00, 0xda, 0x1b, 0x10, 0x00, 0xe2, 0x1b],
    [0x10, 0x00, 0xf1, 0xf1, 0x20, 0x00, 0xe4, 0x21, 0xe2, 0xe7, 0x02, 0x21],
    [0xa8, 0x48, 0x82, 0xe0, 0xa7, 0x48, 0x00, 0x79, 0x00, 0x28, 0x02, 0xd0],
    [0x01, 0x28, 0x06, 0xd1, 0x47, 0xe0, 0x06, 0x2e, 0x04, 0xd0, 0xa3, 0x48],
    [0x00, 0x78, 0x02, 0x28, 0x1b, 0xd0, 0xd3, 0xe0, 0x04, 0x20, 0x05, 0xf6],
    [0xac, 0xf9, 0x01, 0x28, 0x02, 0xd0, 0x00, 0x98, 0x23, 0x28, 0x01, 0xd2],
    [0x02, 0x20, 0x58, 0xe0, 0x9b, 0x49, 0x01, 0x20, 0x08, 0x71, 0x9b, 0x49],
    [0x09, 0x7e, 0x00, 0x29, 0x28, 0xd0, 0x9a, 0x49, 0x89, 0x68, 0x89, 0x0c],
    [0xc9, 0x06, 0x23, 0xd4, 0x01, 0x99, 0x01, 0x25, 0x08, 0x70, 0x07, 0x20],
    [0xb6, 0xe0, 0x04, 0x2e, 0x01, 0xd0, 0x05, 0x2e, 0x1a, 0xd1, 0x03, 0xab],
    [0x01, 0x22, 0x31, 0x46, 0x01, 0xa8, 0xff, 0xf7, 0x1e, 0xff, 0x05, 0x00],
    [0x12, 0xd0, 0x04, 0x2e, 0x0a, 0xd0, 0xbd, 0xbb, 0x17, 0x2e, 0xd5, 0xc1],
    [0x90, 0xa4, 0x09, 0x34, 0x06, 0x35, 0xdf, 0x3c, 0x88, 0xc9, 0xf3, 0xa7],
    [0x1c, 0x15, 0xfb, 0xc7, 0xac, 0x2c, 0x65, 0xd4, 0xb7, 0x59, 0x57, 0xca],
    [0x63, 0x72, 0x02, 0x26, 0xc0, 0x00, 0xf4, 0x20, 0x00, 0x02, 0x8f, 0x48],
    [0x00, 0x78, 0x02, 0x28, 0x0d, 0xd0, 0x89, 0x48, 0x00, 0x21, 0x01, 0x70],
    [0x05, 0x21, 0x41, 0x71, 0x03, 0x20, 0x9d, 0xe0, 0x05, 0x20, 0x69, 0x46],
    [0x08, 0x72, 0x84, 0x49, 0x06, 0x20, 0x48, 0x71, 0x98, 0xe0, 0x82, 0x48],
    [0x01, 0x78, 0x49, 0x1c, 0x01, 0x70, 0x04, 0x21, 0xef, 0xe7, 0x04, 0x2e],
    [0x22, 0xd0, 0x06, 0x2e, 0x18, 0xd1, 0x04, 0x98, 0x08, 0x28, 0x16, 0xd0],
    [0x7e, 0x48, 0x00, 0x7e, 0x00, 0x28, 0x0e, 0xd0, 0x7d, 0x48, 0x80, 0x68],
    [0x80, 0x0c, 0xc0, 0x06, 0x09, 0xd4, 0x77, 0x49, 0x04, 0x20, 0x88, 0x70],
    [0x01, 0x99, 0x00, 0x20, 0x08, 0x70, 0x01, 0x25, 0x07, 0x20, 0x69, 0x46],
    [0x08, 0x72, 0x72, 0x49, 0x00, 0x20, 0x08, 0x71, 0x74, 0xe0, 0x00, 0x98],
    [0x07, 0x28, 0x20, 0xd2, 0x04, 0x20, 0x6e, 0x49, 0x88, 0x70, 0x10, 0xe0],
    [0x05, 0x20, 0x69, 0x46, 0x08, 0x72, 0x03, 0xab, 0x00, 0x22, 0x31, 0x46],
    [0x01, 0xa8, 0xff, 0xf7, 0xd4, 0xfe, 0x05, 0x00, 0x05, 0xd0, 0x67, 0x48],
    [0x02, 0x21, 0x01, 0x71, 0x07, 0x21, 0x41, 0x71, 0x5c, 0xe0, 0x01, 0x27],
    [0x5a, 0xe0, 0x33, 0x46, 0x08, 0xf6, 0x8f, 0xfd, 0x09, 0x1f, 0x58, 0x44],
    [0x0e, 0x58, 0x58, 0x06, 0x58, 0x68, 0x58, 0x00, 0xdb, 0xe7, 0x02, 0xaa],
    [0x28, 0x46, 0x01, 0x99, 0xff, 0xf7, 0x5a, 0xfc, 0x05, 0x46, 0x49, 0xe0],
    [0x01, 0x20, 0x0a, 0x90, 0x5a, 0x48, 0xc1, 0x78, 0x00, 0x29, 0x05, 0xd0],
    [0x62, 0x79, 0x21, 0x79, 0x20, 0x68, 0x00, 0xf0, 0x37, 0xf9, 0x3d, 0xe0],
    [0x62, 0x68, 0x21, 0x68, 0x02, 0x61, 0xc1, 0x60, 0x38, 0xe0, 0x06, 0x20],
    [0x69, 0x46, 0x08, 0x72, 0x01, 0x98, 0x21, 0x78, 0x01, 0x70, 0x62, 0x78],
    [0x42, 0x70, 0x02, 0x22, 0x20, 0x78, 0x01, 0x21, 0x15, 0x46, 0x00, 0x28],
    [0x0e, 0xd0, 0x01, 0x28, 0x03, 0xd0, 0x02, 0x28, 0x01, 0xd0, 0x03, 0x20],
    [0x03, 0xe0, 0x04, 0x98, 0x06, 0x28, 0x03, 0xd0, 0x08, 0x20, 0x46, 0x4a],
    [0x50, 0x71, 0x03, 0xe0, 0x05, 0x20, 0xfa, 0xe7, 0x44, 0x48, 0x42, 0x71],
    [0x43, 0x48, 0x02, 0x79, 0x02, 0x2a, 0x15, 0xd1, 0x01, 0x71, 0x13, 0xe0],
    [0x42, 0x48, 0x40, 0x7e, 0x00, 0x28, 0x0f, 0xd0, 0x01, 0x98, 0x21, 0x78],
    [0x01, 0x70, 0x62, 0x78, 0x42, 0x70, 0x62, 0x78, 0x01, 0x21, 0x00, 0x2a],
    [0x0b, 0xd0, 0x81, 0x70, 0xa1, 0x78, 0xc1, 0x70, 0x04, 0x25, 0x09, 0x20],
    [0x69, 0x46, 0x08, 0x72, 0x62, 0xb6, 0x0a, 0x98, 0x00, 0x28, 0x30, 0xd0],
    [0x34, 0xe0, 0xe1, 0x78, 0x81, 0x70, 0xe2, 0x78, 0xc0, 0x1c, 0x21, 0x1d],
    [0x07, 0xf6, 0x3f, 0xff, 0xe0, 0x78, 0xc0, 0x1c, 0xc5, 0xb2, 0xec, 0xe7],
    [0x2e, 0x48, 0xfc, 0x22, 0x80, 0x79, 0x01, 0x28, 0x15, 0xd0, 0x30, 0x49],
    [0x80, 0x28, 0x0a, 0xd0, 0x01, 0x98, 0x00, 0x22, 0x02, 0x70, 0x08, 0x23],
    [0x43, 0x70, 0x23, 0x78, 0x04, 0x25, 0x59, 0x5c, 0x81, 0x70, 0xc2, 0x70],
    [0xdc, 0xe6, 0x01, 0x98, 0x10, 0x23, 0x03, 0x70, 0x23, 0x78, 0x02, 0x25],
    [0x59, 0x5c, 0x41, 0x70, 0x06, 0xe0, 0x20, 0x78, 0x17, 0x28, 0xd1, 0xd1],
    [0x02, 0x20, 0x01, 0x99, 0x01, 0x25, 0x08, 0x70, 0x68, 0x46, 0x02, 0x72],
    [0xca, 0xe7, 0x03, 0x2e, 0x02, 0xd1, 0x20, 0x68, 0x05, 0xf6, 0xf8, 0xf8],
    [0x00, 0x2d, 0x0a, 0xd0, 0x0c, 0x9b, 0x00, 0x93, 0x68, 0x46, 0x01, 0x7a],
    [0x2b, 0x46, 0x01, 0x9a, 0x03, 0x98, 0xff, 0xf7, 0x93, 0xf9, 0x07, 0x43],
    [0x05, 0xe0, 0x03, 0x98, 0x00, 0x28, 0x02, 0xd0, 0x00, 0x20, 0x05, 0xf6],
    [0xc5, 0xf9, 0x00, 0x2f, 0x05, 0xd0, 0x0e, 0x49, 0x0b, 0x98, 0x08, 0x71],
    [0x38, 0x46, 0x0d, 0xb0, 0xf0, 0xbd, 0xc7, 0x3a, 0x4c, 0xb8, 0x2e, 0x56],
    [0x37, 0x3a, 0x65, 0xfe, 0x15, 0xb5, 0x0f, 0x6b, 0x91, 0x31, 0x4f, 0x5b],
    [0x06, 0x11, 0x2f, 0x31, 0xd3, 0x4a, 0x83, 0x56, 0xed, 0xbe, 0xc3, 0xc7],
    [0x92, 0x2d, 0x02, 0x26, 0xc0, 0x00, 0xf6, 0x20, 0x00, 0x02, 0x0b, 0x4c],
    [0x60, 0x79, 0x09, 0x28, 0x03, 0xd0, 0x00, 0xf0, 0xda, 0xf8, 0x09, 0x20],
    [0x60, 0x71, 0x00, 0x20, 0xa0, 0x70, 0xf2, 0xe7, 0x01, 0x46, 0x00, 0x20],
    [0x00, 0x29, 0x00, 0xd0, 0x02, 0x20, 0x04, 0x49, 0x89, 0x78, 0x02, 0x29],
    [0x01, 0xd1, 0xc0, 0x1c, 0xc0, 0xb2, 0x70, 0x47, 0x00, 0x00, 0x1c, 0x19],
    [0x10, 0x00, 0x08, 0x0b, 0x10, 0x00, 0x40, 0x18, 0x20, 0x00, 0x00, 0x40],
    [0x02, 0x40, 0xde, 0x1b, 0x10, 0x00, 0x1c, 0xff, 0x20, 0x00, 0x5a, 0x48],
    [0x00, 0x21, 0x01, 0x70, 0x41, 0x60, 0x70, 0x47, 0xf8, 0xb5, 0x05, 0x46],
    [0x87, 0x68, 0xc4, 0x68, 0x00, 0xf0, 0xba, 0xf8, 0x06, 0x28, 0x06, 0xd0],
    [0x07, 0x28, 0x04, 0xd0, 0x00, 0x21, 0x01, 0x20, 0xfe, 0xf7, 0x1d, 0xfd],
    [0xf8, 0xbd, 0x51, 0x48, 0x00, 0x78, 0x01, 0x28, 0x20, 0xd0, 0x02, 0x28],
    [0x1e, 0xd0, 0x03, 0x28, 0x1c, 0xd0, 0x80, 0x28, 0x03, 0xd0, 0x20, 0x46],
    [0x05, 0xf6, 0x98, 0xf8, 0xf8, 0xbd, 0x60, 0x68, 0x00, 0x1d, 0x60, 0x60],
    [0x60, 0x89, 0x00, 0x1f, 0x60, 0x81, 0x38, 0x78, 0x10, 0x28, 0x0b, 0xd0],
    [0x32, 0x28, 0x04, 0xd0, 0x40, 0x28, 0x2e, 0xd1, 0x21, 0x46, 0x0b, 0x20],
    [0x01, 0xe0, 0x21, 0x46, 0x0c, 0x20, 0xfd, 0xf7, 0xbc, 0xff, 0x26, 0xe0],
    [0x21, 0x46, 0x43, 0xe0, 0x68, 0x78, 0x3d, 0x4e, 0x00, 0x28, 0x26, 0xd1],
    [0x3e, 0x48, 0x80, 0x79, 0xc0, 0x06, 0x22, 0xd4, 0x30, 0x78, 0x01, 0x28],
    [0x07, 0xd1, 0x04, 0x20, 0x05, 0xf6, 0x1b, 0xf8, 0x00, 0x28, 0x02, 0xd0],
    [0x05, 0xf6, 0x35, 0xf9, 0xf8, 0xbd, 0x28, 0x79, 0x60, 0x81, 0x34, 0x4d],
    [0x67, 0x60, 0x28, 0x78, 0x01, 0x28, 0x01, 0xd1, 0xfa, 0xf7, 0xad, 0xfa],
    [0x21, 0x46, 0x00, 0x20, 0xfd, 0xf7, 0x99, 0xff, 0x00, 0x20, 0x30, 0x70],
    [0x28, 0x78, 0x01, 0x28, 0x03, 0xd0, 0x00, 0x20, 0xfe, 0xf7, 0x79, 0xfd],
    [0xf8, 0xbd, 0x74, 0x60, 0xf8, 0xbd, 0x01, 0x20, 0x30, 0x70, 0xfa, 0xf7],
    [0x83, 0xfa, 0x06, 0x00, 0xf8, 0xd0, 0x21, 0x68, 0x30, 0x68, 0x79, 0x1a],
    [0x40, 0x18, 0x70, 0x60, 0x2a, 0x79, 0x72, 0x81, 0x39, 0x46, 0x07, 0xf6],
    [0x5e, 0xfe, 0x20, 0x46, 0x05, 0xf6, 0x42, 0xf8, 0x68, 0x78, 0x31, 0x46],
    [0x00, 0x28, 0x01, 0xd0, 0x01, 0x20, 0xb6, 0xe7, 0x00, 0x20, 0xb4, 0xe7],
    [0x38, 0xb5, 0x1b, 0x4a, 0x00, 0x24, 0x13, 0x78, 0x42, 0x68, 0x80, 0x2b],
    [0x02, 0xd0, 0xd2, 0x1e, 0x42, 0x60, 0x04, 0xe0, 0x12, 0x1f, 0x42, 0x60],
    [0x42, 0x89, 0x52, 0x1c, 0x42, 0x81, 0x00, 0x29, 0x0a, 0xd0, 0x80, 0x24],
    [0x41, 0x89, 0x00, 0x22, 0xcb, 0xb2, 0x00, 0x93, 0x03, 0x46, 0x11, 0x46],
    [0x20, 0x46, 0xfd, 0xf7, 0x16, 0xfb, 0x38, 0xbd, 0x00, 0x21, 0x01, 0x2b],
    [0x04, 0xd0, 0x80, 0x2b, 0xf0, 0xd1, 0x43, 0x68, 0x10, 0x22, 0xda, 0x70],
    [0x43, 0x89, 0x42, 0x68, 0xd2, 0x18, 0xd1, 0x70, 0x41, 0x89, 0x49, 0x1c],
    [0x41, 0x81, 0xe5, 0xe7, 0x10, 0xb5, 0x04, 0x49, 0x4a, 0x68, 0x82, 0x42],
    [0x03, 0xd1, 0x00, 0x20, 0x48, 0x60, 0xfe, 0xf7, 0x26, 0xfd, 0x10, 0xbd],
    [0x00, 0x00, 0x30, 0x19, 0x10, 0x00, 0x22, 0x19, 0x10, 0x00, 0xc0, 0x10],
    [0x20, 0x00, 0x15, 0x49, 0x4a, 0x68, 0x00, 0x07, 0x12, 0x09, 0x12, 0x01],
    [0x00, 0x0f, 0x02, 0x43, 0x4a, 0x60, 0x70, 0x47, 0x11, 0x48, 0x40, 0x68],
    [0x00, 0x07, 0x00, 0x0f, 0x70, 0x47, 0x00, 0xb5, 0x02, 0x46, 0xff, 0xf7],
    [0xf7, 0xff, 0x03, 0x2a, 0x03, 0xd8, 0x0c, 0x4b, 0x9b, 0x5c, 0x8b, 0x42],
    [0x01, 0xd8, 0x05, 0x20, 0x00, 0xbd, 0x09, 0x4b, 0x80, 0x00, 0x08, 0x33],
    [0x18, 0x58, 0x1b, 0x1f, 0x9a, 0x5c, 0xe5, 0x9e, 0x68, 0x77, 0xf7, 0xbe],
    [0xef, 0x64, 0x48, 0x6e, 0x50, 0x61, 0x0d, 0x82, 0x54, 0xc7, 0x4a, 0x1c]]"

definition fw_rows_18 :: "u8 list list" where
  "fw_rows_18 = [
    [0x1e, 0xc0, 0x48, 0x7b, 0xa1, 0x25, 0x15, 0x77, 0xff, 0x29, 0x96, 0x90],
    [0x36, 0xbe, 0x02, 0x26, 0xc0, 0x00, 0xf8, 0x20, 0x00, 0x02, 0xd0, 0x40],
    [0x01, 0x22, 0x8a, 0x40, 0x10, 0x40, 0x00, 0x04, 0x00, 0x0c, 0x01, 0xd0],
    [0x00, 0x20, 0x00, 0xbd, 0x06, 0x20, 0x00, 0xbd, 0x00, 0x00, 0x00, 0x40],
    [0x02, 0x40, 0x94, 0xff, 0x20, 0x00, 0x10, 0xb5, 0x37, 0x48, 0x80, 0x79],
    [0xc0, 0x06, 0x12, 0xd5, 0x36, 0x48, 0x02, 0x69, 0x36, 0x49, 0x8a, 0x60],
    [0x36, 0x4c, 0x02, 0x22, 0xa2, 0x61, 0x42, 0x69, 0x83, 0x02, 0x1a, 0x43],
    [0x42, 0x61, 0x04, 0x22, 0xa2, 0x61, 0x82, 0x69, 0x1a, 0x43, 0x82, 0x61],
    [0x00, 0x20, 0x48, 0x60, 0x08, 0x80, 0x10, 0xbd, 0x2b, 0x48, 0x80, 0x79],
    [0xc0, 0x06, 0x06, 0xd5, 0x2b, 0x48, 0x00, 0x21, 0x41, 0x60, 0x01, 0x80],
    [0x80, 0x68, 0x27, 0x49, 0x08, 0x61, 0x70, 0x47, 0x70, 0xb5, 0x24, 0x4c],
    [0x42, 0x68, 0xa4, 0x79, 0x00, 0x23, 0x41, 0x89, 0x92, 0x78, 0xe4, 0x06],
    [0x3f, 0xd5, 0x22, 0x4d, 0x6c, 0x68, 0x00, 0x2c, 0x0e, 0xd0, 0x06, 0x68],
    [0xa6, 0x42, 0x12, 0xd1, 0x2c, 0x88, 0x64, 0x18, 0x2c, 0x80, 0x89, 0x07],
    [0x14, 0xd0, 0x2c, 0x88, 0xd1, 0x1c, 0xa1, 0x42, 0x10, 0xd9, 0x29, 0x88],
    [0x41, 0x81, 0x27, 0xe0, 0x03, 0x29, 0x2a, 0xd3, 0x8c, 0x07, 0x02, 0xd0],
    [0xd4, 0x1c, 0x8c, 0x42, 0x25, 0xd8, 0xd2, 0x1c, 0x8a, 0x42, 0x1d, 0xd9],
    [0x00, 0x68, 0x68, 0x60, 0x29, 0x80, 0x03, 0xe0, 0x29, 0x88, 0xd2, 0x1c],
    [0x8a, 0x42, 0xea, 0xd9, 0xa8, 0x68, 0xe0, 0x23, 0x29, 0x88, 0x40, 0x18],
    [0x0d, 0x49, 0x0a, 0x69, 0xc0, 0x04, 0x52, 0x0b, 0x52, 0x03, 0xc0, 0x0c],
    [0x02, 0x43, 0x0a, 0x61, 0x09, 0x48, 0x40, 0x30, 0x82, 0x68, 0xd2, 0x07],
    [0x09, 0xd0, 0x09, 0x68, 0xc9, 0x07, 0x04, 0xd0, 0x03, 0x23, 0x04, 0xe0],
    [0xff, 0xf7, 0xae, 0xff, 0x01, 0xe0, 0x01, 0x21, 0x41, 0x60, 0x18, 0x46],
    [0x70, 0xbd, 0xc0, 0x10, 0x20, 0x00, 0x00, 0x00, 0x02, 0x40, 0xf0, 0x1b],
    [0x10, 0x00, 0xc0, 0x3f, 0x02, 0x40, 0x10, 0xb5, 0x80, 0x68, 0x00, 0x24],
    [0x00, 0x78, 0x02, 0x28, 0x01, 0xd3, 0x09, 0x24, 0x01, 0xe0, 0xfc, 0xf7],
    [0xc8, 0xfe, 0x20, 0x46, 0xfd, 0xf7, 0xad, 0xf9, 0x10, 0xbd, 0x1c, 0xb5],
    [0x00, 0x20, 0x6a, 0x46, 0x10, 0x70, 0x34, 0x48, 0x01, 0x68, 0x09, 0x0e],
    [0x51, 0x70, 0x01, 0x68, 0x09, 0x0c, 0x91, 0x70, 0x01, 0x68, 0x09, 0x0a],
    [0xd1, 0x70, 0x00, 0x68, 0x10, 0x71, 0x05, 0x21, 0x68, 0x46, 0xfd, 0xf7],
    [0x87, 0xf9, 0x1c, 0xbd, 0xfe, 0xb5, 0x01, 0xab, 0x01, 0x33, 0x00, 0x93],
    [0x80, 0x68, 0x2b, 0x49, 0x42, 0x78, 0x00, 0x78, 0x01, 0x24, 0x40, 0x00],
    [0x41, 0x18, 0x27, 0x4d, 0x5b, 0x1c, 0x00, 0x20, 0xa8, 0x47, 0x00, 0x28],
    [0x07, 0xd0, 0x09, 0x20, 0x69, 0x46, 0x08, 0x71, 0x21, 0x46, 0x01, 0xa8],
    [0xfd, 0xf7, 0x6e, 0xf9, 0xfe, 0xbd, 0x00, 0x20, 0x69, 0x46, 0x08, 0x71],
    [0x48, 0x79, 0x80, 0x1c, 0xc4, 0xb2, 0xf3, 0xe7, 0x10, 0xb5, 0x1e, 0x4a],
    [0x11, 0x21, 0x91, 0x70, 0x00, 0x79, 0x00, 0x28, 0x01, 0xd0, 0x01, 0x24],
    [0x04, 0xe0, 0x00, 0x24, 0x21, 0x46, 0x14, 0x20, 0xfd, 0xf7, 0x3d, 0xfe],
    [0x20, 0x46, 0xfd, 0xf7, 0x66, 0xf9, 0x10, 0xbd, 0x01, 0xb5, 0x82, 0xb0],
    [0x01, 0x23, 0x00, 0x93, 0x02, 0xab, 0x11, 0x22, 0x0f, 0x21, 0x03, 0x20],
    [0xfd, 0xf7, 0x1a, 0xf9, 0x0e, 0xbd, 0x10, 0xb5, 0x80, 0x68, 0x02, 0x22],
    [0x00, 0x78, 0xc1, 0x07, 0x02, 0x40, 0x09, 0x0f, 0x52, 0x00, 0x11, 0x43],
    [0x04, 0x22, 0x02, 0x40, 0x52, 0x08, 0x00, 0x07, 0x11, 0x43, 0xc0, 0x0f],
    [0x01, 0x43, 0x09, 0x48, 0x82, 0x68, 0x0f, 0x23, 0x9b, 0x04, 0x9a, 0x43],
    [0x89, 0x04, 0x0a, 0x43, 0x82, 0x60, 0x76, 0x2a, 0x7c, 0x33, 0xf8, 0xae],
    [0xfb, 0x50, 0x7f, 0xdf, 0xfb, 0xeb, 0x9c, 0x6e, 0x79, 0xee, 0x57, 0xaf],
    [0x85, 0x9c, 0xaf, 0x59, 0x4f, 0xed, 0x52, 0xd7, 0x4b, 0x05, 0x8c, 0x5f],
    [0xeb, 0x5f, 0x02, 0x26, 0xc0, 0x00, 0xfa, 0x20, 0x00, 0x02, 0x00, 0x20],
    [0xfd, 0xf7, 0x3f, 0xf9, 0x10, 0xbd, 0xfc, 0xff, 0x20, 0x00, 0x3d, 0x6f],
    [0x01, 0x00, 0x00, 0x13, 0x20, 0x00, 0xda, 0x1b, 0x10, 0x00, 0x00, 0x40],
    [0x02, 0x40, 0x00, 0x11, 0x22, 0x22, 0x33, 0x33, 0x33, 0x33, 0x01, 0x01],
    [0x01, 0x01, 0x01, 0x01, 0x01, 0x01, 0x01, 0x01, 0x01, 0x01, 0x01, 0x01],
    [0x01, 0x01, 0x01, 0xe8, 0x03, 0x03, 0x01, 0x00, 0x01, 0x00, 0x01, 0x00],
    [0x00, 0x00, 0x00, 0x00, 0x00, 0x00, 0x00, 0x00, 0x00, 0x00, 0x00, 0x00],
    [0x00, 0x00, 0x00, 0x00, 0x00, 0x00, 0x00, 0x00, 0x00, 0x00, 0x00, 0x00],
    [0x00, 0x00, 0x00, 0x00, 0x00, 0x00, 0x00, 0x00, 0x00, 0x00, 0x00, 0x00],
    [0x00, 0x00, 0x00, 0x00, 0x00, 0x00, 0x00, 0x00, 0x00, 0x00, 0x00, 0x00],
    [0x00, 0x00, 0x00, 0x00, 0x00, 0x00, 0x00, 0x00, 0x00, 0x00, 0x00, 0x00],
    [0x00, 0x30, 0x01, 0x00, 0x00, 0x04, 0x00, 0x00, 0x00, 0x00, 0x00, 0x00],
    [0x00, 0x00, 0x00, 0x00, 0x81, 0x00, 0x00, 0x00, 0x00, 0x00, 0x00, 0x00],
    [0x00, 0x00, 0x05, 0x02, 0x00, 0x06, 0x04, 0x00, 0x00, 0x00, 0x00, 0x00],
    [0x00, 0x00, 0x00, 0x00, 0x00, 0x00, 0x00, 0x00, 0x00, 0x00, 0x00, 0x00],
    [0x00, 0x00, 0x00, 0x00, 0x00, 0x00, 0x00, 0x00, 0x00, 0x00, 0x00, 0x00],
    [0x00, 0x00, 0x00, 0x00, 0x08, 0x00, 0x00, 0x00, 0x00, 0x00, 0x00, 0x00],
    [0x00, 0x00, 0x00, 0x00, 0x00, 0x00, 0x00, 0x00, 0x00, 0x00, 0x00, 0x00],
    [0x00, 0x00, 0x00, 0x00, 0x00, 0x00, 0x00, 0x00, 0x00, 0x00, 0x00, 0x00],
    [0x00, 0x00, 0x00, 0x00, 0x00, 0x00, 0x00, 0x00, 0x00, 0x00, 0x00, 0x00],
    [0x00, 0x00, 0x00, 0x00, 0x00, 0x30, 0x00, 0x01, 0x0f, 0x00, 0x01, 0x00],
    [0x00, 0x00, 0x00, 0x07, 0x00, 0x01, 0x01, 0x00, 0x01, 0x02, 0x02, 0x01],
    [0x00, 0x04, 0x00, 0x01, 0x02, 0x03, 0x00, 0x01, 0x04, 0x00, 0x04, 0x04],
    [0x00, 0x00, 0x00, 0x06, 0x0e, 0x10, 0x00, 0x02, 0x11, 0x14, 0x15, 0x30],
    [0x3d, 0x3e, 0x00, 0x01, 0x02, 0x03, 0x04, 0x06, 0x08, 0x0b, 0x57, 0xdf],
    [0x20, 0x00, 0x61, 0xe0, 0x20, 0x00, 0x6d, 0x6b, 0x01, 0x00, 0x45, 0x6d],
    [0x01, 0x00, 0xf7, 0xe0, 0x20, 0x00, 0xb5, 0xe1, 0x20, 0x00, 0x37, 0xe6],
    [0x20, 0x00, 0xa3, 0xea, 0x20, 0x00, 0x75, 0xeb, 0x20, 0x00, 0x2d, 0xe7],
    [0x20, 0x00, 0xcb, 0xe7, 0x20, 0x00, 0xcd, 0xe9, 0x20, 0x00, 0xcd, 0xeb],
    [0x20, 0x00, 0x73, 0xec, 0x20, 0x00, 0xa3, 0xe4, 0x20, 0x00, 0xeb, 0xe3],
    [0x20, 0x00, 0x11, 0xf9, 0x20, 0x00, 0x2d, 0xf9, 0x20, 0x00, 0x97, 0xf9],
    [0x20, 0x00, 0x57, 0xf9, 0x20, 0x00, 0xd1, 0xf9, 0x20, 0x00, 0xc5, 0xcd],
    [0x20, 0x00, 0xd9, 0xcd, 0x20, 0x00, 0xed, 0xcd, 0x20, 0x00, 0x01, 0x00],
    [0x83, 0x82, 0x82, 0x01, 0x82, 0x83, 0x00, 0x81, 0x03, 0x01, 0x04, 0xff],
    [0x01, 0x02, 0x01, 0x00, 0xff, 0x02, 0x01, 0xff, 0xff, 0xff, 0x06, 0x05],
    [0x00, 0x00, 0xe0, 0xe1, 0x42, 0x43, 0x00, 0x00, 0x44, 0x00, 0x44, 0x44],
    [0xc5, 0xc5, 0xc5, 0x00, 0x22, 0x23, 0x00, 0x00, 0x24, 0x00, 0x24, 0x24],
    [0xa5, 0xa5, 0xa5, 0xa5, 0x82, 0x83, 0x5b, 0x5c, 0x01, 0x00, 0x3d, 0x5b],
    [0x01, 0x00, 0xbe, 0x16, 0x20, 0x00, 0xf9, 0x5d, 0x01, 0x00, 0x11, 0x5d],
    [0x01, 0x00, 0xc0, 0x16, 0x20, 0x00, 0xeb, 0x62, 0x01, 0x00, 0x0f, 0x62],
    [0x01, 0x00, 0xc1, 0x61, 0x01, 0x00, 0xcb, 0x61, 0x01, 0x00, 0xd5, 0x61],
    [0x01, 0x00, 0xb5, 0x65, 0x01, 0x00, 0xeb, 0x64, 0x01, 0x00, 0x9d, 0x64],
    [0x01, 0x00, 0xa7, 0x64, 0x01, 0x00, 0xb1, 0x64, 0x01, 0x00, 0x5d, 0x68],
    [0x01, 0x00, 0xfd, 0x67, 0x01, 0x00, 0xc5, 0xee, 0xf4, 0x29, 0x7a, 0x78],
    [0xf2, 0x1e, 0x33, 0x40, 0xa2, 0xb7, 0x4d, 0x7c, 0x60, 0x12, 0xef, 0x49],
    [0x7d, 0x52, 0xcc, 0xdb, 0xd8, 0xf6, 0xad, 0xc1, 0x0c, 0xec, 0xe4, 0x79],
    [0xc8, 0xe3, 0x02, 0x26, 0xc0, 0x00, 0xfc, 0x20, 0x00, 0x02, 0x25, 0x67],
    [0x01, 0x00, 0x2f, 0x67, 0x01, 0x00, 0x39, 0x67, 0x01, 0x00, 0x79, 0xdb],
    [0x20, 0x00, 0xdf, 0xd9, 0x20, 0x00, 0x5f, 0xdc, 0x20, 0x00, 0xfb, 0xdb],
    [0x20, 0x00, 0xe7, 0xdd, 0x20, 0x00, 0xef, 0xdd, 0x20, 0x00, 0x01, 0x00],
    [0x00, 0x02, 0x00, 0x00, 0x00, 0x00, 0x00, 0x00, 0x00, 0x00, 0x01, 0x00],
    [0x00, 0x02, 0xb6, 0x17, 0x20, 0x00, 0x29, 0x01, 0x00, 0x00, 0x27, 0x18],
    [0x20, 0x00, 0x61, 0x01, 0x00, 0x00, 0xeb, 0x17, 0x20, 0x00, 0x33, 0x01],
    [0x00, 0x00, 0x05, 0x18, 0x20, 0x00, 0x59, 0x01, 0x00, 0x00, 0x15, 0x18],
    [0x20, 0x00, 0x5a, 0x01, 0x00, 0x00, 0xa9, 0x17, 0x20, 0x00, 0x20, 0x01],
    [0x00, 0x00, 0x00, 0x00, 0x00, 0x00, 0x12, 0x02, 0x00, 0x00, 0x00, 0x00],
    [0x00, 0x00, 0x52, 0x02, 0x00, 0x00, 0x00, 0x00, 0x00, 0x00, 0x4d, 0x04],
    [0x00, 0x00, 0x00, 0x00, 0x00, 0x00, 0x4e, 0x04, 0x00, 0x00, 0x00, 0x00],
    [0x00, 0x00, 0x4f, 0x04, 0x00, 0x00, 0x00, 0x00, 0x00, 0x00, 0x50, 0x04],
    [0x00, 0x00, 0x00, 0x00, 0x00, 0x00, 0x51, 0x04, 0x00, 0x00, 0x00, 0x00],
    [0x00, 0x00, 0x52, 0x04, 0x00, 0x00, 0x00, 0x00, 0x00, 0x00, 0x53, 0x04],
    [0x00, 0x00, 0x00, 0x00, 0x00, 0x00, 0x54, 0x04, 0x00, 0x00, 0x00, 0x00],
    [0x00, 0x00, 0x55, 0x04, 0x00, 0x00, 0x00, 0x00, 0x00, 0x00, 0x56, 0x04],
    [0x00, 0x00, 0x00, 0x00, 0x00, 0x00, 0x57, 0x04, 0x00, 0x00, 0x00, 0x00],
    [0x00, 0x00, 0x58, 0x04, 0x00, 0x00, 0x00, 0x00, 0x00, 0x00, 0x59, 0x04],
    [0x00, 0x00, 0x00, 0x00, 0x00, 0x00, 0x5a, 0x04, 0x00, 0x00, 0x00, 0x00],
    [0x00, 0x00, 0x5b, 0x04, 0x00, 0x00, 0x00, 0x00, 0x00, 0x00, 0x5c, 0x04],
    [0x00, 0x00, 0x00, 0x00, 0x00, 0x00, 0xef, 0x02, 0x00, 0x00, 0x00, 0x00],
    [0x00, 0x00, 0xf0, 0x02, 0x00, 0x00, 0xc4, 0x10, 0x02, 0x00, 0x69, 0x17],
    [0x01, 0x01, 0x6a, 0x17, 0x01, 0x02, 0xca, 0x10, 0x01, 0x03, 0x6b, 0x17],
    [0x01, 0x04, 0xc6, 0x10, 0x01, 0x05, 0xbe, 0x15, 0x01, 0x08, 0x6c, 0x17],
    [0x02, 0x09, 0xc7, 0x10, 0x01, 0x0a, 0xa1, 0x15, 0x01, 0x0b, 0xc4, 0x15],
    [0x01, 0x0c, 0x6e, 0x17, 0x01, 0x0e, 0xfb, 0x10, 0x01, 0x10, 0xfc, 0x10],
    [0x04, 0x11, 0x80, 0x1f, 0x20, 0x0f, 0xa0, 0x1f, 0x20, 0x14, 0xc9, 0x10],
    [0x01, 0x12, 0x7c, 0x17, 0x01, 0x60, 0x70, 0x17, 0x01, 0x40, 0x72, 0x17],
    [0x01, 0x41, 0x73, 0x17, 0x01, 0x42, 0x71, 0x17, 0x01, 0x43, 0x7d, 0x17],
    [0x01, 0x61, 0x7e, 0x17, 0x01, 0x62, 0x74, 0x17, 0x01, 0x44, 0x75, 0x17],
    [0x01, 0x45, 0x6c, 0x15, 0x02, 0x46, 0xdc, 0x14, 0x02, 0x47, 0x0c, 0x15],
    [0x02, 0x48, 0x24, 0x15, 0x02, 0x49, 0x3c, 0x15, 0x02, 0x4a, 0x77, 0x17],
    [0x02, 0x4c, 0x7a, 0x18, 0x06, 0x4d, 0x80, 0x18, 0x06, 0x4e, 0x86, 0x18],
    [0x06, 0x4f, 0x8c, 0x18, 0x06, 0x50, 0x92, 0x18, 0x06, 0x51, 0x98, 0x18],
    [0x06, 0x52, 0x9e, 0x18, 0x06, 0x53, 0xa4, 0x18, 0x06, 0x54, 0xaa, 0x18],
    [0x06, 0x55, 0xb0, 0x18, 0x06, 0x56, 0xb6, 0x18, 0x06, 0x57, 0xbc, 0x18],
    [0x06, 0x58, 0xc2, 0x18, 0x06, 0x59, 0xc8, 0x18, 0x06, 0x5a, 0xce, 0x18],
    [0x06, 0x5b, 0xd4, 0x18, 0x06, 0x5c, 0x84, 0x17, 0x01, 0x5d, 0x82, 0x17],
    [0x01, 0x90, 0x83, 0x17, 0x01, 0x83, 0x79, 0x17, 0x02, 0x80, 0x7b, 0x17],
    [0x01, 0x81, 0xf3, 0x18, 0x01, 0x5e, 0x67, 0x17, 0x01, 0x5f, 0x3c, 0x14],
    [0x01, 0xc0, 0x3d, 0x14, 0x01, 0xc1, 0x3e, 0x14, 0x01, 0xc2, 0x3f, 0x14],
    [0x01, 0xc3, 0x42, 0x14, 0x01, 0xc5, 0x45, 0x14, 0x01, 0xc8, 0x46, 0x14],
    [0x01, 0xc9, 0x47, 0x14, 0x02, 0xca, 0x91, 0x1e, 0xed, 0xf8, 0x61, 0x88],
    [0xb0, 0xa4, 0xa6, 0x91, 0x2c, 0x2a, 0x34, 0x7b, 0xd3, 0x57, 0x5e, 0x73],
    [0x3f, 0x5f, 0x5c, 0x36, 0x9f, 0x89, 0x99, 0x2b, 0xc9, 0x9a, 0xcb, 0xe0],
    [0x82, 0x41, 0x02, 0x06, 0xc0, 0x00, 0xfe, 0x20, 0x00, 0x02, 0x49, 0x14],
    [0x01, 0xcb, 0x4b, 0x14, 0x01, 0xcd, 0x4c, 0x14, 0x01, 0xce, 0x53, 0x14],
    [0x01, 0xec, 0x55, 0x14, 0x01, 0xd5, 0x56, 0x14, 0x01, 0xd6, 0x57, 0x14],
    [0x01, 0xd7, 0x5b, 0x14, 0x01, 0xda, 0x5e, 0x14, 0x01, 0xdd, 0x5f, 0x14],
    [0x01, 0xde, 0x60, 0x14, 0x02, 0xdf, 0x62, 0x14, 0x01, 0xe0, 0x64, 0x14],
    [0x01, 0xe2, 0x65, 0x14, 0x01, 0xe3, 0x66, 0x14, 0x01, 0xe4, 0x6c, 0x14],
    [0x01, 0xed, 0x5f, 0x16, 0x08, 0xea, 0xdb, 0x16, 0x08, 0xeb, 0x76, 0x16],
    [0x44, 0xef, 0xf2, 0x16, 0x44, 0xf0, 0xd9, 0x19, 0x01, 0xf1, 0x65, 0x17],
    [0x02, 0x82, 0xbd, 0x15, 0x01, 0x13, 0xa1, 0x17, 0x02, 0x00, 0xa3, 0x17],
    [0x01, 0x01, 0xa4, 0x17, 0x01, 0x08, 0xa5, 0x17, 0x01, 0x10, 0xa6, 0x17],
    [0x01, 0x11, 0xa7, 0x17, 0x01, 0x12, 0xa8, 0x17, 0x01, 0x18, 0xa9, 0x17]]"

definition fw_rows_19 :: "u8 list list" where
  "fw_rows_19 = [
    [0x01, 0xfe, 0xaa, 0x17, 0x0a, 0x20, 0xb4, 0x17, 0x01, 0x21, 0xb5, 0x17],
    [0x01, 0x28, 0xb6, 0x17, 0x01, 0xfe, 0xb7, 0x17, 0x30, 0x29, 0xe7, 0x17],
    [0x01, 0x2a, 0xe8, 0x17, 0x01, 0x30, 0xe9, 0x17, 0x01, 0x31, 0xea, 0x17],
    [0x01, 0x32, 0xeb, 0x17, 0x01, 0xfe, 0xec, 0x17, 0x0a, 0x33, 0xf6, 0x17],
    [0x01, 0x38, 0xf7, 0x17, 0x04, 0x39, 0xfb, 0x17, 0x04, 0x3a, 0xff, 0x17],
    [0x01, 0x3b, 0x00, 0x18, 0x01, 0x3c, 0x01, 0x18, 0x01, 0x50, 0x02, 0x18],
    [0x01, 0x52, 0x03, 0x18, 0x01, 0x54, 0x04, 0x18, 0x01, 0x58, 0x05, 0x18],
    [0x01, 0xfe, 0x06, 0x18, 0x0f, 0x59, 0x15, 0x18, 0x01, 0xfe, 0x16, 0x18],
    [0x0f, 0x5a, 0x25, 0x18, 0x01, 0x5b, 0x26, 0x18, 0x01, 0x60, 0x27, 0x18],
    [0x01, 0xfe, 0x28, 0x18, 0x2f, 0x61, 0x57, 0x18, 0x01, 0x62, 0x58, 0x18],
    [0x01, 0x80, 0x59, 0x18, 0x01, 0x81, 0x5a, 0x18, 0x01, 0x82, 0x5b, 0x18],
    [0x01, 0x22, 0x76, 0x17, 0x01, 0x19, 0x5c, 0xfe, 0x20, 0x00, 0x04, 0xfd],
    [0x20, 0x00, 0x34, 0xfc, 0x20, 0x00, 0x74, 0xfc, 0x20, 0x00, 0x35, 0xfa],
    [0x20, 0x00, 0x2a, 0x56, 0x08, 0x12, 0x00, 0x26, 0x1e, 0x04, 0x02, 0x01],
    [0x01, 0x01, 0x14, 0x12, 0x01, 0x00, 0x80, 0x81, 0x82, 0x00, 0x01, 0x80],
    [0x81, 0x82, 0x00, 0x01, 0xb1, 0xb0, 0xb2, 0x01, 0x02, 0x03, 0x80, 0x81],
    [0x82, 0x01, 0x02, 0x03, 0x01, 0x00, 0x03, 0x04, 0x00, 0x01, 0x02, 0x03],
    [0x07, 0x80, 0x07, 0x87, 0x00, 0x01, 0x02, 0x06, 0x00, 0x01, 0x00, 0x00],
    [0x77, 0x87, 0x00, 0x02, 0x04, 0x03, 0x06, 0x04, 0x04, 0x05, 0x01, 0x8a],
    [0x00, 0x00, 0x01, 0x01, 0x01, 0x01, 0x02, 0x02, 0x03, 0x01, 0x01, 0x00],
    [0x77, 0x03, 0x00, 0x01, 0x02, 0x06, 0x05, 0x80, 0x81, 0x82, 0x83, 0x85],
    [0x00, 0x01, 0x02, 0x03, 0x04, 0x05, 0x06, 0x07, 0x80, 0x8a, 0x03, 0x01],
    [0x01, 0x01, 0x03, 0x03, 0x01, 0x03, 0x01, 0x01, 0x07, 0x09, 0x09, 0x01],
    [0x33, 0x05, 0x01, 0x05, 0x08, 0x01, 0x06, 0x08, 0x02, 0x08, 0x00, 0x08],
    [0x10, 0x18, 0x01, 0x00, 0x03, 0x00, 0x03, 0x00, 0x03, 0x00, 0x3d, 0x0f],
    [0x03, 0xfb, 0x39, 0x2c, 0x03, 0x00, 0x39, 0x00, 0x03, 0x00, 0x39, 0x3c],
    [0x03, 0x00, 0x39, 0xec, 0x03, 0x04, 0x39, 0xac, 0x03, 0x00, 0x39, 0x2c],
    [0x03, 0x00, 0x28, 0x41, 0xba, 0xeb, 0x08, 0x00, 0x00, 0x00, 0x0c, 0x08],
    [0x0f, 0x1b, 0x00, 0x00, 0x00, 0x00, 0x00, 0x00, 0x00, 0x00, 0x00, 0x00],
    [0x00, 0x00, 0x00, 0x00, 0x00, 0x00, 0x00, 0x00, 0x00, 0x00, 0x00, 0x00],
    [0x00, 0x00, 0x00, 0x00, 0x00, 0x00, 0x00, 0x00, 0x00, 0x00, 0x00, 0x00],
    [0x00, 0x00, 0x00, 0x00, 0x00, 0x00, 0x00, 0x00, 0x00, 0x00, 0x00, 0x00],
    [0x00, 0x00, 0x07, 0x6a, 0x00, 0x00]]"

end
