(* ===== verification/Pn547_Firmware.thy ===== *)
theory Pn547_Firmware
  imports Pn547_Rows_A Pn547_Rows_B
begin

text \<open>
  \<open>nfc/pn547/src/libpn547_fw.c\<close>: the firmware image the PN547 NFC controller is loaded with.
  The file exports three objects and no code: the byte sequence, a pointer to it, and its size
  as two bytes.  The theorem states what a loader must be able to rely on: the exported size is the
  size of the sequence.
\<close>

subsection \<open>The exported objects\<close>

definition fw_rows :: "u8 list list" where
  "fw_rows = fw_rows_00 @ fw_rows_01 @ fw_rows_02 @ fw_rows_03 @ fw_rows_04 @
     fw_rows_05 @ fw_rows_06 @ fw_rows_07 @ fw_rows_08 @ fw_rows_09 @
     fw_rows_10 @ fw_rows_11 @ fw_rows_12 @ fw_rows_13 @ fw_rows_14 @
     fw_rows_15 @ fw_rows_16 @ fw_rows_17 @ fw_rows_18 @ fw_rows_19"

definition gphDnldNfc_DlSequence :: "u8 list" where
  "gphDnldNfc_DlSequence = concat fw_rows"

definition gphDnldNfc_DlSeq :: "u8 list" where
  "gphDnldNfc_DlSeq = gphDnldNfc_DlSequence"

definition gphDnldNfc_DlSeqSz :: "u8 list" where
  "gphDnldNfc_DlSeqSz = [0x1e, 0x87]"

subsection \<open>The size of the image\<close>

lemma bytes_00: "sum_list (map length fw_rows_00) = 1800"
  by (simp add: fw_rows_00_def)

lemma bytes_01: "sum_list (map length fw_rows_01) = 1800"
  by (simp add: fw_rows_01_def)

lemma bytes_02: "sum_list (map length fw_rows_02) = 1800"
  by (simp add: fw_rows_02_def)

lemma bytes_03: "sum_list (map length fw_rows_03) = 1800"
  by (simp add: fw_rows_03_def)

lemma bytes_04: "sum_list (map length fw_rows_04) = 1800"
  by (simp add: fw_rows_04_def)

lemma bytes_05: "sum_list (map length fw_rows_05) = 1800"
  by (simp add: fw_rows_05_def)

lemma bytes_06: "sum_list (map length fw_rows_06) = 1800"
  by (simp add: fw_rows_06_def)

lemma bytes_07: "sum_list (map length fw_rows_07) = 1800"
  by (simp add: fw_rows_07_def)

lemma bytes_08: "sum_list (map length fw_rows_08) = 1800"
  by (simp add: fw_rows_08_def)

lemma bytes_09: "sum_list (map length fw_rows_09) = 1800"
  by (simp add: fw_rows_09_def)

lemma bytes_10: "sum_list (map length fw_rows_10) = 1800"
  by (simp add: fw_rows_10_def)

lemma bytes_11: "sum_list (map length fw_rows_11) = 1800"
  by (simp add: fw_rows_11_def)

lemma bytes_12: "sum_list (map length fw_rows_12) = 1800"
  by (simp add: fw_rows_12_def)

lemma bytes_13: "sum_list (map length fw_rows_13) = 1800"
  by (simp add: fw_rows_13_def)

lemma bytes_14: "sum_list (map length fw_rows_14) = 1800"
  by (simp add: fw_rows_14_def)

lemma bytes_15: "sum_list (map length fw_rows_15) = 1800"
  by (simp add: fw_rows_15_def)

lemma bytes_16: "sum_list (map length fw_rows_16) = 1800"
  by (simp add: fw_rows_16_def)

lemma bytes_17: "sum_list (map length fw_rows_17) = 1800"
  by (simp add: fw_rows_17_def)

lemma bytes_18: "sum_list (map length fw_rows_18) = 1800"
  by (simp add: fw_rows_18_def)

lemma bytes_19: "sum_list (map length fw_rows_19) = 390"
  by (simp add: fw_rows_19_def)

lemmas bytes_of_rows =
  bytes_00 bytes_01 bytes_02 bytes_03 bytes_04 bytes_05 bytes_06 bytes_07 bytes_08 bytes_09
  bytes_10 bytes_11 bytes_12 bytes_13 bytes_14 bytes_15 bytes_16 bytes_17 bytes_18 bytes_19

text \<open>The size the library exports is the size of the image it exports: the two bytes of
  \<open>gphDnldNfc_DlSeqSz\<close>, read in little-endian order, are the number of bytes of
  \<open>gphDnldNfc_DlSequence\<close>, so a loader that copies that many bytes through \<open>gphDnldNfc_DlSeq\<close>
  copies the whole image and nothing after it.\<close>

lemma firmware_size_exact:
  "length gphDnldNfc_DlSeq = unat (gphDnldNfc_DlSeqSz ! 0) + 256 * unat (gphDnldNfc_DlSeqSz ! 1)"
  by (simp add: gphDnldNfc_DlSeq_def gphDnldNfc_DlSequence_def gphDnldNfc_DlSeqSz_def fw_rows_def length_concat
      bytes_of_rows)

end
