(* ===== verification/Fp_State.thy ===== *)
theory Fp_State
  imports Sha1
begin

text \<open>
  The state of the fingerprint HAL (\<open>fingerprint/fingerprint_common.h\<close>, the device structure
  of \<open>fingerprint/fingerprint.c\<close>) and the boundary to what it calls.

  One \<open>world\<close> holds the globals \<open>tz\<close>, \<open>sensor\<close>, \<open>sha\<close>, the device object, the shared buffer
  of the trusted application, the QSEECom library handle, the mutexes the modelled thread
  holds, and the list of the external calls that thread made, latest first.  Everything outside
  \<open>src/\<close> (kernel driver, trusted application, SQLite, libc calls, other threads) answers
  through an \<open>env\<close>, whose components are arbitrary functions of that list: every run of the
  real environment is the run of some \<open>env\<close>, and a theorem for all \<open>env\<close> covers them all.

  Other threads run between the locked sections of the modelled one: at every
  \<open>pthread_mutex_lock\<close>, \<open>pthread_cond_wait\<close> and \<open>usleep\<close> the environment chooses a list of
  \<open>event\<close>s, each the effect of a locked section of another thread on the variables the threads
  share.  An event that needs a mutex the modelled thread holds has no effect.
\<close>

subsection \<open>Constants\<close>

definition SB_LENGTH :: nat where "SB_LENGTH = 0x100000"
definition BUFFER_LENGTH :: nat where "BUFFER_LENGTH = 0x19000"
definition AUTH_TOKEN_LENGTH :: nat where "AUTH_TOKEN_LENGTH = 0x70"
definition AUTH_SESSION_TOKEN_LENGTH :: nat where "AUTH_SESSION_TOKEN_LENGTH = 0x20"
definition CALIBRATE_DATA_MAX_LENGTH :: nat where "CALIBRATE_DATA_MAX_LENGTH = 0x500c"
definition FINGER_DATA_MAX_LENGTH :: nat where "FINGER_DATA_MAX_LENGTH = 0x2900"
definition PAYLOAD_MAX_LENGTH :: nat where "PAYLOAD_MAX_LENGTH = 0x24"
definition MAX_NUM_FINGERS :: nat where "MAX_NUM_FINGERS = 5"

lemmas fp_constants = SB_LENGTH_def BUFFER_LENGTH_def AUTH_TOKEN_LENGTH_def
  AUTH_SESSION_TOKEN_LENGTH_def CALIBRATE_DATA_MAX_LENGTH_def FINGER_DATA_MAX_LENGTH_def
  PAYLOAD_MAX_LENGTH_def MAX_NUM_FINGERS_def

subsection \<open>The structures of \<open>fingerprint_common.h\<close>\<close>

datatype worker_state_t = STATE_IDLE | STATE_ENROLL | STATE_SCAN | STATE_CANCEL

text \<open>Condition variables carry no data; the mutexes are the type \<open>mutex\<close> below.  A thread id is
  only ever compared with 0.\<close>

record vcs_sensor_t =
  sn_fd :: int
  sn_init :: bool
  sn_signal :: bool

record finger_t =
  exist :: bool
  fdata :: bytes
  payload :: bytes

record timeout_t =
  timeout_sec :: u32
  timeout_thread :: bool

record trust_zone_t =
  tz_init :: bool
  tz_state :: worker_state_t
  qhandle :: bool \<comment> \<open>the handle points to a live application and its buffer\<close>
  auth_session_opend :: bool
  auth_token :: bytes
  auth_session_token :: bytes
  calibrate_len :: int
  calibrate_data :: bytes
  finger :: "nat \<Rightarrow> finger_t"
  tz_timeout :: timeout_t
  auth_thread :: bool
  enroll_thread :: bool

definition zero_finger :: finger_t where
  "zero_finger = \<lparr>exist = False, fdata = (\<lambda>_. 0), payload = (\<lambda>_. 0)\<rparr>"

definition zero_tz :: trust_zone_t where
  "zero_tz = \<lparr>tz_init = False, tz_state = STATE_IDLE, qhandle = False, auth_session_opend = False,
     auth_token = (\<lambda>_. 0), auth_session_token = (\<lambda>_. 0), calibrate_len = 0,
     calibrate_data = (\<lambda>_. 0), finger = (\<lambda>_. zero_finger),
     tz_timeout = \<lparr>timeout_sec = 0, timeout_thread = False\<rparr>, auth_thread = False, enroll_thread = False\<rparr>"

definition zero_sensor :: vcs_sensor_t where
  "zero_sensor = \<lparr>sn_fd = 0, sn_init = False, sn_signal = False\<rparr>"

subsection \<open>The device object of \<open>fingerprint.c\<close>\<close>

record vcs_fingerprint_device_t =
  notify_set :: bool \<comment> \<open>\<open>device.notify\<close> is not NULL\<close>
  op_id :: u64
  challenge :: u64
  user_id :: u64
  group_id :: u64
  secure_user_id :: u64
  authenticator_id :: u64
  active_gid :: u32

definition zero_device :: vcs_fingerprint_device_t where
  "zero_device = \<lparr>notify_set = False, op_id = 0, challenge = 0, user_id = 0, group_id = 0,
     secure_user_id = 0, authenticator_id = 0, active_gid = 0\<rparr>"

subsection \<open>Calls that leave the program\<close>

datatype ioctl_req =
    VFSSPI_IOCTL_DEVICE_RESET
  | VFSSPI_IOCTL_SET_CLK nat
  | VFSSPI_IOCTL_REGISTER_DRDY_SIGNAL
  | VFSSPI_IOCTL_SET_DRDY_INT nat
  | VFSSPI_IOCTL_DEVICE_SUSPEND
  | VFSSPI_IOCTL_POWER_ON
  | VFSSPI_IOCTL_POWER_OFF
  | VFSSPI_IOCTL_DISABLE_SPI_CLOCK
  | VFSSPI_IOCTL_SET_SPI_CONFIGURATION
  | VFSSPI_IOCTL_RESET_SPI_CONFIGURATION
  | VFSSPI_IOCTL_GET_SENSOR_ORIENT

datatype mutex = Dev_lock | Sensor_lock | Tz_lock | Timeout_lock

datatype acquired_info = FINGERPRINT_ACQUIRED_GOOD | FINGERPRINT_ACQUIRED_INSUFFICIENT

record hw_auth_token =
  hat_version :: u32
  hat_challenge :: u64
  hat_user_id :: u64
  hat_authenticator_id :: u64
  hat_authenticator_type :: u32
  hat_timestamp :: u64

datatype fingerprint_msg =
    Msg_error int
  | Msg_acquired acquired_info
  | Msg_enrolling int int
  | Msg_removed int
  | Msg_authenticated int hw_auth_token

datatype worker = Worker_authenticate | Worker_enroll | Worker_timeout

text \<open>A blob of a database column: its size and its bytes.\<close>

type_synonym blob = "nat \<times> bytes"

datatype ext_call =
    Ioctl ioctl_req
  | Sigaction
  | Qsee_malloc
  | Qsee_dlopen
  | Qsee_dlsym string
  | Qsee_dlclose
  | Qsee_start_app
  | Qsee_shutdown_app
  | Qsee_set_bandwidth bool
  | Qsee_send_cmd bytes nat nat nat \<comment> \<open>the buffer, \<open>sbuf_len\<close>, offset of \<open>rcv_buf\<close>, \<open>rbuf_len\<close>\<close>
  | Qsee_send_modified_cmd bytes nat nat nat
  | Sql_open string
  | Sql_close
  | Sql_exec string
  | Sql_select string
  | Sql_insert string blob blob
  | File_access string
  | File_remove string
  | File_read string
  | File_open string
  | File_close
  | Calloc
  | Clock_time
  | Clock_monotonic
  | Thread_create worker
  | Thread_join worker
  | Cond_signal mutex
  | Cond_wait mutex
  | Cond_timedwait mutex u32 u32 \<comment> \<open>absolute time, seconds and nanoseconds\<close>
  | Mutex_lock mutex
  | Mutex_init mutex
  | Mutex_destroy mutex
  | Free_device
  | Usleep nat
  | Notify fingerprint_msg

subsection \<open>The world and its environment\<close>

datatype km_ptr = Km_null | Km_freed | Km_loaded

record world =
  tz :: trust_zone_t
  sensor :: vcs_sensor_t
  vdev :: vcs_fingerprint_device_t
  ibuf :: bytes
  km_init :: bool
  km_handle :: km_ptr
  held :: "mutex \<Rightarrow> bool"
  sha :: SHA1Context
  trace :: "ext_call list"

datatype event = Ev_set_state worker_state_t | Ev_drdy

record db_row =
  row_id :: int
  row_data :: blob
  row_payload :: blob

record env =
  ret :: "ext_call list \<Rightarrow> int"
  found :: "ext_call list \<Rightarrow> bool"
  response :: "ext_call list \<Rightarrow> bytes"
  rows :: "ext_call list \<Rightarrow> db_row list"
  contents :: "ext_call list \<Rightarrow> u8 list option"
  seconds :: "ext_call list \<Rightarrow> u32"
  nanoseconds :: "ext_call list \<Rightarrow> u32"
  microseconds :: "ext_call list \<Rightarrow> u32"
  others :: "ext_call list \<Rightarrow> event list"
  hw_auth_token_version :: u32
  hw_auth_fingerprint :: u32

subsection \<open>Updates\<close>

definition upd_tz :: "(trust_zone_t \<Rightarrow> trust_zone_t) \<Rightarrow> world \<Rightarrow> world" where
  "upd_tz f w = w\<lparr>tz := f (tz w)\<rparr>"

definition upd_sensor :: "(vcs_sensor_t \<Rightarrow> vcs_sensor_t) \<Rightarrow> world \<Rightarrow> world" where
  "upd_sensor f w = w\<lparr>sensor := f (sensor w)\<rparr>"

definition upd_dev :: "(vcs_fingerprint_device_t \<Rightarrow> vcs_fingerprint_device_t) \<Rightarrow> world \<Rightarrow> world" where
  "upd_dev f w = w\<lparr>vdev := f (vdev w)\<rparr>"

definition upd_buf :: "(bytes \<Rightarrow> bytes) \<Rightarrow> world \<Rightarrow> world" where
  "upd_buf f w = w\<lparr>ibuf := f (ibuf w)\<rparr>"

definition set_finger :: "nat \<Rightarrow> finger_t \<Rightarrow> world \<Rightarrow> world" where
  "set_finger i f = upd_tz (\<lambda>t. t\<lparr>finger := (finger t)(i := f)\<rparr>)"

lemmas upd_defs = upd_tz_def upd_sensor_def upd_dev_def upd_buf_def set_finger_def

subsection \<open>External calls and other threads\<close>

definition log_call :: "ext_call \<Rightarrow> world \<Rightarrow> world" where
  "log_call c w = w\<lparr>trace := c # trace w\<rparr>"

definition call_ret :: "env \<Rightarrow> ext_call \<Rightarrow> world \<Rightarrow> int \<times> world" where
  "call_ret E c w = (let w = log_call c w in (ret E (trace w), w))"

fun apply_event :: "world \<Rightarrow> event \<Rightarrow> world" where
  "apply_event w (Ev_set_state s) =
     (if held w Tz_lock then w else upd_tz (\<lambda>t. t\<lparr>tz_state := s\<rparr>) w)"
| "apply_event w Ev_drdy =
     (if held w Tz_lock \<or> held w Sensor_lock \<or> held w Timeout_lock then w
      else upd_sensor (\<lambda>s. s\<lparr>sn_signal := (sn_signal s \<or>
              tz_state (tz w) \<noteq> STATE_IDLE \<and> tz_state (tz w) \<noteq> STATE_CANCEL)\<rparr>)
           (upd_tz (\<lambda>t. t\<lparr>tz_timeout := (tz_timeout t)\<lparr>timeout_thread := False\<rparr>\<rparr>) w))"

definition interfere :: "env \<Rightarrow> world \<Rightarrow> world" where
  "interfere E w = foldl apply_event w (others E (trace w))"

text \<open>A default POSIX mutex: the owner that locks it again never returns; unlocking a mutex
  one does not hold is undefined.\<close>

definition lock :: "env \<Rightarrow> mutex \<Rightarrow> world \<Rightarrow> world option" where
  "lock E m w =
    (if held w m then None
     else let w = interfere E (log_call (Mutex_lock m) w)
          in Some (w\<lparr>held := (held w)(m := True)\<rparr>))"

definition unlock :: "mutex \<Rightarrow> world \<Rightarrow> world option" where
  "unlock m w = (if held w m then Some (w\<lparr>held := (held w)(m := False)\<rparr>) else None)"

text \<open>\<open>pthread_cond_wait\<close> gives the mutex up while it waits.  It may wake for no reason, so each
  wake-up is one step of the caller's loop.\<close>

definition cond_wait :: "env \<Rightarrow> mutex \<Rightarrow> world \<Rightarrow> world option" where
  "cond_wait E m w =
    (if \<not> held w m then None
     else let w = w\<lparr>held := (held w)(m := False)\<rparr>;
              w = interfere E (log_call (Cond_wait m) w)
          in Some (w\<lparr>held := (held w)(m := True)\<rparr>))"

definition usleep :: "env \<Rightarrow> nat \<Rightarrow> world \<Rightarrow> world" where
  "usleep E us w = interfere E (log_call (Usleep us) w)"

end
