(* ===== verification/Qseecom.thy ===== *)
theory Qseecom
  imports Fp_State
begin

text \<open>
  \<open>fingerprint/QSEEComAPI.c\<close>: the wrapper that loads \<open>libQSEEComAPI.so\<close> on first use and
  forwards each call through function pointers.  The library itself is outside the repository:
  its results come from the environment.  What the code relies on is the documentation in
  \<open>QSEEComAPI.h\<close>: a call returns zero on success, \<open>QSEECom_start_app\<close> then has set the
  handle and allocated the shared buffer (with some contents), \<open>QSEECom_shutdown_app\<close> has
  released both, and \<open>QSEECom_send_cmd\<close> writes the response only into the receive buffer.
\<close>

definition qsee_symbols :: "string list" where
  "qsee_symbols = [''QSEECom_start_app'', ''QSEECom_shutdown_app'', ''QSEECom_send_cmd'',
     ''QSEECom_send_modified_cmd'', ''QSEECom_set_bandwidth'']"

fun load_symbols :: "env \<Rightarrow> string list \<Rightarrow> world \<Rightarrow> int \<times> world" where
  "load_symbols E [] w = (0, w)"
| "load_symbols E (s # ss) w =
    (let w = log_call (Qsee_dlsym s) w
     in if \<not> found E (trace w) then (-1, log_call Qsee_dlclose w) else load_symbols E ss w)"

definition qcom_km_get_lib_sym :: "env \<Rightarrow> world \<Rightarrow> int \<times> world" where
  "qcom_km_get_lib_sym E w =
    (let w = log_call Qsee_dlopen w
     in if found E (trace w) then load_symbols E qsee_symbols w else (-1, w))"

definition init_qsee :: "env \<Rightarrow> world \<Rightarrow> int \<times> world" where
  "init_qsee E w =
    (if km_init w then (0, w)
     else let w = log_call Qsee_malloc w
          in if \<not> found E (trace w) then (-1, w\<lparr>km_handle := Km_null\<rparr>)
             else let (r, w) = qcom_km_get_lib_sym E (w\<lparr>km_handle := Km_loaded\<rparr>)
                  in if r \<noteq> 0 then (-1, w\<lparr>km_handle := Km_freed\<rparr>)
                     else (0, w\<lparr>km_init := True\<rparr>))"

text \<open>Every entry point ignores the result of \<open>init_qsee\<close> and dereferences \<open>km_handle\<close>.\<close>

definition deref_km_handle :: "world \<Rightarrow> unit option" where
  "deref_km_handle w = (if km_handle w = Km_loaded then Some () else None)"

definition QSEECom_start_app :: "env \<Rightarrow> world \<Rightarrow> (int \<times> world) option" where
  "QSEECom_start_app E w = do {
     let w = snd (init_qsee E w);
     _ \<leftarrow> deref_km_handle w;
     let (r, w) = call_ret E Qsee_start_app w;
     Some (r, if r = 0 then upd_tz (\<lambda>t. t\<lparr>qhandle := True\<rparr>) (w\<lparr>ibuf := response E (trace w)\<rparr>) else w) }"

definition QSEECom_shutdown_app :: "env \<Rightarrow> world \<Rightarrow> (int \<times> world) option" where
  "QSEECom_shutdown_app E w = do {
     let w = snd (init_qsee E w);
     _ \<leftarrow> deref_km_handle w;
     let (r, w) = call_ret E Qsee_shutdown_app w;
     Some (r, if r = 0 then upd_tz (\<lambda>t. t\<lparr>qhandle := False\<rparr>) w else w) }"

text \<open>The send buffer is the start of the shared buffer; the receive buffer lies at an offset.\<close>

definition QSEECom_send_cmd :: "env \<Rightarrow> nat \<Rightarrow> nat \<Rightarrow> nat \<Rightarrow> world \<Rightarrow> (int \<times> world) option" where
  "QSEECom_send_cmd E sbuf_len rcv_off rbuf_len w = do {
     let w = snd (init_qsee E w);
     _ \<leftarrow> deref_km_handle w;
     let (r, w) = call_ret E (Qsee_send_cmd (ibuf w) sbuf_len rcv_off rbuf_len) w;
     Some (r, upd_buf (\<lambda>b. memcpy b rcv_off (response E (trace w)) 0 rbuf_len) w) }"

text \<open>No caller in the repository uses this entry point.\<close>

definition QSEECom_send_modified_cmd :: "env \<Rightarrow> nat \<Rightarrow> nat \<Rightarrow> nat \<Rightarrow> world \<Rightarrow> (int \<times> world) option" where
  "QSEECom_send_modified_cmd E sbuf_len rcv_off rbuf_len w = do {
     let w = snd (init_qsee E w);
     _ \<leftarrow> deref_km_handle w;
     let (r, w) = call_ret E (Qsee_send_modified_cmd (ibuf w) sbuf_len rcv_off rbuf_len) w;
     Some (r, upd_buf (\<lambda>b. memcpy b rcv_off (response E (trace w)) 0 rbuf_len) w) }"

definition QSEECom_set_bandwidth :: "env \<Rightarrow> bool \<Rightarrow> world \<Rightarrow> (int \<times> world) option" where
  "QSEECom_set_bandwidth E high w = do {
     let w = snd (init_qsee E w);
     _ \<leftarrow> deref_km_handle w;
     Some (call_ret E (Qsee_set_bandwidth high) w) }"

subsection \<open>The wrapper's own state\<close>

text \<open>Once the flag \<open>init\<close> is set, the pointer is usable and stays so.\<close>

definition km_ok :: "world \<Rightarrow> bool" where
  "km_ok w \<longleftrightarrow> (km_init w \<longrightarrow> km_handle w = Km_loaded)"

lemma init_qsee_done: "km_init w \<Longrightarrow> init_qsee E w = (0, w)"
  by (simp add: init_qsee_def)

text \<open>What a world function leaves alone: the parts of the state that are not the
  library's bookkeeping.\<close>

definition same_app :: "world \<Rightarrow> world \<Rightarrow> bool" where
  "same_app w w' \<longleftrightarrow> tz w' = tz w \<and> sensor w' = sensor w \<and> vdev w' = vdev w \<and> ibuf w' = ibuf w \<and>
     held w' = held w \<and> sha w' = sha w"

lemma same_app_refl [simp]: "same_app w w"
  by (simp add: same_app_def)

lemma same_app_trans: "same_app u v \<Longrightarrow> same_app v w \<Longrightarrow> same_app u w"
  by (simp add: same_app_def)

lemma same_app_log [simp]: "same_app w (log_call c w)"
  by (simp add: same_app_def log_call_def)

lemma load_symbols_same: "same_app w (snd (load_symbols E ss w)) \<and>
    km_handle (snd (load_symbols E ss w)) = km_handle w \<and> km_init (snd (load_symbols E ss w)) = km_init w"
  by (induction ss arbitrary: w) (auto simp: Let_def same_app_def log_call_def)

lemma init_qsee_same: "same_app w (snd (init_qsee E w))"
  using load_symbols_same [of "log_call Qsee_dlopen (log_call Qsee_malloc w\<lparr>km_handle := Km_loaded\<rparr>)" E qsee_symbols]
  by (auto simp: init_qsee_def qcom_km_get_lib_sym_def Let_def same_app_def log_call_def split: prod.splits)

lemma init_qsee_cases:
  assumes "km_ok w"
  shows "fst (init_qsee E w) = 0 \<and> km_init (snd (init_qsee E w)) \<and> km_handle (snd (init_qsee E w)) = Km_loaded \<or>
         fst (init_qsee E w) = -1 \<and> \<not> km_init (snd (init_qsee E w)) \<and> km_handle (snd (init_qsee E w)) \<noteq> Km_loaded"
proof (cases "km_init w")
  case True
  with assms show ?thesis by (simp add: init_qsee_done km_ok_def)
next
  case False
  let ?w = "log_call Qsee_dlopen (log_call Qsee_malloc w\<lparr>km_handle := Km_loaded\<rparr>)"
  have "km_handle (snd (load_symbols E qsee_symbols ?w)) = Km_loaded"
    and "km_init (snd (load_symbols E qsee_symbols ?w)) = False"
    using load_symbols_same [of ?w E qsee_symbols] False by (auto simp: log_call_def)
  with False show ?thesis
    by (auto simp: init_qsee_def qcom_km_get_lib_sym_def Let_def log_call_def split: prod.splits)
qed

end
