(* ===== verification/Tz_Layout.thy ===== *)
theory Tz_Layout
  imports Qseecom
begin

text \<open>
  \<open>fingerprint/fingerprint_tz.h\<close>: the command numbers and the layout of the command and
  response structures inside the shared buffer of the trusted application, for the 32-bit ARM
  target (4-byte \<open>int\<close>, enum and \<open>time_t\<close>, so no structure has padding).  A structure is named
  by its size; its fields by their offsets.
\<close>

subsection \<open>Commands\<close>

datatype trust_zone_cmd_id_t =
    vfmProvision | vfmInitialize | vfmUninitialize | vfmDeviceInitialize | vfmDeviceCalibrate
  | vfmAuthSessionBegin | vfmAuthSessionEnd | vfmCaptureStart | vfmCaptureReadData
  | vfmCaptureProcessData | vfmCaptureAbort | vfmCaptureGetStatus | vfmCaptureFlushImage
  | vfmEnrollBegin | vfmEnrollAddImage | vfmEnrollFinish | vfmEnrollmentPasswordSet
  | vfmEnrollmentPasswordVerify | vfmMatchImageToTemplates | vfmPayloadBind | vfmPayloadRelease
  | vfmVendorDefinedOperation

fun cmd_id :: "trust_zone_cmd_id_t \<Rightarrow> u32" where
  "cmd_id vfmProvision = 0x1"
| "cmd_id vfmInitialize = 0x2"
| "cmd_id vfmUninitialize = 0x3"
| "cmd_id vfmDeviceInitialize = 0x4"
| "cmd_id vfmDeviceCalibrate = 0x5"
| "cmd_id vfmAuthSessionBegin = 0x6"
| "cmd_id vfmAuthSessionEnd = 0x7"
| "cmd_id vfmCaptureStart = 0x8"
| "cmd_id vfmCaptureReadData = 0x9"
| "cmd_id vfmCaptureProcessData = 0xa"
| "cmd_id vfmCaptureAbort = 0xb"
| "cmd_id vfmCaptureGetStatus = 0xc"
| "cmd_id vfmCaptureFlushImage = 0xe"
| "cmd_id vfmEnrollBegin = 0xf"
| "cmd_id vfmEnrollAddImage = 0x10"
| "cmd_id vfmEnrollFinish = 0x11"
| "cmd_id vfmEnrollmentPasswordSet = 0x12"
| "cmd_id vfmEnrollmentPasswordVerify = 0x13"
| "cmd_id vfmMatchImageToTemplates = 0x14"
| "cmd_id vfmPayloadBind = 0x15"
| "cmd_id vfmPayloadRelease = 0x16"
| "cmd_id vfmVendorDefinedOperation = 0x17"

datatype trust_zone_vendor_cmd_id_t =
    vendorUnknown0 | vendorGetVersion | vendorUnknownA | vendorGetAuthToken
  | vendorEnterAuthSession | vendorUpdateCalData

fun vendor_cmd_id :: "trust_zone_vendor_cmd_id_t \<Rightarrow> u32" where
  "vendor_cmd_id vendorUnknown0 = 0x0"
| "vendor_cmd_id vendorGetVersion = 0x1"
| "vendor_cmd_id vendorUnknownA = 0xa"
| "vendor_cmd_id vendorGetAuthToken = 0x14"
| "vendor_cmd_id vendorEnterAuthSession = 0x15"
| "vendor_cmd_id vendorUpdateCalData = 0x17"

subsection \<open>Structures\<close>

definition QSEECOM_ALIGN :: "nat \<Rightarrow> nat" where
  "QSEECOM_ALIGN x = unat ((word_of_nat x + 0x40) AND NOT (0x40 - 1) :: u32)"

text \<open>\<open>int\<close>; \<open>{cmd; len; zero; data[n]}\<close>; \<open>{cmd; vendor_cmd; len; zero; data[n]}\<close>;
  \<open>{cmd; len; zero; unknown[2]; time_now; data[563304]}\<close>; \<open>{zero; result; data[n]}\<close>.\<close>

definition sizeof_int :: nat where "sizeof_int = 4"
definition sizeof_base_cmd :: nat where "sizeof_base_cmd = 12 + (BUFFER_LENGTH - 12)"
definition sizeof_vendor_cmd :: nat where "sizeof_vendor_cmd = 16 + (BUFFER_LENGTH - 16)"
definition sizeof_2x_cmd :: nat where "sizeof_2x_cmd = 12 + (BUFFER_LENGTH * 2 - 12)"
definition sizeof_3x_cmd :: nat where "sizeof_3x_cmd = 12 + (BUFFER_LENGTH * 3 - 12)"
definition sizeof_5x_cmd :: nat where "sizeof_5x_cmd = 24 + 563304"
definition sizeof_normal_result :: nat where "sizeof_normal_result = 8 + 4 * (BUFFER_LENGTH div 4 - 2)"
definition sizeof_2x_result :: nat where "sizeof_2x_result = 8 + 4 * ((BUFFER_LENGTH * 2) div 4 - 2)"

lemmas sizeof_defs = sizeof_int_def sizeof_base_cmd_def sizeof_vendor_cmd_def sizeof_2x_cmd_def
  sizeof_3x_cmd_def sizeof_5x_cmd_def sizeof_normal_result_def sizeof_2x_result_def BUFFER_LENGTH_def

lemma QSEECOM_ALIGN_values [simp]:
  "QSEECOM_ALIGN sizeof_int = 64"
  "QSEECOM_ALIGN sizeof_base_cmd = 102464"
  "QSEECOM_ALIGN sizeof_vendor_cmd = 102464"
  "QSEECOM_ALIGN sizeof_2x_cmd = 204864"
  "QSEECOM_ALIGN sizeof_3x_cmd = 307264"
  "QSEECOM_ALIGN sizeof_5x_cmd = 563392"
  "QSEECOM_ALIGN sizeof_normal_result = 102464"
  "QSEECOM_ALIGN sizeof_2x_result = 204864"
  by (simp_all add: QSEECOM_ALIGN_def sizeof_defs)

definition off_cmd :: nat where "off_cmd = 0"
definition off_len :: nat where "off_len = 4"
definition off_zero :: nat where "off_zero = 8"
definition off_data :: nat where "off_data = 12"

definition off_vendor_cmd :: nat where "off_vendor_cmd = 4"
definition off_vendor_len :: nat where "off_vendor_len = 8"
definition off_vendor_data :: nat where "off_vendor_data = 16"

definition off_5x_unknown :: nat where "off_5x_unknown = 12"
definition off_5x_time_now :: nat where "off_5x_time_now = 20"
definition off_5x_data :: nat where "off_5x_data = 24"

definition off_result :: nat where "off_result = 4"
definition off_result_data :: "nat \<Rightarrow> nat" where "off_result_data i = 8 + 4 * i"

lemmas off_defs = off_cmd_def off_len_def off_zero_def off_data_def off_vendor_cmd_def
  off_vendor_len_def off_vendor_data_def off_5x_unknown_def off_5x_time_now_def off_5x_data_def
  off_result_def off_result_data_def

subsection \<open>Accessing the shared buffer\<close>

definition wr32 :: "nat \<Rightarrow> u32 \<Rightarrow> world \<Rightarrow> world" where
  "wr32 off v = upd_buf (\<lambda>b. put32 b off v)"

definition wr8 :: "nat \<Rightarrow> u8 \<Rightarrow> world \<Rightarrow> world" where
  "wr8 off v = upd_buf (\<lambda>b. b(off := v))"

definition wr_zero :: "nat \<Rightarrow> world \<Rightarrow> world" where
  "wr_zero n = upd_buf (\<lambda>b. memset b 0 0 n)"

definition wr_copy :: "nat \<Rightarrow> bytes \<Rightarrow> nat \<Rightarrow> world \<Rightarrow> world" where
  "wr_copy off src n = upd_buf (\<lambda>b. memcpy b off src 0 n)"

text \<open>\<open>resp->result\<close> and \<open>resp->data[i]\<close> of a response at offset \<open>resp\<close>.\<close>

definition result_of :: "nat \<Rightarrow> world \<Rightarrow> int" where
  "result_of resp w = sint (get32 (ibuf w) (resp + off_result))"

definition data_of :: "nat \<Rightarrow> nat \<Rightarrow> world \<Rightarrow> int" where
  "data_of resp i w = sint (get32 (ibuf w) (resp + off_result_data i))"

text \<open>The bytes from \<open>resp->data[i]\<close> on, as \<open>memcpy\<close> reads them.\<close>

definition data_bytes :: "nat \<Rightarrow> nat \<Rightarrow> world \<Rightarrow> bytes" where
  "data_bytes resp i w = (\<lambda>k. ibuf w (resp + off_result_data i + k))"

text \<open>\<open>handle->ion_sbuffer\<close>.\<close>

definition ion_sbuffer :: "world \<Rightarrow> unit option" where
  "ion_sbuffer w = (if qhandle (tz w) then Some () else None)"

lemmas buf_defs = wr32_def wr8_def wr_zero_def wr_copy_def upd_buf_def

lemma writes_keep [simp]:
  "tz (wr32 o1 x w) = tz w" "tz (wr8 o1 y w) = tz w" "tz (wr_zero n w) = tz w" "tz (wr_copy o1 s n w) = tz w"
  "trace (wr32 o1 x w) = trace w" "trace (wr8 o1 y w) = trace w" "trace (wr_zero n w) = trace w"
  "trace (wr_copy o1 s n w) = trace w"
  "held (wr32 o1 x w) = held w" "held (wr8 o1 y w) = held w" "held (wr_zero n w) = held w"
  "held (wr_copy o1 s n w) = held w"
  "km_init (wr32 o1 x w) = km_init w" "km_init (wr8 o1 y w) = km_init w" "km_init (wr_zero n w) = km_init w"
  "km_init (wr_copy o1 s n w) = km_init w"
  "km_handle (wr32 o1 x w) = km_handle w" "km_handle (wr8 o1 y w) = km_handle w"
  "km_handle (wr_zero n w) = km_handle w" "km_handle (wr_copy o1 s n w) = km_handle w"
  "sensor (wr32 o1 x w) = sensor w" "sensor (wr8 o1 y w) = sensor w" "sensor (wr_zero n w) = sensor w"
  "sensor (wr_copy o1 s n w) = sensor w"
  "vdev (wr32 o1 x w) = vdev w" "vdev (wr8 o1 y w) = vdev w" "vdev (wr_zero n w) = vdev w"
  "vdev (wr_copy o1 s n w) = vdev w"
  by (simp_all add: buf_defs)

subsection \<open>The exchanges the code makes\<close>

text \<open>Every use of the buffer is one of these: bytes sent, offset of the response, bytes the
  response may take.\<close>

definition exchanges :: "(nat \<times> nat \<times> nat) list" where
  "exchanges =
    (let i = QSEECOM_ALIGN sizeof_int; b = QSEECOM_ALIGN sizeof_base_cmd;
         v = QSEECOM_ALIGN sizeof_vendor_cmd; r = QSEECOM_ALIGN sizeof_normal_result
     in [(v, v, r), (i, i, i), (b, b, i), (i, i, r), (i, b, r), (b, b, r), (i, b, i), (v, b, r),
         (QSEECOM_ALIGN sizeof_5x_cmd, QSEECOM_ALIGN sizeof_5x_cmd, QSEECOM_ALIGN sizeof_2x_result),
         (QSEECOM_ALIGN sizeof_2x_cmd, QSEECOM_ALIGN sizeof_2x_cmd, r),
         (QSEECOM_ALIGN sizeof_3x_cmd, QSEECOM_ALIGN sizeof_3x_cmd, r)])"

lemma QSEECOM_ALIGN_eq:
  assumes "x + 0x40 < 2 ^ 32"
  shows "QSEECOM_ALIGN x = (x div 64 + 1) * 64"
proof -
  have m: "NOT (0x40 - 1) = (NOT (mask 6) :: u32)" by (simp add: mask_eq_exp_minus_1)
  have "unat (word_of_nat x + 0x40 :: u32) = x + 0x40"
    using assms by (simp add: unat_word_ariths unat_of_nat)
  moreover have "unat ((y :: u32) AND NOT (mask 6)) = unat y div 64 * 64" for y
  proof -
    have "y AND NOT (mask 6) = push_bit 6 (drop_bit 6 y)"
      by (rule bit_word_eqI) (auto simp: bit_simps)
    also have "\<dots> = y div 64 * 64"
      by (simp add: push_bit_eq_mult drop_bit_eq_div)
    finally have "unat (y AND NOT (mask 6)) = (unat y div 64 * 64) mod 2 ^ 32"
      by (simp add: unat_word_ariths unat_div mod_mult_left_eq)
    moreover have "unat y div 64 * 64 < 2 ^ 32"
      using unsigned_less [of y, where ?'a = nat] by (simp add: div_less_iff_less_mult)
    ultimately show ?thesis by simp
  qed
  moreover have "(x + 0x40) div 64 = x div 64 + 1"
    using div_add_self2 [of 64 x] by simp
  ultimately show ?thesis unfolding QSEECOM_ALIGN_def m by metis
qed

end
