(* ===== verification/Fp_Sensor.thy ===== *)
theory Fp_Sensor
  imports Tz_Layout
begin

text \<open>
  The worker state (\<open>get_tz_state\<close>, \<open>set_tz_state\<close> of \<open>fingerprint_tz.c\<close>) and the sensor
  driver part of \<open>fingerprint.c\<close>.  The results of the \<open>ioctl\<close> calls are ignored by the code
  except in \<open>sensor_capture_start\<close>.
\<close>

subsection \<open>The worker state\<close>

definition get_tz_state :: "env \<Rightarrow> world \<Rightarrow> (worker_state_t \<times> world) option" where
  "get_tz_state E w = do {
     w \<leftarrow> lock E Tz_lock w;
     let state = tz_state (tz w);
     w \<leftarrow> unlock Tz_lock w;
     Some (state, w) }"

definition set_tz_state :: "env \<Rightarrow> worker_state_t \<Rightarrow> world \<Rightarrow> world option" where
  "set_tz_state E state w = do {
     w \<leftarrow> lock E Tz_lock w;
     let w = upd_tz (\<lambda>t. t\<lparr>tz_state := state\<rparr>) w;
     unlock Tz_lock w }"

subsection \<open>The sensor\<close>

definition ioctl :: "ioctl_req \<Rightarrow> world \<Rightarrow> world" where
  "ioctl r = log_call (Ioctl r)"

definition sensor_uninit :: "world \<Rightarrow> int \<times> world" where
  "sensor_uninit w =
    (if \<not> sn_init (sensor w) then (0, w)
     else let w = ioctl VFSSPI_IOCTL_RESET_SPI_CONFIGURATION w;
              w = ioctl VFSSPI_IOCTL_DISABLE_SPI_CLOCK w;
              w = ioctl VFSSPI_IOCTL_DEVICE_SUSPEND w;
              w = ioctl VFSSPI_IOCTL_POWER_OFF w
          in (0, upd_sensor (\<lambda>s. s\<lparr>sn_init := False\<rparr>) w))"

definition sensor_init :: "world \<Rightarrow> int \<times> world" where
  "sensor_init w =
    (if sn_init (sensor w) then (0, w)
     else let w = ioctl VFSSPI_IOCTL_POWER_ON w;
              w = ioctl (VFSSPI_IOCTL_SET_CLK 65535) w;
              w = ioctl VFSSPI_IOCTL_DEVICE_RESET w;
              w = ioctl VFSSPI_IOCTL_SET_SPI_CONFIGURATION w;
              w = ioctl (VFSSPI_IOCTL_SET_CLK 4800) w
          in (0, upd_sensor (\<lambda>s. s\<lparr>sn_init := True\<rparr>) w))"

definition sensor_process_signal :: "env \<Rightarrow> world \<Rightarrow> world option" where
  "sensor_process_signal E w = do {
     w \<leftarrow> (if timeout_thread (tz_timeout (tz w))
          then do {
            w \<leftarrow> lock E Timeout_lock w;
            let w = log_call (Cond_signal Timeout_lock) w;
            w \<leftarrow> unlock Timeout_lock w;
            Some (upd_tz (\<lambda>t. t\<lparr>tz_timeout := (tz_timeout t)\<lparr>timeout_thread := False\<rparr>\<rparr>) w) }
          else Some w);
     w \<leftarrow> lock E Sensor_lock w;
     (s, w) \<leftarrow> get_tz_state E w;
     w \<leftarrow> (if s \<noteq> STATE_IDLE
          then do {
            (s, w) \<leftarrow> get_tz_state E w;
            Some (if s \<noteq> STATE_CANCEL then upd_sensor (\<lambda>s. s\<lparr>sn_signal := True\<rparr>) w else w) }
          else Some w);
     let w = ioctl (VFSSPI_IOCTL_SET_DRDY_INT 0) w;
     let w = log_call (Cond_signal Sensor_lock) w;
     unlock Sensor_lock w }"

definition sensor_register :: "world \<Rightarrow> int \<times> world" where
  "sensor_register w =
    (let w = log_call Sigaction w;
         w = ioctl VFSSPI_IOCTL_REGISTER_DRDY_SIGNAL w
     in (0, w))"

definition sensor_capture_start :: "env \<Rightarrow> world \<Rightarrow> int \<times> world" where
  "sensor_capture_start E w = call_ret E (Ioctl (VFSSPI_IOCTL_SET_DRDY_INT 1)) w"

subsection \<open>What other threads can change\<close>

text \<open>\<open>steps_only w w'\<close>: \<open>w'\<close> differs from \<open>w\<close> at most by the effect of other threads on the
  worker state, the signal flag and the timeout thread id, and by logged calls.\<close>

definition erase_shared_tz :: "trust_zone_t \<Rightarrow> trust_zone_t" where
  "erase_shared_tz t = t\<lparr>tz_state := STATE_IDLE, tz_timeout := (tz_timeout t)\<lparr>timeout_thread := False\<rparr>\<rparr>"

definition erase_shared_sensor :: "vcs_sensor_t \<Rightarrow> vcs_sensor_t" where
  "erase_shared_sensor s = s\<lparr>sn_signal := False\<rparr>"

definition steps_only :: "world \<Rightarrow> world \<Rightarrow> bool" where
  "steps_only w w' \<longleftrightarrow>
     erase_shared_tz (tz w') = erase_shared_tz (tz w) \<and>
     erase_shared_sensor (sensor w') = erase_shared_sensor (sensor w) \<and>
     (\<exists>tr. trace w' = tr @ trace w) \<and>
     vdev w' = vdev w \<and> ibuf w' = ibuf w \<and> held w' = held w \<and> sha w' = sha w \<and>
     km_init w' = km_init w \<and> km_handle w' = km_handle w"

lemma steps_only_refl [simp]: "steps_only w w"
  by (simp add: steps_only_def)

lemma steps_only_trans [trans]: "steps_only u v \<Longrightarrow> steps_only v w \<Longrightarrow> steps_only u w"
  by (auto simp: steps_only_def)

lemma steps_only_log [simp]: "steps_only w (log_call c w)"
  by (simp add: steps_only_def log_call_def)

lemma steps_only_shared [simp]:
  "steps_only w (upd_tz (\<lambda>t. t\<lparr>tz_state := s\<rparr>) w)"
  "steps_only w (upd_tz (\<lambda>t. t\<lparr>tz_timeout := (tz_timeout t)\<lparr>timeout_thread := b\<rparr>\<rparr>) w)"
  "steps_only w (upd_sensor (\<lambda>t. t\<lparr>sn_signal := g\<rparr>) w)"
  by (simp_all add: steps_only_def upd_defs erase_shared_tz_def erase_shared_sensor_def)

lemma steps_only_event: "steps_only w (apply_event w e)"
  by (cases e) (auto simp: steps_only_def upd_defs erase_shared_tz_def erase_shared_sensor_def)

lemma steps_only_interfere: "steps_only w (interfere E w)"
proof -
  have "steps_only w (foldl apply_event w es)" for es
    by (induction es arbitrary: w) (auto intro: steps_only_trans steps_only_event)
  then show ?thesis by (simp add: interfere_def)
qed

lemma erased_fields:
  "finger (erase_shared_tz t) = finger t" "qhandle (erase_shared_tz t) = qhandle t"
  "tz_init (erase_shared_tz t) = tz_init t" "auth_session_opend (erase_shared_tz t) = auth_session_opend t"
  "auth_token (erase_shared_tz t) = auth_token t"
  "auth_session_token (erase_shared_tz t) = auth_session_token t"
  "calibrate_len (erase_shared_tz t) = calibrate_len t"
  "calibrate_data (erase_shared_tz t) = calibrate_data t"
  "sn_init (erase_shared_sensor s) = sn_init s" "sn_fd (erase_shared_sensor s) = sn_fd s"
  by (simp_all add: erase_shared_tz_def erase_shared_sensor_def)

lemma steps_only_fields:
  assumes "steps_only w w'"
  shows "held w' = held w" "vdev w' = vdev w" "ibuf w' = ibuf w" "sha w' = sha w"
    "finger (tz w') = finger (tz w)" "qhandle (tz w') = qhandle (tz w)" "tz_init (tz w') = tz_init (tz w)"
    "sn_init (sensor w') = sn_init (sensor w)" "sn_fd (sensor w') = sn_fd (sensor w)"
    "auth_session_opend (tz w') = auth_session_opend (tz w)"
    "auth_token (tz w') = auth_token (tz w)" "auth_session_token (tz w') = auth_session_token (tz w)"
    "calibrate_len (tz w') = calibrate_len (tz w)" "calibrate_data (tz w') = calibrate_data (tz w)"
    "km_init w' = km_init w" "km_handle w' = km_handle w"
  using assms unfolding steps_only_def by (metis erased_fields)+

subsection \<open>The locked sections as a whole\<close>

lemma held_steps: "steps_only (log_call c w) w' \<Longrightarrow> held w' = held w"
  by (auto dest!: steps_only_fields(1) simp: log_call_def)

lemma get_tz_state_eq:
  "get_tz_state E w =
     (if held w Tz_lock then None
      else let w' = interfere E (log_call (Mutex_lock Tz_lock) w) in Some (tz_state (tz w'), w'))"
  using held_steps [OF steps_only_interfere, of E "Mutex_lock Tz_lock" w]
  by (auto simp: get_tz_state_def lock_def unlock_def Let_def fun_upd_idem)

lemma set_tz_state_eq:
  "set_tz_state E s w =
     (if held w Tz_lock then None
      else Some (upd_tz (\<lambda>t. t\<lparr>tz_state := s\<rparr>) (interfere E (log_call (Mutex_lock Tz_lock) w))))"
  using held_steps [OF steps_only_interfere, of E "Mutex_lock Tz_lock" w]
  by (auto simp: set_tz_state_def lock_def unlock_def Let_def upd_defs fun_upd_idem)

lemma get_tz_state_Some: "get_tz_state E w = Some (s, w') \<Longrightarrow> steps_only w w' \<and> s = tz_state (tz w')"
  by (auto simp: get_tz_state_eq Let_def split: if_splits
      intro: steps_only_trans [OF steps_only_log steps_only_interfere])

lemma set_tz_state_Some: "set_tz_state E s w = Some w' \<Longrightarrow> steps_only w w' \<and> tz_state (tz w') = s"
proof -
  assume "set_tz_state E s w = Some w'"
  then have w': "w' = upd_tz (\<lambda>t. t\<lparr>tz_state := s\<rparr>) (interfere E (log_call (Mutex_lock Tz_lock) w))"
    by (auto simp: set_tz_state_eq split: if_splits)
  show ?thesis
    unfolding w'
    by (intro conjI steps_only_trans [OF steps_only_trans [OF steps_only_log steps_only_interfere] steps_only_shared(1)])
       (simp add: upd_tz_def)
qed

end
