(* ===== verification/Fp_Notice.thy ===== *)
theory Fp_Notice
  imports Fp_Sensor
begin

text \<open>
  The notifications of \<open>fingerprint.c\<close>: each builds a message and hands it to the framework's
  callback while it holds the device lock.  A NULL callback is dereferenced, which is undefined.
\<close>

text \<open>The numbering of \<open>FINGERPRINT_ACQUIRED_GOOD\<close> in the framework's header, as the code passes
  it to \<open>send_acquired_notice\<close>.\<close>

definition acquired_good :: int where "acquired_good = 0"

definition FINGERPRINT_ERROR_HW_UNAVAILABLE :: int where "FINGERPRINT_ERROR_HW_UNAVAILABLE = 1"
definition FINGERPRINT_ERROR_UNABLE_TO_PROCESS :: int where "FINGERPRINT_ERROR_UNABLE_TO_PROCESS = 2"
definition FINGERPRINT_ERROR_TIMEOUT :: int where "FINGERPRINT_ERROR_TIMEOUT = 3"
definition FINGERPRINT_ERROR_NO_SPACE :: int where "FINGERPRINT_ERROR_NO_SPACE = 4"
definition FINGERPRINT_ERROR_CANCELED :: int where "FINGERPRINT_ERROR_CANCELED = 5"
definition FINGERPRINT_ERROR_UNABLE_TO_REMOVE :: int where "FINGERPRINT_ERROR_UNABLE_TO_REMOVE = 6"

definition notify :: "fingerprint_msg \<Rightarrow> world \<Rightarrow> world option" where
  "notify msg w = (if notify_set (vdev w) then Some (log_call (Notify msg) w) else None)"

definition convert_ret_to_acquired_info :: "int \<Rightarrow> acquired_info" where
  "convert_ret_to_acquired_info acquired_ret =
    (if acquired_ret = 0 then FINGERPRINT_ACQUIRED_GOOD else FINGERPRINT_ACQUIRED_INSUFFICIENT)"

definition send_error_notice :: "env \<Rightarrow> int \<Rightarrow> world \<Rightarrow> world option" where
  "send_error_notice E error_info w = do {
     w \<leftarrow> lock E Dev_lock w;
     w \<leftarrow> notify (Msg_error error_info) w;
     unlock Dev_lock w }"

definition send_acquired_notice :: "env \<Rightarrow> int \<Rightarrow> world \<Rightarrow> world option" where
  "send_acquired_notice E acquired_ret w = do {
     let acquired_info = convert_ret_to_acquired_info acquired_ret;
     w \<leftarrow> lock E Dev_lock w;
     w \<leftarrow> notify (Msg_acquired acquired_info) w;
     unlock Dev_lock w }"

definition send_enroll_notice :: "env \<Rightarrow> int \<Rightarrow> int \<Rightarrow> world \<Rightarrow> world option" where
  "send_enroll_notice E fid remaining w =
    (if fid = 0 then Some w
     else if secure_user_id (vdev w) = 0 then Some w
     else do {
       w \<leftarrow> lock E Dev_lock w;
       w \<leftarrow> notify (Msg_enrolling fid remaining) w;
       unlock Dev_lock w })"

definition htobe32 :: "u32 \<Rightarrow> u32" where
  "htobe32 v = push_bit 24 (v AND 0xFF) OR push_bit 8 (v AND 0xFF00) OR
     (drop_bit 8 v AND 0xFF00) OR drop_bit 24 v"

definition htobe64 :: "u64 \<Rightarrow> u64" where
  "htobe64 v = push_bit 32 (ucast (htobe32 (ucast v))) OR ucast (htobe32 (ucast (drop_bit 32 v)))"

definition send_authenticated_notice :: "env \<Rightarrow> int \<Rightarrow> world \<Rightarrow> world option" where
  "send_authenticated_notice E fid w = do {
     w \<leftarrow> send_acquired_notice E acquired_good w;
     let w = log_call Clock_monotonic w;
     let hat = \<lparr>hat_version = hw_auth_token_version E,
                hat_challenge = op_id (vdev w),
                hat_user_id = secure_user_id (vdev w),
                hat_authenticator_id = authenticator_id (vdev w),
                hat_authenticator_type = htobe32 (hw_auth_fingerprint E),
                hat_timestamp = htobe64 (scast (seconds E (trace w)) * 1000 +
                                         ucast (nanoseconds E (trace w) div 1000000))\<rparr>;
     w \<leftarrow> lock E Dev_lock w;
     w \<leftarrow> notify (Msg_authenticated fid hat) w;
     unlock Dev_lock w }"

definition send_remove_notice :: "env \<Rightarrow> int \<Rightarrow> world \<Rightarrow> world option" where
  "send_remove_notice E fid w = do {
     w \<leftarrow> lock E Dev_lock w;
     w \<leftarrow> notify (Msg_removed fid) w;
     unlock Dev_lock w }"

subsection \<open>Messages sent\<close>

fun is_notify :: "ext_call \<Rightarrow> fingerprint_msg option" where
  "is_notify (Notify m) = Some m"
| "is_notify _ = None"

text \<open>The messages of a trace, oldest first.\<close>

definition notices :: "world \<Rightarrow> fingerprint_msg list" where
  "notices w = rev (List.map_filter is_notify (trace w))"

end
