(* ===== verification/Fp_Db.thy ===== *)
theory Fp_Db
  imports Fp_Notice
begin

text \<open>
  The template database of \<open>fingerprint.c\<close>: one SQLite table per group, a row per finger.
  SQLite is outside the repository; the statements the code sends are the calls in the trace,
  and the environment answers with return codes and result rows.  A row is read by column, as
  the code does: the id, the template blob and the payload blob, each blob with its size.
  \<open>memcpy\<close> from a blob shorter than the copy, to a finger slot outside \<open>tz.finger\<close>, or past
  the end of a template buffer is undefined.
\<close>

definition FINGER_DATABASE_FILENAME :: string where "FINGER_DATABASE_FILENAME = ''/data/validity/finger.db''"
definition SAMSUNG_FP_DB_PATH :: string where "SAMSUNG_FP_DB_PATH = ''/data/validity/template.db''"
definition SENSOR_FILE_NAME :: string where "SENSOR_FILE_NAME = ''/dev/vfsspi''"
definition MAX_DATABASE_CMD :: nat where "MAX_DATABASE_CMD = 255"

definition SQLITE_OK :: int where "SQLITE_OK = 0"

subsection \<open>\<open>sprintf\<close>\<close>

fun show_nat :: "nat \<Rightarrow> string" where
  "show_nat n = (if n < 10 then [char_of (48 + n)] else show_nat (n div 10) @ [char_of (48 + n mod 10)])"

declare show_nat.simps [simp del]

definition show_int :: "int \<Rightarrow> string" where
  "show_int i = (if i < 0 then CHR ''-'' # show_nat (nat (- i)) else show_nat (nat i))"

text \<open>\<open>%d\<close> reads the unsigned group id as a signed number.\<close>

definition gid_table :: "u32 \<Rightarrow> string" where
  "gid_table gid = ''gid_'' @ show_int (sint gid)"

definition create_cmd :: "u32 \<Rightarrow> string" where
  "create_cmd gid = ''create table '' @ gid_table gid @ ''(id integer, data blob, payload blob)''"

definition select_cmd :: "u32 \<Rightarrow> string" where
  "select_cmd gid = ''select * from '' @ gid_table gid"

definition delete_cmd :: "u32 \<Rightarrow> int \<Rightarrow> string" where
  "delete_cmd gid fid = ''delete from '' @ gid_table gid @ '' where id='' @ show_int fid"

definition insert_cmd :: "u32 \<Rightarrow> int \<Rightarrow> string" where
  "insert_cmd gid fid = ''insert into '' @ gid_table gid @ ''(id, data, payload) values( '' @ show_int fid @ '', ?, ?)''"

subsection \<open>The operations\<close>

definition db_check_and_create_table :: "env \<Rightarrow> world \<Rightarrow> int \<times> world" where
  "db_check_and_create_table E w = call_ret E (Sql_exec (create_cmd (active_gid (vdev w)))) w"

text \<open>An index into \<open>tz.finger\<close>, which has \<open>MAX_NUM_FINGERS + 1\<close> elements.\<close>

definition finger_index :: "int \<Rightarrow> nat option" where
  "finger_index fid = (if 0 \<le> fid \<and> fid \<le> int MAX_NUM_FINGERS then Some (nat fid) else None)"

text \<open>\<open>memset(tz.finger, 0, MAX_NUM_FINGERS * sizeof(finger_t))\<close>.\<close>

definition clear_fingers :: "world \<Rightarrow> world" where
  "clear_fingers = upd_tz (\<lambda>t. t\<lparr>finger := (\<lambda>i. if i < MAX_NUM_FINGERS then zero_finger else finger t i)\<rparr>)"

definition db_write_to_db :: "env \<Rightarrow> bool \<Rightarrow> int \<Rightarrow> world \<Rightarrow> (int \<times> world) option" where
  "db_write_to_db E remove fid w =
    (if remove then do {
       let (ret, w) = call_ret E (Sql_exec (delete_cmd (active_gid (vdev w)) fid)) w;
       i \<leftarrow> finger_index fid;
       Some (ret, set_finger i zero_finger w) }
     else do {
       i \<leftarrow> finger_index fid;
       let f = finger (tz w) i;
       Some (call_ret E (Sql_insert (insert_cmd (active_gid (vdev w)) fid)
               (FINGER_DATA_MAX_LENGTH, fdata f) (PAYLOAD_MAX_LENGTH, payload f)) w) })"

text \<open>One row of a group table.\<close>

definition load_row :: "db_row \<Rightarrow> world \<Rightarrow> world option" where
  "load_row r w = do {
     i \<leftarrow> finger_index (row_id r);
     let f = finger (tz w) i;
     if fst (row_data r) < FINGER_DATA_MAX_LENGTH then None
     else if fst (row_payload r) < PAYLOAD_MAX_LENGTH then None
     else Some (set_finger i (f\<lparr>
            fdata := memcpy (fdata f) 0 (snd (row_data r)) 0 FINGER_DATA_MAX_LENGTH,
            payload := memcpy (payload f) 0 (snd (row_payload r)) 0 PAYLOAD_MAX_LENGTH,
            exist := True\<rparr>) w) }"

fun load_rows :: "db_row list \<Rightarrow> world \<Rightarrow> world option" where
  "load_rows [] w = Some w"
| "load_rows (r # rs) w = do { w \<leftarrow> load_row r w; load_rows rs w }"

text \<open>One row of the old database's \<open>enrollments\<close>: the blob's own size is copied.\<close>

fun load_old_rows :: "db_row list \<Rightarrow> world \<Rightarrow> world option" where
  "load_old_rows [] w = Some w"
| "load_old_rows (r # rs) w = do {
     i \<leftarrow> finger_index (row_id r);
     let f = finger (tz w) i;
     if fst (row_data r) > FINGER_DATA_MAX_LENGTH then None
     else load_old_rows rs (set_finger i (f\<lparr>
            fdata := memcpy (fdata f) 0 (snd (row_data r)) 0 (fst (row_data r)),
            exist := True\<rparr>) w) }"

fun store_converted :: "env \<Rightarrow> blob \<Rightarrow> nat list \<Rightarrow> world \<Rightarrow> world option" where
  "store_converted E pl [] w = Some w"
| "store_converted E pl (idx # is) w =
    (if exist (finger (tz w) idx) then
       if fst pl > PAYLOAD_MAX_LENGTH then None
       else do {
         let f = finger (tz w) idx;
         let w = set_finger idx (f\<lparr>payload := memcpy (payload f) 0 (snd pl) 0 (fst pl)\<rparr>) w;
         (_, w) \<leftarrow> db_write_to_db E False (int idx) w;
         store_converted E pl is w }
     else store_converted E pl is w)"

definition db_convert_old_db :: "env \<Rightarrow> world \<Rightarrow> (int \<times> world) option" where
  "db_convert_old_db E w = do {
     let w = clear_fingers w;
     let (ret, w) = call_ret E (Sql_open SAMSUNG_FP_DB_PATH) w;
     if ret \<noteq> SQLITE_OK then Some (-1, w)
     else do {
       let w = log_call (Sql_select ''select * from enrollments'') w;
       w \<leftarrow> load_old_rows (rows E (trace w)) w;
       let w = log_call (Sql_select ''select * from properties'') w;
       let pl = (case rows E (trace w) of [] \<Rightarrow> (0, \<lambda>_. 0) | r # _ \<Rightarrow> row_payload r);
       w \<leftarrow> store_converted E pl [1 ..< MAX_NUM_FINGERS + 1] w;
       let (ret, w) = call_ret E Sql_close w;
       if ret \<noteq> SQLITE_OK then Some (-1, w)
       else Some (call_ret E (File_remove SAMSUNG_FP_DB_PATH) w) } }"

definition db_read_to_tz :: "env \<Rightarrow> world \<Rightarrow> (int \<times> world) option" where
  "db_read_to_tz E w = do {
     let w = snd (db_check_and_create_table E w);
     let (absent, w) = call_ret E (File_access SAMSUNG_FP_DB_PATH) w;
     if absent = 0 then db_convert_old_db E w
     else do {
       let w = clear_fingers w;
       let w = log_call (Sql_select (select_cmd (active_gid (vdev w)))) w;
       w \<leftarrow> load_rows (rows E (trace w)) w;
       Some (0, w) } }"

definition db_init :: "env \<Rightarrow> world \<Rightarrow> (int \<times> world) option" where
  "db_init E w = do {
     let (ret, w) = call_ret E (Sql_open FINGER_DATABASE_FILENAME) w;
     if ret \<noteq> SQLITE_OK then Some (-1, w) else db_read_to_tz E w }"

definition db_uninit :: "env \<Rightarrow> world \<Rightarrow> int \<times> world" where
  "db_uninit E w = call_ret E Sql_close w"

end
