(* ===== verification/Tz_Session.thy ===== *)
theory Tz_Session
  imports Fp_Db
begin

text \<open>
  The life of the trusted application in \<open>fingerprint_tz.c\<close>: starting and stopping it, its
  initialisation sequence, the authentication session, calibration data.  Each function builds
  a command in the shared buffer, sends it and reads the response, in the source's order.
  \<open>handle->ion_sbuffer\<close> is read first, so a call with no live handle is undefined.
\<close>

text \<open>\<open>memcpy(&tz.calibrate_data, &resp->data[2], tz.calibrate_len)\<close>: defined only within the
  array; a negative length is a huge \<open>size_t\<close>.\<close>

definition store_calibration :: "nat \<Rightarrow> world \<Rightarrow> world option" where
  "store_calibration resp w =
    (let len = data_of resp 3 w + 0xf;
         w = upd_tz (\<lambda>t. t\<lparr>calibrate_len := len\<rparr>) w
     in if 0 \<le> len \<and> len \<le> int CALIBRATE_DATA_MAX_LENGTH
        then Some (upd_tz (\<lambda>t. t\<lparr>calibrate_data :=
               memcpy (calibrate_data t) 0 (data_bytes resp 2 w) 0 (nat len)\<rparr>) w)
        else None)"

definition vcs_update_cal_data :: "env \<Rightarrow> world \<Rightarrow> (int \<times> world) option" where
  "vcs_update_cal_data E w = do {
     _ \<leftarrow> ion_sbuffer w;
     let send = QSEECOM_ALIGN sizeof_vendor_cmd;
     let rlen = QSEECOM_ALIGN sizeof_normal_result;
     let resp = send;
     let w = wr_zero (send + rlen) w;
     let w = wr32 off_cmd (cmd_id vfmVendorDefinedOperation) w;
     let w = wr32 off_vendor_cmd (vendor_cmd_id vendorUpdateCalData) w;
     let w = wr32 (resp + off_result_data 0) (word_of_nat CALIBRATE_DATA_MAX_LENGTH) w;
     (ret, w) \<leftarrow> QSEECom_send_cmd E send resp rlen w;
     if ret \<noteq> 0 \<or> result_of resp w \<noteq> 0 then Some (ret, w)
     else do {
       w \<leftarrow> store_calibration resp w;
       Some (ret, w) } }"

definition vcs_check_state :: "env \<Rightarrow> world \<Rightarrow> (int \<times> world) option" where
  "vcs_check_state E w = do {
     _ \<leftarrow> ion_sbuffer w;
     let i = QSEECOM_ALIGN sizeof_int;
     (s, w) \<leftarrow> get_tz_state E w;
     if s = STATE_IDLE then Some (1, w)
     else do {
       (s, w) \<leftarrow> get_tz_state E w;
       if s = STATE_CANCEL then do {
         let w = wr_zero (i + i) w;
         let w = wr32 off_cmd (cmd_id vfmCaptureAbort) w;
         (ret, w) \<leftarrow> QSEECom_send_cmd E i i i w;
         w \<leftarrow> set_tz_state E STATE_IDLE w;
         Some (1, w) }
       else Some (0, w) } }"

definition auth_token_request :: "env \<Rightarrow> bool \<Rightarrow> world \<Rightarrow> (int \<times> world) option" where
  "auth_token_request E second w = do {
     let send = QSEECOM_ALIGN sizeof_vendor_cmd;
     let rlen = QSEECOM_ALIGN sizeof_normal_result;
     let resp = send;
     let w = wr_zero (send + rlen) w;
     let w = wr32 off_cmd (cmd_id vfmVendorDefinedOperation) w;
     let w = wr32 off_vendor_cmd (vendor_cmd_id vendorGetAuthToken) w;
     let w = (if second then wr32 (resp + off_result_data 0) 0x80 w else w);
     QSEECom_send_cmd E send resp rlen w }"

definition vcs_update_auth_token :: "env \<Rightarrow> world \<Rightarrow> (int \<times> world) option" where
  "vcs_update_auth_token E w = do {
     _ \<leftarrow> ion_sbuffer w;
     let resp = QSEECOM_ALIGN sizeof_vendor_cmd;
     (_, w) \<leftarrow> auth_token_request E False w;
     (ret, w) \<leftarrow> auth_token_request E True w;
     if result_of resp w \<noteq> 0 then Some (result_of resp w, w)
     else Some (ret, upd_tz (\<lambda>t. t\<lparr>auth_token :=
            memcpy (auth_token t) 0 (data_bytes resp 2 w) 0 AUTH_TOKEN_LENGTH\<rparr>) w) }"

definition vcs_start_auth_session :: "env \<Rightarrow> world \<Rightarrow> (int \<times> world) option" where
  "vcs_start_auth_session E w = do {
     _ \<leftarrow> ion_sbuffer w;
     let i = QSEECOM_ALIGN sizeof_int;
     let rlen = QSEECOM_ALIGN sizeof_normal_result;
     let resp = i;
     let w = wr_zero (i + rlen) w;
     let w = wr32 off_cmd (cmd_id vfmAuthSessionBegin) w;
     let w = wr32 (resp + off_result_data 0) (word_of_nat AUTH_SESSION_TOKEN_LENGTH) w;
     (ret, w) \<leftarrow> QSEECom_send_cmd E i resp rlen w;
     if ret \<noteq> 0 \<or> result_of resp w \<noteq> 0 then Some (ret, w)
     else do {
       let w = upd_tz (\<lambda>t. t\<lparr>auth_session_token :=
            memcpy (auth_session_token t) 0 (data_bytes resp 2 w) 0 AUTH_SESSION_TOKEN_LENGTH\<rparr>) w;
       let w = upd_tz (\<lambda>t. t\<lparr>auth_session_opend := True\<rparr>) w;
       Some (ret, w) } }"

definition vcs_stop_auth_session :: "env \<Rightarrow> world \<Rightarrow> (int \<times> world) option" where
  "vcs_stop_auth_session E w = do {
     _ \<leftarrow> ion_sbuffer w;
     let i = QSEECOM_ALIGN sizeof_int;
     let resp = i;
     let w = wr_zero (i + i) w;
     let w = wr32 off_cmd (cmd_id vfmAuthSessionEnd) w;
     (ret, w) \<leftarrow> QSEECom_send_cmd E i resp i w;
     let w = upd_tz (\<lambda>t. t\<lparr>auth_session_token :=
            memset (auth_session_token t) 0 0 AUTH_SESSION_TOKEN_LENGTH\<rparr>) w;
     let w = upd_tz (\<lambda>t. t\<lparr>auth_session_opend := False\<rparr>) w;
     Some (ret, w) }"

text \<open>\<open>vcs_resume\<close> in its four steps; \<open>Inl\<close> is an early return.\<close>

definition resume_initialize :: "env \<Rightarrow> world \<Rightarrow> ((int + unit) \<times> world) option" where
  "resume_initialize E w = do {
     let send = QSEECOM_ALIGN sizeof_base_cmd;
     let resp = send;
     let i = QSEECOM_ALIGN sizeof_int;
     let w = wr_zero (send + i) w;
     let w = wr32 off_cmd (cmd_id vfmInitialize) w;
     let w = wr32 off_len 4 w;
     let w = wr8 (off_data + 0) 2 w;
     (ret, w) \<leftarrow> QSEECom_send_cmd E send resp i w;
     Some (if ret \<noteq> 0 \<or> result_of resp w \<noteq> 0 then Inl ret else Inr (), w) }"

definition resume_enter_session :: "env \<Rightarrow> world \<Rightarrow> ((int + unit) \<times> world) option" where
  "resume_enter_session E w =
    (if auth_session_opend (tz w) then do {
       let send = QSEECOM_ALIGN sizeof_vendor_cmd;
       let rlen = QSEECOM_ALIGN sizeof_normal_result;
       let resp = QSEECOM_ALIGN sizeof_base_cmd;
       let w = wr_zero (send + rlen) w;
       let w = wr32 off_cmd (cmd_id vfmVendorDefinedOperation) w;
       let w = wr32 off_vendor_cmd (vendor_cmd_id vendorEnterAuthSession) w;
       let w = wr32 off_vendor_len 0x70 w;
       let w = wr_copy off_vendor_data (auth_token (tz w)) 0x70 w;
       (ret, w) \<leftarrow> QSEECom_send_cmd E send resp rlen w;
       Some (if ret \<noteq> 0 \<or> result_of resp w \<noteq> 0 then Inl (result_of resp w) else Inr (), w) }
     else Some (Inr (), w))"

definition resume_device_initialize :: "env \<Rightarrow> world \<Rightarrow> ((int + unit) \<times> world) option" where
  "resume_device_initialize E w = do {
     let send = QSEECOM_ALIGN sizeof_base_cmd;
     let resp = send;
     let i = QSEECOM_ALIGN sizeof_int;
     let w = wr_zero (send + i) w;
     let w = wr32 off_cmd (cmd_id vfmDeviceInitialize) w;
     (ret, w) \<leftarrow> QSEECom_send_cmd E send resp i w;
     Some (if ret \<noteq> 0 \<or> result_of resp w \<noteq> 0 then Inl ret else Inr (), w) }"

text \<open>\<open>memcpy(&send_cmd->data[4], &tz.calibrate_data, tz.calibrate_len)\<close> is defined within both
  arrays only.\<close>

definition resume_device_calibrate :: "env \<Rightarrow> world \<Rightarrow> (int \<times> world) option" where
  "resume_device_calibrate E w = do {
     let send = QSEECOM_ALIGN sizeof_base_cmd;
     let rlen = QSEECOM_ALIGN sizeof_normal_result;
     let resp = send;
     let len = calibrate_len (tz w);
     let w = wr_zero (send + rlen) w;
     let w = wr32 off_cmd (cmd_id vfmDeviceCalibrate) w;
     let w = wr8 (off_data + 0) 0xc0 w;
     let w = wr8 (off_data + 1) 0x12 w;
     let w = wr32 (resp + off_result_data 0) (word_of_nat CALIBRATE_DATA_MAX_LENGTH) w;
     w \<leftarrow> (if len \<noteq> 0
          then if 0 \<le> len \<and> len \<le> int CALIBRATE_DATA_MAX_LENGTH
               then Some (wr_copy (off_data + 4) (calibrate_data (tz w)) (nat len)
                           (wr32 off_len (word_of_int len) w))
               else None
          else Some (wr32 off_len 0x10 w));
     (ret, w) \<leftarrow> QSEECom_send_cmd E send resp rlen w;
     if ret \<noteq> 0 \<or> result_of resp w \<noteq> 0 then Some (ret, w)
     else if len = 0 then do {
       w \<leftarrow> store_calibration resp w;
       Some (ret, w) }
     else Some (ret, w) }"

definition vcs_resume :: "env \<Rightarrow> world \<Rightarrow> (int \<times> world) option" where
  "vcs_resume E w = do {
     _ \<leftarrow> ion_sbuffer w;
     (r, w) \<leftarrow> resume_initialize E w;
     case r of Inl e \<Rightarrow> Some (e, w) | Inr _ \<Rightarrow> do {
       (r, w) \<leftarrow> resume_enter_session E w;
       case r of Inl e \<Rightarrow> Some (e, w) | Inr _ \<Rightarrow> do {
         (r, w) \<leftarrow> resume_device_initialize E w;
         case r of Inl e \<Rightarrow> Some (e, w) | Inr _ \<Rightarrow> resume_device_calibrate E w } } }"

definition vcs_uninit :: "env \<Rightarrow> world \<Rightarrow> (int \<times> world) option" where
  "vcs_uninit E w = do {
     _ \<leftarrow> ion_sbuffer w;
     let i = QSEECOM_ALIGN sizeof_int;
     let resp = QSEECOM_ALIGN sizeof_base_cmd;
     w \<leftarrow> (if auth_session_opend (tz w) then map_option snd (vcs_update_auth_token E w) else Some w);
     let w = wr_zero (i + i) w;
     let w = wr32 off_cmd (cmd_id vfmUninitialize) w;
     (_, w) \<leftarrow> QSEECom_send_cmd E i resp i w;
     (_, w) \<leftarrow> QSEECom_set_bandwidth E False w;
     (_, w) \<leftarrow> QSEECom_shutdown_app E w;
     let w = upd_tz (\<lambda>t. t\<lparr>tz_init := False\<rparr>) w;
     w \<leftarrow> set_tz_state E STATE_IDLE w;
     Some (0, w) }"

definition vcs_init :: "env \<Rightarrow> world \<Rightarrow> (int \<times> world) option" where
  "vcs_init E w =
    (if tz_init (tz w) then Some (0, w)
     else do {
       (ret, w) \<leftarrow> QSEECom_start_app E w;
       if ret \<noteq> 0 then Some (-1, w)
       else do {
         (ret, w) \<leftarrow> QSEECom_set_bandwidth E True w;
         if ret \<noteq> 0 then Some (-1, w)
         else vcs_resume E (upd_tz (\<lambda>t. t\<lparr>tz_init := True\<rparr>) w) } })"

end
