(* ===== verification/Tz_Capture.thy ===== *)
theory Tz_Capture
  imports Tz_Session
begin

text \<open>
  \<open>vcs_start_capture\<close> of \<open>fingerprint_tz.c\<close>: start a capture, wait for the sensor's signal,
  read until the finger has left the sensor, process the image, and start again when the
  image was not good enough.  None of its three loops is bounded; each is a
  \<open>partial_function (option)\<close>, so a run that does not end is \<open>None\<close>.
\<close>

text \<open>\<open>vfmCaptureStart\<close>.\<close>

definition send_capture_start :: "env \<Rightarrow> u32 \<Rightarrow> world \<Rightarrow> (int \<times> world) option" where
  "send_capture_start E t w = do {
     let send = QSEECOM_ALIGN sizeof_base_cmd;
     let resp = send;
     let i = QSEECOM_ALIGN sizeof_int;
     let w = wr_zero (send + i) w;
     let w = wr32 off_cmd (cmd_id vfmCaptureStart) w;
     let w = wr32 off_len 0x1c w;
     let w = wr8 (off_data + 16) 0x1 w;
     let w = (if t \<noteq> 0 then wr32 (off_data + 20) t w else w);
     let w = wr8 (off_data + 24) 0xc0 w;
     let w = wr8 (off_data + 25) 0x12 w;
     QSEECom_send_cmd E send resp i w }"

text \<open>\<open>while ((!vcs_check_state()) && !sensor.signal) pthread_cond_wait(...)\<close>.\<close>

partial_function (option) capture_wait :: "env \<Rightarrow> world \<Rightarrow> world option" where
  "capture_wait E w = do {
     (stop, w) \<leftarrow> vcs_check_state E w;
     if stop = 0 \<and> \<not> sn_signal (sensor w) then do {
       w \<leftarrow> cond_wait E Sensor_lock w;
       capture_wait E w }
     else Some w }"

text \<open>\<open>vfmCaptureReadData\<close>.\<close>

definition send_capture_read :: "env \<Rightarrow> world \<Rightarrow> (int \<times> world) option" where
  "send_capture_read E w = do {
     let i = QSEECOM_ALIGN sizeof_int;
     let rlen = QSEECOM_ALIGN sizeof_normal_result;
     let resp = i;
     let w = wr_zero (i + rlen) w;
     let w = wr32 off_cmd (cmd_id vfmCaptureReadData) w;
     let w = wr32 off_len 0x8000 w;
     let w = wr32 (resp + off_result_data 0) 0xc w;
     QSEECom_send_cmd E i resp rlen w }"

text \<open>The reading loop: \<open>-1\<close> when the worker is told to stop, \<open>0\<close> when the finger
  has left the sensor.\<close>

partial_function (option) capture_read :: "env \<Rightarrow> world \<Rightarrow> (int \<times> world) option" where
  "capture_read E w = do {
     (stop, w) \<leftarrow> vcs_check_state E w;
     if stop \<noteq> 0 then Some (-1, w)
     else do {
       (r, w) \<leftarrow> send_capture_read E w;
       if r \<noteq> 0 \<or> result_of (QSEECOM_ALIGN sizeof_int) w \<noteq> 0 then capture_read E w
       else if data_of (QSEECOM_ALIGN sizeof_int) 2 w = 2 then Some (0, w)
       else capture_read E w } }"

text \<open>\<open>vfmCaptureProcessData\<close>: only \<open>QSEECOM_ALIGN(sizeof(int))\<close> bytes are sent.\<close>

definition send_capture_process :: "env \<Rightarrow> world \<Rightarrow> (int \<times> world) option" where
  "send_capture_process E w = do {
     let send = QSEECOM_ALIGN sizeof_base_cmd;
     let rlen = QSEECOM_ALIGN sizeof_normal_result;
     let resp = send;
     let w = wr_zero (send + rlen) w;
     let w = wr32 off_cmd (cmd_id vfmCaptureProcessData) w;
     let w = wr32 off_len 0x1c w;
     let w = wr8 (off_data + 16) 0x1 w;
     let w = log_call Clock_time w;
     let w = wr32 (off_data + 20) (seconds E (trace w)) w;
     let w = wr8 (off_data + 24) 0xc0 w;
     let w = wr8 (off_data + 25) 0x12 w;
     let w = wr32 (resp + off_result_data 0) 0xc w;
     QSEECom_send_cmd E (QSEECOM_ALIGN sizeof_int) resp rlen w }"

text \<open>Arming the sensor and waiting for it: \<open>True\<close> when the capture may go on.\<close>

definition capture_arm :: "env \<Rightarrow> world \<Rightarrow> (bool \<times> world) option" where
  "capture_arm E w = do {
     (_, w) \<leftarrow> vcs_update_cal_data E w;
     w \<leftarrow> lock E Sensor_lock w;
     let w = snd (sensor_capture_start E w);
     w \<leftarrow> unlock Sensor_lock w;
     w \<leftarrow> lock E Sensor_lock w;
     w \<leftarrow> capture_wait E w;
     w \<leftarrow> unlock Sensor_lock w;
     (stop, w) \<leftarrow> vcs_check_state E w;
     if stop \<noteq> 0 then Some (False, w)
     else do {
       w \<leftarrow> lock E Sensor_lock w;
       let w = (if sn_signal (sensor w) then upd_sensor (\<lambda>s. s\<lparr>sn_signal := False\<rparr>) w else w);
       w \<leftarrow> unlock Sensor_lock w;
       Some (True, w) } }"

partial_function (option) vcs_start_capture :: "env \<Rightarrow> u32 \<Rightarrow> world \<Rightarrow> (int \<times> world) option" where
  "vcs_start_capture E t w = do {
     _ \<leftarrow> ion_sbuffer w;
     let resp = QSEECOM_ALIGN sizeof_base_cmd;
     (r, w) \<leftarrow> send_capture_start E t w;
     if r \<noteq> 0 \<or> result_of resp w \<noteq> 0 then Some (r, w)
     else do {
       (go, w) \<leftarrow> capture_arm E w;
       if \<not> go then Some (-1, w)
       else do {
         (r, w) \<leftarrow> capture_read E w;
         if r \<noteq> 0 then Some (-1, w)
         else do {
           (r, w) \<leftarrow> send_capture_process E w;
           if r \<noteq> 0 then Some (-1, w)
           else if result_of resp w \<noteq> 0 then do {
             w \<leftarrow> send_acquired_notice E (result_of resp w) w;
             let w = log_call Clock_time w;
             vcs_start_capture E (seconds E (trace w)) w }
           else Some (0, w) } } } }"

subsection \<open>Induction over the loops that return\<close>

lemma capture_wait_return:
  assumes step: "\<And>f w. (\<And>v. on_return (f v) (P v)) \<Longrightarrow>
    on_return (do {
       (stop, w) \<leftarrow> vcs_check_state E w;
       if stop = 0 \<and> \<not> sn_signal (sensor w) then do {
         w \<leftarrow> cond_wait E Sensor_lock w;
         f w }
       else Some w }) (P w)"
  shows "on_return (capture_wait E w) (P w)"
proof (rule on_returnI)
  have step': "E' = E \<longrightarrow> P w u" if "capture_wait E' w = Some u" for E' w u
  proof (rule capture_wait.raw_induct [OF _ that], intro impI, goal_cases)
    case (1 g E' w u)
    then show ?case
      by (intro on_returnD [OF step [of "g E"]]) (auto intro!: on_returnI)
  qed
  show "P w u" if "capture_wait E w = Some u" for u
    using step' [OF that] by simp
qed

lemma capture_read_return:
  assumes step: "\<And>f w. (\<And>v. on_return (f v) (P v)) \<Longrightarrow>
    on_return (do {
       (stop, w) \<leftarrow> vcs_check_state E w;
       if stop \<noteq> 0 then Some (-1, w)
       else do {
         (r, w) \<leftarrow> send_capture_read E w;
         if r \<noteq> 0 \<or> result_of (QSEECOM_ALIGN sizeof_int) w \<noteq> 0 then f w
         else if data_of (QSEECOM_ALIGN sizeof_int) 2 w = 2 then Some (0, w)
         else f w } }) (P w)"
  shows "on_return (capture_read E w) (P w)"
proof (rule on_returnI)
  have step': "E' = E \<longrightarrow> P w u" if "capture_read E' w = Some u" for E' w u
  proof (rule capture_read.raw_induct [OF _ that], intro impI, goal_cases)
    case (1 g E' w u)
    then show ?case
      by (intro on_returnD [OF step [of "g E"]]) (auto intro!: on_returnI)
  qed
  show "P w u" if "capture_read E w = Some u" for u
    using step' [OF that] by simp
qed

lemma vcs_start_capture_return:
  assumes step: "\<And>f t w. (\<And>t v. on_return (f t v) (P t v)) \<Longrightarrow>
    on_return (do {
       _ \<leftarrow> ion_sbuffer w;
       let resp = QSEECOM_ALIGN sizeof_base_cmd;
       (r, w) \<leftarrow> send_capture_start E t w;
       if r \<noteq> 0 \<or> result_of resp w \<noteq> 0 then Some (r, w)
       else do {
         (go, w) \<leftarrow> capture_arm E w;
         if \<not> go then Some (-1, w)
         else do {
           (r, w) \<leftarrow> capture_read E w;
           if r \<noteq> 0 then Some (-1, w)
           else do {
             (r, w) \<leftarrow> send_capture_process E w;
             if r \<noteq> 0 then Some (-1, w)
             else if result_of resp w \<noteq> 0 then do {
               w \<leftarrow> send_acquired_notice E (result_of resp w) w;
               let w = log_call Clock_time w;
               f (seconds E (trace w)) w }
             else Some (0, w) } } } }) (P t w)"
  shows "on_return (vcs_start_capture E t w) (P t w)"
proof (rule on_returnI)
  have step': "E' = E \<longrightarrow> P t w u" if "vcs_start_capture E' t w = Some u" for E' t w u
  proof (rule vcs_start_capture.raw_induct [OF _ that], intro impI, goal_cases)
    case (1 g E' t w u)
    then show ?case
      by (intro on_returnD [OF step [of "g E"]]) (auto intro!: on_returnI)
  qed
  show "P t w u" if "vcs_start_capture E t w = Some u" for u
    using step' [OF that] by simp
qed

end
