(* ===== verification/Tz_Workers.thy ===== *)
theory Tz_Workers
  imports Tz_Capture
begin

text \<open>
  The threads of \<open>fingerprint_tz.c\<close>: \<open>vcs_authenticate\<close>, \<open>vcs_enroll\<close> and \<open>vcs_timeout\<close>,
  and the functions that start them.  A thread body is modelled as the code of the one thread
  the world describes; the threads it runs beside are the environment's events.
\<close>

subsection \<open>Finger slots\<close>

definition slot_indices :: "nat list" where
  "slot_indices = [1 ..< MAX_NUM_FINGERS + 1]"

fun count_existing :: "(nat \<Rightarrow> finger_t) \<Rightarrow> nat list \<Rightarrow> nat \<Rightarrow> nat" where
  "count_existing fs [] num = num"
| "count_existing fs (idx # is) num = count_existing fs is (if exist (fs idx) then num + 1 else num)"

definition vcs_get_enrolled_finger_num :: "world \<Rightarrow> nat" where
  "vcs_get_enrolled_finger_num w = count_existing (finger (tz w)) slot_indices 0"

text \<open>The search of the first free slot; \<open>MAX_NUM_FINGERS + 1\<close> when there is none.\<close>

fun find_free :: "(nat \<Rightarrow> finger_t) \<Rightarrow> nat list \<Rightarrow> nat" where
  "find_free fs [] = MAX_NUM_FINGERS + 1"
| "find_free fs (idx # is) = (if \<not> exist (fs idx) then idx else find_free fs is)"

text \<open>The search of the \<open>fake_fid\<close>-th existing finger; \<open>fingerindex\<close> keeps its 0 when there is
  none.\<close>

fun find_match :: "(nat \<Rightarrow> finger_t) \<Rightarrow> nat list \<Rightarrow> nat \<Rightarrow> int \<Rightarrow> nat" where
  "find_match fs [] len fake_fid = 0"
| "find_match fs (idx # is) len fake_fid =
    (if exist (fs idx)
     then if int (len + 1) = fake_fid then idx else find_match fs is (len + 1) fake_fid
     else find_match fs is len fake_fid)"

subsection \<open>\<open>vcs_authenticate\<close>\<close>

definition send_vendor_unknown :: "env \<Rightarrow> trust_zone_vendor_cmd_id_t \<Rightarrow> world \<Rightarrow> (int \<times> world) option" where
  "send_vendor_unknown E v w = do {
     let send = QSEECOM_ALIGN sizeof_vendor_cmd;
     let rlen = QSEECOM_ALIGN sizeof_normal_result;
     let resp = send;
     let w = wr_zero (send + rlen) w;
     let w = wr32 off_cmd (cmd_id vfmVendorDefinedOperation) w;
     let w = wr32 off_vendor_cmd (vendor_cmd_id v) w;
     let w = wr32 (resp + off_result_data 0) 0x4 w;
     QSEECom_send_cmd E send resp rlen w }"

text \<open>The address of the \<open>len\<close>-th template in \<open>send_5x_cmd->data\<close>, counted from 1.\<close>

definition template_address :: "nat \<Rightarrow> nat" where
  "template_address len = 102392 + (len - 1) * 15364"

fun put_templates :: "nat list \<Rightarrow> nat \<Rightarrow> world \<Rightarrow> world" where
  "put_templates [] len w = w"
| "put_templates (idx # is) len w =
    (if exist (finger (tz w) idx)
     then let len = len + 1;
              address = template_address len;
              w = wr8 (off_5x_data + address) 0x45 w;
              w = wr8 (off_5x_data + (address + 1)) 0x28 w;
              w = wr_copy (off_5x_data + (address + 4)) (fdata (finger (tz w) idx)) FINGER_DATA_MAX_LENGTH w
          in put_templates is len w
     else put_templates is len w)"

definition send_match :: "env \<Rightarrow> world \<Rightarrow> (int \<times> world) option" where
  "send_match E w = do {
     let send = QSEECOM_ALIGN sizeof_5x_cmd;
     let rlen = QSEECOM_ALIGN sizeof_2x_result;
     let resp = send;
     let w = wr_zero (send + rlen) w;
     let w = wr32 off_cmd (cmd_id vfmMatchImageToTemplates) w;
     let w = wr32 off_len 0x14 w;
     let w = wr32 (off_5x_unknown + 0) 1 w;
     let w = wr32 (off_5x_unknown + 4) 100000 w;
     let w = log_call Clock_time w;
     let w = wr32 off_5x_time_now (seconds E (trace w)) w;
     let w = wr8 (off_5x_data + 0) 0x1 w;
     let w = wr8 (off_5x_data + 102388) (word_of_nat (vcs_get_enrolled_finger_num w)) w;
     let w = put_templates slot_indices 0 w;
     let w = wr32 (resp + off_result_data 0) 0x5c w;
     let w = wr32 (resp + off_result_data 25602) 0x3000 w;
     QSEECom_send_cmd E send resp rlen w }"

definition send_payload_release :: "env \<Rightarrow> nat \<Rightarrow> world \<Rightarrow> (int \<times> world) option" where
  "send_payload_release E fingerindex w = do {
     let send = QSEECOM_ALIGN sizeof_2x_cmd;
     let rlen = QSEECOM_ALIGN sizeof_normal_result;
     let resp = send;
     let w = wr_zero (send + rlen) w;
     let w = wr32 off_cmd (cmd_id vfmPayloadRelease) w;
     let w = wr32 off_len (word_of_nat PAYLOAD_MAX_LENGTH) w;
     let w = wr_copy off_data (payload (finger (tz w) fingerindex)) PAYLOAD_MAX_LENGTH w;
     let w = wr32 (resp + off_result_data 0) 0x24 w;
     QSEECom_send_cmd E send resp rlen w }"

text \<open>The loop; the result is \<open>fingerindex\<close>.  \<open>(int)data[22] + 1\<close> overflows, which
  is undefined, for one value of the response.\<close>

partial_function (option) authenticate_loop :: "env \<Rightarrow> world \<Rightarrow> (nat \<times> world) option" where
  "authenticate_loop E w = do {
     (s, w) \<leftarrow> get_tz_state E w;
     if s \<noteq> STATE_SCAN then Some (0, w)
     else do {
       (r, w) \<leftarrow> vcs_start_capture E 0 w;
       if r = -1 then Some (0, w)
       else do {
         let resp_2x = QSEECOM_ALIGN sizeof_5x_cmd;
         (r, w) \<leftarrow> send_match E w;
         if r \<noteq> 0 then do {
           w \<leftarrow> send_error_notice E FINGERPRINT_ERROR_UNABLE_TO_PROCESS w;
           Some (0, w) }
         else if result_of resp_2x w \<noteq> 0 then do {
           w \<leftarrow> send_acquired_notice E (result_of resp_2x w) w;
           authenticate_loop E w }
         else if data_of resp_2x 22 w = 2 ^ 31 - 1 then None
         else do {
           let fake_fid = data_of resp_2x 22 w + 1;
           let fingerindex = find_match (finger (tz w)) slot_indices 0 fake_fid;
           (_, w) \<leftarrow> send_payload_release E fingerindex w;
           Some (fingerindex, w) } } } }"

definition vcs_authenticate :: "env \<Rightarrow> world \<Rightarrow> world option" where
  "vcs_authenticate E w = do {
     _ \<leftarrow> ion_sbuffer w;
     (_, w) \<leftarrow> send_vendor_unknown E vendorUnknown0 w;
     (fingerindex, w) \<leftarrow> authenticate_loop E w;
     let w = snd (sensor_uninit w);
     (_, w) \<leftarrow> vcs_uninit E w;
     w \<leftarrow> set_tz_state E STATE_IDLE w;
     if fingerindex \<noteq> 0 then send_authenticated_notice E (int fingerindex) w else Some w }"

subsection \<open>\<open>vcs_enroll\<close>\<close>

text \<open>\<open>send_cmd->data[102400]\<close> lies past the array's 102388 bytes but inside the aligned send
  area, which is what the trusted application receives.\<close>

definition send_enroll_begin :: "env \<Rightarrow> nat \<Rightarrow> world \<Rightarrow> (int \<times> world) option" where
  "send_enroll_begin E idx w = do {
     let send = QSEECOM_ALIGN sizeof_base_cmd;
     let resp = send;
     let i = QSEECOM_ALIGN sizeof_int;
     let w = wr_zero (send + i) w;
     let w = wr32 off_cmd (cmd_id vfmEnrollBegin) w;
     let w = wr8 (off_data + 102400) (word_of_nat idx) w;
     QSEECom_send_cmd E send resp i w }"

definition send_enroll_add_image :: "env \<Rightarrow> world \<Rightarrow> (int \<times> world) option" where
  "send_enroll_add_image E w = do {
     let i = QSEECOM_ALIGN sizeof_int;
     let rlen = QSEECOM_ALIGN sizeof_normal_result;
     let resp = i;
     let w = wr_zero (i + rlen) w;
     let w = wr32 off_cmd (cmd_id vfmEnrollAddImage) w;
     let w = wr32 (resp + off_result_data 0) 0x8 w;
     QSEECom_send_cmd E i resp rlen w }"

text \<open>How the image loop ends: \<open>goto out\<close>, \<open>return NULL\<close>, or on to \<open>vfmEnrollFinish\<close>.\<close>

datatype enroll_exit = Goto_out | Return_null | Enroll_finish

text \<open>The images still to take, from the count before the image and \<open>resp->data[2]\<close>.\<close>

definition enroll_remaining :: "int \<Rightarrow> int \<Rightarrow> int" where
  "enroll_remaining count d =
    (let count = count - 1;
         count = (if d = 0x1 then 0 else count)
     in if d \<noteq> 0x1 \<and> count = 0 then 1 else count)"

partial_function (option) enroll_loop ::
    "env \<Rightarrow> nat \<Rightarrow> int \<Rightarrow> world \<Rightarrow> (enroll_exit \<times> world) option" where
  "enroll_loop E idx count w = do {
     (s, w) \<leftarrow> get_tz_state E w;
     if s \<noteq> STATE_ENROLL then Some (Enroll_finish, w)
     else do {
       (r, w) \<leftarrow> vcs_start_capture E 0 w;
       if r = -1 then Some (Goto_out, w)
       else do {
         let resp = QSEECOM_ALIGN sizeof_int;
         (r, w) \<leftarrow> send_enroll_add_image E w;
         if r \<noteq> 0 then do {
           w \<leftarrow> set_tz_state E STATE_IDLE w;
           w \<leftarrow> send_error_notice E FINGERPRINT_ERROR_UNABLE_TO_PROCESS w;
           Some (Return_null, w) }
         else if result_of resp w \<noteq> 0 then do {
           w \<leftarrow> send_acquired_notice E (result_of resp w) w;
           enroll_loop E idx count w }
         else do {
           let count = enroll_remaining count (data_of resp 2 w);
           w \<leftarrow> send_enroll_notice E (int idx) count w;
           if count = 0 then Some (Enroll_finish, w) else enroll_loop E idx count w } } } }"

definition send_enroll_finish :: "env \<Rightarrow> world \<Rightarrow> (int \<times> world) option" where
  "send_enroll_finish E w = do {
     let send = QSEECOM_ALIGN sizeof_base_cmd;
     let rlen = QSEECOM_ALIGN sizeof_normal_result;
     let resp = send;
     let w = wr_zero (send + rlen) w;
     let w = wr32 off_cmd (cmd_id vfmEnrollFinish) w;
     let w = wr32 off_len (word_of_nat AUTH_SESSION_TOKEN_LENGTH) w;
     let w = wr32 (resp + off_result_data 0) 0x2845 w;
     let w = wr_copy off_data (auth_session_token (tz w)) AUTH_SESSION_TOKEN_LENGTH w;
     QSEECom_send_cmd E send resp rlen w }"

text \<open>\<open>sprintf(&send_cmd->data[4], "User_0")\<close>, the terminating NUL included.\<close>

definition user_0 :: bytes where
  "user_0 = (\<lambda>i. if i < 6 then [0x55, 0x73, 0x65, 0x72, 0x5f, 0x30] ! i else 0)"

definition send_payload_bind :: "env \<Rightarrow> bool \<Rightarrow> world \<Rightarrow> (int \<times> world) option" where
  "send_payload_bind E second w = do {
     let send = QSEECOM_ALIGN sizeof_base_cmd;
     let rlen = QSEECOM_ALIGN sizeof_normal_result;
     let resp = send;
     let w = wr_zero (send + rlen) w;
     let w = wr32 off_cmd (cmd_id vfmPayloadBind) w;
     let w = wr32 off_len 0x1 w;
     let w = wr32 off_zero 0x7 w;
     let w = wr_copy (off_data + 4) user_0 7 w;
     let w = (if second then wr32 (resp + off_result_data 0) 0x50 w else w);
     QSEECom_send_cmd E send resp rlen w }"

definition send_password_set :: "env \<Rightarrow> bool \<Rightarrow> world \<Rightarrow> (int \<times> world) option" where
  "send_password_set E second w = do {
     let send = QSEECOM_ALIGN sizeof_3x_cmd;
     let rlen = QSEECOM_ALIGN sizeof_normal_result;
     let resp = send;
     let w = wr_zero (send + rlen) w;
     let w = wr32 off_cmd (cmd_id vfmEnrollmentPasswordSet) w;
     let w = wr32 off_len (word_of_nat AUTH_SESSION_TOKEN_LENGTH) w;
     let w = wr_copy off_data (auth_session_token (tz w)) AUTH_SESSION_TOKEN_LENGTH w;
     let w = wr32 (resp + off_result_data 0) (if second then 0x80 else 0x90) w;
     QSEECom_send_cmd E send resp rlen w }"

text \<open>From \<open>vfmEnrollFinish\<close> to the password.  The results of the commands are only
  reported to the log.  A write to a slot outside \<open>tz.finger\<close> is undefined.\<close>

definition enroll_finish :: "env \<Rightarrow> nat \<Rightarrow> world \<Rightarrow> world option" where
  "enroll_finish E idx w = do {
     let resp = QSEECOM_ALIGN sizeof_base_cmd;
     (_, w) \<leftarrow> send_enroll_finish E w;
     idx \<leftarrow> finger_index (int idx);
     let f = finger (tz w) idx;
     let w = set_finger idx (f\<lparr>fdata := memcpy (fdata f) 0 (data_bytes resp 2 w) 0 FINGER_DATA_MAX_LENGTH\<rparr>) w;
     (_, w) \<leftarrow> send_payload_bind E False w;
     (_, w) \<leftarrow> send_payload_bind E True w;
     let f = finger (tz w) idx;
     let w = set_finger idx (f\<lparr>payload := memcpy (payload f) 0 (data_bytes resp 2 w) 0 PAYLOAD_MAX_LENGTH,
                               exist := True\<rparr>) w;
     (_, w) \<leftarrow> db_write_to_db E False (int idx) w;
     (_, w) \<leftarrow> send_password_set E False w;
     (_, w) \<leftarrow> send_password_set E True w;
     Some w }"

definition enroll_out :: "env \<Rightarrow> world \<Rightarrow> world option" where
  "enroll_out E w = do {
     w \<leftarrow> set_tz_state E STATE_IDLE w;
     let w = snd (sensor_uninit w);
     (_, w) \<leftarrow> vcs_uninit E w;
     Some w }"

definition enroll_fail :: "env \<Rightarrow> world \<Rightarrow> world option" where
  "enroll_fail E w = do {
     w \<leftarrow> set_tz_state E STATE_IDLE w;
     send_error_notice E FINGERPRINT_ERROR_UNABLE_TO_PROCESS w }"

definition vcs_enroll :: "env \<Rightarrow> world \<Rightarrow> world option" where
  "vcs_enroll E w = do {
     _ \<leftarrow> ion_sbuffer w;
     let resp = QSEECOM_ALIGN sizeof_base_cmd;
     let idx = find_free (finger (tz w)) slot_indices;
     (r, w) \<leftarrow> send_enroll_begin E idx w;
     if r \<noteq> 0 \<or> result_of resp w \<noteq> 0 then enroll_fail E w
     else do {
       (r, w) \<leftarrow> send_vendor_unknown E vendorUnknownA w;
       if r \<noteq> 0 \<or> result_of resp w \<noteq> 0 then enroll_fail E w
       else do {
         (x, w) \<leftarrow> enroll_loop E idx 8 w;
         case x of
           Return_null \<Rightarrow> Some w
         | Goto_out \<Rightarrow> enroll_out E w
         | Enroll_finish \<Rightarrow> do { w \<leftarrow> enroll_finish E idx w; enroll_out E w } } } }"

subsection \<open>\<open>vcs_timeout\<close>\<close>

definition ETIMEDOUT :: int where "ETIMEDOUT = 110"

definition cond_timedwait :: "env \<Rightarrow> mutex \<Rightarrow> u32 \<Rightarrow> u32 \<Rightarrow> world \<Rightarrow> (int \<times> world) option" where
  "cond_timedwait E m sec nsec w =
    (if \<not> held w m then None
     else let w = w\<lparr>held := (held w)(m := False)\<rparr>;
              (r, w) = call_ret E (Cond_timedwait m sec nsec) w;
              w = interfere E w
          in Some (r, w\<lparr>held := (held w)(m := True)\<rparr>))"

partial_function (option) wait_idle :: "env \<Rightarrow> world \<Rightarrow> world option" where
  "wait_idle E w = do {
     let w = usleep E 100000 w;
     (s, w) \<leftarrow> get_tz_state E w;
     if s = STATE_IDLE then Some w else wait_idle E w }"

definition vcs_timeout :: "env \<Rightarrow> world \<Rightarrow> world option" where
  "vcs_timeout E w = do {
     w \<leftarrow> lock E Timeout_lock w;
     let w = log_call Clock_time w;
     let sec = seconds E (trace w) + timeout_sec (tz_timeout (tz w));
     let nsec = microseconds E (trace w) * 1000;
     (r, w) \<leftarrow> cond_timedwait E Timeout_lock sec nsec w;
     w \<leftarrow> unlock Timeout_lock w;
     if r = ETIMEDOUT then do {
       (s, w) \<leftarrow> get_tz_state E w;
       w \<leftarrow> (if s \<noteq> STATE_IDLE then do {
              (s, w) \<leftarrow> get_tz_state E w;
              if s \<noteq> STATE_CANCEL then do {
                w \<leftarrow> set_tz_state E STATE_CANCEL w;
                wait_idle E (ioctl (VFSSPI_IOCTL_SET_DRDY_INT 0) w) }
              else Some w }
            else Some w);
       send_error_notice E FINGERPRINT_ERROR_TIMEOUT w }
     else Some w }"

subsection \<open>Starting the threads\<close>

text \<open>\<open>for (times = 0; times < 5; times++)\<close> over the remaining values of \<open>times\<close>: the loop does
  not end early when the state is idle; only the last look at it decides.\<close>

fun wait_not_busy :: "env \<Rightarrow> nat list \<Rightarrow> world \<Rightarrow> (bool \<times> world) option" where
  "wait_not_busy E [] w = Some (True, w)"
| "wait_not_busy E (k # ks) w = do {
     (s, w) \<leftarrow> get_tz_state E w;
     if s \<noteq> STATE_IDLE then
       if k < 4 then wait_not_busy E ks (usleep E 100000 w)
       else Some (False, w)
     else wait_not_busy E ks w }"

definition vcs_start_authenticate :: "env \<Rightarrow> world \<Rightarrow> (int \<times> world) option" where
  "vcs_start_authenticate E w = do {
     (free, w) \<leftarrow> wait_not_busy E [0, 1, 2, 3, 4] w;
     if \<not> free then Some (-1, w)
     else do {
       w \<leftarrow> set_tz_state E STATE_SCAN w;
       let w = snd (sensor_init w);
       (r, w) \<leftarrow> vcs_init E w;
       if r \<noteq> 0 then Some (r, w)
       else do {
         let (r, w) = call_ret E (Thread_create Worker_authenticate) w;
         Some (r, if r = 0 then upd_tz (\<lambda>t. t\<lparr>auth_thread := True\<rparr>) w else w) } } }"

definition vcs_start_enroll :: "env \<Rightarrow> u32 \<Rightarrow> world \<Rightarrow> (int \<times> world) option" where
  "vcs_start_enroll E timeout w = do {
     (s, w) \<leftarrow> get_tz_state E w;
     if s \<noteq> STATE_IDLE then Some (-1, w)
     else do {
       w \<leftarrow> set_tz_state E STATE_ENROLL w;
       let w = snd (sensor_init w);
       (r, w) \<leftarrow> vcs_init E w;
       if r \<noteq> 0 then Some (r, w)
       else do {
         let (r, w) = call_ret E (Thread_create Worker_enroll) w;
         if r \<noteq> 0 then Some (r, w)
         else do {
           let w = upd_tz (\<lambda>t. t\<lparr>enroll_thread := True\<rparr>) w;
           if timeout \<noteq> 0 then do {
             let w = upd_tz (\<lambda>t. t\<lparr>tz_timeout := (tz_timeout t)\<lparr>timeout_sec := timeout\<rparr>\<rparr>) w;
             let (r, w) = call_ret E (Thread_create Worker_timeout) w;
             Some (r, if r = 0 then upd_tz (\<lambda>t. t\<lparr>tz_timeout := (tz_timeout t)\<lparr>timeout_thread := True\<rparr>\<rparr>) w
                      else w) }
           else Some (r, w) } } } }"

subsection \<open>Induction over the loops that return\<close>

lemma authenticate_loop_return:
  assumes step: "\<And>f w. (\<And>v. on_return (f v) (P v)) \<Longrightarrow>
    on_return (do {
       (s, w) \<leftarrow> get_tz_state E w;
       if s \<noteq> STATE_SCAN then Some (0, w)
       else do {
         (r, w) \<leftarrow> vcs_start_capture E 0 w;
         if r = -1 then Some (0, w)
         else do {
           let resp_2x = QSEECOM_ALIGN sizeof_5x_cmd;
           (r, w) \<leftarrow> send_match E w;
           if r \<noteq> 0 then do {
             w \<leftarrow> send_error_notice E FINGERPRINT_ERROR_UNABLE_TO_PROCESS w;
             Some (0, w) }
           else if result_of resp_2x w \<noteq> 0 then do {
             w \<leftarrow> send_acquired_notice E (result_of resp_2x w) w;
             f w }
           else if data_of resp_2x 22 w = 2 ^ 31 - 1 then None
           else do {
             let fake_fid = data_of resp_2x 22 w + 1;
             let fingerindex = find_match (finger (tz w)) slot_indices 0 fake_fid;
             (_, w) \<leftarrow> send_payload_release E fingerindex w;
             Some (fingerindex, w) } } } }) (P w)"
  shows "on_return (authenticate_loop E w) (P w)"
proof (rule on_returnI)
  have step': "E' = E \<longrightarrow> P w u" if "authenticate_loop E' w = Some u" for E' w u
  proof (rule authenticate_loop.raw_induct [OF _ that], intro impI, goal_cases)
    case (1 g E' w u)
    then show ?case
      by (intro on_returnD [OF step [of "g E"]]) (auto intro!: on_returnI)
  qed
  show "P w u" if "authenticate_loop E w = Some u" for u
    using step' [OF that] by simp
qed

lemma enroll_loop_return:
  assumes step: "\<And>f count w. (\<And>count v. on_return (f count v) (P count v)) \<Longrightarrow>
    on_return (do {
       (s, w) \<leftarrow> get_tz_state E w;
       if s \<noteq> STATE_ENROLL then Some (Enroll_finish, w)
       else do {
         (r, w) \<leftarrow> vcs_start_capture E 0 w;
         if r = -1 then Some (Goto_out, w)
         else do {
           let resp = QSEECOM_ALIGN sizeof_int;
           (r, w) \<leftarrow> send_enroll_add_image E w;
           if r \<noteq> 0 then do {
             w \<leftarrow> set_tz_state E STATE_IDLE w;
             w \<leftarrow> send_error_notice E FINGERPRINT_ERROR_UNABLE_TO_PROCESS w;
             Some (Return_null, w) }
           else if result_of resp w \<noteq> 0 then do {
             w \<leftarrow> send_acquired_notice E (result_of resp w) w;
             f count w }
           else do {
             let count = enroll_remaining count (data_of resp 2 w);
             w \<leftarrow> send_enroll_notice E (int idx) count w;
             if count = 0 then Some (Enroll_finish, w) else f count w } } } }) (P count w)"
  shows "on_return (enroll_loop E idx count w) (P count w)"
proof (rule on_returnI)
  have step': "E' = E \<and> idx' = idx \<longrightarrow> P count w u" if "enroll_loop E' idx' count w = Some u" for E' idx' count w u
  proof (rule enroll_loop.raw_induct [OF _ that], intro impI, goal_cases)
    case (1 g E' idx' count w u)
    then show ?case
      by (intro on_returnD [OF step [of "g E idx"]]) (auto intro!: on_returnI)
  qed
  show "P count w u" if "enroll_loop E idx count w = Some u" for u
    using step' [OF that] by simp
qed

lemma wait_idle_return:
  assumes step: "\<And>f w. (\<And>v. on_return (f v) (P v)) \<Longrightarrow>
    on_return (do {
       let w = usleep E 100000 w;
       (s, w) \<leftarrow> get_tz_state E w;
       if s = STATE_IDLE then Some w else f w }) (P w)"
  shows "on_return (wait_idle E w) (P w)"
proof (rule on_returnI)
  have step': "E' = E \<longrightarrow> P w u" if "wait_idle E' w = Some u" for E' w u
  proof (rule wait_idle.raw_induct [OF _ that], intro impI, goal_cases)
    case (1 g E' w u)
    then show ?case
      by (intro on_returnD [OF step [of "g E"]]) (auto intro!: on_returnI)
  qed
  show "P w u" if "wait_idle E w = Some u" for u
    using step' [OF that] by simp
qed

end
