(* ===== verification/Fp_Hal.thy ===== *)
theory Fp_Hal
  imports Tz_Workers
begin

text \<open>
  The entry points of the HAL module, the last part of \<open>fingerprint.c\<close>.  Opening the device
  resets the globals; the other functions take the device lock around their work as the source
  does.  Pointer arguments that the code compares with NULL are booleans or options.
\<close>

definition EPERM :: int where "EPERM = 1"
definition ENOMEM :: int where "ENOMEM = 12"
definition EINVAL :: int where "EINVAL = 22"
definition EPROTONOSUPPORT :: int where "EPROTONOSUPPORT = 93"

definition fingerprint_get_auth_id :: "env \<Rightarrow> world \<Rightarrow> (u64 \<times> world) option" where
  "fingerprint_get_auth_id E w = do {
     w \<leftarrow> lock E Dev_lock w;
     let w = log_call (File_read FINGER_DATABASE_FILENAME) w;
     let (h, c) = hash_file (sha w) (contents E (trace w));
     let w = upd_dev (\<lambda>d. d\<lparr>authenticator_id := h\<rparr>) (w\<lparr>sha := c\<rparr>);
     let a = authenticator_id (vdev w);
     w \<leftarrow> unlock Dev_lock w;
     Some (a, w) }"

definition fingerprint_set_active_group :: "env \<Rightarrow> u32 \<Rightarrow> world \<Rightarrow> (int \<times> world) option" where
  "fingerprint_set_active_group E gid w = do {
     w \<leftarrow> lock E Dev_lock w;
     let w = upd_dev (\<lambda>d. d\<lparr>active_gid := gid\<rparr>) w;
     (_, w) \<leftarrow> db_read_to_tz E w;
     w \<leftarrow> unlock Dev_lock w;
     Some (0, w) }"

definition fingerprint_authenticate :: "env \<Rightarrow> u64 \<Rightarrow> world \<Rightarrow> (int \<times> world) option" where
  "fingerprint_authenticate E operation_id w = do {
     w \<leftarrow> lock E Dev_lock w;
     let w = upd_dev (\<lambda>d. d\<lparr>op_id := operation_id\<rparr>) w;
     (r, w) \<leftarrow> vcs_start_authenticate E w;
     w \<leftarrow> unlock Dev_lock w;
     Some (r, w) }"

definition enroll_accept_user :: "hw_auth_token \<Rightarrow> world \<Rightarrow> world" where
  "enroll_accept_user hat w =
    (if hat_challenge hat = challenge (vdev w)
     then upd_dev (\<lambda>d. d\<lparr>secure_user_id := hat_user_id hat\<rparr>) w else w)"

definition fingerprint_enroll :: "env \<Rightarrow> hw_auth_token option \<Rightarrow> u32 \<Rightarrow> world \<Rightarrow> (int \<times> world) option" where
  "fingerprint_enroll E hat timeout_s w =
    (case hat of
       None \<Rightarrow> Some (- EPROTONOSUPPORT, w)
     | Some hat \<Rightarrow>
         let w = enroll_accept_user hat w
         in if hat_version hat \<noteq> hw_auth_token_version E then Some (- EPROTONOSUPPORT, w)
            else if hat_challenge hat \<noteq> challenge (vdev w) \<and>
                    (hat_authenticator_type hat AND hw_auth_fingerprint E) = 0
            then Some (- EPERM, w)
            else do {
              let w = upd_dev (\<lambda>d. d\<lparr>user_id := hat_user_id hat\<rparr>) w;
              w \<leftarrow> lock E Dev_lock w;
              if find_free (finger (tz w)) slot_indices > MAX_NUM_FINGERS
              then do {
                w \<leftarrow> send_error_notice E FINGERPRINT_ERROR_NO_SPACE w;
                w \<leftarrow> unlock Dev_lock w;
                Some (-1, w) }
              else do {
                (r, w) \<leftarrow> vcs_start_enroll E timeout_s w;
                w \<leftarrow> unlock Dev_lock w;
                Some (r, w) } })"

definition fingerprint_pre_enroll :: "env \<Rightarrow> world \<Rightarrow> (u64 \<times> world) option" where
  "fingerprint_pre_enroll E w = do {
     (c, s) \<leftarrow> hash_string (sha w) (auth_token (tz w)) AUTH_TOKEN_LENGTH;
     let w = w\<lparr>sha := s\<rparr>;
     w \<leftarrow> lock E Dev_lock w;
     let w = upd_dev (\<lambda>d. d\<lparr>challenge := c\<rparr>) w;
     w \<leftarrow> unlock Dev_lock w;
     Some (c, w) }"

definition fingerprint_post_enroll :: "env \<Rightarrow> world \<Rightarrow> (int \<times> world) option" where
  "fingerprint_post_enroll E w = do {
     w \<leftarrow> lock E Dev_lock w;
     let w = upd_dev (\<lambda>d. d\<lparr>challenge := 0\<rparr>) w;
     w \<leftarrow> unlock Dev_lock w;
     Some (0, w) }"

text \<open>The wait for the worker reads \<open>tz.state\<close> without its lock.\<close>

partial_function (option) cancel_wait :: "env \<Rightarrow> world \<Rightarrow> world option" where
  "cancel_wait E w = (let w = usleep E 100000 w
     in if tz_state (tz w) = STATE_IDLE then Some w else cancel_wait E w)"

definition cancel_timeout :: "env \<Rightarrow> world \<Rightarrow> world option" where
  "cancel_timeout E w =
    (if timeout_thread (tz_timeout (tz w)) then do {
       w \<leftarrow> lock E Timeout_lock w;
       let w = log_call (Cond_signal Timeout_lock) w;
       w \<leftarrow> unlock Timeout_lock w;
       let w = interfere E (log_call (Thread_join Worker_timeout) w);
       Some (upd_tz (\<lambda>t. t\<lparr>tz_timeout := (tz_timeout t)\<lparr>timeout_thread := False\<rparr>\<rparr>) w) }
     else Some w)"

text \<open>Telling the worker to stop.\<close>

definition cancel_worker :: "env \<Rightarrow> world \<Rightarrow> world option" where
  "cancel_worker E w = do {
     w \<leftarrow> set_tz_state E STATE_CANCEL w;
     let w = ioctl (VFSSPI_IOCTL_SET_DRDY_INT 0) w;
     w \<leftarrow> lock E Sensor_lock w;
     let w = log_call (Cond_signal Sensor_lock) w;
     w \<leftarrow> unlock Sensor_lock w;
     cancel_wait E w }"

definition fingerprint_cancel :: "env \<Rightarrow> world \<Rightarrow> (int \<times> world) option" where
  "fingerprint_cancel E w = do {
     w \<leftarrow> cancel_timeout E w;
     (s, w) \<leftarrow> get_tz_state E w;
     if s \<noteq> STATE_IDLE then do {
       (s, w) \<leftarrow> get_tz_state E w;
       if s \<noteq> STATE_CANCEL then do {
         w \<leftarrow> cancel_worker E w;
         w \<leftarrow> send_error_notice E FINGERPRINT_ERROR_CANCELED w;
         Some (0, w) }
       else Some (0, w) }
     else Some (0, w) }"

definition fingerprint_enumerate :: "env \<Rightarrow> bool \<Rightarrow> world \<Rightarrow> (int \<times> world) option" where
  "fingerprint_enumerate E device_null w =
    (if device_null then Some (-1, w)
     else do {
       w \<leftarrow> lock E Dev_lock w;
       let num = int (vcs_get_enrolled_finger_num w);
       w \<leftarrow> unlock Dev_lock w;
       Some (num, w) })"

definition remove_finger :: "env \<Rightarrow> int \<Rightarrow> world \<Rightarrow> (int \<times> world) option" where
  "remove_finger E fid w = do {
     w \<leftarrow> lock E Dev_lock w;
     (r, w) \<leftarrow> db_write_to_db E True fid w;
     w \<leftarrow> unlock Dev_lock w;
     w \<leftarrow> (if r = 0 then send_remove_notice E fid w else Some w);
     Some (r, w) }"

fun remove_all :: "env \<Rightarrow> nat list \<Rightarrow> int \<Rightarrow> world \<Rightarrow> (int \<times> world) option" where
  "remove_all E [] r w = Some (r, w)"
| "remove_all E (idx # is) r w =
    (if exist (finger (tz w) idx) then do {
       (r, w) \<leftarrow> remove_finger E (int idx) w;
       remove_all E is r w }
     else remove_all E is r w)"

definition fingerprint_remove :: "env \<Rightarrow> bool \<Rightarrow> u32 \<Rightarrow> world \<Rightarrow> (int \<times> world) option" where
  "fingerprint_remove E device_null fid w =
    (if device_null then Some (-1, w)
     else do {
       (r, w) \<leftarrow> (if fid = 0 then remove_all E slot_indices 0 w else remove_finger E (sint fid) w);
       w \<leftarrow> (if r \<noteq> 0 then send_error_notice E FINGERPRINT_ERROR_UNABLE_TO_REMOVE w else Some w);
       Some (r, w) })"

definition set_notify_callback :: "env \<Rightarrow> bool \<Rightarrow> bool \<Rightarrow> world \<Rightarrow> (int \<times> world) option" where
  "set_notify_callback E device_null notify_null w =
    (if device_null \<or> notify_null then Some (-1, w)
     else do {
       w \<leftarrow> lock E Dev_lock w;
       let w = upd_dev (\<lambda>d. d\<lparr>notify_set := True\<rparr>) w;
       w \<leftarrow> unlock Dev_lock w;
       Some (0, w) })"

definition fingerprint_close :: "env \<Rightarrow> bool \<Rightarrow> world \<Rightarrow> (int \<times> world) option" where
  "fingerprint_close E device_null w =
    (if device_null then Some (-1, w)
     else do {
       (_, w) \<leftarrow> fingerprint_cancel E w;
       w \<leftarrow> lock E Dev_lock w;
       let w = snd (db_uninit E w);
       let w = snd (sensor_init w);
       (_, w) \<leftarrow> vcs_init E w;
       (_, w) \<leftarrow> vcs_stop_auth_session E w;
       (_, w) \<leftarrow> vcs_uninit E w;
       let w = snd (sensor_uninit w);
       w \<leftarrow> unlock Dev_lock w;
       let w = foldl (\<lambda>w m. log_call (Mutex_destroy m) w) w [Dev_lock, Sensor_lock, Tz_lock, Timeout_lock];
       let w = log_call Free_device w;
       let w = log_call File_close w;
       let w = upd_sensor (\<lambda>s. s\<lparr>sn_fd := -1\<rparr>) w;
       Some (0, w) })"

text \<open>Clearing \<open>tz\<close>, \<open>sensor\<close> and a new device object, before the driver is opened.
  The mutexes are fresh.\<close>

definition open_reset :: "world \<Rightarrow> world" where
  "open_reset w =
    (let w = foldl (\<lambda>w m. log_call (Mutex_init m) w) w [Dev_lock, Sensor_lock, Tz_lock, Timeout_lock]
     in w\<lparr>vdev := zero_device, tz := zero_tz, sensor := zero_sensor, held := (\<lambda>_. False)\<rparr>)"

definition fingerprint_open :: "env \<Rightarrow> bool \<Rightarrow> world \<Rightarrow> (int \<times> world) option" where
  "fingerprint_open E device_null w =
    (if device_null then Some (- EINVAL, w)
     else let w = log_call Calloc w
     in if \<not> found E (trace w) then Some (- ENOMEM, w)
     else let w = open_reset w;
              (fd, w) = call_ret E (File_open SENSOR_FILE_NAME) w;
              w = upd_sensor (\<lambda>s. s\<lparr>sn_fd := fd\<rparr>) w
     in if fd < 0 then Some (-1, w)
     else do {
       let w = snd (sensor_init w);
       let w = snd (sensor_register w);
       let w = snd (sensor_uninit w);
       w \<leftarrow> lock E Dev_lock w;
       let w = snd (sensor_init w);
       (_, w) \<leftarrow> db_init E w;
       (_, w) \<leftarrow> vcs_init E w;
       (_, w) \<leftarrow> vcs_uninit E w;
       (_, w) \<leftarrow> vcs_init E w;
       (_, w) \<leftarrow> vcs_start_auth_session E w;
       (_, w) \<leftarrow> vcs_uninit E w;
       let w = snd (sensor_uninit w);
       w \<leftarrow> unlock Dev_lock w;
       Some (0, w) })"

subsection \<open>Induction over the loops that return\<close>

lemma cancel_wait_return:
  assumes step: "\<And>f w. (\<And>v. on_return (f v) (P v)) \<Longrightarrow>
    on_return ((let w = usleep E 100000 w
       in if tz_state (tz w) = STATE_IDLE then Some w else f w)) (P w)"
  shows "on_return (cancel_wait E w) (P w)"
proof (rule on_returnI)
  have step': "E' = E \<longrightarrow> P w u" if "cancel_wait E' w = Some u" for E' w u
  proof (rule cancel_wait.raw_induct [OF _ that], intro impI, goal_cases)
    case (1 g E' w u)
    then show ?case
      by (intro on_returnD [OF step [of "g E"]]) (auto intro!: on_returnI)
  qed
  show "P w u" if "cancel_wait E w = Some u" for u
    using step' [OF that] by simp
qed

end
