(* ===== verification/Fp_Frame.thy ===== *)
theory Fp_Frame
  imports Fp_Hal
begin

text \<open>
  What the operations leave alone.  The locale \<open>world_frame\<close> is the interface of the primitive
  steps: a preorder \<open>R\<close> on worlds that every external call, every event of another thread and
  every update of the model's own variables respects, and that sees a locked section as a
  whole.  Inside it every operation is shown to respect \<open>R\<close>, once; the interpretations below
  give it meaning: the mutexes held, the finger slots, the device object, the hash context, the
  history of calls, the messages sent.
\<close>

subsection \<open>The interface\<close>

text \<open>The requests to the driver that do not belong to switching the sensor on or off.\<close>

fun keeps_power :: "ioctl_req \<Rightarrow> bool" where
  "keeps_power (VFSSPI_IOCTL_SET_DRDY_INT n) = True"
| "keeps_power VFSSPI_IOCTL_REGISTER_DRDY_SIGNAL = True"
| "keeps_power VFSSPI_IOCTL_GET_SENSOR_ORIENT = True"
| "keeps_power _ = False"

text \<open>The calls that are neither a message to the framework, nor a command to the application, nor a
  statement that can change the database, nor a step of switching the sensor on or off.\<close>

fun plain_call :: "ext_call \<Rightarrow> bool" where
  "plain_call (Notify m) = False"
| "plain_call (Qsee_send_cmd b s r n) = False"
| "plain_call (Sql_insert c d p) = False"
| "plain_call (Sql_exec c) = False"
| "plain_call (Ioctl r) = keeps_power r"
| "plain_call _ = True"

lemma plain_call_notify: "plain_call c \<Longrightarrow> is_notify c = None"
  by (cases c) simp_all

lemma exchanges_eq [simp]:
  "exchanges = [(102464, 102464, 102464), (64, 64, 64), (102464, 102464, 64), (64, 64, 102464),
     (64, 102464, 102464), (102464, 102464, 102464), (64, 102464, 64), (102464, 102464, 102464),
     (563392, 563392, 204864), (204864, 204864, 102464), (307264, 307264, 102464)]"
  by (simp add: exchanges_def Let_def)

text \<open>The stored calibration lies within its array; the code changes its length only so.\<close>

abbreviation cal_ok :: "trust_zone_t \<Rightarrow> bool" where
  "cal_ok t \<equiv> 0 \<le> calibrate_len t \<and> calibrate_len t \<le> int CALIBRATE_DATA_MAX_LENGTH"

locale world_frame =
  fixes R :: "world \<Rightarrow> world \<Rightarrow> bool" and ok :: "fingerprint_msg \<Rightarrow> bool"
  assumes refl: "R w w"
    and trans: "R u v \<Longrightarrow> R v w \<Longrightarrow> R u w"
    and log: "plain_call c \<Longrightarrow> R w (log_call c w)"
    and sent: "(s, r, n) \<in> set exchanges \<Longrightarrow> R w (log_call (Qsee_send_cmd b s r n) w)"
    and msg: "ok x \<Longrightarrow> R w (log_call (Notify x) w)"
    and event: "R w (apply_event w e)"
    and tz_upd: "(\<And>t. finger (f t) = finger t \<and> qhandle (f t) = qhandle t \<and> tz_init (f t) = tz_init t \<and>
                    (cal_ok t \<longrightarrow> cal_ok (f t))) \<Longrightarrow>
                 R w (upd_tz f w)"
    and app_opened: "R w (upd_tz (\<lambda>t. t\<lparr>qhandle := True\<rparr>) w)"
    and app_ready: "qhandle (tz w) \<Longrightarrow> R w (upd_tz (\<lambda>t. t\<lparr>tz_init := True\<rparr>) w)"
    and app_closed: "R w (upd_tz (\<lambda>t. t\<lparr>qhandle := qh, tz_init := False\<rparr>) w)"
    and sensor_upd: "(\<And>s. sn_init (g s) = sn_init s) \<Longrightarrow> R w (upd_sensor g w)"
    and sensor_on: "R w (snd (sensor_init w))"
    and sensor_off: "R w (snd (sensor_uninit w))"
    and buf: "R w (w\<lparr>ibuf := b\<rparr>)"
    and km_handle_upd: "\<not> km_init w \<Longrightarrow> R w (w\<lparr>km_handle := p\<rparr>)"
    and km_init_upd: "km_handle w = Km_loaded \<Longrightarrow> R w (w\<lparr>km_init := True\<rparr>)"
    and locked: "\<not> held w m \<Longrightarrow> R (w\<lparr>held := (held w)(m := True)\<rparr>) v \<Longrightarrow>
                 R w (v\<lparr>held := (held v)(m := False)\<rparr>)"
    and waiting: "held w m \<Longrightarrow> R (w\<lparr>held := (held w)(m := False)\<rparr>) v \<Longrightarrow>
                  R w (v\<lparr>held := (held v)(m := True)\<rparr>)"
begin

subsubsection \<open>Primitive steps, after a history \<open>R w w1\<close>\<close>

lemma after_sent: "R w w1 \<Longrightarrow> (s, r, n) \<in> set exchanges \<Longrightarrow> R w (log_call (Qsee_send_cmd b s r n) w1)"
  by (rule trans [OF _ sent])

lemma after_log: "R w w1 \<Longrightarrow> plain_call c \<Longrightarrow> R w (log_call c w1)"
  by (rule trans [OF _ log])

lemma after_tz: "R w w1 \<Longrightarrow> (\<And>t. finger (f t) = finger t \<and> qhandle (f t) = qhandle t \<and> tz_init (f t) = tz_init t \<and>
    (cal_ok t \<longrightarrow> cal_ok (f t))) \<Longrightarrow> R w (upd_tz f w1)"
  by (rule trans [OF _ tz_upd])

lemma after_sensor: "R w w1 \<Longrightarrow> (\<And>s. sn_init (g s) = sn_init s) \<Longrightarrow> R w (upd_sensor g w1)"
  by (rule trans [OF _ sensor_upd])

lemma after_buf: "R w w1 \<Longrightarrow> R w (upd_buf g w1)"
  unfolding upd_buf_def by (rule trans [OF _ buf])

lemma after_write:
  "R w w1 \<Longrightarrow> R w (wr32 o1 x w1)" "R w w1 \<Longrightarrow> R w (wr8 o1 y w1)"
  "R w w1 \<Longrightarrow> R w (wr_zero n w1)" "R w w1 \<Longrightarrow> R w (wr_copy o1 s n w1)"
  unfolding wr32_def wr8_def wr_zero_def wr_copy_def by (rule after_buf, assumption)+

lemma after_ioctl: "R w w1 \<Longrightarrow> keeps_power r \<Longrightarrow> R w (ioctl r w1)"
  unfolding ioctl_def by (rule after_log) simp_all

lemma after_interfere: "R w w1 \<Longrightarrow> R w (interfere E w1)"
proof -
  have "R w w1 \<Longrightarrow> R w (foldl apply_event w1 es)" for es
    by (induction es arbitrary: w1) (auto intro: trans [OF _ event])
  then show "R w w1 \<Longrightarrow> R w (interfere E w1)" by (simp add: interfere_def)
qed

lemma after_usleep: "R w w1 \<Longrightarrow> R w (usleep E us w1)"
  unfolding usleep_def by (intro after_interfere after_log) simp_all

lemma after_if: "(b \<Longrightarrow> R w u) \<Longrightarrow> (\<not> b \<Longrightarrow> R w v) \<Longrightarrow> R w (if b then u else v)"
  by simp

lemma after_sensor_init: "R w w1 \<Longrightarrow> R w (snd (sensor_init w1))"
  by (rule trans [OF _ sensor_on])

lemma after_sensor_uninit: "R w w1 \<Longrightarrow> R w (snd (sensor_uninit w1))"
  by (rule trans [OF _ sensor_off])

lemma after_sensor_register: "R w w1 \<Longrightarrow> R w (snd (sensor_register w1))"
  by (auto simp: sensor_register_def Let_def intro!: after_ioctl after_log)

lemma after_capture_start: "R w w1 \<Longrightarrow> R w (snd (sensor_capture_start E w1))"
  by (auto simp: sensor_capture_start_def call_ret_def Let_def intro: after_log)

lemmas after = after_log after_tz after_sensor after_buf after_write after_ioctl after_usleep after_if
  after_sensor_init after_sensor_uninit after_sensor_register after_capture_start

subsubsection \<open>Composition\<close>

lemma ret_pair: "R w w1 \<Longrightarrow> on_return (Some (r, w1)) (\<lambda>(_, u). R w u)"
  by simp

lemma ret_world: "R w w1 \<Longrightarrow> on_return (Some w1) (R w)"
  by simp

lemma bind_pair:
  "on_return m (\<lambda>(_, v). R w v) \<Longrightarrow> (\<And>a v. R w v \<Longrightarrow> on_return (f a v) Q) \<Longrightarrow>
   on_return (Option.bind m (\<lambda>(a, v). f a v)) Q"
  by (cases m) auto

lemma bind_world:
  "on_return m (R w) \<Longrightarrow> (\<And>v. R w v \<Longrightarrow> on_return (f v) Q) \<Longrightarrow> on_return (Option.bind m f) Q"
  by (cases m) auto

lemma bind_unit: "on_return (f ()) Q \<Longrightarrow> on_return (Option.bind (m :: unit option) f) Q"
  by (cases m) auto

lemma if_rule: "(b \<Longrightarrow> on_return m Q) \<Longrightarrow> (\<not> b \<Longrightarrow> on_return n Q) \<Longrightarrow> on_return (if b then m else n) Q"
  by simp

lemma unlock_cases: "unlock m v = Some u \<Longrightarrow> u = v\<lparr>held := (held v)(m := False)\<rparr>"
  by (simp add: unlock_def split: if_splits)

lemma lock_cases:
  assumes "lock E m w1 = Some v" "R w w1"
  obtains v0 where "R w v0" "\<not> held v0 m" "v = v0\<lparr>held := (held v0)(m := True)\<rparr>"
proof -
  let ?v0 = "interfere E (log_call (Mutex_lock m) w1)"
  have "held ?v0 = held w1" by (rule held_steps [OF steps_only_interfere])
  with assms that [of ?v0] after_interfere [OF after_log [OF assms(2), of "Mutex_lock m"]]
  show thesis by (auto simp: lock_def Let_def split: if_splits)
qed

text \<open>A locked section, followed by the rest of the function.\<close>

lemma section_world:
  assumes "R w w1" "\<And>v. on_return (f v) (R v)" "\<And>u. R w u \<Longrightarrow> on_return (k u) Q"
  shows "on_return (Option.bind (lock E m w1) (\<lambda>v. Option.bind (f v) (\<lambda>u. Option.bind (unlock m u) k))) Q"
proof (rule on_returnI)
  fix x assume "Option.bind (lock E m w1) (\<lambda>v. Option.bind (f v) (\<lambda>u. Option.bind (unlock m u) k)) = Some x"
  then obtain v u u' where l: "lock E m w1 = Some v" and f: "f v = Some u"
    and un: "unlock m u = Some u'" and k: "k u' = Some x"
    by (auto simp: bind_eq_Some_conv)
  from l assms(1) obtain v0 where v0: "R w v0" "\<not> held v0 m" "v = v0\<lparr>held := (held v0)(m := True)\<rparr>"
    by (rule lock_cases)
  have "R v u" using assms(2) f by (rule on_returnD)
  with v0 un have "R w u'" by (auto dest!: unlock_cases intro!: trans [OF v0(1) locked])
  from on_returnD [OF assms(3) [OF this] k] show "Q x" .
qed

lemma section_let:
  assumes "R w w1" "\<And>v. R v (h v)" "\<And>u. R w u \<Longrightarrow> on_return (k u) Q"
  shows "on_return (Option.bind (lock E m w1) (\<lambda>v. Option.bind (unlock m (h v)) k)) Q"
  using section_world [of w w1 "\<lambda>v. Some (h v)" k Q E m] assms by simp

lemma section_pair:
  assumes "R w w1" "\<And>v. on_return (f v) (\<lambda>(_, u). R v u)" "\<And>a u. R w u \<Longrightarrow> on_return (k a u) Q"
  shows "on_return (Option.bind (lock E m w1) (\<lambda>v. Option.bind (f v) (\<lambda>(a, u). Option.bind (unlock m u) (k a)))) Q"
proof (rule on_returnI)
  fix x assume "Option.bind (lock E m w1) (\<lambda>v. Option.bind (f v) (\<lambda>(a, u). Option.bind (unlock m u) (k a))) = Some x"
  then obtain v a u u' where l: "lock E m w1 = Some v" and f: "f v = Some (a, u)"
    and un: "unlock m u = Some u'" and k: "k a u' = Some x"
    by (auto simp: bind_eq_Some_conv)
  from l assms(1) obtain v0 where v0: "R w v0" "\<not> held v0 m" "v = v0\<lparr>held := (held v0)(m := True)\<rparr>"
    by (rule lock_cases)
  have "R v u" using on_returnD [OF assms(2) f] by simp
  with v0 un have "R w u'" by (auto dest!: unlock_cases intro!: trans [OF v0(1) locked])
  from on_returnD [OF assms(3) [OF this] k] show "Q x" .
qed

lemmas steps = after ret_pair if_rule bind_unit bind_pair

subsubsection \<open>The operations\<close>

lemma get_tz_state_frame: "R w w1 \<Longrightarrow> on_return (get_tz_state E w1) (\<lambda>(_, u). R w u)"
  by (auto simp: get_tz_state_eq Let_def intro!: after_interfere after_log)

lemma set_tz_state_frame: "R w w1 \<Longrightarrow> on_return (set_tz_state E s w1) (R w)"
  by (auto simp: set_tz_state_eq Let_def intro!: after_interfere after_log after_tz)

lemma load_symbols_frame: "R w w1 \<Longrightarrow> R w (snd (load_symbols E ss w1))"
  by (induction ss arbitrary: w1) (simp_all add: Let_def after_log)

lemma init_qsee_frame: "R w w1 \<Longrightarrow> R w (snd (init_qsee E w1))"
proof -
  assume R: "R w w1"
  let ?m = "log_call Qsee_malloc w1"
  let ?l = "log_call Qsee_dlopen (?m\<lparr>km_handle := Km_loaded\<rparr>)"
  have m: "R w ?m" by (rule after_log [OF R]) simp
  show ?thesis
  proof (cases "km_init w1")
    case False
    have l: "R w (snd (load_symbols E qsee_symbols ?l))" "R w ?l"
      using False by (intro load_symbols_frame after_log trans [OF m km_handle_upd]; simp add: log_call_def)+
    note same = load_symbols_same [of ?l E qsee_symbols]
    have "R w (snd (load_symbols E qsee_symbols ?l)\<lparr>km_init := True\<rparr>)"
      using same by (intro trans [OF l(1) km_init_upd]) (simp add: log_call_def)
    moreover have "R w (snd (load_symbols E qsee_symbols ?l)\<lparr>km_handle := Km_freed\<rparr>)"
      using same False by (intro trans [OF l(1) km_handle_upd]) (simp add: log_call_def)
    moreover have "R w (?m\<lparr>km_handle := Km_null\<rparr>)" "R w (?l\<lparr>km_handle := Km_freed\<rparr>)"
      using False by (intro trans [OF m km_handle_upd] trans [OF l(2) km_handle_upd]; simp add: log_call_def)+
    ultimately show ?thesis
      using False by (auto simp: init_qsee_def qcom_km_get_lib_sym_def Let_def split_beta)
  qed (simp add: init_qsee_done R)
qed

lemma qsee_frame:
  assumes "R w w1"
  shows "on_return (QSEECom_start_app E w1) (\<lambda>(_, u). R w u)"
    "(s, r, l) \<in> set exchanges \<Longrightarrow> on_return (QSEECom_send_cmd E s r l w1) (\<lambda>(_, u). R w u)"
    "on_return (QSEECom_set_bandwidth E b w1) (\<lambda>(_, u). R w u)"
  unfolding QSEECom_start_app_def QSEECom_send_cmd_def
    QSEECom_set_bandwidth_def call_ret_def Let_def prod.case
  by (intro steps after_sent init_qsee_frame assms trans [OF _ buf] trans [OF _ app_opened]; simp)+

text \<open>The application is shut down, and forgotten, in one go.\<close>

lemma shutdown_frame:
  assumes "R w w1" "\<And>v. R w v \<Longrightarrow> on_return (k v) Q"
  shows "on_return (Option.bind (QSEECom_shutdown_app E w1) (\<lambda>(_, u). k (upd_tz (\<lambda>t. t\<lparr>tz_init := False\<rparr>) u))) Q"
proof -
  let ?v = "log_call Qsee_shutdown_app (snd (init_qsee E w1))"
  have v: "R w ?v" by (intro after_log init_qsee_frame assms) simp
  have "upd_tz (\<lambda>t. t\<lparr>tz_init := False\<rparr>) (upd_tz (\<lambda>t. t\<lparr>qhandle := False\<rparr>) ?v) =
      upd_tz (\<lambda>t. t\<lparr>qhandle := False, tz_init := False\<rparr>) ?v" by (simp add: upd_tz_def)
  moreover have "upd_tz (\<lambda>t. t\<lparr>tz_init := False\<rparr>) ?v =
      upd_tz (\<lambda>t. t\<lparr>qhandle := qhandle (tz ?v), tz_init := False\<rparr>) ?v" by (simp add: upd_tz_def)
  ultimately have "R w (upd_tz (\<lambda>t. t\<lparr>tz_init := False\<rparr>) (upd_tz (\<lambda>t. t\<lparr>qhandle := False\<rparr>) ?v))"
    "R w (upd_tz (\<lambda>t. t\<lparr>tz_init := False\<rparr>) ?v)"
    using trans [OF v app_closed] by metis+
  then show ?thesis
    using assms(2) by (auto simp: QSEECom_shutdown_app_def call_ret_def Let_def on_return_bind on_return_def [of _ "\<lambda>_. True"])
qed

lemmas calls = get_tz_state_frame qsee_frame

lemma store_calibration_frame: "R w w1 \<Longrightarrow> on_return (store_calibration resp w1) (R w)"
  by (auto simp: store_calibration_def Let_def intro!: after_tz)

lemma tz_session_frame:
  assumes "R w w1"
  shows "on_return (vcs_update_cal_data E w1) (\<lambda>(_, u). R w u)"
    "on_return (vcs_check_state E w1) (\<lambda>(_, u). R w u)"
    "on_return (auth_token_request E b w1) (\<lambda>(_, u). R w u)"
    "on_return (vcs_start_auth_session E w1) (\<lambda>(_, u). R w u)"
    "on_return (vcs_stop_auth_session E w1) (\<lambda>(_, u). R w u)"
    "on_return (resume_initialize E w1) (\<lambda>(_, u). R w u)"
    "on_return (resume_enter_session E w1) (\<lambda>(_, u). R w u)"
    "on_return (resume_device_initialize E w1) (\<lambda>(_, u). R w u)"
    "on_return (resume_device_calibrate E w1) (\<lambda>(_, u). R w u)"
  unfolding vcs_update_cal_data_def vcs_check_state_def auth_token_request_def vcs_start_auth_session_def
    vcs_stop_auth_session_def resume_initialize_def resume_enter_session_def resume_device_initialize_def
    resume_device_calibrate_def Let_def
  by (intro steps calls bind_world store_calibration_frame set_tz_state_frame assms; simp add: assms)+

lemma vcs_update_auth_token_frame: "R w w1 \<Longrightarrow> on_return (vcs_update_auth_token E w1) (\<lambda>(_, u). R w u)"
  unfolding vcs_update_auth_token_def Let_def
  by (intro steps calls tz_session_frame; simp)

lemma sum_rule:
  "(\<And>a. x = Inl a \<Longrightarrow> on_return (f a) Q) \<Longrightarrow> (\<And>b. x = Inr b \<Longrightarrow> on_return (g b) Q) \<Longrightarrow>
   on_return (case x of Inl a \<Rightarrow> f a | Inr b \<Rightarrow> g b) Q"
  by (cases x) simp_all

lemma vcs_resume_frame: "R w w1 \<Longrightarrow> on_return (vcs_resume E w1) (\<lambda>(_, u). R w u)"
  unfolding vcs_resume_def Let_def
  by (intro steps calls tz_session_frame sum_rule; simp)

lemma vcs_uninit_frame: "R w w1 \<Longrightarrow> on_return (vcs_uninit E w1) (\<lambda>(_, u). R w u)"
proof -
  assume R: "R w w1"
  have "on_return (map_option snd (vcs_update_auth_token E w1)) (R w)"
    using vcs_update_auth_token_frame [OF R, of E] by (auto simp: on_return_def)
  with R show ?thesis
    unfolding vcs_uninit_def Let_def
    by (intro steps calls bind_world [OF _ shutdown_frame] bind_world shutdown_frame
      [where k = "\<lambda>v. Option.bind (set_tz_state E STATE_IDLE v) (\<lambda>u. Some (0, u))"] set_tz_state_frame; simp)
qed

lemma vcs_init_frame: "R w w1 \<Longrightarrow> on_return (vcs_init E w1) (\<lambda>(_, u). R w u)"
proof -
  assume R: "R w w1"
  have start: "on_return (QSEECom_start_app E w1) (\<lambda>(r, u). R w u \<and> (r = 0 \<longrightarrow> qhandle (tz u)))"
    using qsee_frame(1) [OF R, of E]
    by (auto simp: on_return_def QSEECom_start_app_def call_ret_def Let_def upd_tz_def bind_eq_Some_conv)
  have band: "on_return (QSEECom_set_bandwidth E True v) (\<lambda>(r, u). R w u \<and> tz u = tz v)" if "R w v" for v
    using qsee_frame(3) [OF that, of E True] init_qsee_same [of v E]
    by (auto simp: on_return_def QSEECom_set_bandwidth_def call_ret_def Let_def log_call_def bind_eq_Some_conv same_app_def)
  show ?thesis
  proof (rule on_returnI)
    fix x assume "vcs_init E w1 = Some x"
    then consider "x = (0, w1)" | r v where "QSEECom_start_app E w1 = Some (r, v)" "x = (-1, v)"
      | v r u where "QSEECom_start_app E w1 = Some (0, v)" "QSEECom_set_bandwidth E True v = Some (r, u)" "x = (-1, u)"
      | v u where "QSEECom_start_app E w1 = Some (0, v)" "QSEECom_set_bandwidth E True v = Some (0, u)"
          "vcs_resume E (upd_tz (\<lambda>t. t\<lparr>tz_init := True\<rparr>) u) = Some x"
      by (auto simp: vcs_init_def bind_eq_Some_conv split: if_splits)
    then show "case x of (_, u) \<Rightarrow> R w u"
    proof cases
      case (4 v u)
      from on_returnD [OF start 4(1)] have v: "R w v" "qhandle (tz v)" by simp_all
      with on_returnD [OF band 4(2)] have "R w u" "qhandle (tz u)" by simp_all
      then have "R w (upd_tz (\<lambda>t. t\<lparr>tz_init := True\<rparr>) u)" by (intro trans [OF _ app_ready])
      from on_returnD [OF vcs_resume_frame [OF this] 4(3)] show ?thesis .
    next
      case (3 v r u)
      from on_returnD [OF start 3(1)] have v: "R w v" by simp
      from on_returnD [OF band [OF v] 3(2)] 3(3) show ?thesis by simp
    next
      case (2 r v)
      from on_returnD [OF start 2(1)] 2(2) show ?thesis by simp
    qed (simp add: R)
  qed
qed

lemmas sessions = tz_session_frame vcs_update_auth_token_frame vcs_resume_frame vcs_uninit_frame vcs_init_frame

subsubsection \<open>The capture\<close>

lemma cond_wait_frame: "R w w1 \<Longrightarrow> on_return (cond_wait E m w1) (R w)"
proof (rule on_returnI)
  fix u assume R: "R w w1" and u: "cond_wait E m w1 = Some u"
  let ?v = "w1\<lparr>held := (held w1)(m := False)\<rparr>"
  have "R ?v (interfere E (log_call (Cond_wait m) ?v))"
    by (intro after_interfere after_log refl) simp
  with u show "R w u"
    by (auto simp: cond_wait_def Let_def split: if_splits intro!: trans [OF R waiting])
qed

lemma capture_wait_frame: "R w w1 \<Longrightarrow> on_return (capture_wait E w1) (R w)"
proof -
  have "on_return (capture_wait E w1) (\<lambda>u. R w w1 \<longrightarrow> R w u)"
  proof (rule capture_wait_return)
    fix f v assume IH: "\<And>v. on_return (f v) (\<lambda>u. R w v \<longrightarrow> R w u)"
    have f: "on_return (f v) (R w)" if "R w v" for v
      using IH [of v] that by (simp add: on_return_def)
    show "on_return (do { (stop, w) \<leftarrow> vcs_check_state E v;
        if stop = 0 \<and> \<not> sn_signal (sensor w) then do { w \<leftarrow> cond_wait E Sensor_lock w; f w }
        else Some w }) (\<lambda>u. R w v \<longrightarrow> R w u)"
      unfolding on_return_imp
      by (intro impI bind_pair tz_session_frame if_rule bind_world cond_wait_frame f; simp)
  qed
  then show "R w w1 \<Longrightarrow> on_return (capture_wait E w1) (R w)"
    by (simp add: on_return_imp)
qed

text \<open>The messages that build a command and send it.\<close>

lemma send_frame:
  assumes "R w w1"
  shows "on_return (send_capture_start E t w1) (\<lambda>(_, u). R w u)"
    "on_return (send_capture_read E w1) (\<lambda>(_, u). R w u)"
    "on_return (send_capture_process E w1) (\<lambda>(_, u). R w u)"
    "on_return (send_vendor_unknown E c w1) (\<lambda>(_, u). R w u)"
    "on_return (send_payload_release E i w1) (\<lambda>(_, u). R w u)"
    "on_return (send_enroll_begin E i w1) (\<lambda>(_, u). R w u)"
    "on_return (send_enroll_add_image E w1) (\<lambda>(_, u). R w u)"
    "on_return (send_enroll_finish E w1) (\<lambda>(_, u). R w u)"
    "on_return (send_payload_bind E b w1) (\<lambda>(_, u). R w u)"
    "on_return (send_password_set E b w1) (\<lambda>(_, u). R w u)"
  unfolding send_capture_start_def send_capture_read_def send_capture_process_def
    send_vendor_unknown_def send_payload_release_def send_enroll_begin_def send_enroll_add_image_def
    send_enroll_finish_def send_payload_bind_def send_password_set_def Let_def
  by (intro steps calls assms; simp)+

lemma put_templates_frame: "R w w1 \<Longrightarrow> R w (put_templates is len w1)"
  by (induction "is" arbitrary: len w1) (simp_all add: Let_def after_write)

lemma send_match_frame: "R w w1 \<Longrightarrow> on_return (send_match E w1) (\<lambda>(_, u). R w u)"
  unfolding send_match_def Let_def
  by (intro steps calls put_templates_frame; simp)

lemma capture_read_frame: "R w w1 \<Longrightarrow> on_return (capture_read E w1) (\<lambda>(_, u). R w u)"
proof -
  have "on_return (capture_read E w1) (\<lambda>x. R w w1 \<longrightarrow> (case x of (_, u) \<Rightarrow> R w u))"
  proof (rule capture_read_return, unfold on_return_imp, rule impI)
    fix f :: "world \<Rightarrow> (int \<times> world) option" and v
    assume IH: "\<And>v. R w v \<longrightarrow> on_return (f v) (\<lambda>(_, u). R w u)" and "R w v"
    note f = IH [THEN mp]
    show "on_return (do { (stop, w) \<leftarrow> vcs_check_state E v;
       if stop \<noteq> 0 then Some (-1, w)
       else do { (r, w) \<leftarrow> send_capture_read E w;
         if r \<noteq> 0 \<or> result_of (QSEECOM_ALIGN sizeof_int) w \<noteq> 0 then f w
         else if data_of (QSEECOM_ALIGN sizeof_int) 2 w = 2 then Some (0, w)
         else f w } }) (\<lambda>(_, u). R w u)"
      by (intro steps tz_session_frame send_frame f; (fact | simp))
  qed
  then show "R w w1 \<Longrightarrow> on_return (capture_read E w1) (\<lambda>(_, u). R w u)"
    by (simp add: on_return_imp)
qed

lemma capture_arm_frame: "R w w1 \<Longrightarrow> on_return (capture_arm E w1) (\<lambda>(_, u). R w u)"
  unfolding capture_arm_def Let_def
  by (intro bind_pair tz_session_frame section_let section_world capture_wait_frame ret_pair if_rule
      after_if after_sensor after_capture_start refl; simp)

end

text \<open>A notice is a locked section of the device lock around the call of the framework.\<close>

context world_frame begin

lemma section_last:
  assumes "R w w1" "\<And>v. on_return (f v) (R v)"
  shows "on_return (Option.bind (lock E m w1) (\<lambda>v. Option.bind (f v) (unlock m))) (R w)"
  using section_world [of w w1 f Some "R w" E m] assms by simp

lemma notify_frame: "ok x \<Longrightarrow> on_return (notify x v) (R v)"
  by (simp add: notify_def msg)

lemma notice_frame:
  assumes "R w w1"
  shows "ok (Msg_error e) \<Longrightarrow> on_return (send_error_notice E e w1) (R w)"
    "(\<And>i. ok (Msg_acquired i)) \<Longrightarrow> on_return (send_acquired_notice E r w1) (R w)"
    "ok (Msg_removed k) \<Longrightarrow> on_return (send_remove_notice E k w1) (R w)"
    "(\<And>n. ok (Msg_enrolling k n)) \<Longrightarrow> on_return (send_enroll_notice E k n w1) (R w)"
  unfolding send_error_notice_def send_acquired_notice_def send_remove_notice_def
    send_enroll_notice_def Let_def
  by (intro if_rule section_last notify_frame assms; simp add: assms)+

lemma authenticated_notice_frame:
  assumes "\<And>i. ok (Msg_acquired i)" "\<And>h. ok (Msg_authenticated k h)" "R w w1"
  shows "on_return (send_authenticated_notice E k w1) (R w)"
  unfolding send_authenticated_notice_def Let_def
proof (rule bind_world)
  show "on_return (send_acquired_notice E acquired_good w1) (R w)"
    using assms by (intro notice_frame)
qed (intro section_last notify_frame after_log assms; simp)

end

subsection \<open>The capture and the authenticating worker\<close>

locale capture_frame = world_frame +
  assumes acquired: "ok (Msg_acquired i)"
begin

lemma vcs_start_capture_frame: "R w w1 \<Longrightarrow> on_return (vcs_start_capture E t w1) (\<lambda>(_, u). R w u)"
proof -
  have "on_return (vcs_start_capture E t w1) (\<lambda>x. R w w1 \<longrightarrow> (case x of (_, u) \<Rightarrow> R w u))"
  proof (rule vcs_start_capture_return, unfold on_return_imp Let_def, rule impI)
    fix f :: "u32 \<Rightarrow> world \<Rightarrow> (int \<times> world) option" and t v
    assume IH: "\<And>t v. R w v \<longrightarrow> on_return (f t v) (\<lambda>(_, u). R w u)" and "R w v"
    note f = IH [THEN mp]
    show "on_return (do {
         _ \<leftarrow> ion_sbuffer v;
         (r, w) \<leftarrow> send_capture_start E t v;
         if r \<noteq> 0 \<or> result_of (QSEECOM_ALIGN sizeof_base_cmd) w \<noteq> 0 then Some (r, w)
         else do {
           (go, w) \<leftarrow> capture_arm E w;
           if \<not> go then Some (-1, w)
           else do {
             (r, w) \<leftarrow> capture_read E w;
             if r \<noteq> 0 then Some (-1, w)
             else do {
               (r, w) \<leftarrow> send_capture_process E w;
               if r \<noteq> 0 then Some (-1, w)
               else if result_of (QSEECOM_ALIGN sizeof_base_cmd) w \<noteq> 0 then do {
                 w \<leftarrow> send_acquired_notice E (result_of (QSEECOM_ALIGN sizeof_base_cmd) w) w;
                 f (seconds E (trace (log_call Clock_time w))) (log_call Clock_time w) }
               else Some (0, w) } } } }) (\<lambda>(_, u). R w u)"
      by (intro steps send_frame capture_arm_frame capture_read_frame bind_world notice_frame f;
          (fact | simp add: acquired))
  qed
  then show "R w w1 \<Longrightarrow> on_return (vcs_start_capture E t w1) (\<lambda>(_, u). R w u)"
    by (simp add: on_return_imp)
qed

end

locale match_frame = capture_frame +
  assumes unable: "ok (Msg_error FINGERPRINT_ERROR_UNABLE_TO_PROCESS)"
begin

lemma authenticate_loop_frame: "R w w1 \<Longrightarrow> on_return (authenticate_loop E w1) (\<lambda>(_, u). R w u)"
proof -
  have "on_return (authenticate_loop E w1) (\<lambda>x. R w w1 \<longrightarrow> (case x of (_, u) \<Rightarrow> R w u))"
  proof (rule authenticate_loop_return, unfold on_return_imp Let_def, rule impI)
    fix f :: "world \<Rightarrow> (nat \<times> world) option" and v
    assume IH: "\<And>v. R w v \<longrightarrow> on_return (f v) (\<lambda>(_, u). R w u)" and "R w v"
    note f = IH [THEN mp]
    show "on_return (do {
         (s, w) \<leftarrow> get_tz_state E v;
         if s \<noteq> STATE_SCAN then Some (0, w)
         else do {
           (r, w) \<leftarrow> vcs_start_capture E 0 w;
           if r = -1 then Some (0, w)
           else do {
             (r, w) \<leftarrow> send_match E w;
             if r \<noteq> 0 then do {
               w \<leftarrow> send_error_notice E FINGERPRINT_ERROR_UNABLE_TO_PROCESS w;
               Some (0, w) }
             else if result_of (QSEECOM_ALIGN sizeof_5x_cmd) w \<noteq> 0 then do {
               w \<leftarrow> send_acquired_notice E (result_of (QSEECOM_ALIGN sizeof_5x_cmd) w) w;
               f w }
             else if data_of (QSEECOM_ALIGN sizeof_5x_cmd) 22 w = 2 ^ 31 - 1 then None
             else do {
               (_, v) \<leftarrow> send_payload_release E (find_match (finger (tz w)) slot_indices 0
                    (data_of (QSEECOM_ALIGN sizeof_5x_cmd) 22 w + 1)) w;
               Some (find_match (finger (tz w)) slot_indices 0
                    (data_of (QSEECOM_ALIGN sizeof_5x_cmd) 22 w + 1), v) } } } }) (\<lambda>(_, u). R w u)"
      by (intro if_rule ret_pair bind_pair get_tz_state_frame send_frame vcs_start_capture_frame
          send_match_frame bind_world notice_frame f on_return_None;
          (fact | simp add: acquired unable))
  qed
  then show "R w w1 \<Longrightarrow> on_return (authenticate_loop E w1) (\<lambda>(_, u). R w u)"
    by (simp add: on_return_imp)
qed

text \<open>How the enrolling thread ends.\<close>

lemma exit_frame:
  assumes "R w w1"
  shows "on_return (enroll_out E w1) (R w)" "on_return (enroll_fail E w1) (R w)"
  unfolding enroll_out_def enroll_fail_def Let_def
  by (intro bind_world set_tz_state_frame bind_pair sessions after ret_world notice_frame unable; (fact | simp add: assms))+

text \<open>The authenticating thread up to its last notice.\<close>

lemma authenticate_body_frame:
  assumes "R w w1"
  shows "on_return (do {
     _ \<leftarrow> ion_sbuffer w1;
     (_, w) \<leftarrow> send_vendor_unknown E vendorUnknown0 w1;
     (fingerindex, w) \<leftarrow> authenticate_loop E w;
     let w = snd (sensor_uninit w);
     (_, w) \<leftarrow> vcs_uninit E w;
     w \<leftarrow> set_tz_state E STATE_IDLE w;
     Some (fingerindex, w) }) (\<lambda>(_, u). R w u)"
  unfolding Let_def
  by (intro steps send_frame authenticate_loop_frame sessions bind_world set_tz_state_frame; (fact | simp))

end

locale authenticate_frame = match_frame +
  assumes authenticated: "ok (Msg_authenticated k h)"
begin

lemma vcs_authenticate_frame: "R w w1 \<Longrightarrow> on_return (vcs_authenticate E w1) (R w)"
  unfolding vcs_authenticate_def Let_def
  by (intro bind_unit bind_pair after send_frame authenticate_loop_frame sessions bind_world
      set_tz_state_frame if_rule authenticated_notice_frame; simp add: acquired authenticated)

end

subsection \<open>The enrolling worker\<close>

locale image_frame = match_frame +
  assumes enrolling: "ok (Msg_enrolling i n)"
begin

lemma enroll_loop_frame: "R w w1 \<Longrightarrow> on_return (enroll_loop E idx count w1) (\<lambda>(_, u). R w u)"
proof -
  have "on_return (enroll_loop E idx count w1) (\<lambda>x. R w w1 \<longrightarrow> (case x of (_, u) \<Rightarrow> R w u))"
  proof (rule enroll_loop_return, unfold on_return_imp Let_def, rule impI)
    fix f :: "int \<Rightarrow> world \<Rightarrow> (enroll_exit \<times> world) option" and count v
    assume IH: "\<And>count v. R w v \<longrightarrow> on_return (f count v) (\<lambda>(_, u). R w u)" and "R w v"
    note f = IH [THEN mp]
    show "on_return (do {
         (s, w) \<leftarrow> get_tz_state E v;
         if s \<noteq> STATE_ENROLL then Some (Enroll_finish, w)
         else do {
           (r, w) \<leftarrow> vcs_start_capture E 0 w;
           if r = -1 then Some (Goto_out, w)
           else do {
             (r, w) \<leftarrow> send_enroll_add_image E w;
             if r \<noteq> 0 then do {
               w \<leftarrow> set_tz_state E STATE_IDLE w;
               w \<leftarrow> send_error_notice E FINGERPRINT_ERROR_UNABLE_TO_PROCESS w;
               Some (Return_null, w) }
             else if result_of (QSEECOM_ALIGN sizeof_int) w \<noteq> 0 then do {
               w \<leftarrow> send_acquired_notice E (result_of (QSEECOM_ALIGN sizeof_int) w) w;
               f count w }
             else do {
               v \<leftarrow> send_enroll_notice E (int idx)
                    (enroll_remaining count (data_of (QSEECOM_ALIGN sizeof_int) 2 w)) w;
               if enroll_remaining count (data_of (QSEECOM_ALIGN sizeof_int) 2 w) = 0
               then Some (Enroll_finish, v)
               else f (enroll_remaining count (data_of (QSEECOM_ALIGN sizeof_int) 2 w)) v } } } })
        (\<lambda>(_, u). R w u)"
      by (intro if_rule ret_pair bind_pair get_tz_state_frame send_frame vcs_start_capture_frame
          bind_world notice_frame set_tz_state_frame f;
          (fact | simp add: acquired unable enrolling))
  qed
  then show "R w w1 \<Longrightarrow> on_return (enroll_loop E idx count w1) (\<lambda>(_, u). R w u)"
    by (simp add: on_return_imp)
qed

end

locale finger_frame = match_frame +
  assumes finger_upd: "R w (set_finger k x w)"
    and sql: "R w (log_call (Sql_insert c d p) w)" "R w (log_call (Sql_exec c) w)"
begin

lemma after_finger: "R w w1 \<Longrightarrow> R w (set_finger k x w1)"
  by (rule trans [OF _ finger_upd])

lemma db_write_to_db_frame: "R w w1 \<Longrightarrow> on_return (db_write_to_db E b fid w1) (\<lambda>(_, u). R w u)"
  by (auto simp: db_write_to_db_def call_ret_def Let_def bind_eq_Some_conv
      intro!: on_returnI after_finger trans [OF _ sql(1)] trans [OF _ sql(2)])

lemma enroll_tail_frame:
  assumes "R w w1"
  shows "on_return (enroll_finish E idx w1) (R w)"
    "on_return (enroll_out E w1) (R w)"
    "on_return (enroll_fail E w1) (R w)"
proof -
  have index: "on_return (Option.bind (finger_index i) f) Q" if "\<And>k. on_return (f k) Q"
    for i and f :: "nat \<Rightarrow> world option" and Q
    using that by (cases "finger_index i") simp_all
  show "on_return (enroll_finish E idx w1) (R w)"
    unfolding enroll_finish_def Let_def
    by (intro bind_pair send_frame index db_write_to_db_frame after_finger ret_world; (fact | simp add: assms))
qed (rule exit_frame [OF assms])+

end

locale enroll_frame = image_frame + finger_frame
begin

lemma exit_rule:
  "on_return m Q \<Longrightarrow> on_return n Q \<Longrightarrow> on_return k Q \<Longrightarrow>
   on_return (case x of Return_null \<Rightarrow> m | Goto_out \<Rightarrow> n | Enroll_finish \<Rightarrow> k) Q"
  by (cases x) simp_all

lemma vcs_enroll_frame:
  assumes "R w w1"
  shows "on_return (vcs_enroll E w1) (R w)"
  unfolding vcs_enroll_def Let_def
  by (intro bind_unit bind_pair send_frame if_rule enroll_loop_frame exit_rule bind_world enroll_tail_frame ret_world; (fact | simp add: assms))

end

subsection \<open>The entry points\<close>

text \<open>The entry points that touch neither the finger slots nor the database.\<close>

locale service_frame = match_frame +
  assumes errors: "ok (Msg_error e)"
    and dev_upd: "(\<And>x. active_gid (d x) = active_gid x) \<Longrightarrow> R w (upd_dev d w)"
    and sha_upd: "R w (w\<lparr>sha := c\<rparr>)"
begin

lemma after_dev: "R w w1 \<Longrightarrow> (\<And>x. active_gid (d x) = active_gid x) \<Longrightarrow> R w (upd_dev d w1)"
  by (rule trans [OF _ dev_upd])

lemma after_sha: "R w w1 \<Longrightarrow> R w (w1\<lparr>sha := c\<rparr>)" by (rule trans [OF _ sha_upd])

lemma section_ret:
  assumes "R w w1" "\<And>v. R v (h v)"
  shows "on_return (Option.bind (lock E m w1) (\<lambda>v. Option.bind (unlock m (h v)) (\<lambda>u. Some (a v, u))))
           (\<lambda>(_, u). R w u)"
proof -
  have "on_return (Option.bind (lock E m w1) (\<lambda>v. Option.bind (Some (a v, h v)) (\<lambda>(a, u).
          Option.bind (unlock m u) (\<lambda>u. Some (a, u))))) (\<lambda>(_, u). R w u)"
    using assms by (intro section_pair) auto
  then show ?thesis by simp
qed

subsubsection \<open>Starting and stopping the threads\<close>

lemma wait_not_busy_frame: "R w w1 \<Longrightarrow> on_return (wait_not_busy E ts w1) (\<lambda>(_, u). R w u)"
proof (induction ts arbitrary: w1)
  case (Cons k ts)
  then show ?case
    unfolding wait_not_busy.simps
    by (intro bind_pair get_tz_state_frame if_rule ret_pair Cons.IH after_usleep)
qed simp

lemma start_frame:
  assumes "R w w1"
  shows "on_return (vcs_start_authenticate E w1) (\<lambda>(_, u). R w u)"
    "on_return (vcs_start_enroll E timeout w1) (\<lambda>(_, u). R w u)"
  unfolding vcs_start_authenticate_def vcs_start_enroll_def call_ret_def Let_def prod.case
  by (intro bind_pair wait_not_busy_frame get_tz_state_frame if_rule ret_pair bind_world
      set_tz_state_frame sessions after; (fact | simp add: assms))+

lemma wait_idle_frame: "R w w1 \<Longrightarrow> on_return (wait_idle E w1) (R w)"
proof -
  have "on_return (wait_idle E w1) (\<lambda>u. R w w1 \<longrightarrow> R w u)"
  proof (rule wait_idle_return, unfold on_return_imp Let_def, rule impI)
    fix f :: "world \<Rightarrow> world option" and v
    assume IH: "\<And>v. R w v \<longrightarrow> on_return (f v) (R w)" and "R w v"
    note f = IH [THEN mp]
    show "on_return (do { (s, w) \<leftarrow> get_tz_state E (usleep E 100000 v);
        if s = STATE_IDLE then Some w else f w }) (R w)"
      by (intro bind_pair get_tz_state_frame after_usleep if_rule ret_world f;
          use \<open>R w v\<close> in simp)
  qed
  then show "R w w1 \<Longrightarrow> on_return (wait_idle E w1) (R w)"
    by (simp add: on_return_imp)
qed

lemma cancel_wait_frame: "R w w1 \<Longrightarrow> on_return (cancel_wait E w1) (R w)"
proof -
  have "on_return (cancel_wait E w1) (\<lambda>u. R w w1 \<longrightarrow> R w u)"
    by (rule cancel_wait_return) (auto simp: on_return_imp Let_def intro: after_usleep)
  then show "R w w1 \<Longrightarrow> on_return (cancel_wait E w1) (R w)"
    by (simp add: on_return_imp)
qed


lemma section_open:
  assumes "R w w1"
    and "\<And>v. (\<And>u. R v u \<Longrightarrow> on_return (unlock m u) (R w)) \<Longrightarrow> on_return (f v) Q"
  shows "on_return (Option.bind (lock E m w1) f) Q"
proof (rule on_returnI)
  fix x assume "Option.bind (lock E m w1) f = Some x"
  then obtain v where l: "lock E m w1 = Some v" and f: "f v = Some x" by (auto simp: bind_eq_Some_conv)
  from l assms(1) obtain v0 where v0: "R w v0" "\<not> held v0 m" "v = v0\<lparr>held := (held v0)(m := True)\<rparr>"
    by (rule lock_cases)
  then have "\<And>u. R v u \<Longrightarrow> on_return (unlock m u) (R w)"
    by (auto intro!: on_returnI trans [OF v0(1) locked] dest!: unlock_cases)
  from on_returnD [OF assms(2) [OF this] f] show "Q x" .
qed

lemma cancel_frame:
  assumes "R w w1"
  shows "on_return (cancel_timeout E w1) (R w)"
    "on_return (cancel_worker E w1) (R w)"
    "on_return (fingerprint_cancel E w1) (\<lambda>(_, u). R w u)"
proof -
  have t: "on_return (cancel_timeout E w1) (R w)" if "R w w1" for w1
    unfolding cancel_timeout_def Let_def
    by (intro if_rule section_let after after_interfere ret_world refl; (fact | simp add: that))
  have c: "on_return (cancel_worker E w1) (R w)" if "R w w1" for w1
    unfolding cancel_worker_def Let_def
    by (intro bind_world [OF set_tz_state_frame] section_let after cancel_wait_frame refl;
        (fact | simp add: that))
  show "on_return (cancel_timeout E w1) (R w)" "on_return (cancel_worker E w1) (R w)"
    using assms by (simp_all add: t c)
  show "on_return (fingerprint_cancel E w1) (\<lambda>(_, u). R w u)"
    unfolding fingerprint_cancel_def
    by (intro bind_world [where w = w] t c notice_frame errors bind_pair [where w = w]
        get_tz_state_frame if_rule ret_pair; simp add: assms)
qed

lemma cond_timedwait_frame: "R w w1 \<Longrightarrow> on_return (cond_timedwait E m s n w1) (\<lambda>(_, u). R w u)"
proof (rule on_returnI)
  fix x assume R: "R w w1" and x: "cond_timedwait E m s n w1 = Some x"
  let ?v = "w1\<lparr>held := (held w1)(m := False)\<rparr>"
  have "R ?v (interfere E (log_call (Cond_timedwait m s n) ?v))"
    by (intro after_interfere after_log refl) simp
  with x show "case x of (_, u) \<Rightarrow> R w u"
    by (auto simp: cond_timedwait_def call_ret_def Let_def split: if_splits intro!: trans [OF R waiting])
qed

lemma vcs_timeout_frame: "R w w1 \<Longrightarrow> on_return (vcs_timeout E w1) (R w)"
  unfolding vcs_timeout_def Let_def
proof (rule section_pair [where w = w])
  show "on_return (cond_timedwait E Timeout_lock a b (log_call Clock_time v)) (\<lambda>(_, u). R v u)" for a b v
    by (intro cond_timedwait_frame after_log refl) simp
qed (assumption | (intro if_rule bind_pair [where w = w] get_tz_state_frame bind_world [where w = w]
      set_tz_state_frame wait_idle_frame after_ioctl notice_frame errors ret_world; simp))+

lemma sensor_process_signal_frame: "R w w1 \<Longrightarrow> on_return (sensor_process_signal E w1) (R w)"
  unfolding sensor_process_signal_def Let_def
proof (rule bind_world)
  show "R w w1 \<Longrightarrow> on_return (if timeout_thread (tz_timeout (tz w1))
     then Option.bind (lock E Timeout_lock w1) (\<lambda>w. Option.bind (unlock Timeout_lock (log_call (Cond_signal Timeout_lock) w))
         (\<lambda>w. Some (upd_tz (\<lambda>t. t\<lparr>tz_timeout := (tz_timeout t)\<lparr>timeout_thread := False\<rparr>\<rparr>) w))) else Some w1) (R w)"
    by (intro if_rule section_let after ret_world refl; simp)
  fix v assume v: "R w v"
  show "on_return (do {
     w \<leftarrow> lock E Sensor_lock v;
     (s, w) \<leftarrow> get_tz_state E w;
     w \<leftarrow> (if s \<noteq> STATE_IDLE
          then do {
            (s, w) \<leftarrow> get_tz_state E w;
            Some (if s \<noteq> STATE_CANCEL then upd_sensor (\<lambda>s. s\<lparr>sn_signal := True\<rparr>) w else w) }
          else Some w);
     unlock Sensor_lock (log_call (Cond_signal Sensor_lock) (ioctl (VFSSPI_IOCTL_SET_DRDY_INT 0) w)) }) (R w)"
  proof (rule section_open [OF v])
    fix b assume un: "\<And>u. R b u \<Longrightarrow> on_return (unlock Sensor_lock u) (R w)"
    show "on_return (do {
     (s, w) \<leftarrow> get_tz_state E b;
     w \<leftarrow> (if s \<noteq> STATE_IDLE
          then do {
            (s, w) \<leftarrow> get_tz_state E w;
            Some (if s \<noteq> STATE_CANCEL then upd_sensor (\<lambda>s. s\<lparr>sn_signal := True\<rparr>) w else w) }
          else Some w);
     unlock Sensor_lock (log_call (Cond_signal Sensor_lock) (ioctl (VFSSPI_IOCTL_SET_DRDY_INT 0) w)) }) (R w)"
      by (intro bind_pair [where w = b] get_tz_state_frame bind_world [where w = b] if_rule un ret_world
          after refl; simp add: refl)
  qed
qed


lemma bind_any: "(\<And>a b. on_return (f a b) Q) \<Longrightarrow> on_return (Option.bind m (\<lambda>(a, b). f a b)) Q"
  by (cases m) auto

lemma entry_frame:
  assumes "R w w1"
  shows "on_return (fingerprint_get_auth_id E w1) (\<lambda>(_, u). R w u)"
    "on_return (fingerprint_authenticate E op w1) (\<lambda>(_, u). R w u)"
    "on_return (fingerprint_pre_enroll E w1) (\<lambda>(_, u). R w u)"
    "on_return (fingerprint_post_enroll E w1) (\<lambda>(_, u). R w u)"
    "on_return (fingerprint_enumerate E dn w1) (\<lambda>(_, u). R w u)"
    "on_return (set_notify_callback E dn nn w1) (\<lambda>(_, u). R w u)"
proof -
  have sec: "on_return (Option.bind (lock E Dev_lock v) (\<lambda>v. Option.bind (f v) (\<lambda>(a, u).
      Option.bind (unlock Dev_lock u) (\<lambda>u. Some (h a, u))))) (\<lambda>(_, u). R w u)"
    if "\<And>v. on_return (f v) (\<lambda>(_, u). R v u)" "R w v"
    for f :: "world \<Rightarrow> ('a \<times> world) option" and h :: "'a \<Rightarrow> 'b" and v
    by (intro section_pair [where w = w] that ret_pair; simp)
  show "on_return (fingerprint_get_auth_id E w1) (\<lambda>(_, u). R w u)"
  proof -
    let ?w = "\<lambda>v. log_call (File_read FINGER_DATABASE_FILENAME) v"
    let ?f = "\<lambda>v. hash_file (sha (?w v)) (contents E (trace (?w v)))"
    let ?h = "\<lambda>v. upd_dev (\<lambda>d. d\<lparr>authenticator_id := fst (?f v)\<rparr>) (?w v\<lparr>sha := snd (?f v)\<rparr>)"
    have "fingerprint_get_auth_id E w1 = Option.bind (lock E Dev_lock w1) (\<lambda>v.
        Option.bind (unlock Dev_lock (?h v)) (\<lambda>u. Some (authenticator_id (vdev (?h v)), u)))"
      by (simp add: fingerprint_get_auth_id_def Let_def split_beta)
    then show ?thesis
      by (simp only:) (intro section_ret after_dev after_sha after_log refl assms; simp)
  qed
  show "on_return (fingerprint_authenticate E op w1) (\<lambda>(_, u). R w u)"
    unfolding fingerprint_authenticate_def Let_def
    by (intro sec start_frame after_dev refl assms; simp)
  show "on_return (fingerprint_pre_enroll E w1) (\<lambda>(_, u). R w u)"
    unfolding fingerprint_pre_enroll_def Let_def
    by (intro bind_any section_ret after_sha after_dev refl assms; simp)
  show "on_return (fingerprint_post_enroll E w1) (\<lambda>(_, u). R w u)"
    unfolding fingerprint_post_enroll_def Let_def
    by (intro section_ret after_dev refl assms; simp)
  show "on_return (fingerprint_enumerate E dn w1) (\<lambda>(_, u). R w u)"
    unfolding fingerprint_enumerate_def Let_def
    by (intro if_rule ret_pair section_ret refl assms)
  show "on_return (set_notify_callback E dn nn w1) (\<lambda>(_, u). R w u)"
    unfolding set_notify_callback_def Let_def
    by (intro if_rule ret_pair section_ret after_dev refl assms; simp)
qed

lemma fingerprint_enroll_frame:
  assumes "R w w1"
  shows "on_return (fingerprint_enroll E hat timeout w1) (\<lambda>(_, u). R w u)"
proof (cases hat)
  case (Some h)
  have acc: "R w (enroll_accept_user h w1)"
    by (simp add: enroll_accept_user_def after_dev assms)
  show ?thesis
    unfolding fingerprint_enroll_def Some option.case Let_def
  proof (intro if_rule ret_pair section_open acc after_dev)
    fix v assume un: "\<And>u. R v u \<Longrightarrow> on_return (unlock Dev_lock u) (R w)"
    show "on_return (do { w \<leftarrow> send_error_notice E FINGERPRINT_ERROR_NO_SPACE v;
        w \<leftarrow> unlock Dev_lock w; Some (-1, w) }) (\<lambda>(_, u). R w u)"
      by (intro bind_world [OF notice_frame(1) [OF refl errors]] bind_world [OF un] ret_pair)
    show "on_return (do { (r, w) \<leftarrow> vcs_start_enroll E timeout v;
        w \<leftarrow> unlock Dev_lock w; Some (r, w) }) (\<lambda>(_, u). R w u)"
      by (intro bind_pair [OF start_frame(2) [OF refl]] bind_world [OF un] ret_pair)
  qed (simp_all add: acc)
qed (simp add: fingerprint_enroll_def assms)

lemma fingerprint_close_frame:
  assumes "R w w1"
  shows "on_return (fingerprint_close E dn w1) (\<lambda>(_, u). R w u)"
proof -
  have tail: "R w (foldl (\<lambda>w m. log_call (Mutex_destroy m) w) v ms)" if "R w v" for v ms
    using that by (induction ms arbitrary: v) (simp_all add: after_log)
  show ?thesis
    unfolding fingerprint_close_def Let_def db_uninit_def call_ret_def snd_conv
  proof (intro if_rule ret_pair bind_pair [OF cancel_frame(3) [OF assms]] section_open [where w = w])
    fix v assume un: "\<And>u. R v u \<Longrightarrow> on_return (unlock Dev_lock u) (R w)"
    let ?rest = "\<lambda>u. log_call File_close (log_call Free_device
        (foldl (\<lambda>w m. log_call (Mutex_destroy m) w) u [Dev_lock, Sensor_lock, Tz_lock, Timeout_lock]))"
    show "on_return (do {
       (_, w) \<leftarrow> vcs_init E (snd (sensor_init (log_call Sql_close v)));
       (_, w) \<leftarrow> vcs_stop_auth_session E w;
       (_, w) \<leftarrow> vcs_uninit E w;
       w \<leftarrow> unlock Dev_lock (snd (sensor_uninit w));
       Some (0, upd_sensor (\<lambda>s. s\<lparr>sn_fd := -1\<rparr>) (?rest w)) }) (\<lambda>(_, u). R w u)"
      by (intro bind_pair [where w = v] sessions bind_world [OF un] ret_pair after tail refl; simp)
  qed (simp_all add: assms)
qed

end

text \<open>The removal of fingers.\<close>

locale removal_frame = finger_frame +
  assumes removed: "ok (Msg_removed i)" and failed: "ok (Msg_error e)"
begin

lemma remove_finger_frame: "R w w1 \<Longrightarrow> on_return (remove_finger E fid w1) (\<lambda>(_, u). R w u)"
  unfolding remove_finger_def Let_def
proof (rule section_pair [where w = w])
  show "on_return (db_write_to_db E True fid v) (\<lambda>(_, u). R v u)" for v
    by (intro db_write_to_db_frame refl)
qed (assumption | (intro bind_world [where w = w] if_rule notice_frame removed ret_world ret_pair; simp))+

lemma remove_all_frame: "R w w1 \<Longrightarrow> on_return (remove_all E is r w1) (\<lambda>(_, u). R w u)"
proof (induction "is" arbitrary: r w1)
  case (Cons idx "is")
  then show ?case
    unfolding remove_all.simps
    by (intro if_rule bind_pair [where w = w] remove_finger_frame Cons.IH)
qed simp

lemma fingerprint_remove_frame:
  assumes "R w w1"
  shows "on_return (fingerprint_remove E dn fid w1) (\<lambda>(_, u). R w u)"
  unfolding fingerprint_remove_def Let_def
  by (intro if_rule bind_pair [where w = w] bind_world [where w = w] ret_pair ret_world remove_all_frame
      remove_finger_frame notice_frame failed; simp add: assms)

end

text \<open>The entry points as a whole.\<close>

locale hal_frame = service_frame + authenticate_frame + enroll_frame + removal_frame +
  assumes gid_upd: "R w (upd_dev (\<lambda>d. d\<lparr>active_gid := g\<rparr>) w)"
begin

lemma after_any_tz: "R w w1 \<Longrightarrow> R w (clear_fingers w1)"
proof -
  have step: "R w v \<Longrightarrow> R w (foldl (\<lambda>v i. set_finger i zero_finger v) v is)" for v "is"
    by (induction "is" arbitrary: v) (auto intro: after_finger)
  have "foldl (\<lambda>v i. set_finger i zero_finger v) w1 [0 ..< n] =
      upd_tz (\<lambda>t. t\<lparr>finger := (\<lambda>i. if i < n then zero_finger else finger t i)\<rparr>) w1" for n
    by (induction n) (auto simp: upd_defs fun_eq_iff less_Suc_eq)
  then have "clear_fingers w1 = foldl (\<lambda>v i. set_finger i zero_finger v) w1 [0 ..< MAX_NUM_FINGERS]"
    by (simp add: clear_fingers_def)
  then show "R w w1 \<Longrightarrow> R w (clear_fingers w1)" using step by simp
qed

lemma load_rows_frame: "R w w1 \<Longrightarrow> on_return (load_rows rs w1) (R w)"
proof (induction rs arbitrary: w1)
  case (Cons r rs)
  then have "on_return (load_row r w1) (R w)"
    by (auto simp: load_row_def Let_def bind_eq_Some_conv split: if_splits intro!: on_returnI after_finger)
  then show ?case by (auto intro: bind_world Cons.IH)
qed simp

lemma load_old_rows_frame: "R w w1 \<Longrightarrow> on_return (load_old_rows rs w1) (R w)"
proof (induction rs arbitrary: w1)
  case (Cons r rs)
  then show ?case
    by (cases "finger_index (row_id r)") (simp_all add: Let_def after_finger)
qed simp

lemma store_converted_frame: "R w w1 \<Longrightarrow> on_return (store_converted E pl is w1) (R w)"
proof (induction "is" arbitrary: w1)
  case (Cons idx "is")
  have wr: "on_return (db_write_to_db E False (int idx) v) (\<lambda>(_, u). R w u)" if "R w v" for v
    using that by (rule db_write_to_db_frame)
  show ?case
    using Cons by (auto simp: Let_def intro!: bind_pair wr after_finger)
qed simp

lemma db_convert_old_db_frame: "R w w1 \<Longrightarrow> on_return (db_convert_old_db E w1) (\<lambda>(_, u). R w u)"
  unfolding db_convert_old_db_def call_ret_def Let_def prod.case
  by (intro if_rule ret_pair bind_world load_old_rows_frame store_converted_frame after_log trans [OF _ sql(2)] after_any_tz; simp)

lemma db_read_to_tz_frame: "R w w1 \<Longrightarrow> on_return (db_read_to_tz E w1) (\<lambda>(_, u). R w u)"
  unfolding db_read_to_tz_def db_check_and_create_table_def call_ret_def Let_def prod.case snd_conv
  by (intro if_rule ret_pair bind_world load_rows_frame db_convert_old_db_frame after_log trans [OF _ sql(2)] after_any_tz; simp)

lemma hal_frame:
  assumes "R w w1"
  shows "on_return (fingerprint_set_active_group E gid w1) (\<lambda>(_, u). R w u)"
    "on_return (fingerprint_remove E dn fid w1) (\<lambda>(_, u). R w u)"
proof -
  have sec: "on_return (Option.bind (lock E Dev_lock v) (\<lambda>v. Option.bind (f v) (\<lambda>(a, u).
      Option.bind (unlock Dev_lock u) (\<lambda>u. Some (h a, u))))) (\<lambda>(_, u). R w u)"
    if "\<And>v. on_return (f v) (\<lambda>(_, u). R v u)" "R w v"
    for f :: "world \<Rightarrow> ('a \<times> world) option" and h :: "'a \<Rightarrow> 'b" and v
    by (intro section_pair [where w = w] that ret_pair; simp)
  show "on_return (fingerprint_set_active_group E gid w1) (\<lambda>(_, u). R w u)"
    unfolding fingerprint_set_active_group_def Let_def
    by (intro sec db_read_to_tz_frame gid_upd assms)
  show "on_return (fingerprint_remove E dn fid w1) (\<lambda>(_, u). R w u)"
    by (rule fingerprint_remove_frame [OF assms])
qed

lemma fingerprint_open_frame:
  "on_return (fingerprint_open E False w) (\<lambda>(r, u). u = log_call Calloc w \<or> R (open_reset (log_call Calloc w)) u)"
proof -
  let ?w = "open_reset (log_call Calloc w)"
  let ?v = "log_call (File_open SENSOR_FILE_NAME) ?w"
  have v: "R ?w (upd_sensor (\<lambda>s. s\<lparr>sn_fd := i\<rparr>) ?v)" for i by (intro after_sensor after_log refl) simp_all
  have dbi: "on_return (db_init E u) (\<lambda>(_, u). R x u)" if "R x u" for x u
    unfolding db_init_def call_ret_def Let_def prod.case
    by (intro if_rule ret_pair db_read_to_tz_frame after_log that) simp_all
  have tail: "on_return (do {
       w \<leftarrow> lock E Dev_lock v;
       (_, w) \<leftarrow> db_init E (snd (sensor_init w));
       (_, w) \<leftarrow> vcs_init E w;
       (_, w) \<leftarrow> vcs_uninit E w;
       (_, w) \<leftarrow> vcs_init E w;
       (_, w) \<leftarrow> vcs_start_auth_session E w;
       (_, w) \<leftarrow> vcs_uninit E w;
       w \<leftarrow> unlock Dev_lock (snd (sensor_uninit w));
       Some (0, w) }) (\<lambda>(_, u). R ?w u)" if "R ?w v" for v
  proof (rule section_open [OF that])
    fix b assume un: "\<And>u. R b u \<Longrightarrow> on_return (unlock Dev_lock u) (R ?w)"
    show "on_return (do {
       (_, w) \<leftarrow> db_init E (snd (sensor_init b));
       (_, w) \<leftarrow> vcs_init E w;
       (_, w) \<leftarrow> vcs_uninit E w;
       (_, w) \<leftarrow> vcs_init E w;
       (_, w) \<leftarrow> vcs_start_auth_session E w;
       (_, w) \<leftarrow> vcs_uninit E w;
       w \<leftarrow> unlock Dev_lock (snd (sensor_uninit w));
       Some (0, w) }) (\<lambda>(_, u). R ?w u)"
      by (intro bind_pair [OF dbi [where x = b]] bind_pair [where w = b] sessions bind_world [OF un] ret_pair after refl; simp)
  qed
  show ?thesis
    unfolding fingerprint_open_def Let_def call_ret_def prod.case
  proof (intro if_rule on_return_mono2 [OF tail] after_sensor_uninit after_sensor_register after_sensor_init v)
  qed (use v in simp_all)
qed

end

subsection \<open>The relations of the model\<close>

definition same_held :: "world \<Rightarrow> world \<Rightarrow> bool" where
  "same_held w u \<longleftrightarrow> held u = held w"

definition extends_trace :: "world \<Rightarrow> world \<Rightarrow> bool" where
  "extends_trace w u \<longleftrightarrow> (\<exists>tr. trace u = tr @ trace w)"

text \<open>Every command sent between two worlds uses one of the layouts in \<open>exchanges\<close>.\<close>

definition within_layout :: "world \<Rightarrow> world \<Rightarrow> bool" where
  "within_layout w u \<longleftrightarrow> (\<exists>tr. trace u = tr @ trace w \<and>
     (\<forall>b s r n. Qsee_send_cmd b s r n \<in> set tr \<longrightarrow> (s, r, n) \<in> set exchanges))"

definition same_fingers :: "world \<Rightarrow> world \<Rightarrow> bool" where
  "same_fingers w u \<longleftrightarrow> finger (tz u) = finger (tz w)"

definition same_device :: "world \<Rightarrow> world \<Rightarrow> bool" where
  "same_device w u \<longleftrightarrow> vdev u = vdev w \<and> sha u = sha w"

text \<open>The messages sent between two worlds all satisfy a predicate.\<close>

definition says_only :: "(fingerprint_msg \<Rightarrow> bool) \<Rightarrow> world \<Rightarrow> world \<Rightarrow> bool" where
  "says_only ok w u \<longleftrightarrow> (\<exists>ms. notices u = notices w @ ms \<and> (\<forall>m\<in>set ms. ok m))"

fun about_images :: "fingerprint_msg \<Rightarrow> bool" where
  "about_images (Msg_acquired i) = True"
| "about_images (Msg_error e) = (e = FINGERPRINT_ERROR_UNABLE_TO_PROCESS)"
| "about_images _ = False"

fun not_authenticated :: "fingerprint_msg \<Rightarrow> bool" where
  "not_authenticated (Msg_authenticated k h) = False"
| "not_authenticated _ = True"

lemma trace_updates [simp]:
  "trace (log_call c w) = c # trace w" "trace (upd_tz f w) = trace w" "trace (upd_sensor g w) = trace w"
  "trace (upd_dev h w) = trace w" "trace (upd_buf b w) = trace w" "trace (set_finger k x w) = trace w"
  by (simp_all add: log_call_def upd_defs)

lemma trace_event [simp]: "trace (apply_event w e) = trace w"
  by (cases e) (auto simp: upd_defs)

lemma notices_of_trace: "trace u = trace w \<Longrightarrow> notices u = notices w"
  by (simp add: notices_def)

lemma notices_log: "notices (log_call c w) = notices w @ (case is_notify c of None \<Rightarrow> [] | Some m \<Rightarrow> [m])"
  by (simp add: notices_def map_filter_simps split: option.split)

lemma notices_updates [simp]:
  "notices (upd_tz f w) = notices w" "notices (upd_sensor g w) = notices w"
  "notices (upd_dev h w) = notices w" "notices (upd_buf b w) = notices w"
  "notices (set_finger k x w) = notices w" "notices (apply_event w e) = notices w"
  "notices (w\<lparr>ibuf := b'\<rparr>) = notices w" "notices (w\<lparr>km_handle := p\<rparr>) = notices w"
  "notices (w\<lparr>km_init := i\<rparr>) = notices w" "notices (w\<lparr>held := l\<rparr>) = notices w"
  by (rule notices_of_trace; simp)+

lemma says_only_trans: "says_only ok u v \<Longrightarrow> says_only ok v w \<Longrightarrow> says_only ok u w"
  by (fastforce simp: says_only_def)

lemma says_only_eq: "notices u = notices w \<Longrightarrow> says_only ok w u"
  by (simp add: says_only_def)

lemma says_only_log: "(\<And>m. is_notify c = Some m \<Longrightarrow> ok m) \<Longrightarrow> says_only ok w (log_call c w)"
  by (auto simp: says_only_def notices_log split: option.split)

lemma held_event: "held (apply_event w e) = held w"
  by (rule steps_only_fields(1) [OF steps_only_event])

lemma extends_trace_eq: "trace u = trace w \<Longrightarrow> extends_trace w u"
  by (simp add: extends_trace_def)

lemma fingers_event: "finger (tz (apply_event w e)) = finger (tz w)"
  by (rule steps_only_fields(5) [OF steps_only_event])

lemma device_event: "vdev (apply_event w e) = vdev w" "sha (apply_event w e) = sha w"
  by (rule steps_only_fields(2,4) [OF steps_only_event])+

text \<open>Switching the sensor on and off, as one update of its record and one of the trace.\<close>

lemma sensor_init_eq:
  "snd (sensor_init w) = (if sn_init (sensor w) then w else w\<lparr>sensor := (sensor w)\<lparr>sn_init := True\<rparr>,
     trace := map Ioctl [VFSSPI_IOCTL_SET_CLK 4800, VFSSPI_IOCTL_SET_SPI_CONFIGURATION, VFSSPI_IOCTL_DEVICE_RESET,
       VFSSPI_IOCTL_SET_CLK 65535, VFSSPI_IOCTL_POWER_ON] @ trace w\<rparr>)"
  by (simp add: sensor_init_def ioctl_def log_call_def upd_sensor_def)

lemma sensor_uninit_eq:
  "snd (sensor_uninit w) = (if \<not> sn_init (sensor w) then w else w\<lparr>sensor := (sensor w)\<lparr>sn_init := False\<rparr>,
     trace := map Ioctl [VFSSPI_IOCTL_POWER_OFF, VFSSPI_IOCTL_DEVICE_SUSPEND, VFSSPI_IOCTL_DISABLE_SPI_CLOCK,
       VFSSPI_IOCTL_RESET_SPI_CONFIGURATION] @ trace w\<rparr>)"
  by (simp add: sensor_uninit_def ioctl_def log_call_def upd_sensor_def)

lemmas sensor_power_eqs = sensor_init_eq sensor_uninit_eq

lemma sensor_power_trace:
  "trace (snd (sensor_init w)) = map Ioctl (if sn_init (sensor w) then [] else [VFSSPI_IOCTL_SET_CLK 4800,
     VFSSPI_IOCTL_SET_SPI_CONFIGURATION, VFSSPI_IOCTL_DEVICE_RESET, VFSSPI_IOCTL_SET_CLK 65535, VFSSPI_IOCTL_POWER_ON]) @ trace w"
  "trace (snd (sensor_uninit w)) = map Ioctl (if \<not> sn_init (sensor w) then [] else [VFSSPI_IOCTL_POWER_OFF,
     VFSSPI_IOCTL_DEVICE_SUSPEND, VFSSPI_IOCTL_DISABLE_SPI_CLOCK, VFSSPI_IOCTL_RESET_SPI_CONFIGURATION]) @ trace w"
  by (simp_all add: sensor_power_eqs)

lemma sensor_power_fields:
  "tz (snd (sensor_init w)) = tz w" "tz (snd (sensor_uninit w)) = tz w"
  "vdev (snd (sensor_init w)) = vdev w" "vdev (snd (sensor_uninit w)) = vdev w"
  "notices (snd (sensor_init w)) = notices w" "notices (snd (sensor_uninit w)) = notices w"
  by (simp_all add: sensor_power_eqs notices_def map_filter_simps)

lemma sensor_power_adds:
  assumes "\<And>r. P (Ioctl r)"
  shows "\<exists>tr. trace (snd (sensor_init w)) = tr @ trace w \<and> (\<forall>c\<in>set tr. P c)"
    "\<exists>tr. trace (snd (sensor_uninit w)) = tr @ trace w \<and> (\<forall>c\<in>set tr. P c)"
  unfolding sensor_power_trace append_same_eq using assms by auto

interpretation locks: hal_frame same_held "\<lambda>_. True"
  by unfold_locales (auto simp: same_held_def log_call_def upd_defs held_event fun_upd_idem sensor_power_eqs)

interpretation history: hal_frame extends_trace "\<lambda>_. True"
  by unfold_locales (auto simp: extends_trace_def upd_defs sensor_power_trace)

lemma within_layout_eq: "trace u = trace w \<Longrightarrow> within_layout w u"
  by (simp add: within_layout_def)

lemma within_layout_log:
  "(\<And>b s r n. c = Qsee_send_cmd b s r n \<Longrightarrow> (s, r, n) \<in> set exchanges) \<Longrightarrow> within_layout w (log_call c w)"
  unfolding within_layout_def by (intro exI [of _ "[c]"]) (simp del: exchanges_eq, blast)

lemma within_layout_trans: "within_layout u v \<Longrightarrow> within_layout v w \<Longrightarrow> within_layout u w"
proof -
  assume "within_layout u v" "within_layout v w"
  then obtain tr tr' where tr: "trace v = tr @ trace u" "\<forall>b s r n. Qsee_send_cmd b s r n \<in> set tr \<longrightarrow> (s, r, n) \<in> set exchanges"
    "trace w = tr' @ trace v" "\<forall>b s r n. Qsee_send_cmd b s r n \<in> set tr' \<longrightarrow> (s, r, n) \<in> set exchanges"
    unfolding within_layout_def by blast
  then have "trace w = (tr' @ tr) @ trace u \<and>
    (\<forall>b s r n. Qsee_send_cmd b s r n \<in> set (tr' @ tr) \<longrightarrow> (s, r, n) \<in> set exchanges)"
    by (auto simp del: exchanges_eq)
  then show "within_layout u w" unfolding within_layout_def by blast
qed

lemma within_layout_held: "within_layout (w\<lparr>held := l\<rparr>) (v\<lparr>held := l'\<rparr>) = within_layout w v"
  "within_layout (w\<lparr>held := l\<rparr>) v = within_layout w v" "within_layout w (v\<lparr>held := l'\<rparr>) = within_layout w v"
  by (simp_all add: within_layout_def)

lemma within_layout_power: "within_layout w (snd (sensor_init w))" "within_layout w (snd (sensor_uninit w))"
  using sensor_power_adds [of "\<lambda>c. \<forall>b s r n. c \<noteq> Qsee_send_cmd b s r n" w]
  by (auto simp: within_layout_def simp del: exchanges_eq) blast+

interpretation layout: hal_frame within_layout "\<lambda>_. True"
proof (unfold_locales, goal_cases)
  case (2 u v w)
  then show ?case by (rule within_layout_trans)
qed (auto intro: within_layout_eq within_layout_log within_layout_power simp: within_layout_held simp del: exchanges_eq)

interpretation fingers: authenticate_frame same_fingers "\<lambda>_. True"
  by unfold_locales (auto simp: same_fingers_def log_call_def upd_defs fingers_event sensor_power_eqs)

interpretation fingers: image_frame same_fingers "\<lambda>_. True"
  by unfold_locales simp

interpretation device: removal_frame same_device "\<lambda>_. True"
  by unfold_locales (auto simp: same_device_def log_call_def upd_defs device_event sensor_power_eqs)

interpretation device: enroll_frame same_device "\<lambda>_. True"
  by unfold_locales simp

lemma says_only_frame:
  assumes "\<And>i. ok (Msg_acquired i)" "ok (Msg_error FINGERPRINT_ERROR_UNABLE_TO_PROCESS)"
  shows "match_frame (says_only ok) ok"
  by unfold_locales
    (auto intro: says_only_trans says_only_eq says_only_log assms intro!: says_only_log dest: plain_call_notify
      simp: sensor_power_fields says_only_def [where w = "w\<lparr>held := f\<rparr>" for w f] says_only_def [where u = "w\<lparr>held := f\<rparr>" for w f])

interpretation images: match_frame "says_only about_images" about_images
  by (rule says_only_frame) simp_all

interpretation images: finger_frame "says_only about_images" about_images
  by unfold_locales (simp_all add: says_only_eq notices_log)

interpretation enrolling: enroll_frame "says_only not_authenticated" not_authenticated
  by (intro enroll_frame.intro finger_frame.intro image_frame.intro finger_frame_axioms.intro image_frame_axioms.intro says_only_frame) (simp_all add: says_only_eq notices_log)

text \<open>The contents of the database as the code can have changed them: the statements that were
  executed, with their results.\<close>

fun touches_table :: "ext_call \<Rightarrow> bool" where
  "touches_table (Sql_insert c d p) = True"
| "touches_table (Sql_exec c) = True"
| "touches_table _ = False"

text \<open>Between two worlds neither the slots, nor the active group, nor the database were touched.\<close>

definition same_storage :: "world \<Rightarrow> world \<Rightarrow> bool" where
  "same_storage w u \<longleftrightarrow> finger (tz u) = finger (tz w) \<and> active_gid (vdev u) = active_gid (vdev w) \<and>
     (\<exists>tr. trace u = tr @ trace w \<and> (\<forall>c\<in>set tr. \<not> touches_table c))"

lemma same_storage_trans: "same_storage u v \<Longrightarrow> same_storage v w \<Longrightarrow> same_storage u w"
  by (fastforce simp: same_storage_def)

lemma plain_call_table: "plain_call c \<Longrightarrow> \<not> touches_table c"
  by (cases c) simp_all

lemma same_storage_log: "\<not> touches_table c \<Longrightarrow> same_storage w (log_call c w)"
  by (simp add: same_storage_def log_call_def)

interpretation storage: service_frame same_storage "\<lambda>_. True"
proof (unfold_locales, goal_cases)
  case (2 u v w)
  then show ?case by (rule same_storage_trans)
qed (auto intro: same_storage_log sensor_power_adds dest: plain_call_table
    simp: same_storage_def log_call_def upd_defs fingers_event device_event sensor_power_fields simp del: exchanges_eq)

interpretation storage: authenticate_frame same_storage "\<lambda>_. True"
  by unfold_locales simp

interpretation storage: image_frame same_storage "\<lambda>_. True"
  by unfold_locales simp

text \<open>The library and the application: once \<open>init\<close> is set the function pointers are loaded, once
  \<open>tz.init\<close> is set the handle is live, and the stored calibration fits its array.\<close>

definition app_ok :: "world \<Rightarrow> bool" where
  "app_ok w \<longleftrightarrow> km_ok w \<and> (tz_init (tz w) \<longrightarrow> qhandle (tz w)) \<and> cal_ok (tz w)"

definition keeps_app :: "world \<Rightarrow> world \<Rightarrow> bool" where
  "keeps_app w u \<longleftrightarrow> (app_ok w \<longrightarrow> app_ok u)"

lemma app_event: "qhandle (tz (apply_event w e)) = qhandle (tz w)" "tz_init (tz (apply_event w e)) = tz_init (tz w)"
    "calibrate_len (tz (apply_event w e)) = calibrate_len (tz w)"
    "km_init (apply_event w e) = km_init w" "km_handle (apply_event w e) = km_handle w"
  by (rule steps_only_fields [OF steps_only_event])+

interpretation app: hal_frame keeps_app "\<lambda>_. True"
  by unfold_locales (auto simp: keeps_app_def app_ok_def km_ok_def log_call_def upd_defs app_event sensor_power_eqs)

subsection \<open>The message of a notice\<close>

lemma notices_interfere [simp]: "notices (interfere E w) = notices w"
proof -
  have "notices (foldl apply_event w es) = notices w" for es
    by (induction es arbitrary: w) simp_all
  then show ?thesis by (simp add: interfere_def)
qed

lemma trace_interfere [simp]: "trace (interfere E w) = trace w"
proof -
  have "trace (foldl apply_event w es) = trace w" for es
    by (induction es arbitrary: w) simp_all
  then show ?thesis by (simp add: interfere_def)
qed

lemma lock_says: "lock E m w = Some v \<Longrightarrow> notices v = notices w \<and> vdev v = vdev w \<and> tz v = tz (interfere E (log_call (Mutex_lock m) w))"
  using steps_only_fields(2) [OF steps_only_interfere, of E "log_call (Mutex_lock m) w"]
  by (auto simp: lock_def Let_def notices_log split: if_splits) (simp_all add: log_call_def)

lemma unlock_says: "unlock m w = Some v \<Longrightarrow> notices v = notices w \<and> vdev v = vdev w \<and> tz v = tz w"
  by (auto simp: unlock_def split: if_splits)

lemma notify_says: "notify x w = Some v \<Longrightarrow> notices v = notices w @ [x] \<and> vdev v = vdev w \<and> tz v = tz w"
  by (auto simp: notify_def notices_log split: if_splits) (simp_all add: log_call_def)

lemma enroll_notice_says:
  "send_enroll_notice E k n w = Some u \<Longrightarrow> vdev u = vdev w \<and>
     notices u = notices w @ (if k = 0 \<or> secure_user_id (vdev w) = 0 then [] else [Msg_enrolling k n])"
  by (auto simp: send_enroll_notice_def bind_eq_Some_conv split: if_splits dest!: lock_says unlock_says notify_says)

end
