(* ===== verification/Tz_Match.thy ===== *)
theory Tz_Match
  imports Fp_Frame
begin

text \<open>
  The exchange of \<open>vfmMatchImageToTemplates\<close>: the finger slots as the list of the enrolled ones,
  the searches over them, the table of templates in the command and the answer's way back to
  a slot.
\<close>

subsection \<open>The enrolled slots\<close>

definition enrolled :: "(nat \<Rightarrow> finger_t) \<Rightarrow> nat list" where
  "enrolled fs = filter (\<lambda>i. exist (fs i)) slot_indices"

lemma slot_indices_eq: "slot_indices = [1, 2, 3, 4, 5]"
  by (simp add: slot_indices_def MAX_NUM_FINGERS_def upt_rec)

lemma length_enrolled: "length (enrolled fs) \<le> MAX_NUM_FINGERS"
  unfolding enrolled_def by (rule order_trans [OF length_filter_le]) (simp add: slot_indices_def)

lemma count_existing_filter: "count_existing fs is n = n + length (filter (\<lambda>i. exist (fs i)) is)"
  by (induction "is" arbitrary: n) auto

lemma vcs_get_enrolled_finger_num_eq: "vcs_get_enrolled_finger_num w = length (enrolled (finger (tz w)))"
  by (simp add: vcs_get_enrolled_finger_num_def count_existing_filter enrolled_def)

lemma find_match_filter:
  assumes "0 \<notin> set is"
  shows "find_match fs is len k =
    (let es = filter (\<lambda>i. exist (fs i)) is
     in if int len < k \<and> k \<le> int (len + length es) then es ! nat (k - int len - 1) else 0)"
  using assms
proof (induction "is" arbitrary: len)
  case (Cons a "is")
  show ?case
  proof (cases "exist (fs a) \<and> int (len + 1) \<noteq> k")
    case True
    then have "nat (k - int len - 1) = Suc (nat (k - int (len + 1) - 1))" if "int len < k"
      using that by linarith
    with True Cons show ?thesis by (auto simp: Let_def)
  qed (use Cons in \<open>auto simp: Let_def\<close>)
qed simp

text \<open>The search finds the \<open>k\<close>-th enrolled slot, and 0 when there is none.\<close>

lemma find_match_nth:
  "find_match fs slot_indices 0 k =
     (if 1 \<le> k \<and> k \<le> int (length (enrolled fs)) then enrolled fs ! nat (k - 1) else 0)"
  by (subst find_match_filter) (auto simp: enrolled_def slot_indices_eq Let_def)

lemma find_free_is: "find_free fs slot_indices =
    (case filter (\<lambda>i. \<not> exist (fs i)) slot_indices of [] \<Rightarrow> MAX_NUM_FINGERS + 1 | i # _ \<Rightarrow> i)"
proof -
  have "find_free fs is = (case filter (\<lambda>i. \<not> exist (fs i)) is of [] \<Rightarrow> MAX_NUM_FINGERS + 1 | i # _ \<Rightarrow> i)" for "is"
    by (induction "is") auto
  then show ?thesis .
qed

lemma find_match_enrolled:
  assumes "find_match fs slot_indices 0 k \<noteq> 0"
  shows "find_match fs slot_indices 0 k \<in> set (enrolled fs)"
  using assms by (auto simp: find_match_nth split: if_splits)

lemma set_enrolled: "i \<in> set (enrolled fs) \<longleftrightarrow> 1 \<le> i \<and> i \<le> MAX_NUM_FINGERS \<and> exist (fs i)"
  by (auto simp: enrolled_def slot_indices_def)

subsection \<open>What is sent\<close>

lemma send_cmd_cases:
  assumes "QSEECom_send_cmd E s r l w = Some (x, u)"
  obtains h where "trace u = Qsee_send_cmd (ibuf w) s r l # h @ trace w" "x = ret E (trace u)"
    "ibuf u = memcpy (ibuf w) r (response E (trace u)) 0 l" "tz u = tz w" "vdev u = vdev w"
    "held u = held w"
proof -
  let ?v = "snd (init_qsee E w)"
  have same: "ibuf ?v = ibuf w" "tz ?v = tz w" "vdev ?v = vdev w" "held ?v = held w"
    using init_qsee_same [of w E] by (simp_all add: same_app_def)
  obtain h where "trace ?v = h @ trace w"
    using history.init_qsee_frame [OF history.refl, of w E] by (auto simp: extends_trace_def)
  then show thesis
    by (intro that [of h])
      (use assms in \<open>auto simp: QSEECom_send_cmd_def call_ret_def Let_def bind_eq_Some_conv log_call_def
        upd_defs same\<close>)
qed

text \<open>A template as the application expects it: the length word's two bytes, then the data.\<close>

definition holds_template :: "bytes \<Rightarrow> nat \<Rightarrow> bytes \<Rightarrow> bool" where
  "holds_template b k d \<longleftrightarrow>
     b (off_5x_data + template_address k) = 0x45 \<and>
     b (off_5x_data + (template_address k + 1)) = 0x28 \<and>
     (\<forall>i < FINGER_DATA_MAX_LENGTH. b (off_5x_data + (template_address k + 4) + i) = d i)"

lemma template_address_Suc: "template_address (Suc k) = 102392 + k * 15364"
  by (simp add: template_address_def)

lemma put_templates_tz: "tz (put_templates is len w) = tz w" "trace (put_templates is len w) = trace w"
  by (induction "is" arbitrary: len w) (auto simp: Let_def buf_defs)

lemma put_templates_below:
  "i < off_5x_data + template_address (Suc len) \<Longrightarrow> ibuf (put_templates is len w) i = ibuf w i"
proof (induction "is" arbitrary: len w)
  case (Cons idx "is")
  have "i < off_5x_data + template_address (Suc (Suc len))"
    using Cons.prems by (simp add: template_address_Suc)
  with Cons show ?case
    by (auto simp: Let_def buf_defs memcpy_def)
qed simp

lemma put_templates_above:
  "off_5x_data + template_address (Suc len + length is) \<le> i \<Longrightarrow> ibuf (put_templates is len w) i = ibuf w i"
proof (induction "is" arbitrary: len w)
  case (Cons idx "is")
  have "off_5x_data + template_address (Suc len) + 15364 \<le> i"
    using Cons.prems by (simp add: template_address_Suc)
  moreover have "off_5x_data + template_address (Suc len + length is) \<le> i"
    using Cons.prems by (simp add: template_address_Suc)
  ultimately show ?case
    using Cons.IH [of "Suc len"] Cons.IH [of len] Cons.prems
    by (auto simp: Let_def buf_defs memcpy_def FINGER_DATA_MAX_LENGTH_def)
qed simp

lemma put_templates_stores:
  "j < length (filter (\<lambda>i. exist (finger (tz w) i)) is) \<Longrightarrow>
   holds_template (ibuf (put_templates is len w)) (Suc len + j)
     (fdata (finger (tz w) (filter (\<lambda>i. exist (finger (tz w) i)) is ! j)))"
proof (induction "is" arbitrary: len w j)
  case (Cons idx "is")
  show ?case
  proof (cases "exist (finger (tz w) idx)")
    case True
    let ?a = "template_address (Suc len)"
    define v where "v = wr_copy (off_5x_data + (?a + 4)) (fdata (finger (tz w) idx)) FINGER_DATA_MAX_LENGTH
        (wr8 (off_5x_data + (?a + 1)) 0x28 (wr8 (off_5x_data + ?a) 0x45 w))"
    have tz: "tz v = tz w" by (simp add: v_def buf_defs)
    have put: "put_templates (idx # is) len w = put_templates is (Suc len) v"
      using True by (simp add: v_def Let_def)
    show ?thesis
    proof (cases j)
      case 0
      have "holds_template (ibuf v) (Suc len) (fdata (finger (tz w) idx))"
        by (auto simp: v_def holds_template_def buf_defs memcpy_def)
      moreover have "ibuf (put_templates is (Suc len) v) i = ibuf v i"
        if "i < off_5x_data + (?a + 4) + FINGER_DATA_MAX_LENGTH" for i
        using that by (intro put_templates_below) (simp add: template_address_Suc FINGER_DATA_MAX_LENGTH_def)
      ultimately show ?thesis
        using True 0 by (simp add: put holds_template_def del: put_templates.simps)
    next
      case (Suc m)
      then show ?thesis
        using Cons.IH [of m v "Suc len"] Cons.prems True by (simp add: put tz del: put_templates.simps)
    qed
  qed (use Cons in simp)
qed simp

definition match_send_len :: nat where "match_send_len = 563392"
definition match_response_len :: nat where "match_response_len = 204864"

text \<open>The command \<open>vfmMatchImageToTemplates\<close> for a given set of finger slots, as a predicate on the
  bytes sent.\<close>

definition match_command :: "(nat \<Rightarrow> finger_t) \<Rightarrow> bytes \<Rightarrow> bool" where
  "match_command fs b \<longleftrightarrow>
     get32 b off_cmd = cmd_id vfmMatchImageToTemplates \<and>
     b (off_5x_data + 102388) = word_of_nat (length (enrolled fs)) \<and>
     (\<forall>j < length (enrolled fs). holds_template b (Suc j) (fdata (fs (enrolled fs ! j))))"

lemma template_address_bound:
  assumes "k \<le> MAX_NUM_FINGERS"
  shows "off_5x_data + (template_address k + 4) + FINGER_DATA_MAX_LENGTH \<le> sizeof_5x_cmd"
  using assms by (cases k) (simp_all add: template_address_def off_defs sizeof_defs FINGER_DATA_MAX_LENGTH_def MAX_NUM_FINGERS_def)

lemma send_match_cases:
  assumes "send_match E w = Some (r, u)"
  obtains b h where "trace u = Qsee_send_cmd b match_send_len match_send_len match_response_len # h @ trace w"
    "match_command (finger (tz w)) b" "r = ret E (trace u)"
    "ibuf u = memcpy b match_send_len (response E (trace u)) 0 match_response_len"
    "tz u = tz w"
proof -
  let ?n = "563392 :: nat"
  define w1 where "w1 = wr32 off_5x_time_now (seconds E (Clock_time # trace w)) (log_call Clock_time
     (wr32 (off_5x_unknown + 4) 100000 (wr32 (off_5x_unknown + 0) 1 (wr32 off_len 0x14
     (wr32 off_cmd (cmd_id vfmMatchImageToTemplates) (wr_zero (?n + 204864) w))))))"
  define w2 where "w2 = put_templates slot_indices 0
     (wr8 (off_5x_data + 102388) (word_of_nat (vcs_get_enrolled_finger_num w1)) (wr8 (off_5x_data + 0) 0x1 w1))"
  define w3 where "w3 = wr32 (?n + off_result_data 25602) 0x3000 (wr32 (?n + off_result_data 0) 0x5c w2)"
  have tz1: "tz w1 = tz w" by (simp add: w1_def buf_defs log_call_def)
  have tz3: "tz w3 = tz w" by (simp add: w3_def w2_def put_templates_tz tz1 buf_defs)
  have send: "QSEECom_send_cmd E ?n ?n 204864 w3 = Some (r, u)"
    using assms
    by (simp add: send_match_def Let_def w3_def w2_def w1_def vcs_get_enrolled_finger_num_def buf_defs log_call_def
        off_result_data_def off_5x_unknown_def)
  have below: "ibuf w3 i = ibuf w2 i" if "i < ?n" for i
    using that by (simp add: w3_def buf_defs off_result_data_def put32_outside)
  have keep: "ibuf w2 i = ibuf w1 i" if "i < off_5x_data + 102388" "i \<noteq> off_5x_data" for i
    using that by (simp add: w2_def put_templates_below template_address_Suc buf_defs)
  have cmd: "get32 (ibuf w3) off_cmd = cmd_id vfmMatchImageToTemplates"
  proof -
    have "get32 (ibuf w3) off_cmd = get32 (ibuf w1) off_cmd"
      unfolding get32_def by (simp add: below keep off_defs)
    then show ?thesis
      by (simp add: w1_def buf_defs log_call_def off_defs get32_put32_other get32_put32_same)
  qed
  have num: "ibuf w3 (off_5x_data + 102388) = word_of_nat (length (enrolled (finger (tz w))))"
  proof -
    have "ibuf w3 (off_5x_data + 102388) = ibuf w2 (off_5x_data + 102388)"
      by (rule below) (simp add: off_defs)
    also have "\<dots> = word_of_nat (vcs_get_enrolled_finger_num w1)"
      by (simp add: w2_def put_templates_below template_address_Suc buf_defs)
    finally show ?thesis by (simp add: vcs_get_enrolled_finger_num_eq tz1)
  qed
  have templates: "holds_template (ibuf w3) (Suc j) (fdata (finger (tz w) (enrolled (finger (tz w)) ! j)))"
    if j: "j < length (enrolled (finger (tz w)))" for j
  proof -
    let ?v = "wr8 (off_5x_data + 102388) (word_of_nat (vcs_get_enrolled_finger_num w1)) (wr8 (off_5x_data + 0) 0x1 w1)"
    have tz: "tz ?v = tz w" by (simp add: buf_defs tz1)
    have "holds_template (ibuf w2) (Suc j) (fdata (finger (tz w) (enrolled (finger (tz w)) ! j)))"
      using put_templates_stores [of j ?v slot_indices 0] j
      unfolding w2_def enrolled_def tz by simp
    moreover have "ibuf w3 i = ibuf w2 i"
      if "i < off_5x_data + (template_address (Suc j) + 4) + FINGER_DATA_MAX_LENGTH" for i
      using that template_address_bound [of "Suc j"] j length_enrolled [of "finger (tz w)"]
      by (intro below) (simp add: sizeof_defs)
    ultimately show ?thesis by (simp add: holds_template_def)
  qed
  have tr3: "trace w3 = Clock_time # trace w" by (simp add: w3_def w2_def w1_def put_templates_tz)
  from send obtain h where u: "trace u = Qsee_send_cmd (ibuf w3) ?n ?n 204864 # h @ trace w3" "r = ret E (trace u)"
    "ibuf u = memcpy (ibuf w3) ?n (response E (trace u)) 0 204864" "tz u = tz w3"
    by (rule send_cmd_cases)
  show thesis
    by (rule that [of "ibuf w3" "h @ [Clock_time]"])
      (simp_all add: u tr3 tz3 match_send_len_def match_response_len_def match_command_def cmd num templates)
qed

end
