(* ===== verification/Tz_Auth.thy ===== *)
theory Tz_Auth
  imports Tz_Match
begin

text \<open>
  What the authenticating thread promises: it reports a finger only after the trusted
  application has accepted an image against the templates of the enrolled slots, and it reports
  the slot the application named.
\<close>

text \<open>The history \<open>t\<close> ends in a match command for the slots \<open>fs\<close> that the application answered
  with success and an index that stands for slot \<open>k\<close>.\<close>

definition accepted :: "env \<Rightarrow> (nat \<Rightarrow> finger_t) \<Rightarrow> ext_call list \<Rightarrow> nat \<Rightarrow> bool" where
  "accepted E fs t k \<longleftrightarrow>
    (\<exists>b tl. t = Qsee_send_cmd b match_send_len match_send_len match_response_len # tl \<and> match_command fs b) \<and>
    ret E t = 0 \<and> get32 (response E t) off_result = 0 \<and>
    (let i = sint (get32 (response E t) (off_result_data 22))
     in 0 \<le> i \<and> i < int (length (enrolled fs)) \<and> k = enrolled fs ! nat i)"

lemma match_answer:
  assumes "send_match E w = Some (r, u)"
  shows "r = ret E (trace u)" "result_of match_send_len u = sint (get32 (response E (trace u)) off_result)"
    "data_of match_send_len 22 u = sint (get32 (response E (trace u)) (off_result_data 22))"
  using assms
  by (auto elim!: send_match_cases simp: result_of_def data_of_def get32_memcpy_inside off_defs match_response_len_def)

lemma accepted_intro:
  assumes m: "send_match E w = Some (0, u)" and z: "result_of match_send_len u = 0"
    and k: "find_match (finger (tz w)) slot_indices 0 (data_of match_send_len 22 u + 1) = k" "k \<noteq> 0"
  shows "accepted E (finger (tz w)) (trace u) k"
proof -
  let ?t = "trace u"
  have r: "ret E ?t = 0" "sint (get32 (response E ?t) off_result) = 0"
    using match_answer [OF m] z by simp_all
  have i: "find_match (finger (tz w)) slot_indices 0 (sint (get32 (response E ?t) (off_result_data 22)) + 1) = k"
    using match_answer(3) [OF m] k(1) by simp
  let ?i = "sint (get32 (response E ?t) (off_result_data 22))"
  have "0 \<le> ?i \<and> ?i < int (length (enrolled (finger (tz w)))) \<and> k = enrolled (finger (tz w)) ! nat ?i"
    using i k(2) by (auto simp: find_match_nth split: if_splits)
  moreover obtain b tl where "?t = Qsee_send_cmd b match_send_len match_send_len match_response_len # tl"
    "match_command (finger (tz w)) b"
    using m by (rule send_match_cases)
  moreover have "get32 (response E ?t) off_result = 0"
    using r(2) by (metis signed_0 signed_word_eqI)
  ultimately show ?thesis
    using r(1) unfolding accepted_def Let_def by blast
qed

text \<open>The loop's result: a slot other than 0 was accepted on the way.\<close>

definition accepted_since :: "env \<Rightarrow> world \<Rightarrow> nat \<Rightarrow> world \<Rightarrow> bool" where
  "accepted_since E w k u \<longleftrightarrow> (\<exists>h c tl. trace u = h @ c # tl @ trace w \<and> accepted E (finger (tz w)) (c # tl @ trace w) k)"

lemma accepted_since_later:
  assumes "accepted_since E v k u" "extends_trace w v" "same_fingers w v" "extends_trace u u'"
  shows "accepted_since E w k u'"
proof -
  obtain h c tl where a: "trace u = h @ c # tl @ trace v" "accepted E (finger (tz v)) (c # tl @ trace v) k"
    using assms(1) by (auto simp: accepted_since_def)
  obtain h' where h': "trace v = h' @ trace w" using assms(2) by (auto simp: extends_trace_def)
  obtain h'' where h'': "trace u' = h'' @ trace u" using assms(4) by (auto simp: extends_trace_def)
  show ?thesis
    unfolding accepted_since_def
    by (rule exI [of _ "h'' @ h"], rule exI [of _ c], rule exI [of _ "tl @ h'"])
      (use a assms(3) in \<open>simp add: h' h'' same_fingers_def\<close>)
qed

lemma get_state_frames:
  assumes "get_tz_state E w = Some (s, u)"
  shows "same_fingers w u" "extends_trace w u"
  using fingers.get_tz_state_frame [OF fingers.refl, of E w] history.get_tz_state_frame [OF history.refl, of E w] assms
  by (simp_all add: on_return_def)

lemma capture_frames:
  assumes "vcs_start_capture E t w = Some (x, u)"
  shows "same_fingers w u" "extends_trace w u"
  using fingers.vcs_start_capture_frame [OF fingers.refl, of E t w]
    history.vcs_start_capture_frame [OF history.refl, of E t w] assms
  by (simp_all add: on_return_def)

lemma notice_frames:
  assumes "send_acquired_notice E x w = Some u"
  shows "same_fingers w u" "extends_trace w u"
  using fingers.notice_frame(2) [OF fingers.refl, of E x w] history.notice_frame(2) [OF history.refl, of E x w] assms
  by (simp_all add: on_return_def)

lemma match_frames:
  assumes "send_match E w = Some (x, u)"
  shows "same_fingers w u" "extends_trace w u"
  using fingers.send_match_frame [OF fingers.refl, of E w] history.send_match_frame [OF history.refl, of E w] assms
  by (simp_all add: on_return_def)

lemma release_frames:
  assumes "send_payload_release E k w = Some (x, u)"
  shows "extends_trace w u"
  using history.send_frame(5) [OF history.refl, of E k w] assms by (simp add: on_return_def)

lemma accepted_since_match:
  assumes m: "send_match E w = Some (0, u)" "result_of match_send_len u = 0"
    "find_match (finger (tz u)) slot_indices 0 (data_of match_send_len 22 u + 1) = k" "k \<noteq> 0"
  shows "accepted_since E w k u"
proof -
  obtain b h where u: "trace u = Qsee_send_cmd b match_send_len match_send_len match_response_len # h @ trace w" "tz u = tz w"
    using m(1) by (rule send_match_cases)
  have "accepted E (finger (tz w)) (trace u) k"
    using m u(2) by (intro accepted_intro) simp_all
  then show ?thesis
    unfolding accepted_since_def u(1) by (intro exI [of _ "[]"] exI [of _ h] exI) auto
qed

lemma extends_then_accepted:
  assumes "same_fingers w v" "extends_trace w v" "accepted_since E v k u"
  shows "accepted_since E w k u"
  using accepted_since_later [OF assms(3,2,1) history.refl] .

lemma authenticate_loop_accepted:
  "on_return (authenticate_loop E w) (\<lambda>(k, u). k \<noteq> 0 \<longrightarrow> accepted_since E w k u)"
proof (rule authenticate_loop_return, unfold Let_def, rule on_returnI)
  fix f :: "world \<Rightarrow> (nat \<times> world) option" and v x
  let ?resp = "QSEECOM_ALIGN sizeof_5x_cmd"
  assume IH: "\<And>v. on_return (f v) (\<lambda>(k, u). k \<noteq> 0 \<longrightarrow> accepted_since E v k u)"
    and x: "do {
         (s, w) \<leftarrow> get_tz_state E v;
         if s \<noteq> STATE_SCAN then Some (0, w)
         else do {
           (r, w) \<leftarrow> vcs_start_capture E 0 w;
           if r = -1 then Some (0, w)
           else do {
             (r, w) \<leftarrow> send_match E w;
             if r \<noteq> 0 then do {
               w \<leftarrow> send_error_notice E FINGERPRINT_ERROR_UNABLE_TO_PROCESS w;
               Some (0, w) }
             else if result_of ?resp w \<noteq> 0 then do {
               w \<leftarrow> send_acquired_notice E (result_of ?resp w) w;
               f w }
             else if data_of ?resp 22 w = 2 ^ 31 - 1 then None
             else do {
               (_, v) \<leftarrow> send_payload_release E (find_match (finger (tz w)) slot_indices 0 (data_of ?resp 22 w + 1)) w;
               Some (find_match (finger (tz w)) slot_indices 0 (data_of ?resp 22 w + 1), v) } } } } = Some x"
  show "case x of (k, u) \<Rightarrow> k \<noteq> 0 \<longrightarrow> accepted_since E v k u"
  proof (clarify)
    fix k u assume "x = (k, u)" and k: "0 < k"
    with x obtain s v1 r1 v2 v3 where c: "get_tz_state E v = Some (s, v1)"
      "vcs_start_capture E 0 v1 = Some (r1, v2)" "send_match E v2 = Some (0, v3)"
      and rest: "(\<exists>v4. send_acquired_notice E (result_of ?resp v3) v3 = Some v4 \<and> f v4 = Some (k, u)) \<or>
        (\<exists>y. result_of ?resp v3 = 0 \<and>
          send_payload_release E (find_match (finger (tz v3)) slot_indices 0 (data_of ?resp 22 v3 + 1)) v3 = Some (y, u) \<and>
          k = find_match (finger (tz v3)) slot_indices 0 (data_of ?resp 22 v3 + 1))"
      by (auto simp: bind_eq_Some_conv split: if_splits)
    have f2: "same_fingers v v2" "extends_trace v v2"
      using get_state_frames [OF c(1)] capture_frames [OF c(2)] fingers.trans history.trans by blast+
    from rest show "accepted_since E v k u"
    proof (elim disjE exE conjE)
      fix v4 assume n: "send_acquired_notice E (result_of ?resp v3) v3 = Some v4" and "f v4 = Some (k, u)"
      have "accepted_since E v4 k u" using on_returnD [OF IH \<open>f v4 = Some (k, u)\<close>] k by simp
      moreover have "same_fingers v v4" "extends_trace v v4"
        using f2 match_frames [OF c(3)] notice_frames [OF n] fingers.trans history.trans by blast+
      ultimately show ?thesis by (rule extends_then_accepted [rotated 2])
    next
      fix y assume z: "result_of ?resp v3 = 0"
        and rel: "send_payload_release E (find_match (finger (tz v3)) slot_indices 0 (data_of ?resp 22 v3 + 1)) v3 = Some (y, u)"
        and keq: "k = find_match (finger (tz v3)) slot_indices 0 (data_of ?resp 22 v3 + 1)"
      have "accepted_since E v2 k v3"
        using c(3) z k keq by (intro accepted_since_match) (simp_all add: match_send_len_def)
      from accepted_since_later [OF this f2(2,1) release_frames [OF rel]] show ?thesis .
    qed
  qed
qed

subsection \<open>The thread as a whole\<close>

lemma authenticate_split:
  "vcs_authenticate E w = do {
     (k, w) \<leftarrow> do {
       _ \<leftarrow> ion_sbuffer w;
       (_, w) \<leftarrow> send_vendor_unknown E vendorUnknown0 w;
       (fingerindex, w) \<leftarrow> authenticate_loop E w;
       let w = snd (sensor_uninit w);
       (_, w) \<leftarrow> vcs_uninit E w;
       w \<leftarrow> set_tz_state E STATE_IDLE w;
       Some (fingerindex, w) };
     if k \<noteq> 0 then send_authenticated_notice E (int k) w else Some w }"
  by (simp add: vcs_authenticate_def Let_def case_prod_unfold cong: if_cong)

lemma authenticated_notice_exact:
  assumes "send_authenticated_notice E k w = Some u"
  shows "\<exists>hat. notices u = notices w @ [Msg_acquired FINGERPRINT_ACQUIRED_GOOD, Msg_authenticated k hat] \<and>
    hat_challenge hat = op_id (vdev w) \<and> hat_user_id hat = secure_user_id (vdev w) \<and>
    hat_authenticator_id hat = authenticator_id (vdev w)"
  using assms unfolding send_authenticated_notice_def send_acquired_notice_def Let_def
  by (auto simp: bind_eq_Some_conv convert_ret_to_acquired_info_def acquired_good_def notices_log
        dest!: lock_says unlock_says notify_says) (simp_all add: log_call_def)

lemma tz_state_frames_history:
  assumes "vcs_uninit E w = Some (x, u)" "set_tz_state E s u = Some v"
  shows "extends_trace w v"
  using history.vcs_uninit_frame [OF history.refl, of E w] assms(1)
    history.set_tz_state_frame [OF history.refl, of E s u] assms(2) history.trans
  by (fastforce simp: on_return_def)

lemma authenticate_body_accepted:
  "on_return (do {
     _ \<leftarrow> ion_sbuffer w;
     (_, w) \<leftarrow> send_vendor_unknown E vendorUnknown0 w;
     (fingerindex, w) \<leftarrow> authenticate_loop E w;
     let w = snd (sensor_uninit w);
     (_, w) \<leftarrow> vcs_uninit E w;
     w \<leftarrow> set_tz_state E STATE_IDLE w;
     Some (fingerindex, w) }) (\<lambda>(k, u). k \<noteq> 0 \<longrightarrow> accepted_since E w k u)" (is "on_return ?m _")
proof (rule on_returnI, split prod.split, intro allI impI)
  fix r k u assume "?m = Some r" "r = (k, u)" and k: "k \<noteq> 0"
  then obtain x w1 w2 y w3 where c: "send_vendor_unknown E vendorUnknown0 w = Some (x, w1)"
    "authenticate_loop E w1 = Some (k, w2)" "vcs_uninit E (snd (sensor_uninit w2)) = Some (y, w3)"
    "set_tz_state E STATE_IDLE w3 = Some u"
    by (auto simp: bind_eq_Some_conv Let_def)
  have a: "accepted_since E w1 k w2"
    using on_returnD [OF authenticate_loop_accepted c(2)] k by simp
  have f: "same_fingers w w1" "extends_trace w w1"
    using fingers.send_frame(4) [OF fingers.refl, of E vendorUnknown0 w]
      history.send_frame(4) [OF history.refl, of E vendorUnknown0 w] c(1) by (simp_all add: on_return_def)
  have l: "extends_trace w2 u"
    by (rule history.trans [OF history.after_sensor_uninit [OF history.refl] tz_state_frames_history [OF c(3,4)]])
  show "accepted_since E w k u"
    by (rule accepted_since_later [OF a f(2,1) l])
qed

lemma accepted_slot:
  assumes "accepted_since E w k u"
  shows "1 \<le> k \<and> k \<le> MAX_NUM_FINGERS \<and> exist (finger (tz w) k)"
proof -
  obtain t where "accepted E (finger (tz w)) t k" using assms by (auto simp: accepted_since_def)
  then have "k \<in> set (enrolled (finger (tz w)))"
    by (auto simp: accepted_def Let_def intro!: nth_mem)
  then show ?thesis by (simp add: set_enrolled)
qed

lemma send_authenticated_notice_history:
  "send_authenticated_notice E k w = Some u \<Longrightarrow> extends_trace w u"
  using history.authenticated_notice_frame [where w = w and ?w1.0 = w and k = k and E = E] history.refl
  by (auto simp: on_return_def)

text \<open>C1: the messages of a whole run of the authenticating thread that returns are reports about
  images, followed either by nothing or by a good-image report and one authentication.  The
  authentication names slot \<open>k\<close> only if, since the thread started, the trusted application was
  sent every enrolled template and the number of them, answered the match command with success,
  and named the index of \<open>k\<close> among the enrolled slots; so \<open>k\<close> is an enrolled slot.  The token
  carries the operation id, user and authenticator of the device.\<close>

theorem authenticate_sound:
  assumes "vcs_authenticate E w = Some u"
  shows "\<exists>ms. (\<forall>m\<in>set ms. about_images m) \<and>
    (notices u = notices w @ ms \<or>
     (\<exists>k hat. notices u = notices w @ ms @ [Msg_acquired FINGERPRINT_ACQUIRED_GOOD, Msg_authenticated (int k) hat] \<and>
       accepted_since E w k u \<and> 1 \<le> k \<and> k \<le> MAX_NUM_FINGERS \<and> exist (finger (tz w) k) \<and>
       hat_challenge hat = op_id (vdev w) \<and> hat_user_id hat = secure_user_id (vdev w) \<and>
       hat_authenticator_id hat = authenticator_id (vdev w)))"
proof -
  obtain k v where body: "do {
       _ \<leftarrow> ion_sbuffer w;
       (_, w) \<leftarrow> send_vendor_unknown E vendorUnknown0 w;
       (fingerindex, w) \<leftarrow> authenticate_loop E w;
       let w = snd (sensor_uninit w);
       (_, w) \<leftarrow> vcs_uninit E w;
       w \<leftarrow> set_tz_state E STATE_IDLE w;
       Some (fingerindex, w) } = Some (k, v)"
    and last: "(if k \<noteq> 0 then send_authenticated_notice E (int k) v else Some v) = Some u"
    using assms unfolding authenticate_split by (auto simp: bind_eq_Some_conv)
  obtain ms where ms: "notices v = notices w @ ms" "\<forall>m\<in>set ms. about_images m"
    using on_returnD [OF images.authenticate_body_frame [OF images.refl] body] by (auto simp: says_only_def)
  have dev: "vdev v = vdev w"
    using on_returnD [OF device.authenticate_body_frame [OF device.refl] body] by (simp add: same_device_def)
  show ?thesis
  proof (cases "k = 0")
    case True
    with last ms show ?thesis by auto
  next
    case False
    with last have n: "send_authenticated_notice E (int k) v = Some u" by simp
    have "accepted_since E w k u"
      using on_returnD [OF authenticate_body_accepted body] False
        accepted_since_later [OF _ history.refl fingers.refl send_authenticated_notice_history [OF n]] by simp
    with accepted_slot [OF this] authenticated_notice_exact [OF n] ms dev show ?thesis by (intro exI [of _ ms]) auto
  qed
qed

end
