(* ===== verification/Fp_Example.thy ===== *)
theory Fp_Example
  imports Fp_Hal
begin

text \<open>
  A concrete environment and concrete worlds, at which the witnesses of the component theories
  apply the properties: every call succeeds, no other thread interferes, the sensor has already
  signalled and the trusted application answers every command with result 0, the value 2 in
  \<open>data[2]\<close> (the finger has left the sensor) and 0 elsewhere.
\<close>

definition good_response :: bytes where
  "good_response = (\<lambda>i. if i = 16 then 2 else 0)"

definition good_env :: env where
  "good_env = \<lparr>ret = (\<lambda>_. 0), found = (\<lambda>_. True), response = (\<lambda>_. good_response), rows = (\<lambda>_. []),
     contents = (\<lambda>_. None), seconds = (\<lambda>_. 0), nanoseconds = (\<lambda>_. 0), microseconds = (\<lambda>_. 0),
     others = (\<lambda>_. []), hw_auth_token_version = 0, hw_auth_fingerprint = 2\<rparr>"

definition one_finger :: "nat \<Rightarrow> finger_t" where
  "one_finger = (\<lambda>_. zero_finger)(2 := \<lparr>exist = True, fdata = (\<lambda>_. 7), payload = (\<lambda>_. 9)\<rparr>)"

text \<open>An open device with one enrolled finger, no lock held, in the given worker state.\<close>

definition example_world :: "worker_state_t \<Rightarrow> world" where
  "example_world s = \<lparr>tz = zero_tz\<lparr>tz_init := True, qhandle := True, tz_state := s, finger := one_finger\<rparr>,
     sensor = \<lparr>sn_fd = 3, sn_init = True, sn_signal = True\<rparr>, vdev = zero_device\<lparr>notify_set := True\<rparr>,
     ibuf = (\<lambda>_. 0), km_init = True, km_handle = Km_loaded, held = (\<lambda>_. False),
     sha = sha_initial, trace = []\<rparr>"

end
