(* ===== verification/Tz_Live.thy ===== *)
theory Tz_Live
  imports Tz_Auth Fp_Example
begin

text \<open>
  Runs that return.  The predicate \<open>going\<close> is what a step of a worker needs and keeps: a live
  application, a loaded library, a callback, and the locks held; with it the operations of
  the session and of the capture are total.  Two liveness results follow: with a sensor that has
  signalled and an application that accepts, the authenticating thread returns and reports; with
  a thread that keeps asking for the end, the wait for the sensor is left.
\<close>

subsection \<open>What the steps need\<close>

definition going :: "(mutex \<Rightarrow> bool) \<Rightarrow> (nat \<Rightarrow> finger_t) \<Rightarrow> world \<Rightarrow> bool" where
  "going l fs w \<longleftrightarrow> km_init w \<and> km_handle w = Km_loaded \<and> qhandle (tz w) \<and> notify_set (vdev w) \<and> held w = l \<and>
     finger (tz w) = fs"

lemma going_simps [simp]:
  "going l fs (log_call c w) = going l fs w" "going l fs (upd_sensor g w) = going l fs w"
  "going l fs (upd_buf b w) = going l fs w" "going l fs (w\<lparr>ibuf := b'\<rparr>) = going l fs w"
  "going l fs (wr32 o1 x w) = going l fs w" "going l fs (wr8 o1 y w) = going l fs w"
  "going l fs (wr_zero n w) = going l fs w" "going l fs (wr_copy o1 s n w) = going l fs w"
  "going l fs (ioctl r w) = going l fs w"
  "going l fs (upd_tz (\<lambda>t. t\<lparr>tz_state := st\<rparr>) w) = going l fs w"
  "going l fs (upd_tz (\<lambda>t. t\<lparr>calibrate_len := n1\<rparr>) w) = going l fs w"
  "going l fs (upd_tz (\<lambda>t. t\<lparr>calibrate_data := h t\<rparr>) w) = going l fs w"
  by (simp_all add: going_def log_call_def upd_defs buf_defs ioctl_def)

lemma going_steps: "steps_only w u \<Longrightarrow> going l fs w \<Longrightarrow> going l fs u"
  by (simp add: going_def steps_only_fields)

lemma going_interfere [simp]: "going l fs w \<Longrightarrow> going l fs (interfere E w)"
  by (rule going_steps [OF steps_only_interfere])

lemma going_held: "going l fs w \<Longrightarrow> held w = l"
  by (simp add: going_def)

lemma going_relock: "going l fs w \<Longrightarrow> going l' fs (w\<lparr>held := l'\<rparr>)"
  by (simp add: going_def)

lemma lock_going:
  assumes "going l fs w" "\<not> l m"
  shows "returns (lock E m w) (\<lambda>u. going (l(m := True)) fs u \<and>
    u = interfere E (log_call (Mutex_lock m) w)\<lparr>held := l(m := True)\<rparr>)"
proof -
  have "going l fs (interfere E (log_call (Mutex_lock m) w))" using assms by simp
  from going_held [OF this] going_relock [OF this, of "l(m := True)"] going_held [OF assms(1)] assms(2) show ?thesis
    by (simp add: lock_def Let_def)
qed

lemma unlock_going:
  assumes "going l fs w" "l m"
  shows "returns (unlock m w) (\<lambda>u. going (l(m := False)) fs u \<and> u = w\<lparr>held := l(m := False)\<rparr>)"
  using assms going_held [OF assms(1)] going_relock [OF assms(1), of "l(m := False)"] by (simp add: unlock_def)

lemma get_tz_state_going:
  assumes "going l fs w" "\<not> l Tz_lock"
  shows "returns (get_tz_state E w) (\<lambda>(s, u). going l fs u \<and> s = tz_state (tz u) \<and>
    u = interfere E (log_call (Mutex_lock Tz_lock) w))"
  using assms going_held [OF assms(1)] by (simp add: get_tz_state_eq Let_def)

lemma set_tz_state_going:
  assumes "going l fs w" "\<not> l Tz_lock"
  shows "returns (set_tz_state E s w) (\<lambda>u. going l fs u \<and> tz_state (tz u) = s \<and>
    u = upd_tz (\<lambda>t. t\<lparr>tz_state := s\<rparr>) (interfere E (log_call (Mutex_lock Tz_lock) w)))"
  using assms going_held [OF assms(1)] by (simp add: set_tz_state_eq Let_def) (simp add: upd_tz_def)

lemma send_cmd_going:
  assumes "going l fs w"
  shows "returns (QSEECom_send_cmd E s r n w) (\<lambda>(x, u). going l fs u \<and> x = ret E (trace u) \<and>
    tz u = tz w \<and> sensor u = sensor w \<and> ibuf u = memcpy (ibuf w) r (response E (trace u)) 0 n \<and>
    trace u = Qsee_send_cmd (ibuf w) s r n # trace w)"
  using assms
  by (auto simp: QSEECom_send_cmd_def init_qsee_def deref_km_handle_def call_ret_def Let_def returns_def going_def
      log_call_def upd_defs)

subsection \<open>A cooperative application and no other thread\<close>

definition quiet :: "env \<Rightarrow> bool" where
  "quiet E \<longleftrightarrow> (\<forall>t. others E t = [])"

text \<open>The command just sent, if the last call was one.\<close>

fun is_command :: "trust_zone_cmd_id_t \<Rightarrow> ext_call list \<Rightarrow> bool" where
  "is_command c (Qsee_send_cmd b _ _ _ # _) = (get32 b off_cmd = cmd_id c)"
| "is_command c _ = False"

abbreviation adds_image :: "ext_call list \<Rightarrow> bool" where
  "adds_image \<equiv> is_command vfmEnrollAddImage"

text \<open>The two commands whose answer holds calibration data.\<close>

fun calibrates :: "ext_call list \<Rightarrow> bool" where
  "calibrates (Qsee_send_cmd b _ _ _ # _) = (get32 b off_cmd = cmd_id vfmDeviceCalibrate \<or>
     get32 b off_cmd = cmd_id vfmVendorDefinedOperation \<and> get32 b off_vendor_cmd = vendor_cmd_id vendorUpdateCalData)"
| "calibrates _ = False"

fun asks_storage :: "ext_call list \<Rightarrow> bool" where
  "asks_storage (Sql_insert _ _ _ # _) = True"
| "asks_storage (Sql_exec _ # _) = True"
| "asks_storage (File_access _ # _) = True"
| "asks_storage _ = False"

text \<open>Every command succeeds; after \<open>vfmCaptureReadData\<close> the finger has left the sensor; the lengths of
  calibration data and the indices of templates are those the code can store.  The other contents of
  the answers are free, in particular the progress that adding an image reports.  Statements to
  the database and looking for a file may answer anything.\<close>

definition cooperative :: "env \<Rightarrow> bool" where
  "cooperative E \<longleftrightarrow> (\<forall>t. (\<not> asks_storage t \<longrightarrow> ret E t = 0) \<and> get32 (response E t) off_result = 0 \<and>
     (is_command vfmCaptureReadData t \<longrightarrow> get32 (response E t) (off_result_data 2) = 2) \<and>
     (calibrates t \<longrightarrow> 0 \<le> sint (get32 (response E t) (off_result_data 3)) + 0xf \<and>
        sint (get32 (response E t) (off_result_data 3)) + 0xf \<le> int CALIBRATE_DATA_MAX_LENGTH) \<and>
     (is_command vfmMatchImageToTemplates t \<longrightarrow> sint (get32 (response E t) (off_result_data 22)) \<noteq> 2 ^ 31 - 1))"

text \<open>Every match names the same of the templates that were sent.\<close>

definition names_template :: "env \<Rightarrow> nat \<Rightarrow> bool" where
  "names_template E i \<longleftrightarrow>
    (\<forall>t. is_command vfmMatchImageToTemplates t \<longrightarrow> sint (get32 (response E t) (off_result_data 22)) = int i)"

definition in_state :: "(mutex \<Rightarrow> bool) \<Rightarrow> (nat \<Rightarrow> finger_t) \<Rightarrow> worker_state_t \<Rightarrow> bool \<Rightarrow> world \<Rightarrow> bool" where
  "in_state l fs s g w \<longleftrightarrow> going l fs w \<and> tz_state (tz w) = s \<and> sn_signal (sensor w) = g"

lemma quiet_interfere [simp]: "quiet E \<Longrightarrow> interfere E w = w"
  by (simp add: quiet_def interfere_def)

lemma in_state_simps [simp]:
  "in_state l fs s g (log_call c w) = in_state l fs s g w"
  "in_state l fs s g (wr32 o1 x w) = in_state l fs s g w" "in_state l fs s g (wr8 o1 y w) = in_state l fs s g w"
  "in_state l fs s g (wr_zero n w) = in_state l fs s g w" "in_state l fs s g (wr_copy o1 sr n w) = in_state l fs s g w"
  "in_state l fs s g (upd_tz (\<lambda>t. t\<lparr>calibrate_len := n1\<rparr>) w) = in_state l fs s g w"
  "in_state l fs s g (upd_tz (\<lambda>t. t\<lparr>calibrate_data := h t\<rparr>) w) = in_state l fs s g w"
  by (simp_all add: in_state_def log_call_def upd_defs) (simp_all add: going_def)

lemma in_state_relock: "in_state l fs s g w \<Longrightarrow> in_state l' fs s g (w\<lparr>held := l'\<rparr>)"
  by (simp add: in_state_def going_def)

lemma ion_sbuffer_going: "going l fs w \<Longrightarrow> ion_sbuffer w = Some ()"
  by (simp add: ion_sbuffer_def going_def)

definition ideal :: "env \<Rightarrow> bool" where
  "ideal E \<longleftrightarrow> quiet E \<and> cooperative E"

text \<open>The other threads act at most while a thread waits for a condition; somebody attends to the
  sensor when it signals there.\<close>

fun waits :: "ext_call list \<Rightarrow> bool" where
  "waits (Cond_wait _ # _) = True"
| "waits _ = False"

definition calm :: "env \<Rightarrow> bool" where
  "calm E \<longleftrightarrow> (\<forall>t. \<not> waits t \<longrightarrow> others E t = [])"

definition attended :: "env \<Rightarrow> bool" where
  "attended E \<longleftrightarrow> (\<forall>t. others E (Cond_wait Sensor_lock # t) = [Ev_drdy])"

definition willing :: "env \<Rightarrow> bool" where
  "willing E \<longleftrightarrow> calm E \<and> cooperative E"

lemma ideal_willing: "ideal E \<Longrightarrow> willing E"
  by (simp add: ideal_def willing_def quiet_def calm_def)

lemma calm_interfere [simp]: "calm E \<Longrightarrow> \<not> waits (trace w) \<Longrightarrow> interfere E w = w"
  by (simp add: calm_def interfere_def)

lemma willing_interfere [simp]: "willing E \<Longrightarrow> \<not> waits (trace w) \<Longrightarrow> interfere E w = w"
  by (simp add: willing_def)

lemma lock_in_state:
  assumes "willing E" "in_state l fs s g w" "\<not> l m"
  shows "returns (lock E m w) (in_state (l(m := True)) fs s g)"
  using lock_going [of l fs w m E] assms
  by (auto simp: in_state_def log_call_def elim!: returns_mono)

lemma unlock_in_state:
  "in_state l fs s g w \<Longrightarrow> l m \<Longrightarrow> returns (unlock m w) (in_state (l(m := False)) fs s g)"
  using unlock_going [of l fs w m] by (auto simp: in_state_def elim!: returns_mono)

lemma get_in_state:
  assumes "willing E" "in_state l fs s g w" "\<not> l Tz_lock"
  shows "returns (get_tz_state E w) (\<lambda>(x, u). x = s \<and> in_state l fs s g u)"
  using get_tz_state_going [of l fs w E] assms
  by (auto simp: in_state_def log_call_def elim!: returns_mono)

lemma set_in_state:
  assumes "willing E" "in_state l fs s g w" "\<not> l Tz_lock"
  shows "returns (set_tz_state E s' w) (in_state l fs s' g)"
proof -
  have "held w = l" using assms(2) by (auto simp: in_state_def intro: going_held)
  moreover have "in_state l fs s' g (upd_tz (\<lambda>t. t\<lparr>tz_state := s'\<rparr>) (log_call (Mutex_lock Tz_lock) w))"
    using assms(2) by (simp add: in_state_def) (simp add: log_call_def upd_defs)
  ultimately show ?thesis using assms by (simp add: set_tz_state_eq Let_def)
qed

lemma send_in_state:
  assumes "willing E" "in_state l fs s g w" "64 \<le> n"
  shows "returns (QSEECom_send_cmd E sl r n w) (\<lambda>(x, u). x = 0 \<and> in_state l fs s g u \<and> result_of r u = 0 \<and>
    trace u = Qsee_send_cmd (ibuf w) sl r n # trace w \<and>
    (102464 \<le> n \<longrightarrow> (is_command vfmCaptureReadData (trace u) \<longrightarrow> data_of r 2 u = 2) \<and>
      (calibrates (trace u) \<longrightarrow> 0 \<le> data_of r 3 u + 0xf \<and> data_of r 3 u + 0xf \<le> int CALIBRATE_DATA_MAX_LENGTH) \<and>
      (is_command vfmMatchImageToTemplates (trace u) \<longrightarrow> data_of r 22 u \<noteq> 2 ^ 31 - 1) \<and>
      data_of r 22 u = sint (get32 (response E (trace u)) (off_result_data 22))))"
proof (rule returns_mono [OF send_cmd_going])
  show "going l fs w" using assms by (simp add: in_state_def)
qed (use assms in \<open>auto simp: in_state_def result_of_def data_of_def get32_memcpy_inside off_result_def
    off_result_data_def cooperative_def willing_def\<close>)

lemma ibuf_wr32: "ibuf (wr32 off x w) = put32 (ibuf w) off x"
  by (simp add: wr32_def upd_buf_def)

lemma sends_in_state:
  assumes "willing E" "in_state l fs s g w"
  shows "returns (send_capture_start E t w) (\<lambda>(x, u). x = 0 \<and> in_state l fs s g u \<and> result_of 102464 u = 0)"
    "returns (send_capture_read E w) (\<lambda>(x, u). x = 0 \<and> in_state l fs s g u \<and> result_of 64 u = 0 \<and> data_of 64 2 u = 2)"
    "returns (send_capture_process E w) (\<lambda>(x, u). x = 0 \<and> in_state l fs s g u \<and> result_of 102464 u = 0)"
    "returns (send_vendor_unknown E v w) (\<lambda>(x, u). x = 0 \<and> in_state l fs s g u \<and> result_of 102464 u = 0)"
    "returns (send_payload_release E k w) (\<lambda>(x, u). x = 0 \<and> in_state l fs s g u)"
  unfolding send_capture_start_def send_capture_read_def send_capture_process_def send_vendor_unknown_def
    send_payload_release_def Let_def
  by (rule returns_mono [OF send_in_state]; use assms in \<open>auto simp: off_defs ibuf_wr32 mem_simps\<close>)+

lemma check_busy:
  assumes "willing E" "in_state l fs s g w" "\<not> l Tz_lock" "s \<noteq> STATE_IDLE" "s \<noteq> STATE_CANCEL"
  shows "returns (vcs_check_state E w) (\<lambda>(c, u). c = 0 \<and> in_state l fs s g u)"
proof -
  have "ion_sbuffer w = Some ()" using assms(2) by (auto simp: in_state_def intro: ion_sbuffer_going)
  then show ?thesis
    unfolding vcs_check_state_def Let_def
    using assms by (auto intro!: returns_bind_pair [OF get_in_state])
qed

lemma update_cal_in_state:
  assumes "willing E" "in_state l fs s g w"
  shows "returns (vcs_update_cal_data E w) (\<lambda>(_, u). in_state l fs s g u)"
proof -
  have i: "ion_sbuffer w = Some ()" using assms(2) by (auto simp: in_state_def intro: ion_sbuffer_going)
  have store: "returns (store_calibration r v) (in_state l fs s g)"
    if "in_state l fs s g v" "0 \<le> data_of r 3 v + 0xf" "data_of r 3 v + 0xf \<le> int CALIBRATE_DATA_MAX_LENGTH" for r v
    using that by (simp add: store_calibration_def Let_def)
  have cal: "calibrates (Qsee_send_cmd (ibuf (wr32 (102464 + off_result_data 0) x (wr32 off_vendor_cmd 0x17
      (wr32 off_cmd 0x17 (wr_zero 204928 w))))) sl r n # t)" for x sl r n t
    by (simp add: ibuf_wr32 off_defs mem_simps)
  show ?thesis
    unfolding vcs_update_cal_data_def Let_def i
    by (simp del: calibrates.simps, rule returns_bind_pair [OF send_in_state [OF assms(1)]])
       (use assms(2) cal in \<open>auto intro!: returns_bind [OF store] simp del: calibrates.simps\<close>)
qed

lemma capture_wait_signalled:
  assumes "willing E" "in_state l fs s True w" "\<not> l Tz_lock" "s \<noteq> STATE_IDLE" "s \<noteq> STATE_CANCEL"
  shows "returns (capture_wait E w) (in_state l fs s True)"
  by (subst capture_wait.simps, rule returns_bind_pair [OF check_busy [OF assms]])
     (auto simp: in_state_def)

lemma capture_wait_attended:
  assumes E: "willing E" "in_state l fs s g w" "\<not> l Tz_lock" "s \<noteq> STATE_IDLE" "s \<noteq> STATE_CANCEL"
    and l: "l Sensor_lock" "\<not> l Timeout_lock" and g: "g \<or> attended E"
  shows "returns (capture_wait E w) (in_state l fs s True)"
proof (cases g)
  case True
  with E show ?thesis by (simp add: capture_wait_signalled)
next
  case False
  have step: "returns (cond_wait E Sensor_lock u) (in_state l fs s True)" if u: "in_state l fs s False u" for u
  proof -
    have "held u = l" using u by (auto simp: in_state_def intro: going_held)
    moreover have "others E (Cond_wait Sensor_lock # trace u) = [Ev_drdy]"
      using g False by (simp add: attended_def)
    ultimately show ?thesis
      using u E(3-5) l
      by (auto simp: cond_wait_def Let_def interfere_def log_call_def in_state_def going_def upd_defs fun_upd_idem)
  qed
  show ?thesis
    apply (subst capture_wait.simps, rule returns_bind_pair [OF check_busy [OF E]], elim conjE)
    apply (rule returns_if)
     apply (rule returns_bind [OF step], use False in simp)
     apply (rule capture_wait_signalled [OF E(1)], assumption, rule E(3), rule E(4), rule E(5))
    apply (use False in \<open>auto simp: in_state_def\<close>)
    done
qed

lemma capture_arm_signalled:
  assumes E: "willing E" and w: "in_state (\<lambda>_. False) fs s g w" and g: "g \<or> attended E" and s: "s \<noteq> STATE_IDLE" "s \<noteq> STATE_CANCEL"
  shows "returns (capture_arm E w) (\<lambda>(go, u). go \<and> in_state (\<lambda>_. False) fs s False u)"
proof -
  let ?f = "\<lambda>_ :: mutex. False" let ?s = "?f(Sensor_lock := True)"
  have un: "returns (unlock Sensor_lock u) (in_state ?f fs s g)" if "in_state ?s fs s g u" for u g
    using unlock_in_state [OF that, of Sensor_lock] by (simp add: fun_upd_idem)
  have clear: "in_state ?s fs s False (if sn_signal (sensor u) then upd_sensor (\<lambda>s. s\<lparr>sn_signal := False\<rparr>) u else u)"
    if "in_state ?s fs s True u" for u
    using that by (auto simp: in_state_def upd_sensor_def going_def)
  have start: "in_state ?s fs s g (snd (sensor_capture_start E u))" if "in_state ?s fs s g u" for u
    using that by (simp add: sensor_capture_start_def call_ret_def Let_def)
  show ?thesis
    unfolding capture_arm_def Let_def
    apply (rule returns_bind_pair [OF update_cal_in_state [OF E w]])
    apply (rule returns_bind [OF lock_in_state [OF E]], assumption, simp)
    apply (rule returns_bind [OF un], erule start)
    apply (rule returns_bind [OF lock_in_state [OF E]], assumption, simp)
    apply (rule returns_bind [OF capture_wait_attended [OF E _ _ s _ _ g]], assumption, simp, simp, simp)
    apply (rule returns_bind [OF un], assumption)
    apply (rule returns_bind_pair [OF check_busy [OF E _ _ s]], assumption, simp)
    apply (elim conjE, simp only: refl simp_thms if_False not_not)
    apply (rule returns_bind [OF lock_in_state [OF E]], assumption, simp)
    apply (rule returns_bind [OF un], erule clear, simp)
    done
qed

lemma capture_read_once:
  assumes "willing E" "in_state l fs s g w" "\<not> l Tz_lock" "s \<noteq> STATE_IDLE" "s \<noteq> STATE_CANCEL"
  shows "returns (capture_read E w) (\<lambda>(x, u). x = 0 \<and> in_state l fs s g u)"
  by (subst capture_read.simps, rule returns_bind_pair [OF check_busy [OF assms]])
     (auto intro!: returns_bind_pair [OF sends_in_state(2) [OF assms(1)]])

lemma vcs_start_capture_ideal:
  assumes E: "willing E" and w: "in_state (\<lambda>_. False) fs s g w" and g: "g \<or> attended E" and s: "s \<noteq> STATE_IDLE" "s \<noteq> STATE_CANCEL"
  shows "returns (vcs_start_capture E t w) (\<lambda>(x, u). x = 0 \<and> in_state (\<lambda>_. False) fs s False u)"
proof -
  have i: "ion_sbuffer w = Some ()" using w by (auto simp: in_state_def intro: ion_sbuffer_going)
  show ?thesis
    apply (subst vcs_start_capture.simps)
    apply (simp add: i Let_def)
    apply (rule returns_bind_pair [OF sends_in_state(1) [OF E w]], simp, elim conjE)
    apply (rule returns_bind_pair [OF capture_arm_signalled [OF E _ g s]], assumption, simp)
    apply (rule returns_bind_pair [OF capture_read_once [OF E _ _ s]], erule conjunct2, simp, simp, elim conjE)
    apply (rule returns_bind_pair [OF sends_in_state(3) [OF E]], assumption, simp)
    done
qed

lemma send_match_in_state:
  assumes "willing E" "in_state l fs s g w"
  shows "returns (send_match E w) (\<lambda>(x, u). x = 0 \<and> in_state l fs s g u \<and> result_of 563392 u = 0 \<and>
    data_of 563392 22 u \<noteq> 2 ^ 31 - 1 \<and> is_command vfmMatchImageToTemplates (trace u) \<and>
    data_of 563392 22 u = sint (get32 (response E (trace u)) (off_result_data 22)))"
proof -
  have put: "in_state l fs s g (put_templates is n v) = in_state l fs s g v" for "is" n v
    by (induction "is" arbitrary: n v) (simp_all add: Let_def)
  have "returns (send_match E w) (\<lambda>(x, u). x = 0 \<and> in_state l fs s g u \<and> result_of 563392 u = 0 \<and>
    (is_command vfmMatchImageToTemplates (trace u) \<longrightarrow> data_of 563392 22 u \<noteq> 2 ^ 31 - 1) \<and>
    data_of 563392 22 u = sint (get32 (response E (trace u)) (off_result_data 22)))"
    unfolding send_match_def Let_def
    by (rule returns_mono [OF send_in_state]; use assms in \<open>auto simp: put\<close>)
  moreover have "is_command vfmMatchImageToTemplates (trace u)" if "send_match E w = Some (x, u)" for x u
    using that by (auto elim!: send_match_cases simp: match_command_def)
  ultimately show ?thesis by (auto simp: returns_def)
qed

lemma authenticate_loop_ideal:
  assumes E: "willing E" and w: "in_state (\<lambda>_. False) fs STATE_SCAN g w"
    and g: "g \<or> attended E" and i: "names_template E i" "i < length (enrolled fs)"
  shows "returns (authenticate_loop E w) (\<lambda>(k, u). k = enrolled fs ! i \<and> in_state (\<lambda>_. False) fs STATE_SCAN False u)"
proof -
  have index: "is_command vfmMatchImageToTemplates t \<Longrightarrow> sint (get32 (response E t) (off_result_data 22)) = int i" for t
    using i(1) by (simp add: names_template_def)
  have small: "i \<noteq> 2147483647" using i(2) length_enrolled [of fs] by (simp add: MAX_NUM_FINGERS_def)
  have nth: "find_match (finger (tz u)) slot_indices 0 (int i + 1) = enrolled fs ! i"
    if "in_state (\<lambda>_. False) fs STATE_SCAN False u" for u
    using i(2) that by (simp add: find_match_nth in_state_def going_def)
  show ?thesis
    apply (subst authenticate_loop.simps)
    apply (rule returns_bind_pair [OF get_in_state [OF E w]], simp)
    apply (elim conjE, simp)
    apply (rule returns_bind_pair [OF vcs_start_capture_ideal [OF E _ g]], assumption, simp, simp)
    apply (simp add: Let_def)
    apply (rule returns_bind_pair [OF send_match_in_state [OF E]], assumption)
    apply (simp add: index small nth Let_def, elim conjE)
    apply (rule returns_bind_pair [OF sends_in_state(5) [OF E]], assumption)
    apply simp
    done
qed

text \<open>After the application has been shut down only the locks and the callback are left.\<close>

definition settled :: "world \<Rightarrow> bool" where
  "settled w \<longleftrightarrow> km_init w \<and> km_handle w = Km_loaded \<and> (\<forall>m. \<not> held w m) \<and> notify_set (vdev w)"

lemma settled_simps [simp]:
  "settled (log_call c w) = settled w" "settled (upd_tz f w) = settled w" "settled (upd_sensor g w) = settled w"
  "settled (upd_buf b w) = settled w" "settled (wr32 o1 x w) = settled w" "settled (wr_zero n w) = settled w"
  by (simp_all add: settled_def log_call_def upd_defs buf_defs)

lemma in_state_settled: "in_state (\<lambda>_. False) fs s g w \<Longrightarrow> settled w"
  by (simp add: in_state_def going_def settled_def)

lemma settled_send:
  "settled w \<Longrightarrow> returns (QSEECom_send_cmd E sl r n w) (\<lambda>(_, u). settled u \<and> tz u = tz w)"
  by (auto simp: QSEECom_send_cmd_def init_qsee_def deref_km_handle_def call_ret_def Let_def settled_def
      log_call_def upd_defs)

lemma settled_calls:
  assumes "settled w"
  shows "returns (QSEECom_set_bandwidth E b w) (\<lambda>(_, u). settled u)"
    "returns (QSEECom_shutdown_app E w) (\<lambda>(_, u). settled u)"
    "returns (set_tz_state E s w) (\<lambda>u. settled u \<and> tz_state (tz u) = s)"
proof -
  have "settled (interfere E (log_call c w))" for c
  proof -
    have "steps_only w (interfere E (log_call c w))"
      by (rule steps_only_trans [OF steps_only_log steps_only_interfere])
    with assms show ?thesis by (simp add: settled_def steps_only_fields)
  qed
  with assms show "returns (set_tz_state E s w) (\<lambda>u. settled u \<and> tz_state (tz u) = s)"
    by (auto simp: set_tz_state_eq Let_def settled_def) (simp_all add: upd_tz_def)
qed (use assms in \<open>auto simp: QSEECom_set_bandwidth_def QSEECom_shutdown_app_def init_qsee_def
      deref_km_handle_def call_ret_def Let_def settled_def log_call_def upd_defs\<close>)

lemma settled_auth_token:
  assumes "settled w" "qhandle (tz w)"
  shows "returns (vcs_update_auth_token E w) (\<lambda>(_, u). settled u)"
  unfolding vcs_update_auth_token_def auth_token_request_def Let_def
  using assms
  by (auto simp: ion_sbuffer_def intro!: returns_bind_pair [OF settled_send])

lemma settled_uninit:
  assumes "settled w" "qhandle (tz w)"
  shows "returns (vcs_uninit E w) (\<lambda>(_, u). settled u)"
proof -
  have i: "ion_sbuffer w = Some ()" using assms by (simp add: ion_sbuffer_def)
  have t: "returns (if auth_session_opend (tz w) then map_option snd (vcs_update_auth_token E w) else Some w) settled"
    using settled_auth_token [OF assms, of E] assms(1) by (auto simp: returns_def)
  show ?thesis
    unfolding vcs_uninit_def Let_def i
    apply (simp only: Option.bind.bind_lunit)
    apply (rule returns_bind [OF t])
    apply (rule returns_bind_pair [OF settled_send], simp, elim conjE)
    apply (rule returns_bind_pair [OF settled_calls(1)], assumption)
    apply (rule returns_bind_pair [OF settled_calls(2)], assumption)
    apply (rule returns_bind [OF settled_calls(3)], simp)
    apply simp
    done
qed

lemma settled_notice:
  assumes "settled w"
  shows "returns (send_authenticated_notice E k w) settled"
proof -
  have l: "returns (lock E Dev_lock u) (\<lambda>v. held v = (\<lambda>_. False)(Dev_lock := True) \<and> notify_set (vdev v) \<and>
      km_init v \<and> km_handle v = Km_loaded)" if "settled u" for u
  proof -
    have "steps_only u (interfere E (log_call (Mutex_lock Dev_lock) u))"
      by (rule steps_only_trans [OF steps_only_log steps_only_interfere])
    moreover have "held u = (\<lambda>_. False)" using that by (auto simp: settled_def)
    ultimately show ?thesis
      using that by (auto simp: lock_def Let_def settled_def steps_only_fields)
  qed
  have n: "returns (notify x u) (\<lambda>v. held v = (\<lambda>_. False)(Dev_lock := True) \<and> notify_set (vdev v) \<and>
      km_init v \<and> km_handle v = Km_loaded)"
    if "held u = (\<lambda>_. False)(Dev_lock := True) \<and> notify_set (vdev u) \<and> km_init u \<and> km_handle u = Km_loaded" for x u
    using that by (simp add: notify_def log_call_def)
  have un: "returns (unlock Dev_lock u) settled"
    if "held u = (\<lambda>_. False)(Dev_lock := True) \<and> notify_set (vdev u) \<and> km_init u \<and> km_handle u = Km_loaded" for u
    using that by (simp add: unlock_def settled_def)
  have sect: "returns (do { w \<leftarrow> lock E Dev_lock u; w \<leftarrow> notify x w; unlock Dev_lock w }) settled"
    if "settled u" for u x
    by (rule returns_bind [OF l [OF that]], rule returns_bind [OF n], assumption, rule un, assumption)
  show ?thesis
    unfolding send_authenticated_notice_def send_acquired_notice_def Let_def
    by (rule returns_bind [OF sect [OF assms]], rule sect) simp
qed

lemma authenticate_body_ideal:
  assumes E: "willing E" and w: "in_state (\<lambda>_. False) fs STATE_SCAN g w"
    and g: "g \<or> attended E" and i: "names_template E i" "i < length (enrolled fs)"
  shows "returns (do {
     _ \<leftarrow> ion_sbuffer w;
     (_, w) \<leftarrow> send_vendor_unknown E vendorUnknown0 w;
     (fingerindex, w) \<leftarrow> authenticate_loop E w;
     let w = snd (sensor_uninit w);
     (_, w) \<leftarrow> vcs_uninit E w;
     w \<leftarrow> set_tz_state E STATE_IDLE w;
     Some (fingerindex, w) }) (\<lambda>(k, u). k = enrolled fs ! i \<and> settled u)"
proof -
  have ion: "ion_sbuffer w = Some ()" using w by (auto simp: in_state_def intro: ion_sbuffer_going)
  have off: "settled (snd (sensor_uninit u)) \<and> qhandle (tz (snd (sensor_uninit u)))"
    if "in_state (\<lambda>_. False) fs STATE_SCAN False u" for u
    using in_state_settled [OF that] that
    by (auto simp: sensor_uninit_def ioctl_def Let_def in_state_def going_def log_call_def upd_sensor_def settled_def)
  show ?thesis
    unfolding ion Let_def
    apply simp
    apply (rule returns_bind_pair [OF sends_in_state(4) [OF E w]], elim conjE)
    apply (rule returns_bind_pair [OF authenticate_loop_ideal [OF E _ g i]], assumption, elim conjE)
    apply (drule off, elim conjE)
    apply (rule returns_bind_pair [OF settled_uninit], assumption, assumption)
    apply (rule returns_bind [OF settled_calls(3)], assumption)
    apply simp
    done
qed

lemma authenticate_ideal:
  assumes "willing E" "in_state (\<lambda>_. False) fs STATE_SCAN g w" and "g \<or> attended E"
    and "names_template E i" "i < length (enrolled fs)"
  shows "\<exists>u hat. vcs_authenticate E w = Some u \<and> notices u \<noteq> [] \<and>
    last (notices u) = Msg_authenticated (int (enrolled fs ! i)) hat"
proof -
  have "enrolled fs ! i \<in> set (enrolled fs)" using assms(5) by simp
  then have pos: "enrolled fs ! i \<noteq> 0" by (auto simp: set_enrolled)
  obtain v where v: "do {
     _ \<leftarrow> ion_sbuffer w;
     (_, w) \<leftarrow> send_vendor_unknown E vendorUnknown0 w;
     (fingerindex, w) \<leftarrow> authenticate_loop E w;
     let w = snd (sensor_uninit w);
     (_, w) \<leftarrow> vcs_uninit E w;
     w \<leftarrow> set_tz_state E STATE_IDLE w;
     Some (fingerindex, w) } = Some (enrolled fs ! i, v)" and s: "settled v"
    using authenticate_body_ideal [OF assms] by (auto elim!: returns_obtain)
  obtain u where u: "send_authenticated_notice E (int (enrolled fs ! i)) v = Some u"
    using settled_notice [OF s] by (auto elim!: returns_obtain)
  have "vcs_authenticate E w = Some u"
    unfolding authenticate_split v using u pos by simp
  with authenticated_notice_exact [OF u] show ?thesis by auto
qed

lemma good_env_ideal: "ideal good_env"
  by (simp add: ideal_def quiet_def cooperative_def good_env_def good_response_def get32_def off_defs
      CALIBRATE_DATA_MAX_LENGTH_def)

lemma example_in_state: "in_state (\<lambda>_. False) one_finger s True (example_world s)"
  by (simp add: in_state_def going_def example_world_def zero_device_def zero_tz_def)

lemma enrolled_one: "enrolled one_finger = [2]"
  by (simp add: enrolled_def slot_indices_eq one_finger_def zero_finger_def)

lemma good_index: "names_template good_env 0"
  by (simp add: names_template_def good_env_def good_response_def get32_def off_defs)

text \<open>The authenticating thread returns and reports.  With no other thread interfering, a sensor
  that has signalled and an application that answers every command with success and the index
  \<open>i\<close> of an enrolled finger, a run from the state SCAN terminates and its last message
  authenticates the \<open>i\<close>-th enrolled slot.\<close>

theorem authenticate_reports:
  assumes "ideal E" "in_state (\<lambda>_. False) fs STATE_SCAN True w"
    and "names_template E i" "i < length (enrolled fs)"
  shows "\<exists>u hat. vcs_authenticate E w = Some u \<and> notices u \<noteq> [] \<and>
    last (notices u) = Msg_authenticated (int (enrolled fs ! i)) hat"
  using assms by (intro authenticate_ideal [where g = True] ideal_willing) simp_all

theorem authenticate_reports_witness:
  "\<exists>u hat. vcs_authenticate good_env (example_world STATE_SCAN) = Some u \<and> notices u \<noteq> [] \<and>
    last (notices u) = Msg_authenticated 2 hat"
  using authenticate_reports [OF good_env_ideal example_in_state good_index] by (simp add: enrolled_one)

theorem authenticate_sound_witness:
  "\<exists>u ms. vcs_authenticate good_env (example_world STATE_SCAN) = Some u \<and> (\<forall>m\<in>set ms. about_images m) \<and>
    (notices u = ms \<or> (\<exists>k hat. notices u = ms @ [Msg_acquired FINGERPRINT_ACQUIRED_GOOD, Msg_authenticated (int k) hat] \<and>
      k = 2))"
proof -
  obtain u where u: "vcs_authenticate good_env (example_world STATE_SCAN) = Some u"
    using authenticate_ideal [OF ideal_willing [OF good_env_ideal] example_in_state _ good_index] by (auto simp: enrolled_one)
  have one: "1 \<le> k \<and> k \<le> MAX_NUM_FINGERS \<and> exist (finger (tz (example_world STATE_SCAN)) k) \<longleftrightarrow> k = 2" for k
    by (auto simp: example_world_def one_finger_def zero_finger_def MAX_NUM_FINGERS_def)
  have "notices (example_world STATE_SCAN) = []" by (simp add: notices_def example_world_def map_filter_simps)
  with authenticate_sound [OF u] u one show ?thesis by (metis append_Nil)
qed

subsection \<open>Leaving the wait for the sensor\<close>

text \<open>From the \<open>n\<close>-th call on, another thread asks for the end at every opportunity, as a caller of
  \<open>fingerprint_cancel\<close> does.\<close>

definition keeps_cancelling :: "env \<Rightarrow> nat \<Rightarrow> bool" where
  "keeps_cancelling E n \<longleftrightarrow> (\<forall>t. n \<le> length t \<longrightarrow> others E t = [Ev_set_state STATE_CANCEL])"

lemma check_state_going:
  assumes w: "going l fs w" "\<not> l Tz_lock"
  shows "returns (vcs_check_state E w) (\<lambda>(c, u). going l fs u \<and> length (trace w) < length (trace u) \<and>
     (c \<noteq> 0 \<longrightarrow> tz_state (tz u) = STATE_IDLE) \<and>
     (keeps_cancelling E n \<longrightarrow> n \<le> length (trace w) \<longrightarrow> c \<noteq> 0))"
proof -
  let ?u = "\<lambda>v. interfere E (log_call (Mutex_lock Tz_lock) v)"
  have held: "held w = l" "held (?u w) = l"
    using w(1) going_held [OF going_interfere [of l fs "log_call (Mutex_lock Tz_lock) w" E]] by (simp_all add: going_held)
  have cancel: "tz_state (tz (?u (?u w))) = STATE_CANCEL" if "keeps_cancelling E n" "n \<le> length (trace w)"
  proof -
    have "others E (trace (log_call (Mutex_lock Tz_lock) (?u w))) = [Ev_set_state STATE_CANCEL]"
      using that by (simp add: keeps_cancelling_def)
    moreover have "\<not> held (log_call (Mutex_lock Tz_lock) (?u w)) Tz_lock"
      using held w(2) by (simp add: log_call_def)
    ultimately show ?thesis by (simp add: interfere_def [of E "log_call c v" for c v] upd_tz_def)
  qed
  show ?thesis
    unfolding vcs_check_state_def Let_def ion_sbuffer_going [OF w(1)] Option.bind.bind_lunit
    apply (rule returns_bind_pair [OF get_tz_state_going [OF w]], elim conjE)
    apply (rule returns_if)
     apply simp
    apply (rule returns_bind_pair [OF get_tz_state_going], assumption, rule w(2), elim conjE)
    apply (rule returns_if)
     apply (rule returns_bind_pair [OF send_cmd_going [where l = l and fs = fs]], simp only: going_simps, elim conjE)
     apply (rule returns_bind [OF set_tz_state_going [where l = l and fs = fs]], assumption, rule w(2))
     apply simp
    using cancel apply auto
    done
qed

lemma cond_wait_going:
  assumes "going l fs w" "l m"
  shows "returns (cond_wait E m w) (\<lambda>u. going l fs u \<and> trace u = Cond_wait m # trace w)"
proof -
  let ?v = "interfere E (log_call (Cond_wait m) (w\<lparr>held := l(m := False)\<rparr>))"
  have v: "going (l(m := False)) fs ?v"
    using going_relock [OF assms(1), of "l(m := False)"] by simp
  have "going l fs (?v\<lparr>held := (held ?v)(m := True)\<rparr>)"
    using going_relock [OF v, of l] going_held [OF v] assms(2) by (simp add: fun_upd_idem)
  with assms going_held [OF assms(1)] show ?thesis by (simp add: cond_wait_def Let_def)
qed

lemma capture_wait_returns:
  assumes "going l fs w" "l Sensor_lock" "\<not> l Tz_lock" "keeps_cancelling E n"
  shows "returns (capture_wait E w) (\<lambda>u. going l fs u \<and> (tz_state (tz u) = STATE_IDLE \<or> sn_signal (sensor u)))"
  using assms(1)
proof (induction "n - length (trace w)" arbitrary: w rule: less_induct)
  case less
  show ?case
  proof (subst capture_wait.simps, rule returns_bind_pair [OF check_state_going [OF less.prems assms(3), where n = n]], elim conjE)
    fix c u
    assume u: "going l fs u" "length (trace w) < length (trace u)"
      and c: "c \<noteq> 0 \<longrightarrow> tz_state (tz u) = STATE_IDLE" "keeps_cancelling E n \<longrightarrow> n \<le> length (trace w) \<longrightarrow> c \<noteq> 0"
    show "returns (if c = 0 \<and> \<not> sn_signal (sensor u) then Option.bind (cond_wait E Sensor_lock u) (capture_wait E) else Some u)
        (\<lambda>u. going l fs u \<and> (tz_state (tz u) = STATE_IDLE \<or> sn_signal (sensor u)))"
    proof (rule returns_if)
      assume "c = 0 \<and> \<not> sn_signal (sensor u)"
      with c(2) assms(4) have "length (trace w) < n" by auto
      then show "returns (Option.bind (cond_wait E Sensor_lock u) (capture_wait E))
          (\<lambda>u. going l fs u \<and> (tz_state (tz u) = STATE_IDLE \<or> sn_signal (sensor u)))"
        using u by (intro returns_bind [OF cond_wait_going [OF u(1) assms(2)]] less.hyps) auto
    qed (use u c in auto)
  qed
qed

text \<open>C18: a worker that waits for the sensor can be stopped.  If from some point on another thread
  keeps asking for the end, the waiting loop of \<open>vcs_start_capture\<close>, entered with the sensor
  lock, returns still holding it: either the worker state is back to IDLE, or the sensor has
  signalled meanwhile.\<close>

theorem capture_wait_cancelled:
  assumes "going l fs w" "l Sensor_lock" "\<not> l Tz_lock" "keeps_cancelling E n"
  shows "\<exists>u. capture_wait E w = Some u \<and> held u = l \<and> (tz_state (tz u) = STATE_IDLE \<or> sn_signal (sensor u))"
  using capture_wait_returns [OF assms] by (auto elim!: returns_obtain simp: going_held)

definition cancelling_env :: env where
  "cancelling_env = good_env\<lparr>others := (\<lambda>_. [Ev_set_state STATE_CANCEL])\<rparr>"

theorem capture_wait_cancelled_witness:
  "\<exists>u. capture_wait cancelling_env (example_world STATE_SCAN\<lparr>held := (\<lambda>m. m = Sensor_lock)\<rparr>) = Some u \<and>
    (tz_state (tz u) = STATE_IDLE \<or> sn_signal (sensor u))"
proof -
  have "keeps_cancelling cancelling_env 0" by (simp add: keeps_cancelling_def cancelling_env_def)
  moreover have "going (\<lambda>m. m = Sensor_lock) one_finger (example_world STATE_SCAN\<lparr>held := (\<lambda>m. m = Sensor_lock)\<rparr>)"
    by (simp add: going_def example_world_def zero_tz_def zero_device_def)
  ultimately show ?thesis using capture_wait_cancelled by fastforce
qed

text \<open>C38: what \<open>vcs_check_state\<close> does.  It looks at the worker state twice, and other threads may act
  before each look.  With a live application and its lock free it returns: 1, having done nothing
  else, when the first look finds IDLE; 1, having sent exactly the command \<open>vfmCaptureAbort\<close> and
  then set the state IDLE, when the second look finds CANCEL; and 0, having done nothing else,
  otherwise.\<close>

theorem check_state_aborts:
  assumes "going l fs w" "\<not> l Tz_lock"
    and "w1 = interfere E (log_call (Mutex_lock Tz_lock) w)" "w2 = interfere E (log_call (Mutex_lock Tz_lock) w1)"
  shows "\<exists>c u. vcs_check_state E w = Some (c, u) \<and>
    (if tz_state (tz w1) = STATE_IDLE then c = 1 \<and> u = w1
     else if tz_state (tz w2) = STATE_CANCEL then c = 1 \<and> tz_state (tz u) = STATE_IDLE \<and>
       (\<exists>b. get32 b off_cmd = cmd_id vfmCaptureAbort \<and>
          trace u = [Mutex_lock Tz_lock, Qsee_send_cmd b 64 64 64, Mutex_lock Tz_lock, Mutex_lock Tz_lock] @ trace w)
     else c = 0 \<and> u = w2)"
proof -
  obtain s1 where v1: "get_tz_state E w = Some (s1, w1)" "going l fs w1" "s1 = tz_state (tz w1)"
    using get_tz_state_going [OF assms(1,2), of E] assms(3) by (auto elim!: returns_obtain)
  obtain s2 where v2: "get_tz_state E w1 = Some (s2, w2)" "going l fs w2" "s2 = tz_state (tz w2)"
    using get_tz_state_going [OF v1(2) assms(2), of E] assms(4) by (auto elim!: returns_obtain)
  have tr: "trace w2 = [Mutex_lock Tz_lock, Mutex_lock Tz_lock] @ trace w" using assms(3,4) by simp
  let ?w = "wr32 off_cmd (cmd_id vfmCaptureAbort) (wr_zero 128 w2)"
  have "going l fs ?w" using v2(2) by simp
  then obtain r v3 where v3: "QSEECom_send_cmd E 64 64 64 ?w = Some (r, v3)" "going l fs v3"
      "trace v3 = Qsee_send_cmd (ibuf ?w) 64 64 64 # trace ?w"
    using send_cmd_going [of l fs ?w E 64 64 64] by (auto elim!: returns_obtain)
  obtain v4 where v4: "set_tz_state E STATE_IDLE v3 = Some v4" "tz_state (tz v4) = STATE_IDLE" "trace v4 = Mutex_lock Tz_lock # trace v3"
    using set_tz_state_going [OF v3(2) assms(2), of E STATE_IDLE] by (auto elim!: returns_obtain)
  have "get32 (ibuf ?w) off_cmd = cmd_id vfmCaptureAbort" by (simp add: wr32_def upd_buf_def get32_put32_same)
  moreover have "trace ?w = trace w2" by (simp add: wr32_def wr_zero_def upd_buf_def)
  moreover have "vcs_check_state E w = Some (if tz_state (tz w1) = STATE_IDLE then (1, w1)
      else if tz_state (tz w2) = STATE_CANCEL then (1, v4) else (0, w2))"
    using v1(1,3) v2(1,3) v3(1) v4(1) ion_sbuffer_going [OF assms(1)] by (simp add: vcs_check_state_def Let_def)
  ultimately show ?thesis using v3(3) v4(2,3) tr by auto
qed

theorem check_state_aborts_witness:
  "\<exists>u. vcs_check_state good_env (example_world STATE_CANCEL) = Some (1, u) \<and> tz_state (tz u) = STATE_IDLE \<and>
     length (trace u) = 4"
proof -
  have "going (\<lambda>_. False) one_finger (example_world STATE_CANCEL)"
    using example_in_state by (simp add: in_state_def)
  from check_state_aborts [OF this _ HOL.refl HOL.refl, of good_env] show ?thesis
    by (auto simp: good_env_def interfere_def example_world_def log_call_def)
qed

end
