(* ===== verification/Tz_Enroll.thy ===== *)
theory Tz_Enroll
  imports Tz_Live
begin

text \<open>
  What the enrolling thread promises: it touches one free slot only, it counts the images
  down and reports a number only for an image that was accepted, and it never reports an
  authentication.
\<close>

subsection \<open>One slot\<close>

definition only_slot :: "nat \<Rightarrow> world \<Rightarrow> world \<Rightarrow> bool" where
  "only_slot k w u \<longleftrightarrow> (\<forall>i. i \<noteq> k \<longrightarrow> finger (tz u) i = finger (tz w) i)"

lemma only_slot_of_same: "same_fingers w u \<Longrightarrow> only_slot k w u"
  by (simp add: only_slot_def same_fingers_def)

interpretation slot: image_frame "only_slot k" "\<lambda>_. True" for k
  by unfold_locales (auto simp: only_slot_def log_call_def upd_defs fingers_event sensor_power_eqs)

lemma only_slot_set: "only_slot k w v \<Longrightarrow> only_slot k w (set_finger k f v)"
  by (simp add: only_slot_def set_finger_def upd_tz_def)

lemma only_slot_insert:
  "only_slot k w v \<Longrightarrow> on_return (db_write_to_db E False i v) (\<lambda>(_, u). only_slot k w u)"
  by (auto simp: db_write_to_db_def call_ret_def Let_def bind_eq_Some_conv only_slot_def log_call_def intro!: on_returnI)

lemma enroll_finish_slot:
  assumes "only_slot k w v"
  shows "on_return (enroll_finish E k v) (only_slot k w)"
proof -
  have index: "on_return (Option.bind (finger_index (int k)) f) Q" if "on_return (f k) Q"
    for f :: "nat \<Rightarrow> world option" and Q
    using that by (auto simp: finger_index_def on_return_def)
  show ?thesis
    unfolding enroll_finish_def Let_def
    by (intro slot.bind_pair [where w = w and k = k] slot.send_frame index only_slot_insert only_slot_set slot.ret_world;
        simp add: assms)
qed

lemma find_free_slot: "find_free fs slot_indices \<le> MAX_NUM_FINGERS \<Longrightarrow>
    1 \<le> find_free fs slot_indices \<and> \<not> exist (fs (find_free fs slot_indices))"
  by (auto simp: slot_indices_eq MAX_NUM_FINGERS_def split: if_splits)

lemma enroll_body_slot:
  assumes "only_slot k w v"
  shows "on_return (enroll_out E v) (only_slot k w)" "on_return (enroll_fail E v) (only_slot k w)"
  unfolding enroll_out_def enroll_fail_def Let_def
  by (intro slot.bind_world [where w = w and k = k] slot.set_tz_state_frame slot.bind_pair [where w = w and k = k]
      slot.sessions slot.after slot.ret_world slot.notice_frame slot.unable; (fact | simp add: assms))+

text \<open>C7: enrolling never damages an enrolled finger.  A run of the enrolling thread that returns has
  changed no slot but the first free one it chose at its start, so every finger that was
  enrolled keeps its template and payload; and it has sent no authentication message.\<close>

theorem enroll_touches_free_slot:
  "on_return (vcs_enroll E w) (\<lambda>u.
     finger (tz u) = (finger (tz w))(find_free (finger (tz w)) slot_indices :=
       finger (tz u) (find_free (finger (tz w)) slot_indices)) \<and>
     says_only not_authenticated w u)"
proof -
  define k where "k = find_free (finger (tz w)) slot_indices"
  have refl: "only_slot k w w" by (rule slot.refl)
  have "on_return (vcs_enroll E w) (only_slot k w)"
    unfolding vcs_enroll_def Let_def k_def [symmetric]
    by (intro slot.bind_unit slot.bind_pair [where w = w and k = k] slot.send_frame slot.if_rule slot.enroll_loop_frame
        enrolling.exit_rule slot.bind_world [where w = w and k = k] enroll_finish_slot enroll_body_slot slot.ret_world;
        (fact | simp add: refl))
  then show ?thesis
    using enrolling.vcs_enroll_frame [OF enrolling.refl, of E w]
    unfolding k_def by (auto simp: on_return_def only_slot_def fun_eq_iff)
qed

subsection \<open>The countdown\<close>

lemma enroll_remaining_cases:
  assumes "1 \<le> c"
  shows "enroll_remaining c d = (if d = 1 then 0 else max 1 (c - 1))"
  using assms by (auto simp: enroll_remaining_def Let_def)

fun countdown :: "int \<Rightarrow> int list \<Rightarrow> bool" where
  "countdown c [] = True"
| "countdown c (n # ns) = (n = 0 \<and> ns = [] \<or> n = max 1 (c - 1) \<and> countdown n ns)"

fun number_of :: "nat \<Rightarrow> fingerprint_msg \<Rightarrow> int list" where
  "number_of k (Msg_enrolling i n) = (if i = int k then [n] else [])"
| "number_of k _ = []"

definition numbers :: "nat \<Rightarrow> fingerprint_msg list \<Rightarrow> int list" where
  "numbers k ms = concat (map (number_of k) ms)"

lemma numbers_append: "numbers k (xs @ ys) = numbers k xs @ numbers k ys"
  by (simp add: numbers_def)

lemma numbers_images: "(\<And>m. m \<in> set ms \<Longrightarrow> about_images m) \<Longrightarrow> numbers k ms = []"
proof -
  have "about_images m \<Longrightarrow> number_of k m = []" for m by (cases m) auto
  then show "(\<And>m. m \<in> set ms \<Longrightarrow> about_images m) \<Longrightarrow> numbers k ms = []"
    by (auto simp: numbers_def)
qed

text \<open>A number is reported for an image that was just added: the last call before the device lock was
  taken is a \<open>vfmEnrollAddImage\<close> that the application accepted, and the number is 0 just when the
  application answers that the images suffice.\<close>

fun counts_image :: "env \<Rightarrow> int \<Rightarrow> ext_call list \<Rightarrow> bool" where
  "counts_image E n (c # t) = (c = Mutex_lock Dev_lock \<and> adds_image t \<and> ret E t = 0 \<and>
     get32 (response E t) off_result = 0 \<and> (n = 0 \<longleftrightarrow> get32 (response E t) (off_result_data 2) = 1))"
| "counts_image E n [] = False"

fun answered :: "env \<Rightarrow> ext_call list \<Rightarrow> ext_call list \<Rightarrow> bool" where
  "answered E h [] = True"
| "answered E h (c # tr) = (answered E h tr \<and>
     (case c of Notify (Msg_enrolling k n) \<Rightarrow> counts_image E n (tr @ h) | _ \<Rightarrow> True))"

lemma answered_append: "answered E h (tr' @ tr) = (answered E (tr @ h) tr' \<and> answered E h tr)"
  by (induction tr') (auto split: ext_call.splits fingerprint_msg.splits)

lemma answered_single: "(\<And>k n. c \<noteq> Notify (Msg_enrolling k n)) \<Longrightarrow> answered E h [c]"
  by (auto split: ext_call.splits fingerprint_msg.splits)

definition answers :: "env \<Rightarrow> world \<Rightarrow> world \<Rightarrow> bool" where
  "answers E w u \<longleftrightarrow> (\<exists>tr. trace u = tr @ trace w \<and> answered E (trace w) tr)"

lemma answers_eq: "trace u = trace w \<Longrightarrow> answers E w u"
  unfolding answers_def by (intro exI [of _ "[]"]) simp

lemma answers_log: "(\<And>k n. c \<noteq> Notify (Msg_enrolling k n)) \<Longrightarrow> answers E w (log_call c w)"
  unfolding answers_def by (intro exI [of _ "[c]"] conjI answered_single) (simp_all del: answered.simps)

lemma answers_trans: "answers E u v \<Longrightarrow> answers E v w \<Longrightarrow> answers E u w"
  unfolding answers_def by (metis append_assoc answered_append)

lemma answers_plain: "\<forall>c \<in> set tr. \<forall>m. c \<noteq> Notify m \<Longrightarrow> answered E h tr"
  by (induction tr) (auto split: ext_call.splits)

lemma answers_power: "answers E w (snd (sensor_init w))" "answers E w (snd (sensor_uninit w))"
  using sensor_power_adds [of "\<lambda>c. \<forall>m. c \<noteq> Notify m" w] answers_plain by (auto simp: answers_def)

lemma answers_held: "answers E (w\<lparr>held := l\<rparr>) v = answers E w v" "answers E w (v\<lparr>held := l'\<rparr>) = answers E w v"
  by (simp_all add: answers_def)

interpretation answer: match_frame "answers E" about_images for E
proof (unfold_locales, goal_cases)
  case (2 u v w)
  then show ?case by (rule answers_trans)
qed (auto intro: answers_eq answers_log answers_power simp: answers_held)

interpretation answer: finger_frame "answers E" about_images for E
  by unfold_locales (auto intro: answers_eq answers_log simp: set_finger_def)

text \<open>The messages between two worlds, with nothing said about fingers and the device unchanged.\<close>

definition silent :: "env \<Rightarrow> nat \<Rightarrow> world \<Rightarrow> world \<Rightarrow> bool" where
  "silent E k w u \<longleftrightarrow> vdev u = vdev w \<and> answers E w u \<and> (\<exists>ms. notices u = notices w @ ms \<and> numbers k ms = [])"

lemma silent_trans: "silent E k u v \<Longrightarrow> silent E k v w \<Longrightarrow> silent E k u w"
  by (fastforce simp: silent_def numbers_append intro: answers_trans)

lemma silent_frames:
  assumes "says_only about_images w u" "same_device w u" "answers E w u"
  shows "silent E k w u"
  using assms numbers_images by (fastforce simp: silent_def says_only_def same_device_def)

lemma silent_pair:
  assumes "on_return m (\<lambda>(_, u). says_only about_images w u)" "on_return m (\<lambda>(_, u). same_device w u)"
    "on_return m (\<lambda>(_, u). answers E w u)" "m = Some (x, u)"
  shows "silent E k w u"
  using assms silent_frames by (auto simp: on_return_def)

lemma silent_world:
  assumes "on_return m (says_only about_images w)" "on_return m (same_device w)" "on_return m (answers E w)" "m = Some u"
  shows "silent E k w u"
  using assms silent_frames by (auto simp: on_return_def)

lemmas silent_steps =
  silent_pair [OF images.get_tz_state_frame [OF images.refl] device.get_tz_state_frame [OF device.refl]
    answer.get_tz_state_frame [OF answer.refl]]
  silent_pair [OF images.vcs_start_capture_frame [OF images.refl] device.vcs_start_capture_frame [OF device.refl]
    answer.vcs_start_capture_frame [OF answer.refl]]
  silent_pair [OF images.send_frame(7) [OF images.refl] device.send_frame(7) [OF device.refl]
    answer.send_frame(7) [OF answer.refl]]
  silent_world [OF images.set_tz_state_frame [OF images.refl] device.set_tz_state_frame [OF device.refl]
    answer.set_tz_state_frame [OF answer.refl]]
  silent_world [OF images.notice_frame(1) [OF images.refl images.unable] device.notice_frame(1) [OF device.refl device.unable]
    answer.notice_frame(1) [OF answer.refl answer.unable]]
  silent_world [OF images.notice_frame(2) [OF images.refl images.acquired] device.notice_frame(2) [OF device.refl device.acquired]
    answer.notice_frame(2) [OF answer.refl answer.acquired]]

text \<open>The notice about an accepted image.\<close>

lemma add_image_trace:
  assumes "send_enroll_add_image E w = Some (r, v)"
  shows "adds_image (trace v)" "r = ret E (trace v)"
    "result_of 64 v = sint (get32 (response E (trace v)) off_result)"
    "data_of 64 2 v = sint (get32 (response E (trace v)) (off_result_data 2))"
proof -
  let ?w = "wr32 (64 + off_result_data 0) 8 (wr32 off_cmd (cmd_id vfmEnrollAddImage) (wr_zero (64 + 102464) w))"
  have send: "QSEECom_send_cmd E 64 64 102464 ?w = Some (r, v)"
    using assms by (simp add: send_enroll_add_image_def Let_def)
  from send_cmd_cases [OF send] obtain h where
    "trace v = Qsee_send_cmd (ibuf ?w) 64 64 102464 # h @ trace ?w" "r = ret E (trace v)"
    "ibuf v = memcpy (ibuf ?w) 64 (response E (trace v)) 0 102464" .
  moreover have "get32 (ibuf ?w) off_cmd = cmd_id vfmEnrollAddImage"
    by (simp add: ibuf_wr32 mem_simps off_defs)
  ultimately show "adds_image (trace v)" "r = ret E (trace v)"
    "result_of 64 v = sint (get32 (response E (trace v)) off_result)"
    "data_of 64 2 v = sint (get32 (response E (trace v)) (off_result_data 2))"
    by (simp_all add: result_of_def data_of_def get32_memcpy_inside off_result_def off_result_data_def)
qed

lemma image_counted:
  assumes "send_enroll_add_image E w = Some (0, v)" "result_of 64 v = 0"
    "send_enroll_notice E k n v = Some u" "n = 0 \<longleftrightarrow> data_of 64 2 v = 1"
  shows "answers E v u"
proof -
  have one: "sint x = 1 \<longleftrightarrow> x = 1" "sint x = 0 \<longleftrightarrow> x = 0" for x :: u32
    using signed_word_eqI [of x 1] signed_word_eqI [of x 0] by auto
  have tr: "trace u = trace v \<or> trace u = [Notify (Msg_enrolling k n), Mutex_lock Dev_lock] @ trace v"
    using assms(3) by (auto simp: send_enroll_notice_def lock_def unlock_def notify_def Let_def bind_eq_Some_conv
        log_call_def split: if_splits)
  have "answered E (trace v) [Notify (Msg_enrolling k n), Mutex_lock Dev_lock]"
    using add_image_trace [OF assms(1)] assms(2,4) by (simp add: one)
  with tr show ?thesis unfolding answers_def by (metis answered.simps(1) append_Nil)
qed

text \<open>The numbers reported between two worlds count down below \<open>c\<close>, each for an image just added.\<close>

definition counting :: "env \<Rightarrow> nat \<Rightarrow> int \<Rightarrow> world \<Rightarrow> world \<Rightarrow> bool" where
  "counting E k c w u \<longleftrightarrow> answers E w u \<and> (\<exists>ms. notices u = notices w @ ms \<and>
     (if secure_user_id (vdev w) = 0 then numbers k ms = [] else countdown c (numbers k ms)))"

lemma silent_refl: "silent E k w w"
  by (simp add: silent_def numbers_def answers_eq)

lemma counting_silent: "silent E k w u \<Longrightarrow> counting E k c w u"
  by (auto simp: silent_def counting_def)

lemma counting_after:
  assumes "silent E k w v" "counting E k c v v'" "silent E k v' u"
  shows "counting E k c w u"
  using assms by (auto simp: silent_def counting_def numbers_append intro: answers_trans)

lemma counting_notice:
  assumes "send_enroll_notice E (int k) n w = Some v" "k \<noteq> 0" "answers E w v"
    "n = 0 \<and> u = v \<or> n = max 1 (c - 1) \<and> counting E k n v u"
  shows "counting E k c w u"
proof -
  let ?new = "if secure_user_id (vdev w) = 0 then [] else [Msg_enrolling (int k) n]"
  have v: "vdev v = vdev w" "notices v = notices w @ ?new"
    using enroll_notice_says [OF assms(1)] assms(2) by auto
  have new: "numbers k (?new @ ms) = (if secure_user_id (vdev w) = 0 then [] else [n]) @ numbers k ms" for ms
    by (simp add: numbers_def)
  from assms(4) obtain ms where "notices u = notices v @ ms" "answers E v u"
    "(if secure_user_id (vdev w) = 0 then numbers k ms = [] else n = 0 \<and> ms = [] \<or> n = max 1 (c - 1) \<and> countdown n (numbers k ms))"
    using v(1) by (auto simp: counting_def answers_eq numbers_def [of k "[]"])
  with v new [of ms] assms(3) show ?thesis
    unfolding counting_def
    by (intro conjI exI [of _ "?new @ ms"]) (auto intro: answers_trans simp: numbers_def [of k "[]"])
qed

lemma enroll_loop_counting:
  assumes "1 \<le> c" "k \<noteq> 0"
  shows "on_return (enroll_loop E k c w) (\<lambda>(x, u). counting E k c w u)"
proof -
  let ?P = "counting E k"
  have "on_return (enroll_loop E k c w) (\<lambda>x. 1 \<le> c \<longrightarrow> ?P c w (snd x))"
  proof (rule enroll_loop_return, rule on_returnI, rule impI)
    fix f :: "int \<Rightarrow> world \<Rightarrow> (enroll_exit \<times> world) option" and c w x
    assume IH: "\<And>c v. on_return (f c v) (\<lambda>x. 1 \<le> c \<longrightarrow> ?P c v (snd x))" and c: "1 \<le> c"
      and x: "do {
     (s, w) \<leftarrow> get_tz_state E w;
     if s \<noteq> STATE_ENROLL then Some (Enroll_finish, w)
     else do {
       (r, w) \<leftarrow> vcs_start_capture E 0 w;
       if r = -1 then Some (Goto_out, w)
       else do {
         let resp = QSEECOM_ALIGN sizeof_int;
         (r, w) \<leftarrow> send_enroll_add_image E w;
         if r \<noteq> 0 then do {
           w \<leftarrow> set_tz_state E STATE_IDLE w;
           w \<leftarrow> send_error_notice E FINGERPRINT_ERROR_UNABLE_TO_PROCESS w;
           Some (Return_null, w) }
         else if result_of resp w \<noteq> 0 then do {
           w \<leftarrow> send_acquired_notice E (result_of resp w) w;
           f c w }
         else do {
           let count = enroll_remaining c (data_of resp 2 w);
           w \<leftarrow> send_enroll_notice E (int k) count w;
           if count = 0 then Some (Enroll_finish, w) else f count w } } } } = Some x"
    have IH': "?P c v (snd x)" if "f c v = Some x" "1 \<le> c" for c v
      using on_returnD [OF IH that(1)] that(2) by simp
    from x obtain s v1 where g: "get_tz_state E w = Some (s, v1)"
      and rest: "s \<noteq> STATE_ENROLL \<and> snd x = v1 \<or> (\<exists>r v2. vcs_start_capture E 0 v1 = Some (r, v2) \<and> (snd x = v2 \<or>
        (\<exists>r' v3. send_enroll_add_image E v2 = Some (r', v3) \<and>
          ((\<exists>v4 v5. set_tz_state E STATE_IDLE v3 = Some v4 \<and>
              send_error_notice E FINGERPRINT_ERROR_UNABLE_TO_PROCESS v4 = Some v5 \<and> snd x = v5) \<or>
           (\<exists>v4. send_acquired_notice E (result_of 64 v3) v3 = Some v4 \<and> f c v4 = Some x) \<or>
           (\<exists>n v4. r' = 0 \<and> result_of 64 v3 = 0 \<and> n = enroll_remaining c (data_of 64 2 v3) \<and>
              send_enroll_notice E (int k) n v3 = Some v4 \<and>
              (n = 0 \<and> snd x = v4 \<or> n \<noteq> 0 \<and> f n v4 = Some x))))))"
      by (auto simp: bind_eq_Some_conv Let_def split: if_splits)
    note s1 = silent_steps(1) [OF g, where k = k]
    have last: "?P c w (snd x)"
      if cap: "vcs_start_capture E 0 v1 = Some (r, v2)" and "r' = 0" "send_enroll_add_image E v2 = Some (r', v3)"
        and ok: "result_of 64 v3 = 0" and n: "n = enroll_remaining c (data_of 64 2 v3)" "send_enroll_notice E (int k) n v3 = Some v4"
        and more: "n = 0 \<and> snd x = v4 \<or> n \<noteq> 0 \<and> f n v4 = Some x" for r v2 r' v3 n v4
    proof -
      have img: "send_enroll_add_image E v2 = Some (0, v3)" using that(2,3) by simp
      have s: "silent E k w v3" using silent_trans [OF s1 silent_trans [OF silent_steps(2) silent_steps(3)]] cap img by blast
      have nd: "n = (if data_of 64 2 v3 = 1 then 0 else max 1 (c - 1))" using n(1) enroll_remaining_cases [OF c] by simp
      have "n = 0 \<and> snd x = v4 \<or> n = max 1 (c - 1) \<and> ?P n v4 (snd x)"
        using more IH' [of n v4] nd by (auto split: if_splits)
      moreover have "n = 0 \<longleftrightarrow> data_of 64 2 v3 = 1" using nd by (simp add: max_def)
      ultimately have "?P c v3 (snd x)" using counting_notice [OF n(2) assms(2) image_counted [OF img ok n(2)]] by blast
      from counting_after [OF s this silent_refl] show ?thesis .
    qed
    from rest show "?P c w (snd x)"
    proof (elim disjE exE conjE)
      assume "snd x = v1" then show ?thesis using counting_silent [OF s1] by simp
    next
      fix r v2 assume "vcs_start_capture E 0 v1 = Some (r, v2)" "snd x = v2"
      then show ?thesis using counting_silent [OF silent_trans [OF s1 silent_steps(2)]] by simp
    next
      fix r v2 r' v3 v4 v5
      assume "vcs_start_capture E 0 v1 = Some (r, v2)" "send_enroll_add_image E v2 = Some (r', v3)"
        "set_tz_state E STATE_IDLE v3 = Some v4"
        "send_error_notice E FINGERPRINT_ERROR_UNABLE_TO_PROCESS v4 = Some v5" "snd x = v5"
      then show ?thesis
        using counting_silent silent_trans [OF s1 silent_trans [OF silent_steps(2) silent_trans [OF silent_steps(3)
          silent_trans [OF silent_steps(4) silent_steps(5)]]]] by blast
    next
      fix r v2 r' v3 v4
      assume "vcs_start_capture E 0 v1 = Some (r, v2)" "send_enroll_add_image E v2 = Some (r', v3)"
        and n: "send_acquired_notice E (result_of 64 v3) v3 = Some v4" and f: "f c v4 = Some x"
      then have "silent E k w v4"
        using silent_trans [OF s1 silent_trans [OF silent_steps(2) silent_trans [OF silent_steps(3) silent_steps(6)]]] by blast
      from counting_after [OF this IH' [OF f c] silent_refl] show ?thesis .
    qed (blast intro: last)+
  qed
  with assms(1) show ?thesis by (auto simp: on_return_def)
qed

lemmas silent_tail =
  silent_pair [OF images.send_frame(4) [OF images.refl] device.send_frame(4) [OF device.refl]
    answer.send_frame(4) [OF answer.refl]]
  silent_pair [OF images.send_frame(6) [OF images.refl] device.send_frame(6) [OF device.refl]
    answer.send_frame(6) [OF answer.refl]]
  silent_world [OF images.enroll_tail_frame(1) [OF images.refl] device.enroll_tail_frame(1) [OF device.refl]
    answer.enroll_tail_frame(1) [OF answer.refl]]
  silent_world [OF images.enroll_tail_frame(2) [OF images.refl] device.enroll_tail_frame(2) [OF device.refl]
    answer.enroll_tail_frame(2) [OF answer.refl]]
  silent_world [OF images.enroll_tail_frame(3) [OF images.refl] device.enroll_tail_frame(3) [OF device.refl]
    answer.enroll_tail_frame(3) [OF answer.refl]]

text \<open>What the thread does after its loop, and the ways through it.\<close>

abbreviation enroll_exit_to :: "env \<Rightarrow> nat \<Rightarrow> enroll_exit \<Rightarrow> world \<Rightarrow> world option" where
  "enroll_exit_to E k x w \<equiv> (case x of
       Return_null \<Rightarrow> Some w
     | Goto_out \<Rightarrow> enroll_out E w
     | Enroll_finish \<Rightarrow> Option.bind (enroll_finish E k w) (enroll_out E))"

lemma vcs_enroll_cases:
  assumes "vcs_enroll E w = Some u" and "find_free (finger (tz w)) slot_indices = k"
  obtains r v where "send_enroll_begin E k w = Some (r, v)" "enroll_fail E v = Some u"
  | r v r' v' where "send_enroll_begin E k w = Some (r, v)" "send_vendor_unknown E vendorUnknownA v = Some (r', v')"
      "enroll_fail E v' = Some u"
  | r v r' v' x v'' where "send_enroll_begin E k w = Some (r, v)" "send_vendor_unknown E vendorUnknownA v = Some (r', v')"
      "enroll_loop E k 8 v' = Some (x, v'')" "enroll_exit_to E k x v'' = Some u"
  using assms unfolding vcs_enroll_def by (auto simp: bind_eq_Some_conv Let_def split: if_splits)

lemma silent_exit:
  assumes "enroll_exit_to E k x v = Some u"
  shows "silent E k v u"
proof (cases x)
  case Enroll_finish
  with assms obtain v' where "enroll_finish E k v = Some v'" "enroll_out E v' = Some u" by (auto simp: bind_eq_Some_conv)
  then show ?thesis by (rule silent_trans [OF silent_tail(3) silent_tail(4)])
qed (use assms silent_refl silent_tail(4) in auto)

text \<open>C14: the images are counted down.  Take a run of the enrolling thread that returns.  If no secure
  user is set it has reported no number.  Otherwise the numbers it has reported about the slot it
  enrols start at 7 and go down by one to 1, which is repeated, and a 0, if there is one, is
  the last.  Each number was reported for an image that the application had just accepted, and it is
  0, at whatever point, just when the application answered that the images suffice.\<close>

theorem enroll_counts_down:
  "on_return (vcs_enroll E w) (\<lambda>u. answers E w u \<and> (\<exists>ms. notices u = notices w @ ms \<and>
     (if secure_user_id (vdev w) = 0 then numbers (find_free (finger (tz w)) slot_indices) ms = []
      else countdown 8 (numbers (find_free (finger (tz w)) slot_indices) ms))))"
proof (rule on_returnI)
  fix u assume u: "vcs_enroll E w = Some u"
  define k where "k = find_free (finger (tz w)) slot_indices"
  have k: "k \<noteq> 0" using find_free_slot [of "finger (tz w)"] by (fastforce simp: k_def MAX_NUM_FINGERS_def)
  have loop: "counting E k 8 v v'" if "enroll_loop E k 8 v = Some (x, v')" for x v v'
    using on_returnD [OF enroll_loop_counting [OF _ k] that] by simp
  from u k_def [symmetric] have "counting E k 8 w u"
  proof (rule vcs_enroll_cases)
    fix r v assume "send_enroll_begin E k w = Some (r, v)" "enroll_fail E v = Some u"
    then show ?thesis by (intro counting_silent silent_trans [OF silent_tail(2) silent_tail(5)])
  next
    fix r v r' v' assume "send_enroll_begin E k w = Some (r, v)" "send_vendor_unknown E vendorUnknownA v = Some (r', v')"
      "enroll_fail E v' = Some u"
    then show ?thesis by (intro counting_silent silent_trans [OF silent_tail(2) silent_trans [OF silent_tail(1) silent_tail(5)]])
  next
    fix r v r' v' x v'' assume "send_enroll_begin E k w = Some (r, v)" "send_vendor_unknown E vendorUnknownA v = Some (r', v')"
      "enroll_loop E k 8 v' = Some (x, v'')" "enroll_exit_to E k x v'' = Some u"
    then show ?thesis by (intro counting_after [OF silent_trans [OF silent_tail(2) silent_tail(1)] loop silent_exit])
  qed
  then show "answers E w u \<and> (\<exists>ms. notices u = notices w @ ms \<and>
     (if secure_user_id (vdev w) = 0 then numbers (find_free (finger (tz w)) slot_indices) ms = []
      else countdown 8 (numbers (find_free (finger (tz w)) slot_indices) ms)))"
    by (simp add: counting_def k_def)
qed

end
