(* ===== verification/Fp_Sections.thy ===== *)
theory Fp_Sections
  imports Tz_Live
begin

text \<open>
  The locked sections.  The environment's events stand for the locked sections of other threads;
  here they are shown to be what the code of those threads does: the signal handler refines
  \<open>Ev_drdy\<close> and \<open>set_tz_state\<close> refines \<open>Ev_set_state\<close>.  Every operation gives back the
  locks it took, and every command it sends lies within the shared buffer.
\<close>

subsection \<open>The events are the code of the other threads\<close>

lemma quiet_lock:
  "quiet E \<Longrightarrow> \<not> held w m \<Longrightarrow> lock E m w = Some (w\<lparr>trace := Mutex_lock m # trace w, held := (held w)(m := True)\<rparr>)"
  by (simp add: lock_def Let_def log_call_def)

lemma quiet_get: "quiet E \<Longrightarrow> \<not> held w Tz_lock \<Longrightarrow>
    get_tz_state E w = Some (tz_state (tz w), w\<lparr>trace := Mutex_lock Tz_lock # trace w\<rparr>)"
  by (simp add: get_tz_state_eq Let_def log_call_def)

lemma relock_idem: "\<not> h m \<Longrightarrow> h(m := False) = h"
  by (simp add: fun_upd_idem)

text \<open>C19: the signal handler is the event \<open>Ev_drdy\<close>.  Run alone by a thread that holds none of the
  three locks, \<open>sensor_process_signal\<close> returns, and apart from the calls it logs it changes the
  state exactly as the event does: the timeout thread is forgotten, and the sensor is signalled
  if and only if a worker is active and not being cancelled.\<close>

theorem signal_refines_event:
  assumes "quiet E" and "\<not> held w Sensor_lock" "\<not> held w Tz_lock" "\<not> held w Timeout_lock"
  shows "\<exists>u. sensor_process_signal E w = Some u \<and> u\<lparr>trace := trace w\<rparr> = apply_event w Ev_drdy \<and>
    (\<exists>t. trace u = Cond_signal Sensor_lock # Ioctl (VFSSPI_IOCTL_SET_DRDY_INT 0) # t)"
proof -
  define v where "v = (if timeout_thread (tz_timeout (tz w))
    then w\<lparr>trace := Cond_signal Timeout_lock # Mutex_lock Timeout_lock # trace w,
           tz := (tz w)\<lparr>tz_timeout := (tz_timeout (tz w))\<lparr>timeout_thread := False\<rparr>\<rparr>\<rparr> else w)"
  have first: "(if timeout_thread (tz_timeout (tz w))
          then do {
            w \<leftarrow> lock E Timeout_lock w;
            let w = log_call (Cond_signal Timeout_lock) w;
            w \<leftarrow> unlock Timeout_lock w;
            Some (upd_tz (\<lambda>t. t\<lparr>tz_timeout := (tz_timeout t)\<lparr>timeout_thread := False\<rparr>\<rparr>) w) }
          else Some w) = Some v"
    using assms by (simp add: v_def quiet_lock Let_def log_call_def unlock_def upd_tz_def relock_idem)
  obtain tr where v: "v = w\<lparr>trace := tr, tz := (tz w)\<lparr>tz_timeout := (tz_timeout (tz w))\<lparr>timeout_thread := False\<rparr>\<rparr>\<rparr>"
  proof (cases "timeout_thread (tz_timeout (tz w))")
    case False
    then have "v = w\<lparr>trace := trace w, tz := (tz w)\<lparr>tz_timeout := (tz_timeout (tz w))\<lparr>timeout_thread := False\<rparr>\<rparr>\<rparr>"
      by (simp add: v_def)
    then show thesis by (rule that)
  qed (use that in \<open>simp add: v_def\<close>)
  show ?thesis
    unfolding sensor_process_signal_def first v
    using assms
    by (auto simp: quiet_lock quiet_get Let_def log_call_def ioctl_def unlock_def upd_sensor_def upd_tz_def relock_idem)
qed

theorem signal_refines_event_witness:
  "\<exists>u. sensor_process_signal good_env (example_world STATE_SCAN\<lparr>sensor := zero_sensor\<rparr>) = Some u \<and> sn_signal (sensor u)"
proof -
  let ?w = "example_world STATE_SCAN\<lparr>sensor := zero_sensor\<rparr>"
  have "quiet good_env" using good_env_ideal by (simp add: ideal_def)
  moreover have "\<not> held ?w m" for m by (simp add: example_world_def)
  ultimately obtain u where u: "sensor_process_signal good_env ?w = Some u" "u\<lparr>trace := trace ?w\<rparr> = apply_event ?w Ev_drdy"
    using signal_refines_event [of good_env ?w] by blast
  have "sn_signal (sensor (u\<lparr>trace := trace ?w\<rparr>))"
    unfolding u(2) by (simp add: example_world_def upd_tz_def upd_sensor_def zero_tz_def)
  with u(1) show ?thesis by auto
qed

text \<open>\<open>set_tz_state\<close> is the event \<open>Ev_set_state\<close>, and \<open>get_tz_state\<close> changes nothing and
  reads the state at one instant.\<close>

theorem set_state_refines_event:
  assumes "quiet E" and "\<not> held w Tz_lock"
  shows "(\<exists>u. set_tz_state E s w = Some u \<and> u\<lparr>trace := trace w\<rparr> = apply_event w (Ev_set_state s)) \<and>
    (\<exists>u. get_tz_state E w = Some (tz_state (tz w), u) \<and> u\<lparr>trace := trace w\<rparr> = w)"
  using assms by (auto simp: quiet_get set_tz_state_eq Let_def log_call_def upd_tz_def)

theorem set_state_refines_event_witness:
  "\<exists>u. set_tz_state good_env STATE_SCAN (example_world STATE_IDLE) = Some u \<and>
     u\<lparr>trace := []\<rparr> = example_world STATE_SCAN"
proof -
  have "quiet good_env" using good_env_ideal by (simp add: ideal_def)
  then show ?thesis
    using set_state_refines_event [of good_env "example_world STATE_IDLE" STATE_SCAN]
    by (auto simp: example_world_def upd_tz_def zero_tz_def)
qed

subsection \<open>Locks\<close>

text \<open>C17: no operation leaks or steals a lock.  Each of these functions, from any world and in any
  environment, returns (if it returns) with exactly the mutexes held that were held at the call:
  the entry points of the HAL, the three threads and the signal handler.\<close>

theorem locks_given_back:
  "on_return (fingerprint_get_auth_id E w) (\<lambda>(_, u). same_held w u) \<and>
   on_return (fingerprint_set_active_group E gid w) (\<lambda>(_, u). same_held w u) \<and>
   on_return (fingerprint_authenticate E op w) (\<lambda>(_, u). same_held w u) \<and>
   on_return (fingerprint_enroll E hat timeout w) (\<lambda>(_, u). same_held w u) \<and>
   on_return (fingerprint_pre_enroll E w) (\<lambda>(_, u). same_held w u) \<and>
   on_return (fingerprint_post_enroll E w) (\<lambda>(_, u). same_held w u) \<and>
   on_return (fingerprint_cancel E w) (\<lambda>(_, u). same_held w u) \<and>
   on_return (fingerprint_enumerate E dn w) (\<lambda>(_, u). same_held w u) \<and>
   on_return (fingerprint_remove E dn fid w) (\<lambda>(_, u). same_held w u) \<and>
   on_return (set_notify_callback E dn nn w) (\<lambda>(_, u). same_held w u) \<and>
   on_return (fingerprint_close E dn w) (\<lambda>(_, u). same_held w u) \<and>
   on_return (vcs_authenticate E w) (same_held w) \<and>
   on_return (vcs_enroll E w) (same_held w) \<and>
   on_return (vcs_timeout E w) (same_held w) \<and>
   on_return (sensor_process_signal E w) (same_held w)"
  by (intro conjI locks.hal_frame locks.entry_frame locks.cancel_frame locks.fingerprint_enroll_frame
      locks.fingerprint_close_frame locks.vcs_authenticate_frame locks.vcs_enroll_frame
      locks.vcs_timeout_frame locks.sensor_process_signal_frame locks.refl)

subsection \<open>The shared buffer\<close>

text \<open>The commands a run has sent: all of them start at the buffer's beginning, in units of 64 bytes,
  and their response area lies behind the command and inside the buffer.\<close>

definition sends_within_buffer :: "world \<Rightarrow> world \<Rightarrow> bool" where
  "sends_within_buffer w u \<longleftrightarrow> (\<exists>tr. trace u = tr @ trace w \<and>
     (\<forall>b s r n. Qsee_send_cmd b s r n \<in> set tr \<longrightarrow>
        64 dvd s \<and> 64 dvd r \<and> 0 < s \<and> s \<le> r \<and> 0 < n \<and> r + n \<le> SB_LENGTH))"

lemma exchanges_fit: "(s, r, n) \<in> set exchanges \<Longrightarrow> 64 dvd s \<and> 64 dvd r \<and> 0 < s \<and> s \<le> r \<and> 0 < n \<and> r + n \<le> SB_LENGTH"
  by (auto simp: SB_LENGTH_def)

lemma within_layout_buffer: "within_layout w u \<Longrightarrow> sends_within_buffer w u"
  unfolding within_layout_def sends_within_buffer_def using exchanges_fit by blast

lemma within_pair: "on_return m (\<lambda>(_, u). within_layout w u) \<Longrightarrow> on_return m (\<lambda>(_, u). sends_within_buffer w u)"
  by (auto simp: on_return_def within_layout_buffer)

lemma within_world: "on_return m (within_layout w) \<Longrightarrow> on_return m (sends_within_buffer w)"
  by (auto simp: on_return_def within_layout_buffer)

text \<open>C15: every exchange with the trusted application stays inside the shared buffer.  Whatever the
  environment does, each command a thread or an entry point sends has its command and its
  response area aligned, disjoint and within the \<open>SB_LENGTH\<close> bytes that were allocated.\<close>

theorem commands_within_buffer:
  "on_return (vcs_authenticate E w) (sends_within_buffer w) \<and>
   on_return (vcs_enroll E w) (sends_within_buffer w) \<and>
   on_return (vcs_timeout E w) (sends_within_buffer w) \<and>
   on_return (fingerprint_authenticate E op w) (\<lambda>(_, u). sends_within_buffer w u) \<and>
   on_return (fingerprint_enroll E hat timeout w) (\<lambda>(_, u). sends_within_buffer w u) \<and>
   on_return (fingerprint_cancel E w) (\<lambda>(_, u). sends_within_buffer w u) \<and>
   on_return (fingerprint_remove E dn fid w) (\<lambda>(_, u). sends_within_buffer w u) \<and>
   on_return (fingerprint_close E dn w) (\<lambda>(_, u). sends_within_buffer w u)"
  by (intro conjI within_pair within_world layout.hal_frame layout.entry_frame layout.cancel_frame layout.fingerprint_enroll_frame
      layout.fingerprint_close_frame layout.vcs_authenticate_frame layout.vcs_enroll_frame
      layout.vcs_timeout_frame layout.refl)

text \<open>\<open>QSEECOM_ALIGN\<close> rounds up to the next multiple of 64 strictly above its argument; so an
  aligned structure always leaves at least one byte of padding, and an already aligned size
  grows by a full unit.\<close>

theorem align_strict:
  assumes "x + 0x40 < 2 ^ 32"
  shows "64 dvd QSEECOM_ALIGN x \<and> x < QSEECOM_ALIGN x \<and> QSEECOM_ALIGN x \<le> x + 64 \<and>
    (64 dvd x \<longrightarrow> QSEECOM_ALIGN x = x + 64)"
  using QSEECOM_ALIGN_eq [OF assms] by auto

theorem align_strict_witness: "QSEECOM_ALIGN 128 = 192 \<and> 100 < QSEECOM_ALIGN 100"
  using align_strict [of 128] align_strict [of 100] by simp

text \<open>C13: the match command sends every enrolled template.  The bytes handed to the trusted
  application carry the command's number, the number of enrolled fingers, and behind it one
  template per enrolled slot, in slot order, each at its address with its header and its
  \<open>FINGER_DATA_MAX_LENGTH\<close> bytes, all inside the command structure.\<close>

theorem match_sends_all_templates:
  assumes "send_match E w = Some (r, u)"
  shows "\<exists>b h. trace u = Qsee_send_cmd b 563392 563392 204864 # h @ trace w \<and> match_command (finger (tz w)) b \<and>
    (\<forall>k. 1 \<le> k \<and> k \<le> length (enrolled (finger (tz w))) \<longrightarrow>
       off_5x_data + (template_address k + 4) + FINGER_DATA_MAX_LENGTH \<le> sizeof_5x_cmd)"
  using assms length_enrolled [of "finger (tz w)"]
  by (auto elim!: send_match_cases simp: match_send_len_def match_response_len_def intro!: template_address_bound)

theorem match_sends_all_templates_witness:
  "\<exists>r u b h. send_match good_env (example_world STATE_SCAN) = Some (r, u) \<and>
     trace u = Qsee_send_cmd b 563392 563392 204864 # h \<and> match_command one_finger b"
proof -
  obtain r u where "send_match good_env (example_world STATE_SCAN) = Some (r, u)"
    using send_match_in_state [OF ideal_willing [OF good_env_ideal] example_in_state [of STATE_SCAN]] by (auto elim!: returns_obtain)
  from match_sends_all_templates [OF this] this show ?thesis
    by (auto simp: example_world_def)
qed

end
