(* ===== verification/Fp_Cancel.thy ===== *)
theory Fp_Cancel
  imports Fp_Sections
begin

text \<open>
  Starting, cancelling and timing out: when the entry points wait, for what, and when they wait
  for ever.  \<open>fingerprint_cancel\<close> returns when the worker acknowledges; it reports nothing
  before that, and never returns when no worker is there to acknowledge, which is the state
  a failed start leaves behind.
\<close>

subsection \<open>Environments by what other threads do to the worker state\<close>

definition never_idle :: "env \<Rightarrow> bool" where
  "never_idle E \<longleftrightarrow> (\<forall>t. Ev_set_state STATE_IDLE \<notin> set (others E t))"

definition keeps_state :: "env \<Rightarrow> bool" where
  "keeps_state E \<longleftrightarrow> (\<forall>t s. Ev_set_state s \<notin> set (others E t))"

text \<open>From the \<open>n\<close>-th call on, the worker has come to rest at every opportunity.\<close>

definition acknowledges :: "env \<Rightarrow> nat \<Rightarrow> bool" where
  "acknowledges E n \<longleftrightarrow> (\<forall>t. n \<le> length t \<longrightarrow> others E t = [Ev_set_state STATE_IDLE])"

lemma event_state:
  "tz_state (tz (apply_event w e)) = tz_state (tz w) \<or> e = Ev_set_state (tz_state (tz (apply_event w e)))"
  by (cases e) (simp_all add: upd_defs)

text \<open>Only a thread that says so brings the state to IDLE.\<close>

lemma interfere_idle:
  assumes "tz_state (tz w) \<noteq> STATE_IDLE" "tz_state (tz (interfere E w)) = STATE_IDLE"
  shows "Ev_set_state STATE_IDLE \<in> set (others E (trace w))"
proof (rule ccontr)
  have "Ev_set_state STATE_IDLE \<notin> set es \<Longrightarrow> tz_state (tz w) \<noteq> STATE_IDLE \<Longrightarrow>
      tz_state (tz (foldl apply_event w es)) \<noteq> STATE_IDLE" for es
  proof (induction es arbitrary: w)
    case (Cons e es)
    have "tz_state (tz (apply_event w e)) \<noteq> STATE_IDLE" using event_state [of w e] Cons.prems by auto
    with Cons show ?case by simp
  qed simp
  moreover assume "Ev_set_state STATE_IDLE \<notin> set (others E (trace w))"
  ultimately show False using assms by (simp add: interfere_def)
qed

lemma never_idle_interfere:
  assumes "never_idle E" "tz_state (tz w) \<noteq> STATE_IDLE"
  shows "tz_state (tz (interfere E w)) \<noteq> STATE_IDLE"
  using interfere_idle [of w E] assms by (auto simp: never_idle_def)

lemma keeps_state_interfere [simp]:
  assumes "keeps_state E"
  shows "tz_state (tz (interfere E w)) = tz_state (tz w)"
proof -
  have "(\<And>s. Ev_set_state s \<notin> set es) \<Longrightarrow> tz_state (tz (foldl apply_event w es)) = tz_state (tz w)" for es
  proof (induction es arbitrary: w)
    case (Cons e es)
    have "tz_state (tz (apply_event w e)) = tz_state (tz w)"
      using event_state [of w e] Cons.prems [of "tz_state (tz (apply_event w e))"] by auto
    with Cons show ?case by simp
  qed simp
  with assms show ?thesis by (simp add: keeps_state_def interfere_def)
qed

lemma keeps_state_never_idle: "keeps_state E \<Longrightarrow> never_idle E"
  by (simp add: keeps_state_def never_idle_def)

lemma log_tz [simp]: "tz (log_call c w) = tz w" "tz (ioctl r w) = tz w"
  by (simp_all add: log_call_def ioctl_def)

lemma lock_state: "lock E m w = Some v \<Longrightarrow> tz v = tz (interfere E (log_call (Mutex_lock m) w))"
  by (auto simp: lock_def Let_def split: if_splits)

subsection \<open>Waiting for the worker\<close>

lemma cancel_wait_stuck:
  assumes "never_idle E" "tz_state (tz w) \<noteq> STATE_IDLE"
  shows "cancel_wait E w = None"
proof -
  have "on_return (cancel_wait E w) (\<lambda>u. tz_state (tz w) \<noteq> STATE_IDLE \<longrightarrow> False)"
  proof (rule cancel_wait_return)
    fix f :: "world \<Rightarrow> world option" and w
    assume IH: "\<And>v. on_return (f v) (\<lambda>u. tz_state (tz v) \<noteq> STATE_IDLE \<longrightarrow> False)"
    have "tz_state (tz (usleep E 100000 w)) \<noteq> STATE_IDLE" if "tz_state (tz w) \<noteq> STATE_IDLE"
      using that by (simp add: usleep_def never_idle_interfere [OF assms(1)])
    with IH [of "usleep E 100000 w"]
    show "on_return (let w = usleep E 100000 w in if tz_state (tz w) = STATE_IDLE then Some w else f w)
        (\<lambda>u. tz_state (tz w) \<noteq> STATE_IDLE \<longrightarrow> False)"
      by (auto simp: Let_def on_return_def)
  qed
  with assms(2) show ?thesis by (auto simp: on_return_def)
qed

lemma cancel_worker_stuck: "never_idle E \<Longrightarrow> cancel_worker E w = None"
proof (rule ccontr)
  assume E: "never_idle E" and "cancel_worker E w \<noteq> None"
  then obtain v1 v2 v3 u where v: "set_tz_state E STATE_CANCEL w = Some v1"
      "lock E Sensor_lock (ioctl (VFSSPI_IOCTL_SET_DRDY_INT 0) v1) = Some v2"
      "unlock Sensor_lock (log_call (Cond_signal Sensor_lock) v2) = Some v3" "cancel_wait E v3 = Some u"
    by (auto simp: cancel_worker_def bind_eq_Some_conv Let_def)
  have "tz_state (tz v1) \<noteq> STATE_IDLE" using set_tz_state_Some [OF v(1)] by simp
  then have "tz_state (tz v3) \<noteq> STATE_IDLE"
    using lock_state [OF v(2)] unlock_says [OF v(3)] by (simp add: never_idle_interfere [OF E])
  with cancel_wait_stuck [OF E] v(4) show False by simp
qed

lemma cancel_timeout_keeps:
  "cancel_timeout E w = Some v \<Longrightarrow> keeps_state E \<Longrightarrow> tz_state (tz v) = tz_state (tz w)"
  by (auto simp: cancel_timeout_def bind_eq_Some_conv Let_def upd_tz_def split: if_splits
      dest!: lock_state unlock_says)

lemma cancel_timeout_notices: "cancel_timeout E w = Some v \<Longrightarrow> notices v = notices w"
  by (auto simp: cancel_timeout_def bind_eq_Some_conv Let_def notices_log split: if_splits
      dest!: lock_says unlock_says)

lemma get_tz_state_notices: "get_tz_state E w = Some (s, v) \<Longrightarrow> notices v = notices w"
  by (auto simp: get_tz_state_eq Let_def notices_log split: if_splits)

lemma set_tz_state_notices: "set_tz_state E s w = Some v \<Longrightarrow> notices v = notices w"
  by (auto simp: set_tz_state_eq notices_log split: if_splits)

lemma get_tz_state_keeps:
  "get_tz_state E w = Some (s, v) \<Longrightarrow> keeps_state E \<Longrightarrow> s = tz_state (tz w) \<and> tz_state (tz v) = tz_state (tz w)"
  by (auto simp: get_tz_state_eq Let_def split: if_splits)

text \<open>A wait for the worker that ends: at one of its pauses another thread has brought the worker to rest.\<close>

lemma cancel_wait_rests:
  assumes "cancel_wait E w = Some u" "tz_state (tz w) \<noteq> STATE_IDLE"
  shows "\<exists>s h. trace u = s @ h @ trace w \<and> Ev_set_state STATE_IDLE \<in> set (others E (h @ trace w))"
proof -
  have "on_return (cancel_wait E w) (\<lambda>u. tz_state (tz w) \<noteq> STATE_IDLE \<longrightarrow>
      (\<exists>s h. trace u = s @ h @ trace w \<and> Ev_set_state STATE_IDLE \<in> set (others E (h @ trace w))))"
  proof (rule cancel_wait_return, rule on_returnI, rule impI)
    fix f :: "world \<Rightarrow> world option" and w u
    assume IH: "\<And>v. on_return (f v) (\<lambda>u. tz_state (tz v) \<noteq> STATE_IDLE \<longrightarrow>
        (\<exists>s h. trace u = s @ h @ trace v \<and> Ev_set_state STATE_IDLE \<in> set (others E (h @ trace v))))"
      and run: "(let w = usleep E 100000 w in if tz_state (tz w) = STATE_IDLE then Some w else f w) = Some u"
      and w: "tz_state (tz w) \<noteq> STATE_IDLE"
    let ?v = "usleep E 100000 w"
    have v: "trace ?v = [Usleep 100000] @ trace w" by (simp add: usleep_def)
    show "\<exists>s h. trace u = s @ h @ trace w \<and> Ev_set_state STATE_IDLE \<in> set (others E (h @ trace w))"
    proof (cases "tz_state (tz ?v) = STATE_IDLE")
      case True
      then have "Ev_set_state STATE_IDLE \<in> set (others E ([Usleep 100000] @ trace w))"
        using interfere_idle [of "log_call (Usleep 100000) w" E] w by (simp add: usleep_def)
      with True run v show ?thesis by (intro exI [of _ "[]"] exI [of _ "[Usleep 100000]"]) simp
    next
      case False
      then obtain s h where "trace u = s @ h @ trace ?v" "Ev_set_state STATE_IDLE \<in> set (others E (h @ trace ?v))"
        using on_returnD [OF IH, of ?v u] run by (auto simp: Let_def)
      then show ?thesis by (intro exI [of _ s] exI [of _ "h @ [Usleep 100000]"]) (simp add: v)
    qed
  qed
  from on_returnD [OF this assms(1)] assms(2) show ?thesis by simp
qed

lemma cancel_worker_rests:
  assumes "cancel_worker E w = Some u"
  shows "\<exists>s h. trace u = s @ h @ trace w \<and> Ioctl (VFSSPI_IOCTL_SET_DRDY_INT 0) \<in> set h \<and>
    Ev_set_state STATE_IDLE \<in> set (others E (h @ trace w))"
proof -
  obtain v1 v2 v3 where v: "set_tz_state E STATE_CANCEL w = Some v1"
      "lock E Sensor_lock (ioctl (VFSSPI_IOCTL_SET_DRDY_INT 0) v1) = Some v2"
      "unlock Sensor_lock (log_call (Cond_signal Sensor_lock) v2) = Some v3" "cancel_wait E v3 = Some u"
    using assms by (auto simp: cancel_worker_def bind_eq_Some_conv Let_def)
  let ?h = "[Mutex_lock Sensor_lock, Ioctl (VFSSPI_IOCTL_SET_DRDY_INT 0), Mutex_lock Tz_lock]"
  have v1: "tz_state (tz v1) = STATE_CANCEL" "trace v1 = Mutex_lock Tz_lock # trace w"
    using set_tz_state_Some [OF v(1)] v(1) by (auto simp: set_tz_state_eq split: if_splits)
  have v2: "trace v2 = ?h @ trace w" using v(2) v1(2) by (auto simp: lock_def Let_def ioctl_def split: if_splits)
  have v3: "trace v3 = Cond_signal Sensor_lock # ?h @ trace w" "tz v3 = tz v2"
    using v(3) v2 unlock_says [OF v(3)] by (auto simp: unlock_def split: if_splits)
  have ext: "\<exists>s. trace u = s @ trace v3"
    using on_returnD [OF history.cancel_wait_frame [OF history.refl] v(4)] by (auto simp: extends_trace_def)
  show ?thesis
  proof (cases "tz_state (tz v3) = STATE_IDLE")
    case True
    then have "Ev_set_state STATE_IDLE \<in> set (others E (?h @ trace w))"
      using interfere_idle [of "log_call (Mutex_lock Sensor_lock) (ioctl (VFSSPI_IOCTL_SET_DRDY_INT 0) v1)" E]
        lock_state [OF v(2)] v1 v3(2) by (simp add: ioctl_def)
    moreover obtain s where "trace u = s @ trace v3" using ext by blast
    ultimately show ?thesis using v3(1) by (intro exI [of _ "s @ [Cond_signal Sensor_lock]"] exI [of _ ?h]) simp
  next
    case False
    from cancel_wait_rests [OF v(4) False] obtain s h where
      "trace u = s @ h @ trace v3" "Ev_set_state STATE_IDLE \<in> set (others E (h @ trace v3))" by blast
    then show ?thesis using v3(1) by (intro exI [of _ s] exI [of _ "h @ Cond_signal Sensor_lock # ?h"]) simp
  qed
qed

lemma cancel_worker_notices:
  assumes "cancel_worker E w = Some u"
  shows "notices u = notices w"
proof -
  have wait: "on_return (cancel_wait E w) (\<lambda>u. notices u = notices w)" for w
  proof (rule cancel_wait_return)
    fix f :: "world \<Rightarrow> world option" and w
    assume IH: "\<And>v. on_return (f v) (\<lambda>u. notices u = notices v)"
    show "on_return (let w = usleep E 100000 w in if tz_state (tz w) = STATE_IDLE then Some w else f w)
        (\<lambda>u. notices u = notices w)"
      using IH [of "usleep E 100000 w"] by (auto simp: Let_def on_return_def usleep_def notices_log)
  qed
  show ?thesis
    using assms on_returnD [OF wait] 
    by (fastforce simp: cancel_worker_def bind_eq_Some_conv Let_def notices_log ioctl_def
        dest!: lock_says unlock_says set_tz_state_notices)
qed

lemma message_trace:
  assumes "do { w \<leftarrow> lock E Dev_lock w; w \<leftarrow> notify x w; unlock Dev_lock w } = Some u"
  shows "trace u = Notify x # Mutex_lock Dev_lock # trace w" "notices u = notices w @ [x]" "vdev u = vdev w"
  using assms steps_only_fields(2) [OF steps_only_interfere, of E "w\<lparr>trace := Mutex_lock Dev_lock # trace w\<rparr>"]
  by (auto simp: lock_def unlock_def notify_def Let_def bind_eq_Some_conv notices_def map_filter_simps log_call_def
      split: if_splits)

lemmas notice_trace = message_trace [where x = "Msg_error e" for e, folded send_error_notice_def]
lemmas remove_notice_trace = message_trace [where x = "Msg_removed i" for i, folded send_remove_notice_def]

text \<open>C11: nothing is reported before the worker has stopped.  A call of \<open>fingerprint_cancel\<close> that returns has
  sent nothing, or just the one message that the operation was cancelled.  The message is then the
  last thing it has done; and at some point before it, but after the state CANCEL was written
  and the interrupt switched off, another thread has brought the worker to rest.\<close>

theorem cancel_needs_acknowledgement:
  "on_return (fingerprint_cancel E w) (\<lambda>(r, u). r = 0 \<and> (notices u = notices w \<or>
     (\<exists>s h. trace u = [Notify (Msg_error FINGERPRINT_ERROR_CANCELED), Mutex_lock Dev_lock] @ s @ h @ trace w \<and>
        notices u = notices w @ [Msg_error FINGERPRINT_ERROR_CANCELED] \<and>
        Ioctl (VFSSPI_IOCTL_SET_DRDY_INT 0) \<in> set h \<and> Ev_set_state STATE_IDLE \<in> set (others E (h @ trace w)))))"
proof (rule on_returnI)
  fix x assume "fingerprint_cancel E w = Some x"
  then obtain v1 s v2 where v: "cancel_timeout E w = Some v1" "get_tz_state E v1 = Some (s, v2)"
      and x: "x = (0, v2) \<or> (\<exists>s' v3. get_tz_state E v2 = Some (s', v3) \<and> (x = (0, v3) \<or>
        (\<exists>v4 u. cancel_worker E v3 = Some v4 \<and> send_error_notice E FINGERPRINT_ERROR_CANCELED v4 = Some u \<and> x = (0, u))))"
    by (auto simp: fingerprint_cancel_def bind_eq_Some_conv split: if_splits)
  note before = cancel_timeout_notices [OF v(1)] get_tz_state_notices [OF v(2)]
  from x consider "x = (0, v2)" | s' v3 where "get_tz_state E v2 = Some (s', v3)" "x = (0, v3)"
    | s' v3 v4 u where "get_tz_state E v2 = Some (s', v3)" "cancel_worker E v3 = Some v4"
        "send_error_notice E FINGERPRINT_ERROR_CANCELED v4 = Some u" "x = (0, u)" by blast
  then show "case x of (r, u) \<Rightarrow> r = 0 \<and> (notices u = notices w \<or>
     (\<exists>s h. trace u = [Notify (Msg_error FINGERPRINT_ERROR_CANCELED), Mutex_lock Dev_lock] @ s @ h @ trace w \<and>
        notices u = notices w @ [Msg_error FINGERPRINT_ERROR_CANCELED] \<and>
        Ioctl (VFSSPI_IOCTL_SET_DRDY_INT 0) \<in> set h \<and> Ev_set_state STATE_IDLE \<in> set (others E (h @ trace w))))"
  proof cases
    case 1
    then show ?thesis using before by simp
  next
    case 2
    then show ?thesis using before get_tz_state_notices [OF 2(1)] by simp
  next
    case 3
    obtain h0 where h0: "trace v3 = h0 @ trace w"
      using on_returnD [OF history.cancel_frame(1) [OF history.refl] v(1)]
        on_returnD [OF history.get_tz_state_frame [OF history.refl] v(2)]
        on_returnD [OF history.get_tz_state_frame [OF history.refl] 3(1)] by (auto simp: extends_trace_def)
    obtain s h where "trace v4 = s @ h @ trace v3" "Ioctl (VFSSPI_IOCTL_SET_DRDY_INT 0) \<in> set h"
        "Ev_set_state STATE_IDLE \<in> set (others E (h @ trace v3))" using cancel_worker_rests [OF 3(2)] by blast
    moreover have "notices v4 = notices v3" using cancel_worker_notices [OF 3(2)] .
    ultimately show ?thesis
      using notice_trace [OF 3(3)] before get_tz_state_notices [OF 3(1)] h0
      unfolding 3(4) by (simp, intro disjI2 exI [of _ s] exI [of _ "h @ h0"]) simp
  qed
qed

lemma good_env_quiet: "quiet good_env"
  using good_env_ideal by (simp add: ideal_def)

lemma quiet_keeps_state: "quiet E \<Longrightarrow> keeps_state E"
  by (simp add: quiet_def keeps_state_def)

lemma cancel_already:
  assumes "quiet E" "\<not> held w Tz_lock" "\<not> timeout_thread (tz_timeout (tz w))" "tz_state (tz w) = STATE_CANCEL"
  shows "fingerprint_cancel E w = Some (0, w\<lparr>trace := [Mutex_lock Tz_lock, Mutex_lock Tz_lock] @ trace w\<rparr>)"
  using assms by (simp add: fingerprint_cancel_def cancel_timeout_def quiet_get)

lemma cancel_stuck:
  assumes "keeps_state E" and "tz_state (tz w) = STATE_SCAN \<or> tz_state (tz w) = STATE_ENROLL"
  shows "fingerprint_cancel E w = None"
proof (rule ccontr)
  assume "fingerprint_cancel E w \<noteq> None"
  then obtain v1 s v2 s' v3 where v: "cancel_timeout E w = Some v1" "get_tz_state E v1 = Some (s, v2)"
      and x: "s \<noteq> STATE_IDLE \<and> get_tz_state E v2 = Some (s', v3) \<and> s' = STATE_CANCEL \<or> s = STATE_IDLE"
    using cancel_worker_stuck [OF keeps_state_never_idle [OF assms(1)]]
    by (auto simp: fingerprint_cancel_def bind_eq_Some_conv split: if_splits)
  have "tz_state (tz v1) = tz_state (tz w)" by (rule cancel_timeout_keeps [OF v(1) assms(1)])
  with get_tz_state_keeps [OF v(2) assms(1)] x assms get_tz_state_keeps [OF _ assms(1), of v2 s' v3] show False
    by auto
qed

text \<open>Without a worker \<open>fingerprint_cancel\<close> never returns.  If the state says that a worker is
  scanning or enrolling and no other thread ever sets it, the call hangs.\<close>

theorem cancel_hangs:
  assumes "keeps_state E" and "tz_state (tz w) = STATE_SCAN \<or> tz_state (tz w) = STATE_ENROLL"
  shows "fingerprint_cancel E w = None"
  by (rule cancel_stuck [OF assms])

theorem cancel_hangs_witness: "fingerprint_cancel good_env (example_world STATE_SCAN) = None"
  by (rule cancel_hangs) (simp_all add: keeps_state_def good_env_def example_world_def)

subsection \<open>A worker that acknowledges\<close>

lemma usleep_going: "going l fs w \<Longrightarrow> going l fs (usleep E n w) \<and> trace (usleep E n w) = Usleep n # trace w"
  by (simp add: usleep_def)

lemma acknowledged: "acknowledges E n \<Longrightarrow> n \<le> length (trace w) \<Longrightarrow> \<not> held w Tz_lock \<Longrightarrow>
    tz_state (tz (interfere E w)) = STATE_IDLE"
  by (simp add: acknowledges_def interfere_def upd_tz_def)

lemma cancel_wait_returns:
  assumes "acknowledges E n" "going l fs w" "\<not> l Tz_lock"
  shows "returns (cancel_wait E w) (\<lambda>u. going l fs u \<and> notices u = notices w)"
  using assms(2)
proof (induction "n - length (trace w)" arbitrary: w rule: less_induct)
  case less
  let ?u = "usleep E 100000 w"
  have u: "going l fs ?u" "trace ?u = Usleep 100000 # trace w" "notices ?u = notices w"
    using usleep_going [OF less.prems, of E 100000] by (simp_all add: notices_def map_filter_simps)
  show ?case
  proof (cases "tz_state (tz ?u) = STATE_IDLE")
    case False
    have "\<not> held (log_call (Usleep 100000) w) Tz_lock"
      using less.prems assms(3) by (simp add: going_def log_call_def)
    then have "length (trace w) < n"
      using False acknowledged [OF assms(1), of "log_call (Usleep 100000) w"]
      by (cases "n \<le> Suc (length (trace w))") (auto simp: usleep_def)
    then have "returns (cancel_wait E ?u) (\<lambda>v. going l fs v \<and> notices v = notices ?u)"
      using u by (intro less.hyps) simp_all
    with False u(3) show ?thesis by (subst cancel_wait.simps) (simp add: Let_def)
  qed (subst cancel_wait.simps, simp add: Let_def u)
qed

lemma notices_ioctl [simp]: "notices (ioctl r w) = notices w"
  by (simp add: ioctl_def notices_log)

lemma signal_going:
  assumes "going (\<lambda>_. False) fs w"
  shows "returns (do { w \<leftarrow> lock E m w; unlock m (log_call (Cond_signal m) w) })
    (\<lambda>u. going (\<lambda>_. False) fs u \<and> notices u = notices w)"
proof -
  obtain v where v: "lock E m w = Some v" "going ((\<lambda>_. False)(m := True)) fs v"
    using lock_going [OF assms, where m = m and E = E] by (auto elim!: returns_obtain)
  obtain u where u: "unlock m (log_call (Cond_signal m) v) = Some u" "going ((\<lambda>_. False)(m := True, m := False)) fs u"
    using unlock_going [of "(\<lambda>_. False)(m := True)" fs "log_call (Cond_signal m) v" m] v(2)
    by (auto elim!: returns_obtain)
  then show ?thesis
    using lock_says [OF v(1)] unlock_says [OF u(1)] v(1) by (simp add: notices_log fun_upd_idem)
qed

lemma message_going:
  assumes "going (\<lambda>_. False) fs w"
  shows "returns (do { w \<leftarrow> lock E Dev_lock w; w \<leftarrow> notify x w; unlock Dev_lock w }) (\<lambda>u. going (\<lambda>_. False) fs u \<and> notices u = notices w @ [x])"
proof -
  obtain v where v: "lock E Dev_lock w = Some v" "going ((\<lambda>_. False)(Dev_lock := True)) fs v"
    using lock_going [OF assms, where m = Dev_lock and E = E] by (auto elim!: returns_obtain)
  have n: "notify x v = Some (log_call (Notify x) v)"
    using v(2) by (simp add: notify_def going_def)
  obtain u where u: "unlock Dev_lock (log_call (Notify x) v) = Some u"
      "going ((\<lambda>_. False)(Dev_lock := True, Dev_lock := False)) fs u"
    using unlock_going [of "(\<lambda>_. False)(Dev_lock := True)" fs "log_call (Notify x) v" Dev_lock] v(2)
    by (auto elim!: returns_obtain)
  then show ?thesis
    using lock_says [OF v(1)] unlock_says [OF u(1)] notify_says [OF n] v(1) n
    by (simp add: fun_upd_idem)
qed

lemma notice_going:
  assumes "going (\<lambda>_. False) fs w"
  shows "returns (send_error_notice E e w) (\<lambda>u. going (\<lambda>_. False) fs u \<and> notices u = notices w @ [Msg_error e])"
    "returns (send_remove_notice E i w) (\<lambda>u. going (\<lambda>_. False) fs u \<and> notices u = notices w @ [Msg_removed i])"
  unfolding send_error_notice_def send_remove_notice_def by (rule message_going [OF assms])+

lemma cancel_worker_returns:
  assumes "acknowledges E n" "going (\<lambda>_. False) fs w"
  shows "returns (cancel_worker E w) (\<lambda>u. going (\<lambda>_. False) fs u \<and> notices u = notices w)"
proof -
  obtain v where v: "set_tz_state E STATE_CANCEL w = Some v" "going (\<lambda>_. False) fs v"
    using set_tz_state_going [OF assms(2)] by (auto elim!: returns_obtain)
  obtain u where u: "do { w \<leftarrow> lock E Sensor_lock (ioctl (VFSSPI_IOCTL_SET_DRDY_INT 0) v);
      unlock Sensor_lock (log_call (Cond_signal Sensor_lock) w) } = Some u" "going (\<lambda>_. False) fs u" "notices u = notices v"
    using signal_going [of fs "ioctl (VFSSPI_IOCTL_SET_DRDY_INT 0) v"] v(2) by (fastforce elim!: returns_obtain)
  have "cancel_worker E w = cancel_wait E u"
    using v(1) u(1) by (auto simp: cancel_worker_def Let_def bind_eq_Some_conv)
  with cancel_wait_returns [OF assms(1) u(2)] u(3) set_tz_state_notices [OF v(1)] show ?thesis by simp
qed

lemma cancel_timeout_returns:
  assumes "going (\<lambda>_. False) fs w"
  shows "returns (cancel_timeout E w) (\<lambda>u. going (\<lambda>_. False) fs u \<and> notices u = notices w)"
proof (cases "timeout_thread (tz_timeout (tz w))")
  case True
  obtain u where u: "do { w \<leftarrow> lock E Timeout_lock w; unlock Timeout_lock (log_call (Cond_signal Timeout_lock) w) } = Some u"
      "going (\<lambda>_. False) fs u" "notices u = notices w"
    using signal_going [OF assms] by (fastforce elim!: returns_obtain)
  then have "cancel_timeout E w = Some (upd_tz (\<lambda>t. t\<lparr>tz_timeout := (tz_timeout t)\<lparr>timeout_thread := False\<rparr>\<rparr>)
      (interfere E (log_call (Thread_join Worker_timeout) u)))"
    using True by (auto simp: cancel_timeout_def Let_def bind_eq_Some_conv)
  moreover have "going (\<lambda>_. False) fs (interfere E (log_call (Thread_join Worker_timeout) u))"
    using u(2) by simp
  ultimately show ?thesis using u(3) by (simp add: notices_log) (simp add: going_def upd_tz_def)
qed (use assms in \<open>simp add: cancel_timeout_def\<close>)

text \<open>C9: cancelling works.  If from some point on the worker comes to rest at every opportunity,
  \<open>fingerprint_cancel\<close>, called with no lock held and a callback set, returns 0; it has sent
  nothing, or the one message that the operation was cancelled.\<close>

theorem cancel_returns:
  assumes "acknowledges E n" and "going (\<lambda>_. False) fs w"
  shows "\<exists>u. fingerprint_cancel E w = Some (0, u) \<and>
    (notices u = notices w \<or> notices u = notices w @ [Msg_error FINGERPRINT_ERROR_CANCELED])"
proof -
  obtain v1 where v1: "cancel_timeout E w = Some v1" "going (\<lambda>_. False) fs v1" "notices v1 = notices w"
    using cancel_timeout_returns [OF assms(2)] by (auto elim!: returns_obtain)
  obtain s v2 where v2: "get_tz_state E v1 = Some (s, v2)" "going (\<lambda>_. False) fs v2"
    using get_tz_state_going [OF v1(2)] by (auto elim!: returns_obtain)
  obtain s' v3 where v3: "get_tz_state E v2 = Some (s', v3)" "going (\<lambda>_. False) fs v3"
    using get_tz_state_going [OF v2(2)] by (auto elim!: returns_obtain)
  obtain v4 where v4: "cancel_worker E v3 = Some v4" "going (\<lambda>_. False) fs v4" "notices v4 = notices v3"
    using cancel_worker_returns [OF assms(1) v3(2)] by (auto elim!: returns_obtain)
  obtain u where u: "send_error_notice E FINGERPRINT_ERROR_CANCELED v4 = Some u"
      "notices u = notices v4 @ [Msg_error FINGERPRINT_ERROR_CANCELED]"
    using notice_going(1) [OF v4(2)] by (auto elim!: returns_obtain)
  show ?thesis
    using v1(1,3) v2(1) v3(1) v4(1,3) u get_tz_state_notices [OF v2(1)] get_tz_state_notices [OF v3(1)]
    by (simp add: fingerprint_cancel_def)
qed

definition resting_env :: env where
  "resting_env = good_env\<lparr>others := (\<lambda>t. if 5 \<le> length t then [Ev_set_state STATE_IDLE] else [])\<rparr>"

theorem cancel_returns_witness:
  "\<exists>u. fingerprint_cancel resting_env (example_world STATE_SCAN) = Some (0, u)"
proof -
  have "acknowledges resting_env 5" by (simp add: acknowledges_def resting_env_def)
  moreover have "going (\<lambda>_. False) one_finger (example_world STATE_SCAN)"
    using example_in_state by (simp add: in_state_def)
  ultimately show ?thesis using cancel_returns by fastforce
qed

end
