(* ===== verification/Fp_Start.thy ===== *)
theory Fp_Start
  imports Fp_Cancel
begin

text \<open>
  Starting a worker: what a busy device answers, what a start that fails leaves behind, what an
  enrolment that the application refuses leaves switched on, and what the timeout thread does and
  does not do.
\<close>

subsection \<open>Looking at the state five times\<close>

definition idle_calls :: "ext_call list" where
  "idle_calls = [Mutex_lock Tz_lock, Mutex_lock Tz_lock, Mutex_lock Tz_lock, Mutex_lock Tz_lock, Mutex_lock Tz_lock]"

definition busy_calls :: "ext_call list" where
  "busy_calls = [Mutex_lock Tz_lock, Usleep 100000, Mutex_lock Tz_lock, Usleep 100000, Mutex_lock Tz_lock,
     Usleep 100000, Mutex_lock Tz_lock, Usleep 100000, Mutex_lock Tz_lock]"

lemma quiet_usleep: "quiet E \<Longrightarrow> usleep E n w = w\<lparr>trace := Usleep n # trace w\<rparr>"
  by (simp add: usleep_def log_call_def)

lemma polls:
  assumes "quiet E" "\<not> held w Tz_lock"
  shows "tz_state (tz w) = STATE_IDLE \<Longrightarrow>
      wait_not_busy E [0, 1, 2, 3, 4] w = Some (True, w\<lparr>trace := idle_calls @ trace w\<rparr>)"
    and "tz_state (tz w) \<noteq> STATE_IDLE \<Longrightarrow>
      wait_not_busy E [0, 1, 2, 3, 4] w = Some (False, w\<lparr>trace := busy_calls @ trace w\<rparr>)"
  using assms by (simp_all add: quiet_get quiet_usleep busy_calls_def idle_calls_def)

lemma start_authenticate_quiet:
  assumes "quiet E" "\<not> held w Tz_lock"
  shows "vcs_start_authenticate E w =
    (if tz_state (tz w) \<noteq> STATE_IDLE then Some (-1, w\<lparr>trace := busy_calls @ trace w\<rparr>)
     else do {
       w \<leftarrow> set_tz_state E STATE_SCAN (w\<lparr>trace := idle_calls @ trace w\<rparr>);
       let w = snd (sensor_init w);
       (r, w) \<leftarrow> vcs_init E w;
       if r \<noteq> 0 then Some (r, w)
       else do {
         let (r, w) = call_ret E (Thread_create Worker_authenticate) w;
         Some (r, if r = 0 then upd_tz (\<lambda>t. t\<lparr>auth_thread := True\<rparr>) w else w) } })"
proof (cases "tz_state (tz w) = STATE_IDLE")
  case True
  show ?thesis unfolding vcs_start_authenticate_def polls(1) [OF assms True] using True by simp
next
  case False
  show ?thesis unfolding vcs_start_authenticate_def polls(2) [OF assms False] using False by simp
qed

lemma busy_refused:
  assumes "quiet E" "\<not> held w Tz_lock" "\<not> held w Dev_lock" "tz_state (tz w) \<noteq> STATE_IDLE"
  shows "fingerprint_authenticate E op w =
    Some (-1, w\<lparr>vdev := (vdev w)\<lparr>op_id := op\<rparr>, trace := busy_calls @ Mutex_lock Dev_lock # trace w\<rparr>)"
  using assms
  by (simp add: fingerprint_authenticate_def start_authenticate_quiet quiet_lock upd_dev_def unlock_def relock_idem)



subsection \<open>A start that fails\<close>

lemma sensor_init_fields [simp]:
  "tz (snd (sensor_init w)) = tz w" "held (snd (sensor_init w)) = held w" "vdev (snd (sensor_init w)) = vdev w"
  "km_init (snd (sensor_init w)) = km_init w" "km_handle (snd (sensor_init w)) = km_handle w"
  "sn_init (sensor (snd (sensor_init w)))"
  by (simp_all add: sensor_init_def Let_def ioctl_def log_call_def upd_sensor_def)

lemma vcs_init_refused:
  assumes "\<not> tz_init (tz w)" "km_init w" "km_handle w = Km_loaded" "\<And>t. ret E (Qsee_start_app # t) \<noteq> 0"
  shows "vcs_init E w = Some (-1, log_call Qsee_start_app w)"
  using assms
  by (simp add: vcs_init_def QSEECom_start_app_def init_qsee_done deref_km_handle_def call_ret_def Let_def log_call_def)

text \<open>C30: a failed start blocks the device.  If the trusted application cannot be started, an
  authentication returns -1 without a thread, but the worker state stays SCAN and the sensor
  stays powered: every later authentication is refused as busy, and \<open>fingerprint_cancel\<close>,
  the only call that could reset the state, never returns.\<close>

theorem failed_start_blocks:
  assumes "quiet E" and "\<And>m. \<not> held w m" and "tz_state (tz w) = STATE_IDLE" "\<not> tz_init (tz w)"
    and "km_init w" "km_handle w = Km_loaded" and "\<And>t. ret E (Qsee_start_app # t) \<noteq> 0"
  shows "\<exists>u. fingerprint_authenticate E op w = Some (-1, u) \<and> tz_state (tz u) = STATE_SCAN \<and> sn_init (sensor u) \<and>
    Thread_create Worker_authenticate \<notin> set (take (length (trace u) - length (trace w)) (trace u)) \<and>
    (\<forall>op'. \<exists>v. fingerprint_authenticate E op' u = Some (-1, v)) \<and> fingerprint_cancel E u = None"
proof -
  define v where "v = upd_tz (\<lambda>t. t\<lparr>tz_state := STATE_SCAN\<rparr>)
    (w\<lparr>held := (held w)(Dev_lock := True), vdev := (vdev w)\<lparr>op_id := op\<rparr>,
        trace := Mutex_lock Tz_lock # idle_calls @ Mutex_lock Dev_lock # trace w\<rparr>)"
  define u where "u = (log_call Qsee_start_app (snd (sensor_init v)))\<lparr>held := held w\<rparr>"
  have v: "tz v = (tz w)\<lparr>tz_state := STATE_SCAN\<rparr>" "held v = (held w)(Dev_lock := True)" "km_init v" "km_handle v = Km_loaded"
    "\<exists>tr. trace v = tr @ trace w \<and> Thread_create Worker_authenticate \<notin> set tr"
    using assms by (simp_all add: v_def upd_tz_def log_call_def idle_calls_def)
  then have "vcs_init E (snd (sensor_init v)) = Some (-1, log_call Qsee_start_app (snd (sensor_init v)))"
    using assms by (intro vcs_init_refused) simp_all
  then have run: "fingerprint_authenticate E op w = Some (-1, u)"
    using assms v(2)
    by (simp add: fingerprint_authenticate_def start_authenticate_quiet quiet_lock upd_dev_def set_tz_state_eq
        v_def [symmetric] unlock_def u_def Let_def log_call_def fun_upd_idem)
  have u: "tz u = tz v" "held u = held w" "sn_init (sensor u)"
    by (simp_all add: u_def log_call_def)
  moreover have "\<exists>tr. trace (snd (sensor_init v)) = tr @ trace v \<and> Thread_create Worker_authenticate \<notin> set tr"
    by (auto simp: sensor_init_def ioctl_def Let_def)
  then have "\<exists>tr. trace u = tr @ trace w \<and> Thread_create Worker_authenticate \<notin> set tr"
    using v(5) by (auto simp: u_def log_call_def)
  then have "Thread_create Worker_authenticate \<notin> set (take (length (trace u) - length (trace w)) (trace u))"
    by auto
  moreover have "\<exists>v. fingerprint_authenticate E op' u = Some (-1, v)" for op'
    using busy_refused [of E u op'] assms u v(1) by simp
  moreover have "fingerprint_cancel E u = None"
    using cancel_stuck [OF quiet_keeps_state [OF assms(1)], of u] u v(1) by simp
  ultimately show ?thesis using run v(1) by auto
qed

definition no_app_env :: env where
  "no_app_env = good_env\<lparr>ret := (\<lambda>t. case t of Qsee_start_app # _ \<Rightarrow> -1 | _ \<Rightarrow> 0)\<rparr>"

definition closed_world :: world where
  "closed_world = (example_world STATE_IDLE)\<lparr>tz := zero_tz\<rparr>"

theorem failed_start_blocks_witness:
  "\<exists>u. fingerprint_authenticate no_app_env 7 closed_world = Some (-1, u) \<and> tz_state (tz u) = STATE_SCAN \<and>
     (\<exists>v. fingerprint_authenticate no_app_env 8 u = Some (-1, v)) \<and> fingerprint_cancel no_app_env u = None"
proof -
  have "quiet no_app_env" by (simp add: quiet_def no_app_env_def good_env_def)
  moreover have "ret no_app_env (Qsee_start_app # t) \<noteq> 0" for t by (simp add: no_app_env_def)
  ultimately show ?thesis
    using failed_start_blocks [of no_app_env closed_world 7]
    by (fastforce simp: closed_world_def example_world_def zero_tz_def)
qed

subsection \<open>The timeout thread\<close>

definition unsignalled :: "world \<Rightarrow> world \<Rightarrow> bool" where
  "unsignalled w u \<longleftrightarrow> (\<exists>tr. trace u = tr @ trace w \<and> Cond_signal Sensor_lock \<notin> set tr) \<and> notices u = notices w"

lemma unsignalled_refl [simp]: "unsignalled w w"
  by (simp add: unsignalled_def)

lemma unsignalled_trans: "unsignalled u v \<Longrightarrow> unsignalled v w \<Longrightarrow> unsignalled u w"
  by (auto simp: unsignalled_def)

lemma unsignalled_log: "c \<noteq> Cond_signal Sensor_lock \<Longrightarrow> is_notify c = None \<Longrightarrow> unsignalled w (log_call c w)"
  by (auto simp: unsignalled_def notices_log)

lemma unsignalled_lock: "lock E m w = Some u \<Longrightarrow> unsignalled w u"
  by (auto simp: lock_def Let_def unsignalled_def notices_log split: if_splits)

lemma unsignalled_unlock: "unlock m w = Some u \<Longrightarrow> unsignalled w u"
  by (auto simp: unlock_def unsignalled_def split: if_splits)

lemma unsignalled_get: "get_tz_state E w = Some (s, u) \<Longrightarrow> unsignalled w u"
  by (auto simp: get_tz_state_eq Let_def unsignalled_def notices_log split: if_splits)

lemma unsignalled_set: "set_tz_state E s w = Some u \<Longrightarrow> unsignalled w u"
  by (auto simp: set_tz_state_eq unsignalled_def notices_log split: if_splits)

lemma unsignalled_usleep: "unsignalled w (usleep E n w)"
  by (simp add: usleep_def unsignalled_def notices_log)

lemma unsignalled_timedwait: "cond_timedwait E m s n w = Some (r, u) \<Longrightarrow> unsignalled w u \<and>
    trace u = Cond_timedwait m s n # trace w \<and> r = ret E (Cond_timedwait m s n # trace w)"
  by (auto simp: cond_timedwait_def Let_def call_ret_def unsignalled_def notices_def map_filter_simps log_call_def split: if_splits)

lemma wait_idle_unsignalled: "on_return (wait_idle E w) (unsignalled w)"
proof (rule wait_idle_return)
  fix f :: "world \<Rightarrow> world option" and w
  assume IH: "\<And>v. on_return (f v) (unsignalled v)"
  show "on_return (do {
       let w = usleep E 100000 w;
       (s, w) \<leftarrow> get_tz_state E w;
       if s = STATE_IDLE then Some w else f w }) (unsignalled w)"
  proof (rule on_returnI)
    fix x assume "do {
       let w = usleep E 100000 w;
       (s, w) \<leftarrow> get_tz_state E w;
       if s = STATE_IDLE then Some w else f w } = Some x"
    then obtain s v where v: "get_tz_state E (usleep E 100000 w) = Some (s, v)" "x = v \<or> f v = Some x"
      by (auto simp: Let_def bind_eq_Some_conv split: if_splits)
    have "unsignalled w v" by (rule unsignalled_trans [OF unsignalled_usleep unsignalled_get [OF v(1)]])
    with v(2) on_returnD [OF IH] show "unsignalled w x" by (auto intro: unsignalled_trans)
  qed
qed

text \<open>How the thread stops the worker whose state it has found.\<close>

abbreviation timeout_stop :: "env \<Rightarrow> worker_state_t \<Rightarrow> world \<Rightarrow> world option" where
  "timeout_stop E s w \<equiv> (if s \<noteq> STATE_IDLE then do {
       (s, w) \<leftarrow> get_tz_state E w;
       if s \<noteq> STATE_CANCEL then do {
         w \<leftarrow> set_tz_state E STATE_CANCEL w;
         wait_idle E (ioctl (VFSSPI_IOCTL_SET_DRDY_INT 0) w) }
       else Some w }
     else Some w)"

lemma timeout_stop_unsignalled:
  "on_return (timeout_stop E s w) (unsignalled w)"
proof (rule on_returnI)
  fix x assume "timeout_stop E s w = Some x"
  then consider "x = w" | s v where "get_tz_state E w = Some (s, v)" "x = v"
    | s v v' where "get_tz_state E w = Some (s, v)" "set_tz_state E STATE_CANCEL v = Some v'"
        "wait_idle E (ioctl (VFSSPI_IOCTL_SET_DRDY_INT 0) v') = Some x"
    by (auto simp: bind_eq_Some_conv split: if_splits)
  then show "unsignalled w x"
  proof cases
    case (3 s v v')
    have "unsignalled v' (ioctl (VFSSPI_IOCTL_SET_DRDY_INT 0) v')"
      unfolding ioctl_def by (rule unsignalled_log) simp_all
    from unsignalled_trans [OF unsignalled_trans [OF unsignalled_get [OF 3(1)] unsignalled_set [OF 3(2)]]
        unsignalled_trans [OF this on_returnD [OF wait_idle_unsignalled 3(3)]]]
    show ?thesis .
  qed (simp_all add: unsignalled_get)
qed

lemma error_notice_unsignalled:
  assumes "send_error_notice E e w = Some u"
  shows "\<exists>tr. trace u = tr @ trace w \<and> Cond_signal Sensor_lock \<notin> set tr" "notices u = notices w @ [Msg_error e]"
proof -
  obtain v v' where v: "lock E Dev_lock w = Some v" "notify (Msg_error e) v = Some v'" "unlock Dev_lock v' = Some u"
    using assms by (auto simp: send_error_notice_def bind_eq_Some_conv)
  have "trace v' = Notify (Msg_error e) # trace v" using v(2) by (auto simp: notify_def split: if_splits)
  then show "\<exists>tr. trace u = tr @ trace w \<and> Cond_signal Sensor_lock \<notin> set tr" "notices u = notices w @ [Msg_error e]"
    using unsignalled_lock [OF v(1)] unsignalled_unlock [OF v(3)] notify_says [OF v(2)] by (auto simp: unsignalled_def)
qed

text \<open>A run that returns, up to the end of its wait, and what it does if the time was over.\<close>

lemma timeout_cases:
  assumes "vcs_timeout E w = Some u"
  obtains v sec nsec t where "unsignalled w v" "trace v = Cond_timedwait Timeout_lock sec nsec # t"
    "u = v \<or> ret E (trace v) = ETIMEDOUT \<and> (\<exists>s v' v''. get_tz_state E v = Some (s, v') \<and> timeout_stop E s v' = Some v'' \<and>
       send_error_notice E FINGERPRINT_ERROR_TIMEOUT v'' = Some u)"
proof -
  obtain v1 sec nsec r v2 v3 where v: "lock E Timeout_lock w = Some v1"
      "cond_timedwait E Timeout_lock sec nsec (log_call Clock_time v1) = Some (r, v2)"
      "unlock Timeout_lock v2 = Some v3"
    and rest: "u = v3 \<or> r = ETIMEDOUT \<and> (\<exists>s v4 v5. get_tz_state E v3 = Some (s, v4) \<and> timeout_stop E s v4 = Some v5 \<and>
      send_error_notice E FINGERPRINT_ERROR_TIMEOUT v5 = Some u)"
    using assms unfolding vcs_timeout_def Let_def by (auto simp: bind_eq_Some_conv split: if_split_asm simp del: not_None_eq)
  have "unsignalled v1 (log_call Clock_time v1)" by (rule unsignalled_log) simp_all
  then have "unsignalled w v3"
    using unsignalled_lock [OF v(1)] unsignalled_timedwait [OF v(2)] unsignalled_unlock [OF v(3)] by (blast intro: unsignalled_trans)
  moreover have "trace v3 = trace v2" using v(3) by (auto simp: unlock_def split: if_splits)
  ultimately show ?thesis using unsignalled_timedwait [OF v(2)] rest by (intro that [of v3]) auto
qed

text \<open>C26: what the timeout thread does.  A run that returns has sent nothing, or the one message that
  the enrolment timed out, and the latter only if its timed wait returned \<open>ETIMEDOUT\<close>; it has not
  signalled the sensor's condition variable, so an enrolling thread that waits for a finger is
  not woken by it.\<close>

theorem timeout_reports:
  "on_return (vcs_timeout E w) (\<lambda>u. (\<exists>tr. trace u = tr @ trace w \<and> Cond_signal Sensor_lock \<notin> set tr) \<and>
     (notices u = notices w \<or>
      (\<exists>tr sec nsec t. trace u = tr @ Cond_timedwait Timeout_lock sec nsec # t \<and>
         ret E (Cond_timedwait Timeout_lock sec nsec # t) = ETIMEDOUT \<and>
         notices u = notices w @ [Msg_error FINGERPRINT_ERROR_TIMEOUT])))"
proof (rule on_returnI)
  fix u assume u: "vcs_timeout E w = Some u"
  let ?Q = "(\<exists>tr. trace u = tr @ trace w \<and> Cond_signal Sensor_lock \<notin> set tr) \<and>
     (notices u = notices w \<or>
      (\<exists>tr sec nsec t. trace u = tr @ Cond_timedwait Timeout_lock sec nsec # t \<and>
         ret E (Cond_timedwait Timeout_lock sec nsec # t) = ETIMEDOUT \<and>
         notices u = notices w @ [Msg_error FINGERPRINT_ERROR_TIMEOUT]))"
  from u show ?Q
  proof (rule timeout_cases)
    fix v sec nsec t
    assume v: "unsignalled w v" "trace v = Cond_timedwait Timeout_lock sec nsec # t"
      and "u = v \<or> ret E (trace v) = ETIMEDOUT \<and> (\<exists>s v' v''. get_tz_state E v = Some (s, v') \<and> timeout_stop E s v' = Some v'' \<and>
        send_error_notice E FINGERPRINT_ERROR_TIMEOUT v'' = Some u)"
    then consider "u = v" | s v' v'' where "ret E (trace v) = ETIMEDOUT" "get_tz_state E v = Some (s, v')"
        "timeout_stop E s v' = Some v''" "send_error_notice E FINGERPRINT_ERROR_TIMEOUT v'' = Some u" by blast
    then show ?Q
    proof cases
      case (2 s v' v'')
      have stop: "unsignalled v v''"
        by (rule unsignalled_trans [OF unsignalled_get [OF 2(2)] on_returnD [OF timeout_stop_unsignalled 2(3)]])
      obtain tr where tr: "trace u = tr @ trace v''" "Cond_signal Sensor_lock \<notin> set tr"
        using error_notice_unsignalled(1) [OF 2(4)] by blast
      moreover have "\<exists>tr. trace u = tr @ trace v" using tr(1) stop by (auto simp: unsignalled_def)
      moreover have "\<exists>tr. trace v'' = tr @ trace w \<and> Cond_signal Sensor_lock \<notin> set tr \<and> notices v'' = notices w"
        using unsignalled_trans [OF v(1) stop] by (auto simp: unsignalled_def)
      ultimately have "\<exists>tr. trace u = tr @ trace w \<and> Cond_signal Sensor_lock \<notin> set tr" by fastforce
      with \<open>\<exists>tr. trace u = tr @ trace v\<close> error_notice_unsignalled(2) [OF 2(4)] unsignalled_trans [OF v(1) stop] v(2) 2(1) show ?thesis
        by (auto simp: unsignalled_def)
    qed (use v(1) in \<open>simp add: unsignalled_def\<close>)
  qed
qed

lemma wait_idle_returns:
  assumes "acknowledges E n" "going l fs w" "\<not> l Tz_lock"
  shows "returns (wait_idle E w) (\<lambda>u. going l fs u \<and> notices u = notices w)"
  using assms(2)
proof (induction "n - length (trace w)" arbitrary: w rule: less_induct)
  case less
  let ?u = "usleep E 100000 w"
  have u: "going l fs ?u" "trace ?u = Usleep 100000 # trace w" "notices ?u = notices w"
    using usleep_going [OF less.prems, of E 100000] by (simp_all add: notices_def map_filter_simps)
  obtain s v where v: "get_tz_state E ?u = Some (s, v)" "going l fs v" "s = tz_state (tz v)"
      "v = interfere E (log_call (Mutex_lock Tz_lock) ?u)"
    using get_tz_state_going [OF u(1) assms(3)] by (auto elim!: returns_obtain)
  have n: "notices v = notices w" using get_tz_state_notices [OF v(1)] u(3) by simp
  show ?case
  proof (cases "s = STATE_IDLE")
    case False
    have "\<not> held (log_call (Mutex_lock Tz_lock) ?u) Tz_lock" using u(1) assms(3) by (simp add: going_def log_call_def)
    then have "length (trace w) < n"
      using False acknowledged [OF assms(1), of "log_call (Mutex_lock Tz_lock) ?u"] v(3,4) u(2)
      by (cases "n \<le> Suc (Suc (length (trace w)))") auto
    moreover have "length (trace v) = Suc (Suc (length (trace w)))" using v(4) u(2) by simp
    ultimately have "returns (wait_idle E v) (\<lambda>x. going l fs x \<and> notices x = notices v)"
      using v(2) by (intro less.hyps) simp_all
    with False n v(1) show ?thesis by (subst wait_idle.simps) simp
  qed (subst wait_idle.simps, simp add: v(1,2) n)
qed

lemma timeout_sec_interfere: "timeout_sec (tz_timeout (tz (interfere E w))) = timeout_sec (tz_timeout (tz w))"
proof -
  have "timeout_sec (tz_timeout (erase_shared_tz (tz (interfere E w)))) = timeout_sec (tz_timeout (erase_shared_tz (tz w)))"
    using steps_only_interfere [of w E] by (simp add: steps_only_def)
  then show ?thesis by (simp add: erase_shared_tz_def)
qed

text \<open>The thread up to the end of its wait.\<close>

definition timeout_until :: "env \<Rightarrow> world \<Rightarrow> ext_call list" where
  "timeout_until E w = (let t = Clock_time # Mutex_lock Timeout_lock # trace w
     in Cond_timedwait Timeout_lock (seconds E t + timeout_sec (tz_timeout (tz w))) (microseconds E t * 1000) # t)"

lemma timeout_waits:
  assumes "going (\<lambda>_. False) fs w"
  shows "\<exists>v. going (\<lambda>_. False) fs v \<and> notices v = notices w \<and> vcs_timeout E w =
    (if ret E (timeout_until E w) = ETIMEDOUT then do {
       (s, w) \<leftarrow> get_tz_state E v;
       w \<leftarrow> timeout_stop E s w;
       send_error_notice E FINGERPRINT_ERROR_TIMEOUT w }
     else Some v)"
proof -
  define t where "t = Clock_time # Mutex_lock Timeout_lock # trace w"
  define until where "until = Cond_timedwait Timeout_lock (seconds E t + timeout_sec (tz_timeout (tz w))) (microseconds E t * 1000)"
  let ?l = "\<lambda>_ :: mutex. False"
  obtain v1 where v1: "lock E Timeout_lock w = Some v1" "going (?l(Timeout_lock := True)) fs v1"
      "v1 = interfere E (log_call (Mutex_lock Timeout_lock) w)\<lparr>held := ?l(Timeout_lock := True)\<rparr>"
    using lock_going [OF assms, where m = Timeout_lock and E = E] by (auto elim!: returns_obtain)
  have t: "trace (log_call Clock_time v1) = t" "timeout_sec (tz_timeout (tz v1)) = timeout_sec (tz_timeout (tz w))"
    using v1(3) timeout_sec_interfere [of E "log_call (Mutex_lock Timeout_lock) w"] by (simp_all add: t_def log_call_def)
  let ?v2 = "interfere E (log_call until (log_call Clock_time v1\<lparr>held := ?l\<rparr>))"
  have idem: "(held v1)(Timeout_lock := False) = ?l"
    using v1(2) by (simp add: going_def fun_eq_iff)
  have "going ?l fs (log_call until (log_call Clock_time v1\<lparr>held := ?l\<rparr>))"
    using going_relock [of _ fs "log_call Clock_time v1"] v1(2) by simp
  then have v2: "going ?l fs ?v2" by simp
  have n2: "notices ?v2 = notices w"
    using lock_says [OF v1(1)] by (simp add: notices_log until_def notices_def)
  have "cond_timedwait E Timeout_lock (seconds E t + timeout_sec (tz_timeout (tz w))) (microseconds E t * 1000) (log_call Clock_time v1)
      = Some (ret E (until # t), ?v2\<lparr>held := ?l(Timeout_lock := True)\<rparr>)"
    using v1(2) t(1) going_held [OF v2]
    by (simp add: cond_timedwait_def Let_def call_ret_def idem until_def) (simp add: going_def log_call_def fun_upd_idem)
  moreover have "unlock Timeout_lock (?v2\<lparr>held := ?l(Timeout_lock := True)\<rparr>) = Some ?v2"
    using going_held [OF v2] by (simp add: unlock_def fun_upd_idem)
  ultimately show ?thesis
    using v1(1) t v2 n2 by (intro exI [of _ ?v2]) (simp add: vcs_timeout_def timeout_until_def Let_def until_def t_def)
qed

lemma timeout_stop_returns:
  assumes "acknowledges E n" and "going (\<lambda>_. False) fs w"
  shows "returns (timeout_stop E s w) (\<lambda>u. going (\<lambda>_. False) fs u \<and> notices u = notices w)"
proof -
  let ?l = "\<lambda>_ :: mutex. False"
  obtain s' v where v: "get_tz_state E w = Some (s', v)" "going ?l fs v"
    using get_tz_state_going [OF assms(2)] by (auto elim!: returns_obtain)
  obtain v' where v': "set_tz_state E STATE_CANCEL v = Some v'" "going ?l fs v'"
    using set_tz_state_going [OF v(2)] by (auto elim!: returns_obtain)
  have "returns (wait_idle E (ioctl (VFSSPI_IOCTL_SET_DRDY_INT 0) v')) (\<lambda>u. going ?l fs u \<and> notices u = notices v')"
    using wait_idle_returns [OF assms(1), of ?l fs "ioctl (VFSSPI_IOCTL_SET_DRDY_INT 0) v'"] v'(2) by simp
  with v v' assms(2) get_tz_state_notices [OF v(1)] set_tz_state_notices [OF v'(1)] show ?thesis by simp
qed

text \<open>C27: the timeout thread comes to its end.  If from some point on the worker comes to rest at every
  opportunity, the thread returns; it has sent the one message that the enrolment timed out when
  its wait, until the clock's time plus the timeout asked for, returned \<open>ETIMEDOUT\<close>, and
  nothing otherwise.\<close>

theorem timeout_returns:
  fixes E w
  defines "t \<equiv> Clock_time # Mutex_lock Timeout_lock # trace w"
  defines "until \<equiv> Cond_timedwait Timeout_lock (seconds E t + timeout_sec (tz_timeout (tz w))) (microseconds E t * 1000)"
  assumes "acknowledges E n" and "going (\<lambda>_. False) fs w"
  shows "\<exists>u. vcs_timeout E w = Some u \<and>
    notices u = notices w @ (if ret E (until # t) = ETIMEDOUT then [Msg_error FINGERPRINT_ERROR_TIMEOUT] else [])"
proof -
  have t: "timeout_until E w = until # t" by (simp add: timeout_until_def Let_def until_def t_def)
  obtain v where v: "going (\<lambda>_. False) fs v" "notices v = notices w" "vcs_timeout E w =
    (if ret E (until # t) = ETIMEDOUT then do {
       (s, w) \<leftarrow> get_tz_state E v;
       w \<leftarrow> timeout_stop E s w;
       send_error_notice E FINGERPRINT_ERROR_TIMEOUT w }
     else Some v)"
    using timeout_waits [OF assms(4), of E] unfolding t by blast
  obtain s v1 where v1: "get_tz_state E v = Some (s, v1)" "going (\<lambda>_. False) fs v1"
    using get_tz_state_going [OF v(1)] by (auto elim!: returns_obtain)
  obtain v2 where v2: "timeout_stop E s v1 = Some v2" "going (\<lambda>_. False) fs v2" "notices v2 = notices v1"
    using timeout_stop_returns [OF assms(3) v1(2), of s] by (elim returns_obtain conjE) blast
  obtain u where "send_error_notice E FINGERPRINT_ERROR_TIMEOUT v2 = Some u"
      "notices u = notices v2 @ [Msg_error FINGERPRINT_ERROR_TIMEOUT]"
    using notice_going(1) [OF v2(2)] by (auto elim!: returns_obtain)
  then show ?thesis
    unfolding v(3) using v(2) v1(1) v2(1,3) get_tz_state_notices [OF v1(1)] by simp
qed

text \<open>An enrolment with a timeout of 30 seconds, whose worker comes to rest after the timeout.\<close>

theorem timeout_returns_witness:
  "\<exists>u. vcs_timeout (resting_env\<lparr>ret := (\<lambda>t. case t of Cond_timedwait _ sec _ # _ \<Rightarrow> if sec = 30 then ETIMEDOUT else 0 | _ \<Rightarrow> 0)\<rparr>)
     (upd_tz (\<lambda>t. t\<lparr>tz_timeout := \<lparr>timeout_sec = 30, timeout_thread = True\<rparr>\<rparr>) (example_world STATE_ENROLL)) = Some u \<and>
     notices u = [Msg_error FINGERPRINT_ERROR_TIMEOUT]"
proof -
  let ?E = "resting_env\<lparr>ret := (\<lambda>t. case t of Cond_timedwait _ sec _ # _ \<Rightarrow> if sec = 30 then ETIMEDOUT else 0 | _ \<Rightarrow> 0)\<rparr>"
  let ?w = "upd_tz (\<lambda>t. t\<lparr>tz_timeout := \<lparr>timeout_sec = 30, timeout_thread = True\<rparr>\<rparr>) (example_world STATE_ENROLL)"
  have "acknowledges ?E 5" by (simp add: acknowledges_def resting_env_def)
  moreover have "going (\<lambda>_. False) one_finger ?w"
    using example_in_state [of STATE_ENROLL] by (simp add: in_state_def going_def upd_tz_def)
  moreover have "notices ?w = []" "seconds ?E t = 0" "timeout_sec (tz_timeout (tz ?w)) = 30" for t
    by (simp_all add: example_world_def upd_tz_def notices_def map_filter_simps resting_env_def good_env_def)
  ultimately show ?thesis
    using timeout_returns [of ?E 5 one_finger ?w] by simp
qed

subsection \<open>An enrolment that the application refuses\<close>

definition refuses_enrolment :: "env \<Rightarrow> bool" where
  "refuses_enrolment E \<longleftrightarrow> (\<forall>b s r n t. get32 b off_cmd = cmd_id vfmEnrollBegin \<longrightarrow>
     get32 (response E (Qsee_send_cmd b s r n # t)) off_result \<noteq> 0)"

lemma send_begin_refused:
  assumes "refuses_enrolment E" "going l fs w"
  shows "returns (send_enroll_begin E k w) (\<lambda>(x, u). going l fs u \<and> result_of (QSEECOM_ALIGN sizeof_base_cmd) u \<noteq> 0 \<and>
    tz u = tz w \<and> sensor u = sensor w \<and> notices u = notices w)"
proof -
  let ?send = "QSEECOM_ALIGN sizeof_base_cmd"
  let ?v = "wr8 (off_data + 102400) (word_of_nat k) (wr32 off_cmd (cmd_id vfmEnrollBegin) (wr_zero (?send + QSEECOM_ALIGN sizeof_int) w))"
  have v: "going l fs ?v" "tz ?v = tz w" "sensor ?v = sensor w" "notices ?v = notices w"
    using assms(2) by (simp_all add: buf_defs notices_def)
  have "get32 (ibuf ?v) off_cmd = cmd_id vfmEnrollBegin"
    by (simp add: buf_defs off_defs mem_simps)
  then have no: "get32 (response E (Qsee_send_cmd (ibuf ?v) s r n # t)) off_result \<noteq> 0" for s r n t
    using assms(1) by (simp add: refuses_enrolment_def)
  show ?thesis
    unfolding send_enroll_begin_def Let_def
    apply (rule returns_mono [OF send_cmd_going [OF v(1)]])
    using v no
    by (auto simp: result_of_def get32_memcpy_inside off_result_def signed_eq_0_iff notices_def map_filter_simps)
qed

text \<open>C28: what a refused enrolment leaves on.  When the application refuses \<open>vfmEnrollBegin\<close>, the enrolling
  thread sends the one message that it could not process the enrolment and returns at rest, but
  apart from the worker state the session and the sensor are as the thread found them: the sensor keeps its
  power and the application is not stopped.  A \<open>fingerprint_cancel\<close> that follows finds nothing to
  do, and does not switch them off either.\<close>

theorem enroll_begin_refused:
  assumes "calm E" and "refuses_enrolment E" and "going (\<lambda>_. False) fs w"
  shows "\<exists>u. vcs_enroll E w = Some u \<and> notices u = notices w @ [Msg_error FINGERPRINT_ERROR_UNABLE_TO_PROCESS] \<and>
    tz u = (tz w)\<lparr>tz_state := STATE_IDLE\<rparr> \<and> sensor u = sensor w \<and>
    (\<exists>v. fingerprint_cancel E u = Some (0, v) \<and> sensor v = sensor w \<and> notices v = notices u \<and>
       tz v = (tz u)\<lparr>tz_timeout := (tz_timeout (tz w))\<lparr>timeout_thread := False\<rparr>\<rparr>)"
proof -
  let ?l = "\<lambda>_ :: mutex. False"
  have idle: "y = y\<lparr>tz_timeout := (tz_timeout y)\<lparr>timeout_thread := False\<rparr>\<rparr>" if "\<not> timeout_thread (tz_timeout y)" for y :: trust_zone_t
    using that by (cases y; cases "tz_timeout y") simp
  obtain x v where v: "send_enroll_begin E (find_free fs slot_indices) w = Some (x, v)" "going ?l fs v"
      "result_of (QSEECOM_ALIGN sizeof_base_cmd) v \<noteq> 0" "tz v = tz w" "sensor v = sensor w" "notices v = notices w"
    using send_begin_refused [OF assms(2,3), of "find_free fs slot_indices"] by (auto elim!: returns_obtain)
  have ion: "ion_sbuffer w = Some ()" and fs: "finger (tz w) = fs" using assms(3) by (simp_all add: ion_sbuffer_going going_def)
  obtain v1 where v1: "set_tz_state E STATE_IDLE v = Some v1" "going ?l fs v1"
      "v1 = upd_tz (\<lambda>t. t\<lparr>tz_state := STATE_IDLE\<rparr>) (interfere E (log_call (Mutex_lock Tz_lock) v))"
    using set_tz_state_going [OF v(2), of E STATE_IDLE] by (auto elim!: returns_obtain)
  obtain u where u: "send_error_notice E FINGERPRINT_ERROR_UNABLE_TO_PROCESS v1 = Some u" "going ?l fs u"
      "notices u = notices v1 @ [Msg_error FINGERPRINT_ERROR_UNABLE_TO_PROCESS]"
    using notice_going(1) [OF v1(2)] by (auto elim!: returns_obtain)
  have fields: "tz (log_call c y) = tz y" "sensor (log_call c y) = sensor y" for c y by (simp_all add: log_call_def)
  have calm: "interfere E (log_call (Mutex_lock m) y) = log_call (Mutex_lock m) y"
      "interfere E (log_call (Thread_join t) y) = log_call (Thread_join t) y" for m t y
    using assms(1) by (simp_all add: log_call_def)
  have same: "tz v1 = (tz w)\<lparr>tz_state := STATE_IDLE\<rparr>" "sensor v1 = sensor w"
    unfolding v1(3) calm using v(4,5) by (simp_all add: log_call_def upd_tz_def)
  have "tz u = tz v1 \<and> sensor u = sensor v1"
    using u(1) by (auto simp: send_error_notice_def lock_def unlock_def notify_def Let_def calm bind_eq_Some_conv fields split: if_splits)
  moreover have "\<exists>v. fingerprint_cancel E u = Some (0, v) \<and> sensor v = sensor u \<and> notices v = notices u \<and>
      tz v = (tz u)\<lparr>tz_timeout := (tz_timeout (tz u))\<lparr>timeout_thread := False\<rparr>\<rparr>"
    if "tz_state (tz u) = STATE_IDLE"
  proof -
    obtain y where y: "cancel_timeout E u = Some y" "going ?l fs y" "notices y = notices u"
      using cancel_timeout_returns [OF u(2), of E] by (auto elim!: returns_obtain)
    then have "sensor y = sensor u" "tz y = (tz u)\<lparr>tz_timeout := (tz_timeout (tz u))\<lparr>timeout_thread := False\<rparr>\<rparr>"
      using idle [of "tz u"]
      by (auto simp: cancel_timeout_def lock_def unlock_def calm Let_def bind_eq_Some_conv fields upd_tz_def split: if_splits)
    moreover have "fingerprint_cancel E u = Some (0, log_call (Mutex_lock Tz_lock) y)"
      using y calculation(2) that by (simp add: fingerprint_cancel_def get_tz_state_eq calm Let_def going_def fields)
    ultimately show ?thesis using y(3) by (simp add: fields notices_log)
  qed
  moreover have "vcs_enroll E w = Some u"
    using v(1,3) v1(1) u(1) ion by (simp add: vcs_enroll_def fs Let_def enroll_fail_def)
  ultimately show ?thesis
    using u(3) v(6) set_tz_state_notices [OF v1(1)] same by (auto simp: notices_log fields)
qed

definition refusing_env :: env where
  "refusing_env = good_env\<lparr>response := (\<lambda>_ i. if i = off_result then 1 else 0)\<rparr>"

theorem enroll_begin_refused_witness:
  "\<exists>u v. vcs_enroll refusing_env (example_world STATE_ENROLL) = Some u \<and>
     fingerprint_cancel refusing_env u = Some (0, v) \<and> sn_init (sensor v) \<and> tz_init (tz v) \<and> qhandle (tz v)"
proof -
  have "calm refusing_env" "refuses_enrolment refusing_env"
    by (simp_all add: calm_def refuses_enrolment_def refusing_env_def good_env_def get32_def off_result_def)
  moreover have "going (\<lambda>_. False) one_finger (example_world STATE_ENROLL)"
    using example_in_state by (simp add: in_state_def)
  ultimately show ?thesis
    using enroll_begin_refused [of refusing_env one_finger "example_world STATE_ENROLL"]
    by (fastforce simp: example_world_def zero_tz_def)
qed

end
