(* ===== verification/Fp_Entry.thy ===== *)
theory Fp_Entry
  imports Fp_Start Tz_Enroll
begin

text \<open>
  The entry points that remove and enrol fingers, on every branch: the messages and the slots
  after a removal, the tokens an enrolment refuses, the full device, and the run of an enrolling
  thread whose state is CANCEL from the start.
\<close>

subsection \<open>Removing\<close>

text \<open>The statements executed on the database, in order, with the answer of each.\<close>

fun executed :: "env \<Rightarrow> ext_call list \<Rightarrow> (string \<times> int) list" where
  "executed E [] = []"
| "executed E (c # t) = executed E t @ (case c of Sql_exec s \<Rightarrow> [(s, ret E (c # t))] | _ \<Rightarrow> [])"

lemma db_remove_going:
  assumes "going l fs w" "i \<le> MAX_NUM_FINGERS"
  shows "returns (db_write_to_db E True (int i) w) (\<lambda>(r, u). going l (fs(i := zero_finger)) u \<and> notices u = notices w \<and>
    vdev u = vdev w \<and> executed E (trace u) = executed E (trace w) @ [(delete_cmd (active_gid (vdev w)) (int i), r)])"
  using assms
  by (auto simp: db_write_to_db_def finger_index_def call_ret_def Let_def going_def set_finger_def upd_tz_def log_call_def
      notices_def map_filter_simps)

lemma remove_finger_going:
  assumes "going (\<lambda>_. False) fs w" "i \<le> MAX_NUM_FINGERS"
  shows "returns (remove_finger E (int i) w) (\<lambda>(r, u). going (\<lambda>_. False) (fs(i := zero_finger)) u \<and> vdev u = vdev w \<and>
    executed E (trace u) = executed E (trace w) @ [(delete_cmd (active_gid (vdev w)) (int i), r)] \<and>
    notices u = notices w @ (if r = 0 then [Msg_removed (int i)] else []))"
proof -
  obtain v where v: "lock E Dev_lock w = Some v" "going ((\<lambda>_. False)(Dev_lock := True)) fs v"
      "trace v = Mutex_lock Dev_lock # trace w"
    using lock_going [OF assms(1), where m = Dev_lock and E = E] by (auto elim!: returns_obtain)
  obtain r x where x: "db_write_to_db E True (int i) v = Some (r, x)" "notices x = notices v" "vdev x = vdev v"
      "going ((\<lambda>_. False)(Dev_lock := True)) (fs(i := zero_finger)) x"
      "executed E (trace x) = executed E (trace v) @ [(delete_cmd (active_gid (vdev v)) (int i), r)]"
    using db_remove_going [OF v(2) assms(2), of E] by (auto elim!: returns_obtain)
  obtain y where y: "unlock Dev_lock x = Some y" "going (\<lambda>_. False) (fs(i := zero_finger)) y" "trace y = trace x"
    using unlock_going [OF x(4), of Dev_lock] by (auto elim!: returns_obtain simp: fun_upd_idem)
  have n: "notices y = notices w" "vdev y = vdev w" "vdev v = vdev w"
    using lock_says [OF v(1)] unlock_says [OF y(1)] x(2,3) by simp_all
  have run: "remove_finger E (int i) w = Option.bind (if r = 0 then send_remove_notice E (int i) y else Some y) (\<lambda>w. Some (r, w))"
    using v(1) x(1) y(1) by (simp add: remove_finger_def)
  show ?thesis
  proof (cases "r = 0")
    case True
    obtain u where u: "send_remove_notice E (int i) y = Some u" "going (\<lambda>_. False) (fs(i := zero_finger)) u"
      using notice_going(2) [OF y(2), of E "int i"] by (auto elim!: returns_obtain)
    with run True remove_notice_trace [OF u(1)] n v(3) x(5) y(3) show ?thesis by simp
  qed (use run y n v(3) x(5) in simp)
qed

lemma sint_slot: "i \<le> MAX_NUM_FINGERS \<Longrightarrow> sint (word_of_nat i :: u32) = int i"
proof -
  assume "i \<le> MAX_NUM_FINGERS"
  then consider "i = 0" | "i = 1" | "i = 2" | "i = 3" | "i = 4" | "i = 5" by (fastforce simp: MAX_NUM_FINGERS_def)
  then show ?thesis by cases simp_all
qed

lemma remove_one_going:
  assumes "going (\<lambda>_. False) fs w" and "1 \<le> i" "i \<le> MAX_NUM_FINGERS"
  shows "returns (fingerprint_remove E False (word_of_nat i) w) (\<lambda>(r, u). going (\<lambda>_. False) (fs(i := zero_finger)) u \<and>
    executed E (trace u) = executed E (trace w) @ [(delete_cmd (active_gid (vdev w)) (int i), r)] \<and>
    notices u = notices w @ [if r = 0 then Msg_removed (int i) else Msg_error FINGERPRINT_ERROR_UNABLE_TO_REMOVE])"
proof -
  obtain r v where v: "remove_finger E (int i) w = Some (r, v)" "going (\<lambda>_. False) (fs(i := zero_finger)) v"
      "notices v = notices w @ (if r = 0 then [Msg_removed (int i)] else [])"
      "executed E (trace v) = executed E (trace w) @ [(delete_cmd (active_gid (vdev w)) (int i), r)]"
    using remove_finger_going [OF assms(1,3), of E] by (auto elim!: returns_obtain)
  have "(word_of_nat i :: u32) \<noteq> 0"
    using sint_slot [OF assms(3)] assms(2) by auto
  then have run: "fingerprint_remove E False (word_of_nat i) w = Option.bind
      (if r \<noteq> 0 then send_error_notice E FINGERPRINT_ERROR_UNABLE_TO_REMOVE v else Some v) (\<lambda>w. Some (r, w))"
    using v(1) sint_slot [OF assms(3)] by (simp add: fingerprint_remove_def)
  show ?thesis
  proof (cases "r = 0")
    case False
    obtain u where u: "send_error_notice E FINGERPRINT_ERROR_UNABLE_TO_REMOVE v = Some u" "going (\<lambda>_. False) (fs(i := zero_finger)) u"
      using notice_going(1) [OF v(2), of E FINGERPRINT_ERROR_UNABLE_TO_REMOVE] by (auto elim!: returns_obtain)
    with run False notice_trace [OF u(1)] v(3,4) show ?thesis by simp
  qed (use run v in simp)
qed

text \<open>C10: removing one finger.  Called with no lock held, \<open>fingerprint_remove\<close> of a slot executes one
  statement, the delete of its row, and returns the database's answer to it; it sends exactly one
  message, the removal if the answer is 0 and the error otherwise; and it clears that slot in
  memory and no other, whether or not the database has deleted the row.\<close>

theorem remove_one:
  assumes "going (\<lambda>_. False) fs w" and "1 \<le> i" "i \<le> MAX_NUM_FINGERS"
  shows "\<exists>r u. fingerprint_remove E False (word_of_nat i) w = Some (r, u) \<and> finger (tz u) = fs(i := zero_finger) \<and>
    executed E (trace u) = executed E (trace w) @ [(delete_cmd (active_gid (vdev w)) (int i), r)] \<and>
    notices u = notices w @ [if r = 0 then Msg_removed (int i) else Msg_error FINGERPRINT_ERROR_UNABLE_TO_REMOVE]"
  using remove_one_going [OF assms, of E] by (auto elim!: returns_obtain simp: going_def)

lemma example_going: "going (\<lambda>_. False) one_finger (example_world s)"
  using example_in_state by (simp add: in_state_def)

text \<open>A database that refuses every statement.\<close>

definition read_only_env :: env where
  "read_only_env = good_env\<lparr>ret := (\<lambda>t. case t of Sql_exec _ # _ \<Rightarrow> 8 | _ \<Rightarrow> ret good_env t)\<rparr>"

lemma read_only_answers: "(s, r) \<in> set (executed read_only_env t) \<Longrightarrow> r = 8"
  by (induction t) (auto simp: read_only_env_def split: ext_call.splits)

theorem remove_one_witness:
  "\<exists>u. fingerprint_remove read_only_env False (word_of_nat 2) (example_world STATE_IDLE) = Some (8, u) \<and>
     \<not> exist (finger (tz u) 2) \<and>
     notices u = notices (example_world STATE_IDLE) @ [Msg_error FINGERPRINT_ERROR_UNABLE_TO_REMOVE]"
proof -
  obtain r u where u: "fingerprint_remove read_only_env False (word_of_nat 2) (example_world STATE_IDLE) = Some (r, u)"
      "finger (tz u) = one_finger(2 := zero_finger)"
      "executed read_only_env (trace u) = executed read_only_env (trace (example_world STATE_IDLE)) @
         [(delete_cmd (active_gid (vdev (example_world STATE_IDLE))) (int 2), r)]"
      "notices u = notices (example_world STATE_IDLE) @
         [if r = 0 then Msg_removed (int 2) else Msg_error FINGERPRINT_ERROR_UNABLE_TO_REMOVE]"
    using remove_one [OF example_going, of 2 read_only_env STATE_IDLE] by (auto simp: MAX_NUM_FINGERS_def)
  have "r = 8" 
    by (rule read_only_answers [of "delete_cmd (active_gid (vdev (example_world STATE_IDLE))) (int 2)" _ "trace u"]) (simp add: u(3))
  with u show ?thesis by (simp add: zero_finger_def)
qed

text \<open>The messages of a removal of all fingers, given the answers to the deletes.\<close>

definition removals :: "nat list \<Rightarrow> int list \<Rightarrow> fingerprint_msg list" where
  "removals is rs = concat (map2 (\<lambda>i r. if r = 0 then [Msg_removed (int i)] else []) is rs)"

definition deletes :: "u32 \<Rightarrow> nat list \<Rightarrow> int list \<Rightarrow> (string \<times> int) list" where
  "deletes gid is rs = zip (map (\<lambda>i. delete_cmd gid (int i)) is) rs"

lemma removals_simps [simp]:
  "removals [] rs = []" "deletes gid [] rs = []"
  "removals (i # is) (r # rs) = (if r = 0 then [Msg_removed (int i)] else []) @ removals is rs"
  "deletes gid (i # is) (r # rs) = (delete_cmd gid (int i), r) # deletes gid is rs"
  by (simp_all add: removals_def deletes_def)

lemma remove_all_going:
  assumes "going (\<lambda>_. False) fs w" "set is \<subseteq> {..MAX_NUM_FINGERS}" "distinct is"
  shows "returns (remove_all E is r0 w) (\<lambda>(r, u). \<exists>rs. length rs = length (filter (\<lambda>i. exist (fs i)) is) \<and>
    going (\<lambda>_. False) (\<lambda>i. if i \<in> set is \<and> exist (fs i) then zero_finger else fs i) u \<and>
    notices u = notices w @ removals (filter (\<lambda>i. exist (fs i)) is) rs \<and> r = last (r0 # rs) \<and>
    executed E (trace u) = executed E (trace w) @ deletes (active_gid (vdev w)) (filter (\<lambda>i. exist (fs i)) is) rs)"
  using assms
proof (induction "is" arbitrary: fs w r0)
  case Nil
  then show ?case by simp
next
  case (Cons i "is")
  have f: "finger (tz w) = fs" using Cons.prems(1) by (simp add: going_def)
  show ?case
  proof (cases "exist (fs i)")
    case False
    have "(\<lambda>j. if j \<in> set (i # is) \<and> exist (fs j) then zero_finger else fs j) =
        (\<lambda>j. if j \<in> set is \<and> exist (fs j) then zero_finger else fs j)"
      using False by (auto simp: fun_eq_iff)
    with Cons.IH [OF Cons.prems(1), of r0] Cons.prems(2,3) False f show ?thesis by simp
  next
    case True
    have le: "i \<le> MAX_NUM_FINGERS" using Cons.prems(2) by simp
    obtain r v where v: "remove_finger E (int i) w = Some (r, v)" "going (\<lambda>_. False) (fs(i := zero_finger)) v"
      "notices v = notices w @ (if r = 0 then [Msg_removed (int i)] else [])" "vdev v = vdev w"
      "executed E (trace v) = executed E (trace w) @ [(delete_cmd (active_gid (vdev w)) (int i), r)]"
      using remove_finger_going [OF Cons.prems(1) le, of E] by (auto elim!: returns_obtain)
    have fl: "filter (\<lambda>j. exist ((fs(i := zero_finger)) j)) is = filter (\<lambda>j. exist (fs j)) is"
      using Cons.prems(3) by (intro filter_cong) auto
    have fs': "(\<lambda>j. if j \<in> set is \<and> exist ((fs(i := zero_finger)) j) then zero_finger else (fs(i := zero_finger)) j) =
      (\<lambda>j. if j \<in> set (i # is) \<and> exist (fs j) then zero_finger else fs j)"
      using Cons.prems(3) True by (auto simp: fun_eq_iff zero_finger_def)
    from Cons.IH [OF v(2), of r] Cons.prems(2,3)
    obtain r' u rs where u: "remove_all E is r v = Some (r', u)" "length rs = length (filter (\<lambda>j. exist (fs j)) is)"
      "going (\<lambda>_. False) (\<lambda>j. if j \<in> set (i # is) \<and> exist (fs j) then zero_finger else fs j) u"
      "notices u = notices v @ removals (filter (\<lambda>j. exist (fs j)) is) rs" "r' = last (r # rs)"
      "executed E (trace u) = executed E (trace v) @ deletes (active_gid (vdev v)) (filter (\<lambda>j. exist (fs j)) is) rs"
      unfolding fl fs' by (auto elim!: returns_obtain)
    have "remove_all E (i # is) r0 w = Some (r', u)" using True f v(1) u(1) by simp
    then show ?thesis
      unfolding returns_def using u(2-6) v(3-5) True by (auto intro!: exI [of _ "r # rs"])
  qed
qed

text \<open>C23: removing every finger.  \<open>fingerprint_remove\<close> with the id 0 executes one delete for each
  enrolled slot, in slot order, and nothing else on the database; it sends one removal message for
  each delete answered 0 and clears all enrolled slots.  But its result is the answer to the last
  delete (0 if there was none), so it and the error message tell nothing of the others.\<close>

theorem remove_every_finger:
  assumes "going (\<lambda>_. False) fs w"
  shows "\<exists>r u rs. fingerprint_remove E False 0 w = Some (r, u) \<and> enrolled (finger (tz u)) = [] \<and>
    length rs = length (enrolled fs) \<and> r = last (0 # rs) \<and>
    executed E (trace u) = executed E (trace w) @ deletes (active_gid (vdev w)) (enrolled fs) rs \<and>
    notices u = notices w @ removals (enrolled fs) rs @
      (if r = 0 then [] else [Msg_error FINGERPRINT_ERROR_UNABLE_TO_REMOVE])"
proof -
  have is': "set slot_indices \<subseteq> {..MAX_NUM_FINGERS}" "distinct slot_indices"
    by (auto simp: slot_indices_def)
  obtain r v rs where v: "remove_all E slot_indices 0 w = Some (r, v)" "length rs = length (enrolled fs)"
      "going (\<lambda>_. False) (\<lambda>i. if i \<in> set slot_indices \<and> exist (fs i) then zero_finger else fs i) v"
      "notices v = notices w @ removals (enrolled fs) rs" "r = last (0 # rs)"
      "executed E (trace v) = executed E (trace w) @ deletes (active_gid (vdev w)) (enrolled fs) rs"
    using remove_all_going [OF assms is', of E 0] unfolding enrolled_def [symmetric] by (auto elim!: returns_obtain)
  have none: "enrolled (finger (tz u)) = []"
    if "going (\<lambda>_. False) (\<lambda>i. if i \<in> set slot_indices \<and> exist (fs i) then zero_finger else fs i) u" for u
    using that by (auto simp: going_def enrolled_def zero_finger_def filter_empty_conv)
  have run: "fingerprint_remove E False 0 w = Option.bind
      (if r \<noteq> 0 then send_error_notice E FINGERPRINT_ERROR_UNABLE_TO_REMOVE v else Some v) (\<lambda>w. Some (r, w))"
    using v(1) by (simp add: fingerprint_remove_def)
  show ?thesis
  proof (cases "r = 0")
    case True
    with run have "fingerprint_remove E False 0 w = Some (r, v)" by simp
    with v(2,4,6) none [OF v(3)] True show ?thesis
      by (intro exI [of _ r] exI [of _ v] exI [of _ rs] conjI v(5)) simp_all
  next
    case False
    obtain u where u: "send_error_notice E FINGERPRINT_ERROR_UNABLE_TO_REMOVE v = Some u"
      "going (\<lambda>_. False) (\<lambda>i. if i \<in> set slot_indices \<and> exist (fs i) then zero_finger else fs i) u"
      using notice_going(1) [OF v(3)] by (auto elim!: returns_obtain)
    have "executed E (trace u) = executed E (trace v)" "notices u = notices v @ [Msg_error FINGERPRINT_ERROR_UNABLE_TO_REMOVE]"
      using notice_trace [OF u(1)] by simp_all
    moreover have "fingerprint_remove E False 0 w = Some (r, u)" using run u(1) False by simp
    ultimately show ?thesis
      using none [OF u(2)] v(2,4,6) False
      by (intro exI [of _ r] exI [of _ u] exI [of _ rs] conjI v(5)) simp_all
  qed
qed

theorem remove_every_finger_witness:
  "\<exists>r u. fingerprint_remove read_only_env False 0 (example_world STATE_IDLE) = Some (r, u) \<and>
     enrolled (finger (tz u)) = [] \<and> executed read_only_env (trace u) = [(delete_cmd 0 2, 8)] \<and> r = 8"
proof -
  have "enrolled one_finger = [2]" "trace (example_world STATE_IDLE) = []" "active_gid (vdev (example_world STATE_IDLE)) = 0"
    by (simp_all add: enrolled_def slot_indices_eq one_finger_def zero_finger_def example_world_def zero_device_def)
  then obtain r u rs where u: "fingerprint_remove read_only_env False 0 (example_world STATE_IDLE) = Some (r, u)"
      "enrolled (finger (tz u)) = []" "length rs = 1" "r = last (0 # rs)" "executed read_only_env (trace u) = deletes 0 [2] rs"
    using remove_every_finger [OF example_going, of read_only_env STATE_IDLE] by auto
  then obtain x where x: "rs = [x]" by (auto simp: length_Suc_conv)
  have "x = 8" by (rule read_only_answers [of "delete_cmd 0 2" _ "trace u"]) (simp add: u(5) x)
  with u x show ?thesis by simp
qed

subsection \<open>Enrolling\<close>

text \<open>The tokens \<open>fingerprint_enroll\<close> lets through: the current version, and the device's challenge or
  the fingerprint bit in the authenticator type.\<close>

definition acceptable :: "env \<Rightarrow> hw_auth_token \<Rightarrow> world \<Rightarrow> bool" where
  "acceptable E hat w \<longleftrightarrow> hat_version hat = hw_auth_token_version E \<and>
     (hat_challenge hat = challenge (vdev w) \<or> (hat_authenticator_type hat AND hw_auth_fingerprint E) \<noteq> 0)"

lemma accept_user_fields [simp]:
  "challenge (vdev (enroll_accept_user hat w)) = challenge (vdev w)" "tz (enroll_accept_user hat w) = tz w"
  "trace (enroll_accept_user hat w) = trace w" "held (enroll_accept_user hat w) = held w"
  by (simp_all add: enroll_accept_user_def upd_dev_def)

text \<open>C21: refused tokens.  Without a token, or with one that is not acceptable, \<open>fingerprint_enroll\<close>
  returns an error at once: it takes no lock, calls nothing and starts no thread.  The one
  trace it leaves is the secure user id, which a token with the right challenge has already set
  before its version is checked.\<close>

theorem enroll_refused:
  assumes "\<not> acceptable E hat w"
  shows "fingerprint_enroll E None t w = Some (- EPROTONOSUPPORT, w) \<and>
    fingerprint_enroll E (Some hat) t w =
      Some (if hat_version hat = hw_auth_token_version E then - EPERM else - EPROTONOSUPPORT, enroll_accept_user hat w) \<and>
    trace (enroll_accept_user hat w) = trace w \<and>
    secure_user_id (vdev (enroll_accept_user hat w)) =
      (if hat_challenge hat = challenge (vdev w) then hat_user_id hat else secure_user_id (vdev w))"
  using assms by (auto simp: fingerprint_enroll_def acceptable_def Let_def enroll_accept_user_def upd_dev_def)

definition foreign_token :: hw_auth_token where
  "foreign_token = \<lparr>hat_version = 0, hat_challenge = 99, hat_user_id = 5, hat_authenticator_id = 0,
     hat_authenticator_type = 1, hat_timestamp = 0\<rparr>"

theorem enroll_refused_witness:
  "fingerprint_enroll good_env (Some foreign_token) 30 (example_world STATE_IDLE) =
     Some (- EPERM, enroll_accept_user foreign_token (example_world STATE_IDLE))"
proof -
  have "\<not> acceptable good_env foreign_token (example_world STATE_IDLE)"
    by (simp add: acceptable_def foreign_token_def good_env_def example_world_def zero_device_def)
  then show ?thesis using enroll_refused [of good_env foreign_token "example_world STATE_IDLE" 30]
    by (simp add: foreign_token_def good_env_def)
qed

lemma find_free_full: "(\<And>i. 1 \<le> i \<Longrightarrow> i \<le> MAX_NUM_FINGERS \<Longrightarrow> exist (fs i)) \<Longrightarrow>
    find_free fs slot_indices = MAX_NUM_FINGERS + 1"
  by (simp add: slot_indices_eq MAX_NUM_FINGERS_def)

text \<open>C29: a full device deadlocks.  When all five slots are taken, an acceptable enrolment never returns:
  \<open>fingerprint_enroll\<close> holds the device lock when it calls \<open>send_error_notice\<close>, which takes the
  same lock again.\<close>

theorem enroll_full_deadlocks:
  assumes "acceptable E hat w" and "\<And>i. 1 \<le> i \<Longrightarrow> i \<le> MAX_NUM_FINGERS \<Longrightarrow> exist (finger (tz w) i)"
  shows "fingerprint_enroll E (Some hat) t w = None"
proof (rule ccontr)
  assume run: "fingerprint_enroll E (Some hat) t w \<noteq> None"
  let ?w = "upd_dev (\<lambda>d. d\<lparr>user_id := hat_user_id hat\<rparr>) (enroll_accept_user hat w)"
  obtain v where v: "lock E Dev_lock ?w = Some v"
    using run assms(1) by (auto simp: fingerprint_enroll_def acceptable_def Let_def bind_eq_Some_conv split: if_splits)
  have "finger (tz v) = finger (tz w)"
    using lock_says [OF v] steps_only_fields(5) [OF steps_only_interfere, of E "log_call (Mutex_lock Dev_lock) ?w"]
    by (simp add: log_call_def upd_dev_def)
  then have full: "find_free (finger (tz v)) slot_indices > MAX_NUM_FINGERS"
    using find_free_full [OF assms(2)] by simp
  have "held v Dev_lock" using v by (auto simp: lock_def Let_def split: if_splits)
  then have "send_error_notice E FINGERPRINT_ERROR_NO_SPACE v = None"
    by (simp add: send_error_notice_def lock_def)
  with run v full assms(1) show False by (auto simp: fingerprint_enroll_def acceptable_def Let_def)
qed

definition some_slot :: finger_t where
  "some_slot = \<lparr>exist = True, fdata = (\<lambda>_. 1), payload = (\<lambda>_. 2)\<rparr>"

definition full_world :: world where
  "full_world = (example_world STATE_IDLE)\<lparr>tz := (tz (example_world STATE_IDLE))\<lparr>finger := (\<lambda>_. some_slot)\<rparr>\<rparr>"

theorem enroll_full_deadlocks_witness:
  "fingerprint_enroll good_env (Some (foreign_token\<lparr>hat_challenge := 0\<rparr>)) 30 full_world = None"
  by (rule enroll_full_deadlocks)
     (simp_all add: acceptable_def foreign_token_def good_env_def full_world_def example_world_def zero_device_def some_slot_def)

lemma send_enroll_in_state:
  assumes "willing E" "in_state l fs s g w"
  shows "returns (send_enroll_begin E k w) (\<lambda>(x, u). x = 0 \<and> in_state l fs s g u \<and> result_of 102464 u = 0)"
    "returns (send_enroll_finish E w) (\<lambda>(x, u). x = 0 \<and> in_state l fs s g u \<and> result_of 102464 u = 0)"
    "returns (send_payload_bind E b w) (\<lambda>(x, u). x = 0 \<and> in_state l fs s g u \<and> result_of 102464 u = 0)"
    "returns (send_password_set E b w) (\<lambda>(x, u). x = 0 \<and> in_state l fs s g u)"
  unfolding send_enroll_begin_def send_enroll_finish_def send_payload_bind_def send_password_set_def Let_def
  by (rule returns_mono [OF send_in_state]; use assms in \<open>auto simp: off_defs\<close>)+

lemma db_insert_in_state:
  assumes "in_state l fs s g w" "k \<le> MAX_NUM_FINGERS"
  shows "returns (db_write_to_db E False (int k) w) (\<lambda>(_, u). in_state l fs s g u)"
  using assms by (simp add: db_write_to_db_def finger_index_def call_ret_def Let_def)

lemma set_finger_in_state: "in_state l fs s g w \<Longrightarrow> in_state l (fs(k := f)) s g (set_finger k f w)"
  by (auto simp: in_state_def going_def set_finger_def upd_tz_def)

lemma enroll_finish_in_state:
  assumes E: "willing E" and w: "in_state l fs s g w" and k: "k \<le> MAX_NUM_FINGERS"
  shows "returns (enroll_finish E k w) (\<lambda>u. exist (finger (tz u) k) \<and> (\<exists>fs. in_state l fs s g u))"
proof -
  have kk: "finger_index (int k) = Some k" using k by (simp add: finger_index_def)
  have stored: "exist (finger (tz u) k)" if "in_state l (fs(k := f)) s g u" "exist f" for u fs f
    using that by (simp add: in_state_def going_def)
  show ?thesis
    unfolding enroll_finish_def Let_def kk
    apply (rule returns_bind_pair [OF send_enroll_in_state(2) [OF E w]], elim conjE)
    apply (simp only: Option.bind.bind_lunit)
    apply (rule returns_bind_pair [OF send_enroll_in_state(3) [OF E]], erule set_finger_in_state, elim conjE)
    apply (rule returns_bind_pair [OF send_enroll_in_state(3) [OF E]], assumption, elim conjE)
    apply (rule returns_bind_pair [OF db_insert_in_state [OF _ k]], erule set_finger_in_state)
    apply (rule returns_bind_pair [OF send_enroll_in_state(4) [OF E]], assumption, elim conjE)
    apply (rule returns_bind_pair [OF send_enroll_in_state(4) [OF E]], assumption, elim conjE)
    apply (simp, intro conjI exI, erule stored, simp, assumption)
    done
qed

lemma settled_uninit_idle:
  assumes "settled w" "qhandle (tz w)"
  shows "returns (vcs_uninit E w) (\<lambda>(_, u). settled u \<and> tz_state (tz u) = STATE_IDLE)"
proof -
  obtain r u where u: "vcs_uninit E w = Some (r, u)" "settled u"
    using settled_uninit [OF assms, of E] by (auto elim!: returns_obtain)
  then have "tz_state (tz u) = STATE_IDLE"
    by (auto simp: vcs_uninit_def Let_def bind_eq_Some_conv dest!: set_tz_state_Some)
  with u show ?thesis by simp
qed

lemma enroll_out_settled:
  assumes "willing E" "in_state (\<lambda>_. False) fs s g w"
  shows "returns (enroll_out E w) (\<lambda>u. settled u \<and> tz_state (tz u) = STATE_IDLE)"
proof -
  have off: "settled (snd (sensor_uninit v)) \<and> qhandle (tz (snd (sensor_uninit v)))"
    if "in_state (\<lambda>_. False) fs STATE_IDLE g v" for v
    using in_state_settled [OF that] that
    by (auto simp: sensor_uninit_def ioctl_def Let_def in_state_def going_def log_call_def upd_sensor_def settled_def)
  show ?thesis
    unfolding enroll_out_def Let_def
    apply (rule returns_bind [OF set_in_state [OF assms]], simp)
    apply (drule off, elim conjE)
    apply (rule returns_bind_pair [OF settled_uninit_idle], assumption, assumption)
    apply simp
    done
qed

lemma enroll_cancelled_run:
  assumes "willing E" and "in_state (\<lambda>_. False) fs STATE_CANCEL g w"
    and "find_free fs slot_indices = k" "k \<le> MAX_NUM_FINGERS"
  shows "returns (vcs_enroll E w) (\<lambda>u. exist (finger (tz u) k) \<and> tz_state (tz u) = STATE_IDLE)"
proof -
  have k: "1 \<le> k" "k \<le> MAX_NUM_FINGERS"
    using find_free_slot [of fs] assms(3,4) by simp_all
  have fs: "finger (tz w) = fs" "ion_sbuffer w = Some ()"
    using assms(2) by (auto simp: in_state_def going_def intro: ion_sbuffer_going)
  obtain v1 where v1: "send_enroll_begin E k w = Some (0, v1)" "in_state (\<lambda>_. False) fs STATE_CANCEL g v1" "result_of 102464 v1 = 0"
    using send_enroll_in_state(1) [OF assms(1,2)] by (auto elim!: returns_obtain)
  obtain v2 where v2: "send_vendor_unknown E vendorUnknownA v1 = Some (0, v2)" "in_state (\<lambda>_. False) fs STATE_CANCEL g v2"
      "result_of 102464 v2 = 0"
    using sends_in_state(4) [OF assms(1) v1(2)] by (auto elim!: returns_obtain)
  obtain v3 where v3: "get_tz_state E v2 = Some (STATE_CANCEL, v3)" "in_state (\<lambda>_. False) fs STATE_CANCEL g v3"
    using get_in_state [OF assms(1) v2(2)] by (auto elim!: returns_obtain)
  obtain v4 fs4 where v4: "enroll_finish E k v3 = Some v4" "exist (finger (tz v4) k)" "in_state (\<lambda>_. False) fs4 STATE_CANCEL g v4"
    using enroll_finish_in_state [OF assms(1) v3(2) k(2)] by (auto elim!: returns_obtain)
  obtain u where u: "enroll_out E v4 = Some u" "tz_state (tz u) = STATE_IDLE"
    using enroll_out_settled [OF assms(1) v4(3)] by (auto elim!: returns_obtain)
  have "finger (tz u) k = finger (tz v4) k"
    using on_returnD [OF enroll_body_slot(1) [of 0 v4 v4 E] u(1)] k(1) slot.refl [of 0 v4] by (simp add: only_slot_def)
  moreover have "enroll_loop E k 8 v2 = Some (Enroll_finish, v3)"
    by (subst enroll_loop.simps) (simp add: v3(1))
  ultimately show ?thesis
    using v1(1,3) v2(1,3) v4(1,2) u fs by (auto simp: vcs_enroll_def assms(3) Let_def)
qed

end
