(* ===== verification/Fp_Store.thy ===== *)
theory Fp_Store
  imports Fp_Frame Fp_Example
begin

text \<open>
  The finger slots as a cache of the group's table.  SQLite's documented behaviour is the
  predicate \<open>sqlite\<close>: a select returns the rows that the successful inserts and deletes of the
  history leave, oldest first.  \<open>mirrors\<close> says that the slots show the newest row of every
  finger; the operations that write keep it, and reading the table back restores the slots.
\<close>

subsection \<open>A table of rows\<close>

definition newest :: "db_row list \<Rightarrow> int \<Rightarrow> db_row option" where
  "newest rs i = List.find (\<lambda>r. row_id r = i) (rev rs)"

definition without :: "int \<Rightarrow> db_row list \<Rightarrow> db_row list" where
  "without i rs = filter (\<lambda>r. row_id r \<noteq> i) rs"

lemma newest_Nil [simp]: "newest [] i = None"
  by (simp add: newest_def)

lemma newest_snoc [simp]: "newest (rs @ [r]) i = (if row_id r = i then Some r else newest rs i)"
  by (simp add: newest_def)

lemma newest_without [simp]: "newest (without k rs) i = (if i = k then None else newest rs i)"
  by (induction rs rule: rev_induct) (auto simp: without_def)

lemma newest_SomeD: "newest rs i = Some r \<Longrightarrow> r \<in> set rs \<and> row_id r = i"
  by (induction rs rule: rev_induct) (auto split: if_splits)

lemma newest_NoneD: "newest rs i = None \<Longrightarrow> r \<in> set rs \<Longrightarrow> row_id r \<noteq> i"
  by (induction rs rule: rev_induct) (auto split: if_splits)

text \<open>The interface a client of a group table relies on: what a successful insert and a successful
  delete do to the rows a select returns, and that other calls leave them alone.\<close>

locale group_table =
  fixes select :: "'h \<Rightarrow> db_row list"
    and inserted :: "int \<Rightarrow> blob \<Rightarrow> blob \<Rightarrow> 'h \<Rightarrow> 'h \<Rightarrow> bool"
    and deleted :: "int \<Rightarrow> 'h \<Rightarrow> 'h \<Rightarrow> bool"
    and unrelated :: "'h \<Rightarrow> 'h \<Rightarrow> bool"
  assumes select_inserted: "inserted i d p h h' \<Longrightarrow>
      select h' = select h @ [\<lparr>row_id = i, row_data = d, row_payload = p\<rparr>]"
    and select_deleted: "deleted i h h' \<Longrightarrow> select h' = without i (select h)"
    and select_unrelated: "unrelated h h' \<Longrightarrow> select h' = select h"
begin

lemma newest_inserted:
  "inserted i d p h h' \<Longrightarrow> newest (select h') k =
     (if k = i then Some \<lparr>row_id = i, row_data = d, row_payload = p\<rparr> else newest (select h) k)"
  by (auto dest: select_inserted)

lemma newest_deleted: "deleted i h h' \<Longrightarrow> newest (select h') k = (if k = i then None else newest (select h) k)"
  by (simp add: select_deleted)

text \<open>Storing and removing the same finger leaves every other finger's newest row.\<close>

lemma insert_delete_others:
  assumes "inserted i d p h h1" "unrelated h1 h2" "deleted i h2 h3" "k \<noteq> i"
  shows "newest (select h3) k = newest (select h) k"
  using newest_inserted [OF assms(1)] newest_deleted [OF assms(3)] select_unrelated [OF assms(2)] assms(4) by simp

end

subsection \<open>The history as a table\<close>

definition SQLITE_DONE :: int where "SQLITE_DONE = 101"

text \<open>The finger a statement is about, for the statements the code makes for slots.\<close>

definition statement_fid :: "(u32 \<Rightarrow> int \<Rightarrow> string) \<Rightarrow> u32 \<Rightarrow> string \<Rightarrow> nat option" where
  "statement_fid f gid cmd = List.find (\<lambda>i. cmd = f gid (int i)) [0 ..< MAX_NUM_FINGERS + 1]"

fun replay_call :: "u32 \<Rightarrow> ext_call \<Rightarrow> int \<Rightarrow> db_row list \<Rightarrow> db_row list" where
  "replay_call gid (Sql_insert cmd d p) r rs =
     (case statement_fid insert_cmd gid cmd of
        Some i \<Rightarrow> if r = SQLITE_DONE then rs @ [\<lparr>row_id = int i, row_data = d, row_payload = p\<rparr>] else rs
      | None \<Rightarrow> rs)"
| "replay_call gid (Sql_exec cmd) r rs =
     (case statement_fid delete_cmd gid cmd of
        Some i \<Rightarrow> if r = SQLITE_OK then without (int i) rs else rs
      | None \<Rightarrow> rs)"
| "replay_call gid _ r rs = rs"

fun replay :: "env \<Rightarrow> u32 \<Rightarrow> ext_call list \<Rightarrow> db_row list" where
  "replay E gid [] = []"
| "replay E gid (c # t) = replay_call gid c (ret E (c # t)) (replay E gid t)"

text \<open>SQLite's documented behaviour for the table of group \<open>gid\<close>.\<close>

definition sqlite :: "env \<Rightarrow> u32 \<Rightarrow> bool" where
  "sqlite E gid \<longleftrightarrow> (\<forall>t. rows E (Sql_select (select_cmd gid) # t) = replay E gid t)"

lemma show_digit: "n < 10 \<Longrightarrow> show_nat n = [char_of (48 + n)]"
  by (subst show_nat.simps) simp

lemma show_int_inj:
  assumes "i < 10" "j < 10" "show_int (int i) = show_int (int j)"
  shows "i = j"
proof -
  have "[char_of (48 + i)] = [char_of (48 + j) :: char]"
    using assms by (simp add: show_int_def show_digit)
  then have "of_char (char_of (48 + i) :: char) = (of_char (char_of (48 + j) :: char) :: nat)" by simp
  with assms(1,2) show ?thesis by (simp add: of_char_of)
qed

lemma insert_cmd_inj: "i < 10 \<Longrightarrow> j < 10 \<Longrightarrow> insert_cmd gid (int i) = insert_cmd gid (int j) \<Longrightarrow> i = j"
  by (rule show_int_inj) (simp_all add: insert_cmd_def)

lemma delete_cmd_inj: "i < 10 \<Longrightarrow> j < 10 \<Longrightarrow> delete_cmd gid (int i) = delete_cmd gid (int j) \<Longrightarrow> i = j"
  by (rule show_int_inj) (simp_all add: delete_cmd_def)

lemma find_unique:
  assumes "i < n" "\<And>j. j < n \<Longrightarrow> P j \<longleftrightarrow> j = i"
  shows "List.find P [0 ..< n] = Some i"
  using assms by (auto simp: find_Some_iff intro!: exI [of _ i])

lemma statement_fid_own:
  assumes "i \<le> MAX_NUM_FINGERS"
  shows "statement_fid insert_cmd gid (insert_cmd gid (int i)) = Some i"
    and "statement_fid delete_cmd gid (delete_cmd gid (int i)) = Some i"
proof -
  have i: "i < 10" "i < MAX_NUM_FINGERS + 1" using assms by (simp_all add: MAX_NUM_FINGERS_def)
  have j: "j < 10" if "j < MAX_NUM_FINGERS + 1" for j using that by (simp add: MAX_NUM_FINGERS_def)
  show "statement_fid insert_cmd gid (insert_cmd gid (int i)) = Some i"
    unfolding statement_fid_def by (rule find_unique [OF i(2)]) (metis insert_cmd_inj i(1) j)
  show "statement_fid delete_cmd gid (delete_cmd gid (int i)) = Some i"
    unfolding statement_fid_def by (rule find_unique [OF i(2)]) (metis delete_cmd_inj i(1) j)
qed

lemma create_not_delete: "statement_fid delete_cmd gid (create_cmd gid') = None"
  by (auto simp: statement_fid_def find_None_iff create_cmd_def delete_cmd_def)

definition stored :: "env \<Rightarrow> u32 \<Rightarrow> int \<Rightarrow> blob \<Rightarrow> blob \<Rightarrow> ext_call list \<Rightarrow> ext_call list \<Rightarrow> bool" where
  "stored E gid i d p h h' \<longleftrightarrow> 0 \<le> i \<and> i \<le> int MAX_NUM_FINGERS \<and>
     h' = Sql_insert (insert_cmd gid i) d p # h \<and> ret E h' = SQLITE_DONE"

definition erased :: "env \<Rightarrow> u32 \<Rightarrow> int \<Rightarrow> ext_call list \<Rightarrow> ext_call list \<Rightarrow> bool" where
  "erased E gid i h h' \<longleftrightarrow> 0 \<le> i \<and> i \<le> int MAX_NUM_FINGERS \<and>
     h' = Sql_exec (delete_cmd gid i) # h \<and> ret E h' = SQLITE_OK"

definition reads_only :: "ext_call list \<Rightarrow> ext_call list \<Rightarrow> bool" where
  "reads_only h h' \<longleftrightarrow> (\<exists>c. h' = c # h \<and> \<not> touches_table c)"

interpretation table: group_table "replay E gid" "stored E gid" "erased E gid" reads_only
  for E gid
proof
  fix i d p h h' assume "stored E gid i d p h h'"
  then show "replay E gid h' = replay E gid h @ [\<lparr>row_id = i, row_data = d, row_payload = p\<rparr>]"
    using statement_fid_own(1) [of "nat i" gid] by (auto simp: stored_def)
next
  fix i h h' assume "erased E gid i h h'"
  then show "replay E gid h' = without i (replay E gid h)"
    using statement_fid_own(2) [of "nat i" gid] by (auto simp: erased_def)
next
  fix h h' assume "reads_only h h'"
  then obtain c where c: "h' = c # h" "\<not> touches_table c" by (auto simp: reads_only_def)
  then show "replay E gid h' = replay E gid h" by (cases c) auto
qed

subsection \<open>The slots show the table\<close>

fun shows_row :: "finger_t \<Rightarrow> db_row option \<Rightarrow> bool" where
  "shows_row f None = (\<not> exist f)"
| "shows_row f (Some r) = (exist f \<and> (\<forall>k < FINGER_DATA_MAX_LENGTH. fdata f k = snd (row_data r) k) \<and>
     (\<forall>k < PAYLOAD_MAX_LENGTH. payload f k = snd (row_payload r) k))"

text \<open>A row the code can load: an existing slot, and blobs at least as long as what is copied.\<close>

definition loadable :: "db_row \<Rightarrow> bool" where
  "loadable r \<longleftrightarrow> 1 \<le> row_id r \<and> row_id r \<le> int MAX_NUM_FINGERS \<and>
     FINGER_DATA_MAX_LENGTH \<le> fst (row_data r) \<and> PAYLOAD_MAX_LENGTH \<le> fst (row_payload r)"

definition mirrors :: "env \<Rightarrow> u32 \<Rightarrow> world \<Rightarrow> bool" where
  "mirrors E gid w \<longleftrightarrow>
     (\<forall>i. 1 \<le> i \<and> i \<le> MAX_NUM_FINGERS \<longrightarrow> shows_row (finger (tz w) i) (newest (replay E gid (trace w)) (int i))) \<and>
     (\<forall>r \<in> set (replay E gid (trace w)). loadable r)"

lemma load_row_loadable:
  assumes "loadable r"
  shows "\<exists>f. load_row r w = Some (set_finger (nat (row_id r)) f w) \<and> shows_row f (Some r)"
  using assms by (auto simp: load_row_def loadable_def finger_index_def Let_def memcpy_def)

lemma load_rows_append: "load_rows (xs @ ys) w = Option.bind (load_rows xs w) (load_rows ys)"
proof (induction xs arbitrary: w)
  case (Cons a xs)
  then show ?case by (cases "load_row a w") simp_all
qed simp

lemma load_rows_loadable:
  assumes "\<forall>r \<in> set rs. loadable r"
  shows "\<exists>u. load_rows rs w = Some u \<and> trace u = trace w \<and> vdev u = vdev w \<and>
    (\<forall>i. case newest rs (int i) of None \<Rightarrow> finger (tz u) i = finger (tz w) i
                                 | Some r \<Rightarrow> shows_row (finger (tz u) i) (Some r))"
  using assms
proof (induction rs rule: rev_induct)
  case (snoc r rs)
  then obtain v where v: "load_rows rs w = Some v" "trace v = trace w" "vdev v = vdev w"
    "\<forall>i. case newest rs (int i) of None \<Rightarrow> finger (tz v) i = finger (tz w) i
        | Some r \<Rightarrow> shows_row (finger (tz v) i) (Some r)" by auto
  obtain f where f: "load_row r v = Some (set_finger (nat (row_id r)) f v)" "shows_row f (Some r)"
    using load_row_loadable [of r v] snoc.prems by auto
  let ?u = "set_finger (nat (row_id r)) f v"
  have u: "load_rows (rs @ [r]) w = Some ?u"
    using v(1) f(1) by (simp add: load_rows_append)
  have "case newest (rs @ [r]) (int i) of None \<Rightarrow> finger (tz ?u) i = finger (tz w) i
      | Some r \<Rightarrow> shows_row (finger (tz ?u) i) (Some r)" for i
  proof (cases "row_id r = int i")
    case True
    then show ?thesis using f(2) by (simp add: set_finger_def upd_tz_def)
  next
    case False
    with snoc.prems have "i \<noteq> nat (row_id r)" by (auto simp: loadable_def)
    then have "finger (tz ?u) i = finger (tz v) i" by (simp add: set_finger_def upd_tz_def)
    with False v(4) [rule_format, of i] show ?thesis by (simp split: option.splits)
  qed
  moreover have "trace ?u = trace w" "vdev ?u = vdev w" using v by (simp_all add: set_finger_def upd_tz_def)
  ultimately show ?case using u by blast
qed simp

lemma loadable_row:
  "1 \<le> i \<Longrightarrow> i \<le> MAX_NUM_FINGERS \<Longrightarrow>
   loadable \<lparr>row_id = int i, row_data = (FINGER_DATA_MAX_LENGTH, d), row_payload = (PAYLOAD_MAX_LENGTH, p)\<rparr>"
  by (simp add: loadable_def)

lemma finger_index_nat: "i \<le> MAX_NUM_FINGERS \<Longrightarrow> finger_index (int i) = Some i"
  by (simp add: finger_index_def)

lemma not_exist_zero: "\<not> exist zero_finger"
  by (simp add: zero_finger_def)

lemma store_mirrored:
  assumes m: "mirrors E (active_gid (vdev w)) w" and i: "1 \<le> i" "i \<le> MAX_NUM_FINGERS" and f: "exist f"
    and r: "ret E (Sql_insert (insert_cmd (active_gid (vdev w)) (int i)) (FINGER_DATA_MAX_LENGTH, fdata f)
              (PAYLOAD_MAX_LENGTH, payload f) # trace w) = SQLITE_DONE"
  shows "\<exists>u. db_write_to_db E False (int i) (set_finger i f w) = Some (SQLITE_DONE, u) \<and>
    finger (tz u) = (finger (tz w))(i := f) \<and> mirrors E (active_gid (vdev w)) u"
proof -
  let ?g = "active_gid (vdev w)"
  let ?c = "Sql_insert (insert_cmd ?g (int i)) (FINGER_DATA_MAX_LENGTH, fdata f) (PAYLOAD_MAX_LENGTH, payload f)"
  let ?u = "log_call ?c (set_finger i f w)"
  have call: "db_write_to_db E False (int i) (set_finger i f w) = Some (SQLITE_DONE, ?u)"
    using r by (simp add: db_write_to_db_def finger_index_nat i call_ret_def Let_def set_finger_def upd_tz_def log_call_def)
  have s: "stored E ?g (int i) (FINGER_DATA_MAX_LENGTH, fdata f) (PAYLOAD_MAX_LENGTH, payload f) (trace w) (trace ?u)"
    using i r by (simp add: stored_def)
  have fs: "finger (tz ?u) = (finger (tz w))(i := f)" by (simp add: set_finger_def upd_tz_def log_call_def)
  have "shows_row (finger (tz ?u) k) (newest (replay E ?g (trace ?u)) (int k))" if "1 \<le> k" "k \<le> MAX_NUM_FINGERS" for k
    unfolding fs table.newest_inserted [OF s] using m that f by (auto simp: mirrors_def)
  moreover have "loadable x" if "x \<in> set (replay E ?g (trace ?u))" for x
    using that m loadable_row [OF i] unfolding table.select_inserted [OF s] mirrors_def by auto
  ultimately show ?thesis using call fs unfolding mirrors_def by blast
qed

lemma erase_mirrored:
  assumes m: "mirrors E (active_gid (vdev w)) w" and i: "1 \<le> i" "i \<le> MAX_NUM_FINGERS"
    and r: "ret E (Sql_exec (delete_cmd (active_gid (vdev w)) (int i)) # trace w) = SQLITE_OK"
  shows "\<exists>u. db_write_to_db E True (int i) w = Some (SQLITE_OK, u) \<and>
    finger (tz u) = (finger (tz w))(i := zero_finger) \<and> mirrors E (active_gid (vdev w)) u"
proof -
  let ?g = "active_gid (vdev w)"
  let ?u = "set_finger i zero_finger (log_call (Sql_exec (delete_cmd ?g (int i))) w)"
  have call: "db_write_to_db E True (int i) w = Some (SQLITE_OK, ?u)"
    using r by (simp add: db_write_to_db_def finger_index_nat i call_ret_def Let_def)
  have s: "erased E ?g (int i) (trace w) (trace ?u)" using i r by (simp add: erased_def)
  have fs: "finger (tz ?u) = (finger (tz w))(i := zero_finger)" by (simp add: set_finger_def upd_tz_def log_call_def)
  have "shows_row (finger (tz ?u) k) (newest (replay E ?g (trace ?u)) (int k))" if "1 \<le> k" "k \<le> MAX_NUM_FINGERS" for k
    unfolding fs table.newest_deleted [OF s] using m that by (auto simp: mirrors_def not_exist_zero)
  moreover have "loadable x" if "x \<in> set (replay E ?g (trace ?u))" for x
    using that m unfolding table.select_deleted [OF s] mirrors_def without_def by auto
  ultimately show ?thesis using call fs unfolding mirrors_def by blast
qed

subsection \<open>Reading the table back\<close>

definition read_start :: "u32 \<Rightarrow> ext_call list \<Rightarrow> ext_call list" where
  "read_start gid t = File_access SAMSUNG_FP_DB_PATH # Sql_exec (create_cmd gid) # t"

lemma replay_read_start: "replay E gid (read_start gid' t) = replay E gid t"
  by (simp add: read_start_def create_not_delete)

lemma reload_slots:
  assumes rows: "rows E (Sql_select (select_cmd (active_gid (vdev w))) # read_start (active_gid (vdev w)) (trace w)) = rs"
    and ok: "\<forall>r \<in> set rs. loadable r"
    and new: "ret E (read_start (active_gid (vdev w)) (trace w)) \<noteq> 0"
  shows "\<exists>u. db_read_to_tz E w = Some (0, u) \<and> vdev u = vdev w \<and>
    trace u = Sql_select (select_cmd (active_gid (vdev w))) # read_start (active_gid (vdev w)) (trace w) \<and>
    (\<forall>i. case newest rs (int i) of
       None \<Rightarrow> finger (tz u) i = (if i < MAX_NUM_FINGERS then zero_finger else finger (tz w) i)
     | Some r \<Rightarrow> shows_row (finger (tz u) i) (Some r))"
proof -
  let ?g = "active_gid (vdev w)"
  define v where "v = log_call (Sql_select (select_cmd ?g))
     (clear_fingers (log_call (File_access SAMSUNG_FP_DB_PATH) (log_call (Sql_exec (create_cmd ?g)) w)))"
  have v: "trace v = Sql_select (select_cmd ?g) # read_start ?g (trace w)" "vdev v = vdev w"
    "finger (tz v) i = (if i < MAX_NUM_FINGERS then zero_finger else finger (tz w) i)" for i
    by (simp_all add: v_def read_start_def clear_fingers_def log_call_def upd_tz_def)
  have "db_read_to_tz E w = Option.bind (load_rows (rows E (trace v)) v) (\<lambda>u. Some (0, u))"
    using new
    by (simp add: db_read_to_tz_def db_check_and_create_table_def call_ret_def Let_def v_def read_start_def
        clear_fingers_def log_call_def upd_tz_def)
  moreover obtain u where u: "load_rows rs v = Some u" "trace u = trace v" "vdev u = vdev v"
    "\<forall>i. case newest rs (int i) of None \<Rightarrow> finger (tz u) i = finger (tz v) i | Some r \<Rightarrow> shows_row (finger (tz u) i) (Some r)"
    using load_rows_loadable [OF ok] by blast
  ultimately have "db_read_to_tz E w = Some (0, u)" using v(1) rows by simp
  with u(2,3) v(1,2) u(4) [unfolded v(3)] show ?thesis by (intro exI [of _ u]) simp
qed

text \<open>Two slots the matching cannot tell apart.\<close>

definition same_slot :: "finger_t \<Rightarrow> finger_t \<Rightarrow> bool" where
  "same_slot f g \<longleftrightarrow> exist f = exist g \<and> (exist f \<longrightarrow>
     (\<forall>k < FINGER_DATA_MAX_LENGTH. fdata f k = fdata g k) \<and> (\<forall>k < PAYLOAD_MAX_LENGTH. payload f k = payload g k))"

lemma reload_mirrored:
  assumes "sqlite E (active_gid (vdev w))" and "mirrors E (active_gid (vdev w)) w"
    and "ret E (read_start (active_gid (vdev w)) (trace w)) \<noteq> 0"
  shows "\<exists>u. db_read_to_tz E w = Some (0, u) \<and> mirrors E (active_gid (vdev w)) u \<and> vdev u = vdev w \<and>
    (\<forall>i. 1 \<le> i \<and> i \<le> MAX_NUM_FINGERS \<longrightarrow> same_slot (finger (tz w) i) (finger (tz u) i))"
proof -
  let ?g = "active_gid (vdev w)" and ?rs = "replay E (active_gid (vdev w)) (trace w)"
  have rows: "rows E (Sql_select (select_cmd ?g) # read_start ?g (trace w)) = ?rs"
    using assms(1) by (simp add: sqlite_def replay_read_start)
  have ok: "\<forall>r \<in> set ?rs. loadable r" using assms(2) by (simp add: mirrors_def)
  obtain u where u: "db_read_to_tz E w = Some (0, u)"
    "trace u = Sql_select (select_cmd ?g) # read_start ?g (trace w)"
    "\<forall>i. case newest ?rs (int i) of
       None \<Rightarrow> finger (tz u) i = (if i < MAX_NUM_FINGERS then zero_finger else finger (tz w) i)
     | Some r \<Rightarrow> shows_row (finger (tz u) i) (Some r)" "vdev u = vdev w"
    using reload_slots [OF rows ok assms(3)] by blast
  have slot: "shows_row (finger (tz u) i) (newest ?rs (int i)) \<and> same_slot (finger (tz w) i) (finger (tz u) i)"
    if i: "1 \<le> i" "i \<le> MAX_NUM_FINGERS" for i
  proof -
    have w: "shows_row (finger (tz w) i) (newest ?rs (int i))" using assms(2) i by (simp add: mirrors_def)
    show ?thesis
    proof (cases "newest ?rs (int i)")
      case None
      with w u(3) [rule_format, of i] show ?thesis
        by (auto simp: same_slot_def not_exist_zero split: if_splits)
    next
      case (Some r)
      with w u(3) [rule_format, of i] show ?thesis by (auto simp: same_slot_def)
    qed
  qed
  have "replay E ?g (trace u) = ?rs" by (simp add: u(2) replay_read_start)
  with slot ok u(1,4) show ?thesis unfolding mirrors_def by auto
qed

text \<open>C16: what was enrolled is read back.  With SQLite behaving as documented and no database of the
  old format, reading a group's table into slots that show it gives back every slot: the same
  ones exist, with the same template and payload bytes, and they still show the table.\<close>

theorem reload_restores:
  assumes "sqlite E (active_gid (vdev w))" and "mirrors E (active_gid (vdev w)) w"
    and "ret E (read_start (active_gid (vdev w)) (trace w)) \<noteq> 0"
  shows "\<exists>u. db_read_to_tz E w = Some (0, u) \<and> mirrors E (active_gid (vdev w)) u \<and>
    (\<forall>i. 1 \<le> i \<and> i \<le> MAX_NUM_FINGERS \<longrightarrow> same_slot (finger (tz w) i) (finger (tz u) i))"
  using reload_mirrored [OF assms] by blast

definition db_result :: "ext_call list \<Rightarrow> int" where
  "db_result t = (case t of Sql_insert _ _ _ # _ \<Rightarrow> SQLITE_DONE | File_access _ # _ \<Rightarrow> -1
     | Sql_exec c # h \<Rightarrow> (if c = create_cmd 0 \<and> Sql_exec c \<in> set h then 1 else SQLITE_OK) | _ \<Rightarrow> 0)"

text \<open>An environment with a SQLite that behaves as documented, refusing to create a table again, and no
  database of the old format.\<close>

definition db_env :: env where
  "db_env = good_env\<lparr>ret := db_result, rows := (\<lambda>t. replay (good_env\<lparr>ret := db_result\<rparr>) 0 (tl t))\<rparr>"

definition empty_world :: world where
  "empty_world = (example_world STATE_IDLE)\<lparr>tz := zero_tz\<rparr>"

definition some_finger :: finger_t where
  "some_finger = \<lparr>exist = True, fdata = (\<lambda>k. word_of_nat k), payload = (\<lambda>_. 9)\<rparr>"

lemma replay_ret: "ret E = ret E' \<Longrightarrow> replay E gid t = replay E' gid t"
  by (induction t) simp_all

lemma db_env_sqlite: "sqlite db_env 0"
  by (auto simp: sqlite_def db_env_def intro: replay_ret)

lemma db_env_ret: "ret db_env = db_result"
  by (simp add: db_env_def)

lemma empty_world_mirrors: "mirrors db_env (active_gid (vdev empty_world)) empty_world" "active_gid (vdev empty_world) = 0"
  by (simp_all add: mirrors_def empty_world_def example_world_def zero_tz_def not_exist_zero zero_device_def)

lemma empty_world_stored:
  "\<exists>u. db_write_to_db db_env False 3 (set_finger 3 some_finger empty_world) = Some (SQLITE_DONE, u) \<and>
     finger (tz u) = (finger (tz empty_world))(3 := some_finger) \<and> mirrors db_env (active_gid (vdev empty_world)) u"
  using store_mirrored [OF empty_world_mirrors(1), of 3 some_finger]
  by (simp add: MAX_NUM_FINGERS_def some_finger_def db_env_ret db_result_def)

theorem reload_restores_witness:
  "\<exists>w u. exist (finger (tz w) 3) \<and> mirrors db_env 0 w \<and> db_read_to_tz db_env w = Some (0, u) \<and>
     same_slot (finger (tz w) 3) (finger (tz u) 3)"
proof -
  obtain r w where w: "db_write_to_db db_env False 3 (set_finger 3 some_finger empty_world) = Some (r, w)"
    "finger (tz w) = (finger (tz empty_world))(3 := some_finger)" "mirrors db_env 0 w"
    using empty_world_stored empty_world_mirrors(2) by auto
  have g: "active_gid (vdev w) = 0"
    using on_returnD [OF device.db_write_to_db_frame [OF device.refl] w(1)] empty_world_mirrors(2)
    by (simp add: same_device_def set_finger_def upd_tz_def)
  have "ret db_env (read_start (active_gid (vdev w)) (trace w)) \<noteq> 0"
    by (simp add: db_env_ret db_result_def read_start_def)
  moreover have "sqlite db_env (active_gid (vdev w))" "mirrors db_env (active_gid (vdev w)) w"
    using db_env_sqlite w(3) g by simp_all
  ultimately have "\<exists>u. db_read_to_tz db_env w = Some (0, u) \<and> mirrors db_env (active_gid (vdev w)) u \<and>
      (\<forall>i. 1 \<le> i \<and> i \<le> MAX_NUM_FINGERS \<longrightarrow> same_slot (finger (tz w) i) (finger (tz u) i))"
    by (intro reload_restores)
  moreover have "exist (finger (tz w) 3)" using w(2) by (simp add: some_finger_def)
  moreover have "(1 :: nat) \<le> 3 \<and> 3 \<le> MAX_NUM_FINGERS" by (simp add: MAX_NUM_FINGERS_def)
  ultimately show ?thesis using w(3) by blast
qed

subsection \<open>What reading leaves behind\<close>

lemma set_group_frame:
  assumes "\<not> held w Dev_lock"
  shows "\<exists>v. lock E Dev_lock w = Some v \<and> finger (tz v) = finger (tz w) \<and> vdev v = vdev w \<and> held v Dev_lock \<and>
    trace v = Mutex_lock Dev_lock # trace w"
proof -
  have s: "steps_only (log_call (Mutex_lock Dev_lock) w) (interfere E (log_call (Mutex_lock Dev_lock) w))"
    by (rule steps_only_interfere)
  show ?thesis
    using assms steps_only_fields [OF s] by (simp add: lock_def Let_def) (simp add: log_call_def)
qed

text \<open>C36: slot 5 survives a change of group.  \<open>memset\<close> clears \<open>MAX_NUM_FINGERS\<close> of the
  \<open>MAX_NUM_FINGERS + 1\<close> slots.  When the device is moved to a group whose table has no rows, the
  call reports success and the slots 0 to 4 are empty, but slot 5 still holds what it held for
  the old group, so a finger enrolled there stays enrolled for the new group.\<close>

theorem group_switch_keeps_last_slot:
  assumes "\<not> held w Dev_lock"
    and "\<And>t. rows E (Sql_select (select_cmd gid) # t) = []"
    and "\<And>p t. ret E (File_access p # t) \<noteq> 0"
  shows "\<exists>u. fingerprint_set_active_group E gid w = Some (0, u) \<and> active_gid (vdev u) = gid \<and>
    finger (tz u) 5 = finger (tz w) 5 \<and> (\<forall>i < 5. finger (tz u) i = zero_finger)"
proof -
  obtain v where v: "lock E Dev_lock w = Some v" "finger (tz v) = finger (tz w)" "held v Dev_lock"
    using set_group_frame [OF assms(1), of E] by blast
  let ?v = "upd_dev (\<lambda>d. d\<lparr>active_gid := gid\<rparr>) v"
  have g: "active_gid (vdev ?v) = gid" "finger (tz ?v) = finger (tz w)" "held ?v Dev_lock"
    using v by (simp_all add: upd_dev_def)
  obtain u where u: "db_read_to_tz E ?v = Some (0, u)" "vdev u = vdev ?v"
    "\<forall>i. finger (tz u) i = (if i < MAX_NUM_FINGERS then zero_finger else finger (tz ?v) i)"
    using reload_slots [where w = ?v and E = E and rs = "[]"] assms(2,3) by (auto simp: read_start_def g)
  have h: "held u Dev_lock"
    using on_returnD [OF locks.db_read_to_tz_frame [OF locks.refl] u(1)] g by (simp add: same_held_def)
  have "fingerprint_set_active_group E gid w = Some (0, u\<lparr>held := (held u)(Dev_lock := False)\<rparr>)"
    by (simp add: fingerprint_set_active_group_def v(1) u(1) unlock_def h)
  then show ?thesis
    using u g by (simp add: MAX_NUM_FINGERS_def)
qed

theorem group_switch_keeps_last_slot_witness:
  "\<exists>u. fingerprint_set_active_group (good_env\<lparr>ret := (\<lambda>_. -1)\<rparr>) 7
     ((example_world STATE_IDLE)\<lparr>tz := zero_tz\<lparr>finger := (\<lambda>_. zero_finger)(5 := some_finger)\<rparr>\<rparr>) = Some (0, u) \<and>
     active_gid (vdev u) = 7 \<and> exist (finger (tz u) 5)"
proof -
  let ?w = "(example_world STATE_IDLE)\<lparr>tz := zero_tz\<lparr>finger := (\<lambda>_. zero_finger)(5 := some_finger)\<rparr>\<rparr>"
  have "\<not> held ?w Dev_lock" "exist (finger (tz ?w) 5)"
    by (simp_all add: example_world_def some_finger_def)
  then show ?thesis
    using group_switch_keeps_last_slot [of ?w "good_env\<lparr>ret := (\<lambda>_. -1)\<rparr>" 7] by (auto simp: good_env_def)
qed

end
