(* ===== verification/Fp_Power.thy ===== *)
theory Fp_Power
  imports Fp_Frame
begin

text \<open>
  The sensor's power.  The driver (\<open>vfs61xx_ioctl.h\<close>) switches the sensor on and off and
  configures its bus; the code remembers in \<open>sensor.init\<close> what it has asked for.  The theory
  states the protocol as an acceptor of the requests in the trace, shows that every operation
  keeps to it, and what closing the device leaves behind.
\<close>

subsection \<open>The protocol\<close>

text \<open>One request, given whether the sensor has power; \<open>None\<close> is a violation: switching on a sensor that
  is on, or off one that is off, or configuring one without power.  The data-ready interrupt and
  the registration of the signal do not need power.\<close>

fun driver_step :: "ioctl_req \<Rightarrow> bool \<Rightarrow> bool option" where
  "driver_step VFSSPI_IOCTL_POWER_ON on = (if on then None else Some True)"
| "driver_step VFSSPI_IOCTL_POWER_OFF on = (if on then Some False else None)"
| "driver_step r on = (if on \<or> keeps_power r then Some on else None)"

fun powered :: "ext_call list \<Rightarrow> bool option" where
  "powered [] = Some False"
| "powered (Ioctl r # t) = Option.bind (powered t) (driver_step r)"
| "powered (_ # t) = powered t"

text \<open>The requests so far keep to the protocol, and \<open>sensor.init\<close> says whether the sensor has power.\<close>

definition power_ok :: "world \<Rightarrow> bool" where
  "power_ok w \<longleftrightarrow> powered (trace w) = Some (sn_init (sensor w))"

definition keeps_power_ok :: "world \<Rightarrow> world \<Rightarrow> bool" where
  "keeps_power_ok w u \<longleftrightarrow> (power_ok w \<longrightarrow> power_ok u)"

lemma power_plain: "plain_call c \<Longrightarrow> powered (c # t) = powered t"
proof (cases c)
  case (Ioctl r)
  moreover assume "plain_call c"
  ultimately show ?thesis by (cases r; cases "powered t") simp_all
qed simp_all

lemma power_ok_eq: "trace u = trace w \<Longrightarrow> sn_init (sensor u) = sn_init (sensor w) \<Longrightarrow> power_ok u = power_ok w"
  by (simp add: power_ok_def)

lemma power_ok_log: "powered (c # trace w) = powered (trace w) \<Longrightarrow> power_ok (log_call c w) = power_ok w"
  by (simp add: power_ok_def log_call_def)

lemma power_ok_on: "power_ok w \<Longrightarrow> power_ok (snd (sensor_init w))"
  by (simp add: power_ok_def sensor_init_eq)

lemma power_ok_off: "power_ok w \<Longrightarrow> power_ok (snd (sensor_uninit w)) \<and> \<not> sn_init (sensor (snd (sensor_uninit w)))"
  by (simp add: power_ok_def sensor_uninit_eq)

lemma power_event: "power_ok (apply_event w e) = power_ok w"
  by (rule power_ok_eq [OF trace_event steps_only_fields(8) [OF steps_only_event]])

interpretation driver: hal_frame keeps_power_ok "\<lambda>_. True"
proof (unfold_locales, goal_cases)
  case (3 c w)
  then show ?case by (simp add: keeps_power_ok_def power_ok_log power_plain)
qed (simp_all add: keeps_power_ok_def power_event power_ok_on power_ok_off power_ok_log upd_defs,
    auto simp: power_ok_def)

subsection \<open>Closing the device\<close>

lemma send_cmd_tz: "QSEECom_send_cmd E s r n w = Some (x, u) \<Longrightarrow> tz u = tz w"
  using init_qsee_same [of w E]
  by (auto simp: QSEECom_send_cmd_def call_ret_def Let_def bind_eq_Some_conv same_app_def upd_buf_def log_call_def)

lemma set_bandwidth_tz: "QSEECom_set_bandwidth E b w = Some (x, u) \<Longrightarrow> tz u = tz w"
  using init_qsee_same [of w E]
  by (auto simp: QSEECom_set_bandwidth_def call_ret_def Let_def bind_eq_Some_conv same_app_def log_call_def)

lemma shutdown_tz:
  "QSEECom_shutdown_app E w = Some (x, u) \<Longrightarrow> auth_session_opend (tz u) = auth_session_opend (tz w)"
  using init_qsee_same [of w E]
  by (auto simp: QSEECom_shutdown_app_def call_ret_def Let_def bind_eq_Some_conv same_app_def log_call_def upd_tz_def
      split: if_split_asm)

lemma written_tz [simp]: "tz (wr_zero n w) = tz w" "tz (wr32 k x w) = tz w" "tz (wr_copy k b n w) = tz w"
  by (simp_all add: wr_zero_def wr32_def wr_copy_def upd_buf_def)

lemma stop_session_closes: "vcs_stop_auth_session E w = Some (x, u) \<Longrightarrow> \<not> auth_session_opend (tz u)"
  by (auto simp: vcs_stop_auth_session_def bind_eq_Some_conv Let_def upd_tz_def)

lemma uninit_rests:
  assumes "vcs_uninit E w = Some (x, u)" "\<not> auth_session_opend (tz w)"
  shows "tz_state (tz u) = STATE_IDLE \<and> \<not> tz_init (tz u) \<and> \<not> auth_session_opend (tz u)"
  using assms
  by (auto simp: vcs_uninit_def bind_eq_Some_conv Let_def upd_tz_def
      dest!: send_cmd_tz set_bandwidth_tz shutdown_tz set_tz_state_Some dest: steps_only_fields(7,10))

text \<open>Closing leaves nothing switched on.  When \<open>fingerprint_close\<close> returns, it returns 0; the sensor
  has been switched off in the order the driver wants, the driver is closed, the worker is at
  rest, the application is marked as stopped and its session as closed, and the last calls are the
  release of the four mutexes, of the device object and of the file.\<close>

lemma close_shuts_down:
  assumes "power_ok w"
  shows "on_return (fingerprint_close E False w) (\<lambda>(r, u). r = 0 \<and> powered (trace u) = Some False \<and>
    sensor u = \<lparr>sn_fd = -1, sn_init = False, sn_signal = sn_signal (sensor u)\<rparr> \<and>
    tz_state (tz u) = STATE_IDLE \<and> \<not> tz_init (tz u) \<and> \<not> auth_session_opend (tz u) \<and>
    take 6 (trace u) = [File_close, Free_device, Mutex_destroy Timeout_lock, Mutex_destroy Tz_lock,
      Mutex_destroy Sensor_lock, Mutex_destroy Dev_lock])"
proof (rule on_returnI)
  fix x assume "fingerprint_close E False w = Some x"
  then obtain r1 w1 w2 r3 w3 r4 w4 r5 w5 w6 where w:
      "fingerprint_cancel E w = Some (r1, w1)" "lock E Dev_lock w1 = Some w2"
      "vcs_init E (snd (sensor_init (snd (db_uninit E w2)))) = Some (r3, w3)"
      "vcs_stop_auth_session E w3 = Some (r4, w4)" "vcs_uninit E w4 = Some (r5, w5)"
      "unlock Dev_lock (snd (sensor_uninit w5)) = Some w6"
    and x: "x = (0, upd_sensor (\<lambda>s. s\<lparr>sn_fd := -1\<rparr>) (log_call File_close (log_call Free_device
      (foldl (\<lambda>w m. log_call (Mutex_destroy m) w) w6 [Dev_lock, Sensor_lock, Tz_lock, Timeout_lock]))))"
    by (auto simp: fingerprint_close_def bind_eq_Some_conv Let_def)
  have "power_ok w1"
    using on_returnD [OF driver.cancel_frame(3) [OF driver.refl] w(1)] assms by (simp add: keeps_power_ok_def)
  moreover obtain v where "keeps_power_ok w1 v" "w2 = v\<lparr>held := (held v)(Dev_lock := True)\<rparr>"
    by (rule driver.lock_cases [OF w(2) driver.refl])
  ultimately have "power_ok (snd (db_uninit E w2))"
    by (simp add: keeps_power_ok_def power_ok_def db_uninit_def call_ret_def log_call_def)
  then have "power_ok w3"
    using on_returnD [OF driver.sessions(13) [OF driver.refl] w(3)] power_ok_on by (simp add: keeps_power_ok_def)
  then have "power_ok w5"
    using on_returnD [OF driver.sessions(5) [OF driver.refl] w(4)] on_returnD [OF driver.sessions(12) [OF driver.refl] w(5)]
    by (simp add: keeps_power_ok_def)
  then have "powered (trace w6) = Some False" "\<not> sn_init (sensor w6)"
    using power_ok_off [of w5] w(6) by (auto simp: unlock_def power_ok_def split: if_splits)
  moreover have "tz_state (tz w6) = STATE_IDLE \<and> \<not> tz_init (tz w6) \<and> \<not> auth_session_opend (tz w6)"
    using uninit_rests [OF w(5) stop_session_closes [OF w(4)]] w(6)
    by (auto simp: unlock_def sensor_power_fields split: if_splits)
  ultimately show "case x of (r, u) \<Rightarrow> r = 0 \<and> powered (trace u) = Some False \<and>
    sensor u = \<lparr>sn_fd = -1, sn_init = False, sn_signal = sn_signal (sensor u)\<rparr> \<and>
    tz_state (tz u) = STATE_IDLE \<and> \<not> tz_init (tz u) \<and> \<not> auth_session_opend (tz u) \<and>
    take 6 (trace u) = [File_close, Free_device, Mutex_destroy Timeout_lock, Mutex_destroy Tz_lock,
      Mutex_destroy Sensor_lock, Mutex_destroy Dev_lock]"
    by (simp add: x log_call_def upd_sensor_def)
qed

end
