(* ===== verification/Fp_System.thy ===== *)
theory Fp_System
  imports Fp_Entry Fp_Store Fp_Power
begin

text \<open>
  The device as a whole: a run is a sequence of calls of the HAL's entry points, of runs of
  its threads and of the sensor's signals, in any order, each by the component's own definition
  and each with the other threads' locked sections in between.  Rule induction over the runs
  gives the invariants of the device: nothing is left locked, the library and the application
  are used only when they are there, every command fits the shared buffer, and the finger slots
  show the database.

  A thread's body and a call of an entry point are whole steps here; what other threads do while
  they run is the environment's events, which cover the worker state, the sensor's signal and the
  timeout thread, but not a removal of fingers during an enrolment.
\<close>

subsection \<open>Runs\<close>

datatype action =
    Set_notify | Set_active_group u32 | Pre_enroll | Enroll "hw_auth_token option" u32 | Post_enroll
  | Get_auth_id | Authenticate u64 | Cancel | Enumerate | Remove u32
  | Thread_authenticate | Thread_enroll | Thread_timeout | Drdy_signal

fun perform :: "env \<Rightarrow> action \<Rightarrow> world \<Rightarrow> world option" where
  "perform E Set_notify w = map_option snd (set_notify_callback E False False w)"
| "perform E (Set_active_group gid) w = map_option snd (fingerprint_set_active_group E gid w)"
| "perform E Pre_enroll w = map_option snd (fingerprint_pre_enroll E w)"
| "perform E (Enroll hat t) w = map_option snd (fingerprint_enroll E hat t w)"
| "perform E Post_enroll w = map_option snd (fingerprint_post_enroll E w)"
| "perform E Get_auth_id w = map_option snd (fingerprint_get_auth_id E w)"
| "perform E (Authenticate op) w = map_option snd (fingerprint_authenticate E op w)"
| "perform E Cancel w = map_option snd (fingerprint_cancel E w)"
| "perform E Enumerate w = map_option snd (fingerprint_enumerate E False w)"
| "perform E (Remove fid) w = map_option snd (fingerprint_remove E False fid w)"
| "perform E Thread_authenticate w = vcs_authenticate E w"
| "perform E Thread_enroll w = vcs_enroll E w"
| "perform E Thread_timeout w = vcs_timeout E w"
| "perform E Drdy_signal w = sensor_process_signal E w"

inductive runs :: "env \<Rightarrow> world \<Rightarrow> action list \<Rightarrow> world \<Rightarrow> bool" for E :: env and w :: world where
  runs_none: "runs E w [] w"
| runs_more: "runs E w as v \<Longrightarrow> perform E a v = Some u \<Longrightarrow> runs E w (as @ [a]) u"

inductive_cases runs_NilE: "runs E w [] u"
inductive_cases runs_snocE: "runs E w (as @ [a]) u"

lemma map_option_snd: "on_return m (\<lambda>(_, u). Q u) \<Longrightarrow> on_return (map_option snd m) Q"
  by (auto simp: on_return_def)

text \<open>What every action keeps, every run keeps.\<close>

lemma runs_invariant:
  assumes "runs E w as u" "P w"
    and step: "\<And>a v. a \<in> set as \<Longrightarrow> P v \<Longrightarrow> on_return (perform E a v) P"
  shows "P u"
  using assms(1,3)
proof (induction rule: runs.induct)
  case (runs_more as v a u)
  then have "P v" by simp
  with runs_more show ?case by (auto intro: on_returnD)
qed (rule assms(2))

context hal_frame begin

lemma perform_frame: "on_return (perform E a w) (R w)"
  by (cases a) (auto intro!: map_option_snd hal_frame entry_frame cancel_frame fingerprint_enroll_frame
      vcs_authenticate_frame vcs_enroll_frame vcs_timeout_frame sensor_process_signal_frame refl)

lemma runs_frame: "runs E w as u \<Longrightarrow> R w u"
  by (erule runs_invariant) (auto intro: refl on_return_mono [OF perform_frame] trans)

end

subsection \<open>Safety of every run\<close>

text \<open>Between two actions no mutex is held, the library's pointers are loaded when its flag is set,
  the application's handle is live when \<open>tz.init\<close> is set, the stored calibration lies within its
  array, the sensor has been switched on and off as its driver wants and has power exactly when
  \<open>sensor.init\<close> says so, and every command ever sent lies in the shared buffer.\<close>

definition device_ok :: "world \<Rightarrow> bool" where
  "device_ok w \<longleftrightarrow> (\<forall>m. \<not> held w m) \<and> app_ok w \<and> power_ok w \<and>
     (\<forall>b s r n. Qsee_send_cmd b s r n \<in> set (trace w) \<longrightarrow>
        64 dvd s \<and> 64 dvd r \<and> 0 < s \<and> s \<le> r \<and> 0 < n \<and> r + n \<le> SB_LENGTH)"

lemma device_ok_step:
  assumes "device_ok w" "same_held w u" "keeps_app w u" "keeps_power_ok w u" "within_layout w u"
  shows "device_ok u"
  using assms within_layout_buffer [OF assms(5)]
  by (auto simp: device_ok_def same_held_def keeps_app_def keeps_power_ok_def sends_within_buffer_def)

text \<open>The process at its start: static storage is zero, no call has been made.\<close>

definition boot_world :: "bytes \<Rightarrow> SHA1Context \<Rightarrow> world" where
  "boot_world b c = \<lparr>tz = zero_tz, sensor = zero_sensor, vdev = zero_device, ibuf = b, km_init = False,
     km_handle = Km_null, held = (\<lambda>_. False), sha = c, trace = []\<rparr>"

lemma open_reset_ok: "device_ok (log_call Calloc (boot_world b c)) \<and> device_ok (open_reset (log_call Calloc (boot_world b c)))"
  by (auto simp: device_ok_def boot_world_def open_reset_def app_ok_def km_ok_def log_call_def Let_def zero_tz_def
      power_ok_def zero_sensor_def)

text \<open>C37: the device starts well.  Opening the device from a fresh process, in any environment, leaves
  (if it returns) no lock held, the wrapper and the application's handle consistent, the sensor
  switched by the driver's protocol, and has sent only commands that fit the shared buffer, whether the opening has failed or succeeded.\<close>

theorem open_device_ok:
  "on_return (fingerprint_open E False (boot_world b c)) (\<lambda>(_, u). device_ok u)"
proof (rule on_returnI)
  fix x assume x: "fingerprint_open E False (boot_world b c) = Some x"
  from on_returnD [OF locks.fingerprint_open_frame x] on_returnD [OF app.fingerprint_open_frame x]
    on_returnD [OF layout.fingerprint_open_frame x] on_returnD [OF driver.fingerprint_open_frame x] open_reset_ok [of b c]
  show "case x of (_, u) \<Rightarrow> device_ok u"
    by (auto dest: device_ok_step)
qed

text \<open>C3: the device stays well.  Every sequence of calls, threads and signals that returns, from a
  state in which no lock is held and the handles are consistent, ends in such a state; the sensor
  is switched on only when it is off, off only when it is on, and configured only when it is on;
  and every command sent so far fits the shared buffer.  In particular no entry point ever returns with the
  device lock held.\<close>

theorem runs_device_ok:
  assumes "runs E w as u" and "device_ok w"
  shows "device_ok u"
  using locks.runs_frame [OF assms(1)] app.runs_frame [OF assms(1)] layout.runs_frame [OF assms(1)]
    driver.runs_frame [OF assms(1)] assms(2)
  by (auto intro: device_ok_step)

text \<open>A device whose sensor is off and whose worker is already asked to stop.\<close>

definition stopping_world :: world where
  "stopping_world = example_world STATE_CANCEL\<lparr>sensor := zero_sensor\<rparr>"

lemma example_cancel:
  "runs good_env stopping_world [Cancel] (stopping_world\<lparr>trace := [Mutex_lock Tz_lock, Mutex_lock Tz_lock]\<rparr>)"
proof -
  have "perform good_env Cancel stopping_world = Some (stopping_world\<lparr>trace := [Mutex_lock Tz_lock, Mutex_lock Tz_lock]\<rparr>)"
    using cancel_already [OF good_env_quiet, of stopping_world]
    by (simp add: stopping_world_def example_world_def zero_tz_def)
  from runs_more [OF runs_none this] show ?thesis by simp
qed

theorem runs_device_ok_witness:
  "device_ok (stopping_world\<lparr>trace := [Mutex_lock Tz_lock, Mutex_lock Tz_lock]\<rparr>)"
proof (rule runs_device_ok [OF example_cancel])
  show "device_ok stopping_world"
    by (simp add: device_ok_def stopping_world_def example_world_def app_ok_def km_ok_def power_ok_def zero_tz_def zero_sensor_def)
qed

end
