(* ===== verification/Fp_Mirror.thy ===== *)
theory Fp_Mirror
  imports Fp_System
begin

text \<open>
  The finger slots and the database over whole runs.  When SQLite works and the group is not
  switched, every action keeps the slots equal to what the group's table holds; so what the
  matching sees is what a later start will read.
\<close>

subsection \<open>A storage that works\<close>

text \<open>Once the table of the group has been asked for, SQLite executes the inserts and deletes the code
  makes for its slots, and there is no database of the old format.  Creating the table again may fail.\<close>

definition storage_works :: "env \<Rightarrow> u32 \<Rightarrow> bool" where
  "storage_works E gid \<longleftrightarrow> sqlite E gid \<and> (\<forall>t. ret E (File_access SAMSUNG_FP_DB_PATH # t) \<noteq> 0) \<and>
     (\<forall>i t. i \<le> MAX_NUM_FINGERS \<and> Sql_exec (create_cmd gid) \<in> set t \<longrightarrow>
        ret E (Sql_exec (delete_cmd gid (int i)) # t) = SQLITE_OK \<and>
        (\<forall>d p. ret E (Sql_insert (insert_cmd gid (int i)) d p # t) = SQLITE_DONE))"

definition in_sync :: "env \<Rightarrow> u32 \<Rightarrow> world \<Rightarrow> bool" where
  "in_sync E gid w \<longleftrightarrow> active_gid (vdev w) = gid \<and> mirrors E gid w \<and> Sql_exec (create_cmd gid) \<in> set (trace w)"

lemma replay_untouched: "(\<forall>c\<in>set tr. \<not> touches_table c) \<Longrightarrow> replay E gid (tr @ t) = replay E gid t"
proof (induction tr)
  case (Cons c tr)
  then show ?case by (cases c) auto
qed simp

lemma in_sync_storage: "same_storage w u \<Longrightarrow> in_sync E gid w \<Longrightarrow> in_sync E gid u"
  by (auto simp: same_storage_def in_sync_def mirrors_def replay_untouched)

lemma in_sync_pair: "on_return m (\<lambda>(_, u). same_storage w u) \<Longrightarrow> in_sync E gid w \<Longrightarrow> on_return m (\<lambda>(_, u). in_sync E gid u)"
  by (auto simp: on_return_def dest: in_sync_storage)

lemma in_sync_world: "on_return m (same_storage w) \<Longrightarrow> in_sync E gid w \<Longrightarrow> on_return m (in_sync E gid)"
  by (auto simp: on_return_def dest: in_sync_storage)

lemma lock_storage: "lock E m w = Some v \<Longrightarrow> same_storage w v"
  by (erule storage.lock_cases [OF _ storage.refl]) (simp add: same_storage_def)

lemma unlock_storage: "unlock m w = Some v \<Longrightarrow> same_storage w v"
  by (auto dest!: storage.unlock_cases simp: same_storage_def)

subsection \<open>Removing\<close>

lemma remove_finger_sync:
  assumes "storage_works E gid" "in_sync E gid w" "fid \<noteq> 0"
  shows "on_return (remove_finger E fid w) (\<lambda>(_, u). in_sync E gid u)"
proof (rule on_returnI)
  fix x assume "remove_finger E fid w = Some x"
  then obtain v1 r v2 v3 v4 where v: "lock E Dev_lock w = Some v1" "db_write_to_db E True fid v1 = Some (r, v2)"
      "unlock Dev_lock v2 = Some v3" "(if r = 0 then send_remove_notice E fid v3 else Some v3) = Some v4" "x = (r, v4)"
    by (auto simp: remove_finger_def bind_eq_Some_conv)
  from v(2) obtain i where i: "finger_index fid = Some i"
    by (auto simp: db_write_to_db_def Let_def call_ret_def bind_eq_Some_conv)
  then have fid: "fid = int i" "1 \<le> i" "i \<le> MAX_NUM_FINGERS"
    using assms(3) by (auto simp: finger_index_def split: if_splits)
  have v1: "in_sync E gid v1" by (rule in_sync_storage [OF lock_storage [OF v(1)] assms(2)])
  then have "mirrors E (active_gid (vdev v1)) v1" by (simp add: in_sync_def)
  from erase_mirrored [OF this fid(2,3)] assms(1) v(2) v1
  have "mirrors E (active_gid (vdev v1)) v2" by (auto simp: storage_works_def in_sync_def fid)
  moreover have "vdev v2 = vdev v1" "extends_trace v1 v2"
    using on_returnD [OF device.db_write_to_db_frame [OF device.refl] v(2)]
      on_returnD [OF history.db_write_to_db_frame [OF history.refl] v(2)] by (simp_all add: same_device_def)
  ultimately have "in_sync E gid v2" using v1 by (auto simp: in_sync_def extends_trace_def)
  then have v3: "in_sync E gid v3" by (rule in_sync_storage [OF unlock_storage [OF v(3)]])
  have "same_storage v3 v4"
    using v(4) on_returnD [OF storage.notice_frame(3) [OF storage.refl]] by (auto split: if_splits intro: storage.refl)
  with v3 v(5) show "case x of (_, u) \<Rightarrow> in_sync E gid u" by (auto dest: in_sync_storage)
qed

lemma remove_all_sync:
  assumes "storage_works E gid" "0 \<notin> set is"
  shows "in_sync E gid w \<Longrightarrow> on_return (remove_all E is r w) (\<lambda>(_, u). in_sync E gid u)"
  using assms(2)
proof (induction "is" arbitrary: r w)
  case (Cons i "is")
  have i: "int i \<noteq> 0" using Cons.prems(2) by simp
  have rest: "on_return (remove_all E is r v) (\<lambda>(_, u). in_sync E gid u)" if "in_sync E gid v" for r v
    using Cons that by simp
  show ?case
    using remove_finger_sync [OF assms(1) Cons.prems(1) i] rest Cons.prems(1)
    by (auto simp: on_return_def bind_eq_Some_conv)
qed simp

lemma remove_sync:
  assumes "storage_works E gid" "in_sync E gid w"
  shows "on_return (fingerprint_remove E dn fid w) (\<lambda>(_, u). in_sync E gid u)"
proof (rule on_returnI)
  fix x assume x: "fingerprint_remove E dn fid w = Some x"
  show "case x of (_, u) \<Rightarrow> in_sync E gid u"
  proof (cases dn)
    case True with x assms show ?thesis by (auto simp: fingerprint_remove_def)
  next
    case False
    with x obtain r v u where v: "(if fid = 0 then remove_all E slot_indices 0 w else remove_finger E (sint fid) w) = Some (r, v)"
      and u: "(if r \<noteq> 0 then send_error_notice E FINGERPRINT_ERROR_UNABLE_TO_REMOVE v else Some v) = Some u" "x = (r, u)"
      by (auto simp: fingerprint_remove_def bind_eq_Some_conv)
    have "in_sync E gid v"
    proof (cases "fid = 0")
      case True
      have "0 \<notin> set slot_indices" by (simp add: slot_indices_def)
      from on_returnD [OF remove_all_sync [OF assms(1) this assms(2)], of 0 "(r, v)"] v True show ?thesis by simp
    next
      case False
      then have "sint fid \<noteq> 0" by (simp add: signed_eq_0_iff)
      from on_returnD [OF remove_finger_sync [OF assms this], of "(r, v)"] v False show ?thesis by simp
    qed
    moreover have "same_storage v u"
      using u(1) on_returnD [OF storage.notice_frame(1) [OF storage.refl]] by (auto split: if_splits intro: storage.refl)
    ultimately show ?thesis using u(2) by (auto dest: in_sync_storage)
  qed
qed

subsection \<open>Reading the group's table\<close>

lemma set_active_group_sync:
  assumes "storage_works E gid" "in_sync E gid w"
  shows "on_return (fingerprint_set_active_group E gid w) (\<lambda>(_, u). in_sync E gid u)"
proof (rule on_returnI)
  fix x assume "fingerprint_set_active_group E gid w = Some x"
  then obtain v1 r v2 u where v: "lock E Dev_lock w = Some v1"
      "db_read_to_tz E (upd_dev (\<lambda>d. d\<lparr>active_gid := gid\<rparr>) v1) = Some (r, v2)" "unlock Dev_lock v2 = Some u" "x = (0, u)"
    by (auto simp: fingerprint_set_active_group_def bind_eq_Some_conv Let_def)
  let ?v = "upd_dev (\<lambda>d. d\<lparr>active_gid := gid\<rparr>) v1"
  have "in_sync E gid v1" by (rule in_sync_storage [OF lock_storage [OF v(1)] assms(2)])
  then have sync: "active_gid (vdev ?v) = gid" "mirrors E gid ?v" "Sql_exec (create_cmd gid) \<in> set (trace ?v)"
    by (simp_all add: in_sync_def mirrors_def) (simp_all add: upd_dev_def)
  have "ret E (read_start (active_gid (vdev ?v)) (trace ?v)) \<noteq> 0"
    using assms(1) by (simp add: storage_works_def read_start_def)
  then obtain v2' where "db_read_to_tz E ?v = Some (0, v2')" "mirrors E gid v2'" "vdev v2' = vdev ?v"
    using reload_mirrored [of E ?v] assms(1) sync by (auto simp: storage_works_def)
  moreover have "extends_trace ?v v2"
    using on_returnD [OF history.db_read_to_tz_frame [OF history.refl] v(2)] by simp
  ultimately have "in_sync E gid v2" using v(2) sync(1,3) by (auto simp: in_sync_def extends_trace_def)
  with v(4) show "case x of (_, u) \<Rightarrow> in_sync E gid u"
    by (auto intro: in_sync_storage [OF unlock_storage [OF v(3)]])
qed

subsection \<open>Enrolling\<close>

lemma set_data_sync:
  assumes "in_sync E gid w" "\<not> exist f" "\<not> exist (finger (tz w) k)"
  shows "in_sync E gid (set_finger k f w)"
proof -
  have "shows_row f None" using assms(2) by simp
  moreover have "newest (replay E gid (trace w)) (int k) = None" if "1 \<le> k" "k \<le> MAX_NUM_FINGERS"
    using assms(1,3) that by (cases "newest (replay E gid (trace w)) (int k)") (auto simp: in_sync_def mirrors_def)
  ultimately show ?thesis
    using assms(1) by (auto simp: in_sync_def mirrors_def set_finger_def upd_tz_def)
qed

lemma enroll_finish_sync:
  assumes works: "storage_works E gid" and w: "in_sync E gid w" and k: "1 \<le> k" "\<not> exist (finger (tz w) k)"
  shows "on_return (enroll_finish E k w) (in_sync E gid)"
proof (rule on_returnI)
  fix u assume "enroll_finish E k w = Some u"
  then obtain r1 v1 i r2 v2 r3 v3 r4 v4 r5 v5 r6 where v: "send_enroll_finish E w = Some (r1, v1)"
      "finger_index (int k) = Some i"
      "send_payload_bind E False (set_finger i ((finger (tz v1) i)\<lparr>fdata := memcpy (fdata (finger (tz v1) i)) 0
          (data_bytes 102464 2 v1) 0 FINGER_DATA_MAX_LENGTH\<rparr>) v1) = Some (r2, v2)"
      "send_payload_bind E True v2 = Some (r3, v3)"
      "db_write_to_db E False (int i) (set_finger i ((finger (tz v3) i)\<lparr>payload := memcpy (payload (finger (tz v3) i)) 0
          (data_bytes 102464 2 v3) 0 PAYLOAD_MAX_LENGTH, exist := True\<rparr>) v3) = Some (r4, v4)"
      "send_password_set E False v4 = Some (r5, v5)" "send_password_set E True v5 = Some (r6, u)"
    by (auto simp: enroll_finish_def Let_def bind_eq_Some_conv)
  have i: "i = k" "k \<le> MAX_NUM_FINGERS" using v(2) by (auto simp: finger_index_def split: if_splits)
  have s1: "same_storage w v1" using on_returnD [OF storage.send_frame(8) [OF storage.refl] v(1)] by simp
  have v1: "in_sync E gid v1" "\<not> exist (finger (tz v1) k)"
    using in_sync_storage [OF s1 w] k(2) s1 by (simp_all add: same_storage_def)
  have "in_sync E gid (set_finger k ((finger (tz v1) k)\<lparr>fdata := memcpy (fdata (finger (tz v1) k)) 0
          (data_bytes 102464 2 v1) 0 FINGER_DATA_MAX_LENGTH\<rparr>) v1)"
    by (rule set_data_sync [OF v1(1)]) (simp_all add: v1(2))
  then have "in_sync E gid v3"
    using on_returnD [OF storage.send_frame(9) [OF storage.refl] v(3)] on_returnD [OF storage.send_frame(9) [OF storage.refl] v(4)]
    unfolding i(1) by (auto intro: in_sync_storage)
  then have m: "active_gid (vdev v3) = gid" "mirrors E (active_gid (vdev v3)) v3" "Sql_exec (create_cmd gid) \<in> set (trace v3)"
    by (auto simp: in_sync_def)
  have "mirrors E gid v4"
    using store_mirrored [OF m(2) k(1) i(2), of "(finger (tz v3) k)\<lparr>payload := memcpy (payload (finger (tz v3) k)) 0
          (data_bytes 102464 2 v3) 0 PAYLOAD_MAX_LENGTH, exist := True\<rparr>"] works v(5) m(3)
    by (auto simp: storage_works_def i m(1))
  moreover have "vdev v4 = vdev v3" "extends_trace v3 v4"
    using on_returnD [OF device.db_write_to_db_frame [OF device.refl] v(5)]
      on_returnD [OF history.db_write_to_db_frame [OF history.refl] v(5)]
    by (simp_all add: same_device_def extends_trace_def set_finger_def upd_tz_def)
  ultimately have "in_sync E gid v4" using m by (auto simp: in_sync_def extends_trace_def)
  then show "in_sync E gid u"
    using on_returnD [OF storage.send_frame(10) [OF storage.refl] v(6)] on_returnD [OF storage.send_frame(10) [OF storage.refl] v(7)]
    by (auto intro: in_sync_storage)
qed

lemma vcs_enroll_sync:
  assumes "storage_works E gid" "in_sync E gid w"
  shows "on_return (vcs_enroll E w) (in_sync E gid)"
proof (rule on_returnI)
  fix u assume u: "vcs_enroll E w = Some u"
  define k where "k = find_free (finger (tz w)) slot_indices"
  define exit_to where "exit_to x v = ((case x of Return_null \<Rightarrow> Some v | Goto_out \<Rightarrow> enroll_out E v
     | Enroll_finish \<Rightarrow> Option.bind (enroll_finish E k v) (enroll_out E)) = Some u)" for x v
  from u obtain r v1 where b: "send_enroll_begin E k w = Some (r, v1)"
    and rest: "enroll_fail E v1 = Some u \<or> (\<exists>r' v2. send_vendor_unknown E vendorUnknownA v1 = Some (r', v2) \<and>
      (enroll_fail E v2 = Some u \<or> (\<exists>x v3. enroll_loop E k 8 v2 = Some (x, v3) \<and> exit_to x v3)))"
    unfolding exit_to_def vcs_enroll_def
    by (auto simp: k_def [symmetric] bind_eq_Some_conv Let_def split: if_splits)
  have s1: "same_storage w v1" using on_returnD [OF storage.send_frame(6) [OF storage.refl] b] by simp
  have fail: "same_storage v u" if "enroll_fail E v = Some u" for v
    by (rule on_returnD [OF storage.exit_frame(2) [OF storage.refl] that])
  have leave: "same_storage v u" if "enroll_out E v = Some u" for v
    by (rule on_returnD [OF storage.exit_frame(1) [OF storage.refl] that])
  from rest show "in_sync E gid u"
  proof (elim disjE exE conjE)
    assume "enroll_fail E v1 = Some u"
    with s1 assms(2) show ?thesis by (blast intro: in_sync_storage fail)
  next
    fix r' v2 assume "send_vendor_unknown E vendorUnknownA v1 = Some (r', v2)" "enroll_fail E v2 = Some u"
    with s1 assms(2) show ?thesis
      using on_returnD [OF storage.send_frame(4) [OF s1]] by (fastforce intro: in_sync_storage fail)
  next
    fix r' v2 x v3 assume v2: "send_vendor_unknown E vendorUnknownA v1 = Some (r', v2)"
      and v3: "enroll_loop E k 8 v2 = Some (x, v3)" and x: "exit_to x v3"
    have "same_storage w v2" using on_returnD [OF storage.send_frame(4) [OF s1] v2] by simp
    from on_returnD [OF storage.enroll_loop_frame [OF this] v3] have s3: "same_storage w v3" by simp
    then have w3: "in_sync E gid v3" using assms(2) by (rule in_sync_storage)
    show ?thesis
    proof (cases x)
      case Goto_out
      with x have "enroll_out E v3 = Some u" by (simp add: exit_to_def)
      from in_sync_storage [OF leave [OF this] w3] show ?thesis .
    next
      case Return_null
      with x w3 show ?thesis by (simp add: exit_to_def)
    next
      case Enroll_finish
      with x obtain v4 where v4: "enroll_finish E k v3 = Some v4" "enroll_out E v4 = Some u"
        by (auto simp: exit_to_def bind_eq_Some_conv)
      have "finger_index (int k) \<noteq> None" using v4(1) by (auto simp: enroll_finish_def Let_def bind_eq_Some_conv)
      then have "k \<le> MAX_NUM_FINGERS" by (auto simp: finger_index_def split: if_splits)
      then have "1 \<le> k" "\<not> exist (finger (tz v3) k)"
        using find_free_slot [of "finger (tz w)"] s3 by (simp_all add: k_def same_storage_def)
      from on_returnD [OF enroll_finish_sync [OF assms(1) w3 this] v4(1)] have "in_sync E gid v4" .
      then show ?thesis by (rule in_sync_storage [OF leave [OF v4(2)]])
    qed
  qed
qed

subsection \<open>Whole runs\<close>

fun stays_in :: "u32 \<Rightarrow> action \<Rightarrow> bool" where
  "stays_in gid (Set_active_group g) = (g = gid)"
| "stays_in gid _ = True"

lemma perform_sync:
  assumes "storage_works E gid" "in_sync E gid w" "stays_in gid a"
  shows "on_return (perform E a w) (in_sync E gid)"
proof -
  note service = in_sync_pair [OF storage.entry_frame(1) [OF storage.refl] assms(2)]
    in_sync_pair [OF storage.entry_frame(2) [OF storage.refl] assms(2)]
    in_sync_pair [OF storage.entry_frame(3) [OF storage.refl] assms(2)]
    in_sync_pair [OF storage.entry_frame(4) [OF storage.refl] assms(2)]
    in_sync_pair [OF storage.entry_frame(5) [OF storage.refl] assms(2)]
    in_sync_pair [OF storage.entry_frame(6) [OF storage.refl] assms(2)]
    in_sync_pair [OF storage.cancel_frame(3) [OF storage.refl] assms(2)]
    in_sync_pair [OF storage.fingerprint_enroll_frame [OF storage.refl] assms(2)]
  note threads = in_sync_world [OF storage.vcs_authenticate_frame [OF storage.refl] assms(2)]
    in_sync_world [OF storage.vcs_timeout_frame [OF storage.refl] assms(2)]
    in_sync_world [OF storage.sensor_process_signal_frame [OF storage.refl] assms(2)]
  show ?thesis
    using assms(3)
    by (cases a) (auto intro!: map_option_snd service threads vcs_enroll_sync [OF assms(1,2)] remove_sync [OF assms(1,2)]
        set_active_group_sync [OF assms(1,2)])
qed

text \<open>C2: the slots always show the database.  Let the table of the group have been created and SQLite
  execute the inserts and deletes on it; creating the table again, which every call that sets the
  group tries, may fail.  Starting from slots that show the table, every run of calls, threads and
  signals that does not switch to another group ends with slots that show it: each finger in memory
  is the newest stored row of its number, and each stored finger is in memory.\<close>

theorem runs_in_sync:
  assumes "runs E w as u" and "storage_works E gid" and "\<And>a. a \<in> set as \<Longrightarrow> stays_in gid a"
    and "active_gid (vdev w) = gid" and "mirrors E gid w" and "Sql_exec (create_cmd gid) \<in> set (trace w)"
  shows "active_gid (vdev u) = gid \<and> mirrors E gid u"
proof -
  have "in_sync E gid u"
    by (rule runs_invariant [OF assms(1)]) (use assms in \<open>auto simp: in_sync_def [of _ _ w] intro!: perform_sync\<close>)
  then show ?thesis by (simp add: in_sync_def)
qed

text \<open>An enrolment whose thread runs in an environment with a working SQLite, and the group set again after it.\<close>

lemma db_env_ideal: "ideal db_env"
  by (auto simp: ideal_def quiet_def cooperative_def db_env_def good_env_def good_response_def get32_def off_defs
      db_result_def CALIBRATE_DATA_MAX_LENGTH_def split: list.split ext_call.split)

lemma db_env_works: "storage_works db_env 0"
proof -
  have "delete_cmd 0 i \<noteq> create_cmd 0" for i by (simp add: delete_cmd_def create_cmd_def)
  then show ?thesis using db_env_sqlite by (simp add: storage_works_def db_env_ret db_result_def)
qed

definition no_finger_world :: world where
  "no_finger_world = (example_world STATE_CANCEL)\<lparr>tz := (tz (example_world STATE_CANCEL))\<lparr>finger := (\<lambda>_. zero_finger)\<rparr>,
     trace := [Sql_exec (create_cmd 0)]\<rparr>"

lemma no_finger_world_start:
  "in_state (\<lambda>_. False) (\<lambda>_. zero_finger) STATE_CANCEL True no_finger_world" "mirrors db_env 0 no_finger_world"
  "active_gid (vdev no_finger_world) = 0" "Sql_exec (create_cmd 0) \<in> set (trace no_finger_world)"
  using create_not_delete [of 0 0]
  by (simp_all add: in_state_def going_def mirrors_def no_finger_world_def example_world_def zero_device_def zero_tz_def
      not_exist_zero)

lemma set_group_again:
  assumes "storage_works E gid" "in_sync E gid w" "\<not> held w Dev_lock"
  shows "\<exists>u. fingerprint_set_active_group E gid w = Some (0, u) \<and>
    (\<forall>i. 1 \<le> i \<and> i \<le> MAX_NUM_FINGERS \<longrightarrow> same_slot (finger (tz w) i) (finger (tz u) i))"
proof -
  obtain v where v: "lock E Dev_lock w = Some v" "finger (tz v) = finger (tz w)" "vdev v = vdev w" "held v Dev_lock"
    using set_group_frame [OF assms(3), of E] by blast
  let ?v = "upd_dev (\<lambda>d. d\<lparr>active_gid := gid\<rparr>) v"
  have "in_sync E gid v" by (rule in_sync_storage [OF lock_storage [OF v(1)] assms(2)])
  then have sync: "active_gid (vdev ?v) = gid" "mirrors E gid ?v"
    by (simp_all add: in_sync_def mirrors_def) (simp_all add: upd_dev_def)
  obtain u where u: "db_read_to_tz E ?v = Some (0, u)"
      "\<forall>i. 1 \<le> i \<and> i \<le> MAX_NUM_FINGERS \<longrightarrow> same_slot (finger (tz ?v) i) (finger (tz u) i)"
    using reload_mirrored [of E ?v] assms(1) sync by (auto simp: storage_works_def read_start_def)
  have "held u Dev_lock"
    using on_returnD [OF locks.db_read_to_tz_frame [OF locks.refl] u(1)] v(4) by (simp add: same_held_def upd_dev_def)
  then have "fingerprint_set_active_group E gid w = Some (0, u\<lparr>held := (held u)(Dev_lock := False)\<rparr>)"
    by (simp add: fingerprint_set_active_group_def v(1) u(1) unlock_def)
  moreover have "finger (tz ?v) = finger (tz w)" using v(2) by (simp add: upd_dev_def)
  ultimately show ?thesis using u(2) by simp
qed

theorem runs_in_sync_witness:
  "\<exists>u. runs db_env no_finger_world [Thread_enroll, Set_active_group 0] u \<and> mirrors db_env 0 u \<and> exist (finger (tz u) 1)"
proof -
  have "find_free (\<lambda>_. zero_finger) slot_indices = 1"
    by (simp add: slot_indices_eq zero_finger_def)
  then obtain v where v: "vcs_enroll db_env no_finger_world = Some v" "exist (finger (tz v) 1)"
    using enroll_cancelled_run [OF ideal_willing [OF db_env_ideal] no_finger_world_start(1), of 1]
    by (auto elim!: returns_obtain simp: MAX_NUM_FINGERS_def)
  have "in_sync db_env 0 v"
    using on_returnD [OF vcs_enroll_sync [OF db_env_works] v(1)] no_finger_world_start by (simp add: in_sync_def)
  moreover have "\<not> held v Dev_lock"
    using on_returnD [OF locks.vcs_enroll_frame [OF locks.refl] v(1)] no_finger_world_start(1)
    by (simp add: same_held_def in_state_def going_def)
  ultimately obtain u where u: "fingerprint_set_active_group db_env 0 v = Some (0, u)" "exist (finger (tz u) 1)"
    using set_group_again [OF db_env_works, of v] v(2) by (auto simp: same_slot_def MAX_NUM_FINGERS_def)
  have run: "runs db_env no_finger_world [Thread_enroll, Set_active_group 0] u"
    using runs_more [OF runs_more [OF runs_none], of db_env Thread_enroll no_finger_world v "Set_active_group 0" u] v(1) u(1)
    by simp
  have "stays_in 0 a" if "a \<in> set [Thread_enroll, Set_active_group 0]" for a using that by auto
  from runs_in_sync [OF run db_env_works this no_finger_world_start(3,2,4)] run u(2) show ?thesis by auto
qed

end
