(* ===== verification/Fp_Races.thy ===== *)
theory Fp_Races
  imports Fp_Entry
begin

text \<open>
  A race of two threads.  The locked sections are atomic, but a test of the worker state and the
  action it decides are separate sections; what another thread does between them is lost.
\<close>

subsection \<open>The worker finishes while it is being cancelled\<close>

text \<open>No other thread brings the state to IDLE from the \<open>n\<close>-th call on.\<close>

definition rested_before :: "env \<Rightarrow> nat \<Rightarrow> bool" where
  "rested_before E n \<longleftrightarrow> (\<forall>t. n \<le> length t \<longrightarrow> Ev_set_state STATE_IDLE \<notin> set (others E t))"

lemma rested_interfere:
  assumes "rested_before E n" "n \<le> length (trace w)" "tz_state (tz w) \<noteq> STATE_IDLE"
  shows "tz_state (tz (interfere E w)) \<noteq> STATE_IDLE"
proof -
  have "Ev_set_state STATE_IDLE \<notin> set es \<Longrightarrow> tz_state (tz w) \<noteq> STATE_IDLE \<Longrightarrow>
      tz_state (tz (foldl apply_event w es)) \<noteq> STATE_IDLE" for es
  proof (induction es arbitrary: w)
    case (Cons e es)
    have "tz_state (tz (apply_event w e)) \<noteq> STATE_IDLE" using event_state [of w e] Cons.prems by auto
    with Cons show ?case by simp
  qed simp
  with assms show ?thesis by (simp add: rested_before_def interfere_def)
qed

lemma cancel_wait_rested:
  assumes "rested_before E n" "n \<le> length (trace w)" "tz_state (tz w) \<noteq> STATE_IDLE"
  shows "cancel_wait E w = None"
proof -
  have "on_return (cancel_wait E w) (\<lambda>u. n \<le> length (trace w) \<longrightarrow> tz_state (tz w) \<noteq> STATE_IDLE \<longrightarrow> False)"
  proof (rule cancel_wait_return)
    fix f :: "world \<Rightarrow> world option" and w
    assume IH: "\<And>v. on_return (f v) (\<lambda>u. n \<le> length (trace v) \<longrightarrow> tz_state (tz v) \<noteq> STATE_IDLE \<longrightarrow> False)"
    have "tz_state (tz (usleep E 100000 w)) \<noteq> STATE_IDLE \<and> n \<le> length (trace (usleep E 100000 w))"
      if "n \<le> length (trace w)" "tz_state (tz w) \<noteq> STATE_IDLE"
      using that by (simp add: usleep_def rested_interfere [OF assms(1)])
    with IH [of "usleep E 100000 w"]
    show "on_return (let w = usleep E 100000 w in if tz_state (tz w) = STATE_IDLE then Some w else f w)
        (\<lambda>u. n \<le> length (trace w) \<longrightarrow> tz_state (tz w) \<noteq> STATE_IDLE \<longrightarrow> False)"
      by (auto simp: Let_def on_return_def)
  qed
  with assms(2,3) show ?thesis by (auto simp: on_return_def)
qed

lemma cancel_worker_rested:
  assumes "rested_before E n" "n \<le> length (trace w) + 2"
  shows "cancel_worker E w = None"
proof (rule ccontr)
  assume "cancel_worker E w \<noteq> None"
  then obtain v1 v2 v3 u where v: "set_tz_state E STATE_CANCEL w = Some v1"
      "lock E Sensor_lock (ioctl (VFSSPI_IOCTL_SET_DRDY_INT 0) v1) = Some v2"
      "unlock Sensor_lock (log_call (Cond_signal Sensor_lock) v2) = Some v3" "cancel_wait E v3 = Some u"
    by (auto simp: cancel_worker_def bind_eq_Some_conv Let_def)
  have v1: "tz_state (tz v1) = STATE_CANCEL" "trace v1 = Mutex_lock Tz_lock # trace w"
    using set_tz_state_Some [OF v(1)] v(1) by (auto simp: set_tz_state_eq split: if_splits)
  have v2: "trace v2 = Mutex_lock Sensor_lock # trace (ioctl (VFSSPI_IOCTL_SET_DRDY_INT 0) v1)"
    using v(2) by (auto simp: lock_def Let_def split: if_splits)
  have "tz_state (tz v3) \<noteq> STATE_IDLE"
    using lock_state [OF v(2)] unlock_says [OF v(3)] v1 assms by (simp add: rested_interfere [OF assms(1)] ioctl_def)
  moreover have "trace v3 = Cond_signal Sensor_lock # trace v2"
    using v(3) by (auto simp: unlock_def split: if_splits)
  ultimately have "cancel_wait E v3 = None"
    using v1(2) v2 assms by (intro cancel_wait_rested [OF assms(1)]) (simp_all add: ioctl_def)
  with v(4) show False by simp
qed

text \<open>C31: a worker that finishes at the wrong moment is missed.  \<open>fingerprint_cancel\<close> has seen the state
  SCAN or ENROLL twice; if the worker brings itself to rest just then, before the state CANCEL is
  written over its IDLE, and rests, the call waits for ever.\<close>

theorem cancel_loses_race:
  assumes "\<And>t. others E t = (if length t = length (trace w) + 3 then [Ev_set_state STATE_IDLE] else [])"
    and "tz_state (tz w) = STATE_SCAN \<or> tz_state (tz w) = STATE_ENROLL"
    and "\<not> timeout_thread (tz_timeout (tz w))" and "\<not> held w Tz_lock"
  shows "fingerprint_cancel E w = None"
proof -
  have look: "get_tz_state E v = Some (tz_state (tz v), v\<lparr>trace := Mutex_lock Tz_lock # trace v\<rparr>)"
    if "\<not> held v Tz_lock" "length (trace v) < length (trace w) + 2" for v
    using that assms(1) by (simp add: get_tz_state_eq Let_def interfere_def log_call_def)
  let ?v = "w\<lparr>trace := Mutex_lock Tz_lock # Mutex_lock Tz_lock # trace w\<rparr>"
  have "rested_before E (length (trace w) + 4)"
    using assms(1) by (simp add: rested_before_def)
  then have "cancel_worker E ?v = None"
    by (rule cancel_worker_rested) simp
  then show ?thesis
    using assms(2-4) look [of w] look [of "w\<lparr>trace := Mutex_lock Tz_lock # trace w\<rparr>"]
    by (auto simp: fingerprint_cancel_def cancel_timeout_def)
qed

theorem cancel_loses_race_witness:
  "fingerprint_cancel (good_env\<lparr>others := (\<lambda>t. if length t = 3 then [Ev_set_state STATE_IDLE] else [])\<rparr>)
     (example_world STATE_SCAN) = None"
  by (rule cancel_loses_race) (simp_all add: example_world_def zero_tz_def)

end
