(* ===== verification/Fp_Session.thy ===== *)
theory Fp_Session
  imports Fp_Mirror Fp_Races
begin

text \<open>
  Whole sessions: an enrolment that completes, an authentication from the call to its report, and
  the two one after the other; and a challenge that outlives its enrolment.
\<close>

subsection \<open>An enrolment that completes\<close>

text \<open>From the \<open>n\<close>-th call on, the trusted application says of the next image that it is the last.\<close>

definition images_suffice :: "env \<Rightarrow> nat \<Rightarrow> bool" where
  "images_suffice E n \<longleftrightarrow> (\<forall>t. adds_image t \<and> n \<le> length t \<longrightarrow> get32 (response E t) (off_result_data 2) = 1)"

lemma add_image_in_state:
  assumes E: "willing E" and w: "in_state l fs s g w"
  shows "returns (send_enroll_add_image E w) (\<lambda>(x, u). x = 0 \<and> in_state l fs s g u \<and> result_of 64 u = 0 \<and>
    length (trace u) = Suc (length (trace w)) \<and> vdev u = vdev w \<and>
    (images_suffice E n \<longrightarrow> n \<le> length (trace u) \<longrightarrow> data_of 64 2 u = 1))"
proof -
  let ?v = "wr32 (64 + off_result_data 0) 0x8 (wr32 off_cmd (cmd_id vfmEnrollAddImage)
      (wr_zero (64 + QSEECOM_ALIGN sizeof_normal_result) w))"
  have v: "in_state l fs s g ?v" "trace ?v = trace w"
    using w by (simp, simp_all add: wr32_def wr_zero_def upd_buf_def)
  obtain u where u: "QSEECom_send_cmd E 64 64 (QSEECOM_ALIGN sizeof_normal_result) ?v = Some (0, u)"
      "in_state l fs s g u" "result_of 64 u = 0" "length (trace u) = Suc (length (trace w))"
    using send_in_state [OF E v(1), of "QSEECOM_ALIGN sizeof_normal_result" 64 64] v(2) by (auto elim!: returns_obtain)
  have run: "send_enroll_add_image E w = Some (0, u)"
    using u(1) by (simp add: send_enroll_add_image_def Let_def)
  then have "vdev u = vdev w"
    using device.send_frame(7) [OF device.refl, of E w] by (auto simp: on_return_def same_device_def)
  then show ?thesis
    using u add_image_trace [OF run] by (auto simp: run images_suffice_def)
qed

lemma enroll_notice_in_state:
  assumes E: "willing E" and w: "in_state (\<lambda>_. False) fs s g w"
  shows "returns (send_enroll_notice E k n w) (\<lambda>u. in_state (\<lambda>_. False) fs s g u \<and>
    length (trace w) \<le> length (trace u))"
proof -
  let ?f = "\<lambda>_ :: mutex. False" let ?d = "?f(Dev_lock := True)"
  have n: "returns (notify x u) (in_state ?d fs s g)" if "in_state ?d fs s g u" for x u
    using that by (simp add: notify_def) (simp add: in_state_def going_def)
  have un: "returns (unlock Dev_lock u) (in_state ?f fs s g)" if "in_state ?d fs s g u" for u
    using unlock_in_state [OF that, of Dev_lock] by (simp add: fun_upd_idem)
  have "returns (send_enroll_notice E k n w) (in_state ?f fs s g)"
    unfolding send_enroll_notice_def
    by (intro returns_if returns_bind [OF lock_in_state [OF E]] returns_bind [OF n] un; (assumption | simp add: w))
  moreover have "on_return (send_enroll_notice E k n w) (extends_trace w)"
    by (rule history.notice_frame(4) [OF history.refl]) simp
  ultimately show ?thesis by (auto simp: returns_def on_return_def extends_trace_def)
qed

text \<open>The number reported last about the slot \<open>k\<close> in a piece of messages.\<close>

definition counted_to :: "nat \<Rightarrow> int \<Rightarrow> world \<Rightarrow> world \<Rightarrow> bool" where
  "counted_to k n w u \<longleftrightarrow> (\<exists>ms. notices u = notices w @ ms \<and> numbers k ms \<noteq> [] \<and> last (numbers k ms) = n)"

lemma counted_to_before: "(\<exists>ms. notices v = notices w @ ms) \<Longrightarrow> counted_to k n v u \<Longrightarrow> counted_to k n w u"
  by (auto simp: counted_to_def numbers_append)

lemma counted_to_after: "counted_to k n w v \<Longrightarrow> silent E k v u \<Longrightarrow> counted_to k n w u"
  by (fastforce simp: counted_to_def silent_def numbers_append)

lemma enroll_loop_completes:
  assumes E: "willing E" "attended E" "images_suffice E N" and k: "k \<noteq> 0"
  shows "in_state (\<lambda>_. False) fs STATE_ENROLL g w \<Longrightarrow> 1 \<le> c \<Longrightarrow> secure_user_id (vdev w) \<noteq> 0 \<Longrightarrow>
    returns (enroll_loop E k c w) (\<lambda>(x, u). x = Enroll_finish \<and> in_state (\<lambda>_. False) fs STATE_ENROLL False u \<and>
      counted_to k 0 w u)"
proof (induction "N - length (trace w)" arbitrary: w c g rule: less_induct)
  case less
  let ?f = "\<lambda>_ :: mutex. False"
  obtain v1 where v1: "get_tz_state E w = Some (STATE_ENROLL, v1)" "in_state ?f fs STATE_ENROLL g v1"
    using get_in_state [OF E(1) less.prems(1)] by (auto elim!: returns_obtain)
  obtain v2 where v2: "vcs_start_capture E 0 v1 = Some (0, v2)" "in_state ?f fs STATE_ENROLL False v2"
    using vcs_start_capture_ideal [OF E(1) v1(2), of 0] E(2) by (auto elim!: returns_obtain)
  obtain v3 where v3: "send_enroll_add_image E v2 = Some (0, v3)" "in_state ?f fs STATE_ENROLL False v3"
      "result_of 64 v3 = 0" "length (trace v3) = Suc (length (trace v2))"
      "N \<le> length (trace v3) \<Longrightarrow> data_of 64 2 v3 = 1"
    using add_image_in_state [OF E(1) v2(2), of N] E(3) by (auto elim!: returns_obtain)
  define n where "n = enroll_remaining c (data_of 64 2 v3)"
  obtain v4 where v4: "send_enroll_notice E (int k) n v3 = Some v4" "in_state ?f fs STATE_ENROLL False v4"
      "length (trace v3) \<le> length (trace v4)"
    using enroll_notice_in_state [OF E(1) v3(2), of "int k" n] by (auto elim!: returns_obtain)
  have s: "silent E k w v3"
    by (rule silent_trans [OF silent_steps(1) [OF v1(1)] silent_trans [OF silent_steps(2) [OF v2(1)] silent_steps(3) [OF v3(1)]]])
  then have suid: "secure_user_id (vdev v3) \<noteq> 0" using less.prems(3) by (simp add: silent_def)
  have said: "notices v4 = notices v3 @ [Msg_enrolling (int k) n]" "vdev v4 = vdev v3"
    using enroll_notice_says [OF v4(1)] k suid by simp_all
  have ext: "\<exists>ms. notices v4 = notices w @ ms" "\<exists>ms. notices v3 = notices w @ ms"
    using s said by (auto simp: silent_def)
  have run: "enroll_loop E k c w = (if n = 0 then Some (Enroll_finish, v4) else enroll_loop E k n v4)"
    by (subst enroll_loop.simps) (simp add: v1(1) v2(1) v3(1,3) Let_def n_def [symmetric] v4(1))
  show ?case
  proof (cases "n = 0")
    case True
    have "counted_to k 0 v3 v4" using said(1) True by (simp add: counted_to_def numbers_def)
    from counted_to_before [OF ext(2) this] True run v4(2) show ?thesis by simp
  next
    case False
    have "data_of 64 2 v3 \<noteq> 1" using False less.prems(2) by (auto simp: n_def enroll_remaining_cases)
    with v3(5) v3(4) have "length (trace v3) < N" by fastforce
    moreover have "length (trace w) < length (trace v3)"
      using v3(4) on_returnD [OF history.get_tz_state_frame [OF history.refl] v1(1)]
        on_returnD [OF history.vcs_start_capture_frame [OF history.refl] v2(1)] by (auto simp: extends_trace_def)
    ultimately have fewer: "N - length (trace v4) < N - length (trace w)" using v4(3) by linarith
    have n1: "1 \<le> n" using False less.prems(2) by (auto simp: n_def enroll_remaining_cases split: if_splits)
    have suid4: "secure_user_id (vdev v4) \<noteq> 0" using suid said(2) by simp
    from less.hyps [OF fewer v4(2) n1 suid4] counted_to_before [OF ext(1)] run False show ?thesis
      by (auto simp: returns_def)
  qed
qed

lemma uninit_closes: "vcs_uninit E w = Some (r, u) \<Longrightarrow> \<not> tz_init (tz u)"
  by (auto simp: vcs_uninit_def Let_def bind_eq_Some_conv upd_tz_def steps_only_fields dest!: set_tz_state_Some)

lemma out_closes: "enroll_out E w = Some u \<Longrightarrow> \<not> tz_init (tz u)"
  by (auto simp: enroll_out_def bind_eq_Some_conv Let_def dest: uninit_closes)

lemma enroll_completed_run:
  assumes E: "willing E" "attended E" "images_suffice E N" and w: "in_state (\<lambda>_. False) fs STATE_ENROLL g w"
    and k: "find_free fs slot_indices = k" "k \<le> MAX_NUM_FINGERS" and suid: "secure_user_id (vdev w) \<noteq> 0"
  shows "returns (vcs_enroll E w) (\<lambda>u. counted_to k 0 w u \<and> exist (finger (tz u) k) \<and> only_slot k w u \<and>
    settled u \<and> tz_state (tz u) = STATE_IDLE \<and> \<not> tz_init (tz u))"
proof -
  let ?f = "\<lambda>_ :: mutex. False"
  have k1: "k \<noteq> 0" using find_free_slot [of fs] k by simp
  have fs: "finger (tz w) = fs" "ion_sbuffer w = Some ()"
    using w by (auto simp: in_state_def going_def intro: ion_sbuffer_going)
  obtain v1 where v1: "send_enroll_begin E k w = Some (0, v1)" "in_state ?f fs STATE_ENROLL g v1" "result_of 102464 v1 = 0"
    using send_enroll_in_state(1) [OF E(1) w] by (auto elim!: returns_obtain)
  obtain v2 where v2: "send_vendor_unknown E vendorUnknownA v1 = Some (0, v2)" "in_state ?f fs STATE_ENROLL g v2"
      "result_of 102464 v2 = 0"
    using sends_in_state(4) [OF E(1) v1(2)] by (auto elim!: returns_obtain)
  have s2: "silent E k w v2" by (rule silent_trans [OF silent_tail(2) [OF v1(1)] silent_tail(1) [OF v2(1)]])
  then have "secure_user_id (vdev v2) \<noteq> 0" using suid by (simp add: silent_def)
  then obtain v3 where v3: "enroll_loop E k 8 v2 = Some (Enroll_finish, v3)" "in_state ?f fs STATE_ENROLL False v3"
      "counted_to k 0 v2 v3"
    using enroll_loop_completes [OF E k1 v2(2), of 8] by (auto elim!: returns_obtain)
  obtain v4 fs4 where v4: "enroll_finish E k v3 = Some v4" "exist (finger (tz v4) k)" "in_state ?f fs4 STATE_ENROLL False v4"
    using enroll_finish_in_state [OF E(1) v3(2) k(2)] by (auto elim!: returns_obtain)
  obtain u where u: "enroll_out E v4 = Some u" "settled u" "tz_state (tz u) = STATE_IDLE"
    using enroll_out_settled [OF E(1) v4(3)] by (auto elim!: returns_obtain)
  have "only_slot (Suc k) v4 u"
    using on_returnD [OF enroll_body_slot(1) [OF slot.refl] u(1)] .
  then have "exist (finger (tz u) k)" using v4(2) by (simp add: only_slot_def)
  moreover have "only_slot k w u"
  proof -
    have "only_slot k v3 v4" by (rule on_returnD [OF enroll_finish_slot [OF slot.refl] v4(1)])
    moreover have "only_slot k v4 u" by (rule on_returnD [OF enroll_body_slot(1) [OF slot.refl] u(1)])
    moreover have "only_slot k w v3" using fs(1) v3(2) by (simp add: only_slot_def in_state_def going_def)
    ultimately show ?thesis by (blast intro: slot.trans)
  qed
  moreover have "counted_to k 0 w u"
  proof -
    have "counted_to k 0 v2 u"
      by (rule counted_to_after [OF v3(3) silent_trans [OF silent_tail(3) [OF v4(1)] silent_tail(4) [OF u(1)]]])
    moreover have "\<exists>ms. notices v2 = notices w @ ms" using s2 by (auto simp: silent_def)
    ultimately show ?thesis by (rule counted_to_before [rotated])
  qed
  moreover have "vcs_enroll E w = Some u"
    using v1(1,3) v2(1,3) v3(1) v4(1) u(1) fs by (simp add: vcs_enroll_def k Let_def)
  ultimately show ?thesis using u out_closes [OF u(1)] by simp
qed

text \<open>C6: an enrolment completes.  With an application that accepts, that says sooner or later that no
  further image is needed, and with somebody attending to the sensor, the enrolling thread started
  for a known user with a free slot returns: the free slot, and no other, has become a finger, the
  last number reported about it is 0, and the worker is at rest with no lock held.\<close>

theorem enroll_completes:
  assumes "willing E" "attended E" "images_suffice E n" and "in_state (\<lambda>_. False) fs STATE_ENROLL g w"
    and "find_free fs slot_indices \<le> MAX_NUM_FINGERS" and "secure_user_id (vdev w) \<noteq> 0"
  shows "\<exists>u ms. vcs_enroll E w = Some u \<and> tz_state (tz u) = STATE_IDLE \<and> (\<forall>m. \<not> held u m) \<and>
    finger (tz u) = fs(find_free fs slot_indices := finger (tz u) (find_free fs slot_indices)) \<and>
    exist (finger (tz u) (find_free fs slot_indices)) \<and>
    notices u = notices w @ ms \<and> numbers (find_free fs slot_indices) ms \<noteq> [] \<and>
    last (numbers (find_free fs slot_indices) ms) = 0"
  using enroll_completed_run [OF assms(1-4) HOL.refl assms(5,6)] assms(4)
  by (force simp: returns_def counted_to_def only_slot_def fun_eq_iff settled_def in_state_def going_def)

text \<open>An application that has enough images after sixty calls, and somebody at the sensor.\<close>

definition last_image :: bytes where
  "last_image = (\<lambda>i. if i = 16 then 1 else 0)"

fun at_sensor :: "ext_call list \<Rightarrow> bool" where
  "at_sensor (Cond_wait m # _) = (m = Sensor_lock)"
| "at_sensor _ = False"

definition session_env :: env where
  "session_env = good_env\<lparr>response := (\<lambda>t. if adds_image t \<and> 60 \<le> length t then last_image else good_response),
     others := (\<lambda>t. if at_sensor t then [Ev_drdy] else [])\<rparr>"

lemma one_command: "is_command c t \<Longrightarrow> is_command d t \<Longrightarrow> cmd_id c = cmd_id d"
  by (cases t) (auto elim!: is_command.elims)

lemma session_env_fair: "willing session_env" "attended session_env" "images_suffice session_env 60"
proof -
  have "at_sensor t \<Longrightarrow> waits t" for t by (cases t rule: at_sensor.cases) simp_all
  moreover have "\<not> (adds_image t \<and> is_command vfmCaptureReadData t)" for t
    using one_command [of vfmEnrollAddImage t vfmCaptureReadData] by auto
  ultimately show "willing session_env"
    by (auto simp: willing_def calm_def cooperative_def session_env_def good_env_def good_response_def last_image_def
        get32_def off_defs CALIBRATE_DATA_MAX_LENGTH_def)
qed (simp_all add: attended_def images_suffice_def session_env_def last_image_def get32_def off_defs)

lemma free_one: "find_free one_finger slot_indices = 1"
  by (simp add: slot_indices_eq one_finger_def zero_finger_def)

definition known_user :: "world \<Rightarrow> world" where
  "known_user = upd_dev (\<lambda>d. d\<lparr>secure_user_id := 5\<rparr>)"

theorem enroll_completes_witness:
  "\<exists>u. vcs_enroll session_env (known_user (example_world STATE_ENROLL)) = Some u \<and> exist (finger (tz u) 1) \<and>
     tz_state (tz u) = STATE_IDLE"
proof -
  have w: "in_state (\<lambda>_. False) one_finger STATE_ENROLL True (known_user (example_world STATE_ENROLL))"
    "secure_user_id (vdev (known_user (example_world STATE_ENROLL))) \<noteq> 0"
    using example_in_state [of STATE_ENROLL] by (simp_all add: known_user_def upd_dev_def in_state_def going_def)
  from enroll_completes [OF session_env_fair w(1) _ w(2)] show ?thesis
    by (fastforce simp: free_one MAX_NUM_FINGERS_def)
qed

subsection \<open>Starting the application\<close>

lemma store_cal_in_state:
  assumes "in_state l fs s g w" "0 \<le> data_of r 3 w + 0xf" "data_of r 3 w + 0xf \<le> int CALIBRATE_DATA_MAX_LENGTH"
  shows "returns (store_calibration r w) (in_state l fs s g)"
  using assms by (simp add: store_calibration_def Let_def)

lemma tz_wr [simp]: "tz (wr32 o1 x w) = tz w" "tz (wr8 o1 y w) = tz w" "tz (wr_zero n w) = tz w" "tz (wr_copy o1 sr n w) = tz w"
  by (simp_all add: buf_defs)

lemma send_in_state_tz:
  assumes "willing E" "in_state l fs s g w" "64 \<le> n"
  shows "returns (QSEECom_send_cmd E sl r n w) (\<lambda>(x, u). x = 0 \<and> in_state l fs s g u \<and> result_of r u = 0 \<and>
    tz u = tz w \<and> (102464 \<le> n \<longrightarrow> calibrates (Qsee_send_cmd (ibuf w) sl r n # trace w) \<longrightarrow>
      0 \<le> data_of r 3 u + 0xf \<and> data_of r 3 u + 0xf \<le> int CALIBRATE_DATA_MAX_LENGTH))"
proof -
  have "going l fs w" using assms(2) by (simp add: in_state_def)
  from send_in_state [OF assms, of sl r] send_cmd_going [OF this, of E sl r n] show ?thesis
    by (auto simp: returns_def simp del: calibrates.simps)
qed

lemma resume_in_state:
  assumes E: "willing E" and w: "in_state l fs s g w"
  shows "returns (resume_initialize E w) (\<lambda>(x, u). x = Inr () \<and> in_state l fs s g u \<and> tz u = tz w)"
    "returns (resume_enter_session E w) (\<lambda>(x, u). x = Inr () \<and> in_state l fs s g u \<and> tz u = tz w)"
    "returns (resume_device_initialize E w) (\<lambda>(x, u). x = Inr () \<and> in_state l fs s g u \<and> tz u = tz w)"
proof -
  show "returns (resume_initialize E w) (\<lambda>(x, u). x = Inr () \<and> in_state l fs s g u \<and> tz u = tz w)"
    unfolding resume_initialize_def Let_def
    by (rule returns_bind_pair [OF send_in_state_tz [OF E]]) (use w in auto)
  have "returns (do {
      (ret, u) \<leftarrow> QSEECom_send_cmd E 102464 102464 102464 v;
      Some (if ret \<noteq> 0 \<or> result_of 102464 u \<noteq> 0 then Inl (result_of 102464 u) else Inr (), u) })
    (\<lambda>(x, u). x = Inr () \<and> in_state l fs s g u \<and> tz u = tz w)" if "in_state l fs s g v" "tz v = tz w" for v
    by (rule returns_bind_pair [OF send_in_state_tz [OF E]]) (use that in auto)
  then show "returns (resume_enter_session E w) (\<lambda>(x, u). x = Inr () \<and> in_state l fs s g u \<and> tz u = tz w)"
    using w by (simp add: resume_enter_session_def Let_def)
  show "returns (resume_device_initialize E w) (\<lambda>(x, u). x = Inr () \<and> in_state l fs s g u \<and> tz u = tz w)"
    unfolding resume_device_initialize_def Let_def
    by (rule returns_bind_pair [OF send_in_state_tz [OF E]]) (use w in auto)
qed

lemma calibrate_in_state:
  assumes E: "willing E" and w: "in_state l fs s g w" and c: "cal_ok (tz w)"
  shows "returns (resume_device_calibrate E w) (\<lambda>(x, u). x = 0 \<and> in_state l fs s g u)"
proof -
  note send = returns_bind_pair [OF send_in_state_tz [OF E]]
  have store: "returns (Option.bind (store_calibration r u) (\<lambda>u. Some (0, u))) (\<lambda>(x, u). x = 0 \<and> in_state l fs s g u)"
    if "in_state l fs s g u" "0 \<le> data_of r 3 u + 0xf" "data_of r 3 u + 0xf \<le> int CALIBRATE_DATA_MAX_LENGTH" for r u
    by (rule returns_bind [OF store_cal_in_state [OF that]]) simp
  have cal: "calibrates (Qsee_send_cmd (ibuf (wr32 off_len 0x10 (wr32 (102464 + off_result_data 0) x
      (wr8 (off_data + 1) y (wr8 (off_data + 0) z (wr32 off_cmd (cmd_id vfmDeviceCalibrate) v)))))) sl r n # t)" for x y z v sl r n t
    by (simp add: ibuf_wr32 wr8_def upd_buf_def off_defs mem_simps)
  show ?thesis
  proof (cases "calibrate_len (tz w) = 0")
    case True
    then show ?thesis
      using w cal by (auto simp: resume_device_calibrate_def Let_def intro!: send store simp del: calibrates.simps)
  next
    case False
    with c w show ?thesis by (auto simp: resume_device_calibrate_def Let_def intro!: send simp del: calibrates.simps)
  qed
qed

lemma vcs_resume_in_state:
  assumes E: "willing E" and w: "in_state l fs s g w" and c: "cal_ok (tz w)"
  shows "returns (vcs_resume E w) (\<lambda>(x, u). x = 0 \<and> in_state l fs s g u)"
proof -
  have "ion_sbuffer w = Some ()" using w by (auto simp: in_state_def intro: ion_sbuffer_going)
  moreover obtain v1 where v1: "resume_initialize E w = Some (Inr (), v1)" "in_state l fs s g v1" "tz v1 = tz w"
    using resume_in_state(1) [OF E w] by (auto elim!: returns_obtain)
  moreover obtain v2 where v2: "resume_enter_session E v1 = Some (Inr (), v2)" "in_state l fs s g v2" "tz v2 = tz v1"
    using resume_in_state(2) [OF E v1(2)] by (auto elim!: returns_obtain)
  moreover obtain v3 where v3: "resume_device_initialize E v2 = Some (Inr (), v3)" "in_state l fs s g v3" "tz v3 = tz v2"
    using resume_in_state(3) [OF E v2(2)] by (auto elim!: returns_obtain)
  moreover have "returns (resume_device_calibrate E v3) (\<lambda>(x, u). x = 0 \<and> in_state l fs s g u)"
    using calibrate_in_state [OF E v3(2)] c v1(3) v2(3) v3(3) by simp
  ultimately show ?thesis by (simp add: vcs_resume_def)
qed

text \<open>A device at rest: nothing held, the application down, its data kept.\<close>

definition ready :: "(nat \<Rightarrow> finger_t) \<Rightarrow> world \<Rightarrow> bool" where
  "ready fs w \<longleftrightarrow> settled w \<and> app_ok w \<and> \<not> tz_init (tz w) \<and> tz_state (tz w) = STATE_IDLE \<and> finger (tz w) = fs"

text \<open>The same with locks held and the worker state announced.\<close>

definition down :: "(mutex \<Rightarrow> bool) \<Rightarrow> (nat \<Rightarrow> finger_t) \<Rightarrow> worker_state_t \<Rightarrow> world \<Rightarrow> bool" where
  "down l fs s w \<longleftrightarrow> km_init w \<and> km_handle w = Km_loaded \<and> notify_set (vdev w) \<and> held w = l \<and>
     \<not> tz_init (tz w) \<and> cal_ok (tz w) \<and> finger (tz w) = fs \<and> tz_state (tz w) = s"

lemma ready_down: "ready fs w \<Longrightarrow> down (\<lambda>_. False) fs STATE_IDLE w"
  by (auto simp: ready_def down_def settled_def app_ok_def)

lemma vcs_init_in_state:
  assumes E: "willing E" and w: "down l fs s w"
  shows "returns (vcs_init E w) (\<lambda>(x, u). x = 0 \<and> (\<exists>g. in_state l fs s g u))"
proof -
  have ret: "\<not> asks_storage t \<Longrightarrow> ret E t = 0" for t using E by (simp add: willing_def cooperative_def)
  let ?v = "log_call (Qsee_set_bandwidth True) (upd_tz (\<lambda>t. t\<lparr>qhandle := True\<rparr>)
    ((log_call Qsee_start_app w)\<lparr>ibuf := response E (Qsee_start_app # trace w)\<rparr>))"
  let ?u = "upd_tz (\<lambda>t. t\<lparr>tz_init := True\<rparr>) ?v"
  have u: "in_state l fs s (sn_signal (sensor w)) ?u" "cal_ok (tz ?u)"
    using w by (simp_all add: down_def in_state_def going_def) (simp_all add: log_call_def upd_tz_def)
  have "vcs_init E w = vcs_resume E ?u"
    using w ret by (simp add: down_def vcs_init_def QSEECom_start_app_def QSEECom_set_bandwidth_def init_qsee_done deref_km_handle_def
        call_ret_def Let_def log_call_def upd_tz_def)
  then show ?thesis using vcs_resume_in_state [OF E u] by (auto simp: returns_def)
qed

subsection \<open>Starting the threads\<close>

interpretation enrolling: service_frame "says_only not_authenticated" not_authenticated
  by (unfold_locales, simp_all add: says_only_eq sensor_power_fields) (rule says_only_eq, rule notices_of_trace, simp)

lemma willing_lock: "willing E \<Longrightarrow> \<not> held w m \<Longrightarrow>
    lock E m w = Some ((log_call (Mutex_lock m) w)\<lparr>held := (held w)(m := True)\<rparr>)"
  by (simp add: lock_def Let_def) (simp add: log_call_def)

lemma willing_get: "willing E \<Longrightarrow> \<not> held w Tz_lock \<Longrightarrow>
    get_tz_state E w = Some (tz_state (tz w), log_call (Mutex_lock Tz_lock) w)"
  by (simp add: get_tz_state_eq Let_def)

lemma willing_set: "willing E \<Longrightarrow> \<not> held w Tz_lock \<Longrightarrow>
    set_tz_state E s w = Some (upd_tz (\<lambda>t. t\<lparr>tz_state := s\<rparr>) (log_call (Mutex_lock Tz_lock) w))"
  by (simp add: set_tz_state_eq)

lemma log_fields [simp]:
  "vdev (log_call c w) = vdev w" "held (log_call c w) = held w" "km_init (log_call c w) = km_init w"
  "km_handle (log_call c w) = km_handle w"
  by (simp_all add: log_call_def)

lemma down_simps [simp]:
  "down l fs s (log_call c w) = down l fs s w" "down l fs s (snd (sensor_init w)) = down l fs s w"
  by (simp_all add: down_def)

lemma down_set: "down l fs s w \<Longrightarrow> down l fs s' (upd_tz (\<lambda>t. t\<lparr>tz_state := s'\<rparr>) w)"
  by (simp add: down_def upd_tz_def)

lemma willing_polls:
  assumes "willing E" "down l fs STATE_IDLE w" "\<not> l Tz_lock"
  shows "returns (wait_not_busy E ts w) (\<lambda>(b, u). b \<and> down l fs STATE_IDLE u \<and> vdev u = vdev w)"
  using assms(2)
proof (induction ts arbitrary: w)
  case (Cons t ts)
  have "\<not> held w Tz_lock" "tz_state (tz w) = STATE_IDLE" using Cons.prems assms(3) by (auto simp: down_def)
  with Cons.IH [of "log_call (Mutex_lock Tz_lock) w"] Cons.prems show ?case by (simp add: willing_get [OF assms(1)])
qed simp

lemma init_session:
  assumes E: "willing E" and w: "down l fs s w"
  shows "returns (vcs_init E w) (\<lambda>(x, u). x = 0 \<and> vdev u = vdev w \<and> (\<exists>g. in_state l fs s g u))"
proof -
  have "on_return (vcs_init E w) (\<lambda>(_, u). same_device w u)" by (rule device.sessions [OF device.refl])
  with vcs_init_in_state [OF E w] show ?thesis by (auto simp: returns_def same_device_def on_return_def)
qed

lemma in_state_created [simp]:
  "in_state l fs s g (upd_tz (\<lambda>t. t\<lparr>auth_thread := b\<rparr>) w) = in_state l fs s g w"
  "in_state l fs s g (upd_tz (\<lambda>t. t\<lparr>enroll_thread := b\<rparr>) w) = in_state l fs s g w"
  by (simp_all add: in_state_def going_def upd_tz_def)

lemma start_session:
  assumes E: "willing E" and w: "down l fs STATE_IDLE w" "\<not> l Tz_lock"
  shows "returns (vcs_start_authenticate E w) (\<lambda>(x, u). x = 0 \<and> vdev u = vdev w \<and> (\<exists>g. in_state l fs STATE_SCAN g u))"
    "returns (vcs_start_enroll E 0 w) (\<lambda>(x, u). x = 0 \<and> vdev u = vdev w \<and> (\<exists>g. in_state l fs STATE_ENROLL g u))"
proof -
  have ret: "ret E (Thread_create k # t) = 0" for k t using E by (simp add: willing_def cooperative_def)
  have free: "\<not> held v Tz_lock" if "down l fs s v" for s v using that w(2) by (simp add: down_def)
  have init: "returns (vcs_init E (snd (sensor_init (upd_tz (\<lambda>t. t\<lparr>tz_state := s\<rparr>) (log_call (Mutex_lock Tz_lock) v)))))
      (\<lambda>(x, u). x = 0 \<and> vdev u = vdev v \<and> (\<exists>g. in_state l fs s g u))" if "down l fs STATE_IDLE v" for s v
  proof -
    have "down l fs s (snd (sensor_init (upd_tz (\<lambda>t. t\<lparr>tz_state := s\<rparr>) (log_call (Mutex_lock Tz_lock) v))))"
      using that by (simp add: down_set)
    from init_session [OF E this] show ?thesis by (simp add: upd_tz_def)
  qed
  obtain v where v: "wait_not_busy E [0, 1, 2, 3, 4] w = Some (True, v)" "down l fs STATE_IDLE v" "vdev v = vdev w"
    using willing_polls [OF E w, of "[0, 1, 2, 3, 4]"] by (auto elim!: returns_obtain)
  obtain u g where "vcs_init E (snd (sensor_init (upd_tz (\<lambda>t. t\<lparr>tz_state := STATE_SCAN\<rparr>) (log_call (Mutex_lock Tz_lock) v)))) = Some (0, u)"
      "vdev u = vdev v" "in_state l fs STATE_SCAN g u"
    using init [OF v(2), of STATE_SCAN] by (auto elim!: returns_obtain)
  then show "returns (vcs_start_authenticate E w) (\<lambda>(x, u). x = 0 \<and> vdev u = vdev w \<and> (\<exists>g. in_state l fs STATE_SCAN g u))"
    using v by (simp add: vcs_start_authenticate_def willing_set [OF E free] Let_def call_ret_def ret)
       (auto simp: upd_tz_def [of _ "log_call c x" for c x])
  have "tz_state (tz w) = STATE_IDLE" using w by (simp add: down_def)
  moreover obtain u g where "vcs_init E (snd (sensor_init (upd_tz (\<lambda>t. t\<lparr>tz_state := STATE_ENROLL\<rparr>)
      (log_call (Mutex_lock Tz_lock) (log_call (Mutex_lock Tz_lock) w))))) = Some (0, u)"
      "vdev u = vdev w" "in_state l fs STATE_ENROLL g u"
    using init [of "log_call (Mutex_lock Tz_lock) w" STATE_ENROLL] w(1) by (auto elim!: returns_obtain)
  ultimately show "returns (vcs_start_enroll E 0 w) (\<lambda>(x, u). x = 0 \<and> vdev u = vdev w \<and> (\<exists>g. in_state l fs STATE_ENROLL g u))"
    using w free [OF w(1)]
    by (simp add: vcs_start_enroll_def willing_get [OF E] willing_set [OF E] Let_def call_ret_def ret)
       (auto simp: upd_tz_def [of _ "log_call c x" for c x])
qed

lemma section_session:
  assumes E: "willing E" and w: "down (\<lambda>_. False) fs s w"
    and f: "\<And>v. down ((\<lambda>_. False)(Dev_lock := True)) fs s v \<Longrightarrow> vdev v = vdev w \<Longrightarrow>
      returns (f v) (\<lambda>(x, u). x = 0 \<and> vdev u = d \<and> (\<exists>g. in_state ((\<lambda>_. False)(Dev_lock := True)) fs s' g u))"
  shows "returns (do { w \<leftarrow> lock E Dev_lock w; (r, w) \<leftarrow> f w; w \<leftarrow> unlock Dev_lock w; Some (r, w) })
    (\<lambda>(x, u). x = 0 \<and> vdev u = d \<and> (\<exists>g. in_state (\<lambda>_. False) fs s' g u))"
proof -
  let ?v = "(log_call (Mutex_lock Dev_lock) w)\<lparr>held := (\<lambda>_. False)(Dev_lock := True)\<rparr>"
  have l: "lock E Dev_lock w = Some ?v" using w by (simp add: willing_lock [OF E] down_def)
  have v: "down ((\<lambda>_. False)(Dev_lock := True)) fs s ?v" using w by (simp add: down_def)
  obtain u g where u: "f ?v = Some (0, u)" "vdev u = d" "in_state ((\<lambda>_. False)(Dev_lock := True)) fs s' g u"
    using f [OF v] by (auto elim!: returns_obtain)
  obtain x where x: "unlock Dev_lock u = Some x" "in_state (\<lambda>_. False) fs s' g x"
    using unlock_in_state [OF u(3), of Dev_lock] by (auto simp: fun_upd_idem elim!: returns_obtain)
  then have "vdev x = d" using u(2) unlock_says by simp
  with l u x show ?thesis by auto
qed

lemma down_dev: "down l fs s w \<Longrightarrow> notify_set (h (vdev w)) = notify_set (vdev w) \<Longrightarrow> down l fs s (upd_dev h w)"
  by (simp add: down_def upd_dev_def)

lemma authenticate_session:
  assumes E: "willing E" and w: "ready fs w"
  shows "returns (fingerprint_authenticate E op w) (\<lambda>(x, u). x = 0 \<and> vdev u = (vdev w)\<lparr>op_id := op\<rparr> \<and>
    (\<exists>g. in_state (\<lambda>_. False) fs STATE_SCAN g u))"
proof -
  have "returns (vcs_start_authenticate E (upd_dev (\<lambda>d. d\<lparr>op_id := op\<rparr>) v)) (\<lambda>(x, u). x = 0 \<and>
      vdev u = (vdev w)\<lparr>op_id := op\<rparr> \<and> (\<exists>g. in_state ((\<lambda>_. False)(Dev_lock := True)) fs STATE_SCAN g u))"
    if "down ((\<lambda>_. False)(Dev_lock := True)) fs STATE_IDLE v" "vdev v = vdev w" for v
    using start_session(1) [OF E down_dev [OF that(1), of "\<lambda>d. d\<lparr>op_id := op\<rparr>"]] that(2)
    by (simp add: upd_dev_def [of _ v])
  from section_session [OF E ready_down [OF w] this] show ?thesis
    by (simp add: fingerprint_authenticate_def)
qed

lemma enroll_session:
  assumes E: "willing E" and w: "ready fs w" and hat: "hat_version hat = hw_auth_token_version E"
      "hat_challenge hat = challenge (vdev w)" and free: "find_free fs slot_indices \<le> MAX_NUM_FINGERS"
  shows "returns (fingerprint_enroll E (Some hat) 0 w) (\<lambda>(x, u). x = 0 \<and>
    vdev u = (vdev w)\<lparr>secure_user_id := hat_user_id hat, user_id := hat_user_id hat\<rparr> \<and>
    (\<exists>g. in_state (\<lambda>_. False) fs STATE_ENROLL g u))"
proof -
  let ?w = "upd_dev (\<lambda>d. d\<lparr>user_id := hat_user_id hat\<rparr>) (enroll_accept_user hat w)"
  have v: "down (\<lambda>_. False) fs STATE_IDLE ?w" "vdev ?w = (vdev w)\<lparr>secure_user_id := hat_user_id hat, user_id := hat_user_id hat\<rparr>"
    using ready_down [OF w] hat(2) by (auto simp: enroll_accept_user_def intro!: down_dev) (simp add: upd_dev_def)
  have "returns (if MAX_NUM_FINGERS < find_free (finger (tz v)) slot_indices
         then do { w \<leftarrow> send_error_notice E FINGERPRINT_ERROR_NO_SPACE v; Some (-1, w) }
         else vcs_start_enroll E 0 v) (\<lambda>(x, u). x = 0 \<and> vdev u = vdev ?w \<and>
      (\<exists>g. in_state ((\<lambda>_. False)(Dev_lock := True)) fs STATE_ENROLL g u))"
    if "down ((\<lambda>_. False)(Dev_lock := True)) fs STATE_IDLE v" "vdev v = vdev ?w" for v
    using start_session(2) [OF E that(1)] that free by (simp add: down_def)
  from section_session [OF E v(1) this] show ?thesis
    using hat v(2) by (simp add: fingerprint_enroll_def enroll_accept_user_def upd_dev_def if_distrib [of "\<lambda>m. Option.bind m f" for f] bind_assoc cong: if_cong)
qed

subsection \<open>Running the threads\<close>

lemma authenticated_notice_tz:
  assumes "send_authenticated_notice E k w = Some u" and E: "willing E"
  shows "tz u = tz w"
proof -
  have *: "lock E m v = Some v' \<Longrightarrow> tz v' = tz v" for m v v'
    using E lock_says [of E m v v'] by simp
  show ?thesis
    using assms(1)
    by (auto simp: send_authenticated_notice_def send_acquired_notice_def bind_eq_Some_conv Let_def
        dest!: * unlock_says notify_says split: if_splits)
qed

lemma authenticate_thread:
  assumes E: "willing E" "attended E" and w: "in_state (\<lambda>_. False) fs STATE_SCAN g w" "app_ok w"
    and i: "names_template E i" "i < length (enrolled fs)"
  shows "returns (vcs_authenticate E w) (\<lambda>u. ready fs u \<and> vdev u = vdev w \<and>
    (\<exists>ms hat. notices u = notices w @ ms @ [Msg_authenticated (int (enrolled fs ! i)) hat] \<and>
       (\<forall>m\<in>set ms. not_authenticated m) \<and> hat_challenge hat = op_id (vdev w) \<and> hat_user_id hat = secure_user_id (vdev w)))"
proof -
  have "enrolled fs ! i \<in> set (enrolled fs)" using i(2) by simp
  then have pos: "enrolled fs ! i \<noteq> 0" by (auto simp: set_enrolled)
  let ?body = "do {
     _ \<leftarrow> ion_sbuffer w;
     (_, w) \<leftarrow> send_vendor_unknown E vendorUnknown0 w;
     (fingerindex, w) \<leftarrow> authenticate_loop E w;
     let w = snd (sensor_uninit w);
     (_, w) \<leftarrow> vcs_uninit E w;
     w \<leftarrow> set_tz_state E STATE_IDLE w;
     Some (fingerindex, w) }"
  obtain v where v: "?body = Some (enrolled fs ! i, v)" and s: "settled v"
    using authenticate_body_ideal [OF E(1) w(1) _ i] E(2) by (auto elim!: returns_obtain)
  obtain u where u: "send_authenticated_notice E (int (enrolled fs ! i)) v = Some u" "settled u"
    using settled_notice [OF s] by (auto elim!: returns_obtain)
  have run: "vcs_authenticate E w = Some u"
    unfolding authenticate_split v using u(1) pos by simp
  have t: "\<not> tz_init (tz v)" "tz_state (tz v) = STATE_IDLE"
    using v by (auto simp: bind_eq_Some_conv Let_def steps_only_fields dest!: set_tz_state_Some dest: uninit_closes)
  have "finger (tz u) = fs"
    using on_returnD [OF fingers.vcs_authenticate_frame [OF fingers.refl] run] w(1) by (simp add: same_fingers_def in_state_def going_def)
  moreover have "app_ok u"
    using on_returnD [OF app.vcs_authenticate_frame [OF app.refl] run] w(2) by (simp add: keeps_app_def)
  ultimately have "ready fs u" using u(2) t authenticated_notice_tz [OF u(1) E(1)] by (simp add: ready_def)
  moreover have dev: "vdev v = vdev w"
    using on_returnD [OF device.authenticate_body_frame [OF device.refl] v] by (simp add: same_device_def)
  moreover have "vdev u = vdev v"
    using on_returnD [OF device.authenticated_notice_frame [OF _ _ device.refl] u(1)] by (simp add: same_device_def)
  moreover obtain ms where ms: "notices v = notices w @ ms" "\<forall>m\<in>set ms. about_images m"
    using on_returnD [OF images.authenticate_body_frame [OF images.refl] v] by (auto simp: says_only_def)
  moreover have "not_authenticated m" if "about_images m" for m using that by (cases m) simp_all
  moreover note authenticated_notice_exact [OF u(1)]
  ultimately show ?thesis
    unfolding run returns_Some
    apply (elim exE conjE)
    subgoal for hat by (intro conjI exI [of _ "ms @ [Msg_acquired FINGERPRINT_ACQUIRED_GOOD]"] exI [of _ hat]) auto
    done
qed

lemma enroll_thread:
  assumes E: "willing E" "attended E" "images_suffice E n" and w: "in_state (\<lambda>_. False) fs STATE_ENROLL g w" "app_ok w"
    and k: "find_free fs slot_indices = k" "k \<le> MAX_NUM_FINGERS" and suid: "secure_user_id (vdev w) \<noteq> 0"
  shows "returns (vcs_enroll E w) (\<lambda>u. \<exists>f. ready (fs(k := f)) u \<and> exist f \<and> vdev u = vdev w \<and> counted_to k 0 w u)"
proof -
  obtain u where u: "vcs_enroll E w = Some u" "counted_to k 0 w u" "exist (finger (tz u) k)" "only_slot k w u"
      "settled u" "tz_state (tz u) = STATE_IDLE" "\<not> tz_init (tz u)"
    using enroll_completed_run [OF E w(1) k suid] by (auto elim!: returns_obtain)
  have "finger (tz u) = fs(k := finger (tz u) k)"
    using u(4) w(1) by (auto simp: only_slot_def in_state_def going_def)
  moreover have "app_ok u"
    using on_returnD [OF app.vcs_enroll_frame [OF app.refl] u(1)] w(2) by (simp add: keeps_app_def)
  moreover have "vdev u = vdev w"
    using on_returnD [OF device.vcs_enroll_frame [OF device.refl] u(1)] by (simp add: same_device_def)
  ultimately show ?thesis using u by (auto simp: ready_def)
qed

subsection \<open>Sessions, one after the other\<close>

text \<open>The authentications a list of messages reports: the slot and the operation.\<close>

fun authentication :: "fingerprint_msg \<Rightarrow> (int \<times> u64) list" where
  "authentication (Msg_authenticated k hat) = [(k, hat_challenge hat)]"
| "authentication _ = []"

definition authentications :: "fingerprint_msg list \<Rightarrow> (int \<times> u64) list" where
  "authentications ms = concat (map authentication ms)"

lemma authentications_append [simp]: "authentications (xs @ ys) = authentications xs @ authentications ys"
  by (simp add: authentications_def)

lemma authentications_none: "(\<And>m. m \<in> set ms \<Longrightarrow> not_authenticated m) \<Longrightarrow> authentications ms = []"
proof -
  have "not_authenticated m \<Longrightarrow> authentication m = []" for m by (cases m) auto
  then show "(\<And>m. m \<in> set ms \<Longrightarrow> not_authenticated m) \<Longrightarrow> authentications ms = []"
    by (auto simp: authentications_def)
qed

lemma says_none: "says_only not_authenticated w u \<Longrightarrow> authentications (notices u) = authentications (notices w)"
  by (auto simp: says_only_def authentications_none)

lemma runs_append: "runs E w as v \<Longrightarrow> runs E v bs u \<Longrightarrow> runs E w (as @ bs) u"
proof (induction bs arbitrary: u rule: rev_induct)
  case (snoc b bs)
  from snoc.prems(2) obtain x where "runs E v bs x" "perform E b x = Some u" by (auto elim: runs_snocE)
  with snoc.IH [OF snoc.prems(1)] runs_more [of E w "as @ bs" x b u] show ?case by simp
qed (auto elim: runs_NilE)

lemma runs_two: "perform E a w = Some v \<Longrightarrow> perform E b v = Some u \<Longrightarrow> runs E w [a, b] u"
  by (rule runs_more [OF runs_more [OF runs_none], of E a w v b u, simplified])

lemma authentication_run:
  assumes E: "willing E" "attended E" and w: "ready fs w"
    and i: "names_template E i" "i < length (enrolled fs)"
  shows "\<exists>u. runs E w [Authenticate op, Thread_authenticate] u \<and> ready fs u \<and>
    secure_user_id (vdev u) = secure_user_id (vdev w) \<and>
    authentications (notices u) = authentications (notices w) @ [(int (enrolled fs ! i), op)]"
proof -
  obtain v g where v: "fingerprint_authenticate E op w = Some (0, v)" "vdev v = (vdev w)\<lparr>op_id := op\<rparr>"
      "in_state (\<lambda>_. False) fs STATE_SCAN g v"
    using authenticate_session [OF E(1) w, of op] by (auto elim!: returns_obtain)
  have "app_ok v"
    using on_returnD [OF app.entry_frame(2) [OF app.refl] v(1)] w by (simp add: keeps_app_def ready_def)
  then obtain u ms hat where u: "vcs_authenticate E v = Some u" "ready fs u" "vdev u = vdev v"
      "notices u = notices v @ ms @ [Msg_authenticated (int (enrolled fs ! i)) hat]"
      "\<forall>m\<in>set ms. not_authenticated m" "hat_challenge hat = op_id (vdev v)"
    using authenticate_thread [OF E v(3) _ i] by (auto elim!: returns_obtain)
  have "authentications (notices v) = authentications (notices w)"
    using on_returnD [OF enrolling.entry_frame(2) [OF enrolling.refl] v(1)] by (simp add: says_none)
  moreover have "authentications ms = []" using u(5) by (simp add: authentications_none)
  moreover have "runs E w [Authenticate op, Thread_authenticate] u"
    using v(1) u(1) by (intro runs_two [where w = w and v = v]) simp_all
  ultimately show ?thesis using u v(2) by (auto simp: authentications_def)
qed

lemma enrollment_run:
  assumes E: "willing E" "attended E" "images_suffice E n" and w: "ready fs w"
    and hat: "hat_version hat = hw_auth_token_version E" "hat_challenge hat = challenge (vdev w)" "hat_user_id hat \<noteq> 0"
    and k: "find_free fs slot_indices = k" "k \<le> MAX_NUM_FINGERS"
  shows "\<exists>u f. runs E w [Enroll (Some hat) 0, Thread_enroll] u \<and> ready (fs(k := f)) u \<and> exist f \<and>
    secure_user_id (vdev u) = hat_user_id hat \<and> challenge (vdev u) = challenge (vdev w) \<and>
    authentications (notices u) = authentications (notices w)"
proof -
  obtain v g where v: "fingerprint_enroll E (Some hat) 0 w = Some (0, v)"
      "vdev v = (vdev w)\<lparr>secure_user_id := hat_user_id hat, user_id := hat_user_id hat\<rparr>"
      "in_state (\<lambda>_. False) fs STATE_ENROLL g v"
    using enroll_session [OF E(1) w hat(1,2)] k by (auto elim!: returns_obtain)
  have "app_ok v"
    using on_returnD [OF app.fingerprint_enroll_frame [OF app.refl] v(1)] w by (simp add: keeps_app_def ready_def)
  then obtain u f where u: "vcs_enroll E v = Some u" "ready (fs(k := f)) u" "exist f" "vdev u = vdev v"
    using enroll_thread [OF E v(3) _ k] v(2) hat(3) by (auto elim!: returns_obtain)
  have "authentications (notices v) = authentications (notices w)"
    using on_returnD [OF enrolling.fingerprint_enroll_frame [OF enrolling.refl] v(1)] by (simp add: says_none)
  moreover have "authentications (notices u) = authentications (notices v)"
    using on_returnD [OF enrolling.vcs_enroll_frame [OF enrolling.refl] u(1)] by (simp add: says_none)
  moreover have "runs E w [Enroll (Some hat) 0, Thread_enroll] u"
    using v(1) u(1) by (intro runs_two [where w = w and v = v]) simp_all
  ultimately show ?thesis using u v(2) by (intro exI [of _ u] exI [of _ f]) simp
qed

lemma sessions_run:
  assumes E: "willing E" "attended E"
    and i: "names_template E i" "i < length (enrolled fs)"
  shows "ready fs w \<Longrightarrow> \<exists>u. runs E w (concat (map (\<lambda>op. [Authenticate op, Thread_authenticate]) ops)) u \<and> ready fs u \<and>
    authentications (notices u) = authentications (notices w) @ map (\<lambda>op. (int (enrolled fs ! i), op)) ops"
proof (induction ops arbitrary: w)
  case Nil
  then show ?case using runs_none by fastforce
next
  case (Cons op ops)
  obtain v where v: "runs E w [Authenticate op, Thread_authenticate] v" "ready fs v"
      "authentications (notices v) = authentications (notices w) @ [(int (enrolled fs ! i), op)]"
    using authentication_run [OF E Cons.prems i] by blast
  obtain u where u: "runs E v (concat (map (\<lambda>op. [Authenticate op, Thread_authenticate]) ops)) u" "ready fs u"
      "authentications (notices u) = authentications (notices v) @ map (\<lambda>op. (int (enrolled fs ! i), op)) ops"
    using Cons.IH [OF v(2)] by blast
  from runs_append [OF v(1) u(1)] u v(3) show ?case by auto
qed

lemma length_enrolled_new:
  assumes "1 \<le> k" "k \<le> MAX_NUM_FINGERS" "\<not> exist (fs k)" "exist f"
  shows "length (enrolled (fs(k := f))) = Suc (length (enrolled fs))"
proof -
  have "set (enrolled (fs(k := f))) = insert k (set (enrolled fs))" "k \<notin> set (enrolled fs)"
    using assms by (auto simp: set_enrolled split: if_splits)
  moreover have "distinct (enrolled fs)" for fs by (simp add: enrolled_def slot_indices_def)
  ultimately show ?thesis by (metis card_insert_disjoint distinct_card List.finite_set)
qed

text \<open>C5: a device in use.  Let the application accept every command, report the finger gone when the
  sensor was read, say from some call on that the images suffice, and name the same template, counted
  by its number, in every match; let somebody attend to the sensor and no other thread do anything
  else.  From a device at rest with a free slot: an enrolment without a timeout, for a user, with a
  token of the right version and the device's challenge, its thread, and then any number of
  authentications, each followed by its thread, all return; the device is at rest again with the new
  finger in the free slot, and the authentications reported are, in order and once each, the operations
  asked for, with the slot of the finger the application has named.\<close>

theorem device_in_use:
  assumes "willing E" "attended E" "images_suffice E n" and "ready fs w"
    and "hat_version hat = hw_auth_token_version E" "hat_challenge hat = challenge (vdev w)" "hat_user_id hat \<noteq> 0"
    and "find_free fs slot_indices \<le> MAX_NUM_FINGERS"
    and "names_template E i" "i \<le> length (enrolled fs)"
  shows "\<exists>u f. runs E w ([Enroll (Some hat) 0, Thread_enroll] @
      concat (map (\<lambda>op. [Authenticate op, Thread_authenticate]) ops)) u \<and>
    ready (fs(find_free fs slot_indices := f)) u \<and> exist f \<and>
    authentications (notices u) = authentications (notices w) @
      map (\<lambda>op. (int (enrolled (fs(find_free fs slot_indices := f)) ! i), op)) ops"
proof -
  let ?k = "find_free fs slot_indices"
  obtain v f where v: "runs E w [Enroll (Some hat) 0, Thread_enroll] v" "ready (fs(?k := f)) v" "exist f"
      "authentications (notices v) = authentications (notices w)"
    using enrollment_run [OF assms(1-7) HOL.refl assms(8)] by blast
  have "i < length (enrolled (fs(?k := f)))"
    using length_enrolled_new [of ?k fs f] find_free_slot [OF assms(8)] assms(8,10) v(3) by simp
  from sessions_run [OF assms(1,2,9) this v(2), of ops] obtain u where
      "runs E v (concat (map (\<lambda>op. [Authenticate op, Thread_authenticate]) ops)) u" "ready (fs(?k := f)) u"
      "authentications (notices u) = authentications (notices v) @ map (\<lambda>op. (int (enrolled (fs(?k := f)) ! i), op)) ops"
    by blast
  with runs_append [OF v(1)] v(3,4) show ?thesis by (intro exI [of _ u] exI [of _ f]) simp
qed

definition resting_world :: world where
  "resting_world = (example_world STATE_IDLE)\<lparr>tz := zero_tz\<lparr>finger := one_finger\<rparr>\<rparr>"

lemma resting_ready: "ready one_finger resting_world"
  by (simp add: ready_def settled_def app_ok_def km_ok_def resting_world_def example_world_def zero_tz_def
      zero_device_def CALIBRATE_DATA_MAX_LENGTH_def)

definition user_token :: hw_auth_token where
  "user_token = foreign_token\<lparr>hat_challenge := 0\<rparr>"

theorem device_in_use_witness:
  "\<exists>u. runs session_env resting_world [Enroll (Some user_token) 0, Thread_enroll, Authenticate 7, Thread_authenticate,
      Authenticate 8, Thread_authenticate] u \<and>
    authentications (notices u) = [(1, 7), (1, 8)]"
proof -
  have i: "names_template session_env 0"
    by (simp add: names_template_def session_env_def good_env_def good_response_def last_image_def get32_def off_defs)
  have hat: "hat_version user_token = hw_auth_token_version session_env"
    "hat_challenge user_token = challenge (vdev resting_world)" "hat_user_id user_token \<noteq> 0"
    by (simp_all add: user_token_def foreign_token_def session_env_def good_env_def resting_world_def example_world_def
        zero_device_def)
  have new: "enrolled (one_finger(1 := f)) ! 0 = 1" if "exist f" for f
    using that by (simp add: enrolled_def slot_indices_eq)
  have none: "authentications (notices resting_world) = []"
    by (simp add: resting_world_def example_world_def notices_def map_filter_simps authentications_def)
  from device_in_use [OF session_env_fair resting_ready hat _ i, of "[7, 8]"] new none show ?thesis
    by (fastforce simp: free_one MAX_NUM_FINGERS_def)
qed

subsection \<open>The challenge after an enrolment\<close>

text \<open>C22: what \<open>fingerprint_post_enroll\<close> invalidates.  After it a token without the fingerprint bit is
  refused with \<open>-EPERM\<close>, whatever challenge it carries, except the challenge 0: such a token is
  accepted and the enrolment is started, although no challenge has been given out.\<close>

theorem post_enroll_accepts_zero:
  assumes "willing E" and "ready fs w" and "find_free fs slot_indices \<le> MAX_NUM_FINGERS"
    and "hat_version hat = hw_auth_token_version E" and "(hat_authenticator_type hat AND hw_auth_fingerprint E) = 0"
  shows "\<exists>u. fingerprint_post_enroll E w = Some (0, u) \<and>
    (if hat_challenge hat = 0 then \<exists>v. fingerprint_enroll E (Some hat) 0 u = Some (0, v) \<and> tz_state (tz v) = STATE_ENROLL
     else fingerprint_enroll E (Some hat) 0 u = Some (- EPERM, u))"
proof -
  let ?v = "upd_dev (\<lambda>d. d\<lparr>challenge := 0\<rparr>) ((log_call (Mutex_lock Dev_lock) w)\<lparr>held := (\<lambda>_. False)(Dev_lock := True)\<rparr>)"
  let ?u = "?v\<lparr>held := (\<lambda>_. False)\<rparr>"
  have held: "held w = (\<lambda>_. False)" using assms(2) by (auto simp: ready_def settled_def)
  then have run: "fingerprint_post_enroll E w = Some (0, ?u)"
    by (simp add: fingerprint_post_enroll_def willing_lock [OF assms(1)] Let_def unlock_def upd_dev_def fun_upd_idem)
  have u: "ready fs ?u" "challenge (vdev ?u) = 0"
    using assms(2) by (simp_all add: ready_def settled_def app_ok_def km_ok_def upd_dev_def)
  show ?thesis
  proof (cases "hat_challenge hat = 0")
    case True
    have "\<exists>v g. fingerprint_enroll E (Some hat) 0 ?u = Some (0, v) \<and> in_state (\<lambda>_. False) fs STATE_ENROLL g v"
      using enroll_session [OF assms(1) u(1) assms(4) _ assms(3)] True u(2) by (auto elim!: returns_obtain)
    with True run show ?thesis by (auto simp: in_state_def)
  next
    case False
    with u(2) assms(4,5) have "fingerprint_enroll E (Some hat) 0 ?u = Some (- EPERM, ?u)"
      by (simp add: fingerprint_enroll_def enroll_accept_user_def)
    with False run show ?thesis by auto
  qed
qed

theorem post_enroll_accepts_zero_witness:
  "\<exists>u v. fingerprint_post_enroll session_env resting_world = Some (0, u) \<and>
     fingerprint_enroll session_env (Some user_token) 0 u = Some (0, v) \<and> tz_state (tz v) = STATE_ENROLL"
proof -
  have "hat_version user_token = hw_auth_token_version session_env"
    "(hat_authenticator_type user_token AND hw_auth_fingerprint session_env) = 0" "hat_challenge user_token = 0"
    by (simp_all add: user_token_def foreign_token_def session_env_def good_env_def)
  then show ?thesis
    using post_enroll_accepts_zero [OF session_env_fair(1) resting_ready, of user_token]
    by (auto simp: free_one MAX_NUM_FINGERS_def)
qed

end
