(* ===== verification/Fp_Split.thy ===== *)
theory Fp_Split
  imports Fp_Session
begin

text \<open>
  A removal in the middle of a match.  The authenticating thread holds no lock between the answer of
  the application, which names a template by its number among those that were sent, and the search
  for the slot of that number among the fingers enrolled by then.  The thread is cut there into two
  halves, and the entry point run between them.
\<close>

subsection \<open>The thread in two halves\<close>

text \<open>Up to the answer of the first match, when it is one: \<open>fake_fid\<close> and the state.\<close>

definition authenticate_to_match :: "env \<Rightarrow> world \<Rightarrow> (int \<times> world) option" where
  "authenticate_to_match E w = do {
     let resp_2x = QSEECOM_ALIGN sizeof_5x_cmd;
     _ \<leftarrow> ion_sbuffer w;
     (_, w) \<leftarrow> send_vendor_unknown E vendorUnknown0 w;
     (s, w) \<leftarrow> get_tz_state E w;
     if s \<noteq> STATE_SCAN then None
     else do {
       (r, w) \<leftarrow> vcs_start_capture E 0 w;
       if r = -1 then None
       else do {
         (r, w) \<leftarrow> send_match E w;
         if r \<noteq> 0 \<or> result_of resp_2x w \<noteq> 0 \<or> data_of resp_2x 22 w = 2 ^ 31 - 1 then None
         else Some (data_of resp_2x 22 w + 1, w) } } }"

text \<open>From the search for the slot to the end.\<close>

definition authenticate_from_match :: "env \<Rightarrow> int \<Rightarrow> world \<Rightarrow> world option" where
  "authenticate_from_match E fake_fid w = do {
     let fingerindex = find_match (finger (tz w)) slot_indices 0 fake_fid;
     (_, w) \<leftarrow> send_payload_release E fingerindex w;
     let w = snd (sensor_uninit w);
     (_, w) \<leftarrow> vcs_uninit E w;
     w \<leftarrow> set_tz_state E STATE_IDLE w;
     if fingerindex \<noteq> 0 then send_authenticated_notice E (int fingerindex) w else Some w }"

lemma authenticate_halves:
  assumes "authenticate_to_match E w = Some (fake_fid, v)"
  shows "vcs_authenticate E w = authenticate_from_match E fake_fid v"
proof -
  let ?r = "QSEECOM_ALIGN sizeof_5x_cmd"
  obtain x1 v1 v2 x3 v3 where v: "ion_sbuffer w = Some ()" "send_vendor_unknown E vendorUnknown0 w = Some (x1, v1)"
      "get_tz_state E v1 = Some (STATE_SCAN, v2)" "vcs_start_capture E 0 v2 = Some (x3, v3)" "x3 \<noteq> -1"
      "send_match E v3 = Some (0, v)" "result_of ?r v = 0" "data_of ?r 22 v \<noteq> 2 ^ 31 - 1" "fake_fid = data_of ?r 22 v + 1"
    using assms by (auto simp: authenticate_to_match_def bind_eq_Some_conv Let_def split: if_splits)
  then have "authenticate_loop E v1 = Option.bind (send_payload_release E (find_match (finger (tz v)) slot_indices 0 fake_fid) v)
      (\<lambda>(_, u). Some (find_match (finger (tz v)) slot_indices 0 fake_fid, u))"
    by (simp add: authenticate_loop.simps [of E v1] Let_def del: QSEECOM_ALIGN_values)
  with v(1,2) show ?thesis
    by (cases "send_payload_release E (find_match (finger (tz v)) slot_indices 0 fake_fid) v")
       (auto simp: vcs_authenticate_def authenticate_from_match_def Let_def)
qed

context match_frame begin

lemma to_match_frame: "R w w1 \<Longrightarrow> on_return (authenticate_to_match E w1) (\<lambda>(_, u). R w u)"
  unfolding authenticate_to_match_def Let_def
  by (intro bind_unit bind_pair [where w = w] if_rule ret_pair get_tz_state_frame send_frame vcs_start_capture_frame
      send_match_frame on_return_None; simp)

lemma from_match_frame:
  "R w w1 \<Longrightarrow> on_return (do {
     (_, w) \<leftarrow> send_payload_release E k w1;
     (_, w) \<leftarrow> vcs_uninit E (snd (sensor_uninit w));
     set_tz_state E STATE_IDLE w }) (R w)"
  by (intro bind_pair [where w = w] send_frame sessions after set_tz_state_frame; simp)

end

subsection \<open>The halves return\<close>

lemma to_match_returns:
  assumes E: "willing E" "attended E" and w: "in_state (\<lambda>_. False) fs STATE_SCAN g w"
    and i: "names_template E i"
  shows "returns (authenticate_to_match E w) (\<lambda>(k, v). k = int i + 1 \<and> in_state (\<lambda>_. False) fs STATE_SCAN False v)"
proof -
  have "ion_sbuffer w = Some ()" using w by (auto simp: in_state_def intro: ion_sbuffer_going)
  then show ?thesis
    unfolding authenticate_to_match_def Let_def
    apply simp
    apply (rule returns_bind_pair [OF sends_in_state(4) [OF E(1) w]], elim conjE)
    apply (rule returns_bind_pair [OF get_in_state [OF E(1)]], assumption, simp)
    apply (elim conjE, simp)
    apply (rule returns_bind_pair [OF vcs_start_capture_ideal [OF E(1)]], assumption, simp add: E(2), simp, simp)
    apply (elim conjE, simp)
    apply (rule returns_bind_pair [OF send_match_in_state [OF E(1)]], assumption)
    apply (use i in \<open>auto simp: names_template_def\<close>)
    done
qed

text \<open>The second half returns whatever the slots are by then, and reports the slot it finds.\<close>

lemma from_match_returns:
  assumes E: "willing E" and w: "going (\<lambda>_. False) fs w"
  shows "returns (authenticate_from_match E k w) (\<lambda>u. authentications (notices u) = authentications (notices w) @
    (if find_match fs slot_indices 0 k = 0 then [] else [(int (find_match fs slot_indices 0 k), op_id (vdev w))]))"
proof -
  let ?f = "find_match fs slot_indices 0 k"
  have fs: "finger (tz w) = fs" using w by (simp add: going_def)
  have "in_state (\<lambda>_. False) fs (tz_state (tz w)) (sn_signal (sensor w)) w" using w by (simp add: in_state_def)
  from sends_in_state(5) [OF E this, of ?f] obtain v1 where v1: "send_payload_release E ?f w = Some (0, v1)" "going (\<lambda>_. False) fs v1"
    by (auto simp: in_state_def elim!: returns_obtain)
  have "settled (snd (sensor_uninit v1))" "qhandle (tz (snd (sensor_uninit v1)))"
    using v1(2) by (simp_all add: settled_def going_def sensor_power_eqs)
  from settled_uninit [OF this, of E] obtain x2 v2 where v2: "vcs_uninit E (snd (sensor_uninit v1)) = Some (x2, v2)" "settled v2"
    by (auto elim!: returns_obtain)
  obtain v3 where v3: "set_tz_state E STATE_IDLE v2 = Some v3" "settled v3"
    using settled_calls(3) [OF v2(2)] by (auto elim!: returns_obtain)
  obtain v4 where v4: "send_authenticated_notice E (int ?f) v3 = Some v4"
    using settled_notice [OF v3(2)] by (auto elim!: returns_obtain)
  have body: "do {
     (_, w) \<leftarrow> send_payload_release E ?f w;
     (_, w) \<leftarrow> vcs_uninit E (snd (sensor_uninit w));
     set_tz_state E STATE_IDLE w } = Some v3"
    using v1(1) v2(1) v3(1) by simp
  have "vdev v3 = vdev w"
    using on_returnD [OF device.from_match_frame [OF device.refl] body] by (simp add: same_device_def)
  moreover have "authentications (notices v3) = authentications (notices w)"
    using on_returnD [OF enrolling.from_match_frame [OF enrolling.refl] body] by (simp add: says_none)
  moreover note authenticated_notice_exact [OF v4]
  ultimately show ?thesis
    using v1(1) v2(1) v3(1) v4 by (auto simp: authenticate_from_match_def fs authentications_def)
qed

subsection \<open>A finger removed in between\<close>

lemma filter_other: "distinct xs \<Longrightarrow> j < length xs \<Longrightarrow> filter (\<lambda>i. i \<noteq> xs ! j) xs = take j xs @ drop (Suc j) xs"
proof (induction xs arbitrary: j)
  case (Cons x xs)
  have "filter (\<lambda>i. i \<noteq> x) xs = xs" using Cons.prems(1) by (auto simp: filter_id_conv)
  with Cons show ?case by (cases j) auto
qed simp

lemma enrolled_removed:
  assumes "j < length (enrolled fs)"
  shows "enrolled (fs(enrolled fs ! j := zero_finger)) = take j (enrolled fs) @ drop (Suc j) (enrolled fs)"
proof -
  have "distinct (enrolled fs)" by (simp add: enrolled_def slot_indices_def)
  moreover have "enrolled (fs(k := zero_finger)) = filter (\<lambda>i. i \<noteq> k) (enrolled fs)" for k
    by (auto simp: enrolled_def zero_finger_def intro: filter_cong)
  ultimately show ?thesis using assms by (simp add: filter_other)
qed

lemma removal_device: "fingerprint_remove E dn fid w = Some (r, u) \<Longrightarrow> vdev u = vdev w"
  using on_returnD [OF device.fingerprint_remove_frame [OF device.refl]] by (force simp: same_device_def)

interpretation enrolling: removal_frame "says_only not_authenticated" not_authenticated
  by unfold_locales simp_all

text \<open>C24: removing a finger during a match authenticates another finger.  The application names the \<open>i\<close>-th of
  the templates it was sent; a \<open>fingerprint_remove\<close> of an earlier slot runs before the thread
  searches for that slot, and is accepted.  The thread then reports the enrolled slot after the one
  that matched, as the answer to the operation asked for, or reports nothing when there is none.  Left
  alone, the second half is the rest of \<open>vcs_authenticate\<close>, which reports the slot that matched.\<close>

theorem removal_misdirects_match:
  assumes "willing E" "attended E" and "in_state (\<lambda>_. False) fs STATE_SCAN g w"
    and "names_template E i" and "j < i" "i < length (enrolled fs)"
  shows "\<exists>v u0 r x u. authenticate_to_match E w = Some (int i + 1, v) \<and>
    authenticate_from_match E (int i + 1) v = Some u0 \<and> vcs_authenticate E w = Some u0 \<and>
    authentications (notices u0) = authentications (notices w) @ [(int (enrolled fs ! i), op_id (vdev w))] \<and>
    fingerprint_remove E False (word_of_nat (enrolled fs ! j)) v = Some (r, x) \<and>
    authenticate_from_match E (int i + 1) x = Some u \<and>
    authentications (notices u) = authentications (notices w) @
      (if Suc i < length (enrolled fs) then [(int (enrolled fs ! Suc i), op_id (vdev w))] else [])"
proof -
  let ?k = "enrolled fs ! j"
  have pos: "enrolled fs ! n \<noteq> 0" if "n < length (enrolled fs)" for n
    using nth_mem [OF that] by (auto simp: set_enrolled)
  have "?k \<in> set (enrolled fs)" using assms(5,6) by simp
  then have k: "1 \<le> ?k" "?k \<le> MAX_NUM_FINGERS" by (simp_all add: set_enrolled)
  obtain v where v: "authenticate_to_match E w = Some (int i + 1, v)" "going (\<lambda>_. False) fs v"
    using to_match_returns [OF assms(1-4)] by (auto simp: in_state_def elim!: returns_obtain)
  have same: "vdev v = vdev w" "authentications (notices v) = authentications (notices w)"
    using on_returnD [OF device.to_match_frame [OF device.refl] v(1)] on_returnD [OF enrolling.to_match_frame [OF enrolling.refl] v(1)]
    by (simp_all add: same_device_def says_none)
  obtain u0 where u0: "authenticate_from_match E (int i + 1) v = Some u0"
      "authentications (notices u0) = authentications (notices v) @ [(int (enrolled fs ! i), op_id (vdev v))]"
    using from_match_returns [OF assms(1) v(2), of "int i + 1"] assms(6) pos [OF assms(6)]
    by (auto simp: find_match_nth elim!: returns_obtain)
  obtain r x where x: "fingerprint_remove E False (word_of_nat ?k) v = Some (r, x)" "going (\<lambda>_. False) (fs(?k := zero_finger)) x"
    using remove_one_going [OF v(2) k, of E] by (auto elim!: returns_obtain)
  have removed: "vdev x = vdev v" "authentications (notices x) = authentications (notices v)"
    using removal_device [OF x(1)] on_returnD [OF enrolling.fingerprint_remove_frame [OF enrolling.refl] x(1)]
    by (simp_all add: says_none)
  have "enrolled (fs(?k := zero_finger)) = take j (enrolled fs) @ drop (Suc j) (enrolled fs)"
    using assms(5,6) by (simp add: enrolled_removed)
  then have "find_match (fs(?k := zero_finger)) slot_indices 0 (int i + 1) =
      (if Suc i < length (enrolled fs) then enrolled fs ! Suc i else 0)"
    using assms(5,6) by (auto simp: find_match_nth nth_append)
  then obtain u where u: "authenticate_from_match E (int i + 1) x = Some u"
      "authentications (notices u) = authentications (notices x) @
        (if Suc i < length (enrolled fs) then [(int (enrolled fs ! Suc i), op_id (vdev x))] else [])"
    using from_match_returns [OF assms(1) x(2), of "int i + 1"] pos [of "Suc i"] by (auto elim!: returns_obtain split: if_splits)
  show ?thesis
    using v(1) u0 authenticate_halves [OF v(1)] x(1) u same removed by (intro exI conjI) (assumption | simp)+
qed

definition three_fingers :: "nat \<Rightarrow> finger_t" where
  "three_fingers = one_finger(4 := one_finger 2, 5 := one_finger 2)"

text \<open>An application that finds every image to match the second of the templates.\<close>

definition second_env :: env where
  "second_env = session_env\<lparr>response := (\<lambda>t i. if i = off_result_data 22 then 1 else response session_env t i)\<rparr>"

theorem removal_misdirects_match_witness:
  "\<exists>v x u. authenticate_to_match second_env (upd_tz (\<lambda>t. t\<lparr>finger := three_fingers\<rparr>) (example_world STATE_SCAN)) = Some (2, v) \<and>
     authentications (notices (the (authenticate_from_match second_env 2 v))) = [(4, 0)] \<and>
     fingerprint_remove second_env False 2 v = Some x \<and>
     authenticate_from_match second_env 2 (snd x) = Some u \<and> authentications (notices u) = [(5, 0)]"
proof -
  have e: "enrolled three_fingers = [2, 4, 5]"
    by (simp add: enrolled_def slot_indices_eq three_fingers_def one_finger_def zero_finger_def)
  let ?w = "upd_tz (\<lambda>t. t\<lparr>finger := three_fingers\<rparr>) (example_world STATE_SCAN)"
  have w: "in_state (\<lambda>_. False) three_fingers STATE_SCAN True ?w"
    using example_in_state [of STATE_SCAN] by (simp add: in_state_def going_def upd_tz_def)
  have "at_sensor t \<Longrightarrow> waits t" for t by (cases t rule: at_sensor.cases) simp_all
  moreover have "\<not> (adds_image t \<and> is_command vfmCaptureReadData t)" for t
    using one_command [of vfmEnrollAddImage t vfmCaptureReadData] by auto
  ultimately have "willing second_env"
    by (auto simp: willing_def calm_def cooperative_def second_env_def session_env_def good_env_def good_response_def
        last_image_def get32_def off_defs CALIBRATE_DATA_MAX_LENGTH_def)
  moreover have "attended second_env" using session_env_fair(2) by (simp add: attended_def second_env_def)
  moreover have "names_template second_env 1"
    by (simp add: names_template_def second_env_def session_env_def good_env_def good_response_def last_image_def get32_def off_defs)
  moreover have "authentications (notices ?w) = []" "op_id (vdev ?w) = 0"
    by (simp_all add: example_world_def upd_tz_def zero_device_def notices_def map_filter_simps authentications_def)
  ultimately show ?thesis
    using removal_misdirects_match [OF _ _ w, of second_env 1 0] by (auto simp: e)
qed

end
