(* ===== verification/Fp_Interleave.thy ===== *)
theory Fp_Interleave
  imports Fp_Split
begin

text \<open>
  Entry points in the middle of an enrolment.  The enrolling thread is cut in two, once where it has
  announced that it is at rest and once behind its first accepted image; what is called there is
  accepted, and the rest of the thread then defeats it.
\<close>

subsection \<open>The thread in two halves\<close>

text \<open>Up to the state IDLE that the thread announces when it leaves.\<close>

definition enroll_to_idle :: "env \<Rightarrow> world \<Rightarrow> world option" where
  "enroll_to_idle E w = do {
     let resp = QSEECOM_ALIGN sizeof_base_cmd;
     _ \<leftarrow> ion_sbuffer w;
     let idx = find_free (finger (tz w)) slot_indices;
     (r, w) \<leftarrow> send_enroll_begin E idx w;
     if r \<noteq> 0 \<or> result_of resp w \<noteq> 0 then None
     else do {
       (r, w) \<leftarrow> send_vendor_unknown E vendorUnknownA w;
       if r \<noteq> 0 \<or> result_of resp w \<noteq> 0 then None
       else do {
         (x, w) \<leftarrow> enroll_loop E idx 8 w;
         if x = Return_null then None
         else do {
           w \<leftarrow> (if x = Enroll_finish then enroll_finish E idx w else Some w);
           set_tz_state E STATE_IDLE w } } } }"

definition enroll_from_idle :: "env \<Rightarrow> world \<Rightarrow> world option" where
  "enroll_from_idle E w = do {
     let w = snd (sensor_uninit w);
     (_, w) \<leftarrow> vcs_uninit E w;
     Some w }"

lemma enroll_idle_halves:
  assumes "enroll_to_idle E w = Some v"
  shows "vcs_enroll E w = enroll_from_idle E v"
proof -
  let ?r = "QSEECOM_ALIGN sizeof_base_cmd" and ?k = "find_free (finger (tz w)) slot_indices"
  obtain v1 v2 x v3 v4 where v: "ion_sbuffer w = Some ()" "send_enroll_begin E ?k w = Some (0, v1)" "result_of ?r v1 = 0"
      "send_vendor_unknown E vendorUnknownA v1 = Some (0, v2)" "result_of ?r v2 = 0" "enroll_loop E ?k 8 v2 = Some (x, v3)"
      "x \<noteq> Return_null" "(if x = Enroll_finish then enroll_finish E ?k v3 else Some v3) = Some v4"
      "set_tz_state E STATE_IDLE v4 = Some v"
    using assms by (auto simp: enroll_to_idle_def bind_eq_Some_conv Let_def split: if_splits)
  then have "enroll_exit_to E ?k x v3 = enroll_from_idle E v"
    by (cases x) (auto simp: enroll_out_def enroll_from_idle_def Let_def)
  with v(1-6) show ?thesis by (simp add: vcs_enroll_def Let_def)
qed

text \<open>Up to the first image that is accepted, when it is not the last: the slot, the images still to
  take, and the state.\<close>

definition enroll_to_image :: "env \<Rightarrow> world \<Rightarrow> (nat \<times> int \<times> world) option" where
  "enroll_to_image E w = do {
     let resp = QSEECOM_ALIGN sizeof_base_cmd;
     let resp2 = QSEECOM_ALIGN sizeof_int;
     _ \<leftarrow> ion_sbuffer w;
     let idx = find_free (finger (tz w)) slot_indices;
     (r, w) \<leftarrow> send_enroll_begin E idx w;
     if r \<noteq> 0 \<or> result_of resp w \<noteq> 0 then None
     else do {
       (r, w) \<leftarrow> send_vendor_unknown E vendorUnknownA w;
       if r \<noteq> 0 \<or> result_of resp w \<noteq> 0 then None
       else do {
         (s, w) \<leftarrow> get_tz_state E w;
         if s \<noteq> STATE_ENROLL then None
         else do {
           (r, w) \<leftarrow> vcs_start_capture E 0 w;
           if r = -1 then None
           else do {
             (r, w) \<leftarrow> send_enroll_add_image E w;
             if r \<noteq> 0 \<or> result_of resp2 w \<noteq> 0 then None
             else do {
               let count = enroll_remaining 8 (data_of resp2 2 w);
               w \<leftarrow> send_enroll_notice E (int idx) count w;
               if count = 0 then None else Some (idx, count, w) } } } } } }"

definition enroll_from_image :: "env \<Rightarrow> nat \<Rightarrow> int \<Rightarrow> world \<Rightarrow> world option" where
  "enroll_from_image E idx count w = do {
     (x, w) \<leftarrow> enroll_loop E idx count w;
     enroll_exit_to E idx x w }"

lemma enroll_image_halves:
  assumes "enroll_to_image E w = Some (k, c, v)"
  shows "vcs_enroll E w = enroll_from_image E k c v"
proof -
  let ?r = "QSEECOM_ALIGN sizeof_base_cmd" and ?i = "QSEECOM_ALIGN sizeof_int"
  obtain v1 v2 v3 x v4 v5 where v: "ion_sbuffer w = Some ()" "send_enroll_begin E k w = Some (0, v1)" "result_of ?r v1 = 0"
      "send_vendor_unknown E vendorUnknownA v1 = Some (0, v2)" "result_of ?r v2 = 0" "get_tz_state E v2 = Some (STATE_ENROLL, v3)"
      "vcs_start_capture E 0 v3 = Some (x, v4)" "x \<noteq> -1" "send_enroll_add_image E v4 = Some (0, v5)" "result_of ?i v5 = 0"
      "c = enroll_remaining 8 (data_of ?i 2 v5)" "send_enroll_notice E (int k) c v5 = Some v" "c \<noteq> 0"
      "k = find_free (finger (tz w)) slot_indices"
    using assms by (auto simp: enroll_to_image_def bind_eq_Some_conv Let_def split: if_splits)
  have "enroll_loop E k 8 v2 = enroll_loop E k c v"
    by (subst enroll_loop.simps)
      (use v(6-10,12,13) in \<open>simp add: v(11) [symmetric] Let_def del: QSEECOM_ALIGN_values\<close>)
  with v(1-5,14) show ?thesis
    by (simp add: vcs_enroll_def enroll_from_image_def Let_def)
qed

text \<open>\<open>fingerprint_cancel\<close> up to its wait for the worker, and from there.\<close>

definition cancel_to_wait :: "env \<Rightarrow> world \<Rightarrow> world option" where
  "cancel_to_wait E w = do {
     w \<leftarrow> cancel_timeout E w;
     (s, w) \<leftarrow> get_tz_state E w;
     (s', w) \<leftarrow> get_tz_state E w;
     if s = STATE_IDLE \<or> s' = STATE_CANCEL then None
     else do {
       w \<leftarrow> set_tz_state E STATE_CANCEL w;
       let w = ioctl (VFSSPI_IOCTL_SET_DRDY_INT 0) w;
       w \<leftarrow> lock E Sensor_lock w;
       let w = log_call (Cond_signal Sensor_lock) w;
       unlock Sensor_lock w } }"

definition cancel_from_wait :: "env \<Rightarrow> world \<Rightarrow> (int \<times> world) option" where
  "cancel_from_wait E w = do {
     w \<leftarrow> cancel_wait E w;
     w \<leftarrow> send_error_notice E FINGERPRINT_ERROR_CANCELED w;
     Some (0, w) }"

lemma cancel_halves:
  assumes "cancel_to_wait E w = Some v"
  shows "fingerprint_cancel E w = cancel_from_wait E v"
proof -
  obtain v1 s v2 s' v3 v4 v5 where v: "cancel_timeout E w = Some v1" "get_tz_state E v1 = Some (s, v2)"
      "get_tz_state E v2 = Some (s', v3)" "s \<noteq> STATE_IDLE" "s' \<noteq> STATE_CANCEL" "set_tz_state E STATE_CANCEL v3 = Some v4"
      "lock E Sensor_lock (ioctl (VFSSPI_IOCTL_SET_DRDY_INT 0) v4) = Some v5"
      "unlock Sensor_lock (log_call (Cond_signal Sensor_lock) v5) = Some v"
    using assms by (auto simp: cancel_to_wait_def bind_eq_Some_conv Let_def split: if_splits)
  then show ?thesis by (simp add: fingerprint_cancel_def cancel_worker_def cancel_from_wait_def Let_def)
qed

subsection \<open>A new session while the enrolling thread leaves\<close>

lemma in_state_sensor [simp]:
  "in_state l fs s g (snd (sensor_init w)) = in_state l fs s g w"
  "in_state l fs s g (snd (sensor_uninit w)) = in_state l fs s g w"
  by (simp_all add: in_state_def going_def sensor_power_eqs)

lemma idle_polls:
  assumes "willing E" "in_state l fs STATE_IDLE g w" "\<not> l Tz_lock"
  shows "returns (wait_not_busy E ts w) (\<lambda>(b, u). b \<and> in_state l fs STATE_IDLE g u \<and> tz u = tz w)"
  using assms(2)
proof (induction ts arbitrary: w)
  case (Cons t ts)
  have "\<not> held w Tz_lock" "tz_state (tz w) = STATE_IDLE" using Cons.prems assms(3) by (auto simp: in_state_def going_def)
  with Cons.IH [of "log_call (Mutex_lock Tz_lock) w"] Cons.prems show ?case by (simp add: willing_get [OF assms(1)])
qed simp

text \<open>The application is started unless it is running.\<close>

lemma init_in_state:
  assumes "willing E" "in_state l fs s g w" "cal_ok (tz w)"
  shows "returns (vcs_init E w) (\<lambda>(x, u). x = 0 \<and> (\<exists>g. in_state l fs s g u))"
proof (cases "tz_init (tz w)")
  case True
  with assms(2) show ?thesis by (auto simp: vcs_init_def)
next
  case False
  with assms(2,3) have "down l fs s w" by (auto simp: down_def in_state_def going_def)
  then show ?thesis by (rule vcs_init_in_state [OF assms(1)])
qed

lemma authenticate_accepted:
  assumes E: "willing E" and w: "in_state (\<lambda>_. False) fs STATE_IDLE g w" "cal_ok (tz w)"
  shows "returns (fingerprint_authenticate E op w) (\<lambda>(r, x). r = 0 \<and> (\<exists>g. in_state (\<lambda>_. False) fs STATE_SCAN g x) \<and>
    hd (trace x) = Thread_create Worker_authenticate)"
proof -
  let ?l = "(\<lambda>_. False)(Dev_lock := True)"
  have ret: "ret E (Thread_create k # t) = 0" for k t using E by (simp add: willing_def cooperative_def)
  obtain v1 where v1: "lock E Dev_lock w = Some v1" "in_state ?l fs STATE_IDLE g v1"
    using lock_in_state [OF E w(1)] by (auto elim!: returns_obtain)
  have t1: "tz v1 = tz w" using lock_says [OF v1(1)] E by simp
  let ?v1 = "upd_dev (\<lambda>d. d\<lparr>op_id := op\<rparr>) v1"
  have i1: "in_state ?l fs STATE_IDLE g ?v1" using v1(2) by (simp add: in_state_def going_def upd_dev_def)
  obtain v2 where v2: "wait_not_busy E [0, 1, 2, 3, 4] ?v1 = Some (True, v2)" "in_state ?l fs STATE_IDLE g v2" "tz v2 = tz ?v1"
    using idle_polls [OF E i1, of "[0, 1, 2, 3, 4]"] by (auto elim!: returns_obtain simp del: wait_not_busy.simps)
  obtain v3 where v3: "set_tz_state E STATE_SCAN v2 = Some v3" "in_state ?l fs STATE_SCAN g v3"
    using set_in_state [OF E v2(2)] by (auto elim!: returns_obtain)
  have "calibrate_len (tz v3) = calibrate_len (tz v2)"
    using steps_only_fields [OF conjunct1 [OF set_tz_state_Some [OF v3(1)]]] by simp
  then have "cal_ok (tz (snd (sensor_init v3)))"
    using w(2) t1 v2(3) by (simp add: upd_dev_def sensor_power_fields)
  then obtain v4 g4 where v4: "vcs_init E (snd (sensor_init v3)) = Some (0, v4)" "in_state ?l fs STATE_SCAN g4 v4"
    using init_in_state [OF E, of ?l fs STATE_SCAN g "snd (sensor_init v3)"] v3(2) by (auto elim!: returns_obtain)
  let ?v5 = "upd_tz (\<lambda>t. t\<lparr>auth_thread := True\<rparr>) (log_call (Thread_create Worker_authenticate) v4)"
  have "in_state ?l fs STATE_SCAN g4 ?v5" using v4(2) by simp
  then obtain x where x: "unlock Dev_lock ?v5 = Some x" "in_state (\<lambda>_. False) fs STATE_SCAN g4 x"
    using unlock_in_state [of ?l fs STATE_SCAN g4 ?v5 Dev_lock] by (auto elim!: returns_obtain simp: fun_upd_idem)
  have "hd (trace x) = Thread_create Worker_authenticate"
    using x(1) by (auto simp: unlock_def upd_tz_def log_call_def split: if_splits)
  moreover have "vcs_start_authenticate E ?v1 = Some (0, ?v5)"
    unfolding vcs_start_authenticate_def v2(1) using v3(1) v4(1) by (simp add: Let_def call_ret_def ret)
  then have "fingerprint_authenticate E op w = Some (0, x)"
    using v1(1) x(1) by (simp add: fingerprint_authenticate_def)
  ultimately show ?thesis using x(2) by auto
qed

lemma uninit_shuts_down:
  assumes "willing E" "vcs_uninit E w = Some (r, u)"
  shows "\<not> qhandle (tz u) \<and> \<not> tz_init (tz u) \<and> tz_state (tz u) = STATE_IDLE"
proof -
  have shut: "\<not> qhandle (tz y)" if "QSEECom_shutdown_app E x = Some (q, y)" for x q y
    using that assms(1)
    by (auto simp: QSEECom_shutdown_app_def call_ret_def Let_def bind_eq_Some_conv upd_tz_def willing_def cooperative_def)
  from assms(2) obtain x q y where y: "QSEECom_shutdown_app E x = Some (q, y)"
      "set_tz_state E STATE_IDLE (upd_tz (\<lambda>t. t\<lparr>tz_init := False\<rparr>) y) = Some u"
    by (auto simp: vcs_uninit_def Let_def bind_eq_Some_conv)
  from shut [OF y(1)] steps_only_fields [of "upd_tz (\<lambda>t. t\<lparr>tz_init := False\<rparr>) y" u] set_tz_state_Some [OF y(2)]
  show ?thesis by (simp add: upd_tz_def)
qed

text \<open>The enrolling thread reaches the point where it announces IDLE with the application running.\<close>

lemma to_idle_returns:
  assumes E: "willing E" "attended E" "images_suffice E N" and w: "in_state (\<lambda>_. False) fs STATE_ENROLL g w" "app_ok w"
    and k: "find_free fs slot_indices \<le> MAX_NUM_FINGERS" and suid: "secure_user_id (vdev w) \<noteq> 0"
  shows "returns (enroll_to_idle E w) (\<lambda>v. cal_ok (tz v) \<and> (\<exists>fs' g'. in_state (\<lambda>_. False) fs' STATE_IDLE g' v))"
proof -
  let ?f = "\<lambda>_ :: mutex. False" and ?k = "find_free fs slot_indices"
  have k1: "?k \<noteq> 0" using find_free_slot [of fs] k by simp
  have fs: "finger (tz w) = fs" "ion_sbuffer w = Some ()"
    using w(1) by (auto simp: in_state_def going_def intro: ion_sbuffer_going)
  obtain v1 where v1: "send_enroll_begin E ?k w = Some (0, v1)" "in_state ?f fs STATE_ENROLL g v1" "result_of 102464 v1 = 0"
    using send_enroll_in_state(1) [OF E(1) w(1)] by (auto elim!: returns_obtain)
  obtain v2 where v2: "send_vendor_unknown E vendorUnknownA v1 = Some (0, v2)" "in_state ?f fs STATE_ENROLL g v2"
      "result_of 102464 v2 = 0"
    using sends_in_state(4) [OF E(1) v1(2)] by (auto elim!: returns_obtain)
  have "silent E ?k w v2" by (rule silent_trans [OF silent_tail(2) [OF v1(1)] silent_tail(1) [OF v2(1)]])
  then have "secure_user_id (vdev v2) \<noteq> 0" using suid by (simp add: silent_def)
  then obtain v3 where v3: "enroll_loop E ?k 8 v2 = Some (Enroll_finish, v3)" "in_state ?f fs STATE_ENROLL False v3"
    using enroll_loop_completes [OF E k1 v2(2), of 8] by (auto elim!: returns_obtain)
  obtain v4 fs4 where v4: "enroll_finish E ?k v3 = Some v4" "in_state ?f fs4 STATE_ENROLL False v4"
    using enroll_finish_in_state [OF E(1) v3(2) k] by (auto elim!: returns_obtain)
  obtain v where v: "set_tz_state E STATE_IDLE v4 = Some v" "in_state ?f fs4 STATE_IDLE False v"
    using set_in_state [OF E(1) v4(2)] by (auto elim!: returns_obtain)
  have run: "enroll_to_idle E w = Some v"
    using v1(1,3) v2(1,3) v3(1) v4(1) v(1) fs by (simp add: enroll_to_idle_def Let_def)
  have "keeps_app w v1" using on_returnD [OF app.send_frame(6) [OF app.refl] v1(1)] by simp
  moreover have "keeps_app v1 v2" using on_returnD [OF app.send_frame(4) [OF app.refl] v2(1)] by simp
  moreover have "keeps_app v2 v3" using on_returnD [OF app.enroll_loop_frame [OF app.refl] v3(1)] by simp
  moreover have "keeps_app v3 v4" using on_returnD [OF app.enroll_tail_frame(1) [OF app.refl] v4(1)] .
  moreover have "keeps_app v4 v" using on_returnD [OF app.set_tz_state_frame [OF app.refl] v(1)] .
  ultimately have "app_ok v" using w(2) by (simp add: keeps_app_def)
  then show ?thesis using v(2) run by (auto simp: app_ok_def)
qed

text \<open>C32: a session started too early is shut down under its feet.  The enrolling thread announces IDLE
  before it shuts the application down.  Let it run up to there (the application accepts, says at
  some point that the images suffice, somebody attends to the sensor), and let an authentication be
  started then: it is accepted, with the state SCAN and its thread created.  The rest of the enrolling
  thread then shuts the application down and sets the state back to IDLE, and the thread of the
  authentication dereferences the dead handle, which is undefined.\<close>

theorem early_start_shut_down:
  assumes "willing E" "attended E" "images_suffice E n" and "in_state (\<lambda>_. False) fs STATE_ENROLL g w" "app_ok w"
    and "find_free fs slot_indices \<le> MAX_NUM_FINGERS" "secure_user_id (vdev w) \<noteq> 0"
  shows "\<exists>v x y. enroll_to_idle E w = Some v \<and> vcs_enroll E w = enroll_from_idle E v \<and>
    fingerprint_authenticate E op v = Some (0, x) \<and> tz_state (tz x) = STATE_SCAN \<and>
    hd (trace x) = Thread_create Worker_authenticate \<and>
    enroll_from_idle E x = Some y \<and> tz_state (tz y) = STATE_IDLE \<and> vcs_authenticate E y = None"
proof -
  obtain v fs' g' where v: "enroll_to_idle E w = Some v" "cal_ok (tz v)" "in_state (\<lambda>_. False) fs' STATE_IDLE g' v"
    using to_idle_returns [OF assms] by (auto elim!: returns_obtain)
  obtain x g2 where x: "fingerprint_authenticate E op v = Some (0, x)" "in_state (\<lambda>_. False) fs' STATE_SCAN g2 x"
      "hd (trace x) = Thread_create Worker_authenticate"
    using authenticate_accepted [OF assms(1) v(3,2), of op] by (auto elim!: returns_obtain)
  have off: "in_state (\<lambda>_. False) fs' STATE_SCAN g2 (snd (sensor_uninit x))" using x(2) by simp
  then have "qhandle (tz (snd (sensor_uninit x)))" by (simp add: in_state_def going_def)
  from settled_uninit [OF in_state_settled [OF off] this, of E] obtain r y where
    y: "vcs_uninit E (snd (sensor_uninit x)) = Some (r, y)" by (auto elim!: returns_obtain)
  have "vcs_authenticate E y = None"
    using uninit_shuts_down [OF assms(1) y] by (simp add: vcs_authenticate_def ion_sbuffer_def)
  then show ?thesis
    using v(1) enroll_idle_halves [OF v(1)] x y uninit_shuts_down [OF assms(1) y]
    by (simp add: enroll_from_idle_def in_state_def)
qed

lemma known_user_start:
  "in_state (\<lambda>_. False) one_finger STATE_ENROLL True (known_user (example_world STATE_ENROLL))"
  "app_ok (known_user (example_world STATE_ENROLL))"
  "secure_user_id (vdev (known_user (example_world STATE_ENROLL))) \<noteq> 0"
  "find_free one_finger slot_indices \<le> MAX_NUM_FINGERS"
  using example_in_state [of STATE_ENROLL] free_one
  by (simp_all add: known_user_def upd_dev_def in_state_def going_def app_ok_def km_ok_def example_world_def zero_tz_def
      CALIBRATE_DATA_MAX_LENGTH_def MAX_NUM_FINGERS_def)

theorem early_start_shut_down_witness:
  "\<exists>v x y. enroll_to_idle session_env (known_user (example_world STATE_ENROLL)) = Some v \<and>
     fingerprint_authenticate session_env 7 v = Some (0, x) \<and> tz_state (tz x) = STATE_SCAN \<and>
     enroll_from_idle session_env x = Some y \<and> vcs_authenticate session_env y = None"
  using early_start_shut_down [OF session_env_fair known_user_start(1,2,4,3), of 7] by blast

subsection \<open>A cancellation between two images\<close>

lemma cancel_timeout_in_state:
  assumes E: "willing E" and w: "in_state (\<lambda>_. False) fs s g w"
  shows "returns (cancel_timeout E w) (in_state (\<lambda>_. False) fs s g)"
proof (cases "timeout_thread (tz_timeout (tz w))")
  case True
  let ?l = "(\<lambda>_. False)(Timeout_lock := True)"
  obtain v where v: "lock E Timeout_lock w = Some v" "in_state ?l fs s g v"
    using lock_in_state [OF E w] by (auto elim!: returns_obtain)
  have "in_state ?l fs s g (log_call (Cond_signal Timeout_lock) v)" using v(2) by simp
  then obtain u where u: "unlock Timeout_lock (log_call (Cond_signal Timeout_lock) v) = Some u" "in_state (\<lambda>_. False) fs s g u"
    using unlock_in_state [of ?l fs s g "log_call (Cond_signal Timeout_lock) v" Timeout_lock]
    by (auto elim!: returns_obtain simp: fun_upd_idem)
  have "in_state (\<lambda>_. False) fs s g (upd_tz (\<lambda>t. t\<lparr>tz_timeout := (tz_timeout t)\<lparr>timeout_thread := False\<rparr>\<rparr>)
      (log_call (Thread_join Worker_timeout) u))"
    using u(2) by (simp add: in_state_def going_def upd_tz_def log_call_def)
  with True v(1) u(1) E show ?thesis by (simp add: cancel_timeout_def Let_def)
qed (use w in \<open>simp add: cancel_timeout_def\<close>)

lemma cancel_to_wait_returns:
  assumes E: "willing E" and w: "in_state (\<lambda>_. False) fs s g w" and s: "s \<noteq> STATE_IDLE" "s \<noteq> STATE_CANCEL"
  shows "returns (cancel_to_wait E w) (in_state (\<lambda>_. False) fs STATE_CANCEL g)"
proof -
  let ?f = "\<lambda>_ :: mutex. False" and ?l = "(\<lambda>_. False)(Sensor_lock := True)"
  obtain v1 where v1: "cancel_timeout E w = Some v1" "in_state ?f fs s g v1"
    using cancel_timeout_in_state [OF E w] by (auto elim!: returns_obtain)
  obtain v2 where v2: "get_tz_state E v1 = Some (s, v2)" "in_state ?f fs s g v2"
    using get_in_state [OF E v1(2)] by (auto elim!: returns_obtain)
  obtain v3 where v3: "get_tz_state E v2 = Some (s, v3)" "in_state ?f fs s g v3"
    using get_in_state [OF E v2(2)] by (auto elim!: returns_obtain)
  obtain v4 where v4: "set_tz_state E STATE_CANCEL v3 = Some v4" "in_state ?f fs STATE_CANCEL g v4"
    using set_in_state [OF E v3(2)] by (auto elim!: returns_obtain)
  have "in_state ?f fs STATE_CANCEL g (ioctl (VFSSPI_IOCTL_SET_DRDY_INT 0) v4)" using v4(2) by (simp add: ioctl_def)
  then obtain v5 where v5: "lock E Sensor_lock (ioctl (VFSSPI_IOCTL_SET_DRDY_INT 0) v4) = Some v5" "in_state ?l fs STATE_CANCEL g v5"
    using lock_in_state [OF E, of ?f fs STATE_CANCEL g "ioctl (VFSSPI_IOCTL_SET_DRDY_INT 0) v4" Sensor_lock]
    by (auto elim!: returns_obtain)
  have "in_state ?l fs STATE_CANCEL g (log_call (Cond_signal Sensor_lock) v5)" using v5(2) by simp
  then obtain u where "unlock Sensor_lock (log_call (Cond_signal Sensor_lock) v5) = Some u" "in_state ?f fs STATE_CANCEL g u"
    using unlock_in_state [of ?l fs STATE_CANCEL g "log_call (Cond_signal Sensor_lock) v5" Sensor_lock]
    by (auto elim!: returns_obtain simp: fun_upd_idem)
  with v1(1) v2(1) v3(1) v4(1) v5(1) s show ?thesis by (simp add: cancel_to_wait_def Let_def)
qed

lemma cancel_from_wait_returns:
  assumes E: "willing E" and w: "settled w" "tz_state (tz w) = STATE_IDLE"
  shows "returns (cancel_from_wait E w) (\<lambda>(r, u). r = 0 \<and> finger (tz u) = finger (tz w) \<and>
    notices u = notices w @ [Msg_error FINGERPRINT_ERROR_CANCELED])"
proof -
  let ?v = "log_call (Usleep 100000) w"
  have wait: "cancel_wait E w = Some ?v"
    using w(2) E by (subst cancel_wait.simps) (simp add: usleep_def)
  have "\<exists>u. send_error_notice E FINGERPRINT_ERROR_CANCELED ?v = Some u \<and> tz u = tz w"
    using w(1) by (simp add: send_error_notice_def willing_lock [OF E] settled_def notify_def unlock_def)
  then obtain u where u: "send_error_notice E FINGERPRINT_ERROR_CANCELED ?v = Some u" "tz u = tz w" by blast
  with wait notice_trace [OF u(1)] show ?thesis by (simp add: cancel_from_wait_def notices_log)
qed

text \<open>The application never says that the images suffice.\<close>

definition wants_more :: "env \<Rightarrow> bool" where
  "wants_more E \<longleftrightarrow> (\<forall>t. adds_image t \<longrightarrow> get32 (response E t) (off_result_data 2) \<noteq> 1)"

lemma to_image_returns:
  assumes E: "willing E" "attended E" "wants_more E" and w: "in_state (\<lambda>_. False) fs STATE_ENROLL g w"
  shows "returns (enroll_to_image E w) (\<lambda>(k, c, v). k = find_free fs slot_indices \<and> c = 7 \<and> in_state (\<lambda>_. False) fs STATE_ENROLL False v)"
proof -
  let ?f = "\<lambda>_ :: mutex. False" and ?k = "find_free fs slot_indices"
  have fs: "finger (tz w) = fs" "ion_sbuffer w = Some ()"
    using w(1) by (auto simp: in_state_def going_def intro: ion_sbuffer_going)
  obtain v1 where v1: "send_enroll_begin E ?k w = Some (0, v1)" "in_state ?f fs STATE_ENROLL g v1" "result_of 102464 v1 = 0"
    using send_enroll_in_state(1) [OF E(1) w] by (auto elim!: returns_obtain)
  obtain v2 where v2: "send_vendor_unknown E vendorUnknownA v1 = Some (0, v2)" "in_state ?f fs STATE_ENROLL g v2"
      "result_of 102464 v2 = 0"
    using sends_in_state(4) [OF E(1) v1(2)] by (auto elim!: returns_obtain)
  obtain v3 where v3: "get_tz_state E v2 = Some (STATE_ENROLL, v3)" "in_state ?f fs STATE_ENROLL g v3"
    using get_in_state [OF E(1) v2(2)] by (auto elim!: returns_obtain)
  obtain v4 where v4: "vcs_start_capture E 0 v3 = Some (0, v4)" "in_state ?f fs STATE_ENROLL False v4"
    using vcs_start_capture_ideal [OF E(1) v3(2), of 0] E(2) by (auto elim!: returns_obtain)
  obtain v5 where v5: "send_enroll_add_image E v4 = Some (0, v5)" "in_state ?f fs STATE_ENROLL False v5" "result_of 64 v5 = 0"
    using add_image_in_state [OF E(1) v4(2)] by (auto elim!: returns_obtain)
  have "sint x = 1 \<longleftrightarrow> x = 1" for x :: u32 using signed_word_eqI [of x 1] by auto
  then have "data_of 64 2 v5 \<noteq> 1" using add_image_trace [OF v5(1)] E(3) by (simp add: wants_more_def)
  then have n: "enroll_remaining 8 (data_of 64 2 v5) = 7" by (simp add: enroll_remaining_cases)
  obtain v6 where "send_enroll_notice E (int ?k) 7 v5 = Some v6" "in_state ?f fs STATE_ENROLL False v6"
    using enroll_notice_in_state [OF E(1) v5(2), of "int ?k" 7] by (auto elim!: returns_obtain)
  with v1(1,3) v2(1,3) v3(1) v4(1) v5(1,3) n fs show ?thesis by (simp add: enroll_to_image_def Let_def)
qed

lemma from_image_cancelled:
  assumes E: "willing E" and w: "in_state (\<lambda>_. False) fs STATE_CANCEL g w"
    and k: "k \<le> MAX_NUM_FINGERS" "k \<noteq> 0"
  shows "returns (enroll_from_image E k c w) (\<lambda>u. exist (finger (tz u) k) \<and> tz_state (tz u) = STATE_IDLE \<and> settled u)"
proof -
  obtain v3 where v3: "get_tz_state E w = Some (STATE_CANCEL, v3)" "in_state (\<lambda>_. False) fs STATE_CANCEL g v3"
    using get_in_state [OF E w] by (auto elim!: returns_obtain)
  obtain v4 fs4 where v4: "enroll_finish E k v3 = Some v4" "exist (finger (tz v4) k)" "in_state (\<lambda>_. False) fs4 STATE_CANCEL g v4"
    using enroll_finish_in_state [OF E v3(2) k(1)] by (auto elim!: returns_obtain)
  obtain u where u: "enroll_out E v4 = Some u" "tz_state (tz u) = STATE_IDLE" "settled u"
    using enroll_out_settled [OF E v4(3)] by (auto elim!: returns_obtain)
  have "finger (tz u) k = finger (tz v4) k"
    using on_returnD [OF enroll_body_slot(1) [of 0 v4 v4 E] u(1)] k(2) slot.refl [of 0 v4] by (simp add: only_slot_def)
  moreover have "enroll_loop E k c w = Some (Enroll_finish, v3)"
    by (subst enroll_loop.simps) (simp add: v3(1))
  ultimately show ?thesis using v4(1,2) u by (simp add: enroll_from_image_def)
qed

text \<open>C33: a cancelled enrolment stores a finger.  Let the enrolling thread run until its first image has
  been accepted; seven images are still needed (the application accepts every command and wants more
  images, somebody attends to the sensor).  \<open>fingerprint_cancel\<close>, called then, sets the state
  CANCEL and waits.  The thread leaves its loop as if the enrolment were complete: it finishes it, marks
  the free slot as an existing finger and comes to rest; and \<open>fingerprint_cancel\<close> returns 0 and
  reports that the enrolment was cancelled, with the finger still there.\<close>

theorem enroll_cancelled_stores:
  assumes "willing E" "attended E" "wants_more E" and "in_state (\<lambda>_. False) fs STATE_ENROLL g w"
    and "find_free fs slot_indices = k" "k \<le> MAX_NUM_FINGERS"
  shows "\<exists>v x y u. enroll_to_image E w = Some (k, 7, v) \<and> vcs_enroll E w = enroll_from_image E k 7 v \<and>
    cancel_to_wait E v = Some x \<and> fingerprint_cancel E v = cancel_from_wait E x \<and> tz_state (tz x) = STATE_CANCEL \<and>
    enroll_from_image E k 7 x = Some y \<and> tz_state (tz y) = STATE_IDLE \<and> \<not> exist (fs k) \<and> exist (finger (tz y) k) \<and>
    cancel_from_wait E y = Some (0, u) \<and> finger (tz u) = finger (tz y) \<and>
    notices u = notices y @ [Msg_error FINGERPRINT_ERROR_CANCELED]"
proof -
  obtain v where v: "enroll_to_image E w = Some (k, 7, v)" "in_state (\<lambda>_. False) fs STATE_ENROLL False v"
    using to_image_returns [OF assms(1-4)] assms(5) by (auto elim!: returns_obtain)
  obtain x where x: "cancel_to_wait E v = Some x" "in_state (\<lambda>_. False) fs STATE_CANCEL False x"
    using cancel_to_wait_returns [OF assms(1) v(2)] by (auto elim!: returns_obtain)
  have k: "k \<noteq> 0" "\<not> exist (fs k)" using find_free_slot [of fs] assms(5,6) by auto
  obtain y where y: "enroll_from_image E k 7 x = Some y" "exist (finger (tz y) k)" "tz_state (tz y) = STATE_IDLE" "settled y"
    using from_image_cancelled [OF assms(1) x(2) assms(6) k(1)] by (auto elim!: returns_obtain)
  obtain u where "cancel_from_wait E y = Some (0, u)" "finger (tz u) = finger (tz y)"
      "notices u = notices y @ [Msg_error FINGERPRINT_ERROR_CANCELED]"
    using cancel_from_wait_returns [OF assms(1) y(4,3)] by (auto elim!: returns_obtain)
  with v(1) x y k(2) enroll_image_halves [OF v(1)] cancel_halves [OF x(1)] show ?thesis by (auto simp: in_state_def)
qed

definition patient_env :: env where
  "patient_env = session_env\<lparr>response := (\<lambda>_. good_response)\<rparr>"

lemma patient_env_fair: "willing patient_env" "attended patient_env" "wants_more patient_env"
proof -
  have "at_sensor t \<Longrightarrow> waits t" for t by (cases t rule: at_sensor.cases) simp_all
  then show "willing patient_env"
    by (auto simp: willing_def calm_def cooperative_def patient_env_def session_env_def good_env_def good_response_def
        get32_def off_defs CALIBRATE_DATA_MAX_LENGTH_def)
qed (simp_all add: attended_def wants_more_def patient_env_def session_env_def good_response_def get32_def off_defs)

theorem enroll_cancelled_stores_witness:
  "\<exists>v x y. enroll_to_image patient_env (example_world STATE_ENROLL) = Some (1, 7, v) \<and>
     cancel_to_wait patient_env v = Some x \<and> enroll_from_image patient_env 1 7 x = Some y \<and> exist (finger (tz y) 1)"
  using enroll_cancelled_stores [OF patient_env_fair example_in_state free_one] by (fastforce simp: MAX_NUM_FINGERS_def)

subsection \<open>A refused authentication during a match\<close>

lemma willing_usleep: "willing E \<Longrightarrow> usleep E n w = log_call (Usleep n) w"
  by (simp add: usleep_def)

lemma authenticate_refused:
  assumes E: "willing E" and w: "in_state (\<lambda>_. False) fs STATE_SCAN g w"
  shows "returns (fingerprint_authenticate E op w) (\<lambda>(r, x). r = -1 \<and> going (\<lambda>_. False) fs x \<and>
    vdev x = (vdev w)\<lparr>op_id := op\<rparr> \<and> notices x = notices w)"
proof -
  let ?v = "upd_dev (\<lambda>d. d\<lparr>op_id := op\<rparr>) ((log_call (Mutex_lock Dev_lock) w)\<lparr>held := (\<lambda>_. False)(Dev_lock := True)\<rparr>)"
  have h: "held w = (\<lambda>_. False)" "tz_state (tz w) = STATE_SCAN" using w by (simp_all add: in_state_def going_def)
  have l: "lock E Dev_lock w = Some ((log_call (Mutex_lock Dev_lock) w)\<lparr>held := (\<lambda>_. False)(Dev_lock := True)\<rparr>)"
    using h(1) by (simp add: willing_lock [OF E])
  have v: "tz_state (tz ?v) = STATE_SCAN" "\<not> held ?v Tz_lock" "held ?v Dev_lock" "going ((\<lambda>_. False)(Dev_lock := True)) fs ?v"
    "notices ?v = notices w" "vdev ?v = (vdev w)\<lparr>op_id := op\<rparr>"
    using w h by (simp_all add: upd_dev_def in_state_def going_def notices_def map_filter_simps log_call_def)
  have "\<exists>u. wait_not_busy E [0, 1, 2, 3, 4] v = Some (False, u) \<and> held u = held v \<and> going l fs u \<and> notices u = notices v \<and> vdev u = vdev v"
    if "tz_state (tz v) = STATE_SCAN" "\<not> held v Tz_lock" "going l fs v" for v l
    using that by (simp add: willing_get [OF E] willing_usleep [OF E] notices_log)
  from this [OF v(1,2,4)] obtain u where u: "wait_not_busy E [0, 1, 2, 3, 4] ?v = Some (False, u)" "held u = held ?v"
      "going ((\<lambda>_. False)(Dev_lock := True)) fs u" "notices u = notices ?v" "vdev u = vdev ?v" by blast
  obtain x where x: "unlock Dev_lock u = Some x" "going ((\<lambda>_. False)(Dev_lock := True, Dev_lock := False)) fs x"
    using unlock_going [OF u(3), of Dev_lock] by (auto elim!: returns_obtain)
  have "vcs_start_authenticate E ?v = Some (-1, u)"
    unfolding vcs_start_authenticate_def u(1) by simp
  then have "fingerprint_authenticate E op w = Some (-1, x)"
    using l x(1) by (simp add: fingerprint_authenticate_def)
  with x u(4,5) v(5,6) unlock_says [OF x(1)] show ?thesis by (simp add: fun_upd_idem)
qed

text \<open>C25: a refused authentication takes over the one that runs.  While the thread of an authentication is
  between the answer of the match and its report, \<open>fingerprint_authenticate\<close> with another operation
  is refused with -1; but it has already written its operation id, and the running thread reports the
  finger for it: the framework gets the proof for an operation it was told is not running, and none for
  the one it had asked for.  Without that call the thread reports the operation it was started for.\<close>

theorem refused_start_takes_over:
  assumes "willing E" "attended E" and "in_state (\<lambda>_. False) fs STATE_SCAN g w"
    and "names_template E i" "i < length (enrolled fs)"
  shows "\<exists>v u0 x u. authenticate_to_match E w = Some (int i + 1, v) \<and>
    vcs_authenticate E w = authenticate_from_match E (int i + 1) v \<and>
    authenticate_from_match E (int i + 1) v = Some u0 \<and>
    authentications (notices u0) = authentications (notices w) @ [(int (enrolled fs ! i), op_id (vdev w))] \<and>
    fingerprint_authenticate E op v = Some (-1, x) \<and> authenticate_from_match E (int i + 1) x = Some u \<and>
    authentications (notices u) = authentications (notices w) @ [(int (enrolled fs ! i), op)]"
proof -
  have "enrolled fs ! i \<in> set (enrolled fs)" using assms(5) by simp
  then have pos: "enrolled fs ! i \<noteq> 0" by (auto simp: set_enrolled)
  obtain v where v: "authenticate_to_match E w = Some (int i + 1, v)" "in_state (\<lambda>_. False) fs STATE_SCAN False v"
    using to_match_returns [OF assms(1-4)] by (auto elim!: returns_obtain)
  have same: "vdev v = vdev w" "authentications (notices v) = authentications (notices w)"
    using on_returnD [OF device.to_match_frame [OF device.refl] v(1)] on_returnD [OF enrolling.to_match_frame [OF enrolling.refl] v(1)]
    by (simp_all add: same_device_def says_none)
  have find: "find_match fs slot_indices 0 (int i + 1) = enrolled fs ! i" using assms(5) by (simp add: find_match_nth)
  obtain u0 where u0: "authenticate_from_match E (int i + 1) v = Some u0"
      "authentications (notices u0) = authentications (notices v) @ [(int (enrolled fs ! i), op_id (vdev v))]"
    using from_match_returns [OF assms(1), of fs v "int i + 1"] v(2) pos
    by (auto simp: find in_state_def elim!: returns_obtain)
  obtain x where x: "fingerprint_authenticate E op v = Some (-1, x)" "going (\<lambda>_. False) fs x"
      "vdev x = (vdev v)\<lparr>op_id := op\<rparr>" "notices x = notices v"
    using authenticate_refused [OF assms(1) v(2), of op] by (auto elim!: returns_obtain)
  obtain u where u: "authenticate_from_match E (int i + 1) x = Some u"
      "authentications (notices u) = authentications (notices x) @ [(int (enrolled fs ! i), op_id (vdev x))]"
    using from_match_returns [OF assms(1) x(2), of "int i + 1"] pos by (auto simp: find elim!: returns_obtain)
  from v(1) authenticate_halves [OF v(1)] u0 x u same show ?thesis by (intro exI conjI) (assumption | simp)+
qed

theorem refused_start_takes_over_witness:
  "\<exists>v x u. authenticate_to_match session_env (example_world STATE_SCAN) = Some (1, v) \<and>
     fingerprint_authenticate session_env 99 v = Some (-1, x) \<and>
     authenticate_from_match session_env 1 x = Some u \<and> authentications (notices u) = [(2, 99)]"
proof -
  have i: "names_template session_env 0"
    by (simp add: names_template_def session_env_def good_env_def good_response_def last_image_def get32_def off_defs)
  have "authentications (notices (example_world STATE_SCAN)) = []"
    by (simp add: example_world_def notices_def map_filter_simps authentications_def)
  with refused_start_takes_over [OF session_env_fair(1,2) example_in_state i, of 99] show ?thesis
    by (fastforce simp: enrolled_one)
qed

end
