(* ===== verification/Fp_Lifecycle.thy ===== *)
theory Fp_Lifecycle
  imports Fp_Session
begin

text \<open>
  The device from its opening to its closing, on a device whose database is empty.  Opening takes
  the application up and down twice before the framework has set its callback, so the session
  functions are first shown not to read the device object: what is known of them with a callback
  holds without one.
\<close>

subsection \<open>The session functions do not read the device object\<close>

definition with_dev :: "vcs_fingerprint_device_t \<Rightarrow> world \<Rightarrow> world" where
  "with_dev d w = w\<lparr>vdev := d\<rparr>"

abbreviation pair_dev :: "vcs_fingerprint_device_t \<Rightarrow> ('a \<times> world) option \<Rightarrow> ('a \<times> world) option" where
  "pair_dev d \<equiv> map_option (map_prod id (with_dev d))"

lemma with_dev_fields [simp]:
  "tz (with_dev d w) = tz w" "sensor (with_dev d w) = sensor w" "ibuf (with_dev d w) = ibuf w"
  "km_init (with_dev d w) = km_init w" "km_handle (with_dev d w) = km_handle w" "held (with_dev d w) = held w"
  "trace (with_dev d w) = trace w" "vdev (with_dev d w) = d" "with_dev d (with_dev e w) = with_dev d w"
  "with_dev (vdev w) w = w"
  by (simp_all add: with_dev_def)

lemma with_dev_updates:
  "log_call c (with_dev d w) = with_dev d (log_call c w)"
  "upd_tz f (with_dev d w) = with_dev d (upd_tz f w)" "upd_buf h (with_dev d w) = with_dev d (upd_buf h w)"
  "upd_sensor g (with_dev d w) = with_dev d (upd_sensor g w)"
  "wr32 k x (with_dev d w) = with_dev d (wr32 k x w)" "wr8 k y (with_dev d w) = with_dev d (wr8 k y w)"
  "wr_zero n (with_dev d w) = with_dev d (wr_zero n w)" "wr_copy k b n (with_dev d w) = with_dev d (wr_copy k b n w)"
  "(with_dev d w)\<lparr>km_handle := p\<rparr> = with_dev d (w\<lparr>km_handle := p\<rparr>)"
  "(with_dev d w)\<lparr>km_init := i\<rparr> = with_dev d (w\<lparr>km_init := i\<rparr>)"
  "(with_dev d w)\<lparr>ibuf := b'\<rparr> = with_dev d (w\<lparr>ibuf := b'\<rparr>)"
  "(with_dev d w)\<lparr>held := l\<rparr> = with_dev d (w\<lparr>held := l\<rparr>)"
  by (simp_all add: log_call_def upd_defs buf_defs with_dev_def)

lemma with_dev_event: "apply_event (with_dev d w) e = with_dev d (apply_event w e)"
  by (cases e) (simp_all add: with_dev_updates)

lemma with_dev_interfere: "interfere E (with_dev d w) = with_dev d (interfere E w)"
proof -
  have "foldl apply_event (with_dev d w) es = with_dev d (foldl apply_event w es)" for es
    by (induction es arbitrary: w) (simp_all add: with_dev_event)
  then show ?thesis by (simp add: interfere_def)
qed

lemma with_dev_symbols: "load_symbols E ss (with_dev d w) = map_prod id (with_dev d) (load_symbols E ss w)"
  by (induction ss arbitrary: w) (simp_all add: Let_def with_dev_updates)

lemma with_dev_init_qsee: "snd (init_qsee E (with_dev d w)) = with_dev d (snd (init_qsee E w))"
  by (auto simp: init_qsee_def qcom_km_get_lib_sym_def Let_def with_dev_updates with_dev_symbols split: prod.split)

lemma with_dev_calls:
  "QSEECom_send_cmd E s r n (with_dev d w) = pair_dev d (QSEECom_send_cmd E s r n w)"
  "QSEECom_set_bandwidth E b (with_dev d w) = pair_dev d (QSEECom_set_bandwidth E b w)"
  "QSEECom_start_app E (with_dev d w) = pair_dev d (QSEECom_start_app E w)"
  "QSEECom_shutdown_app E (with_dev d w) = pair_dev d (QSEECom_shutdown_app E w)"
  "set_tz_state E st (with_dev d w) = map_option (with_dev d) (set_tz_state E st w)"
  "ion_sbuffer (with_dev d w) = ion_sbuffer w"
  by (simp_all add: QSEECom_send_cmd_def QSEECom_set_bandwidth_def QSEECom_start_app_def QSEECom_shutdown_app_def
      set_tz_state_eq ion_sbuffer_def deref_km_handle_def call_ret_def Let_def with_dev_init_qsee with_dev_updates
      with_dev_interfere)

lemma bind_map_pair: "Option.bind (map_option (map_prod id h) m) f = Option.bind m (\<lambda>(x, u). f (x, h u))"
  by (cases m) auto

lemma result_with_dev [simp]: "result_of r (with_dev d w) = result_of r w" "data_of r i (with_dev d w) = data_of r i w"
  "data_bytes r i (with_dev d w) = data_bytes r i w"
  by (simp_all add: result_of_def data_of_def data_bytes_def)

lemma with_dev_store: "store_calibration r (with_dev d w) = map_option (with_dev d) (store_calibration r w)"
  by (simp add: store_calibration_def Let_def with_dev_updates)

lemmas with_dev = with_dev_updates with_dev_calls with_dev_store

lemma with_dev_sessions:
  "vcs_update_auth_token E (with_dev d w) = pair_dev d (vcs_update_auth_token E w)"
  "vcs_start_auth_session E (with_dev d w) = pair_dev d (vcs_start_auth_session E w)"
  "resume_initialize E (with_dev d w) = pair_dev d (resume_initialize E w)"
  "resume_enter_session E (with_dev d w) = pair_dev d (resume_enter_session E w)"
  "resume_device_initialize E (with_dev d w) = pair_dev d (resume_device_initialize E w)"
  "resume_device_calibrate E (with_dev d w) = pair_dev d (resume_device_calibrate E w)"
proof -
  show "vcs_update_auth_token E (with_dev d w) = pair_dev d (vcs_update_auth_token E w)"
    by (simp add: vcs_update_auth_token_def auth_token_request_def Let_def with_dev bind_map_pair split: Option.bind_split)
  show "vcs_start_auth_session E (with_dev d w) = pair_dev d (vcs_start_auth_session E w)"
    by (simp add: vcs_start_auth_session_def Let_def with_dev bind_map_pair split: Option.bind_split)
  show "resume_initialize E (with_dev d w) = pair_dev d (resume_initialize E w)"
    by (simp add: resume_initialize_def Let_def with_dev bind_map_pair split: Option.bind_split)
  show "resume_enter_session E (with_dev d w) = pair_dev d (resume_enter_session E w)"
    by (simp add: resume_enter_session_def Let_def with_dev bind_map_pair split: Option.bind_split)
  show "resume_device_initialize E (with_dev d w) = pair_dev d (resume_device_initialize E w)"
    by (simp add: resume_device_initialize_def Let_def with_dev bind_map_pair split: Option.bind_split)
  show "resume_device_calibrate E (with_dev d w) = pair_dev d (resume_device_calibrate E w)"
    by (auto simp: resume_device_calibrate_def Let_def with_dev bind_map_pair split: Option.bind_split)
qed

lemma with_dev_resume: "vcs_resume E (with_dev d w) = pair_dev d (vcs_resume E w)"
  by (auto simp: vcs_resume_def with_dev with_dev_sessions bind_map_pair split: Option.bind_split sum.split)

lemma with_dev_application:
  "vcs_init E (with_dev d w) = pair_dev d (vcs_init E w)"
  "vcs_uninit E (with_dev d w) = pair_dev d (vcs_uninit E w)"
proof -
  show "vcs_init E (with_dev d w) = pair_dev d (vcs_init E w)"
    by (simp add: vcs_init_def with_dev with_dev_resume bind_map_pair split: Option.bind_split)
  have "map_option snd (vcs_update_auth_token E (with_dev d w)) = map_option (with_dev d) (map_option snd (vcs_update_auth_token E w))" for w
    by (cases "vcs_update_auth_token E w") (auto simp: with_dev_sessions)
  then show "vcs_uninit E (with_dev d w) = pair_dev d (vcs_uninit E w)"
    by (auto simp: vcs_uninit_def Let_def with_dev bind_map_pair bind_map_option split: Option.bind_split)
qed

subsection \<open>The application, taken up and down\<close>

lemma in_state_auth [simp]:
  "in_state l fs s g (upd_tz (\<lambda>t. t\<lparr>auth_token := h t\<rparr>) w) = in_state l fs s g w"
  "in_state l fs s g (upd_tz (\<lambda>t. t\<lparr>auth_session_token := h t\<rparr>) w) = in_state l fs s g w"
  "in_state l fs s g (upd_tz (\<lambda>t. t\<lparr>auth_session_opend := b\<rparr>) w) = in_state l fs s g w"
  by (simp_all add: in_state_def going_def upd_tz_def)

lemma auth_session_in_state:
  assumes E: "willing E" and w: "in_state l fs s g w"
  shows "returns (vcs_start_auth_session E w) (\<lambda>(x, u). x = 0 \<and> in_state l fs s g u)"
    "returns (vcs_stop_auth_session E w) (\<lambda>(x, u). x = 0 \<and> in_state l fs s g u)"
    "returns (vcs_update_auth_token E w) (\<lambda>(x, u). x = 0 \<and> in_state l fs s g u)"
proof -
  have ion: "ion_sbuffer w = Some ()" using w by (auto simp: in_state_def intro: ion_sbuffer_going)
  note send = returns_bind_pair [OF send_in_state_tz [OF E]]
  show "returns (vcs_start_auth_session E w) (\<lambda>(x, u). x = 0 \<and> in_state l fs s g u)"
    "returns (vcs_stop_auth_session E w) (\<lambda>(x, u). x = 0 \<and> in_state l fs s g u)"
    using w by (auto simp: vcs_start_auth_session_def vcs_stop_auth_session_def ion Let_def intro!: send)
  have request: "returns (auth_token_request E b v) (\<lambda>(x, u). x = 0 \<and> in_state l fs s g u \<and> result_of 102464 u = 0)"
    if "in_state l fs s g v" for b v
    unfolding auth_token_request_def Let_def
    by (rule returns_mono [OF send_in_state_tz [OF E]]) (use that in auto)
  show "returns (vcs_update_auth_token E w) (\<lambda>(x, u). x = 0 \<and> in_state l fs s g u)"
    unfolding vcs_update_auth_token_def ion Let_def
    apply (simp only: Option.bind.bind_lunit)
    apply (rule returns_bind_pair [OF request [OF w]], elim conjE)
    apply (rule returns_bind_pair [OF request], assumption)
    apply (auto simp: Let_def)
    done
qed

lemma uninit_in_state:
  assumes E: "willing E" and w: "in_state l fs s g w" "cal_ok (tz w)" "\<not> l Tz_lock"
  shows "returns (vcs_uninit E w) (\<lambda>(x, u). x = 0 \<and> down l fs STATE_IDLE u \<and> vdev u = vdev w)"
proof -
  have ret: "\<not> asks_storage t \<Longrightarrow> ret E t = 0" for t using E by (simp add: willing_def cooperative_def)
  have ion: "ion_sbuffer w = Some ()" using w(1) by (auto simp: in_state_def intro: ion_sbuffer_going)
  have token: "returns (if auth_session_opend (tz w) then map_option snd (vcs_update_auth_token E w) else Some w) (in_state l fs s g)"
    using auth_session_in_state(3) [OF E w(1)] w(1) by (auto simp: returns_def)
  have stop: "returns (do {
       (_, w) \<leftarrow> QSEECom_set_bandwidth E False v;
       (_, w) \<leftarrow> QSEECom_shutdown_app E w;
       let w = upd_tz (\<lambda>t. t\<lparr>tz_init := False\<rparr>) w;
       w \<leftarrow> set_tz_state E STATE_IDLE w;
       Some (0 :: int, w) }) (\<lambda>(x, u). x = 0 \<and> held u = l \<and> km_init u \<and> km_handle u = Km_loaded \<and> notify_set (vdev u) \<and>
         \<not> tz_init (tz u) \<and> finger (tz u) = fs \<and> tz_state (tz u) = STATE_IDLE)" if "in_state l fs s g v" for v
    using that w(3) ret
    by (auto simp: QSEECom_set_bandwidth_def QSEECom_shutdown_app_def init_qsee_done deref_km_handle_def call_ret_def Let_def
        in_state_def going_def set_tz_state_eq upd_tz_def willing_interfere [OF E])
  have "returns (vcs_uninit E w) (\<lambda>(x, u). x = 0 \<and> held u = l \<and> km_init u \<and> km_handle u = Km_loaded \<and> notify_set (vdev u) \<and>
      \<not> tz_init (tz u) \<and> finger (tz u) = fs \<and> tz_state (tz u) = STATE_IDLE)"
    unfolding vcs_uninit_def ion
    apply (simp only: Option.bind.bind_lunit Let_def)
    apply (rule returns_bind [OF token])
    apply (rule returns_bind_pair [OF send_in_state_tz [OF E]], simp, simp, elim conjE)
    apply (rule stop [unfolded Let_def], assumption)
    done
  moreover have "on_return (vcs_uninit E w) (\<lambda>(_, u). same_device w u)" by (rule device.sessions [OF device.refl])
  moreover have "on_return (vcs_uninit E w) (\<lambda>(_, u). keeps_app w u)" by (rule app.sessions [OF app.refl])
  moreover have "app_ok w" using w(1,2) by (simp add: in_state_def going_def app_ok_def km_ok_def)
  ultimately show ?thesis
    by (auto simp: returns_def on_return_def down_def same_device_def keeps_app_def app_ok_def)
qed

lemma down_app: "down l fs s w \<Longrightarrow> app_ok w"
  by (simp add: down_def app_ok_def km_ok_def)

lemma init_app_ok:
  assumes E: "willing E" and w: "down l fs s w"
  shows "returns (vcs_init E w) (\<lambda>(x, u). x = 0 \<and> vdev u = vdev w \<and> cal_ok (tz u) \<and> (\<exists>g. in_state l fs s g u))"
proof -
  have "on_return (vcs_init E w) (\<lambda>(_, u). keeps_app w u)" by (rule app.sessions [OF app.refl])
  with init_session [OF E w] down_app [OF w] show ?thesis
    by (auto simp: returns_def on_return_def keeps_app_def app_ok_def)
qed

text \<open>What \<open>fingerprint_open\<close> does with the application: once to see that it works, once to open the
  session whose token it keeps.\<close>

definition open_sessions :: "env \<Rightarrow> world \<Rightarrow> (int \<times> world) option" where
  "open_sessions E w = do {
     (_, w) \<leftarrow> vcs_init E w;
     (_, w) \<leftarrow> vcs_uninit E w;
     (_, w) \<leftarrow> vcs_init E w;
     (_, w) \<leftarrow> vcs_start_auth_session E w;
     vcs_uninit E w }"

lemma with_dev_open_sessions: "open_sessions E (with_dev d w) = pair_dev d (open_sessions E w)"
  by (auto simp: open_sessions_def with_dev_application with_dev_sessions bind_map_pair split: Option.bind_split)

lemma cal_kept:
  assumes "on_return m (\<lambda>(_, u). keeps_app w u)" "m = Some (x, u)" "in_state l fs s g w" "cal_ok (tz w)"
  shows "cal_ok (tz u)"
  using assms by (auto simp: keeps_app_def app_ok_def km_ok_def in_state_def going_def)

lemma open_sessions_down:
  assumes E: "willing E" and w: "down l fs STATE_IDLE w" and l: "\<not> l Tz_lock"
  shows "returns (open_sessions E w) (\<lambda>(x, u). down l fs STATE_IDLE u \<and> vdev u = vdev w)"
proof -
  obtain u1 g1 where u1: "vcs_init E w = Some (0, u1)" "vdev u1 = vdev w" "cal_ok (tz u1)" "in_state l fs STATE_IDLE g1 u1"
    using init_app_ok [OF E w] by (auto elim!: returns_obtain)
  obtain u2 where u2: "vcs_uninit E u1 = Some (0, u2)" "down l fs STATE_IDLE u2" "vdev u2 = vdev u1"
    using uninit_in_state [OF E u1(4,3) l] by (auto elim!: returns_obtain)
  obtain u3 g3 where u3: "vcs_init E u2 = Some (0, u3)" "vdev u3 = vdev u2" "cal_ok (tz u3)" "in_state l fs STATE_IDLE g3 u3"
    using init_app_ok [OF E u2(2)] by (auto elim!: returns_obtain)
  obtain u4 where u4: "vcs_start_auth_session E u3 = Some (0, u4)" "in_state l fs STATE_IDLE g3 u4"
    using auth_session_in_state(1) [OF E u3(4)] by (auto elim!: returns_obtain)
  have "cal_ok (tz u4)" by (rule cal_kept [OF app.sessions(4) [OF app.refl] u4(1) u3(4,3)])
  moreover have "vdev u4 = vdev u3"
    using on_returnD [OF device.sessions(4) [OF device.refl] u4(1)] by (simp add: same_device_def)
  ultimately show ?thesis
    using u1 u2 u3 u4(1) uninit_in_state [OF E u4(2) _ l] by (auto simp: open_sessions_def elim!: returns_mono)
qed

lemma open_sessions_reports: "authentications (notices u) = authentications (notices w)"
  if "open_sessions E w = Some (x, u)"
proof -
  have "on_return (open_sessions E w) (\<lambda>(_, u). says_only not_authenticated w u)"
    unfolding open_sessions_def by (intro enrolling.bind_pair [where w = w] enrolling.sessions enrolling.refl; simp)
  from on_returnD [OF this that] show ?thesis by (simp add: says_none)
qed

text \<open>The same for a device object without a callback, as it is at the opening.\<close>

definition silent_down :: "(mutex \<Rightarrow> bool) \<Rightarrow> (nat \<Rightarrow> finger_t) \<Rightarrow> world \<Rightarrow> bool" where
  "silent_down l fs w \<longleftrightarrow> down l fs STATE_IDLE (with_dev (zero_device\<lparr>notify_set := True\<rparr>) w)"

lemma open_sessions_silent:
  assumes E: "willing E" and w: "silent_down l fs w" and l: "\<not> l Tz_lock"
  shows "returns (open_sessions E w) (\<lambda>(x, u). silent_down l fs u \<and> vdev u = vdev w)"
proof -
  let ?d = "zero_device\<lparr>notify_set := True\<rparr>"
  obtain x v where v: "open_sessions E (with_dev ?d w) = Some (x, v)" "down l fs STATE_IDLE v" "vdev v = ?d"
    using open_sessions_down [OF E w [unfolded silent_down_def] l] by (auto elim!: returns_obtain)
  have u: "open_sessions E w = Some (x, with_dev (vdev w) v)"
    using with_dev_open_sessions [of E "vdev w" "with_dev ?d w"] v(1) by simp
  have "with_dev ?d v = v" using v(3) with_dev_fields(10) [of v] by simp
  with u v(2) show ?thesis by (simp add: silent_down_def)
qed

subsection \<open>Opening the device\<close>

text \<open>A new device: memory and libraries are there, a select returns no rows as long as none has been
  inserted, and no database of the old format exists.\<close>

fun inserts_row :: "ext_call \<Rightarrow> bool" where
  "inserts_row (Sql_insert c d p) = True"
| "inserts_row _ = False"

definition new_device :: "env \<Rightarrow> bool" where
  "new_device E \<longleftrightarrow> (\<forall>t. found E t) \<and> (\<forall>t. (\<forall>c\<in>set t. \<not> inserts_row c) \<longrightarrow> rows E t = []) \<and>
     (\<forall>p t. ret E (File_access p # t) \<noteq> 0)"

lemma found_symbols:
  "(\<And>t. found E t) \<Longrightarrow> load_symbols E ss w = (0, w\<lparr>trace := rev (map Qsee_dlsym ss) @ trace w\<rparr>)"
  by (induction ss arbitrary: w) (simp_all add: Let_def log_call_def)

lemma found_library:
  assumes "new_device E" "\<not> km_init w"
  shows "snd (init_qsee E w) = w\<lparr>km_init := True, km_handle := Km_loaded,
    trace := rev (map Qsee_dlsym qsee_symbols) @ Qsee_dlopen # Qsee_malloc # trace w\<rparr>"
  using assms
  by (simp add: new_device_def init_qsee_def qcom_km_get_lib_sym_def found_symbols Let_def log_call_def)

lemma start_app_library:
  "km_init (snd (init_qsee E w)) \<Longrightarrow> QSEECom_start_app E (snd (init_qsee E w)) = QSEECom_start_app E w"
  by (simp add: QSEECom_start_app_def init_qsee_done)

lemma open_sessions_library:
  assumes "km_init (snd (init_qsee E w))" "\<not> tz_init (tz w)"
  shows "open_sessions E (snd (init_qsee E w)) = open_sessions E w"
proof -
  have "vcs_init E (snd (init_qsee E w)) = vcs_init E w"
    using init_qsee_same [of w E] assms by (simp add: vcs_init_def start_app_library same_app_def)
  then show ?thesis by (simp add: open_sessions_def)
qed

lemma empty_database:
  assumes E: "willing E" "new_device E" and w: "\<forall>c\<in>set (trace w). \<not> inserts_row c"
  shows "db_init E w = Some (0, log_call (Sql_select (select_cmd (active_gid (vdev w)))) (clear_fingers
    (log_call (File_access SAMSUNG_FP_DB_PATH) (log_call (Sql_exec (create_cmd (active_gid (vdev w))))
      (log_call (Sql_open FINGER_DATABASE_FILENAME) w)))))"
proof -
  have "ret E (Sql_open f # t) = 0" for f t using E(1) by (simp add: willing_def cooperative_def)
  moreover have "vdev (clear_fingers v) = vdev v" "trace (clear_fingers v) = trace v" for v
    by (simp_all add: clear_fingers_def upd_tz_def)
  ultimately show ?thesis using E(2) w
    by (simp add: db_init_def db_read_to_tz_def db_check_and_create_table_def call_ret_def Let_def new_device_def SQLITE_OK_def)
qed

lemma cleared:
  "tz w = zero_tz \<Longrightarrow> tz (clear_fingers w) = zero_tz" "vdev (clear_fingers w) = vdev w"
  "km_init (clear_fingers w) = km_init w" "held (clear_fingers w) = held w" "notices (clear_fingers w) = notices w"
  by (simp_all add: clear_fingers_def upd_tz_def zero_tz_def notices_def cong: if_cong)

lemma bind_pair_assoc:
  "Option.bind (Option.bind m (\<lambda>(a, v). f a v)) g = Option.bind m (\<lambda>(a, v). Option.bind (f a v) g)"
  by (cases m) auto

lemma silent_simps [simp]:
  "silent_down l fs (log_call c w) = silent_down l fs w" "silent_down l fs (snd (sensor_init w)) = silent_down l fs w"
  "silent_down l fs (snd (sensor_uninit w)) = silent_down l fs w"
  by (simp_all add: silent_down_def down_def sensor_power_fields) (simp_all add: sensor_power_eqs log_call_def)

lemma open_completes:
  assumes E: "willing E" "new_device E"
  shows "returns (fingerprint_open E False (boot_world b c)) (\<lambda>(x, u). x = 0 \<and>
    silent_down (\<lambda>_. False) (\<lambda>_. zero_finger) u \<and> vdev u = zero_device \<and> authentications (notices u) = [])"
proof -
  let ?l = "(\<lambda>_. False)(Dev_lock := True)"
  have ret: "ret E (File_open f # t) = 0" for f t using E(1) by (simp add: willing_def cooperative_def)
  define w1 where "w1 = snd (sensor_uninit (snd (sensor_register (snd (sensor_init (upd_sensor (\<lambda>s. s\<lparr>sn_fd := 0\<rparr>)
    (log_call (File_open SENSOR_FILE_NAME) (open_reset (log_call Calloc (boot_world b c)))))))))) "
  define w2 where "w2 = snd (sensor_init ((log_call (Mutex_lock Dev_lock) w1)\<lparr>held := ?l\<rparr>))"
  have w1: "tz w1 = zero_tz" "vdev w1 = zero_device" "\<not> km_init w1" "held w1 = (\<lambda>_. False)" "notices w1 = []"
    by (simp_all add: w1_def notices_def map_filter_simps sensor_power_eqs sensor_register_def ioctl_def log_call_def upd_sensor_def open_reset_def
        boot_world_def Let_def)
  have w2: "tz w2 = zero_tz" "vdev w2 = zero_device" "\<not> km_init w2" "held w2 = ?l" "notices w2 = []"
    using w1 by (simp_all add: w2_def sensor_power_eqs log_call_def notices_def map_filter_simps)
  have none: "\<forall>c\<in>set (trace w2). \<not> inserts_row c"
    by (simp add: w2_def w1_def sensor_power_trace sensor_register_def ioctl_def log_call_def upd_sensor_def open_reset_def
        boot_world_def Let_def)
  obtain w3 where w3: "db_init E w2 = Some (0, w3)" "tz w3 = zero_tz" "vdev w3 = zero_device" "\<not> km_init w3" "held w3 = ?l" "notices w3 = []"
    using empty_database [OF E none] w2
    by (simp add: cleared notices_log)
  have lib: "snd (init_qsee E w3) = w3\<lparr>km_init := True, km_handle := Km_loaded,
      trace := rev (map Qsee_dlsym qsee_symbols) @ Qsee_dlopen # Qsee_malloc # trace w3\<rparr>"
    by (rule found_library [OF E(2) w3(4)])
  have "silent_down ?l (\<lambda>_. zero_finger) (snd (init_qsee E w3))"
    using w3 by (simp add: lib silent_down_def down_def with_dev_def zero_tz_def)
  moreover have "open_sessions E (snd (init_qsee E w3)) = open_sessions E w3"
    by (rule open_sessions_library) (use w3 in \<open>simp_all add: lib zero_tz_def\<close>)
  ultimately obtain x w4 where w4: "open_sessions E w3 = Some (x, w4)" "silent_down ?l (\<lambda>_. zero_finger) w4" "vdev w4 = zero_device"
    using open_sessions_silent [OF E(1), of ?l "\<lambda>_. zero_finger" "snd (init_qsee E w3)"] w3(3) lib
    by (auto elim!: returns_obtain)
  have h: "held (snd (sensor_uninit w4)) = ?l"
    using w4(2) by (simp add: silent_down_def down_def sensor_power_eqs)
  then have un: "unlock Dev_lock (snd (sensor_uninit w4)) = Some ((snd (sensor_uninit w4))\<lparr>held := \<lambda>_. False\<rparr>)"
    by (simp add: unlock_def fun_upd_idem)
  have "fingerprint_open E False (boot_world b c) = Option.bind (open_sessions E w3) (\<lambda>(_, w).
      Option.bind (unlock Dev_lock (snd (sensor_uninit w))) (\<lambda>w. Some (0, w)))"
    using E(2) w3(1) w1(4)
    by (simp add: w1_def [symmetric] w2_def [symmetric] fingerprint_open_def open_sessions_def new_device_def call_ret_def ret Let_def willing_lock [OF E(1)]
        bind_pair_assoc del: Option.bind_assoc)
  moreover have "silent_down (\<lambda>_. False) (\<lambda>_. zero_finger) ((snd (sensor_uninit w4))\<lparr>held := \<lambda>_. False\<rparr>)"
    using w4(2) silent_simps(3) [of ?l "\<lambda>_. zero_finger" w4] by (simp add: silent_down_def down_def)
  moreover have "authentications (notices w4) = []"
    using open_sessions_reports [OF w4(1)] w3(6) by (simp add: authentications_def)
  ultimately show ?thesis using w4(1,3) un by (simp add: sensor_power_fields)
qed

subsection \<open>Closing the device\<close>

lemma down_off [simp]: "down l fs s (snd (sensor_uninit w)) = down l fs s w"
  by (simp add: down_def sensor_power_fields) (simp add: sensor_power_eqs)

lemma cancel_at_rest:
  assumes E: "willing E" and w: "down (\<lambda>_. False) fs STATE_IDLE w"
  shows "returns (fingerprint_cancel E w) (\<lambda>(x, u). x = 0 \<and> down (\<lambda>_. False) fs STATE_IDLE u)"
proof -
  have "returns (cancel_timeout E w) (down (\<lambda>_. False) fs STATE_IDLE)"
    using w by (simp add: cancel_timeout_def willing_lock [OF E] willing_interfere [OF E] unlock_def Let_def down_def)
      (simp add: upd_tz_def fun_upd_idem)
  then obtain v where v: "cancel_timeout E w = Some v" "down (\<lambda>_. False) fs STATE_IDLE v" by (auto elim!: returns_obtain)
  then have "\<not> held v Tz_lock" "tz_state (tz v) = STATE_IDLE" by (simp_all add: down_def)
  with v show ?thesis by (simp add: fingerprint_cancel_def willing_get [OF E])
qed

lemma close_completes:
  assumes E: "willing E" and w: "ready fs w"
  shows "returns (fingerprint_close E False w) (\<lambda>(x, u). x = 0)"
proof -
  let ?l = "(\<lambda>_. False)(Dev_lock := True)"
  obtain w1 where w1: "fingerprint_cancel E w = Some (0, w1)" "down (\<lambda>_. False) fs STATE_IDLE w1"
    using cancel_at_rest [OF E ready_down [OF w]] by (auto elim!: returns_obtain)
  define w2 where "w2 = snd (sensor_init (log_call Sql_close ((log_call (Mutex_lock Dev_lock) w1)\<lparr>held := ?l\<rparr>)))"
  have "held w1 = (\<lambda>_. False)" using w1(2) by (simp add: down_def)
  then have l: "lock E Dev_lock w1 = Some ((log_call (Mutex_lock Dev_lock) w1)\<lparr>held := ?l\<rparr>)"
    by (simp add: willing_lock [OF E])
  have w2: "down ?l fs STATE_IDLE w2" using w1(2) by (simp add: w2_def) (simp add: down_def)
  obtain w3 g where w3: "vcs_init E w2 = Some (0, w3)" "cal_ok (tz w3)" "in_state ?l fs STATE_IDLE g w3"
    using init_app_ok [OF E w2] by (auto elim!: returns_obtain)
  obtain w4 where w4: "vcs_stop_auth_session E w3 = Some (0, w4)" "in_state ?l fs STATE_IDLE g w4"
    using auth_session_in_state(2) [OF E w3(3)] by (auto elim!: returns_obtain)
  have "cal_ok (tz w4)" by (rule cal_kept [OF app.sessions(5) [OF app.refl] w4(1) w3(3,2)])
  then obtain w5 where w5: "vcs_uninit E w4 = Some (0, w5)" "down ?l fs STATE_IDLE w5"
    using uninit_in_state [OF E w4(2)] by (auto elim!: returns_obtain)
  have "held (snd (sensor_uninit w5)) = ?l" using down_off [of ?l fs STATE_IDLE w5] w5(2) by (simp add: down_def)
  with w1(1) l w3(1) w4(1) w5(1) show ?thesis
    by (simp add: fingerprint_close_def db_uninit_def call_ret_def Let_def unlock_def w2_def [symmetric])
qed

subsection \<open>From opening to closing\<close>

lemma notify_ready:
  assumes E: "willing E" and w: "silent_down (\<lambda>_. False) fs w" "vdev w = zero_device"
  shows "\<exists>u. runs E w [Set_notify] u \<and> ready fs u \<and> vdev u = zero_device\<lparr>notify_set := True\<rparr> \<and> notices u = notices w"
proof -
  have "held w = (\<lambda>_. False)" using w(1) by (simp add: silent_down_def down_def)
  then have "perform E Set_notify w = Some (with_dev (zero_device\<lparr>notify_set := True\<rparr>) (log_call (Mutex_lock Dev_lock) w))"
    using w(2) by (simp add: set_notify_callback_def willing_lock [OF E] Let_def unlock_def upd_dev_def with_dev_def fun_upd_idem log_call_def)
  from runs_more [OF runs_none this] w(1) show ?thesis
    by (intro exI [of _ "with_dev (zero_device\<lparr>notify_set := True\<rparr>) (log_call (Mutex_lock Dev_lock) w)"])
       (auto simp: silent_down_def ready_def settled_def down_def app_ok_def km_ok_def notices_def map_filter_simps zero_device_def)
qed

text \<open>C4: a device from its opening to its closing.  Let the application accept every command, report the
  finger gone when the sensor was read, say from some call on that the images suffice, and name the
  first template in every match; let somebody attend to the sensor and no other thread do anything
  else; let the database be new.  Then on a device just booted everything returns: the opening, the
  registration of the callback, an enrolment without a timeout, for a user, with a token of the right
  version and the challenge 0 (the one before any \<open>fingerprint_pre_enroll\<close>), its thread, any
  number of authentications with theirs, and the closing.  The first slot, and no other, holds the
  finger; the authentications reported are the operations asked for, in order, each for slot 1;
  and in the end the sensor is off, the driver closed, the application stopped and its session closed.\<close>

theorem device_lifecycle:
  assumes "willing E" "attended E" "images_suffice E n" "new_device E"
    and "hat_version hat = hw_auth_token_version E" "hat_challenge hat = 0" "hat_user_id hat \<noteq> 0"
    and "names_template E 0"
  shows "\<exists>v u x f. fingerprint_open E False (boot_world b c) = Some (0, v) \<and>
    runs E v ([Set_notify, Enroll (Some hat) 0, Thread_enroll] @
      concat (map (\<lambda>op. [Authenticate op, Thread_authenticate]) ops)) u \<and>
    fingerprint_close E False u = Some (0, x) \<and>
    finger (tz u) = (\<lambda>_. zero_finger)(1 := f) \<and> exist f \<and> authentications (notices u) = map (\<lambda>op. (1, op)) ops \<and>
    powered (trace x) = Some False \<and> sn_fd (sensor x) = -1 \<and> \<not> tz_init (tz x) \<and> \<not> auth_session_opend (tz x)"
proof -
  let ?fs = "\<lambda>_. zero_finger"
  have free: "find_free ?fs slot_indices = 1" by (simp add: slot_indices_eq zero_finger_def)
  have k: "(1 :: nat) \<le> MAX_NUM_FINGERS" by (simp add: MAX_NUM_FINGERS_def)
  obtain v where v: "fingerprint_open E False (boot_world b c) = Some (0, v)" "silent_down (\<lambda>_. False) ?fs v"
      "vdev v = zero_device" "authentications (notices v) = []"
    using open_completes [OF assms(1,4)] by (auto elim!: returns_obtain)
  obtain v1 where v1: "runs E v [Set_notify] v1" "ready ?fs v1" "vdev v1 = zero_device\<lparr>notify_set := True\<rparr>" "notices v1 = notices v"
    using notify_ready [OF assms(1) v(2,3)] by blast
  have "hat_challenge hat = challenge (vdev v1)" using v1(3) assms(6) by (simp add: zero_device_def)
  from enrollment_run [OF assms(1-3) v1(2) assms(5) this assms(7) free k] obtain v2 f where
    v2: "runs E v1 [Enroll (Some hat) 0, Thread_enroll] v2" "ready (?fs(1 := f)) v2" "exist f"
      "authentications (notices v2) = authentications (notices v1)" by blast
  have one: "enrolled (?fs(1 := f)) = [1]" using v2(3) by (simp add: enrolled_def slot_indices_eq zero_finger_def)
  from sessions_run [OF assms(1,2) _ _ v2(2), of 0 ops] obtain u where
    u: "runs E v2 (concat (map (\<lambda>op. [Authenticate op, Thread_authenticate]) ops)) u" "ready (?fs(1 := f)) u"
      "authentications (notices u) = map (\<lambda>op. (1, op)) ops"
    using assms(8) v2(4) v1(4) v(4) one by auto
  have run: "runs E v ([Set_notify, Enroll (Some hat) 0, Thread_enroll] @
      concat (map (\<lambda>op. [Authenticate op, Thread_authenticate]) ops)) u"
    using runs_append [OF runs_append [OF v1(1) v2(1)] u(1)] by simp
  obtain x where x: "fingerprint_close E False u = Some (0, x)"
    using close_completes [OF assms(1) u(2)] by (auto elim!: returns_obtain)
  have "power_ok (log_call Calloc (boot_world b c))" "power_ok (open_reset (log_call Calloc (boot_world b c)))"
    using open_reset_ok [of b c] by (simp_all add: device_ok_def)
  then have "power_ok v"
    using on_returnD [OF driver.fingerprint_open_frame v(1)] by (auto simp: keeps_power_ok_def)
  then have "power_ok u" using driver.runs_frame [OF run] by (simp add: keeps_power_ok_def)
  from on_returnD [OF close_shuts_down [OF this] x] have "powered (trace x) = Some False \<and> sn_fd (sensor x) = -1 \<and>
      \<not> tz_init (tz x) \<and> \<not> auth_session_opend (tz x)" by (cases "sensor x") simp
  with v(1) run x u(2,3) v2(3) show ?thesis by (auto simp: ready_def)
qed

definition new_env :: env where
  "new_env = session_env\<lparr>ret := (\<lambda>t. case t of File_access p # _ \<Rightarrow> -1 | _ \<Rightarrow> 0)\<rparr>"

theorem device_lifecycle_witness:
  "\<exists>v u x. fingerprint_open new_env False (boot_world (\<lambda>_. 0) sha_initial) = Some (0, v) \<and>
    runs new_env v [Set_notify, Enroll (Some user_token) 0, Thread_enroll, Authenticate 7, Thread_authenticate] u \<and>
    fingerprint_close new_env False u = Some (0, x) \<and> authentications (notices u) = [(1, 7)] \<and> powered (trace x) = Some False"
proof -
  have ret: "ret new_env t = (case t of File_access p # _ \<Rightarrow> -1 | _ \<Rightarrow> 0)" for t by (simp add: new_env_def)
  have "\<not> asks_storage t \<Longrightarrow> ret new_env t = 0" for t by (cases t rule: asks_storage.cases) (simp_all add: ret)
  then have "willing new_env"
    using session_env_fair(1) by (simp add: willing_def calm_def cooperative_def new_env_def)
  moreover have "attended new_env" "images_suffice new_env 60" "new_device new_env"
    using session_env_fair(2,3) ret by (simp_all add: attended_def images_suffice_def new_device_def new_env_def session_env_def good_env_def)
  moreover have "names_template new_env 0"
    by (simp add: names_template_def new_env_def session_env_def good_env_def good_response_def last_image_def get32_def off_defs)
  moreover have "hat_version user_token = hw_auth_token_version new_env" "hat_challenge user_token = 0" "hat_user_id user_token \<noteq> 0"
    by (simp_all add: user_token_def foreign_token_def new_env_def session_env_def good_env_def)
  ultimately show ?thesis
    using device_lifecycle [of new_env 60 user_token "\<lambda>_. 0" sha_initial "[7]"] by fastforce
qed

end
