(* ===== verification/C_Layout.thy ===== *)
theory C_Layout
  imports Prelude_C "HOL-Library.Sublist"
begin

text \<open>
  The layout of C structures on the 32-bit ARM target: the size and the alignment of a type, and
  the offset of every field.  \<open>int\<close>, \<open>long\<close>, pointers and enumerations take four bytes, the
  64-bit integers are aligned to eight.  The structures of the headers are lists of named
  fields; the facts here hold of every such list: fields are aligned, do not overlap and lie inside
  their structure, and fields added at the end move nothing.
\<close>

datatype ctype =
    CChar | CUChar | CUint8 | CInt | CUInt | CInt32 | CUint32 | CLong | CInt64 | CUint64
  | CEnum string \<comment> \<open>with its name\<close>
  | CPtr string \<comment> \<open>to that type, or a function pointer type\<close>
  | CArray ctype nat
  | CStruct "(string \<times> ctype) list"
  | CUnion "(string \<times> ctype) list"

type_synonym fields = "(string \<times> ctype) list"

text \<open>The first multiple of \<open>a\<close> from \<open>n\<close> on.\<close>

definition round_up :: "nat \<Rightarrow> nat \<Rightarrow> nat" where
  "round_up n a = (n + (a - 1)) div a * a"

fun calign :: "ctype \<Rightarrow> nat" and fields_align :: "fields \<Rightarrow> nat" where
  "calign CChar = 1"
| "calign CUChar = 1"
| "calign CUint8 = 1"
| "calign CInt = 4"
| "calign CUInt = 4"
| "calign CInt32 = 4"
| "calign CUint32 = 4"
| "calign CLong = 4"
| "calign CInt64 = 8"
| "calign CUint64 = 8"
| "calign (CEnum _) = 4"
| "calign (CPtr _) = 4"
| "calign (CArray t n) = calign t"
| "calign (CStruct fs) = fields_align fs"
| "calign (CUnion fs) = fields_align fs"
| "fields_align [] = 1"
| "fields_align ((_, t) # fs) = max (calign t) (fields_align fs)"

fun csize :: "ctype \<Rightarrow> nat" and struct_end :: "nat \<Rightarrow> fields \<Rightarrow> nat" and union_size :: "fields \<Rightarrow> nat" where
  "csize CChar = 1"
| "csize CUChar = 1"
| "csize CUint8 = 1"
| "csize CInt = 4"
| "csize CUInt = 4"
| "csize CInt32 = 4"
| "csize CUint32 = 4"
| "csize CLong = 4"
| "csize CInt64 = 8"
| "csize CUint64 = 8"
| "csize (CEnum _) = 4"
| "csize (CPtr _) = 4"
| "csize (CArray t n) = n * csize t"
| "csize (CStruct fs) = round_up (struct_end 0 fs) (fields_align fs)"
| "csize (CUnion fs) = round_up (union_size fs) (fields_align fs)"
| "struct_end off [] = off"
| "struct_end off ((_, t) # fs) = struct_end (round_up off (calign t) + csize t) fs"
| "union_size [] = 0"
| "union_size ((_, t) # fs) = max (csize t) (union_size fs)"

text \<open>The fields with their offsets.\<close>

fun place :: "nat \<Rightarrow> fields \<Rightarrow> (string \<times> nat \<times> ctype) list" where
  "place off [] = []"
| "place off ((n, t) # fs) = (let o' = round_up off (calign t) in (n, o', t) # place (o' + csize t) fs)"

definition offset_of :: "fields \<Rightarrow> string \<Rightarrow> nat option" where
  "offset_of fs n = map_option fst (map_of (place 0 fs) n)"

text \<open>The members that hold the data, through nested structures and unions, with their paths.\<close>

fun leaves :: "string list \<Rightarrow> nat \<Rightarrow> ctype \<Rightarrow> (string list \<times> nat \<times> ctype) list"
  and struct_leaves :: "string list \<Rightarrow> nat \<Rightarrow> nat \<Rightarrow> fields \<Rightarrow> (string list \<times> nat \<times> ctype) list"
  and union_leaves :: "string list \<Rightarrow> nat \<Rightarrow> fields \<Rightarrow> (string list \<times> nat \<times> ctype) list" where
  "leaves p base (CStruct fs) = struct_leaves p base 0 fs"
| "leaves p base (CUnion fs) = union_leaves p base fs"
| "leaves p base t = [(p, base, t)]"
| "struct_leaves p base off [] = []"
| "struct_leaves p base off ((n, t) # fs) =
    (let o' = round_up off (calign t)
     in leaves (p @ [n]) (base + o') t @ struct_leaves p base (o' + csize t) fs)"
| "union_leaves p base [] = []"
| "union_leaves p base ((n, t) # fs) = leaves (p @ [n]) base t @ union_leaves p base fs"

text \<open>Memory laid out as \<open>new\<close> can be read as \<open>old\<close>: every datum of \<open>old\<close> is at its place, with its
  type.\<close>

definition reads_as :: "fields \<Rightarrow> fields \<Rightarrow> bool" where
  "reads_as new old \<longleftrightarrow> set (leaves [] 0 (CStruct old)) \<subseteq> set (leaves [] 0 (CStruct new)) \<and>
     csize (CStruct old) \<le> csize (CStruct new)"

subsection \<open>Alignment\<close>

lemma calign_cases: "calign t = 1 \<or> calign t = 4 \<or> calign t = 8" "fields_align fs = 1 \<or> fields_align fs = 4 \<or> fields_align fs = 8"
  by (induction t and fs rule: calign_fields_align.induct) (auto simp: max_def)

lemma calign_dvd: "calign s \<le> calign t \<Longrightarrow> calign s dvd calign t"
  using calign_cases(1) [of s] calign_cases(1) [of t] by auto

lemma align_le: "(n, t) \<in> set fs \<Longrightarrow> calign t \<le> fields_align fs"
  by (induction fs) auto

lemma align_dvd: "(n, t) \<in> set fs \<Longrightarrow> calign t dvd fields_align fs"
  using calign_dvd [of t "CStruct fs"] align_le by simp

lemma round_up_props:
  assumes "0 < a"
  shows "n \<le> round_up n a" "a dvd round_up n a" "round_up n a < n + a"
proof -
  have e: "(n + (a - 1)) div a * a + (n + (a - 1)) mod a = n + (a - 1)" by simp
  have m: "(n + (a - 1)) mod a < a" using assms by simp
  show "n \<le> round_up n a" "round_up n a < n + a"
    unfolding round_up_def using e m assms by linarith+
qed (simp add: round_up_def)

lemma calign_pos: "0 < calign t" "0 < fields_align fs"
  using calign_cases(1) [of t] calign_cases(2) [of fs] by auto

lemma csize_align: "calign t dvd csize t"
  by (induction t) (auto simp: round_up_props calign_pos)

subsection \<open>Fields\<close>

lemma struct_end_ge: "off \<le> struct_end off fs"
proof (induction fs arbitrary: off)
  case (Cons f fs)
  obtain n t where "f = (n, t)" by (cases f)
  with Cons [of "round_up off (calign t) + csize t"] round_up_props(1) [OF calign_pos(1), of off t] show ?case by simp
qed simp

lemma place_inside:
  "(n, o', t) \<in> set (place off fs) \<Longrightarrow> off \<le> o' \<and> calign t dvd o' \<and> o' + csize t \<le> struct_end off fs \<and> (n, t) \<in> set fs"
proof (induction fs arbitrary: off)
  case (Cons f fs)
  obtain m s where f: "f = (m, s)" by (cases f)
  have "off \<le> round_up off (calign s)" "calign s dvd round_up off (calign s)"
    by (simp_all add: round_up_props calign_pos)
  with Cons.IH [of "round_up off (calign s) + csize s"] Cons.prems
    struct_end_ge [of "round_up off (calign s) + csize s" fs]
  show ?case by (auto simp: f Let_def)
qed simp

lemma place_ordered: "sorted_wrt (\<lambda>(_, o1, t1) (_, o2, _). o1 + csize t1 \<le> o2) (place off fs)"
proof (induction fs arbitrary: off)
  case (Cons f fs)
  obtain m s where f: "f = (m, s)" by (cases f)
  with Cons show ?case by (auto simp: Let_def dest: place_inside)
qed simp

lemma place_append: "place off (fs @ gs) = place off fs @ place (struct_end off fs) gs"
  by (induction fs arbitrary: off) (auto simp: Let_def)

lemma struct_end_append: "struct_end off (fs @ gs) = struct_end (struct_end off fs) gs"
  by (induction fs arbitrary: off) auto

lemma struct_leaves_append:
  "struct_leaves p base off (fs @ gs) = struct_leaves p base off fs @ struct_leaves p base (struct_end off fs) gs"
  by (induction fs arbitrary: off) (auto simp: Let_def)

lemma fields_align_append: "fields_align (fs @ gs) = max (fields_align fs) (fields_align gs)"
  using calign_pos(2) [of gs] by (induction fs) (auto simp: max.assoc)

lemma round_up_mono:
  assumes "m \<le> n" "a dvd b" "0 < b"
  shows "round_up m a \<le> round_up n b"
proof -
  have a: "0 < a" using assms(2,3) by (auto intro: Nat.gr0I)
  have "m \<le> round_up n b" "a dvd round_up n b"
    using round_up_props [OF assms(3), of n] assms(1,2) by (auto intro: dvd_trans)
  then obtain k where k: "round_up n b = a * k" by (auto simp: dvd_def)
  then have "m + (a - 1) < a * (k + 1)" using \<open>m \<le> round_up n b\<close> a by simp
  then have "(m + (a - 1)) div a < k + 1" by (simp add: less_mult_imp_div_less mult.commute)
  then have "(m + (a - 1)) div a \<le> k" by linarith
  then have "round_up m a \<le> k * a" unfolding round_up_def by (rule mult_le_mono1)
  then show ?thesis by (simp add: k mult.commute)
qed

text \<open>Fields added at the end.\<close>

lemma reads_as_extension:
  assumes "prefix old new"
  shows "reads_as new old"
proof -
  obtain gs where new: "new = old @ gs" using assms by (auto simp: prefix_def)
  have "calign (CStruct old) dvd calign (CStruct new)"
    by (rule calign_dvd) (simp add: new fields_align_append)
  then have "round_up (struct_end 0 old) (fields_align old) \<le> round_up (struct_end 0 new) (fields_align new)"
    using struct_end_ge [of "struct_end 0 old" gs] by (intro round_up_mono) (simp_all add: new struct_end_append calign_pos)
  then show ?thesis by (simp add: reads_as_def new struct_leaves_append)
qed

end
