(* ===== verification/Tz_Structs.thy ===== *)
theory Tz_Structs
  imports C_Layout Tz_Layout Tz_Session
begin

text \<open>
  The structures of \<open>fingerprint_tz.h\<close>, \<open>QSEEComAPI.h\<close> and \<open>vfs61xx_ioctl.h\<close> as the headers
  declare them.  The operations on the shared buffer use sizes and offsets as numbers; the lemmas
  here derive these numbers from the declarations, so a field added to a structure would show.
  The constants \<open>QSEEComAPI.h\<close> declares are at the end.
\<close>

subsection \<open>Commands and responses\<close>

definition trust_zone_normal_cmd_t :: fields where
  "trust_zone_normal_cmd_t =
    [(''cmd'', CEnum ''trust_zone_cmd_id_t''), (''len'', CInt), (''zero'', CInt),
     (''data'', CArray CChar (BUFFER_LENGTH - 12))]"

definition trust_zone_vendor_cmd_t :: fields where
  "trust_zone_vendor_cmd_t =
    [(''cmd'', CEnum ''trust_zone_cmd_id_t''), (''vendor_cmd'', CEnum ''trust_zone_vendor_cmd_id_t''),
     (''len'', CInt), (''zero'', CInt), (''data'', CArray CChar (BUFFER_LENGTH - 16))]"

definition trust_zone_2x_cmd_t :: fields where
  "trust_zone_2x_cmd_t =
    [(''cmd'', CEnum ''trust_zone_cmd_id_t''), (''len'', CInt), (''zero'', CInt),
     (''data'', CArray CChar (BUFFER_LENGTH * 2 - 12))]"

definition trust_zone_3x_cmd_t :: fields where
  "trust_zone_3x_cmd_t =
    [(''cmd'', CEnum ''trust_zone_cmd_id_t''), (''len'', CInt), (''zero'', CInt),
     (''data'', CArray CChar (BUFFER_LENGTH * 3 - 12))]"

text \<open>\<open>time_t\<close> is a \<open>long\<close>.\<close>

definition trust_zone_5x_cmd_t :: fields where
  "trust_zone_5x_cmd_t =
    [(''cmd'', CEnum ''trust_zone_cmd_id_t''), (''len'', CInt), (''zero'', CInt),
     (''unknown'', CArray CInt 2), (''time_now'', CLong), (''data'', CArray CChar 563304)]"

definition trust_zone_normal_result_t :: fields where
  "trust_zone_normal_result_t =
    [(''zero'', CInt), (''result'', CInt), (''data'', CArray CInt (BUFFER_LENGTH div 4 - 2))]"

definition trust_zone_2x_result_t :: fields where
  "trust_zone_2x_result_t =
    [(''zero'', CInt), (''result'', CInt), (''data'', CArray CInt ((BUFFER_LENGTH * 2) div 4 - 2))]"

lemmas tz_struct_defs = trust_zone_normal_cmd_t_def trust_zone_vendor_cmd_t_def trust_zone_2x_cmd_t_def
  trust_zone_3x_cmd_t_def trust_zone_5x_cmd_t_def trust_zone_normal_result_t_def trust_zone_2x_result_t_def

lemma round_up_word: "round_up n 4 = (n + 3) div 4 * 4" "round_up n (Suc 0) = n"
  by (simp_all add: round_up_def)

lemma tz_struct_sizes:
  "csize (CStruct trust_zone_normal_cmd_t) = sizeof_base_cmd" "csize (CStruct trust_zone_vendor_cmd_t) = sizeof_vendor_cmd"
  "csize (CStruct trust_zone_2x_cmd_t) = sizeof_2x_cmd" "csize (CStruct trust_zone_3x_cmd_t) = sizeof_3x_cmd"
  "csize (CStruct trust_zone_5x_cmd_t) = sizeof_5x_cmd" "csize (CStruct trust_zone_normal_result_t) = sizeof_normal_result"
  "csize (CStruct trust_zone_2x_result_t) = sizeof_2x_result" "csize CInt = sizeof_int"
  by (simp_all add: tz_struct_defs sizeof_defs round_up_word)

lemma tz_struct_offsets:
  "map (offset_of trust_zone_normal_cmd_t) [''cmd'', ''len'', ''zero'', ''data''] = map Some [off_cmd, off_len, off_zero, off_data]"
  "map (offset_of trust_zone_vendor_cmd_t) [''cmd'', ''vendor_cmd'', ''len'', ''data''] =
     map Some [off_cmd, off_vendor_cmd, off_vendor_len, off_vendor_data]"
  "map (offset_of trust_zone_2x_cmd_t) [''cmd'', ''len'', ''zero'', ''data''] = map Some [off_cmd, off_len, off_zero, off_data]"
  "map (offset_of trust_zone_3x_cmd_t) [''cmd'', ''len'', ''zero'', ''data''] = map Some [off_cmd, off_len, off_zero, off_data]"
  "map (offset_of trust_zone_5x_cmd_t) [''cmd'', ''len'', ''unknown'', ''time_now'', ''data''] =
     map Some [off_cmd, off_len, off_5x_unknown, off_5x_time_now, off_5x_data]"
  "map (offset_of trust_zone_normal_result_t) [''result'', ''data''] = map Some [off_result, off_result_data 0]"
  "map (offset_of trust_zone_2x_result_t) [''result'', ''data''] = map Some [off_result, off_result_data 0]"
  by (simp_all add: offset_of_def tz_struct_defs off_defs Let_def round_up_word)

lemma tz_struct_full:
  "list_all (\<lambda>fs. csize (CStruct fs) = (\<Sum>(f, t)\<leftarrow>fs. csize t)) [trust_zone_normal_cmd_t, trust_zone_vendor_cmd_t,
    trust_zone_2x_cmd_t, trust_zone_3x_cmd_t, trust_zone_5x_cmd_t, trust_zone_normal_result_t, trust_zone_2x_result_t]"
  by (simp add: tz_struct_defs round_up_word BUFFER_LENGTH_def)

subsection \<open>The wrapper's and the driver's structures\<close>

definition QSEECom_handle :: fields where
  "QSEECom_handle = [(''ion_sbuffer'', CPtr ''unsigned char'')]"

definition QSEECom_ion_fd_data :: fields where
  "QSEECom_ion_fd_data = [(''fd'', CInt32), (''cmd_buf_offset'', CUint32)]"

definition QSEECom_ion_fd_info :: fields where
  "QSEECom_ion_fd_info = [(''data'', CArray (CStruct QSEECom_ion_fd_data) 4)]"

definition vfsspi_iocRegSignal :: fields where
  "vfsspi_iocRegSignal = [(''userPID'', CInt), (''signalID'', CInt)]"

definition finger_t_layout :: fields where
  "finger_t_layout = [(''exist'', CUint8), (''data'', CArray CChar FINGER_DATA_MAX_LENGTH),
     (''payload'', CArray CChar PAYLOAD_MAX_LENGTH)]"

text \<open>A finger slot has no padding, so \<open>MAX_NUM_FINGERS * sizeof(finger_t)\<close> bytes are exactly the slots
  0 to 4, as \<open>clear_fingers\<close> has it.\<close>

lemma finger_slot_size:
  "csize (CStruct finger_t_layout) = 1 + FINGER_DATA_MAX_LENGTH + PAYLOAD_MAX_LENGTH"
  "i * csize (CStruct finger_t_layout) < MAX_NUM_FINGERS * csize (CStruct finger_t_layout) \<longleftrightarrow> i < MAX_NUM_FINGERS"
  by (simp_all add: finger_t_layout_def round_up_word FINGER_DATA_MAX_LENGTH_def PAYLOAD_MAX_LENGTH_def)

subsection \<open>Constants of the wrapper's interface\<close>

definition MEM_LOCKED :: nat where "MEM_LOCKED = 1"
definition MEM_NON_CACHED :: nat where "MEM_NON_CACHED = 2"
definition QSEECOM_APP_QUERY_FAILED :: int where "QSEECOM_APP_QUERY_FAILED = -6"
definition QSEECOM_APP_NOT_LOADED :: int where "QSEECOM_APP_NOT_LOADED = -5"
definition QSEECOM_APP_ALREADY_LOADED :: int where "QSEECOM_APP_ALREADY_LOADED = -4"
definition QSEECOM_LISTENER_UNREGISTERED :: int where "QSEECOM_LISTENER_UNREGISTERED = -3"
definition QSEECOM_LISTENER_ALREADY_REGISTERED :: int where "QSEECOM_LISTENER_ALREADY_REGISTERED = -2"
definition QSEECOM_LISTENER_REGISTER_FAIL :: int where "QSEECOM_LISTENER_REGISTER_FAIL = -1"

end
