(* ===== verification/Camera.thy ===== *)
theory Camera
  imports Prelude_C "HOL-Library.Sublist"
begin

text \<open>
  \<open>camera/CameraWrapper.cpp\<close>: the camera HAL that stands before the vendor's module, corrects the
  parameters that pass through it and forwards every other operation.

  The vendor's module and the framework's class \<open>CameraParameters\<close> are outside the
  repository.  The module answers through a \<open>cam_env\<close>, whose components are functions of the
  calls made so far, latest first; the class is a \<open>params_api\<close>, whose components are its
  methods and constants.  A device pointer is an \<open>option\<close>, \<open>None\<close> for NULL; a pointer of
  \<open>fixed_set_params\<close> is NULL, a live string, or dangling after \<open>free\<close>.  Reading or freeing a
  dangling pointer, and indexing past the array, are undefined, hence \<open>None\<close>.  The functions run
  one at a time (the framework and \<open>gCameraWrapperLock\<close> serialise them).
\<close>

subsection \<open>Data\<close>

definition KEY_DIS :: string where "KEY_DIS = ''dis''"
definition DIS_DISABLE :: string where "DIS_DISABLE = ''disable''"
definition KEY_ZSL :: string where "KEY_ZSL = ''zsl''"
definition ON :: string where "ON = ''on''"
definition OFF :: string where "OFF = ''off''"
definition KEY_PHASE_AF :: string where "KEY_PHASE_AF = ''phase-af''"
definition KEY_DYNAMIC_RANGE_CONTROL :: string where "KEY_DYNAMIC_RANGE_CONTROL = ''dynamic-range-control''"
definition KEY_QC_RT_HDR :: string where "KEY_QC_RT_HDR = ''rt-hdr''"
definition KEY_QC_VIDEO_HDR :: string where "KEY_QC_VIDEO_HDR = ''video-hdr''"
definition KEY_QC_VIDEO_HDR_VALUES :: string where "KEY_QC_VIDEO_HDR_VALUES = ''video-hdr-values''"
definition KEY_VIDEO_HFR_VALUES :: string where "KEY_VIDEO_HFR_VALUES = ''video-hfr-values''"
definition PIXEL_FORMAT_NV12_VENUS :: string where "PIXEL_FORMAT_NV12_VENUS = ''nv12-venus''"
definition BACK_CAMERA_ID :: int where "BACK_CAMERA_ID = 0"

lemmas camera_keys = KEY_DIS_def DIS_DISABLE_def KEY_ZSL_def ON_def OFF_def KEY_PHASE_AF_def
  KEY_DYNAMIC_RANGE_CONTROL_def KEY_QC_RT_HDR_def KEY_QC_VIDEO_HDR_def KEY_QC_VIDEO_HDR_VALUES_def
  KEY_VIDEO_HFR_VALUES_def PIXEL_FORMAT_NV12_VENUS_def

definition CAM_EINVAL :: int where "CAM_EINVAL = 22"
definition CAM_ENOMEM :: int where "CAM_ENOMEM = 12"

text \<open>The methods of \<open>CameraParameters\<close> the wrapper calls, and its constants.\<close>

record 'p params_api =
  unflatten :: "string \<Rightarrow> 'p"
  flatten :: "'p \<Rightarrow> string"
  pget :: "'p \<Rightarrow> string \<Rightarrow> string option"
  pset :: "'p \<Rightarrow> string \<Rightarrow> string \<Rightarrow> 'p"
  getPreviewFormat :: "'p \<Rightarrow> string option"
  setPreviewFormat :: "'p \<Rightarrow> string \<Rightarrow> 'p"
  getVideoSize :: "'p \<Rightarrow> int \<times> int"
  KEY_RECORDING_HINT :: string
  KEY_SUPPORTED_VIDEO_SIZES :: string
  KEY_VIDEO_SNAPSHOT_SUPPORTED :: string
  KEY_FLASH_MODE :: string
  FLASH_MODE_TORCH :: string
  PIXEL_FORMAT_YUV420SP :: string

datatype heap_string = Null_string | Live_string string | Dangling_string

record wrapper_camera_device_t =
  cam_id :: int
  cam_vendor :: nat \<comment> \<open>the vendor's device behind it\<close>

text \<open>The framework's callbacks are pointers, 0 for NULL.\<close>

record user_callbacks =
  gUserNotifyCb :: nat
  gUserDataCb :: nat
  gUserDataCbTimestamp :: nat
  gUserGetMemory :: nat
  gUserCameraDevice :: nat

datatype vendor_op =
    Op_set_preview_window nat
  | Op_set_callbacks nat
  | Op_enable_msg_type int
  | Op_disable_msg_type int
  | Op_msg_type_enabled int
  | Op_start_preview
  | Op_stop_preview
  | Op_preview_enabled
  | Op_store_meta_data_in_buffers int
  | Op_start_recording
  | Op_stop_recording
  | Op_recording_enabled
  | Op_release_recording_frame nat
  | Op_auto_focus
  | Op_cancel_auto_focus
  | Op_take_picture
  | Op_cancel_picture
  | Op_set_parameters string
  | Op_get_parameters
  | Op_put_parameters string
  | Op_send_command int int int
  | Op_release
  | Op_dump int

datatype cam_call =
    Get_module_by_class
  | Vendor_number_of_cameras
  | Vendor_camera_info int
  | Vendor_open string
  | Vendor_close nat
  | Vendor_op nat vendor_op
  | Cam_malloc
  | Call_notify nat int int int nat
  | Call_data nat int nat nat nat nat
  | Call_data_timestamp nat int int nat nat nat
  | Call_get_memory nat int nat nat nat

record cam_world =
  gVendorModule :: bool
  gUser :: user_callbacks
  fixed_set_params :: "heap_string list option"
  cam_trace :: "cam_call list"

record cam_env =
  cam_ret :: "cam_call list \<Rightarrow> int"
  cam_text :: "cam_call list \<Rightarrow> string"
  cam_handle :: "cam_call list \<Rightarrow> nat"
  cam_found :: "cam_call list \<Rightarrow> bool"

definition cam_log :: "cam_call \<Rightarrow> cam_world \<Rightarrow> cam_world" where
  "cam_log c w = w\<lparr>cam_trace := c # cam_trace w\<rparr>"

definition cam_ask :: "cam_env \<Rightarrow> cam_call \<Rightarrow> cam_world \<Rightarrow> int \<times> cam_world" where
  "cam_ask E c w = (let w = cam_log c w in (cam_ret E (cam_trace w), w))"

text \<open>\<open>VENDOR_CALL\<close>.\<close>

definition vendor_call :: "cam_env \<Rightarrow> wrapper_camera_device_t \<Rightarrow> vendor_op \<Rightarrow> cam_world \<Rightarrow> int \<times> cam_world" where
  "vendor_call E d x w = cam_ask E (Vendor_op (cam_vendor d) x) w"

subsection \<open>The vendor's module\<close>

definition check_vendor_module :: "cam_env \<Rightarrow> cam_world \<Rightarrow> int \<times> cam_world" where
  "check_vendor_module E w =
    (if gVendorModule w then (0, w)
     else let (rv, w) = cam_ask E Get_module_by_class w
          in (rv, if rv = 0 then w\<lparr>gVendorModule := True\<rparr> else w))"

definition camera_get_number_of_cameras :: "cam_env \<Rightarrow> cam_world \<Rightarrow> int \<times> cam_world" where
  "camera_get_number_of_cameras E w =
    (let (rv, w) = check_vendor_module E w
     in if rv \<noteq> 0 then (0, w) else cam_ask E Vendor_number_of_cameras w)"

definition camera_get_camera_info :: "cam_env \<Rightarrow> int \<Rightarrow> cam_world \<Rightarrow> int \<times> cam_world" where
  "camera_get_camera_info E camera_id w =
    (let (rv, w) = check_vendor_module E w
     in if rv \<noteq> 0 then (0, w) else cam_ask E (Vendor_camera_info camera_id) w)"

subsection \<open>Correcting parameters\<close>

text \<open>\<open>int\<close> products outside the 32-bit range are undefined.\<close>

definition is_4k_video :: "'p params_api \<Rightarrow> 'p \<Rightarrow> bool option" where
  "is_4k_video A p =
    (let (w, h) = getVideoSize A p
     in if w * h < - (2 ^ 31) \<or> 2 ^ 31 \<le> w * h then None else Some (w * h = 3840 * 2160))"

definition hide_venus :: "'p params_api \<Rightarrow> 'p \<Rightarrow> 'p option" where
  "hide_venus A p = (case getPreviewFormat A p of
     None \<Rightarrow> None
   | Some f \<Rightarrow> Some (if f = PIXEL_FORMAT_NV12_VENUS then setPreviewFormat A p (PIXEL_FORMAT_YUV420SP A) else p))"

definition camera_fixup_getparams :: "'p params_api \<Rightarrow> int \<Rightarrow> string \<Rightarrow> string option" where
  "camera_fixup_getparams A i settings = do {
     let p = unflatten A settings;
     let videoMode = (pget A p (KEY_RECORDING_HINT A) = Some ''true'');
     p \<leftarrow> hide_venus A p;
     let p = (case pget A p (KEY_SUPPORTED_VIDEO_SIZES A) of
                None \<Rightarrow> p
              | Some v \<Rightarrow> pset A p (KEY_SUPPORTED_VIDEO_SIZES A) (''3840x2160,'' @ v));
     let p = (case pget A p KEY_VIDEO_HFR_VALUES of
                None \<Rightarrow> p
              | Some v \<Rightarrow> if sublist ''off'' v then p else pset A p KEY_VIDEO_HFR_VALUES (v @ '',off''));
     let p = (if videoMode then pset A p (KEY_VIDEO_SNAPSHOT_SUPPORTED A) ''true'' else p);
     let p = (if i = BACK_CAMERA_ID then pset A p KEY_QC_VIDEO_HDR_VALUES ''on,off'' else p);
     Some (flatten A p) }"

text \<open>An entry of \<open>fixed_set_params\<close>, read.\<close>

definition fixed_param :: "int \<Rightarrow> cam_world \<Rightarrow> heap_string option" where
  "fixed_param i w = (case fixed_set_params w of
     None \<Rightarrow> None
   | Some ps \<Rightarrow> if 0 \<le> i \<and> nat i < length ps \<and> ps ! nat i \<noteq> Dangling_string then Some (ps ! nat i) else None)"

definition set_fixed_param :: "int \<Rightarrow> heap_string \<Rightarrow> cam_world \<Rightarrow> cam_world" where
  "set_fixed_param i s w = w\<lparr>fixed_set_params := map_option (\<lambda>ps. ps[nat i := s]) (fixed_set_params w)\<rparr>"

definition is_torch :: "'p params_api \<Rightarrow> string \<Rightarrow> bool" where
  "is_torch A settings = (pget A (unflatten A settings) (KEY_FLASH_MODE A) = Some (FLASH_MODE_TORCH A))"

definition was_torch :: "'p params_api \<Rightarrow> heap_string \<Rightarrow> bool" where
  "was_torch A old = (case old of Live_string s \<Rightarrow> is_torch A s | _ \<Rightarrow> False)"

definition fix_settings :: "'p params_api \<Rightarrow> int \<Rightarrow> heap_string \<Rightarrow> string \<Rightarrow> 'p" where
  "fix_settings A i old settings =
    (let p = unflatten A settings;
         isVideo = (pget A p (KEY_RECORDING_HINT A) = Some ''true'');
         p = (if \<not> is_torch A settings \<and> \<not> was_torch A old
              then if isVideo then pset A (pset A p KEY_DIS DIS_DISABLE) KEY_ZSL OFF else pset A p KEY_ZSL ON
              else p)
     in if i = BACK_CAMERA_ID
        then let p = pset A (pset A p KEY_PHASE_AF ON) KEY_DYNAMIC_RANGE_CONTROL ON
             in if isVideo then pset A p KEY_QC_RT_HDR (if pget A p KEY_QC_VIDEO_HDR = Some ''on'' then ON else OFF)
                else p
        else p)"

definition camera_fixup_setparams :: "'p params_api \<Rightarrow> int \<Rightarrow> string \<Rightarrow> cam_world \<Rightarrow> (string \<times> cam_world) option" where
  "camera_fixup_setparams A i settings w = do {
     old \<leftarrow> fixed_param i w;
     let s = flatten A (fix_settings A i old settings);
     Some (s, set_fixed_param i (Live_string s) w) }"

subsection \<open>Operations that are forwarded\<close>

text \<open>The shape of a forwarding operation: a NULL device is refused with \<open>null_ret\<close>.\<close>

definition forward :: "cam_env \<Rightarrow> wrapper_camera_device_t option \<Rightarrow> int \<Rightarrow> vendor_op \<Rightarrow> cam_world \<Rightarrow> int \<times> cam_world" where
  "forward E dev null_ret x w = (case dev of None \<Rightarrow> (null_ret, w) | Some d \<Rightarrow> vendor_call E d x w)"

definition forward_void :: "cam_env \<Rightarrow> wrapper_camera_device_t option \<Rightarrow> vendor_op \<Rightarrow> cam_world \<Rightarrow> cam_world" where
  "forward_void E dev x w = (case dev of None \<Rightarrow> w | Some d \<Rightarrow> snd (vendor_call E d x w))"

definition camera_set_preview_window :: "cam_env \<Rightarrow> wrapper_camera_device_t option \<Rightarrow> nat \<Rightarrow> cam_world \<Rightarrow> int \<times> cam_world" where
  "camera_set_preview_window E dev window w = forward E dev (- CAM_EINVAL) (Op_set_preview_window window) w"

definition camera_enable_msg_type :: "cam_env \<Rightarrow> wrapper_camera_device_t option \<Rightarrow> int \<Rightarrow> cam_world \<Rightarrow> cam_world" where
  "camera_enable_msg_type E dev msg_type w = forward_void E dev (Op_enable_msg_type msg_type) w"

definition camera_disable_msg_type :: "cam_env \<Rightarrow> wrapper_camera_device_t option \<Rightarrow> int \<Rightarrow> cam_world \<Rightarrow> cam_world" where
  "camera_disable_msg_type E dev msg_type w = forward_void E dev (Op_disable_msg_type msg_type) w"

definition camera_msg_type_enabled :: "cam_env \<Rightarrow> wrapper_camera_device_t option \<Rightarrow> int \<Rightarrow> cam_world \<Rightarrow> int \<times> cam_world" where
  "camera_msg_type_enabled E dev msg_type w = forward E dev 0 (Op_msg_type_enabled msg_type) w"

definition camera_start_preview :: "cam_env \<Rightarrow> wrapper_camera_device_t option \<Rightarrow> cam_world \<Rightarrow> int \<times> cam_world" where
  "camera_start_preview E dev w = forward E dev (- CAM_EINVAL) Op_start_preview w"

definition camera_stop_preview :: "cam_env \<Rightarrow> wrapper_camera_device_t option \<Rightarrow> cam_world \<Rightarrow> cam_world" where
  "camera_stop_preview E dev w = forward_void E dev Op_stop_preview w"

definition camera_preview_enabled :: "cam_env \<Rightarrow> wrapper_camera_device_t option \<Rightarrow> cam_world \<Rightarrow> int \<times> cam_world" where
  "camera_preview_enabled E dev w = forward E dev (- CAM_EINVAL) Op_preview_enabled w"

definition camera_store_meta_data_in_buffers :: "cam_env \<Rightarrow> wrapper_camera_device_t option \<Rightarrow> int \<Rightarrow> cam_world \<Rightarrow> int \<times> cam_world" where
  "camera_store_meta_data_in_buffers E dev enable w = forward E dev (- CAM_EINVAL) (Op_store_meta_data_in_buffers enable) w"

definition camera_stop_recording :: "cam_env \<Rightarrow> wrapper_camera_device_t option \<Rightarrow> cam_world \<Rightarrow> cam_world" where
  "camera_stop_recording E dev w = forward_void E dev Op_stop_recording w"

definition camera_recording_enabled :: "cam_env \<Rightarrow> wrapper_camera_device_t option \<Rightarrow> cam_world \<Rightarrow> int \<times> cam_world" where
  "camera_recording_enabled E dev w = forward E dev (- CAM_EINVAL) Op_recording_enabled w"

definition camera_release_recording_frame :: "cam_env \<Rightarrow> wrapper_camera_device_t option \<Rightarrow> nat \<Rightarrow> cam_world \<Rightarrow> cam_world" where
  "camera_release_recording_frame E dev opaque w = forward_void E dev (Op_release_recording_frame opaque) w"

definition camera_auto_focus :: "cam_env \<Rightarrow> wrapper_camera_device_t option \<Rightarrow> cam_world \<Rightarrow> int \<times> cam_world" where
  "camera_auto_focus E dev w = forward E dev (- CAM_EINVAL) Op_auto_focus w"

definition camera_cancel_auto_focus :: "cam_env \<Rightarrow> wrapper_camera_device_t option \<Rightarrow> cam_world \<Rightarrow> int \<times> cam_world" where
  "camera_cancel_auto_focus E dev w = forward E dev (- CAM_EINVAL) Op_cancel_auto_focus w"

definition camera_take_picture :: "cam_env \<Rightarrow> wrapper_camera_device_t option \<Rightarrow> cam_world \<Rightarrow> int \<times> cam_world" where
  "camera_take_picture E dev w = forward E dev (- CAM_EINVAL) Op_take_picture w"

definition camera_cancel_picture :: "cam_env \<Rightarrow> wrapper_camera_device_t option \<Rightarrow> cam_world \<Rightarrow> int \<times> cam_world" where
  "camera_cancel_picture E dev w = forward E dev (- CAM_EINVAL) Op_cancel_picture w"

definition camera_send_command :: "cam_env \<Rightarrow> wrapper_camera_device_t option \<Rightarrow> int \<Rightarrow> int \<Rightarrow> int \<Rightarrow> cam_world \<Rightarrow> int \<times> cam_world" where
  "camera_send_command E dev cmd arg1 arg2 w = forward E dev (- CAM_EINVAL) (Op_send_command cmd arg1 arg2) w"

definition camera_release :: "cam_env \<Rightarrow> wrapper_camera_device_t option \<Rightarrow> cam_world \<Rightarrow> cam_world" where
  "camera_release E dev w = forward_void E dev Op_release w"

definition camera_dump :: "cam_env \<Rightarrow> wrapper_camera_device_t option \<Rightarrow> int \<Rightarrow> cam_world \<Rightarrow> int \<times> cam_world" where
  "camera_dump E dev fd w = forward E dev (- CAM_EINVAL) (Op_dump fd) w"

subsection \<open>Callbacks\<close>

definition camera_set_callbacks ::
    "cam_env \<Rightarrow> wrapper_camera_device_t option \<Rightarrow> nat \<Rightarrow> nat \<Rightarrow> nat \<Rightarrow> nat \<Rightarrow> nat \<Rightarrow> cam_world \<Rightarrow> cam_world" where
  "camera_set_callbacks E dev notify_cb data_cb data_cb_timestamp get_memory user w =
    (case dev of
       None \<Rightarrow> w
     | Some d \<Rightarrow>
         let w = w\<lparr>gUser := \<lparr>gUserNotifyCb = notify_cb, gUserDataCb = data_cb, gUserDataCbTimestamp = data_cb_timestamp,
                             gUserGetMemory = get_memory, gUserCameraDevice = user\<rparr>\<rparr>
         in snd (vendor_call E d (Op_set_callbacks user) w))"

text \<open>A NULL callback is called, which is undefined.\<close>

definition call_pointer :: "nat \<Rightarrow> cam_call \<Rightarrow> cam_world \<Rightarrow> cam_world option" where
  "call_pointer f c w = (if f = 0 then None else Some (cam_log c w))"

definition camera_notify_cb :: "int \<Rightarrow> int \<Rightarrow> int \<Rightarrow> nat \<Rightarrow> cam_world \<Rightarrow> cam_world option" where
  "camera_notify_cb msg_type ext1 ext2 user w =
     call_pointer (gUserNotifyCb (gUser w))
       (Call_notify (gUserNotifyCb (gUser w)) msg_type ext1 ext2 (gUserCameraDevice (gUser w))) w"

definition camera_data_cb :: "int \<Rightarrow> nat \<Rightarrow> nat \<Rightarrow> nat \<Rightarrow> nat \<Rightarrow> cam_world \<Rightarrow> cam_world option" where
  "camera_data_cb msg_type data index metadata user w =
     call_pointer (gUserDataCb (gUser w))
       (Call_data (gUserDataCb (gUser w)) msg_type data index metadata (gUserCameraDevice (gUser w))) w"

definition camera_data_cb_timestamp :: "int \<Rightarrow> int \<Rightarrow> nat \<Rightarrow> nat \<Rightarrow> nat \<Rightarrow> cam_world \<Rightarrow> cam_world option" where
  "camera_data_cb_timestamp timestamp msg_type data index user w =
     call_pointer (gUserDataCbTimestamp (gUser w))
       (Call_data_timestamp (gUserDataCbTimestamp (gUser w)) timestamp msg_type data index (gUserCameraDevice (gUser w))) w"

definition camera_get_memory :: "cam_env \<Rightarrow> int \<Rightarrow> nat \<Rightarrow> nat \<Rightarrow> nat \<Rightarrow> cam_world \<Rightarrow> (nat \<times> cam_world) option" where
  "camera_get_memory E fd buf_size num_bufs user w = do {
     w \<leftarrow> call_pointer (gUserGetMemory (gUser w))
       (Call_get_memory (gUserGetMemory (gUser w)) fd buf_size num_bufs (gUserCameraDevice (gUser w))) w;
     Some (cam_handle E (cam_trace w), w) }"

subsection \<open>Parameters and recording\<close>

definition camera_set_parameters ::
    "cam_env \<Rightarrow> 'p params_api \<Rightarrow> wrapper_camera_device_t option \<Rightarrow> string \<Rightarrow> cam_world \<Rightarrow> (int \<times> cam_world) option" where
  "camera_set_parameters E A dev params w =
    (case dev of
       None \<Rightarrow> Some (- CAM_EINVAL, w)
     | Some d \<Rightarrow> do {
         (tmp, w) \<leftarrow> camera_fixup_setparams A (cam_id d) params w;
         Some (vendor_call E d (Op_set_parameters tmp) w) })"

text \<open>The result is NULL or a fresh string.\<close>

definition camera_get_parameters ::
    "cam_env \<Rightarrow> 'p params_api \<Rightarrow> wrapper_camera_device_t option \<Rightarrow> cam_world \<Rightarrow> (string option \<times> cam_world) option" where
  "camera_get_parameters E A dev w =
    (case dev of
       None \<Rightarrow> Some (None, w)
     | Some d \<Rightarrow> do {
         let w = snd (vendor_call E d Op_get_parameters w);
         let params = cam_text E (cam_trace w);
         tmp \<leftarrow> camera_fixup_getparams A (cam_id d) params;
         let w = snd (vendor_call E d (Op_put_parameters params) w);
         Some (Some tmp, w) })"

text \<open>\<open>free\<close> of the caller's string; the wrapper keeps no pointer to it.\<close>

definition camera_put_parameters :: "heap_string \<Rightarrow> heap_string option" where
  "camera_put_parameters params = (case params of
     Null_string \<Rightarrow> Some Null_string | Live_string s \<Rightarrow> Some Dangling_string | Dangling_string \<Rightarrow> None)"

definition camera_start_recording ::
    "cam_env \<Rightarrow> 'p params_api \<Rightarrow> wrapper_camera_device_t option \<Rightarrow> cam_world \<Rightarrow> (int \<times> cam_world) option" where
  "camera_start_recording E A dev w =
    (case dev of
       None \<Rightarrow> Some (CAM_EINVAL, w)
     | Some d \<Rightarrow> do {
         (text, w) \<leftarrow> camera_get_parameters E A dev w;
         settings \<leftarrow> text;
         let parameters = unflatten A settings;
         uhd \<leftarrow> is_4k_video A parameters;
         w \<leftarrow> (if uhd
              then map_option snd (camera_set_parameters E A dev
                     (flatten A (setPreviewFormat A parameters PIXEL_FORMAT_NV12_VENUS)) w)
              else Some w);
         Some (vendor_call E d Op_start_recording w) })"

subsection \<open>Opening and closing\<close>

text \<open>The loop asks for the number of cameras before each entry; the freed entries keep their value.\<close>

definition free_fixed_param :: "int \<Rightarrow> cam_world \<Rightarrow> cam_world option" where
  "free_fixed_param i w = do {
     s \<leftarrow> fixed_param i w;
     Some (case s of Live_string _ \<Rightarrow> set_fixed_param i Dangling_string w | _ \<Rightarrow> w) }"

partial_function (option) free_fixed_params :: "cam_env \<Rightarrow> int \<Rightarrow> cam_world \<Rightarrow> cam_world option" where
  "free_fixed_params E i w =
    (let (num, w) = camera_get_number_of_cameras E w
     in if i < num then do { w \<leftarrow> free_fixed_param i w; free_fixed_params E (i + 1) w } else Some w)"

definition camera_device_close :: "cam_env \<Rightarrow> wrapper_camera_device_t option \<Rightarrow> cam_world \<Rightarrow> (int \<times> cam_world) option" where
  "camera_device_close E dev w =
    (case dev of
       None \<Rightarrow> Some (- CAM_EINVAL, w)
     | Some d \<Rightarrow> do {
         w \<leftarrow> free_fixed_params E 0 w;
         Some (0, snd (cam_ask E (Vendor_close (cam_vendor d)) w)) })"

text \<open>\<open>atoi\<close>: blanks, a sign, decimal digits up to the first other character.\<close>

fun digits_value :: "string \<Rightarrow> int \<Rightarrow> int" where
  "digits_value [] n = n"
| "digits_value (c # cs) n =
    (if 48 \<le> (of_char c :: nat) \<and> (of_char c :: nat) \<le> 57 then digits_value cs (10 * n + (of_char c - 48)) else n)"

definition atoi :: "string \<Rightarrow> int" where
  "atoi s = (case dropWhile (\<lambda>c. c = CHR '' '' \<or> 9 \<le> (of_char c :: nat) \<and> (of_char c :: nat) \<le> 13) s of
     [] \<Rightarrow> 0
   | c # cs \<Rightarrow> if c = CHR ''-'' then - digits_value cs 0
               else if c = CHR ''+'' then digits_value cs 0 else digits_value (c # cs) 0)"

text \<open>The result, and the device that \<open>*device\<close> is set to; \<open>None\<close> in the middle when it is left
  alone.\<close>

definition camera_device_open ::
    "cam_env \<Rightarrow> string option \<Rightarrow> cam_world \<Rightarrow> int \<times> wrapper_camera_device_t option option \<times> cam_world" where
  "camera_device_open E name w =
    (case name of
       None \<Rightarrow> (0, None, w)
     | Some name \<Rightarrow>
         let (rv, w) = check_vendor_module E w
         in if rv \<noteq> 0 then (- CAM_EINVAL, None, w)
         else let camera_id = atoi name;
                  (num_cameras, w) = cam_ask E Vendor_number_of_cameras w;
                  w = cam_log Cam_malloc w
         in if \<not> cam_found E (cam_trace w) then (- CAM_ENOMEM, Some None, w\<lparr>fixed_set_params := None\<rparr>)
         else let w = w\<lparr>fixed_set_params := Some (replicate (nat num_cameras) Null_string)\<rparr>
         in if camera_id > num_cameras then (- CAM_EINVAL, Some None, w)
         else let w = cam_log Cam_malloc w
         in if \<not> cam_found E (cam_trace w) then (- CAM_ENOMEM, Some None, w)
         else let (rv, w) = cam_ask E (Vendor_open name) w;
                  vendor = cam_handle E (cam_trace w)
         in if rv \<noteq> 0 then (rv, Some None, w)
         else let w = cam_log Cam_malloc w
         in if \<not> cam_found E (cam_trace w) then (- CAM_ENOMEM, Some None, w)
         else (0, Some (Some \<lparr>cam_id = camera_id, cam_vendor = vendor\<rparr>), w))"

end
