(* ===== verification/Camera_Props.thy ===== *)
theory Camera_Props
  imports Camera
begin

text \<open>
  What the camera wrapper promises: the parameters it hands to the vendor, the NULL device, and
  the two places where its array of strings is used outside its life or its bounds.
\<close>

subsection \<open>The parameters\<close>

text \<open>The documented behaviour of \<open>CameraParameters::get\<close> after \<open>set\<close>, which ignores keys and values
  that contain the separators \<open>=\<close> and \<open>;\<close>.\<close>

definition no_separator :: "string \<Rightarrow> bool" where
  "no_separator s \<longleftrightarrow> CHR ''='' \<notin> set s \<and> CHR '';'' \<notin> set s"

definition get_after_set :: "'p params_api \<Rightarrow> bool" where
  "get_after_set A \<longleftrightarrow> (\<forall>p k v k'. no_separator k \<and> no_separator v \<longrightarrow>
     pget A (pset A p k v) k' = (if k' = k then Some v else pget A p k'))"

lemma no_separator_keys [simp]:
  "no_separator KEY_ZSL" "no_separator KEY_DIS" "no_separator KEY_PHASE_AF" "no_separator KEY_DYNAMIC_RANGE_CONTROL"
  "no_separator KEY_QC_RT_HDR" "no_separator ON" "no_separator OFF" "no_separator DIS_DISABLE"
  by (simp_all add: no_separator_def camera_keys)

lemma fixed_param_set:
  assumes "fixed_param i w = Some old"
  shows "fixed_param i (set_fixed_param i (Live_string s) w) = Some (Live_string s)"
  using assms by (auto simp: fixed_param_def set_fixed_param_def split: option.splits if_splits)

lemma set_parameters_eq:
  assumes "fixed_param (cam_id d) w = Some old"
  shows "camera_set_parameters E A (Some d) settings w =
    (let s = flatten A (fix_settings A (cam_id d) old settings)
     in Some (vendor_call E d (Op_set_parameters s) (set_fixed_param (cam_id d) (Live_string s) w)))"
  using assms by (simp add: camera_set_parameters_def camera_fixup_setparams_def Let_def)

lemma video_keys_distinct:
  "KEY_ZSL \<noteq> KEY_DIS" "KEY_PHASE_AF \<noteq> KEY_ZSL" "KEY_PHASE_AF \<noteq> KEY_DIS" "KEY_DYNAMIC_RANGE_CONTROL \<noteq> KEY_ZSL"
  "KEY_DYNAMIC_RANGE_CONTROL \<noteq> KEY_DIS" "KEY_DYNAMIC_RANGE_CONTROL \<noteq> KEY_PHASE_AF" "KEY_QC_RT_HDR \<noteq> KEY_ZSL"
  "KEY_QC_RT_HDR \<noteq> KEY_DIS" "KEY_QC_RT_HDR \<noteq> KEY_PHASE_AF" "KEY_QC_RT_HDR \<noteq> KEY_DYNAMIC_RANGE_CONTROL"
  "KEY_QC_VIDEO_HDR \<noteq> KEY_ZSL" "KEY_QC_VIDEO_HDR \<noteq> KEY_DIS" "KEY_QC_VIDEO_HDR \<noteq> KEY_PHASE_AF"
  "KEY_QC_VIDEO_HDR \<noteq> KEY_DYNAMIC_RANGE_CONTROL" "KEY_QC_VIDEO_HDR \<noteq> KEY_QC_RT_HDR"
  by (simp_all add: camera_keys)

lemma fixed_keys:
  assumes "get_after_set A"
  shows "pget A (fix_settings A i old settings) k =
    (let p = unflatten A settings; video = (pget A p (KEY_RECORDING_HINT A) = Some ''true'');
         torch = (is_torch A settings \<or> was_torch A old)
     in if k = KEY_ZSL then if torch then pget A p k else Some (if video then OFF else ON)
        else if k = KEY_DIS then if torch \<or> \<not> video then pget A p k else Some DIS_DISABLE
        else if i = BACK_CAMERA_ID \<and> (k = KEY_PHASE_AF \<or> k = KEY_DYNAMIC_RANGE_CONTROL) then Some ON
        else if i = BACK_CAMERA_ID \<and> video \<and> k = KEY_QC_RT_HDR
             then Some (if pget A p KEY_QC_VIDEO_HDR = Some ''on'' then ON else OFF)
        else pget A p k)"
proof -
  have g: "no_separator k \<Longrightarrow> no_separator v \<Longrightarrow> pget A (pset A p k v) k' = (if k' = k then Some v else pget A p k')" for p k v k'
    using assms by (simp add: get_after_set_def)
  show ?thesis
    by (cases "is_torch A settings \<or> was_torch A old";
        cases "pget A (unflatten A settings) (KEY_RECORDING_HINT A) = Some ''true''"; cases "i = BACK_CAMERA_ID")
      (auto simp: fix_settings_def Let_def g video_keys_distinct video_keys_distinct [symmetric])
qed

text \<open>C12: the parameters the vendor receives.  \<open>camera_set_parameters\<close> of an open camera makes exactly
  one call of the vendor, with a string that it also remembers; in the parameters this string
  was made from, zero shutter lag is off while recording and on otherwise, except that it is left
  alone when the torch is on or was on in the remembered parameters; image stabilisation is
  disabled while recording; on the back camera phase autofocus and dynamic range control are on
  and video HDR is translated; every other key has the value the caller gave.\<close>

theorem set_parameters_fixed:
  assumes "get_after_set A" and "fixed_param (cam_id d) w = Some old"
  shows "\<exists>r u p. camera_set_parameters E A (Some d) settings w = Some (r, u) \<and>
    cam_trace u = Vendor_op (cam_vendor d) (Op_set_parameters (flatten A p)) # cam_trace w \<and>
    fixed_param (cam_id d) u = Some (Live_string (flatten A p)) \<and>
    (\<forall>k. pget A p k =
      (let q = unflatten A settings; video = (pget A q (KEY_RECORDING_HINT A) = Some ''true'');
           torch = (is_torch A settings \<or> was_torch A old)
       in if k = KEY_ZSL then if torch then pget A q k else Some (if video then OFF else ON)
          else if k = KEY_DIS then if torch \<or> \<not> video then pget A q k else Some DIS_DISABLE
          else if cam_id d = BACK_CAMERA_ID \<and> (k = KEY_PHASE_AF \<or> k = KEY_DYNAMIC_RANGE_CONTROL) then Some ON
          else if cam_id d = BACK_CAMERA_ID \<and> video \<and> k = KEY_QC_RT_HDR
               then Some (if pget A q KEY_QC_VIDEO_HDR = Some ''on'' then ON else OFF)
          else pget A q k))"
proof -
  let ?p = "fix_settings A (cam_id d) old settings"
  let ?w = "set_fixed_param (cam_id d) (Live_string (flatten A ?p)) w"
  let ?u = "cam_log (Vendor_op (cam_vendor d) (Op_set_parameters (flatten A ?p))) ?w"
  have run: "camera_set_parameters E A (Some d) settings w = Some (cam_ret E (cam_trace ?u), ?u)"
    using set_parameters_eq [OF assms(2), of E A settings] by (simp add: vendor_call_def cam_ask_def Let_def)
  have "fixed_param (cam_id d) ?u = Some (Live_string (flatten A ?p))"
    using fixed_param_set [OF assms(2)] by (simp add: fixed_param_def cam_log_def)
  moreover have "cam_trace ?u = Vendor_op (cam_vendor d) (Op_set_parameters (flatten A ?p)) # cam_trace w"
    by (simp add: cam_log_def set_fixed_param_def)
  ultimately show ?thesis
    by (intro exI [of _ "cam_ret E (cam_trace ?u)"] exI [of _ ?u] exI [of _ ?p] conjI allI fixed_keys [OF assms(1)] run)
qed

text \<open>A concrete class: a parameter set is the map itself, and three of its keys are written out.\<close>

definition map_api :: "(string \<Rightarrow> string option) params_api" where
  "map_api = \<lparr>unflatten = (\<lambda>s. [''recording-hint'' \<mapsto> s]), flatten = (\<lambda>p. concat (map (\<lambda>k. case p k of None \<Rightarrow> '''' | Some v \<Rightarrow> k @ ''='' @ v @ '';'') [''recording-hint'', KEY_ZSL, KEY_DIS])), pget = (\<lambda>p. p),
     pset = (\<lambda>p k v. p(k \<mapsto> v)), getPreviewFormat = (\<lambda>p. p ''preview-format''),
     setPreviewFormat = (\<lambda>p v. p(''preview-format'' \<mapsto> v)), getVideoSize = (\<lambda>_. (0, 0)),
     KEY_RECORDING_HINT = ''recording-hint'', KEY_SUPPORTED_VIDEO_SIZES = ''video-size-values'',
     KEY_VIDEO_SNAPSHOT_SUPPORTED = ''video-snapshot-supported'', KEY_FLASH_MODE = ''flash-mode'',
     FLASH_MODE_TORCH = ''torch'', PIXEL_FORMAT_YUV420SP = ''yuv420sp''\<rparr>"

definition cam_example_env :: cam_env where
  "cam_example_env = \<lparr>cam_ret = (\<lambda>t. case t of Vendor_number_of_cameras # _ \<Rightarrow> 2 | _ \<Rightarrow> 0), cam_text = (\<lambda>_. ''''),
     cam_handle = (\<lambda>t. length t), cam_found = (\<lambda>_. True)\<rparr>"

definition cam_example_world :: "heap_string list \<Rightarrow> cam_world" where
  "cam_example_world ps = \<lparr>gVendorModule = True, gUser = \<lparr>gUserNotifyCb = 0, gUserDataCb = 0, gUserDataCbTimestamp = 0,
     gUserGetMemory = 0, gUserCameraDevice = 0\<rparr>, fixed_set_params = Some ps, cam_trace = []\<rparr>"

theorem set_parameters_fixed_witness:
  "\<exists>r u. camera_set_parameters cam_example_env map_api (Some \<lparr>cam_id = 0, cam_vendor = 3\<rparr>) ''true''
       (cam_example_world [Null_string, Null_string]) = Some (r, u) \<and>
     cam_trace u = [Vendor_op 3 (Op_set_parameters ''recording-hint=true;zsl=off;dis=disable;'')]"
proof -
  let ?d = "\<lparr>cam_id = 0, cam_vendor = 3\<rparr>" and ?w = "cam_example_world [Null_string, Null_string]"
  have "get_after_set map_api" by (simp add: get_after_set_def map_api_def)
  moreover have "fixed_param (cam_id ?d) ?w = Some Null_string" by (simp add: fixed_param_def cam_example_world_def)
  ultimately obtain r u p where
      run: "camera_set_parameters cam_example_env map_api (Some ?d) ''true'' ?w = Some (r, u)"
        "cam_trace u = Vendor_op (cam_vendor ?d) (Op_set_parameters (flatten map_api p)) # cam_trace ?w"
      and p: "\<forall>k. pget map_api p k = (let q = unflatten map_api ''true''; video = (pget map_api q (KEY_RECORDING_HINT map_api) = Some ''true'');
           torch = (is_torch map_api ''true'' \<or> was_torch map_api Null_string)
       in if k = KEY_ZSL then if torch then pget map_api q k else Some (if video then OFF else ON)
          else if k = KEY_DIS then if torch \<or> \<not> video then pget map_api q k else Some DIS_DISABLE
          else if cam_id ?d = BACK_CAMERA_ID \<and> (k = KEY_PHASE_AF \<or> k = KEY_DYNAMIC_RANGE_CONTROL) then Some ON
          else if cam_id ?d = BACK_CAMERA_ID \<and> video \<and> k = KEY_QC_RT_HDR
               then Some (if pget map_api q KEY_QC_VIDEO_HDR = Some ''on'' then ON else OFF)
          else pget map_api q k)"
    using set_parameters_fixed [of map_api ?d ?w Null_string cam_example_env "''true''"] by blast
  have "p KEY_ZSL = Some OFF" "p KEY_DIS = Some DIS_DISABLE" "p ''recording-hint'' = Some ''true''"
    using p [rule_format, of KEY_ZSL] p [rule_format, of KEY_DIS] p [rule_format, of "''recording-hint''"]
    by (simp_all add: Let_def map_api_def is_torch_def was_torch_def camera_keys)
  then have "flatten map_api p = ''recording-hint=true;zsl=off;dis=disable;''"
    by (simp add: map_api_def camera_keys)
  with run show ?thesis by (simp add: cam_example_world_def)
qed

subsection \<open>The NULL device\<close>

text \<open>A NULL device is refused.  Every operation given no device makes no call and changes nothing;
  those with a result return \<open>-EINVAL\<close>, \<open>msg_type_enabled\<close> 0, \<open>get_parameters\<close> NULL, and
  \<open>start_recording\<close>, alone, the positive \<open>EINVAL\<close>.\<close>

theorem null_device_refused:
  "camera_set_preview_window E None win w = (- CAM_EINVAL, w) \<and> camera_start_preview E None w = (- CAM_EINVAL, w) \<and>
   camera_preview_enabled E None w = (- CAM_EINVAL, w) \<and> camera_store_meta_data_in_buffers E None en w = (- CAM_EINVAL, w) \<and>
   camera_recording_enabled E None w = (- CAM_EINVAL, w) \<and> camera_auto_focus E None w = (- CAM_EINVAL, w) \<and>
   camera_cancel_auto_focus E None w = (- CAM_EINVAL, w) \<and> camera_take_picture E None w = (- CAM_EINVAL, w) \<and>
   camera_cancel_picture E None w = (- CAM_EINVAL, w) \<and> camera_send_command E None c a b w = (- CAM_EINVAL, w) \<and>
   camera_dump E None fd w = (- CAM_EINVAL, w) \<and> camera_msg_type_enabled E None m w = (0, w) \<and>
   camera_enable_msg_type E None m w = w \<and> camera_disable_msg_type E None m w = w \<and> camera_stop_preview E None w = w \<and>
   camera_stop_recording E None w = w \<and> camera_release_recording_frame E None op w = w \<and> camera_release E None w = w \<and>
   camera_set_callbacks E None n d t g us w = w \<and> camera_set_parameters E A None s w = Some (- CAM_EINVAL, w) \<and>
   camera_get_parameters E A None w = Some (None, w) \<and> camera_start_recording E A None w = Some (CAM_EINVAL, w) \<and>
   camera_device_close E None w = Some (- CAM_EINVAL, w)"
  by (simp add: camera_set_preview_window_def camera_start_preview_def camera_preview_enabled_def
      camera_store_meta_data_in_buffers_def camera_recording_enabled_def camera_auto_focus_def camera_cancel_auto_focus_def
      camera_take_picture_def camera_cancel_picture_def camera_send_command_def camera_dump_def camera_msg_type_enabled_def
      camera_enable_msg_type_def camera_disable_msg_type_def camera_stop_preview_def camera_stop_recording_def
      camera_release_recording_frame_def camera_release_def camera_set_callbacks_def camera_set_parameters_def
      camera_get_parameters_def camera_start_recording_def camera_device_close_def forward_def forward_void_def)

subsection \<open>Closing\<close>

definition counts :: "cam_env \<Rightarrow> nat \<Rightarrow> bool" where
  "counts E n \<longleftrightarrow> (\<forall>t. cam_ret E (Vendor_number_of_cameras # t) = int n)"

lemma number_counted:
  "counts E n \<Longrightarrow> gVendorModule w \<Longrightarrow> camera_get_number_of_cameras E w = (int n, cam_log Vendor_number_of_cameras w)"
  by (simp add: camera_get_number_of_cameras_def check_vendor_module_def counts_def cam_ask_def Let_def cam_log_def)

definition freed :: "heap_string \<Rightarrow> heap_string" where
  "freed s = (if s = Null_string then Null_string else Dangling_string)"

lemma free_fixed_params_run:
  assumes E: "counts E n" and "gVendorModule w" "fixed_set_params w = Some ps" "length ps = n" "i \<le> n"
    and "\<And>j. i \<le> j \<Longrightarrow> j < n \<Longrightarrow> ps ! j \<noteq> Dangling_string"
  shows "\<exists>u. free_fixed_params E (int i) w = Some u \<and> gVendorModule u \<and>
    fixed_set_params u = Some (take i ps @ map freed (drop i ps))"
  using assms(2-6)
proof (induction "n - i" arbitrary: i w ps)
  case 0
  then have "i = n" by simp
  with 0 show ?case
    by (subst free_fixed_params.simps) (simp add: number_counted [OF E] cam_log_def)
next
  case (Suc k)
  let ?w = "cam_log Vendor_number_of_cameras w"
  let ?ps = "ps[i := freed (ps ! i)]"
  have i: "i < n" "i < length ps" using Suc.hyps(2) Suc.prems(3) by simp_all
  have free: "free_fixed_param (int i) ?w = Some (?w\<lparr>fixed_set_params := Some ?ps\<rparr>)"
    using Suc.prems i list_update_id [of ps i]
    by (cases "ps ! i") (simp_all add: free_fixed_param_def fixed_param_def set_fixed_param_def freed_def cam_log_def)
  have step: "free_fixed_params E (int i) w = free_fixed_params E (int (Suc i)) (?w\<lparr>fixed_set_params := Some ?ps\<rparr>)"
    using i(1) Suc.prems(1) by (subst free_fixed_params.simps) (simp add: number_counted [OF E] free add.commute)
  have list: "take (Suc i) ?ps @ map freed (drop (Suc i) ?ps) = take i ps @ map freed (drop i ps)"
    using i(2) by (simp add: take_Suc_conv_app_nth Cons_nth_drop_Suc [symmetric])
  have "\<exists>u. free_fixed_params E (int (Suc i)) (?w\<lparr>fixed_set_params := Some ?ps\<rparr>) = Some u \<and> gVendorModule u \<and>
      fixed_set_params u = Some (take (Suc i) ?ps @ map freed (drop (Suc i) ?ps))"
    using Suc.prems i(1) Suc.hyps(2) by (intro Suc.hyps(1)) (simp_all add: cam_log_def)
  then show ?case unfolding step list .
qed

lemma free_fixed_params_dangling:
  assumes E: "counts E n" and "gVendorModule w" "fixed_set_params w = Some ps" "length ps = n" "i \<le> j" "j < n"
    and "ps ! j = Dangling_string"
  shows "free_fixed_params E (int i) w = None"
  using assms(2-7)
proof (induction "j - i" arbitrary: i w ps)
  case 0
  then have "i = j" by simp
  with 0 show ?case
    by (subst free_fixed_params.simps)
       (simp add: number_counted [OF E] free_fixed_param_def fixed_param_def cam_log_def)
next
  case (Suc k)
  let ?w = "cam_log Vendor_number_of_cameras w"
  have i: "i < n" "i < j" using Suc.hyps(2) Suc.prems(5) by simp_all
  show ?case
  proof (cases "free_fixed_param (int i) ?w")
    case None
    with i(1) Suc.prems(1) show ?thesis by (subst free_fixed_params.simps) (simp add: number_counted [OF E])
  next
    case (Some v)
    then obtain ps' where v: "gVendorModule v" "fixed_set_params v = Some ps'" "length ps' = n" "ps' ! j = Dangling_string"
      using Suc.prems i
      by (auto simp: free_fixed_param_def fixed_param_def set_fixed_param_def cam_log_def bind_eq_Some_conv
          split: if_splits heap_string.splits)
    have "free_fixed_params E (int (Suc i)) v = None"
      using Suc.hyps(2) i Suc.prems(5) by (intro Suc.hyps(1) [OF _ v(1-3) _ _ v(4)]) simp_all
    with i(1) Suc.prems(1) Some show ?thesis by (subst free_fixed_params.simps) (simp add: number_counted [OF E] add.commute)
  qed
qed

text \<open>C34: two open cameras, closed one after the other, free the same strings twice.  Closing a camera
  frees the remembered parameters of all cameras and keeps the pointers; if any camera had
  parameters, closing another one, or setting parameters again, is undefined.\<close>

theorem close_leaves_dangling:
  assumes "counts E n" and "gVendorModule w" and "fixed_set_params w = Some ps" "length ps = n"
    and "\<And>j. j < n \<Longrightarrow> ps ! j \<noteq> Dangling_string" and "k < n" "ps ! k = Live_string s"
  shows "\<exists>u. camera_device_close E (Some d) w = Some (0, u) \<and> camera_device_close E (Some d') u = None \<and>
    camera_set_parameters E A (Some \<lparr>cam_id = int k, cam_vendor = v\<rparr>) settings u = None"
proof -
  obtain x where x: "free_fixed_params E 0 w = Some x" "gVendorModule x" "fixed_set_params x = Some (map freed ps)"
    using free_fixed_params_run [OF assms(1-4), of 0] assms(5) by auto
  define u where "u = cam_log (Vendor_close (cam_vendor d)) x"
  have u: "gVendorModule u" "fixed_set_params u = Some (map freed ps)"
    using x by (simp_all add: u_def cam_log_def)
  have bad: "map freed ps ! k = Dangling_string" using assms(4,6,7) by (simp add: freed_def)
  have "free_fixed_params E (int 0) u = None"
    using free_fixed_params_dangling [OF assms(1) u _ _ assms(6) bad, of 0] assms(4) by simp
  moreover have "camera_set_parameters E A (Some \<lparr>cam_id = int k, cam_vendor = v\<rparr>) settings u = None"
    using u(2) bad by (simp add: camera_set_parameters_def camera_fixup_setparams_def fixed_param_def)
  ultimately show ?thesis
    using x(1) by (auto simp: camera_device_close_def cam_ask_def Let_def u_def)
qed

theorem close_leaves_dangling_witness:
  "\<exists>u. camera_device_close cam_example_env (Some \<lparr>cam_id = 0, cam_vendor = 3\<rparr>) (cam_example_world [Live_string ''zsl=on'', Null_string]) = Some (0, u) \<and>
     camera_device_close cam_example_env (Some \<lparr>cam_id = 1, cam_vendor = 4\<rparr>) u = None"
proof -
  let ?w = "cam_example_world [Live_string ''zsl=on'', Null_string]"
  have "counts cam_example_env 2" by (simp add: counts_def cam_example_env_def)
  moreover have "[Live_string ''zsl=on'', Null_string] ! j \<noteq> Dangling_string" if "j < 2" for j
    using that by (auto simp: less_2_cases_iff)
  moreover have "gVendorModule ?w" "fixed_set_params ?w = Some [Live_string ''zsl=on'', Null_string]"
    by (simp_all add: cam_example_world_def)
  ultimately have "\<exists>u. camera_device_close cam_example_env (Some \<lparr>cam_id = 0, cam_vendor = 3\<rparr>) ?w = Some (0, u) \<and>
      camera_device_close cam_example_env (Some \<lparr>cam_id = 1, cam_vendor = 4\<rparr>) u = None \<and>
      camera_set_parameters cam_example_env map_api (Some \<lparr>cam_id = int 0, cam_vendor = 0\<rparr>) '''' u = None"
    by (intro close_leaves_dangling [where n = 2 and s = "''zsl=on''" and ps = "[Live_string ''zsl=on'', Null_string]"];
        (fact | simp))
  then show ?thesis by blast
qed

subsection \<open>Opening\<close>

text \<open>C35: the check of the camera id.  With \<open>n\<close> cameras and memory for its structures,
  \<open>camera_device_open\<close> refuses an id above \<open>n\<close> without asking the vendor; every other id, also
  \<open>n\<close> itself and a negative one, it hands to the vendor, whose answer it returns.  When that is 0 the
  caller gets a device with the id; but setting its parameters is defined only for the ids
  from 0 to \<open>n - 1\<close>: otherwise they lie outside the array that was just allocated.\<close>

theorem open_checks_id:
  assumes "counts E n" and "gVendorModule w" and "\<And>t. cam_found E t"
  shows "case camera_device_open E (Some name) w of (r, d, u) \<Rightarrow>
    (let h = Cam_malloc # Vendor_number_of_cameras # cam_trace w; asked = Vendor_open name # Cam_malloc # h
     in if int n < atoi name then r = - CAM_EINVAL \<and> d = Some None \<and> cam_trace u = h
        else r = cam_ret E asked \<and>
          (if r \<noteq> 0 then d = Some None \<and> cam_trace u = asked
           else d = Some (Some \<lparr>cam_id = atoi name, cam_vendor = cam_handle E asked\<rparr>) \<and> cam_trace u = Cam_malloc # asked \<and>
             (\<forall>settings. camera_set_parameters E A (Some \<lparr>cam_id = atoi name, cam_vendor = cam_handle E asked\<rparr>) settings u = None
                \<longleftrightarrow> \<not> (0 \<le> atoi name \<and> atoi name < int n))))"
proof -
  have ret: "cam_ret E (Vendor_number_of_cameras # t) = int n" for t using assms(1) by (simp add: counts_def)
  have params: "camera_set_parameters E A (Some \<lparr>cam_id = i, cam_vendor = v\<rparr>) settings u = None \<longleftrightarrow> \<not> (0 \<le> i \<and> i < int n)"
    if "fixed_set_params u = Some (replicate n Null_string)" for i v settings u
    using that by (auto simp: camera_set_parameters_def camera_fixup_setparams_def fixed_param_def bind_eq_None_conv Let_def)
  show ?thesis
    using assms(2,3) ret params
    by (simp add: camera_device_open_def check_vendor_module_def cam_ask_def Let_def cam_log_def)
qed

theorem open_checks_id_witness:
  "\<exists>d u. camera_device_open cam_example_env (Some ''2'') (cam_example_world []) = (0, Some (Some d), u) \<and>
     cam_id d = 2 \<and> (\<forall>settings. camera_set_parameters cam_example_env map_api (Some d) settings u = None)"
proof -
  have "counts cam_example_env 2" "gVendorModule (cam_example_world [])" "cam_found cam_example_env t" "atoi ''2'' = 2"
    "cam_ret cam_example_env (Vendor_open name # t) = 0" for t name
    by (simp_all add: counts_def cam_example_env_def cam_example_world_def atoi_def)
  with open_checks_id [of cam_example_env 2 "cam_example_world []" "''2''" map_api] show ?thesis
    by (auto simp: Let_def split: prod.splits)
qed

end
