(* ===== verification/Recovery.thy ===== *)
theory Recovery
  imports Main
begin

text \<open>
  Two small parts: the key table of the recovery menu (\<open>recovery/recovery_keys.c\<close>) and the
  constants with which \<open>libshims/libshim_camera/camera_shim.c\<close> completes the vendor's
  library.  The key codes are constants of the kernel's input header; the code switches over
  them, so they are different from each other.
\<close>

datatype input_key =
    KEY_CAPSLOCK | KEY_DOWN | KEY_VOLUMEDOWN | KEY_MENU | KEY_LEFTSHIFT | KEY_UP | KEY_VOLUMEUP
  | KEY_HOMEPAGE | KEY_POWER | KEY_LEFTBRACE | KEY_ENTER | BTN_MOUSE | KEY_CAMERA | KEY_F21 | KEY_SEND
  | KEY_END | KEY_BACKSPACE | KEY_SEARCH | KEY_BACK | Other_key int

datatype ui_action = HIGHLIGHT_DOWN | NO_ACTION | HIGHLIGHT_UP | SELECT_ITEM | GO_BACK

definition device_handle_key :: "input_key \<Rightarrow> int \<Rightarrow> ui_action" where
  "device_handle_key key_code visible =
    (if visible \<noteq> 0 then
       (case key_code of
          KEY_CAPSLOCK \<Rightarrow> HIGHLIGHT_DOWN | KEY_DOWN \<Rightarrow> HIGHLIGHT_DOWN | KEY_VOLUMEDOWN \<Rightarrow> HIGHLIGHT_DOWN
        | KEY_MENU \<Rightarrow> NO_ACTION
        | KEY_LEFTSHIFT \<Rightarrow> HIGHLIGHT_UP | KEY_UP \<Rightarrow> HIGHLIGHT_UP | KEY_VOLUMEUP \<Rightarrow> HIGHLIGHT_UP
        | KEY_HOMEPAGE \<Rightarrow> SELECT_ITEM | KEY_POWER \<Rightarrow> SELECT_ITEM | KEY_LEFTBRACE \<Rightarrow> SELECT_ITEM
        | KEY_ENTER \<Rightarrow> SELECT_ITEM | BTN_MOUSE \<Rightarrow> SELECT_ITEM | KEY_CAMERA \<Rightarrow> SELECT_ITEM
        | KEY_F21 \<Rightarrow> SELECT_ITEM | KEY_SEND \<Rightarrow> SELECT_ITEM
        | KEY_END \<Rightarrow> GO_BACK | KEY_BACKSPACE \<Rightarrow> GO_BACK | KEY_SEARCH \<Rightarrow> GO_BACK | KEY_BACK \<Rightarrow> GO_BACK
        | Other_key _ \<Rightarrow> NO_ACTION)
     else NO_ACTION)"

text \<open>The shim's symbols, by the name of the member of \<open>android::CameraParameters\<close> they define.\<close>

definition camera_shim_symbols :: "(string \<times> string) list" where
  "camera_shim_symbols =
    [(''KEY_RT_HDR'', ''rt-hdr''),
     (''KEY_SUPPORTED_RT_HDR'', ''rt-hdr-values''),
     (''RTHDR_OFF'', ''off''),
     (''RTHDR_ON'', ''on''),
     (''KEY_PHASE_AF'', ''phase-af''),
     (''KEY_SUPPORTED_PHASE_AF'', ''phase-af-values''),
     (''PAF_OFF'', ''off''),
     (''PAF_ON'', ''on''),
     (''KEY_DYNAMIC_RANGE_CONTROL'', ''dynamic-range-control''),
     (''KEY_SUPPORTED_DYNAMIC_RANGE_CONTROL'', ''dynamic-range-control-values''),
     (''DRC_OFF'', ''off''),
     (''DRC_ON'', ''on'')]"

end
