(* ===== verification/Ril.thy ===== *)
theory Ril
  imports Prelude_C
begin

text \<open>
  The enumerations of \<open>include/telephony/ril.h\<close>, the interface between the telephony service and
  the vendor's radio library: a datatype for each, with the source's constants as constructors, and
  the number of each constant as a function; the four enumerations of more than thirty constants
  are tables from names to numbers.  The structures of the interface are in \<open>Ril_Layout\<close>, its
  requests and notifications in \<open>Ril_Requests\<close>.
\<close>

definition RIL_Errno :: "(string \<times> int) list" where
  "RIL_Errno =
   [(''RIL_E_SUCCESS'', 0), (''RIL_E_RADIO_NOT_AVAILABLE'', 1), (''RIL_E_GENERIC_FAILURE'', 2),
    (''RIL_E_PASSWORD_INCORRECT'', 3), (''RIL_E_SIM_PIN2'', 4), (''RIL_E_SIM_PUK2'', 5),
    (''RIL_E_REQUEST_NOT_SUPPORTED'', 6), (''RIL_E_CANCELLED'', 7),
    (''RIL_E_OP_NOT_ALLOWED_DURING_VOICE_CALL'', 8), (''RIL_E_OP_NOT_ALLOWED_BEFORE_REG_TO_NW'', 9),
    (''RIL_E_SMS_SEND_FAIL_RETRY'', 10), (''RIL_E_SIM_ABSENT'', 11), (''RIL_E_SUBSCRIPTION_NOT_AVAILABLE'', 12),
    (''RIL_E_MODE_NOT_SUPPORTED'', 13), (''RIL_E_FDN_CHECK_FAILURE'', 14), (''RIL_E_ILLEGAL_SIM_OR_ME'', 15),
    (''RIL_E_MISSING_RESOURCE'', 16), (''RIL_E_NO_SUCH_ELEMENT'', 17), (''RIL_E_DIAL_MODIFIED_TO_USSD'', 18),
    (''RIL_E_DIAL_MODIFIED_TO_SS'', 19), (''RIL_E_DIAL_MODIFIED_TO_DIAL'', 20),
    (''RIL_E_USSD_MODIFIED_TO_DIAL'', 21), (''RIL_E_USSD_MODIFIED_TO_SS'', 22),
    (''RIL_E_USSD_MODIFIED_TO_USSD'', 23), (''RIL_E_SS_MODIFIED_TO_DIAL'', 24),
    (''RIL_E_SS_MODIFIED_TO_USSD'', 25), (''RIL_E_SUBSCRIPTION_NOT_SUPPORTED'', 26),
    (''RIL_E_SS_MODIFIED_TO_SS'', 27), (''RIL_E_LCE_NOT_SUPPORTED'', 36), (''RIL_E_NO_MEMORY'', 37),
    (''RIL_E_INTERNAL_ERR'', 38), (''RIL_E_SYSTEM_ERR'', 39), (''RIL_E_MODEM_ERR'', 40),
    (''RIL_E_INVALID_STATE'', 41), (''RIL_E_NO_RESOURCES'', 42), (''RIL_E_SIM_ERR'', 43),
    (''RIL_E_INVALID_ARGUMENTS'', 44), (''RIL_E_INVALID_SIM_STATE'', 45), (''RIL_E_INVALID_MODEM_STATE'', 46),
    (''RIL_E_INVALID_CALL_ID'', 47), (''RIL_E_NO_SMS_TO_ACK'', 48), (''RIL_E_NETWORK_ERR'', 49),
    (''RIL_E_REQUEST_RATE_LIMITED'', 50), (''RIL_E_SIM_BUSY'', 51), (''RIL_E_SIM_FULL'', 52),
    (''RIL_E_NETWORK_REJECT'', 53), (''RIL_E_OPERATION_NOT_ALLOWED'', 54), (''RIL_E_EMPTY_RECORD'', 55),
    (''RIL_E_INVALID_SMS_FORMAT'', 56), (''RIL_E_ENCODING_ERR'', 57), (''RIL_E_INVALID_SMSC_ADDRESS'', 58),
    (''RIL_E_NO_SUCH_ENTRY'', 59), (''RIL_E_NETWORK_NOT_READY'', 60), (''RIL_E_NOT_PROVISIONED'', 61),
    (''RIL_E_NO_SUBSCRIPTION'', 62), (''RIL_E_NO_NETWORK_FOUND'', 63), (''RIL_E_DEVICE_IN_USE'', 64),
    (''RIL_E_ABORTED'', 65), (''RIL_E_INVALID_RESPONSE'', 66), (''RIL_E_OEM_ERROR_1'', 501),
    (''RIL_E_OEM_ERROR_2'', 502), (''RIL_E_OEM_ERROR_3'', 503), (''RIL_E_OEM_ERROR_4'', 504),
    (''RIL_E_OEM_ERROR_5'', 505), (''RIL_E_OEM_ERROR_6'', 506), (''RIL_E_OEM_ERROR_7'', 507),
    (''RIL_E_OEM_ERROR_8'', 508), (''RIL_E_OEM_ERROR_9'', 509), (''RIL_E_OEM_ERROR_10'', 510),
    (''RIL_E_OEM_ERROR_11'', 511), (''RIL_E_OEM_ERROR_12'', 512), (''RIL_E_OEM_ERROR_13'', 513),
    (''RIL_E_OEM_ERROR_14'', 514), (''RIL_E_OEM_ERROR_15'', 515), (''RIL_E_OEM_ERROR_16'', 516),
    (''RIL_E_OEM_ERROR_17'', 517), (''RIL_E_OEM_ERROR_18'', 518), (''RIL_E_OEM_ERROR_19'', 519),
    (''RIL_E_OEM_ERROR_20'', 520), (''RIL_E_OEM_ERROR_21'', 521), (''RIL_E_OEM_ERROR_22'', 522),
    (''RIL_E_OEM_ERROR_23'', 523), (''RIL_E_OEM_ERROR_24'', 524), (''RIL_E_OEM_ERROR_25'', 525)]"

datatype RIL_CallState =
    RIL_CALL_ACTIVE | RIL_CALL_HOLDING | RIL_CALL_DIALING | RIL_CALL_ALERTING | RIL_CALL_INCOMING
   | RIL_CALL_WAITING

primrec RIL_CallState_code :: "RIL_CallState \<Rightarrow> int" where
  "RIL_CallState_code RIL_CALL_ACTIVE = 0"
| "RIL_CallState_code RIL_CALL_HOLDING = 1"
| "RIL_CallState_code RIL_CALL_DIALING = 2"
| "RIL_CallState_code RIL_CALL_ALERTING = 3"
| "RIL_CallState_code RIL_CALL_INCOMING = 4"
| "RIL_CallState_code RIL_CALL_WAITING = 5"

datatype RIL_RadioState =
    RADIO_STATE_OFF | RADIO_STATE_UNAVAILABLE | RADIO_STATE_ON

primrec RIL_RadioState_code :: "RIL_RadioState \<Rightarrow> int" where
  "RIL_RadioState_code RADIO_STATE_OFF = 0"
| "RIL_RadioState_code RADIO_STATE_UNAVAILABLE = 1"
| "RIL_RadioState_code RADIO_STATE_ON = 10"

datatype RIL_RadioTechnology =
    RADIO_TECH_UNKNOWN | RADIO_TECH_GPRS | RADIO_TECH_EDGE | RADIO_TECH_UMTS | RADIO_TECH_IS95A
   | RADIO_TECH_IS95B | RADIO_TECH_1xRTT | RADIO_TECH_EVDO_0 | RADIO_TECH_EVDO_A | RADIO_TECH_HSDPA
   | RADIO_TECH_HSUPA | RADIO_TECH_HSPA | RADIO_TECH_EVDO_B | RADIO_TECH_EHRPD | RADIO_TECH_LTE
   | RADIO_TECH_HSPAP | RADIO_TECH_GSM | RADIO_TECH_TD_SCDMA | RADIO_TECH_IWLAN | RADIO_TECH_LTE_CA

primrec RIL_RadioTechnology_code :: "RIL_RadioTechnology \<Rightarrow> int" where
  "RIL_RadioTechnology_code RADIO_TECH_UNKNOWN = 0"
| "RIL_RadioTechnology_code RADIO_TECH_GPRS = 1"
| "RIL_RadioTechnology_code RADIO_TECH_EDGE = 2"
| "RIL_RadioTechnology_code RADIO_TECH_UMTS = 3"
| "RIL_RadioTechnology_code RADIO_TECH_IS95A = 4"
| "RIL_RadioTechnology_code RADIO_TECH_IS95B = 5"
| "RIL_RadioTechnology_code RADIO_TECH_1xRTT = 6"
| "RIL_RadioTechnology_code RADIO_TECH_EVDO_0 = 7"
| "RIL_RadioTechnology_code RADIO_TECH_EVDO_A = 8"
| "RIL_RadioTechnology_code RADIO_TECH_HSDPA = 9"
| "RIL_RadioTechnology_code RADIO_TECH_HSUPA = 10"
| "RIL_RadioTechnology_code RADIO_TECH_HSPA = 11"
| "RIL_RadioTechnology_code RADIO_TECH_EVDO_B = 12"
| "RIL_RadioTechnology_code RADIO_TECH_EHRPD = 13"
| "RIL_RadioTechnology_code RADIO_TECH_LTE = 14"
| "RIL_RadioTechnology_code RADIO_TECH_HSPAP = 15"
| "RIL_RadioTechnology_code RADIO_TECH_GSM = 16"
| "RIL_RadioTechnology_code RADIO_TECH_TD_SCDMA = 17"
| "RIL_RadioTechnology_code RADIO_TECH_IWLAN = 18"
| "RIL_RadioTechnology_code RADIO_TECH_LTE_CA = 19"

datatype RIL_RadioAccessFamily =
    RAF_UNKNOWN | RAF_GPRS | RAF_EDGE | RAF_UMTS | RAF_IS95A | RAF_IS95B | RAF_1xRTT | RAF_EVDO_0
   | RAF_EVDO_A | RAF_HSDPA | RAF_HSUPA | RAF_HSPA | RAF_EVDO_B | RAF_EHRPD | RAF_LTE | RAF_HSPAP | RAF_GSM
   | RAF_TD_SCDMA | RAF_LTE_CA

primrec RIL_RadioAccessFamily_code :: "RIL_RadioAccessFamily \<Rightarrow> int" where
  "RIL_RadioAccessFamily_code RAF_UNKNOWN = push_bit (nat (RIL_RadioTechnology_code RADIO_TECH_UNKNOWN)) 1"
| "RIL_RadioAccessFamily_code RAF_GPRS = push_bit (nat (RIL_RadioTechnology_code RADIO_TECH_GPRS)) 1"
| "RIL_RadioAccessFamily_code RAF_EDGE = push_bit (nat (RIL_RadioTechnology_code RADIO_TECH_EDGE)) 1"
| "RIL_RadioAccessFamily_code RAF_UMTS = push_bit (nat (RIL_RadioTechnology_code RADIO_TECH_UMTS)) 1"
| "RIL_RadioAccessFamily_code RAF_IS95A = push_bit (nat (RIL_RadioTechnology_code RADIO_TECH_IS95A)) 1"
| "RIL_RadioAccessFamily_code RAF_IS95B = push_bit (nat (RIL_RadioTechnology_code RADIO_TECH_IS95B)) 1"
| "RIL_RadioAccessFamily_code RAF_1xRTT = push_bit (nat (RIL_RadioTechnology_code RADIO_TECH_1xRTT)) 1"
| "RIL_RadioAccessFamily_code RAF_EVDO_0 = push_bit (nat (RIL_RadioTechnology_code RADIO_TECH_EVDO_0)) 1"
| "RIL_RadioAccessFamily_code RAF_EVDO_A = push_bit (nat (RIL_RadioTechnology_code RADIO_TECH_EVDO_A)) 1"
| "RIL_RadioAccessFamily_code RAF_HSDPA = push_bit (nat (RIL_RadioTechnology_code RADIO_TECH_HSDPA)) 1"
| "RIL_RadioAccessFamily_code RAF_HSUPA = push_bit (nat (RIL_RadioTechnology_code RADIO_TECH_HSUPA)) 1"
| "RIL_RadioAccessFamily_code RAF_HSPA = push_bit (nat (RIL_RadioTechnology_code RADIO_TECH_HSPA)) 1"
| "RIL_RadioAccessFamily_code RAF_EVDO_B = push_bit (nat (RIL_RadioTechnology_code RADIO_TECH_EVDO_B)) 1"
| "RIL_RadioAccessFamily_code RAF_EHRPD = push_bit (nat (RIL_RadioTechnology_code RADIO_TECH_EHRPD)) 1"
| "RIL_RadioAccessFamily_code RAF_LTE = push_bit (nat (RIL_RadioTechnology_code RADIO_TECH_LTE)) 1"
| "RIL_RadioAccessFamily_code RAF_HSPAP = push_bit (nat (RIL_RadioTechnology_code RADIO_TECH_HSPAP)) 1"
| "RIL_RadioAccessFamily_code RAF_GSM = push_bit (nat (RIL_RadioTechnology_code RADIO_TECH_GSM)) 1"
| "RIL_RadioAccessFamily_code RAF_TD_SCDMA = push_bit (nat (RIL_RadioTechnology_code RADIO_TECH_TD_SCDMA)) 1"
| "RIL_RadioAccessFamily_code RAF_LTE_CA = push_bit (nat (RIL_RadioTechnology_code RADIO_TECH_LTE_CA)) 1"

datatype RIL_RadioBandMode =
    BAND_MODE_UNSPECIFIED | BAND_MODE_EURO | BAND_MODE_USA | BAND_MODE_JPN | BAND_MODE_AUS | BAND_MODE_AUS_2
   | BAND_MODE_CELL_800 | BAND_MODE_PCS | BAND_MODE_JTACS | BAND_MODE_KOREA_PCS | BAND_MODE_5_450M
   | BAND_MODE_IMT2000 | BAND_MODE_7_700M_2 | BAND_MODE_8_1800M | BAND_MODE_9_900M | BAND_MODE_10_800M_2
   | BAND_MODE_EURO_PAMR_400M | BAND_MODE_AWS | BAND_MODE_USA_2500M

primrec RIL_RadioBandMode_code :: "RIL_RadioBandMode \<Rightarrow> int" where
  "RIL_RadioBandMode_code BAND_MODE_UNSPECIFIED = 0"
| "RIL_RadioBandMode_code BAND_MODE_EURO = 1"
| "RIL_RadioBandMode_code BAND_MODE_USA = 2"
| "RIL_RadioBandMode_code BAND_MODE_JPN = 3"
| "RIL_RadioBandMode_code BAND_MODE_AUS = 4"
| "RIL_RadioBandMode_code BAND_MODE_AUS_2 = 5"
| "RIL_RadioBandMode_code BAND_MODE_CELL_800 = 6"
| "RIL_RadioBandMode_code BAND_MODE_PCS = 7"
| "RIL_RadioBandMode_code BAND_MODE_JTACS = 8"
| "RIL_RadioBandMode_code BAND_MODE_KOREA_PCS = 9"
| "RIL_RadioBandMode_code BAND_MODE_5_450M = 10"
| "RIL_RadioBandMode_code BAND_MODE_IMT2000 = 11"
| "RIL_RadioBandMode_code BAND_MODE_7_700M_2 = 12"
| "RIL_RadioBandMode_code BAND_MODE_8_1800M = 13"
| "RIL_RadioBandMode_code BAND_MODE_9_900M = 14"
| "RIL_RadioBandMode_code BAND_MODE_10_800M_2 = 15"
| "RIL_RadioBandMode_code BAND_MODE_EURO_PAMR_400M = 16"
| "RIL_RadioBandMode_code BAND_MODE_AWS = 17"
| "RIL_RadioBandMode_code BAND_MODE_USA_2500M = 18"

datatype RadioCapabilityPhase =
    RC_PHASE_CONFIGURED | RC_PHASE_START | RC_PHASE_APPLY | RC_PHASE_UNSOL_RSP | RC_PHASE_FINISH

primrec RadioCapabilityPhase_code :: "RadioCapabilityPhase \<Rightarrow> int" where
  "RadioCapabilityPhase_code RC_PHASE_CONFIGURED = 0"
| "RadioCapabilityPhase_code RC_PHASE_START = 1"
| "RadioCapabilityPhase_code RC_PHASE_APPLY = 2"
| "RadioCapabilityPhase_code RC_PHASE_UNSOL_RSP = 3"
| "RadioCapabilityPhase_code RC_PHASE_FINISH = 4"

datatype RadioCapabilityStatus =
    RC_STATUS_NONE | RC_STATUS_SUCCESS | RC_STATUS_FAIL

primrec RadioCapabilityStatus_code :: "RadioCapabilityStatus \<Rightarrow> int" where
  "RadioCapabilityStatus_code RC_STATUS_NONE = 0"
| "RadioCapabilityStatus_code RC_STATUS_SUCCESS = 1"
| "RadioCapabilityStatus_code RC_STATUS_FAIL = 2"

datatype RIL_PreferredNetworkType =
    PREF_NET_TYPE_GSM_WCDMA | PREF_NET_TYPE_GSM_ONLY | PREF_NET_TYPE_WCDMA | PREF_NET_TYPE_GSM_WCDMA_AUTO
   | PREF_NET_TYPE_CDMA_EVDO_AUTO | PREF_NET_TYPE_CDMA_ONLY | PREF_NET_TYPE_EVDO_ONLY
   | PREF_NET_TYPE_GSM_WCDMA_CDMA_EVDO_AUTO | PREF_NET_TYPE_LTE_CDMA_EVDO | PREF_NET_TYPE_LTE_GSM_WCDMA
   | PREF_NET_TYPE_LTE_CMDA_EVDO_GSM_WCDMA | PREF_NET_TYPE_LTE_ONLY | PREF_NET_TYPE_LTE_WCDMA
   | PREF_NET_TYPE_TD_SCDMA_ONLY | PREF_NET_TYPE_TD_SCDMA_WCDMA | PREF_NET_TYPE_TD_SCDMA_LTE
   | PREF_NET_TYPE_TD_SCDMA_GSM | PREF_NET_TYPE_TD_SCDMA_GSM_LTE | PREF_NET_TYPE_TD_SCDMA_GSM_WCDMA
   | PREF_NET_TYPE_TD_SCDMA_WCDMA_LTE | PREF_NET_TYPE_TD_SCDMA_GSM_WCDMA_LTE
   | PREF_NET_TYPE_TD_SCDMA_GSM_WCDMA_CDMA_EVDO_AUTO | PREF_NET_TYPE_TD_SCDMA_LTE_CDMA_EVDO_GSM_WCDMA

primrec RIL_PreferredNetworkType_code :: "RIL_PreferredNetworkType \<Rightarrow> int" where
  "RIL_PreferredNetworkType_code PREF_NET_TYPE_GSM_WCDMA = 0"
| "RIL_PreferredNetworkType_code PREF_NET_TYPE_GSM_ONLY = 1"
| "RIL_PreferredNetworkType_code PREF_NET_TYPE_WCDMA = 2"
| "RIL_PreferredNetworkType_code PREF_NET_TYPE_GSM_WCDMA_AUTO = 3"
| "RIL_PreferredNetworkType_code PREF_NET_TYPE_CDMA_EVDO_AUTO = 4"
| "RIL_PreferredNetworkType_code PREF_NET_TYPE_CDMA_ONLY = 5"
| "RIL_PreferredNetworkType_code PREF_NET_TYPE_EVDO_ONLY = 6"
| "RIL_PreferredNetworkType_code PREF_NET_TYPE_GSM_WCDMA_CDMA_EVDO_AUTO = 7"
| "RIL_PreferredNetworkType_code PREF_NET_TYPE_LTE_CDMA_EVDO = 8"
| "RIL_PreferredNetworkType_code PREF_NET_TYPE_LTE_GSM_WCDMA = 9"
| "RIL_PreferredNetworkType_code PREF_NET_TYPE_LTE_CMDA_EVDO_GSM_WCDMA = 10"
| "RIL_PreferredNetworkType_code PREF_NET_TYPE_LTE_ONLY = 11"
| "RIL_PreferredNetworkType_code PREF_NET_TYPE_LTE_WCDMA = 12"
| "RIL_PreferredNetworkType_code PREF_NET_TYPE_TD_SCDMA_ONLY = 13"
| "RIL_PreferredNetworkType_code PREF_NET_TYPE_TD_SCDMA_WCDMA = 14"
| "RIL_PreferredNetworkType_code PREF_NET_TYPE_TD_SCDMA_LTE = 15"
| "RIL_PreferredNetworkType_code PREF_NET_TYPE_TD_SCDMA_GSM = 16"
| "RIL_PreferredNetworkType_code PREF_NET_TYPE_TD_SCDMA_GSM_LTE = 17"
| "RIL_PreferredNetworkType_code PREF_NET_TYPE_TD_SCDMA_GSM_WCDMA = 18"
| "RIL_PreferredNetworkType_code PREF_NET_TYPE_TD_SCDMA_WCDMA_LTE = 19"
| "RIL_PreferredNetworkType_code PREF_NET_TYPE_TD_SCDMA_GSM_WCDMA_LTE = 20"
| "RIL_PreferredNetworkType_code PREF_NET_TYPE_TD_SCDMA_GSM_WCDMA_CDMA_EVDO_AUTO = 21"
| "RIL_PreferredNetworkType_code PREF_NET_TYPE_TD_SCDMA_LTE_CDMA_EVDO_GSM_WCDMA = 22"

datatype RIL_CdmaSubscriptionSource =
    CDMA_SUBSCRIPTION_SOURCE_RUIM_SIM | CDMA_SUBSCRIPTION_SOURCE_NV

primrec RIL_CdmaSubscriptionSource_code :: "RIL_CdmaSubscriptionSource \<Rightarrow> int" where
  "RIL_CdmaSubscriptionSource_code CDMA_SUBSCRIPTION_SOURCE_RUIM_SIM = 0"
| "RIL_CdmaSubscriptionSource_code CDMA_SUBSCRIPTION_SOURCE_NV = 1"

datatype RIL_UUS_Type =
    RIL_UUS_TYPE1_IMPLICIT | RIL_UUS_TYPE1_REQUIRED | RIL_UUS_TYPE1_NOT_REQUIRED | RIL_UUS_TYPE2_REQUIRED
   | RIL_UUS_TYPE2_NOT_REQUIRED | RIL_UUS_TYPE3_REQUIRED | RIL_UUS_TYPE3_NOT_REQUIRED

primrec RIL_UUS_Type_code :: "RIL_UUS_Type \<Rightarrow> int" where
  "RIL_UUS_Type_code RIL_UUS_TYPE1_IMPLICIT = 0"
| "RIL_UUS_Type_code RIL_UUS_TYPE1_REQUIRED = 1"
| "RIL_UUS_Type_code RIL_UUS_TYPE1_NOT_REQUIRED = 2"
| "RIL_UUS_Type_code RIL_UUS_TYPE2_REQUIRED = 3"
| "RIL_UUS_Type_code RIL_UUS_TYPE2_NOT_REQUIRED = 4"
| "RIL_UUS_Type_code RIL_UUS_TYPE3_REQUIRED = 5"
| "RIL_UUS_Type_code RIL_UUS_TYPE3_NOT_REQUIRED = 6"

datatype RIL_UUS_DCS =
    RIL_UUS_DCS_USP | RIL_UUS_DCS_OSIHLP | RIL_UUS_DCS_X244 | RIL_UUS_DCS_RMCF | RIL_UUS_DCS_IA5c

primrec RIL_UUS_DCS_code :: "RIL_UUS_DCS \<Rightarrow> int" where
  "RIL_UUS_DCS_code RIL_UUS_DCS_USP = 0"
| "RIL_UUS_DCS_code RIL_UUS_DCS_OSIHLP = 1"
| "RIL_UUS_DCS_code RIL_UUS_DCS_X244 = 2"
| "RIL_UUS_DCS_code RIL_UUS_DCS_RMCF = 3"
| "RIL_UUS_DCS_code RIL_UUS_DCS_IA5c = 4"

datatype RIL_RadioTechnologyFamily =
    RADIO_TECH_3GPP | RADIO_TECH_3GPP2

primrec RIL_RadioTechnologyFamily_code :: "RIL_RadioTechnologyFamily \<Rightarrow> int" where
  "RIL_RadioTechnologyFamily_code RADIO_TECH_3GPP = 1"
| "RIL_RadioTechnologyFamily_code RADIO_TECH_3GPP2 = 2"

datatype RIL_CarrierMatchType =
    RIL_MATCH_ALL | RIL_MATCH_SPN | RIL_MATCH_IMSI_PREFIX | RIL_MATCH_GID1 | RIL_MATCH_GID2

primrec RIL_CarrierMatchType_code :: "RIL_CarrierMatchType \<Rightarrow> int" where
  "RIL_CarrierMatchType_code RIL_MATCH_ALL = 0"
| "RIL_CarrierMatchType_code RIL_MATCH_SPN = 1"
| "RIL_CarrierMatchType_code RIL_MATCH_IMSI_PREFIX = 2"
| "RIL_CarrierMatchType_code RIL_MATCH_GID1 = 3"
| "RIL_CarrierMatchType_code RIL_MATCH_GID2 = 4"

definition RIL_LastCallFailCause :: "(string \<times> int) list" where
  "RIL_LastCallFailCause =
   [(''CALL_FAIL_UNOBTAINABLE_NUMBER'', 1), (''CALL_FAIL_NO_ROUTE_TO_DESTINATION'', 3),
    (''CALL_FAIL_CHANNEL_UNACCEPTABLE'', 6), (''CALL_FAIL_OPERATOR_DETERMINED_BARRING'', 8),
    (''CALL_FAIL_NORMAL'', 16), (''CALL_FAIL_BUSY'', 17), (''CALL_FAIL_NO_USER_RESPONDING'', 18),
    (''CALL_FAIL_NO_ANSWER_FROM_USER'', 19), (''CALL_FAIL_CALL_REJECTED'', 21),
    (''CALL_FAIL_NUMBER_CHANGED'', 22), (''CALL_FAIL_PREEMPTION'', 25),
    (''CALL_FAIL_DESTINATION_OUT_OF_ORDER'', 27), (''CALL_FAIL_INVALID_NUMBER_FORMAT'', 28),
    (''CALL_FAIL_FACILITY_REJECTED'', 29), (''CALL_FAIL_RESP_TO_STATUS_ENQUIRY'', 30),
    (''CALL_FAIL_NORMAL_UNSPECIFIED'', 31), (''CALL_FAIL_CONGESTION'', 34),
    (''CALL_FAIL_NETWORK_OUT_OF_ORDER'', 38), (''CALL_FAIL_TEMPORARY_FAILURE'', 41),
    (''CALL_FAIL_SWITCHING_EQUIPMENT_CONGESTION'', 42), (''CALL_FAIL_ACCESS_INFORMATION_DISCARDED'', 43),
    (''CALL_FAIL_REQUESTED_CIRCUIT_OR_CHANNEL_NOT_AVAILABLE'', 44),
    (''CALL_FAIL_RESOURCES_UNAVAILABLE_OR_UNSPECIFIED'', 47), (''CALL_FAIL_QOS_UNAVAILABLE'', 49),
    (''CALL_FAIL_REQUESTED_FACILITY_NOT_SUBSCRIBED'', 50), (''CALL_FAIL_INCOMING_CALLS_BARRED_WITHIN_CUG'', 55),
    (''CALL_FAIL_BEARER_CAPABILITY_NOT_AUTHORIZED'', 57), (''CALL_FAIL_BEARER_CAPABILITY_UNAVAILABLE'', 58),
    (''CALL_FAIL_SERVICE_OPTION_NOT_AVAILABLE'', 63), (''CALL_FAIL_BEARER_SERVICE_NOT_IMPLEMENTED'', 65),
    (''CALL_FAIL_ACM_LIMIT_EXCEEDED'', 68), (''CALL_FAIL_REQUESTED_FACILITY_NOT_IMPLEMENTED'', 69),
    (''CALL_FAIL_ONLY_DIGITAL_INFORMATION_BEARER_AVAILABLE'', 70),
    (''CALL_FAIL_SERVICE_OR_OPTION_NOT_IMPLEMENTED'', 79), (''CALL_FAIL_INVALID_TRANSACTION_IDENTIFIER'', 81),
    (''CALL_FAIL_USER_NOT_MEMBER_OF_CUG'', 87), (''CALL_FAIL_INCOMPATIBLE_DESTINATION'', 88),
    (''CALL_FAIL_INVALID_TRANSIT_NW_SELECTION'', 91), (''CALL_FAIL_SEMANTICALLY_INCORRECT_MESSAGE'', 95),
    (''CALL_FAIL_INVALID_MANDATORY_INFORMATION'', 96), (''CALL_FAIL_MESSAGE_TYPE_NON_IMPLEMENTED'', 97),
    (''CALL_FAIL_MESSAGE_TYPE_NOT_COMPATIBLE_WITH_PROTOCOL_STATE'', 98),
    (''CALL_FAIL_INFORMATION_ELEMENT_NON_EXISTENT'', 99), (''CALL_FAIL_CONDITIONAL_IE_ERROR'', 100),
    (''CALL_FAIL_MESSAGE_NOT_COMPATIBLE_WITH_PROTOCOL_STATE'', 101),
    (''CALL_FAIL_RECOVERY_ON_TIMER_EXPIRED'', 102), (''CALL_FAIL_PROTOCOL_ERROR_UNSPECIFIED'', 111),
    (''CALL_FAIL_INTERWORKING_UNSPECIFIED'', 127), (''CALL_FAIL_CALL_BARRED'', 240),
    (''CALL_FAIL_FDN_BLOCKED'', 241), (''CALL_FAIL_IMSI_UNKNOWN_IN_VLR'', 242),
    (''CALL_FAIL_IMEI_NOT_ACCEPTED'', 243), (''CALL_FAIL_DIAL_MODIFIED_TO_USSD'', 244),
    (''CALL_FAIL_DIAL_MODIFIED_TO_SS'', 245), (''CALL_FAIL_DIAL_MODIFIED_TO_DIAL'', 246),
    (''CALL_FAIL_RADIO_OFF'', 247), (''CALL_FAIL_OUT_OF_SERVICE'', 248), (''CALL_FAIL_NO_VALID_SIM'', 249),
    (''CALL_FAIL_RADIO_INTERNAL_ERROR'', 250), (''CALL_FAIL_NETWORK_RESP_TIMEOUT'', 251),
    (''CALL_FAIL_NETWORK_REJECT'', 252), (''CALL_FAIL_RADIO_ACCESS_FAILURE'', 253),
    (''CALL_FAIL_RADIO_LINK_FAILURE'', 254), (''CALL_FAIL_RADIO_LINK_LOST'', 255),
    (''CALL_FAIL_RADIO_UPLINK_FAILURE'', 256), (''CALL_FAIL_RADIO_SETUP_FAILURE'', 257),
    (''CALL_FAIL_RADIO_RELEASE_NORMAL'', 258), (''CALL_FAIL_RADIO_RELEASE_ABNORMAL'', 259),
    (''CALL_FAIL_ACCESS_CLASS_BLOCKED'', 260), (''CALL_FAIL_NETWORK_DETACH'', 261),
    (''CALL_FAIL_CDMA_LOCKED_UNTIL_POWER_CYCLE'', 1000), (''CALL_FAIL_CDMA_DROP'', 1001),
    (''CALL_FAIL_CDMA_INTERCEPT'', 1002), (''CALL_FAIL_CDMA_REORDER'', 1003),
    (''CALL_FAIL_CDMA_SO_REJECT'', 1004), (''CALL_FAIL_CDMA_RETRY_ORDER'', 1005),
    (''CALL_FAIL_CDMA_ACCESS_FAILURE'', 1006), (''CALL_FAIL_CDMA_PREEMPTED'', 1007),
    (''CALL_FAIL_CDMA_NOT_EMERGENCY'', 1008), (''CALL_FAIL_CDMA_ACCESS_BLOCKED'', 1009),
    (''CALL_FAIL_OEM_CAUSE_1'', 61441), (''CALL_FAIL_OEM_CAUSE_2'', 61442), (''CALL_FAIL_OEM_CAUSE_3'', 61443),
    (''CALL_FAIL_OEM_CAUSE_4'', 61444), (''CALL_FAIL_OEM_CAUSE_5'', 61445), (''CALL_FAIL_OEM_CAUSE_6'', 61446),
    (''CALL_FAIL_OEM_CAUSE_7'', 61447), (''CALL_FAIL_OEM_CAUSE_8'', 61448), (''CALL_FAIL_OEM_CAUSE_9'', 61449),
    (''CALL_FAIL_OEM_CAUSE_10'', 61450), (''CALL_FAIL_OEM_CAUSE_11'', 61451),
    (''CALL_FAIL_OEM_CAUSE_12'', 61452), (''CALL_FAIL_OEM_CAUSE_13'', 61453),
    (''CALL_FAIL_OEM_CAUSE_14'', 61454), (''CALL_FAIL_OEM_CAUSE_15'', 61455),
    (''CALL_FAIL_ERROR_UNSPECIFIED'', 65535)]"

definition RIL_DataCallFailCause :: "(string \<times> int) list" where
  "RIL_DataCallFailCause =
   [(''PDP_FAIL_NONE'', 0), (''PDP_FAIL_OPERATOR_BARRED'', 8), (''PDP_FAIL_NAS_SIGNALLING'', 14),
    (''PDP_FAIL_LLC_SNDCP'', 25), (''PDP_FAIL_INSUFFICIENT_RESOURCES'', 26),
    (''PDP_FAIL_MISSING_UKNOWN_APN'', 27), (''PDP_FAIL_UNKNOWN_PDP_ADDRESS_TYPE'', 28),
    (''PDP_FAIL_USER_AUTHENTICATION'', 29), (''PDP_FAIL_ACTIVATION_REJECT_GGSN'', 30),
    (''PDP_FAIL_ACTIVATION_REJECT_UNSPECIFIED'', 31), (''PDP_FAIL_SERVICE_OPTION_NOT_SUPPORTED'', 32),
    (''PDP_FAIL_SERVICE_OPTION_NOT_SUBSCRIBED'', 33), (''PDP_FAIL_SERVICE_OPTION_OUT_OF_ORDER'', 34),
    (''PDP_FAIL_NSAPI_IN_USE'', 35), (''PDP_FAIL_REGULAR_DEACTIVATION'', 36),
    (''PDP_FAIL_QOS_NOT_ACCEPTED'', 37), (''PDP_FAIL_NETWORK_FAILURE'', 38),
    (''PDP_FAIL_UMTS_REACTIVATION_REQ'', 39), (''PDP_FAIL_FEATURE_NOT_SUPP'', 40),
    (''PDP_FAIL_TFT_SEMANTIC_ERROR'', 41), (''PDP_FAIL_TFT_SYTAX_ERROR'', 42),
    (''PDP_FAIL_UNKNOWN_PDP_CONTEXT'', 43), (''PDP_FAIL_FILTER_SEMANTIC_ERROR'', 44),
    (''PDP_FAIL_FILTER_SYTAX_ERROR'', 45), (''PDP_FAIL_PDP_WITHOUT_ACTIVE_TFT'', 46),
    (''PDP_FAIL_ONLY_IPV4_ALLOWED'', 50), (''PDP_FAIL_ONLY_IPV6_ALLOWED'', 51),
    (''PDP_FAIL_ONLY_SINGLE_BEARER_ALLOWED'', 52), (''PDP_FAIL_ESM_INFO_NOT_RECEIVED'', 53),
    (''PDP_FAIL_PDN_CONN_DOES_NOT_EXIST'', 54), (''PDP_FAIL_MULTI_CONN_TO_SAME_PDN_NOT_ALLOWED'', 55),
    (''PDP_FAIL_MAX_ACTIVE_PDP_CONTEXT_REACHED'', 65), (''PDP_FAIL_UNSUPPORTED_APN_IN_CURRENT_PLMN'', 66),
    (''PDP_FAIL_INVALID_TRANSACTION_ID'', 81), (''PDP_FAIL_MESSAGE_INCORRECT_SEMANTIC'', 95),
    (''PDP_FAIL_INVALID_MANDATORY_INFO'', 96), (''PDP_FAIL_MESSAGE_TYPE_UNSUPPORTED'', 97),
    (''PDP_FAIL_MSG_TYPE_NONCOMPATIBLE_STATE'', 98), (''PDP_FAIL_UNKNOWN_INFO_ELEMENT'', 99),
    (''PDP_FAIL_CONDITIONAL_IE_ERROR'', 100), (''PDP_FAIL_MSG_AND_PROTOCOL_STATE_UNCOMPATIBLE'', 101),
    (''PDP_FAIL_PROTOCOL_ERRORS'', 111), (''PDP_FAIL_APN_TYPE_CONFLICT'', 112),
    (''PDP_FAIL_INVALID_PCSCF_ADDR'', 113), (''PDP_FAIL_INTERNAL_CALL_PREEMPT_BY_HIGH_PRIO_APN'', 114),
    (''PDP_FAIL_EMM_ACCESS_BARRED'', 115), (''PDP_FAIL_EMERGENCY_IFACE_ONLY'', 116),
    (''PDP_FAIL_IFACE_MISMATCH'', 117), (''PDP_FAIL_COMPANION_IFACE_IN_USE'', 118),
    (''PDP_FAIL_IP_ADDRESS_MISMATCH'', 119), (''PDP_FAIL_IFACE_AND_POL_FAMILY_MISMATCH'', 120),
    (''PDP_FAIL_EMM_ACCESS_BARRED_INFINITE_RETRY'', 121), (''PDP_FAIL_AUTH_FAILURE_ON_EMERGENCY_CALL'', 122),
    (''PDP_FAIL_OEM_DCFAILCAUSE_1'', 4097), (''PDP_FAIL_OEM_DCFAILCAUSE_2'', 4098),
    (''PDP_FAIL_OEM_DCFAILCAUSE_3'', 4099), (''PDP_FAIL_OEM_DCFAILCAUSE_4'', 4100),
    (''PDP_FAIL_OEM_DCFAILCAUSE_5'', 4101), (''PDP_FAIL_OEM_DCFAILCAUSE_6'', 4102),
    (''PDP_FAIL_OEM_DCFAILCAUSE_7'', 4103), (''PDP_FAIL_OEM_DCFAILCAUSE_8'', 4104),
    (''PDP_FAIL_OEM_DCFAILCAUSE_9'', 4105), (''PDP_FAIL_OEM_DCFAILCAUSE_10'', 4106),
    (''PDP_FAIL_OEM_DCFAILCAUSE_11'', 4107), (''PDP_FAIL_OEM_DCFAILCAUSE_12'', 4108),
    (''PDP_FAIL_OEM_DCFAILCAUSE_13'', 4109), (''PDP_FAIL_OEM_DCFAILCAUSE_14'', 4110),
    (''PDP_FAIL_OEM_DCFAILCAUSE_15'', 4111), (''PDP_FAIL_VOICE_REGISTRATION_FAIL'', -1),
    (''PDP_FAIL_DATA_REGISTRATION_FAIL'', -2), (''PDP_FAIL_SIGNAL_LOST'', -3),
    (''PDP_FAIL_PREF_RADIO_TECH_CHANGED'', -4), (''PDP_FAIL_RADIO_POWER_OFF'', -5),
    (''PDP_FAIL_TETHERED_CALL_ACTIVE'', -6), (''PDP_FAIL_ERROR_UNSPECIFIED'', 65535)]"

datatype RIL_DataProfile =
    RIL_DATA_PROFILE_DEFAULT | RIL_DATA_PROFILE_TETHERED | RIL_DATA_PROFILE_IMS | RIL_DATA_PROFILE_FOTA
   | RIL_DATA_PROFILE_CBS | RIL_DATA_PROFILE_OEM_BASE | RIL_DATA_PROFILE_INVALID

primrec RIL_DataProfile_code :: "RIL_DataProfile \<Rightarrow> int" where
  "RIL_DataProfile_code RIL_DATA_PROFILE_DEFAULT = 0"
| "RIL_DataProfile_code RIL_DATA_PROFILE_TETHERED = 1"
| "RIL_DataProfile_code RIL_DATA_PROFILE_IMS = 2"
| "RIL_DataProfile_code RIL_DATA_PROFILE_FOTA = 3"
| "RIL_DataProfile_code RIL_DATA_PROFILE_CBS = 4"
| "RIL_DataProfile_code RIL_DATA_PROFILE_OEM_BASE = 1000"
| "RIL_DataProfile_code RIL_DATA_PROFILE_INVALID = 4294967295"

datatype RIL_CardState =
    RIL_CARDSTATE_ABSENT | RIL_CARDSTATE_PRESENT | RIL_CARDSTATE_ERROR | RIL_CARDSTATE_RESTRICTED

primrec RIL_CardState_code :: "RIL_CardState \<Rightarrow> int" where
  "RIL_CardState_code RIL_CARDSTATE_ABSENT = 0"
| "RIL_CardState_code RIL_CARDSTATE_PRESENT = 1"
| "RIL_CardState_code RIL_CARDSTATE_ERROR = 2"
| "RIL_CardState_code RIL_CARDSTATE_RESTRICTED = 3"

datatype RIL_PersoSubstate =
    RIL_PERSOSUBSTATE_UNKNOWN | RIL_PERSOSUBSTATE_IN_PROGRESS | RIL_PERSOSUBSTATE_READY
   | RIL_PERSOSUBSTATE_SIM_NETWORK | RIL_PERSOSUBSTATE_SIM_NETWORK_SUBSET | RIL_PERSOSUBSTATE_SIM_CORPORATE
   | RIL_PERSOSUBSTATE_SIM_SERVICE_PROVIDER | RIL_PERSOSUBSTATE_SIM_SIM | RIL_PERSOSUBSTATE_SIM_NETWORK_PUK
   | RIL_PERSOSUBSTATE_SIM_NETWORK_SUBSET_PUK | RIL_PERSOSUBSTATE_SIM_CORPORATE_PUK
   | RIL_PERSOSUBSTATE_SIM_SERVICE_PROVIDER_PUK | RIL_PERSOSUBSTATE_SIM_SIM_PUK
   | RIL_PERSOSUBSTATE_RUIM_NETWORK1 | RIL_PERSOSUBSTATE_RUIM_NETWORK2 | RIL_PERSOSUBSTATE_RUIM_HRPD
   | RIL_PERSOSUBSTATE_RUIM_CORPORATE | RIL_PERSOSUBSTATE_RUIM_SERVICE_PROVIDER
   | RIL_PERSOSUBSTATE_RUIM_RUIM | RIL_PERSOSUBSTATE_RUIM_NETWORK1_PUK | RIL_PERSOSUBSTATE_RUIM_NETWORK2_PUK
   | RIL_PERSOSUBSTATE_RUIM_HRPD_PUK | RIL_PERSOSUBSTATE_RUIM_CORPORATE_PUK
   | RIL_PERSOSUBSTATE_RUIM_SERVICE_PROVIDER_PUK | RIL_PERSOSUBSTATE_RUIM_RUIM_PUK

primrec RIL_PersoSubstate_code :: "RIL_PersoSubstate \<Rightarrow> int" where
  "RIL_PersoSubstate_code RIL_PERSOSUBSTATE_UNKNOWN = 0"
| "RIL_PersoSubstate_code RIL_PERSOSUBSTATE_IN_PROGRESS = 1"
| "RIL_PersoSubstate_code RIL_PERSOSUBSTATE_READY = 2"
| "RIL_PersoSubstate_code RIL_PERSOSUBSTATE_SIM_NETWORK = 3"
| "RIL_PersoSubstate_code RIL_PERSOSUBSTATE_SIM_NETWORK_SUBSET = 4"
| "RIL_PersoSubstate_code RIL_PERSOSUBSTATE_SIM_CORPORATE = 5"
| "RIL_PersoSubstate_code RIL_PERSOSUBSTATE_SIM_SERVICE_PROVIDER = 6"
| "RIL_PersoSubstate_code RIL_PERSOSUBSTATE_SIM_SIM = 7"
| "RIL_PersoSubstate_code RIL_PERSOSUBSTATE_SIM_NETWORK_PUK = 8"
| "RIL_PersoSubstate_code RIL_PERSOSUBSTATE_SIM_NETWORK_SUBSET_PUK = 9"
| "RIL_PersoSubstate_code RIL_PERSOSUBSTATE_SIM_CORPORATE_PUK = 10"
| "RIL_PersoSubstate_code RIL_PERSOSUBSTATE_SIM_SERVICE_PROVIDER_PUK = 11"
| "RIL_PersoSubstate_code RIL_PERSOSUBSTATE_SIM_SIM_PUK = 12"
| "RIL_PersoSubstate_code RIL_PERSOSUBSTATE_RUIM_NETWORK1 = 13"
| "RIL_PersoSubstate_code RIL_PERSOSUBSTATE_RUIM_NETWORK2 = 14"
| "RIL_PersoSubstate_code RIL_PERSOSUBSTATE_RUIM_HRPD = 15"
| "RIL_PersoSubstate_code RIL_PERSOSUBSTATE_RUIM_CORPORATE = 16"
| "RIL_PersoSubstate_code RIL_PERSOSUBSTATE_RUIM_SERVICE_PROVIDER = 17"
| "RIL_PersoSubstate_code RIL_PERSOSUBSTATE_RUIM_RUIM = 18"
| "RIL_PersoSubstate_code RIL_PERSOSUBSTATE_RUIM_NETWORK1_PUK = 19"
| "RIL_PersoSubstate_code RIL_PERSOSUBSTATE_RUIM_NETWORK2_PUK = 20"
| "RIL_PersoSubstate_code RIL_PERSOSUBSTATE_RUIM_HRPD_PUK = 21"
| "RIL_PersoSubstate_code RIL_PERSOSUBSTATE_RUIM_CORPORATE_PUK = 22"
| "RIL_PersoSubstate_code RIL_PERSOSUBSTATE_RUIM_SERVICE_PROVIDER_PUK = 23"
| "RIL_PersoSubstate_code RIL_PERSOSUBSTATE_RUIM_RUIM_PUK = 24"

datatype RIL_AppState =
    RIL_APPSTATE_UNKNOWN | RIL_APPSTATE_DETECTED | RIL_APPSTATE_PIN | RIL_APPSTATE_PUK
   | RIL_APPSTATE_SUBSCRIPTION_PERSO | RIL_APPSTATE_READY

primrec RIL_AppState_code :: "RIL_AppState \<Rightarrow> int" where
  "RIL_AppState_code RIL_APPSTATE_UNKNOWN = 0"
| "RIL_AppState_code RIL_APPSTATE_DETECTED = 1"
| "RIL_AppState_code RIL_APPSTATE_PIN = 2"
| "RIL_AppState_code RIL_APPSTATE_PUK = 3"
| "RIL_AppState_code RIL_APPSTATE_SUBSCRIPTION_PERSO = 4"
| "RIL_AppState_code RIL_APPSTATE_READY = 5"

datatype RIL_PinState =
    RIL_PINSTATE_UNKNOWN | RIL_PINSTATE_ENABLED_NOT_VERIFIED | RIL_PINSTATE_ENABLED_VERIFIED
   | RIL_PINSTATE_DISABLED | RIL_PINSTATE_ENABLED_BLOCKED | RIL_PINSTATE_ENABLED_PERM_BLOCKED

primrec RIL_PinState_code :: "RIL_PinState \<Rightarrow> int" where
  "RIL_PinState_code RIL_PINSTATE_UNKNOWN = 0"
| "RIL_PinState_code RIL_PINSTATE_ENABLED_NOT_VERIFIED = 1"
| "RIL_PinState_code RIL_PINSTATE_ENABLED_VERIFIED = 2"
| "RIL_PinState_code RIL_PINSTATE_DISABLED = 3"
| "RIL_PinState_code RIL_PINSTATE_ENABLED_BLOCKED = 4"
| "RIL_PinState_code RIL_PINSTATE_ENABLED_PERM_BLOCKED = 5"

datatype RIL_AppType =
    RIL_APPTYPE_UNKNOWN | RIL_APPTYPE_SIM | RIL_APPTYPE_USIM | RIL_APPTYPE_RUIM | RIL_APPTYPE_CSIM
   | RIL_APPTYPE_ISIM

primrec RIL_AppType_code :: "RIL_AppType \<Rightarrow> int" where
  "RIL_AppType_code RIL_APPTYPE_UNKNOWN = 0"
| "RIL_AppType_code RIL_APPTYPE_SIM = 1"
| "RIL_AppType_code RIL_APPTYPE_USIM = 2"
| "RIL_AppType_code RIL_APPTYPE_RUIM = 3"
| "RIL_AppType_code RIL_APPTYPE_CSIM = 4"
| "RIL_AppType_code RIL_APPTYPE_ISIM = 5"

datatype RIL_RegState =
    RIL_NOT_REG_AND_NOT_SEARCHING | RIL_REG_HOME | RIL_NOT_REG_AND_SEARCHING | RIL_REG_DENIED | RIL_UNKNOWN
   | RIL_REG_ROAMING | RIL_NOT_REG_AND_EMERGENCY_AVAILABLE_AND_NOT_SEARCHING
   | RIL_NOT_REG_AND_EMERGENCY_AVAILABLE_AND_SEARCHING | RIL_REG_DENIED_AND_EMERGENCY_AVAILABLE
   | RIL_UNKNOWN_AND_EMERGENCY_AVAILABLE

primrec RIL_RegState_code :: "RIL_RegState \<Rightarrow> int" where
  "RIL_RegState_code RIL_NOT_REG_AND_NOT_SEARCHING = 0"
| "RIL_RegState_code RIL_REG_HOME = 1"
| "RIL_RegState_code RIL_NOT_REG_AND_SEARCHING = 2"
| "RIL_RegState_code RIL_REG_DENIED = 3"
| "RIL_RegState_code RIL_UNKNOWN = 4"
| "RIL_RegState_code RIL_REG_ROAMING = 5"
| "RIL_RegState_code RIL_NOT_REG_AND_EMERGENCY_AVAILABLE_AND_NOT_SEARCHING = 10"
| "RIL_RegState_code RIL_NOT_REG_AND_EMERGENCY_AVAILABLE_AND_SEARCHING = 12"
| "RIL_RegState_code RIL_REG_DENIED_AND_EMERGENCY_AVAILABLE = 13"
| "RIL_RegState_code RIL_UNKNOWN_AND_EMERGENCY_AVAILABLE = 14"

datatype RIL_SimRefreshResult =
    SIM_FILE_UPDATE | SIM_INIT | SIM_RESET

primrec RIL_SimRefreshResult_code :: "RIL_SimRefreshResult \<Rightarrow> int" where
  "RIL_SimRefreshResult_code SIM_FILE_UPDATE = 0"
| "RIL_SimRefreshResult_code SIM_INIT = 1"
| "RIL_SimRefreshResult_code SIM_RESET = 2"

datatype RIL_CDMA_OTA_ProvisionStatus =
    CDMA_OTA_PROVISION_STATUS_SPL_UNLOCKED | CDMA_OTA_PROVISION_STATUS_SPC_RETRIES_EXCEEDED
   | CDMA_OTA_PROVISION_STATUS_A_KEY_EXCHANGED | CDMA_OTA_PROVISION_STATUS_SSD_UPDATED
   | CDMA_OTA_PROVISION_STATUS_NAM_DOWNLOADED | CDMA_OTA_PROVISION_STATUS_MDN_DOWNLOADED
   | CDMA_OTA_PROVISION_STATUS_IMSI_DOWNLOADED | CDMA_OTA_PROVISION_STATUS_PRL_DOWNLOADED
   | CDMA_OTA_PROVISION_STATUS_COMMITTED | CDMA_OTA_PROVISION_STATUS_OTAPA_STARTED
   | CDMA_OTA_PROVISION_STATUS_OTAPA_STOPPED | CDMA_OTA_PROVISION_STATUS_OTAPA_ABORTED

primrec RIL_CDMA_OTA_ProvisionStatus_code :: "RIL_CDMA_OTA_ProvisionStatus \<Rightarrow> int" where
  "RIL_CDMA_OTA_ProvisionStatus_code CDMA_OTA_PROVISION_STATUS_SPL_UNLOCKED = 0"
| "RIL_CDMA_OTA_ProvisionStatus_code CDMA_OTA_PROVISION_STATUS_SPC_RETRIES_EXCEEDED = 1"
| "RIL_CDMA_OTA_ProvisionStatus_code CDMA_OTA_PROVISION_STATUS_A_KEY_EXCHANGED = 2"
| "RIL_CDMA_OTA_ProvisionStatus_code CDMA_OTA_PROVISION_STATUS_SSD_UPDATED = 3"
| "RIL_CDMA_OTA_ProvisionStatus_code CDMA_OTA_PROVISION_STATUS_NAM_DOWNLOADED = 4"
| "RIL_CDMA_OTA_ProvisionStatus_code CDMA_OTA_PROVISION_STATUS_MDN_DOWNLOADED = 5"
| "RIL_CDMA_OTA_ProvisionStatus_code CDMA_OTA_PROVISION_STATUS_IMSI_DOWNLOADED = 6"
| "RIL_CDMA_OTA_ProvisionStatus_code CDMA_OTA_PROVISION_STATUS_PRL_DOWNLOADED = 7"
| "RIL_CDMA_OTA_ProvisionStatus_code CDMA_OTA_PROVISION_STATUS_COMMITTED = 8"
| "RIL_CDMA_OTA_ProvisionStatus_code CDMA_OTA_PROVISION_STATUS_OTAPA_STARTED = 9"
| "RIL_CDMA_OTA_ProvisionStatus_code CDMA_OTA_PROVISION_STATUS_OTAPA_STOPPED = 10"
| "RIL_CDMA_OTA_ProvisionStatus_code CDMA_OTA_PROVISION_STATUS_OTAPA_ABORTED = 11"

datatype RIL_CellInfoType =
    RIL_CELL_INFO_TYPE_NONE | RIL_CELL_INFO_TYPE_GSM | RIL_CELL_INFO_TYPE_CDMA | RIL_CELL_INFO_TYPE_LTE
   | RIL_CELL_INFO_TYPE_WCDMA | RIL_CELL_INFO_TYPE_TD_SCDMA

primrec RIL_CellInfoType_code :: "RIL_CellInfoType \<Rightarrow> int" where
  "RIL_CellInfoType_code RIL_CELL_INFO_TYPE_NONE = 0"
| "RIL_CellInfoType_code RIL_CELL_INFO_TYPE_GSM = 1"
| "RIL_CellInfoType_code RIL_CELL_INFO_TYPE_CDMA = 2"
| "RIL_CellInfoType_code RIL_CELL_INFO_TYPE_LTE = 3"
| "RIL_CellInfoType_code RIL_CELL_INFO_TYPE_WCDMA = 4"
| "RIL_CellInfoType_code RIL_CELL_INFO_TYPE_TD_SCDMA = 5"

datatype RIL_TimeStampType =
    RIL_TIMESTAMP_TYPE_UNKNOWN | RIL_TIMESTAMP_TYPE_ANTENNA | RIL_TIMESTAMP_TYPE_MODEM
   | RIL_TIMESTAMP_TYPE_OEM_RIL | RIL_TIMESTAMP_TYPE_JAVA_RIL

primrec RIL_TimeStampType_code :: "RIL_TimeStampType \<Rightarrow> int" where
  "RIL_TimeStampType_code RIL_TIMESTAMP_TYPE_UNKNOWN = 0"
| "RIL_TimeStampType_code RIL_TIMESTAMP_TYPE_ANTENNA = 1"
| "RIL_TimeStampType_code RIL_TIMESTAMP_TYPE_MODEM = 2"
| "RIL_TimeStampType_code RIL_TIMESTAMP_TYPE_OEM_RIL = 3"
| "RIL_TimeStampType_code RIL_TIMESTAMP_TYPE_JAVA_RIL = 4"

datatype RIL_CDMA_InfoRecName =
    RIL_CDMA_DISPLAY_INFO_REC | RIL_CDMA_CALLED_PARTY_NUMBER_INFO_REC
   | RIL_CDMA_CALLING_PARTY_NUMBER_INFO_REC | RIL_CDMA_CONNECTED_NUMBER_INFO_REC | RIL_CDMA_SIGNAL_INFO_REC
   | RIL_CDMA_REDIRECTING_NUMBER_INFO_REC | RIL_CDMA_LINE_CONTROL_INFO_REC
   | RIL_CDMA_EXTENDED_DISPLAY_INFO_REC | RIL_CDMA_T53_CLIR_INFO_REC | RIL_CDMA_T53_RELEASE_INFO_REC
   | RIL_CDMA_T53_AUDIO_CONTROL_INFO_REC

primrec RIL_CDMA_InfoRecName_code :: "RIL_CDMA_InfoRecName \<Rightarrow> int" where
  "RIL_CDMA_InfoRecName_code RIL_CDMA_DISPLAY_INFO_REC = 0"
| "RIL_CDMA_InfoRecName_code RIL_CDMA_CALLED_PARTY_NUMBER_INFO_REC = 1"
| "RIL_CDMA_InfoRecName_code RIL_CDMA_CALLING_PARTY_NUMBER_INFO_REC = 2"
| "RIL_CDMA_InfoRecName_code RIL_CDMA_CONNECTED_NUMBER_INFO_REC = 3"
| "RIL_CDMA_InfoRecName_code RIL_CDMA_SIGNAL_INFO_REC = 4"
| "RIL_CDMA_InfoRecName_code RIL_CDMA_REDIRECTING_NUMBER_INFO_REC = 5"
| "RIL_CDMA_InfoRecName_code RIL_CDMA_LINE_CONTROL_INFO_REC = 6"
| "RIL_CDMA_InfoRecName_code RIL_CDMA_EXTENDED_DISPLAY_INFO_REC = 7"
| "RIL_CDMA_InfoRecName_code RIL_CDMA_T53_CLIR_INFO_REC = 8"
| "RIL_CDMA_InfoRecName_code RIL_CDMA_T53_RELEASE_INFO_REC = 9"
| "RIL_CDMA_InfoRecName_code RIL_CDMA_T53_AUDIO_CONTROL_INFO_REC = 10"

datatype RIL_CDMA_RedirectingReason =
    RIL_REDIRECTING_REASON_UNKNOWN | RIL_REDIRECTING_REASON_CALL_FORWARDING_BUSY
   | RIL_REDIRECTING_REASON_CALL_FORWARDING_NO_REPLY | RIL_REDIRECTING_REASON_CALLED_DTE_OUT_OF_ORDER
   | RIL_REDIRECTING_REASON_CALL_FORWARDING_BY_THE_CALLED_DTE
   | RIL_REDIRECTING_REASON_CALL_FORWARDING_UNCONDITIONAL | RIL_REDIRECTING_REASON_RESERVED

primrec RIL_CDMA_RedirectingReason_code :: "RIL_CDMA_RedirectingReason \<Rightarrow> int" where
  "RIL_CDMA_RedirectingReason_code RIL_REDIRECTING_REASON_UNKNOWN = 0"
| "RIL_CDMA_RedirectingReason_code RIL_REDIRECTING_REASON_CALL_FORWARDING_BUSY = 1"
| "RIL_CDMA_RedirectingReason_code RIL_REDIRECTING_REASON_CALL_FORWARDING_NO_REPLY = 2"
| "RIL_CDMA_RedirectingReason_code RIL_REDIRECTING_REASON_CALLED_DTE_OUT_OF_ORDER = 9"
| "RIL_CDMA_RedirectingReason_code RIL_REDIRECTING_REASON_CALL_FORWARDING_BY_THE_CALLED_DTE = 10"
| "RIL_CDMA_RedirectingReason_code RIL_REDIRECTING_REASON_CALL_FORWARDING_UNCONDITIONAL = 15"
| "RIL_CDMA_RedirectingReason_code RIL_REDIRECTING_REASON_RESERVED = 16"

datatype RIL_SrvccState =
    HANDOVER_STARTED | HANDOVER_COMPLETED | HANDOVER_FAILED | HANDOVER_CANCELED

primrec RIL_SrvccState_code :: "RIL_SrvccState \<Rightarrow> int" where
  "RIL_SrvccState_code HANDOVER_STARTED = 0"
| "RIL_SrvccState_code HANDOVER_COMPLETED = 1"
| "RIL_SrvccState_code HANDOVER_FAILED = 2"
| "RIL_SrvccState_code HANDOVER_CANCELED = 3"

datatype RIL_HardwareConfig_Type =
    RIL_HARDWARE_CONFIG_MODEM | RIL_HARDWARE_CONFIG_SIM

primrec RIL_HardwareConfig_Type_code :: "RIL_HardwareConfig_Type \<Rightarrow> int" where
  "RIL_HardwareConfig_Type_code RIL_HARDWARE_CONFIG_MODEM = 0"
| "RIL_HardwareConfig_Type_code RIL_HARDWARE_CONFIG_SIM = 1"

datatype RIL_HardwareConfig_State =
    RIL_HARDWARE_CONFIG_STATE_ENABLED | RIL_HARDWARE_CONFIG_STATE_STANDBY
   | RIL_HARDWARE_CONFIG_STATE_DISABLED

primrec RIL_HardwareConfig_State_code :: "RIL_HardwareConfig_State \<Rightarrow> int" where
  "RIL_HardwareConfig_State_code RIL_HARDWARE_CONFIG_STATE_ENABLED = 0"
| "RIL_HardwareConfig_State_code RIL_HARDWARE_CONFIG_STATE_STANDBY = 1"
| "RIL_HardwareConfig_State_code RIL_HARDWARE_CONFIG_STATE_DISABLED = 2"

datatype RIL_SsServiceType =
    SS_CFU | SS_CF_BUSY | SS_CF_NO_REPLY | SS_CF_NOT_REACHABLE | SS_CF_ALL | SS_CF_ALL_CONDITIONAL | SS_CLIP
   | SS_CLIR | SS_COLP | SS_COLR | SS_WAIT | SS_BAOC | SS_BAOIC | SS_BAOIC_EXC_HOME | SS_BAIC
   | SS_BAIC_ROAMING | SS_ALL_BARRING | SS_OUTGOING_BARRING | SS_INCOMING_BARRING

primrec RIL_SsServiceType_code :: "RIL_SsServiceType \<Rightarrow> int" where
  "RIL_SsServiceType_code SS_CFU = 0"
| "RIL_SsServiceType_code SS_CF_BUSY = 1"
| "RIL_SsServiceType_code SS_CF_NO_REPLY = 2"
| "RIL_SsServiceType_code SS_CF_NOT_REACHABLE = 3"
| "RIL_SsServiceType_code SS_CF_ALL = 4"
| "RIL_SsServiceType_code SS_CF_ALL_CONDITIONAL = 5"
| "RIL_SsServiceType_code SS_CLIP = 6"
| "RIL_SsServiceType_code SS_CLIR = 7"
| "RIL_SsServiceType_code SS_COLP = 8"
| "RIL_SsServiceType_code SS_COLR = 9"
| "RIL_SsServiceType_code SS_WAIT = 10"
| "RIL_SsServiceType_code SS_BAOC = 11"
| "RIL_SsServiceType_code SS_BAOIC = 12"
| "RIL_SsServiceType_code SS_BAOIC_EXC_HOME = 13"
| "RIL_SsServiceType_code SS_BAIC = 14"
| "RIL_SsServiceType_code SS_BAIC_ROAMING = 15"
| "RIL_SsServiceType_code SS_ALL_BARRING = 16"
| "RIL_SsServiceType_code SS_OUTGOING_BARRING = 17"
| "RIL_SsServiceType_code SS_INCOMING_BARRING = 18"

datatype RIL_SsRequestType =
    SS_ACTIVATION | SS_DEACTIVATION | SS_INTERROGATION | SS_REGISTRATION | SS_ERASURE

primrec RIL_SsRequestType_code :: "RIL_SsRequestType \<Rightarrow> int" where
  "RIL_SsRequestType_code SS_ACTIVATION = 0"
| "RIL_SsRequestType_code SS_DEACTIVATION = 1"
| "RIL_SsRequestType_code SS_INTERROGATION = 2"
| "RIL_SsRequestType_code SS_REGISTRATION = 3"
| "RIL_SsRequestType_code SS_ERASURE = 4"

datatype RIL_SsTeleserviceType =
    SS_ALL_TELE_AND_BEARER_SERVICES | SS_ALL_TELESEVICES | SS_TELEPHONY | SS_ALL_DATA_TELESERVICES
   | SS_SMS_SERVICES | SS_ALL_TELESERVICES_EXCEPT_SMS

primrec RIL_SsTeleserviceType_code :: "RIL_SsTeleserviceType \<Rightarrow> int" where
  "RIL_SsTeleserviceType_code SS_ALL_TELE_AND_BEARER_SERVICES = 0"
| "RIL_SsTeleserviceType_code SS_ALL_TELESEVICES = 1"
| "RIL_SsTeleserviceType_code SS_TELEPHONY = 2"
| "RIL_SsTeleserviceType_code SS_ALL_DATA_TELESERVICES = 3"
| "RIL_SsTeleserviceType_code SS_SMS_SERVICES = 4"
| "RIL_SsTeleserviceType_code SS_ALL_TELESERVICES_EXCEPT_SMS = 5"

datatype RIL_DcPowerStates =
    RIL_DC_POWER_STATE_LOW | RIL_DC_POWER_STATE_MEDIUM | RIL_DC_POWER_STATE_HIGH
   | RIL_DC_POWER_STATE_UNKNOWN

primrec RIL_DcPowerStates_code :: "RIL_DcPowerStates \<Rightarrow> int" where
  "RIL_DcPowerStates_code RIL_DC_POWER_STATE_LOW = 1"
| "RIL_DcPowerStates_code RIL_DC_POWER_STATE_MEDIUM = 2"
| "RIL_DcPowerStates_code RIL_DC_POWER_STATE_HIGH = 3"
| "RIL_DcPowerStates_code RIL_DC_POWER_STATE_UNKNOWN = 2147483647"

datatype RIL_ApnTypes =
    RIL_APN_TYPE_UNKNOWN | RIL_APN_TYPE_DEFAULT | RIL_APN_TYPE_MMS | RIL_APN_TYPE_SUPL | RIL_APN_TYPE_DUN
   | RIL_APN_TYPE_HIPRI | RIL_APN_TYPE_FOTA | RIL_APN_TYPE_IMS | RIL_APN_TYPE_CBS | RIL_APN_TYPE_IA
   | RIL_APN_TYPE_EMERGENCY | RIL_APN_TYPE_ALL

primrec RIL_ApnTypes_code :: "RIL_ApnTypes \<Rightarrow> int" where
  "RIL_ApnTypes_code RIL_APN_TYPE_UNKNOWN = 0"
| "RIL_ApnTypes_code RIL_APN_TYPE_DEFAULT = 1"
| "RIL_ApnTypes_code RIL_APN_TYPE_MMS = 2"
| "RIL_ApnTypes_code RIL_APN_TYPE_SUPL = 4"
| "RIL_ApnTypes_code RIL_APN_TYPE_DUN = 8"
| "RIL_ApnTypes_code RIL_APN_TYPE_HIPRI = 16"
| "RIL_ApnTypes_code RIL_APN_TYPE_FOTA = 32"
| "RIL_ApnTypes_code RIL_APN_TYPE_IMS = 64"
| "RIL_ApnTypes_code RIL_APN_TYPE_CBS = 128"
| "RIL_ApnTypes_code RIL_APN_TYPE_IA = 256"
| "RIL_ApnTypes_code RIL_APN_TYPE_EMERGENCY = 512"
| "RIL_ApnTypes_code RIL_APN_TYPE_ALL = 4294967295"

datatype RIL_DeviceStateType =
    RIL_DST_POWER_SAVE_MODE | RIL_DST_CHARGING_STATE | RIL_DST_LOW_DATA_EXPECTED

primrec RIL_DeviceStateType_code :: "RIL_DeviceStateType \<Rightarrow> int" where
  "RIL_DeviceStateType_code RIL_DST_POWER_SAVE_MODE = 0"
| "RIL_DeviceStateType_code RIL_DST_CHARGING_STATE = 1"
| "RIL_DeviceStateType_code RIL_DST_LOW_DATA_EXPECTED = 2"

datatype RIL_UnsolicitedResponseFilter =
    RIL_UR_SIGNAL_STRENGTH | RIL_UR_FULL_NETWORK_STATE | RIL_UR_DATA_CALL_DORMANCY_CHANGED

primrec RIL_UnsolicitedResponseFilter_code :: "RIL_UnsolicitedResponseFilter \<Rightarrow> int" where
  "RIL_UnsolicitedResponseFilter_code RIL_UR_SIGNAL_STRENGTH = 1"
| "RIL_UnsolicitedResponseFilter_code RIL_UR_FULL_NETWORK_STATE = 2"
| "RIL_UnsolicitedResponseFilter_code RIL_UR_DATA_CALL_DORMANCY_CHANGED = 4"

datatype RIL_ScanType =
    RIL_ONE_SHOT | RIL_PERIODIC

primrec RIL_ScanType_code :: "RIL_ScanType \<Rightarrow> int" where
  "RIL_ScanType_code RIL_ONE_SHOT = 1"
| "RIL_ScanType_code RIL_PERIODIC = 2"

datatype RIL_RadioAccessNetworks =
    GERAN | UTRAN | EUTRAN

primrec RIL_RadioAccessNetworks_code :: "RIL_RadioAccessNetworks \<Rightarrow> int" where
  "RIL_RadioAccessNetworks_code GERAN = 1"
| "RIL_RadioAccessNetworks_code UTRAN = 2"
| "RIL_RadioAccessNetworks_code EUTRAN = 3"

datatype RIL_GeranBands =
    GERAN_BAND_T380 | GERAN_BAND_T410 | GERAN_BAND_450 | GERAN_BAND_480 | GERAN_BAND_710 | GERAN_BAND_750
   | GERAN_BAND_T810 | GERAN_BAND_850 | GERAN_BAND_P900 | GERAN_BAND_E900 | GERAN_BAND_R900
   | GERAN_BAND_DCS1800 | GERAN_BAND_PCS1900 | GERAN_BAND_ER900

primrec RIL_GeranBands_code :: "RIL_GeranBands \<Rightarrow> int" where
  "RIL_GeranBands_code GERAN_BAND_T380 = 1"
| "RIL_GeranBands_code GERAN_BAND_T410 = 2"
| "RIL_GeranBands_code GERAN_BAND_450 = 3"
| "RIL_GeranBands_code GERAN_BAND_480 = 4"
| "RIL_GeranBands_code GERAN_BAND_710 = 5"
| "RIL_GeranBands_code GERAN_BAND_750 = 6"
| "RIL_GeranBands_code GERAN_BAND_T810 = 7"
| "RIL_GeranBands_code GERAN_BAND_850 = 8"
| "RIL_GeranBands_code GERAN_BAND_P900 = 9"
| "RIL_GeranBands_code GERAN_BAND_E900 = 10"
| "RIL_GeranBands_code GERAN_BAND_R900 = 11"
| "RIL_GeranBands_code GERAN_BAND_DCS1800 = 12"
| "RIL_GeranBands_code GERAN_BAND_PCS1900 = 13"
| "RIL_GeranBands_code GERAN_BAND_ER900 = 14"

datatype RIL_UtranBands =
    UTRAN_BAND_1 | UTRAN_BAND_2 | UTRAN_BAND_3 | UTRAN_BAND_4 | UTRAN_BAND_5 | UTRAN_BAND_6 | UTRAN_BAND_7
   | UTRAN_BAND_8 | UTRAN_BAND_9 | UTRAN_BAND_10 | UTRAN_BAND_11 | UTRAN_BAND_12 | UTRAN_BAND_13
   | UTRAN_BAND_14 | UTRAN_BAND_19 | UTRAN_BAND_20 | UTRAN_BAND_21 | UTRAN_BAND_22 | UTRAN_BAND_25
   | UTRAN_BAND_26

primrec RIL_UtranBands_code :: "RIL_UtranBands \<Rightarrow> int" where
  "RIL_UtranBands_code UTRAN_BAND_1 = 1"
| "RIL_UtranBands_code UTRAN_BAND_2 = 2"
| "RIL_UtranBands_code UTRAN_BAND_3 = 3"
| "RIL_UtranBands_code UTRAN_BAND_4 = 4"
| "RIL_UtranBands_code UTRAN_BAND_5 = 5"
| "RIL_UtranBands_code UTRAN_BAND_6 = 6"
| "RIL_UtranBands_code UTRAN_BAND_7 = 7"
| "RIL_UtranBands_code UTRAN_BAND_8 = 8"
| "RIL_UtranBands_code UTRAN_BAND_9 = 9"
| "RIL_UtranBands_code UTRAN_BAND_10 = 10"
| "RIL_UtranBands_code UTRAN_BAND_11 = 11"
| "RIL_UtranBands_code UTRAN_BAND_12 = 12"
| "RIL_UtranBands_code UTRAN_BAND_13 = 13"
| "RIL_UtranBands_code UTRAN_BAND_14 = 14"
| "RIL_UtranBands_code UTRAN_BAND_19 = 19"
| "RIL_UtranBands_code UTRAN_BAND_20 = 20"
| "RIL_UtranBands_code UTRAN_BAND_21 = 21"
| "RIL_UtranBands_code UTRAN_BAND_22 = 22"
| "RIL_UtranBands_code UTRAN_BAND_25 = 25"
| "RIL_UtranBands_code UTRAN_BAND_26 = 26"

definition RIL_EutranBands :: "(string \<times> int) list" where
  "RIL_EutranBands =
   [(''EUTRAN_BAND_1'', 1), (''EUTRAN_BAND_2'', 2), (''EUTRAN_BAND_3'', 3), (''EUTRAN_BAND_4'', 4),
    (''EUTRAN_BAND_5'', 5), (''EUTRAN_BAND_6'', 6), (''EUTRAN_BAND_7'', 7), (''EUTRAN_BAND_8'', 8),
    (''EUTRAN_BAND_9'', 9), (''EUTRAN_BAND_10'', 10), (''EUTRAN_BAND_11'', 11), (''EUTRAN_BAND_12'', 12),
    (''EUTRAN_BAND_13'', 13), (''EUTRAN_BAND_14'', 14), (''EUTRAN_BAND_17'', 17), (''EUTRAN_BAND_18'', 18),
    (''EUTRAN_BAND_19'', 19), (''EUTRAN_BAND_20'', 20), (''EUTRAN_BAND_21'', 21), (''EUTRAN_BAND_22'', 22),
    (''EUTRAN_BAND_23'', 23), (''EUTRAN_BAND_24'', 24), (''EUTRAN_BAND_25'', 25), (''EUTRAN_BAND_26'', 26),
    (''EUTRAN_BAND_27'', 27), (''EUTRAN_BAND_28'', 28), (''EUTRAN_BAND_30'', 30), (''EUTRAN_BAND_31'', 31),
    (''EUTRAN_BAND_33'', 33), (''EUTRAN_BAND_34'', 34), (''EUTRAN_BAND_35'', 35), (''EUTRAN_BAND_36'', 36),
    (''EUTRAN_BAND_37'', 37), (''EUTRAN_BAND_38'', 38), (''EUTRAN_BAND_39'', 39), (''EUTRAN_BAND_40'', 40),
    (''EUTRAN_BAND_41'', 41), (''EUTRAN_BAND_42'', 42), (''EUTRAN_BAND_43'', 43), (''EUTRAN_BAND_44'', 44),
    (''EUTRAN_BAND_45'', 45), (''EUTRAN_BAND_46'', 46), (''EUTRAN_BAND_47'', 47), (''EUTRAN_BAND_48'', 48),
    (''EUTRAN_BAND_65'', 65), (''EUTRAN_BAND_66'', 66), (''EUTRAN_BAND_68'', 68), (''EUTRAN_BAND_70'', 70)]"

datatype RIL_ScanStatus =
    PARTIAL | COMPLETE

primrec RIL_ScanStatus_code :: "RIL_ScanStatus \<Rightarrow> int" where
  "RIL_ScanStatus_code PARTIAL = 1"
| "RIL_ScanStatus_code COMPLETE = 2"

datatype RIL_KeepaliveType =
    NATT_IPV4 | NATT_IPV6

primrec RIL_KeepaliveType_code :: "RIL_KeepaliveType \<Rightarrow> int" where
  "RIL_KeepaliveType_code NATT_IPV4 = 0"
| "RIL_KeepaliveType_code NATT_IPV6 = 1"

datatype RIL_KeepaliveStatusCode =
    KEEPALIVE_ACTIVE | KEEPALIVE_INACTIVE | KEEPALIVE_PENDING

primrec RIL_KeepaliveStatusCode_code :: "RIL_KeepaliveStatusCode \<Rightarrow> int" where
  "RIL_KeepaliveStatusCode_code KEEPALIVE_ACTIVE = 0"
| "RIL_KeepaliveStatusCode_code KEEPALIVE_INACTIVE = 1"
| "RIL_KeepaliveStatusCode_code KEEPALIVE_PENDING = 2"

text \<open>The radio access families are the bits of a mask: no two of them share one.\<close>

lemma families_disjoint:
  "RIL_RadioAccessFamily_code f AND RIL_RadioAccessFamily_code g = (if f = g then RIL_RadioAccessFamily_code f else 0)"
  by (cases f; cases g) (simp_all add: push_bit_eq_mult)

text \<open>The numbers of the long enumerations are distinct, so a number names one constant.\<close>

lemma numbers_distinct:
  "distinct (map snd RIL_Errno)" "distinct (map snd RIL_LastCallFailCause)" "distinct (map snd RIL_DataCallFailCause)"
  "distinct (map snd RIL_EutranBands)"
  by (simp_all add: RIL_Errno_def RIL_LastCallFailCause_def RIL_DataCallFailCause_def RIL_EutranBands_def)

end
