(* ===== verification/Ril_Layout.thy ===== *)
theory Ril_Layout
  imports C_Layout
begin

text \<open>
  The structures of \<open>include/telephony/ril.h\<close>, field by field, as the interface declares them, and
  the number of sockets it serves.  The radio library and the telephony service are built
  separately and pass these structures by address: a side that was built for an older version of a
  structure reads the fields of a newer one at the offsets of the older.  The lemmas say for
  which of the versioned structures that works.  \<open>RIL_NV_Item\<close> is declared in a header outside the
  repository; it is a parameter of the two structures that use it.
\<close>

subsection \<open>Sockets\<close>

text \<open>\<open>SIM_COUNT\<close>, given which macros the build defines and the value it gives \<open>SIM_COUNT\<close> itself, if
  any.  Without \<open>ANDROID_MULTI_SIM\<close> the last definition is 1.\<close>

definition SIM_COUNT :: "nat option \<Rightarrow> string list \<Rightarrow> nat" where
  "SIM_COUNT given ms =
    (case given of
       Some n \<Rightarrow> n
     | None \<Rightarrow>
         if ''ANDROID_MULTI_SIM'' \<notin> set ms then 1
         else if ''ANDROID_SIM_COUNT_2'' \<in> set ms then 2
         else if ''ANDROID_SIM_COUNT_3'' \<in> set ms then 3
         else if ''ANDROID_SIM_COUNT_4'' \<in> set ms then 4
         else 1)"

definition RIL_SOCKET_ID :: "nat \<Rightarrow> (string \<times> nat) list" where
  "RIL_SOCKET_ID n =
    (let names = [''RIL_SOCKET_1''] @
           (if 2 \<le> n then [''RIL_SOCKET_2''] @ (if 3 \<le> n then [''RIL_SOCKET_3''] else []) @
                            (if 4 \<le> n then [''RIL_SOCKET_4''] else [])
            else []) @ [''RIL_SOCKET_NUM'']
     in zip names [0 ..< length names])"

text \<open>One socket for each card, from 0, and their number.\<close>

lemma sockets_count:
  assumes "1 \<le> n" "n \<le> 4"
  shows "map snd (RIL_SOCKET_ID n) = [0 ..< n + 1] \<and> map_of (RIL_SOCKET_ID n) ''RIL_SOCKET_NUM'' = Some n"
proof -
  consider "n = 1" | "n = 2" | "n = 3" | "n = 4" using assms by linarith
  then show ?thesis by cases (simp_all add: RIL_SOCKET_ID_def upt_rec)
qed

subsection \<open>Bounds\<close>

definition RIL_VERSION :: nat where "RIL_VERSION = 12"
definition LAST_IMPRECISE_RIL_VERSION :: nat where "LAST_IMPRECISE_RIL_VERSION = 12"
definition RIL_VERSION_MIN :: nat where "RIL_VERSION_MIN = 6"
definition MAX_RILDS :: nat where "MAX_RILDS = 3"
definition MAX_SERVICE_NAME_LENGTH :: nat where "MAX_SERVICE_NAME_LENGTH = 6"
definition MAX_CLIENT_ID_LENGTH :: nat where "MAX_CLIENT_ID_LENGTH = 2"
definition MAX_DEBUG_SOCKET_NAME_LENGTH :: nat where "MAX_DEBUG_SOCKET_NAME_LENGTH = 12"
definition MAX_QEMU_PIPE_NAME_LENGTH :: nat where "MAX_QEMU_PIPE_NAME_LENGTH = 11"
definition MAX_BROADCAST_SMS_CONFIG_INFO :: nat where "MAX_BROADCAST_SMS_CONFIG_INFO = 25"
definition RIL_RADIO_CAPABILITY_VERSION :: nat where "RIL_RADIO_CAPABILITY_VERSION = 1"
definition CDMA_ALPHA_INFO_BUFFER_LENGTH :: nat where "CDMA_ALPHA_INFO_BUFFER_LENGTH = 64"
definition CDMA_NUMBER_INFO_BUFFER_LENGTH :: nat where "CDMA_NUMBER_INFO_BUFFER_LENGTH = 81"
definition MAX_UUID_LENGTH :: nat where "MAX_UUID_LENGTH = 64"
definition MAX_BANDS :: nat where "MAX_BANDS = 8"
definition MAX_CHANNELS :: nat where "MAX_CHANNELS = 32"
definition MAX_RADIO_ACCESS_NETWORKS :: nat where "MAX_RADIO_ACCESS_NETWORKS = 8"
definition RIL_CARD_MAX_APPS :: nat where "RIL_CARD_MAX_APPS = 8"
definition RIL_CDMA_MAX_NUMBER_OF_INFO_RECS :: nat where "RIL_CDMA_MAX_NUMBER_OF_INFO_RECS = 10"
definition SS_INFO_MAX :: nat where "SS_INFO_MAX = 4"
definition NUM_SERVICE_CLASSES :: nat where "NUM_SERVICE_CLASSES = 7"
definition RIL_NUM_TX_POWER_LEVELS :: nat where "RIL_NUM_TX_POWER_LEVELS = 5"
definition MAX_INADDR_LEN :: nat where "MAX_INADDR_LEN = 16"
definition RIL_RESTRICTED_STATE_NONE :: nat where "RIL_RESTRICTED_STATE_NONE = 0x00"
definition RIL_RESTRICTED_STATE_CS_EMERGENCY :: nat where "RIL_RESTRICTED_STATE_CS_EMERGENCY = 0x01"
definition RIL_RESTRICTED_STATE_CS_NORMAL :: nat where "RIL_RESTRICTED_STATE_CS_NORMAL = 0x02"
definition RIL_RESTRICTED_STATE_CS_ALL :: nat where "RIL_RESTRICTED_STATE_CS_ALL = 0x04"
definition RIL_RESTRICTED_STATE_PS_ALL :: nat where "RIL_RESTRICTED_STATE_PS_ALL = 0x10"

lemmas bound_defs = RIL_VERSION_def LAST_IMPRECISE_RIL_VERSION_def RIL_VERSION_MIN_def MAX_RILDS_def
  MAX_SERVICE_NAME_LENGTH_def MAX_CLIENT_ID_LENGTH_def MAX_DEBUG_SOCKET_NAME_LENGTH_def MAX_QEMU_PIPE_NAME_LENGTH_def
  MAX_BROADCAST_SMS_CONFIG_INFO_def RIL_RADIO_CAPABILITY_VERSION_def CDMA_ALPHA_INFO_BUFFER_LENGTH_def CDMA_NUMBER_INFO_BUFFER_LENGTH_def
  MAX_UUID_LENGTH_def MAX_BANDS_def MAX_CHANNELS_def MAX_RADIO_ACCESS_NETWORKS_def
  RIL_CARD_MAX_APPS_def RIL_CDMA_MAX_NUMBER_OF_INFO_RECS_def SS_INFO_MAX_def NUM_SERVICE_CLASSES_def
  RIL_NUM_TX_POWER_LEVELS_def MAX_INADDR_LEN_def

subsection \<open>Structures\<close>

definition RIL_RadioCapability :: fields where
  "RIL_RadioCapability =
    [(''version'', CInt), (''session'', CInt), (''phase'', CInt), (''rat'', CInt),
    (''logicalModemUuid'', CArray CChar MAX_UUID_LENGTH), (''status'', CInt)]"

definition RIL_UUS_Info :: fields where
  "RIL_UUS_Info =
    [(''uusType'', CEnum ''RIL_UUS_Type''), (''uusDcs'', CEnum ''RIL_UUS_DCS''), (''uusLength'', CInt),
    (''uusData'', CPtr ''char'')]"

definition RIL_CDMA_SignalInfoRecord :: fields where
  "RIL_CDMA_SignalInfoRecord =
    [(''isPresent'', CChar), (''signalType'', CChar), (''alertPitch'', CChar), (''signal'', CChar)]"

definition RIL_Call :: fields where
  "RIL_Call =
    [(''state'', CEnum ''RIL_CallState''), (''index'', CUChar), (''call_id'', CUChar), (''pad'', CUChar),
    (''pad1'', CChar), (''toa'', CInt), (''isMpty'', CChar), (''isMT'', CChar), (''als'', CChar),
    (''isVoice'', CChar), (''isVoicePrivacy'', CChar), (''number'', CPtr ''char''), (''numberPresentation'', CInt),
    (''name'', CPtr ''char''), (''namePresentation'', CInt), (''call_details'', CLong),
    (''uusInfo'', CPtr ''RIL_UUS_Info'')]"

definition RIL_Data_Call_Response_v4 :: fields where
  "RIL_Data_Call_Response_v4 =
    [(''cid'', CInt), (''active'', CInt), (''type'', CPtr ''char''), (''apn'', CPtr ''char''),
    (''address'', CPtr ''char'')]"

definition RIL_Data_Call_Response_v6 :: fields where
  "RIL_Data_Call_Response_v6 =
    [(''status'', CInt), (''suggestedRetryTime'', CInt), (''cid'', CInt), (''active'', CInt),
    (''type'', CPtr ''char''), (''ifname'', CPtr ''char''), (''addresses'', CPtr ''char''),
    (''dnses'', CPtr ''char''), (''gateways'', CPtr ''char'')]"

definition RIL_Data_Call_Response_v9 :: fields where
  "RIL_Data_Call_Response_v9 =
    [(''status'', CInt), (''suggestedRetryTime'', CInt), (''cid'', CInt), (''active'', CInt),
    (''type'', CPtr ''char''), (''ifname'', CPtr ''char''), (''addresses'', CPtr ''char''),
    (''dnses'', CPtr ''char''), (''gateways'', CPtr ''char''), (''pcscf'', CPtr ''char'')]"

definition RIL_Data_Call_Response_v11 :: fields where
  "RIL_Data_Call_Response_v11 =
    [(''status'', CInt), (''suggestedRetryTime'', CInt), (''cid'', CInt), (''active'', CInt),
    (''type'', CPtr ''char''), (''ifname'', CPtr ''char''), (''addresses'', CPtr ''char''),
    (''dnses'', CPtr ''char''), (''gateways'', CPtr ''char''), (''pcscf'', CPtr ''char''), (''mtu'', CInt)]"

definition RIL_IMS_SMS_Message :: fields where
  "RIL_IMS_SMS_Message =
    [(''tech'', CEnum ''RIL_RadioTechnologyFamily''), (''retry'', CUChar), (''messageRef'', CInt),
    (''message'', CUnion [(''cdmaMessage'', CPtr ''RIL_CDMA_SMS_Message''), (''gsmMessage'', CPtr ''char *'')])]"

definition RIL_SMS_Response :: fields where
  "RIL_SMS_Response =
    [(''messageRef'', CInt), (''ackPDU'', CPtr ''char''), (''errorCode'', CInt)]"

definition RIL_SMS_Response_Ext :: fields where
  "RIL_SMS_Response_Ext =
    [(''response'', CStruct RIL_SMS_Response), (''retryCount'', CInt)]"

definition RIL_SMS_WriteArgs :: fields where
  "RIL_SMS_WriteArgs =
    [(''status'', CInt), (''pdu'', CPtr ''char''), (''smsc'', CPtr ''char'')]"

definition RIL_Dial :: fields where
  "RIL_Dial =
    [(''address'', CPtr ''char''), (''clir'', CInt), (''uusInfo'', CPtr ''RIL_UUS_Info'')]"

definition RIL_SIM_IO_v5 :: fields where
  "RIL_SIM_IO_v5 =
    [(''command'', CInt), (''fileid'', CInt), (''path'', CPtr ''char''), (''p1'', CInt), (''p2'', CInt),
    (''p3'', CInt), (''data'', CPtr ''char''), (''pin2'', CPtr ''char'')]"

definition RIL_SIM_IO_v6 :: fields where
  "RIL_SIM_IO_v6 =
    [(''command'', CInt), (''fileid'', CInt), (''path'', CPtr ''char''), (''p1'', CInt), (''p2'', CInt),
    (''p3'', CInt), (''data'', CPtr ''char''), (''pin2'', CPtr ''char''), (''aidPtr'', CPtr ''char'')]"

definition RIL_SIM_APDU :: fields where
  "RIL_SIM_APDU =
    [(''sessionid'', CInt), (''cla'', CInt), (''instruction'', CInt), (''p1'', CInt), (''p2'', CInt), (''p3'', CInt),
    (''data'', CPtr ''char'')]"

definition RIL_SIM_IO_Response :: fields where
  "RIL_SIM_IO_Response =
    [(''sw1'', CInt), (''sw2'', CInt), (''simResponse'', CPtr ''char'')]"

definition RIL_CallForwardInfo :: fields where
  "RIL_CallForwardInfo =
    [(''status'', CInt), (''reason'', CInt), (''serviceClass'', CInt), (''toa'', CInt), (''number'', CPtr ''char''),
    (''timeSeconds'', CInt), (''startTime'', CPtr ''char''), (''endTime'', CPtr ''char'')]"

definition RIL_NeighboringCell :: fields where
  "RIL_NeighboringCell =
    [(''cid'', CPtr ''char''), (''rssi'', CInt)]"

definition RIL_LceStatusInfo :: fields where
  "RIL_LceStatusInfo =
    [(''lce_status'', CChar), (''actual_interval_ms'', CUInt)]"

definition RIL_LceDataInfo :: fields where
  "RIL_LceDataInfo =
    [(''last_hop_capacity_kbps'', CUInt), (''confidence_level'', CUChar), (''lce_suspended'', CUChar)]"

definition RIL_Carrier :: fields where
  "RIL_Carrier =
    [(''mcc'', CPtr ''const char''), (''mnc'', CPtr ''const char''),
    (''match_type'', CEnum ''RIL_CarrierMatchType''), (''match_data'', CPtr ''const char'')]"

definition RIL_CarrierRestrictions :: fields where
  "RIL_CarrierRestrictions =
    [(''len_allowed_carriers'', CInt32), (''len_excluded_carriers'', CInt32),
    (''allowed_carriers'', CPtr ''RIL_Carrier''), (''excluded_carriers'', CPtr ''RIL_Carrier'')]"

definition RIL_CarrierInfoForImsiEncryption :: fields where
  "RIL_CarrierInfoForImsiEncryption =
    [(''mcc'', CPtr ''char''), (''mnc'', CPtr ''char''), (''carrierKey'', CPtr ''uint8_t''),
    (''keyIdentifier'', CPtr ''char''), (''expirationTime'', CInt64)]"

definition RIL_LastCallFailCauseInfo :: fields where
  "RIL_LastCallFailCauseInfo =
    [(''cause_code'', CEnum ''RIL_LastCallFailCause''), (''vendor_cause'', CPtr ''char'')]"

definition RIL_SuppSvcNotification :: fields where
  "RIL_SuppSvcNotification =
    [(''notificationType'', CInt), (''code'', CInt), (''index'', CInt), (''type'', CInt),
    (''number'', CPtr ''char'')]"

definition RIL_AppStatus :: fields where
  "RIL_AppStatus =
    [(''app_type'', CEnum ''RIL_AppType''), (''app_state'', CEnum ''RIL_AppState''),
    (''perso_substate'', CEnum ''RIL_PersoSubstate''), (''aid_ptr'', CPtr ''char''),
    (''app_label_ptr'', CPtr ''char''), (''pin1_replaced'', CInt), (''pin1'', CEnum ''RIL_PinState''),
    (''pin2'', CEnum ''RIL_PinState''), (''pin1_num_retries'', CInt), (''puk1_num_retries'', CInt),
    (''pin2_num_retries'', CInt), (''puk2_num_retries'', CInt), (''perso_unblock_retries'', CInt)]"

definition RIL_CardStatus_v5 :: fields where
  "RIL_CardStatus_v5 =
    [(''card_state'', CEnum ''RIL_CardState''), (''universal_pin_state'', CEnum ''RIL_PinState''),
    (''gsm_umts_subscription_app_index'', CInt), (''cdma_subscription_app_index'', CInt),
    (''num_applications'', CInt), (''applications'', CArray (CStruct RIL_AppStatus) RIL_CARD_MAX_APPS)]"

definition RIL_CardStatus_v6 :: fields where
  "RIL_CardStatus_v6 =
    [(''card_state'', CEnum ''RIL_CardState''), (''universal_pin_state'', CEnum ''RIL_PinState''),
    (''gsm_umts_subscription_app_index'', CInt), (''cdma_subscription_app_index'', CInt),
    (''ims_subscription_app_index'', CInt), (''num_applications'', CInt),
    (''applications'', CArray (CStruct RIL_AppStatus) RIL_CARD_MAX_APPS)]"

definition RIL_SimRefreshResponse_v7 :: fields where
  "RIL_SimRefreshResponse_v7 =
    [(''result'', CEnum ''RIL_SimRefreshResult''), (''ef_id'', CInt), (''aid'', CPtr ''char'')]"

definition RIL_CDMA_CallWaiting_v5 :: fields where
  "RIL_CDMA_CallWaiting_v5 =
    [(''number'', CPtr ''char''), (''numberPresentation'', CInt), (''name'', CPtr ''char''),
    (''signalInfoRecord'', CStruct RIL_CDMA_SignalInfoRecord)]"

definition RIL_CDMA_CallWaiting_v6 :: fields where
  "RIL_CDMA_CallWaiting_v6 =
    [(''number'', CPtr ''char''), (''numberPresentation'', CInt), (''name'', CPtr ''char''),
    (''signalInfoRecord'', CStruct RIL_CDMA_SignalInfoRecord), (''number_type'', CInt), (''number_plan'', CInt)]"

definition RIL_GSM_BroadcastSmsConfigInfo :: fields where
  "RIL_GSM_BroadcastSmsConfigInfo =
    [(''fromServiceId'', CInt), (''toServiceId'', CInt), (''fromCodeScheme'', CInt), (''toCodeScheme'', CInt),
    (''selected'', CUChar)]"

definition RIL_GW_SignalStrength :: fields where
  "RIL_GW_SignalStrength =
    [(''signalStrength'', CInt), (''bitErrorRate'', CInt)]"

definition RIL_GSM_SignalStrength_v12 :: fields where
  "RIL_GSM_SignalStrength_v12 =
    [(''signalStrength'', CInt), (''bitErrorRate'', CInt), (''timingAdvance'', CInt)]"

definition RIL_SignalStrengthWcdma :: fields where
  "RIL_SignalStrengthWcdma =
    [(''signalStrength'', CInt), (''bitErrorRate'', CInt)]"

definition RIL_CDMA_SignalStrength :: fields where
  "RIL_CDMA_SignalStrength =
    [(''dbm'', CInt), (''ecio'', CInt)]"

definition RIL_EVDO_SignalStrength :: fields where
  "RIL_EVDO_SignalStrength =
    [(''dbm'', CInt), (''ecio'', CInt), (''signalNoiseRatio'', CInt)]"

definition RIL_LTE_SignalStrength :: fields where
  "RIL_LTE_SignalStrength =
    [(''signalStrength'', CInt), (''rsrp'', CInt), (''rsrq'', CInt), (''rssnr'', CInt), (''cqi'', CInt)]"

definition RIL_LTE_SignalStrength_v8 :: fields where
  "RIL_LTE_SignalStrength_v8 =
    [(''signalStrength'', CInt), (''rsrp'', CInt), (''rsrq'', CInt), (''rssnr'', CInt), (''cqi'', CInt),
    (''timingAdvance'', CInt)]"

definition RIL_TD_SCDMA_SignalStrength :: fields where
  "RIL_TD_SCDMA_SignalStrength =
    [(''rscp'', CInt)]"

definition RIL_SignalStrength_v5 :: fields where
  "RIL_SignalStrength_v5 =
    [(''GW_SignalStrength'', CStruct RIL_GW_SignalStrength),
    (''CDMA_SignalStrength'', CStruct RIL_CDMA_SignalStrength),
    (''EVDO_SignalStrength'', CStruct RIL_EVDO_SignalStrength)]"

definition RIL_SignalStrength_v6 :: fields where
  "RIL_SignalStrength_v6 =
    [(''GW_SignalStrength'', CStruct RIL_GW_SignalStrength),
    (''CDMA_SignalStrength'', CStruct RIL_CDMA_SignalStrength),
    (''EVDO_SignalStrength'', CStruct RIL_EVDO_SignalStrength),
    (''LTE_SignalStrength'', CStruct RIL_LTE_SignalStrength)]"

definition RIL_SignalStrength_v8 :: fields where
  "RIL_SignalStrength_v8 =
    [(''GW_SignalStrength'', CStruct RIL_GW_SignalStrength),
    (''CDMA_SignalStrength'', CStruct RIL_CDMA_SignalStrength),
    (''EVDO_SignalStrength'', CStruct RIL_EVDO_SignalStrength),
    (''LTE_SignalStrength'', CStruct RIL_LTE_SignalStrength_v8)]"

definition RIL_SignalStrength_v10 :: fields where
  "RIL_SignalStrength_v10 =
    [(''GW_SignalStrength'', CStruct RIL_GW_SignalStrength),
    (''CDMA_SignalStrength'', CStruct RIL_CDMA_SignalStrength),
    (''EVDO_SignalStrength'', CStruct RIL_EVDO_SignalStrength),
    (''LTE_SignalStrength'', CStruct RIL_LTE_SignalStrength_v8),
    (''TD_SCDMA_SignalStrength'', CStruct RIL_TD_SCDMA_SignalStrength)]"

definition RIL_CellIdentityGsm :: fields where
  "RIL_CellIdentityGsm =
    [(''mcc'', CInt), (''mnc'', CInt), (''lac'', CInt), (''cid'', CInt)]"

definition RIL_CellIdentityGsm_v12 :: fields where
  "RIL_CellIdentityGsm_v12 =
    [(''mcc'', CInt), (''mnc'', CInt), (''lac'', CInt), (''cid'', CInt), (''arfcn'', CInt), (''bsic'', CUint8)]"

definition RIL_CellIdentityWcdma :: fields where
  "RIL_CellIdentityWcdma =
    [(''mcc'', CInt), (''mnc'', CInt), (''lac'', CInt), (''cid'', CInt), (''psc'', CInt)]"

definition RIL_CellIdentityWcdma_v12 :: fields where
  "RIL_CellIdentityWcdma_v12 =
    [(''mcc'', CInt), (''mnc'', CInt), (''lac'', CInt), (''cid'', CInt), (''psc'', CInt), (''uarfcn'', CInt)]"

definition RIL_CellIdentityCdma :: fields where
  "RIL_CellIdentityCdma =
    [(''networkId'', CInt), (''systemId'', CInt), (''basestationId'', CInt), (''longitude'', CInt),
    (''latitude'', CInt)]"

definition RIL_CellIdentityLte :: fields where
  "RIL_CellIdentityLte =
    [(''mcc'', CInt), (''mnc'', CInt), (''ci'', CInt), (''pci'', CInt), (''tac'', CInt)]"

definition RIL_CellIdentityLte_v12 :: fields where
  "RIL_CellIdentityLte_v12 =
    [(''mcc'', CInt), (''mnc'', CInt), (''ci'', CInt), (''pci'', CInt), (''tac'', CInt), (''earfcn'', CInt)]"

definition RIL_CellIdentityTdscdma :: fields where
  "RIL_CellIdentityTdscdma =
    [(''mcc'', CInt), (''mnc'', CInt), (''lac'', CInt), (''cid'', CInt), (''cpid'', CInt)]"

definition RIL_CellInfoGsm :: fields where
  "RIL_CellInfoGsm =
    [(''cellIdentityGsm'', CStruct RIL_CellIdentityGsm), (''signalStrengthGsm'', CStruct RIL_GW_SignalStrength)]"

definition RIL_CellInfoGsm_v12 :: fields where
  "RIL_CellInfoGsm_v12 =
    [(''cellIdentityGsm'', CStruct RIL_CellIdentityGsm_v12),
    (''signalStrengthGsm'', CStruct RIL_GSM_SignalStrength_v12)]"

definition RIL_CellInfoWcdma :: fields where
  "RIL_CellInfoWcdma =
    [(''cellIdentityWcdma'', CStruct RIL_CellIdentityWcdma),
    (''signalStrengthWcdma'', CStruct RIL_SignalStrengthWcdma)]"

definition RIL_CellInfoWcdma_v12 :: fields where
  "RIL_CellInfoWcdma_v12 =
    [(''cellIdentityWcdma'', CStruct RIL_CellIdentityWcdma_v12),
    (''signalStrengthWcdma'', CStruct RIL_SignalStrengthWcdma)]"

definition RIL_CellInfoCdma :: fields where
  "RIL_CellInfoCdma =
    [(''cellIdentityCdma'', CStruct RIL_CellIdentityCdma), (''signalStrengthCdma'', CStruct RIL_CDMA_SignalStrength),
    (''signalStrengthEvdo'', CStruct RIL_EVDO_SignalStrength)]"

definition RIL_CellInfoLte :: fields where
  "RIL_CellInfoLte =
    [(''cellIdentityLte'', CStruct RIL_CellIdentityLte), (''signalStrengthLte'', CStruct RIL_LTE_SignalStrength_v8)]"

definition RIL_CellInfoLte_v12 :: fields where
  "RIL_CellInfoLte_v12 =
    [(''cellIdentityLte'', CStruct RIL_CellIdentityLte_v12),
    (''signalStrengthLte'', CStruct RIL_LTE_SignalStrength_v8)]"

definition RIL_CellInfoTdscdma :: fields where
  "RIL_CellInfoTdscdma =
    [(''cellIdentityTdscdma'', CStruct RIL_CellIdentityTdscdma),
    (''signalStrengthTdscdma'', CStruct RIL_TD_SCDMA_SignalStrength)]"

definition RIL_CellInfo :: fields where
  "RIL_CellInfo =
    [(''cellInfoType'', CEnum ''RIL_CellInfoType''), (''registered'', CInt),
    (''timeStampType'', CEnum ''RIL_TimeStampType''), (''timeStamp'', CUint64),
    (''CellInfo'', CUnion [(''gsm'', CStruct RIL_CellInfoGsm), (''cdma'', CStruct RIL_CellInfoCdma), (''lte'', CStruct RIL_CellInfoLte), (''wcdma'', CStruct RIL_CellInfoWcdma), (''tdscdma'', CStruct RIL_CellInfoTdscdma)])]"

definition RIL_CellInfo_v12 :: fields where
  "RIL_CellInfo_v12 =
    [(''cellInfoType'', CEnum ''RIL_CellInfoType''), (''registered'', CInt),
    (''timeStampType'', CEnum ''RIL_TimeStampType''), (''timeStamp'', CUint64),
    (''CellInfo'', CUnion [(''gsm'', CStruct RIL_CellInfoGsm_v12), (''cdma'', CStruct RIL_CellInfoCdma), (''lte'', CStruct RIL_CellInfoLte_v12), (''wcdma'', CStruct RIL_CellInfoWcdma_v12), (''tdscdma'', CStruct RIL_CellInfoTdscdma)])]"

definition RIL_CellIdentity_v16 :: fields where
  "RIL_CellIdentity_v16 =
    [(''cellInfoType'', CEnum ''RIL_CellInfoType''),
    ('''', CUnion [(''cellIdentityGsm'', CStruct RIL_CellIdentityGsm_v12), (''cellIdentityWcdma'', CStruct RIL_CellIdentityWcdma_v12), (''cellIdentityLte'', CStruct RIL_CellIdentityLte_v12), (''cellIdentityTdscdma'', CStruct RIL_CellIdentityTdscdma), (''cellIdentityCdma'', CStruct RIL_CellIdentityCdma)])]"

definition RIL_VoiceRegistrationStateResponse :: fields where
  "RIL_VoiceRegistrationStateResponse =
    [(''regState'', CEnum ''RIL_RegState''), (''rat'', CEnum ''RIL_RadioTechnology''), (''cssSupported'', CInt32),
    (''roamingIndicator'', CInt32), (''systemIsInPrl'', CInt32), (''defaultRoamingIndicator'', CInt32),
    (''reasonForDenial'', CInt32), (''cellIdentity'', CStruct RIL_CellIdentity_v16)]"

definition RIL_DataRegistrationStateResponse :: fields where
  "RIL_DataRegistrationStateResponse =
    [(''regState'', CEnum ''RIL_RegState''), (''rat'', CEnum ''RIL_RadioTechnology''),
    (''reasonDataDenied'', CInt32), (''maxDataCalls'', CInt32), (''cellIdentity'', CStruct RIL_CellIdentity_v16)]"

definition RIL_CDMA_DisplayInfoRecord :: fields where
  "RIL_CDMA_DisplayInfoRecord =
    [(''alpha_len'', CChar), (''alpha_buf'', CArray CChar CDMA_ALPHA_INFO_BUFFER_LENGTH)]"

definition RIL_CDMA_NumberInfoRecord :: fields where
  "RIL_CDMA_NumberInfoRecord =
    [(''len'', CChar), (''buf'', CArray CChar CDMA_NUMBER_INFO_BUFFER_LENGTH), (''number_type'', CChar),
    (''number_plan'', CChar), (''pi'', CChar), (''si'', CChar)]"

definition RIL_CDMA_RedirectingNumberInfoRecord :: fields where
  "RIL_CDMA_RedirectingNumberInfoRecord =
    [(''redirectingNumber'', CStruct RIL_CDMA_NumberInfoRecord),
    (''redirectingReason'', CEnum ''RIL_CDMA_RedirectingReason'')]"

definition RIL_CDMA_LineControlInfoRecord :: fields where
  "RIL_CDMA_LineControlInfoRecord =
    [(''lineCtrlPolarityIncluded'', CChar), (''lineCtrlToggle'', CChar), (''lineCtrlReverse'', CChar),
    (''lineCtrlPowerDenial'', CChar)]"

definition RIL_CDMA_T53_CLIRInfoRecord :: fields where
  "RIL_CDMA_T53_CLIRInfoRecord =
    [(''cause'', CChar)]"

definition RIL_CDMA_T53_AudioControlInfoRecord :: fields where
  "RIL_CDMA_T53_AudioControlInfoRecord =
    [(''upLink'', CChar), (''downLink'', CChar)]"

definition RIL_CDMA_InformationRecord :: fields where
  "RIL_CDMA_InformationRecord =
    [(''name'', CEnum ''RIL_CDMA_InfoRecName''),
    (''rec'', CUnion [(''display'', CStruct RIL_CDMA_DisplayInfoRecord), (''number'', CStruct RIL_CDMA_NumberInfoRecord), (''signal'', CStruct RIL_CDMA_SignalInfoRecord), (''redir'', CStruct RIL_CDMA_RedirectingNumberInfoRecord), (''lineCtrl'', CStruct RIL_CDMA_LineControlInfoRecord), (''clir'', CStruct RIL_CDMA_T53_CLIRInfoRecord), (''audioCtrl'', CStruct RIL_CDMA_T53_AudioControlInfoRecord)])]"

definition RIL_CDMA_InformationRecords :: fields where
  "RIL_CDMA_InformationRecords =
    [(''numberOfInfoRecs'', CChar),
    (''infoRec'', CArray (CStruct RIL_CDMA_InformationRecord) RIL_CDMA_MAX_NUMBER_OF_INFO_RECS)]"

definition RIL_NV_ReadItem :: "ctype \<Rightarrow> fields" where
  "RIL_NV_ReadItem nv_item =
    [(''itemID'', nv_item)]"

definition RIL_NV_WriteItem :: "ctype \<Rightarrow> fields" where
  "RIL_NV_WriteItem nv_item =
    [(''itemID'', nv_item), (''value'', CPtr ''char'')]"

definition RIL_HardwareConfig_Modem :: fields where
  "RIL_HardwareConfig_Modem =
    [(''rilModel'', CInt), (''rat'', CUint32), (''maxVoice'', CInt), (''maxData'', CInt), (''maxStandby'', CInt)]"

definition RIL_HardwareConfig_Sim :: fields where
  "RIL_HardwareConfig_Sim =
    [(''modemUuid'', CArray CChar MAX_UUID_LENGTH)]"

definition RIL_HardwareConfig :: fields where
  "RIL_HardwareConfig =
    [(''type'', CEnum ''RIL_HardwareConfig_Type''), (''uuid'', CArray CChar MAX_UUID_LENGTH),
    (''state'', CEnum ''RIL_HardwareConfig_State''),
    (''cfg'', CUnion [(''modem'', CStruct RIL_HardwareConfig_Modem), (''sim'', CStruct RIL_HardwareConfig_Sim)])]"

definition RIL_CfData :: fields where
  "RIL_CfData =
    [(''numValidIndexes'', CInt), (''cfInfo'', CArray (CStruct RIL_CallForwardInfo) NUM_SERVICE_CLASSES)]"

definition RIL_StkCcUnsolSsResponse :: fields where
  "RIL_StkCcUnsolSsResponse =
    [(''serviceType'', CEnum ''RIL_SsServiceType''), (''requestType'', CEnum ''RIL_SsRequestType''),
    (''teleserviceType'', CEnum ''RIL_SsTeleserviceType''), (''serviceClass'', CInt),
    (''result'', CEnum ''RIL_Errno''),
    ('''', CUnion [(''ssInfo'', CArray CInt SS_INFO_MAX), (''cfData'', CStruct RIL_CfData)])]"

definition RIL_DcRtInfo :: fields where
  "RIL_DcRtInfo =
    [(''time'', CUint64), (''powerState'', CEnum ''RIL_DcPowerStates'')]"

definition RIL_DataProfileInfo :: fields where
  "RIL_DataProfileInfo =
    [(''profileId'', CInt), (''apn'', CPtr ''char''), (''protocol'', CPtr ''char''), (''authType'', CInt),
    (''user'', CPtr ''char''), (''password'', CPtr ''char''), (''type'', CInt), (''maxConnsTime'', CInt),
    (''maxConns'', CInt), (''waitTime'', CInt), (''enabled'', CInt)]"

definition RIL_DataProfileInfo_v15 :: fields where
  "RIL_DataProfileInfo_v15 =
    [(''profileId'', CInt), (''apn'', CPtr ''char''), (''protocol'', CPtr ''char''),
    (''roamingProtocol'', CPtr ''char''), (''authType'', CInt), (''user'', CPtr ''char''),
    (''password'', CPtr ''char''), (''type'', CInt), (''maxConnsTime'', CInt), (''maxConns'', CInt),
    (''waitTime'', CInt), (''enabled'', CInt), (''supportedTypesBitmask'', CInt), (''bearerBitmask'', CInt),
    (''mtu'', CInt), (''mvnoType'', CPtr ''char''), (''mvnoMatchData'', CPtr ''char'')]"

definition RIL_ActivityStatsInfo :: fields where
  "RIL_ActivityStatsInfo =
    [(''sleep_mode_time_ms'', CUint32), (''idle_mode_time_ms'', CUint32),
    (''tx_mode_time_ms'', CArray CUint32 RIL_NUM_TX_POWER_LEVELS), (''rx_mode_time_ms'', CUint32)]"

definition RIL_OpenChannelParams :: fields where
  "RIL_OpenChannelParams =
    [(''aidPtr'', CPtr ''char''), (''p2'', CInt)]"

definition RIL_RadioAccessSpecifier :: fields where
  "RIL_RadioAccessSpecifier =
    [(''radio_access_network'', CEnum ''RIL_RadioAccessNetworks''), (''bands_length'', CUint32),
    (''bands'', CUnion [(''geran_bands'', CArray (CEnum ''RIL_GeranBands'') MAX_BANDS), (''utran_bands'', CArray (CEnum ''RIL_UtranBands'') MAX_BANDS), (''eutran_bands'', CArray (CEnum ''RIL_EutranBands'') MAX_BANDS)]),
    (''channels_length'', CUint32), (''channels'', CArray CUint32 MAX_CHANNELS)]"

definition RIL_NetworkScanRequest :: fields where
  "RIL_NetworkScanRequest =
    [(''type'', CEnum ''RIL_ScanType''), (''interval'', CInt32), (''specifiers_length'', CUint32),
    (''specifiers'', CArray (CStruct RIL_RadioAccessSpecifier) MAX_RADIO_ACCESS_NETWORKS)]"

definition RIL_NetworkScanResult :: fields where
  "RIL_NetworkScanResult =
    [(''status'', CEnum ''RIL_ScanStatus''), (''network_infos_length'', CUint32),
    (''network_infos'', CPtr ''RIL_CellInfo_v12'')]"

definition RIL_RadioFunctions :: fields where
  "RIL_RadioFunctions =
    [(''version'', CInt), (''onRequest'', CPtr ''RIL_RequestFunc''),
    (''onStateRequest'', CPtr ''RIL_RadioStateRequest''), (''supports'', CPtr ''RIL_Supports''),
    (''onCancel'', CPtr ''RIL_Cancel''), (''getVersion'', CPtr ''RIL_GetVersion'')]"

definition RIL_InitialAttachApn :: fields where
  "RIL_InitialAttachApn =
    [(''apn'', CPtr ''char''), (''protocol'', CPtr ''char''), (''authtype'', CInt), (''username'', CPtr ''char''),
    (''password'', CPtr ''char'')]"

definition RIL_InitialAttachApn_v15 :: fields where
  "RIL_InitialAttachApn_v15 =
    [(''apn'', CPtr ''char''), (''protocol'', CPtr ''char''), (''roamingProtocol'', CPtr ''char''),
    (''authtype'', CInt), (''username'', CPtr ''char''), (''password'', CPtr ''char''),
    (''supportedTypesBitmask'', CInt), (''bearerBitmask'', CInt), (''modemCognitive'', CInt), (''mtu'', CInt),
    (''mvnoType'', CPtr ''char''), (''mvnoMatchData'', CPtr ''char'')]"

definition RIL_SimAuthentication :: fields where
  "RIL_SimAuthentication =
    [(''authContext'', CInt), (''authData'', CPtr ''char''), (''aid'', CPtr ''char'')]"

definition RIL_PCO_Data :: fields where
  "RIL_PCO_Data =
    [(''cid'', CInt), (''bearer_proto'', CPtr ''char''), (''pco_id'', CInt), (''contents_length'', CInt),
    (''contents'', CPtr ''char'')]"

definition RIL_KeepaliveRequest :: fields where
  "RIL_KeepaliveRequest =
    [(''type'', CEnum ''RIL_KeepaliveType''), (''sourceAddress'', CArray CChar MAX_INADDR_LEN),
    (''sourcePort'', CInt), (''destinationAddress'', CArray CChar MAX_INADDR_LEN), (''destinationPort'', CInt),
    (''maxKeepaliveIntervalMillis'', CInt), (''cid'', CInt)]"

definition RIL_KeepaliveStatus :: fields where
  "RIL_KeepaliveStatus =
    [(''sessionHandle'', CUint32), (''code'', CEnum ''RIL_KeepaliveStatusCode'')]"

subsection \<open>Versions\<close>

text \<open>The structures of which a newer version only adds fields at the end.\<close>

lemma extended_structures:
  "prefix RIL_Data_Call_Response_v6 RIL_Data_Call_Response_v9"
  "prefix RIL_Data_Call_Response_v9 RIL_Data_Call_Response_v11"
  "prefix RIL_SIM_IO_v5 RIL_SIM_IO_v6"
  "prefix RIL_CDMA_CallWaiting_v5 RIL_CDMA_CallWaiting_v6"
  "prefix RIL_SignalStrength_v5 RIL_SignalStrength_v6"
  "prefix RIL_SignalStrength_v8 RIL_SignalStrength_v10"
  "prefix RIL_LTE_SignalStrength RIL_LTE_SignalStrength_v8"
  "prefix RIL_CellIdentityGsm RIL_CellIdentityGsm_v12"
  "prefix RIL_CellIdentityWcdma RIL_CellIdentityWcdma_v12"
  "prefix RIL_CellIdentityLte RIL_CellIdentityLte_v12"
  by (simp_all add: RIL_Data_Call_Response_v6_def RIL_Data_Call_Response_v9_def RIL_Data_Call_Response_v11_def
      RIL_SIM_IO_v5_def RIL_SIM_IO_v6_def RIL_CDMA_CallWaiting_v5_def RIL_CDMA_CallWaiting_v6_def
      RIL_SignalStrength_v5_def RIL_SignalStrength_v6_def RIL_SignalStrength_v8_def RIL_SignalStrength_v10_def
      RIL_LTE_SignalStrength_def RIL_LTE_SignalStrength_v8_def RIL_CellIdentityGsm_def RIL_CellIdentityGsm_v12_def
      RIL_CellIdentityWcdma_def RIL_CellIdentityWcdma_v12_def RIL_CellIdentityLte_def RIL_CellIdentityLte_v12_def)

lemma reads_as_trans: "reads_as a b \<Longrightarrow> reads_as b c \<Longrightarrow> reads_as a c"
  by (auto simp: reads_as_def)

lemma round_up_simps [simp]: "round_up n (Suc 0) = n" "round_up n 4 = (n + 3) div 4 * 4" "round_up n 8 = (n + 7) div 8 * 8"
  by (simp_all add: round_up_def)

lemmas signal_defs = RIL_SignalStrength_v6_def RIL_SignalStrength_v8_def RIL_GW_SignalStrength_def
  RIL_CDMA_SignalStrength_def RIL_EVDO_SignalStrength_def RIL_LTE_SignalStrength_def RIL_LTE_SignalStrength_v8_def

text \<open>The LTE part is the last of the sixth version, so it may grow.\<close>

lemma signal_strength_v8: "reads_as RIL_SignalStrength_v8 RIL_SignalStrength_v6"
  by (simp add: reads_as_def signal_defs Let_def)

text \<open>Where a field was inserted, or a structure inside another has grown, the data behind it move.\<close>

lemma moved_fields:
  "\<not> reads_as RIL_Data_Call_Response_v6 RIL_Data_Call_Response_v4"
  "\<not> reads_as RIL_CardStatus_v6 RIL_CardStatus_v5"
  "\<not> reads_as RIL_DataProfileInfo_v15 RIL_DataProfileInfo"
  "\<not> reads_as RIL_InitialAttachApn_v15 RIL_InitialAttachApn"
  by (simp_all add: reads_as_def Let_def RIL_Data_Call_Response_v6_def RIL_Data_Call_Response_v4_def
      RIL_CardStatus_v6_def RIL_CardStatus_v5_def RIL_DataProfileInfo_v15_def RIL_DataProfileInfo_def
      RIL_InitialAttachApn_v15_def RIL_InitialAttachApn_def)

lemma moved_cell_info:
  "\<not> reads_as RIL_CellInfoGsm_v12 RIL_CellInfoGsm"
  "\<not> reads_as RIL_CellInfoWcdma_v12 RIL_CellInfoWcdma"
  "\<not> reads_as RIL_CellInfoLte_v12 RIL_CellInfoLte"
  by (simp_all add: reads_as_def Let_def RIL_CellInfoGsm_v12_def RIL_CellInfoGsm_def RIL_CellIdentityGsm_v12_def
      RIL_CellIdentityGsm_def RIL_GSM_SignalStrength_v12_def RIL_GW_SignalStrength_def RIL_CellInfoWcdma_v12_def
      RIL_CellInfoWcdma_def RIL_CellIdentityWcdma_v12_def RIL_CellIdentityWcdma_def RIL_SignalStrengthWcdma_def
      RIL_CellInfoLte_v12_def RIL_CellInfoLte_def RIL_CellIdentityLte_v12_def RIL_CellIdentityLte_def
      RIL_LTE_SignalStrength_v8_def)

subsection \<open>Sizes\<close>

text \<open>The size tells the versions of the answer to data calls apart, as the receiver of a message with
  a bare length needs.\<close>

lemma data_call_sizes:
  "map (csize \<circ> CStruct) [RIL_Data_Call_Response_v4, RIL_Data_Call_Response_v6, RIL_Data_Call_Response_v9, RIL_Data_Call_Response_v11] =
     [20, 36, 40, 44]"
  by (simp add: RIL_Data_Call_Response_v4_def RIL_Data_Call_Response_v6_def RIL_Data_Call_Response_v9_def
      RIL_Data_Call_Response_v11_def)

end
