(* ===== verification/Ril_Requests.thy ===== *)
theory Ril_Requests
  imports Ril Ril_Layout
begin

text \<open>
  The messages of \<open>include/telephony/ril.h\<close>: the requests of the telephony service, numbered from
  1, and the notifications of the radio, numbered from 1000.  Each is an entry of a table with its
  number and the contract the header states for it: the type of the data that go with it and of
  the answer, and the errors it may be answered with.  A list is empty where the header gives
  nothing, and has two types where it gives two; an error that is listed twice is listed once.  The
  second name of request 15 has the contract of the first.  The numbers matter because both sides index
  tables of handlers with them.
\<close>

subsection \<open>Contracts\<close>

datatype payload =
    Null
  | Ints \<comment> \<open>\<open>int *\<close>\<close>
  | String \<comment> \<open>\<open>char *\<close>\<close>
  | Strings \<comment> \<open>\<open>char **\<close>\<close>
  | Bytes
  | Struct string \<comment> \<open>a pointer to one\<close>
  | Structs string \<comment> \<open>an array of them, or of pointers\<close>

datatype errors = Errors "int list" | Any_error

datatype message = Message (m_name: string) (m_number: nat) (m_data: "payload list") (m_response: "payload list")
  (m_errors: errors)

text \<open>The names of the errors, for their numbers in \<open>RIL_Errno\<close>.\<close>

abbreviation (input) RIL_E_SUCCESS :: int where "RIL_E_SUCCESS \<equiv> 0"
abbreviation (input) RIL_E_RADIO_NOT_AVAILABLE :: int where "RIL_E_RADIO_NOT_AVAILABLE \<equiv> 1"
abbreviation (input) RIL_E_GENERIC_FAILURE :: int where "RIL_E_GENERIC_FAILURE \<equiv> 2"
abbreviation (input) RIL_E_PASSWORD_INCORRECT :: int where "RIL_E_PASSWORD_INCORRECT \<equiv> 3"
abbreviation (input) RIL_E_SIM_PIN2 :: int where "RIL_E_SIM_PIN2 \<equiv> 4"
abbreviation (input) RIL_E_SIM_PUK2 :: int where "RIL_E_SIM_PUK2 \<equiv> 5"
abbreviation (input) RIL_E_REQUEST_NOT_SUPPORTED :: int where "RIL_E_REQUEST_NOT_SUPPORTED \<equiv> 6"
abbreviation (input) RIL_E_CANCELLED :: int where "RIL_E_CANCELLED \<equiv> 7"
abbreviation (input) RIL_E_OP_NOT_ALLOWED_DURING_VOICE_CALL :: int where "RIL_E_OP_NOT_ALLOWED_DURING_VOICE_CALL \<equiv> 8"
abbreviation (input) RIL_E_OP_NOT_ALLOWED_BEFORE_REG_TO_NW :: int where "RIL_E_OP_NOT_ALLOWED_BEFORE_REG_TO_NW \<equiv> 9"
abbreviation (input) RIL_E_SMS_SEND_FAIL_RETRY :: int where "RIL_E_SMS_SEND_FAIL_RETRY \<equiv> 10"
abbreviation (input) RIL_E_SIM_ABSENT :: int where "RIL_E_SIM_ABSENT \<equiv> 11"
abbreviation (input) RIL_E_SUBSCRIPTION_NOT_AVAILABLE :: int where "RIL_E_SUBSCRIPTION_NOT_AVAILABLE \<equiv> 12"
abbreviation (input) RIL_E_MODE_NOT_SUPPORTED :: int where "RIL_E_MODE_NOT_SUPPORTED \<equiv> 13"
abbreviation (input) RIL_E_FDN_CHECK_FAILURE :: int where "RIL_E_FDN_CHECK_FAILURE \<equiv> 14"
abbreviation (input) RIL_E_ILLEGAL_SIM_OR_ME :: int where "RIL_E_ILLEGAL_SIM_OR_ME \<equiv> 15"
abbreviation (input) RIL_E_MISSING_RESOURCE :: int where "RIL_E_MISSING_RESOURCE \<equiv> 16"
abbreviation (input) RIL_E_NO_SUCH_ELEMENT :: int where "RIL_E_NO_SUCH_ELEMENT \<equiv> 17"
abbreviation (input) RIL_E_DIAL_MODIFIED_TO_USSD :: int where "RIL_E_DIAL_MODIFIED_TO_USSD \<equiv> 18"
abbreviation (input) RIL_E_DIAL_MODIFIED_TO_SS :: int where "RIL_E_DIAL_MODIFIED_TO_SS \<equiv> 19"
abbreviation (input) RIL_E_DIAL_MODIFIED_TO_DIAL :: int where "RIL_E_DIAL_MODIFIED_TO_DIAL \<equiv> 20"
abbreviation (input) RIL_E_USSD_MODIFIED_TO_DIAL :: int where "RIL_E_USSD_MODIFIED_TO_DIAL \<equiv> 21"
abbreviation (input) RIL_E_USSD_MODIFIED_TO_SS :: int where "RIL_E_USSD_MODIFIED_TO_SS \<equiv> 22"
abbreviation (input) RIL_E_USSD_MODIFIED_TO_USSD :: int where "RIL_E_USSD_MODIFIED_TO_USSD \<equiv> 23"
abbreviation (input) RIL_E_SS_MODIFIED_TO_DIAL :: int where "RIL_E_SS_MODIFIED_TO_DIAL \<equiv> 24"
abbreviation (input) RIL_E_SS_MODIFIED_TO_USSD :: int where "RIL_E_SS_MODIFIED_TO_USSD \<equiv> 25"
abbreviation (input) RIL_E_SUBSCRIPTION_NOT_SUPPORTED :: int where "RIL_E_SUBSCRIPTION_NOT_SUPPORTED \<equiv> 26"
abbreviation (input) RIL_E_SS_MODIFIED_TO_SS :: int where "RIL_E_SS_MODIFIED_TO_SS \<equiv> 27"
abbreviation (input) RIL_E_LCE_NOT_SUPPORTED :: int where "RIL_E_LCE_NOT_SUPPORTED \<equiv> 36"
abbreviation (input) RIL_E_NO_MEMORY :: int where "RIL_E_NO_MEMORY \<equiv> 37"
abbreviation (input) RIL_E_INTERNAL_ERR :: int where "RIL_E_INTERNAL_ERR \<equiv> 38"
abbreviation (input) RIL_E_SYSTEM_ERR :: int where "RIL_E_SYSTEM_ERR \<equiv> 39"
abbreviation (input) RIL_E_MODEM_ERR :: int where "RIL_E_MODEM_ERR \<equiv> 40"
abbreviation (input) RIL_E_INVALID_STATE :: int where "RIL_E_INVALID_STATE \<equiv> 41"
abbreviation (input) RIL_E_NO_RESOURCES :: int where "RIL_E_NO_RESOURCES \<equiv> 42"
abbreviation (input) RIL_E_SIM_ERR :: int where "RIL_E_SIM_ERR \<equiv> 43"
abbreviation (input) RIL_E_INVALID_ARGUMENTS :: int where "RIL_E_INVALID_ARGUMENTS \<equiv> 44"
abbreviation (input) RIL_E_INVALID_SIM_STATE :: int where "RIL_E_INVALID_SIM_STATE \<equiv> 45"
abbreviation (input) RIL_E_INVALID_MODEM_STATE :: int where "RIL_E_INVALID_MODEM_STATE \<equiv> 46"
abbreviation (input) RIL_E_INVALID_CALL_ID :: int where "RIL_E_INVALID_CALL_ID \<equiv> 47"
abbreviation (input) RIL_E_NO_SMS_TO_ACK :: int where "RIL_E_NO_SMS_TO_ACK \<equiv> 48"
abbreviation (input) RIL_E_NETWORK_ERR :: int where "RIL_E_NETWORK_ERR \<equiv> 49"
abbreviation (input) RIL_E_REQUEST_RATE_LIMITED :: int where "RIL_E_REQUEST_RATE_LIMITED \<equiv> 50"
abbreviation (input) RIL_E_SIM_BUSY :: int where "RIL_E_SIM_BUSY \<equiv> 51"
abbreviation (input) RIL_E_SIM_FULL :: int where "RIL_E_SIM_FULL \<equiv> 52"
abbreviation (input) RIL_E_NETWORK_REJECT :: int where "RIL_E_NETWORK_REJECT \<equiv> 53"
abbreviation (input) RIL_E_OPERATION_NOT_ALLOWED :: int where "RIL_E_OPERATION_NOT_ALLOWED \<equiv> 54"
abbreviation (input) RIL_E_EMPTY_RECORD :: int where "RIL_E_EMPTY_RECORD \<equiv> 55"
abbreviation (input) RIL_E_INVALID_SMS_FORMAT :: int where "RIL_E_INVALID_SMS_FORMAT \<equiv> 56"
abbreviation (input) RIL_E_ENCODING_ERR :: int where "RIL_E_ENCODING_ERR \<equiv> 57"
abbreviation (input) RIL_E_INVALID_SMSC_ADDRESS :: int where "RIL_E_INVALID_SMSC_ADDRESS \<equiv> 58"
abbreviation (input) RIL_E_NO_SUCH_ENTRY :: int where "RIL_E_NO_SUCH_ENTRY \<equiv> 59"
abbreviation (input) RIL_E_NETWORK_NOT_READY :: int where "RIL_E_NETWORK_NOT_READY \<equiv> 60"
abbreviation (input) RIL_E_NOT_PROVISIONED :: int where "RIL_E_NOT_PROVISIONED \<equiv> 61"
abbreviation (input) RIL_E_NO_SUBSCRIPTION :: int where "RIL_E_NO_SUBSCRIPTION \<equiv> 62"
abbreviation (input) RIL_E_NO_NETWORK_FOUND :: int where "RIL_E_NO_NETWORK_FOUND \<equiv> 63"
abbreviation (input) RIL_E_DEVICE_IN_USE :: int where "RIL_E_DEVICE_IN_USE \<equiv> 64"
abbreviation (input) RIL_E_ABORTED :: int where "RIL_E_ABORTED \<equiv> 65"
abbreviation (input) RIL_E_INVALID_RESPONSE :: int where "RIL_E_INVALID_RESPONSE \<equiv> 66"
abbreviation (input) RIL_E_OEM_ERROR_1 :: int where "RIL_E_OEM_ERROR_1 \<equiv> 501"
abbreviation (input) RIL_E_OEM_ERROR_2 :: int where "RIL_E_OEM_ERROR_2 \<equiv> 502"
abbreviation (input) RIL_E_OEM_ERROR_3 :: int where "RIL_E_OEM_ERROR_3 \<equiv> 503"
abbreviation (input) RIL_E_OEM_ERROR_4 :: int where "RIL_E_OEM_ERROR_4 \<equiv> 504"
abbreviation (input) RIL_E_OEM_ERROR_5 :: int where "RIL_E_OEM_ERROR_5 \<equiv> 505"
abbreviation (input) RIL_E_OEM_ERROR_6 :: int where "RIL_E_OEM_ERROR_6 \<equiv> 506"
abbreviation (input) RIL_E_OEM_ERROR_7 :: int where "RIL_E_OEM_ERROR_7 \<equiv> 507"
abbreviation (input) RIL_E_OEM_ERROR_8 :: int where "RIL_E_OEM_ERROR_8 \<equiv> 508"
abbreviation (input) RIL_E_OEM_ERROR_9 :: int where "RIL_E_OEM_ERROR_9 \<equiv> 509"
abbreviation (input) RIL_E_OEM_ERROR_10 :: int where "RIL_E_OEM_ERROR_10 \<equiv> 510"
abbreviation (input) RIL_E_OEM_ERROR_11 :: int where "RIL_E_OEM_ERROR_11 \<equiv> 511"
abbreviation (input) RIL_E_OEM_ERROR_12 :: int where "RIL_E_OEM_ERROR_12 \<equiv> 512"
abbreviation (input) RIL_E_OEM_ERROR_13 :: int where "RIL_E_OEM_ERROR_13 \<equiv> 513"
abbreviation (input) RIL_E_OEM_ERROR_14 :: int where "RIL_E_OEM_ERROR_14 \<equiv> 514"
abbreviation (input) RIL_E_OEM_ERROR_15 :: int where "RIL_E_OEM_ERROR_15 \<equiv> 515"
abbreviation (input) RIL_E_OEM_ERROR_16 :: int where "RIL_E_OEM_ERROR_16 \<equiv> 516"
abbreviation (input) RIL_E_OEM_ERROR_17 :: int where "RIL_E_OEM_ERROR_17 \<equiv> 517"
abbreviation (input) RIL_E_OEM_ERROR_18 :: int where "RIL_E_OEM_ERROR_18 \<equiv> 518"
abbreviation (input) RIL_E_OEM_ERROR_19 :: int where "RIL_E_OEM_ERROR_19 \<equiv> 519"
abbreviation (input) RIL_E_OEM_ERROR_20 :: int where "RIL_E_OEM_ERROR_20 \<equiv> 520"
abbreviation (input) RIL_E_OEM_ERROR_21 :: int where "RIL_E_OEM_ERROR_21 \<equiv> 521"
abbreviation (input) RIL_E_OEM_ERROR_22 :: int where "RIL_E_OEM_ERROR_22 \<equiv> 522"
abbreviation (input) RIL_E_OEM_ERROR_23 :: int where "RIL_E_OEM_ERROR_23 \<equiv> 523"
abbreviation (input) RIL_E_OEM_ERROR_24 :: int where "RIL_E_OEM_ERROR_24 \<equiv> 524"
abbreviation (input) RIL_E_OEM_ERROR_25 :: int where "RIL_E_OEM_ERROR_25 \<equiv> 525"

lemma errno_numbers:
  "map snd RIL_Errno =
    [
      RIL_E_SUCCESS, RIL_E_RADIO_NOT_AVAILABLE, RIL_E_GENERIC_FAILURE, RIL_E_PASSWORD_INCORRECT,
      RIL_E_SIM_PIN2, RIL_E_SIM_PUK2, RIL_E_REQUEST_NOT_SUPPORTED, RIL_E_CANCELLED,
      RIL_E_OP_NOT_ALLOWED_DURING_VOICE_CALL, RIL_E_OP_NOT_ALLOWED_BEFORE_REG_TO_NW, RIL_E_SMS_SEND_FAIL_RETRY,
      RIL_E_SIM_ABSENT, RIL_E_SUBSCRIPTION_NOT_AVAILABLE, RIL_E_MODE_NOT_SUPPORTED, RIL_E_FDN_CHECK_FAILURE,
      RIL_E_ILLEGAL_SIM_OR_ME, RIL_E_MISSING_RESOURCE, RIL_E_NO_SUCH_ELEMENT, RIL_E_DIAL_MODIFIED_TO_USSD,
      RIL_E_DIAL_MODIFIED_TO_SS, RIL_E_DIAL_MODIFIED_TO_DIAL, RIL_E_USSD_MODIFIED_TO_DIAL,
      RIL_E_USSD_MODIFIED_TO_SS, RIL_E_USSD_MODIFIED_TO_USSD, RIL_E_SS_MODIFIED_TO_DIAL,
      RIL_E_SS_MODIFIED_TO_USSD, RIL_E_SUBSCRIPTION_NOT_SUPPORTED, RIL_E_SS_MODIFIED_TO_SS,
      RIL_E_LCE_NOT_SUPPORTED, RIL_E_NO_MEMORY, RIL_E_INTERNAL_ERR, RIL_E_SYSTEM_ERR, RIL_E_MODEM_ERR,
      RIL_E_INVALID_STATE, RIL_E_NO_RESOURCES, RIL_E_SIM_ERR, RIL_E_INVALID_ARGUMENTS, RIL_E_INVALID_SIM_STATE,
      RIL_E_INVALID_MODEM_STATE, RIL_E_INVALID_CALL_ID, RIL_E_NO_SMS_TO_ACK, RIL_E_NETWORK_ERR,
      RIL_E_REQUEST_RATE_LIMITED, RIL_E_SIM_BUSY, RIL_E_SIM_FULL, RIL_E_NETWORK_REJECT,
      RIL_E_OPERATION_NOT_ALLOWED, RIL_E_EMPTY_RECORD, RIL_E_INVALID_SMS_FORMAT, RIL_E_ENCODING_ERR,
      RIL_E_INVALID_SMSC_ADDRESS, RIL_E_NO_SUCH_ENTRY, RIL_E_NETWORK_NOT_READY, RIL_E_NOT_PROVISIONED,
      RIL_E_NO_SUBSCRIPTION, RIL_E_NO_NETWORK_FOUND, RIL_E_DEVICE_IN_USE, RIL_E_ABORTED,
      RIL_E_INVALID_RESPONSE, RIL_E_OEM_ERROR_1, RIL_E_OEM_ERROR_2, RIL_E_OEM_ERROR_3, RIL_E_OEM_ERROR_4,
      RIL_E_OEM_ERROR_5, RIL_E_OEM_ERROR_6, RIL_E_OEM_ERROR_7, RIL_E_OEM_ERROR_8, RIL_E_OEM_ERROR_9,
      RIL_E_OEM_ERROR_10, RIL_E_OEM_ERROR_11, RIL_E_OEM_ERROR_12, RIL_E_OEM_ERROR_13, RIL_E_OEM_ERROR_14,
      RIL_E_OEM_ERROR_15, RIL_E_OEM_ERROR_16, RIL_E_OEM_ERROR_17, RIL_E_OEM_ERROR_18, RIL_E_OEM_ERROR_19,
      RIL_E_OEM_ERROR_20, RIL_E_OEM_ERROR_21, RIL_E_OEM_ERROR_22, RIL_E_OEM_ERROR_23, RIL_E_OEM_ERROR_24,
      RIL_E_OEM_ERROR_25]"
  by (simp add: RIL_Errno_def)

subsection \<open>The tables\<close>

text \<open>\<open>RIL_REQUEST_SET_CARRIER_INFO_IMSI_ENCRYPTION\<close> also documents an error
  \<open>MODEM_INTERNAL_FAILURE\<close>, which the interface does not have.\<close>

definition ril_requests_1 :: "message list" where
  "ril_requests_1 =
    [Message ''RIL_REQUEST_GET_SIM_STATUS'' 1 [Null] [Struct ''RIL_CardStatus_v6'']
       (Errors [RIL_E_SUCCESS, RIL_E_RADIO_NOT_AVAILABLE, RIL_E_INTERNAL_ERR, RIL_E_NO_MEMORY, RIL_E_NO_RESOURCES,
         RIL_E_CANCELLED, RIL_E_REQUEST_NOT_SUPPORTED]),
     Message ''RIL_REQUEST_ENTER_SIM_PIN'' 2 [Strings] [Ints]
       (Errors [RIL_E_SUCCESS, RIL_E_RADIO_NOT_AVAILABLE, RIL_E_PASSWORD_INCORRECT, RIL_E_INTERNAL_ERR,
         RIL_E_NO_MEMORY, RIL_E_NO_RESOURCES, RIL_E_CANCELLED, RIL_E_INVALID_ARGUMENTS, RIL_E_INVALID_SIM_STATE,
         RIL_E_REQUEST_NOT_SUPPORTED]),
     Message ''RIL_REQUEST_ENTER_SIM_PUK'' 3 [Strings] [Ints]
       (Errors [RIL_E_SUCCESS, RIL_E_RADIO_NOT_AVAILABLE, RIL_E_PASSWORD_INCORRECT, RIL_E_INTERNAL_ERR,
         RIL_E_NO_MEMORY, RIL_E_NO_RESOURCES, RIL_E_CANCELLED, RIL_E_INVALID_ARGUMENTS, RIL_E_INVALID_SIM_STATE,
         RIL_E_REQUEST_NOT_SUPPORTED]),
     Message ''RIL_REQUEST_ENTER_SIM_PIN2'' 4 [Strings] [Ints]
       (Errors [RIL_E_SUCCESS, RIL_E_RADIO_NOT_AVAILABLE, RIL_E_PASSWORD_INCORRECT, RIL_E_INTERNAL_ERR,
         RIL_E_NO_MEMORY, RIL_E_NO_RESOURCES, RIL_E_CANCELLED, RIL_E_INVALID_ARGUMENTS, RIL_E_INVALID_SIM_STATE,
         RIL_E_REQUEST_NOT_SUPPORTED]),
     Message ''RIL_REQUEST_ENTER_SIM_PUK2'' 5 [Strings] [Ints]
       (Errors [RIL_E_SUCCESS, RIL_E_RADIO_NOT_AVAILABLE, RIL_E_PASSWORD_INCORRECT, RIL_E_INTERNAL_ERR,
         RIL_E_NO_MEMORY, RIL_E_NO_RESOURCES, RIL_E_CANCELLED, RIL_E_INVALID_ARGUMENTS, RIL_E_INVALID_SIM_STATE,
         RIL_E_REQUEST_NOT_SUPPORTED])]"

definition ril_requests_6 :: "message list" where
  "ril_requests_6 =
    [Message ''RIL_REQUEST_CHANGE_SIM_PIN'' 6 [Strings] [Ints]
       (Errors [RIL_E_SUCCESS, RIL_E_RADIO_NOT_AVAILABLE, RIL_E_PASSWORD_INCORRECT, RIL_E_INTERNAL_ERR,
         RIL_E_NO_MEMORY, RIL_E_NO_RESOURCES, RIL_E_CANCELLED, RIL_E_INVALID_ARGUMENTS, RIL_E_INVALID_SIM_STATE,
         RIL_E_REQUEST_NOT_SUPPORTED]),
     Message ''RIL_REQUEST_CHANGE_SIM_PIN2'' 7 [Strings] [Ints]
       (Errors [RIL_E_SUCCESS, RIL_E_RADIO_NOT_AVAILABLE, RIL_E_PASSWORD_INCORRECT, RIL_E_INTERNAL_ERR,
         RIL_E_NO_MEMORY, RIL_E_NO_RESOURCES, RIL_E_CANCELLED, RIL_E_INVALID_ARGUMENTS, RIL_E_INVALID_SIM_STATE,
         RIL_E_REQUEST_NOT_SUPPORTED]),
     Message ''RIL_REQUEST_ENTER_NETWORK_DEPERSONALIZATION'' 8 [Strings] [Ints]
       (Errors [RIL_E_SUCCESS, RIL_E_RADIO_NOT_AVAILABLE, RIL_E_PASSWORD_INCORRECT, RIL_E_INTERNAL_ERR,
         RIL_E_NO_MEMORY, RIL_E_NO_RESOURCES, RIL_E_CANCELLED, RIL_E_REQUEST_NOT_SUPPORTED]),
     Message ''RIL_REQUEST_GET_CURRENT_CALLS'' 9 [Null] [Structs ''RIL_Call'']
       (Errors [RIL_E_SUCCESS, RIL_E_RADIO_NOT_AVAILABLE, RIL_E_NO_MEMORY, RIL_E_INTERNAL_ERR, RIL_E_NO_RESOURCES,
         RIL_E_CANCELLED, RIL_E_REQUEST_NOT_SUPPORTED]),
     Message ''RIL_REQUEST_DIAL'' 10 [Struct ''RIL_Dial''] [Null]
       (Errors [RIL_E_SUCCESS, RIL_E_RADIO_NOT_AVAILABLE, RIL_E_DIAL_MODIFIED_TO_USSD, RIL_E_DIAL_MODIFIED_TO_SS,
         RIL_E_DIAL_MODIFIED_TO_DIAL, RIL_E_INVALID_ARGUMENTS, RIL_E_NO_MEMORY, RIL_E_INVALID_STATE,
         RIL_E_NO_RESOURCES, RIL_E_INTERNAL_ERR, RIL_E_FDN_CHECK_FAILURE, RIL_E_MODEM_ERR, RIL_E_NO_SUBSCRIPTION,
         RIL_E_NO_NETWORK_FOUND, RIL_E_INVALID_CALL_ID, RIL_E_DEVICE_IN_USE, RIL_E_OPERATION_NOT_ALLOWED,
         RIL_E_ABORTED, RIL_E_CANCELLED, RIL_E_REQUEST_NOT_SUPPORTED])]"

definition ril_requests_11 :: "message list" where
  "ril_requests_11 =
    [Message ''RIL_REQUEST_GET_IMSI'' 11 [Strings] [String]
       (Errors [RIL_E_SUCCESS, RIL_E_RADIO_NOT_AVAILABLE, RIL_E_INTERNAL_ERR, RIL_E_NO_MEMORY, RIL_E_NO_RESOURCES,
         RIL_E_CANCELLED, RIL_E_INVALID_SIM_STATE, RIL_E_REQUEST_NOT_SUPPORTED]),
     Message ''RIL_REQUEST_HANGUP'' 12 [Ints] [Null]
       (Errors [RIL_E_SUCCESS, RIL_E_RADIO_NOT_AVAILABLE, RIL_E_INVALID_ARGUMENTS, RIL_E_NO_MEMORY,
         RIL_E_INVALID_STATE, RIL_E_MODEM_ERR, RIL_E_INTERNAL_ERR, RIL_E_INVALID_CALL_ID, RIL_E_NO_RESOURCES,
         RIL_E_CANCELLED, RIL_E_REQUEST_NOT_SUPPORTED]),
     Message ''RIL_REQUEST_HANGUP_WAITING_OR_BACKGROUND'' 13 [Null] [Null]
       (Errors [RIL_E_SUCCESS, RIL_E_RADIO_NOT_AVAILABLE, RIL_E_INVALID_STATE, RIL_E_NO_MEMORY, RIL_E_MODEM_ERR,
         RIL_E_INTERNAL_ERR, RIL_E_INVALID_CALL_ID, RIL_E_NO_RESOURCES, RIL_E_OPERATION_NOT_ALLOWED,
         RIL_E_INVALID_ARGUMENTS, RIL_E_CANCELLED, RIL_E_REQUEST_NOT_SUPPORTED]),
     Message ''RIL_REQUEST_HANGUP_FOREGROUND_RESUME_BACKGROUND'' 14 [Null] [Null]
       (Errors [RIL_E_SUCCESS, RIL_E_RADIO_NOT_AVAILABLE, RIL_E_INVALID_STATE, RIL_E_NO_MEMORY, RIL_E_MODEM_ERR,
         RIL_E_INTERNAL_ERR, RIL_E_INVALID_CALL_ID, RIL_E_OPERATION_NOT_ALLOWED, RIL_E_INVALID_ARGUMENTS,
         RIL_E_NO_RESOURCES, RIL_E_CANCELLED, RIL_E_REQUEST_NOT_SUPPORTED])]"

definition ril_requests_15 :: "message list" where
  "ril_requests_15 =
    [Message ''RIL_REQUEST_SWITCH_WAITING_OR_HOLDING_AND_ACTIVE'' 15 [Null] [Null]
       (Errors [RIL_E_SUCCESS, RIL_E_RADIO_NOT_AVAILABLE, RIL_E_INVALID_STATE, RIL_E_NO_MEMORY, RIL_E_MODEM_ERR,
         RIL_E_INTERNAL_ERR, RIL_E_INVALID_ARGUMENTS, RIL_E_INVALID_CALL_ID, RIL_E_OPERATION_NOT_ALLOWED,
         RIL_E_NO_RESOURCES, RIL_E_CANCELLED, RIL_E_REQUEST_NOT_SUPPORTED]),
     Message ''RIL_REQUEST_SWITCH_HOLDING_AND_ACTIVE'' 15 [Null] [Null]
       (Errors [RIL_E_SUCCESS, RIL_E_RADIO_NOT_AVAILABLE, RIL_E_INVALID_STATE, RIL_E_NO_MEMORY, RIL_E_MODEM_ERR,
         RIL_E_INTERNAL_ERR, RIL_E_INVALID_ARGUMENTS, RIL_E_INVALID_CALL_ID, RIL_E_OPERATION_NOT_ALLOWED,
         RIL_E_NO_RESOURCES, RIL_E_CANCELLED, RIL_E_REQUEST_NOT_SUPPORTED]),
     Message ''RIL_REQUEST_CONFERENCE'' 16 [Null] [Null]
       (Errors [RIL_E_SUCCESS, RIL_E_RADIO_NOT_AVAILABLE, RIL_E_NO_MEMORY, RIL_E_MODEM_ERR, RIL_E_INTERNAL_ERR,
         RIL_E_INVALID_STATE, RIL_E_INVALID_CALL_ID, RIL_E_INVALID_ARGUMENTS, RIL_E_OPERATION_NOT_ALLOWED,
         RIL_E_NO_RESOURCES, RIL_E_CANCELLED, RIL_E_REQUEST_NOT_SUPPORTED]),
     Message ''RIL_REQUEST_UDUB'' 17 [Null] [Null]
       (Errors [RIL_E_SUCCESS, RIL_E_RADIO_NOT_AVAILABLE, RIL_E_INVALID_STATE, RIL_E_NO_RESOURCES, RIL_E_NO_MEMORY,
         RIL_E_MODEM_ERR, RIL_E_INTERNAL_ERR, RIL_E_INVALID_CALL_ID, RIL_E_OPERATION_NOT_ALLOWED,
         RIL_E_INVALID_ARGUMENTS, RIL_E_CANCELLED, RIL_E_REQUEST_NOT_SUPPORTED]),
     Message ''RIL_REQUEST_LAST_CALL_FAIL_CAUSE'' 18 [Null] [Struct ''RIL_LastCallFailCauseInfo'']
       (Errors [RIL_E_SUCCESS, RIL_E_RADIO_NOT_AVAILABLE, RIL_E_NO_MEMORY, RIL_E_INTERNAL_ERR, RIL_E_NO_RESOURCES,
         RIL_E_CANCELLED, RIL_E_REQUEST_NOT_SUPPORTED])]"

definition ril_requests_19 :: "message list" where
  "ril_requests_19 =
    [Message ''RIL_REQUEST_SIGNAL_STRENGTH'' 19 [Null] [Struct ''RIL_SignalStrength'']
       (Errors [RIL_E_SUCCESS, RIL_E_RADIO_NOT_AVAILABLE, RIL_E_NO_MEMORY, RIL_E_INTERNAL_ERR, RIL_E_SYSTEM_ERR,
         RIL_E_MODEM_ERR, RIL_E_NOT_PROVISIONED, RIL_E_REQUEST_NOT_SUPPORTED, RIL_E_NO_RESOURCES, RIL_E_CANCELLED]),
     Message ''RIL_REQUEST_VOICE_REGISTRATION_STATE'' 20 [Null] [Struct ''RIL_VoiceRegistrationStateResponse'']
       (Errors [RIL_E_SUCCESS, RIL_E_RADIO_NOT_AVAILABLE, RIL_E_INTERNAL_ERR, RIL_E_NO_MEMORY, RIL_E_NO_RESOURCES,
         RIL_E_CANCELLED, RIL_E_REQUEST_NOT_SUPPORTED]),
     Message ''RIL_REQUEST_DATA_REGISTRATION_STATE'' 21 [Null] [Struct ''RIL_DataRegistrationStateResponse'']
       (Errors [RIL_E_SUCCESS, RIL_E_RADIO_NOT_AVAILABLE, RIL_E_NO_MEMORY, RIL_E_INTERNAL_ERR, RIL_E_SYSTEM_ERR,
         RIL_E_MODEM_ERR, RIL_E_NOT_PROVISIONED, RIL_E_REQUEST_NOT_SUPPORTED, RIL_E_NO_RESOURCES, RIL_E_CANCELLED]),
     Message ''RIL_REQUEST_OPERATOR'' 22 [Null] [Strings]
       (Errors [RIL_E_SUCCESS, RIL_E_RADIO_NOT_AVAILABLE, RIL_E_NO_MEMORY, RIL_E_INTERNAL_ERR, RIL_E_SYSTEM_ERR,
         RIL_E_REQUEST_NOT_SUPPORTED, RIL_E_NO_RESOURCES, RIL_E_CANCELLED]),
     Message ''RIL_REQUEST_RADIO_POWER'' 23 [Ints] [Null]
       (Errors [RIL_E_SUCCESS, RIL_E_RADIO_NOT_AVAILABLE, RIL_E_OPERATION_NOT_ALLOWED, RIL_E_INVALID_STATE,
         RIL_E_NO_MEMORY, RIL_E_INTERNAL_ERR, RIL_E_SYSTEM_ERR, RIL_E_INVALID_ARGUMENTS, RIL_E_MODEM_ERR,
         RIL_E_DEVICE_IN_USE, RIL_E_INVALID_MODEM_STATE, RIL_E_REQUEST_NOT_SUPPORTED, RIL_E_NO_RESOURCES,
         RIL_E_CANCELLED])]"

definition ril_requests_24 :: "message list" where
  "ril_requests_24 =
    [Message ''RIL_REQUEST_DTMF'' 24 [String] [Null]
       (Errors [RIL_E_SUCCESS, RIL_E_RADIO_NOT_AVAILABLE, RIL_E_INVALID_ARGUMENTS, RIL_E_NO_RESOURCES,
         RIL_E_NO_MEMORY, RIL_E_MODEM_ERR, RIL_E_INTERNAL_ERR, RIL_E_INVALID_CALL_ID, RIL_E_CANCELLED,
         RIL_E_INVALID_MODEM_STATE, RIL_E_REQUEST_NOT_SUPPORTED]),
     Message ''RIL_REQUEST_SEND_SMS'' 25 [Strings] [Struct ''RIL_SMS_Response'']
       (Errors [RIL_E_SUCCESS, RIL_E_RADIO_NOT_AVAILABLE, RIL_E_SMS_SEND_FAIL_RETRY, RIL_E_FDN_CHECK_FAILURE,
         RIL_E_NETWORK_REJECT, RIL_E_INVALID_STATE, RIL_E_INVALID_ARGUMENTS, RIL_E_NO_MEMORY,
         RIL_E_REQUEST_RATE_LIMITED, RIL_E_INVALID_SMS_FORMAT, RIL_E_SYSTEM_ERR, RIL_E_ENCODING_ERR,
         RIL_E_INVALID_SMSC_ADDRESS, RIL_E_MODEM_ERR, RIL_E_NETWORK_ERR, RIL_E_OPERATION_NOT_ALLOWED,
         RIL_E_NO_RESOURCES, RIL_E_CANCELLED, RIL_E_REQUEST_NOT_SUPPORTED]),
     Message ''RIL_REQUEST_SEND_SMS_EXPECT_MORE'' 26 [Strings] [Struct ''RIL_SMS_Response'']
       (Errors [RIL_E_SUCCESS, RIL_E_RADIO_NOT_AVAILABLE, RIL_E_SMS_SEND_FAIL_RETRY, RIL_E_NETWORK_REJECT,
         RIL_E_INVALID_STATE, RIL_E_INVALID_ARGUMENTS, RIL_E_NO_MEMORY, RIL_E_INVALID_SMS_FORMAT, RIL_E_SYSTEM_ERR,
         RIL_E_REQUEST_RATE_LIMITED, RIL_E_FDN_CHECK_FAILURE, RIL_E_MODEM_ERR, RIL_E_NETWORK_ERR,
         RIL_E_ENCODING_ERR, RIL_E_INVALID_SMSC_ADDRESS, RIL_E_OPERATION_NOT_ALLOWED, RIL_E_INTERNAL_ERR,
         RIL_E_NO_RESOURCES, RIL_E_CANCELLED, RIL_E_REQUEST_NOT_SUPPORTED])]"

definition ril_requests_27 :: "message list" where
  "ril_requests_27 =
    [Message ''RIL_REQUEST_SETUP_DATA_CALL'' 27 [Strings] [Struct ''RIL_Data_Call_Response_v11'']
       (Errors [RIL_E_SUCCESS, RIL_E_RADIO_NOT_AVAILABLE, RIL_E_OP_NOT_ALLOWED_BEFORE_REG_TO_NW,
         RIL_E_OP_NOT_ALLOWED_DURING_VOICE_CALL, RIL_E_REQUEST_NOT_SUPPORTED, RIL_E_INVALID_ARGUMENTS,
         RIL_E_INTERNAL_ERR, RIL_E_NO_MEMORY, RIL_E_NO_RESOURCES, RIL_E_CANCELLED]),
     Message ''RIL_REQUEST_SIM_IO'' 28 [Struct ''RIL_SIM_IO_v6''] [Struct ''RIL_SIM_IO_Response'']
       (Errors [RIL_E_SUCCESS, RIL_E_RADIO_NOT_AVAILABLE, RIL_E_SIM_PIN2, RIL_E_SIM_PUK2, RIL_E_INVALID_SIM_STATE,
         RIL_E_SIM_ERR, RIL_E_REQUEST_NOT_SUPPORTED])]"

definition ril_requests_29 :: "message list" where
  "ril_requests_29 =
    [Message ''RIL_REQUEST_SEND_USSD'' 29 [String] [Null]
       (Errors [RIL_E_SUCCESS, RIL_E_RADIO_NOT_AVAILABLE, RIL_E_FDN_CHECK_FAILURE, RIL_E_USSD_MODIFIED_TO_DIAL,
         RIL_E_USSD_MODIFIED_TO_SS, RIL_E_USSD_MODIFIED_TO_USSD, RIL_E_SIM_BUSY, RIL_E_OPERATION_NOT_ALLOWED,
         RIL_E_INVALID_ARGUMENTS, RIL_E_NO_MEMORY, RIL_E_MODEM_ERR, RIL_E_INTERNAL_ERR, RIL_E_ABORTED,
         RIL_E_SYSTEM_ERR, RIL_E_INVALID_STATE, RIL_E_NO_RESOURCES, RIL_E_CANCELLED, RIL_E_REQUEST_NOT_SUPPORTED]),
     Message ''RIL_REQUEST_CANCEL_USSD'' 30 [Null] [Null]
       (Errors [RIL_E_SUCCESS, RIL_E_RADIO_NOT_AVAILABLE, RIL_E_SIM_BUSY, RIL_E_OPERATION_NOT_ALLOWED,
         RIL_E_MODEM_ERR, RIL_E_INTERNAL_ERR, RIL_E_NO_MEMORY, RIL_E_INVALID_STATE, RIL_E_NO_RESOURCES,
         RIL_E_CANCELLED, RIL_E_REQUEST_NOT_SUPPORTED]),
     Message ''RIL_REQUEST_GET_CLIR'' 31 [Null] [Ints]
       (Errors [RIL_E_SUCCESS, RIL_E_RADIO_NOT_AVAILABLE, RIL_E_SS_MODIFIED_TO_DIAL, RIL_E_SS_MODIFIED_TO_USSD,
         RIL_E_SS_MODIFIED_TO_SS, RIL_E_NO_MEMORY, RIL_E_MODEM_ERR, RIL_E_INTERNAL_ERR, RIL_E_FDN_CHECK_FAILURE,
         RIL_E_SYSTEM_ERR, RIL_E_NO_RESOURCES, RIL_E_CANCELLED, RIL_E_REQUEST_NOT_SUPPORTED]),
     Message ''RIL_REQUEST_SET_CLIR'' 32 [Ints] [Null]
       (Errors [RIL_E_SUCCESS, RIL_E_RADIO_NOT_AVAILABLE, RIL_E_SS_MODIFIED_TO_DIAL, RIL_E_SS_MODIFIED_TO_USSD,
         RIL_E_SS_MODIFIED_TO_SS, RIL_E_INVALID_ARGUMENTS, RIL_E_SYSTEM_ERR, RIL_E_INTERNAL_ERR, RIL_E_NO_MEMORY,
         RIL_E_NO_RESOURCES, RIL_E_CANCELLED, RIL_E_REQUEST_NOT_SUPPORTED])]"

definition ril_requests_33 :: "message list" where
  "ril_requests_33 =
    [Message ''RIL_REQUEST_QUERY_CALL_FORWARD_STATUS'' 33 [Struct ''RIL_CallForwardInfo''] [Structs ''RIL_CallForwardInfo'']
       (Errors [RIL_E_SUCCESS, RIL_E_RADIO_NOT_AVAILABLE, RIL_E_SS_MODIFIED_TO_DIAL, RIL_E_SS_MODIFIED_TO_USSD,
         RIL_E_SS_MODIFIED_TO_SS, RIL_E_INVALID_ARGUMENTS, RIL_E_NO_MEMORY, RIL_E_SYSTEM_ERR, RIL_E_MODEM_ERR,
         RIL_E_INTERNAL_ERR, RIL_E_FDN_CHECK_FAILURE, RIL_E_NO_RESOURCES, RIL_E_CANCELLED,
         RIL_E_REQUEST_NOT_SUPPORTED]),
     Message ''RIL_REQUEST_SET_CALL_FORWARD'' 34 [Struct ''RIL_CallForwardInfo''] [Null]
       (Errors [RIL_E_SUCCESS, RIL_E_RADIO_NOT_AVAILABLE, RIL_E_SS_MODIFIED_TO_DIAL, RIL_E_SS_MODIFIED_TO_USSD,
         RIL_E_SS_MODIFIED_TO_SS, RIL_E_INVALID_ARGUMENTS, RIL_E_NO_MEMORY, RIL_E_SYSTEM_ERR, RIL_E_MODEM_ERR,
         RIL_E_INTERNAL_ERR, RIL_E_INVALID_STATE, RIL_E_FDN_CHECK_FAILURE, RIL_E_NO_RESOURCES, RIL_E_CANCELLED,
         RIL_E_REQUEST_NOT_SUPPORTED]),
     Message ''RIL_REQUEST_QUERY_CALL_WAITING'' 35 [Ints] [Ints]
       (Errors [RIL_E_SUCCESS, RIL_E_RADIO_NOT_AVAILABLE, RIL_E_SS_MODIFIED_TO_DIAL, RIL_E_SS_MODIFIED_TO_USSD,
         RIL_E_SS_MODIFIED_TO_SS, RIL_E_NO_MEMORY, RIL_E_MODEM_ERR, RIL_E_INTERNAL_ERR, RIL_E_FDN_CHECK_FAILURE,
         RIL_E_INVALID_ARGUMENTS, RIL_E_NO_RESOURCES, RIL_E_CANCELLED, RIL_E_REQUEST_NOT_SUPPORTED]),
     Message ''RIL_REQUEST_SET_CALL_WAITING'' 36 [Ints] [Null]
       (Errors [RIL_E_SUCCESS, RIL_E_RADIO_NOT_AVAILABLE, RIL_E_SS_MODIFIED_TO_DIAL, RIL_E_SS_MODIFIED_TO_USSD,
         RIL_E_SS_MODIFIED_TO_SS, RIL_E_INVALID_ARGUMENTS, RIL_E_NO_MEMORY, RIL_E_MODEM_ERR, RIL_E_INTERNAL_ERR,
         RIL_E_INVALID_STATE, RIL_E_FDN_CHECK_FAILURE, RIL_E_NO_RESOURCES, RIL_E_CANCELLED,
         RIL_E_REQUEST_NOT_SUPPORTED])]"

definition ril_requests_37 :: "message list" where
  "ril_requests_37 =
    [Message ''RIL_REQUEST_SMS_ACKNOWLEDGE'' 37 [Ints] [Null]
       (Errors [RIL_E_SUCCESS, RIL_E_RADIO_NOT_AVAILABLE, RIL_E_INTERNAL_ERR, RIL_E_NO_MEMORY, RIL_E_NO_RESOURCES,
         RIL_E_CANCELLED, RIL_E_REQUEST_NOT_SUPPORTED]),
     Message ''RIL_REQUEST_GET_IMEI'' 38 [Null] [String]
       (Errors [RIL_E_SUCCESS, RIL_E_RADIO_NOT_AVAILABLE, RIL_E_NO_MEMORY, RIL_E_INTERNAL_ERR, RIL_E_SYSTEM_ERR,
         RIL_E_MODEM_ERR, RIL_E_NOT_PROVISIONED, RIL_E_REQUEST_NOT_SUPPORTED, RIL_E_NO_RESOURCES, RIL_E_CANCELLED]),
     Message ''RIL_REQUEST_GET_IMEISV'' 39 [Null] [String]
       (Errors [RIL_E_SUCCESS, RIL_E_RADIO_NOT_AVAILABLE, RIL_E_NO_MEMORY, RIL_E_INTERNAL_ERR, RIL_E_SYSTEM_ERR,
         RIL_E_MODEM_ERR, RIL_E_NOT_PROVISIONED, RIL_E_REQUEST_NOT_SUPPORTED, RIL_E_NO_RESOURCES, RIL_E_CANCELLED]),
     Message ''RIL_REQUEST_ANSWER'' 40 [Null] [Null]
       (Errors [RIL_E_SUCCESS, RIL_E_RADIO_NOT_AVAILABLE, RIL_E_INVALID_STATE, RIL_E_NO_MEMORY, RIL_E_SYSTEM_ERR,
         RIL_E_MODEM_ERR, RIL_E_INTERNAL_ERR, RIL_E_INVALID_CALL_ID, RIL_E_NO_RESOURCES, RIL_E_CANCELLED,
         RIL_E_REQUEST_NOT_SUPPORTED]),
     Message ''RIL_REQUEST_DEACTIVATE_DATA_CALL'' 41 [Strings] [Null]
       (Errors [RIL_E_SUCCESS, RIL_E_RADIO_NOT_AVAILABLE, RIL_E_INVALID_CALL_ID, RIL_E_INVALID_STATE,
         RIL_E_INVALID_ARGUMENTS, RIL_E_REQUEST_NOT_SUPPORTED, RIL_E_INTERNAL_ERR, RIL_E_NO_MEMORY,
         RIL_E_NO_RESOURCES, RIL_E_CANCELLED])]"

definition ril_requests_42 :: "message list" where
  "ril_requests_42 =
    [Message ''RIL_REQUEST_QUERY_FACILITY_LOCK'' 42 [Strings] [Ints]
       (Errors [RIL_E_SUCCESS, RIL_E_RADIO_NOT_AVAILABLE, RIL_E_SS_MODIFIED_TO_DIAL, RIL_E_SS_MODIFIED_TO_USSD,
         RIL_E_SS_MODIFIED_TO_SS, RIL_E_INVALID_ARGUMENTS, RIL_E_NO_MEMORY, RIL_E_INTERNAL_ERR, RIL_E_SYSTEM_ERR,
         RIL_E_MODEM_ERR, RIL_E_FDN_CHECK_FAILURE, RIL_E_NO_RESOURCES, RIL_E_CANCELLED,
         RIL_E_REQUEST_NOT_SUPPORTED]),
     Message ''RIL_REQUEST_SET_FACILITY_LOCK'' 43 [Strings] [Ints]
       (Errors [RIL_E_SUCCESS, RIL_E_RADIO_NOT_AVAILABLE, RIL_E_SS_MODIFIED_TO_DIAL, RIL_E_SS_MODIFIED_TO_USSD,
         RIL_E_SS_MODIFIED_TO_SS, RIL_E_INVALID_ARGUMENTS, RIL_E_INTERNAL_ERR, RIL_E_NO_MEMORY, RIL_E_MODEM_ERR,
         RIL_E_INVALID_STATE, RIL_E_FDN_CHECK_FAILURE, RIL_E_NO_RESOURCES, RIL_E_CANCELLED,
         RIL_E_REQUEST_NOT_SUPPORTED]),
     Message ''RIL_REQUEST_CHANGE_BARRING_PASSWORD'' 44 [Strings] [Null]
       (Errors [RIL_E_SUCCESS, RIL_E_RADIO_NOT_AVAILABLE, RIL_E_SS_MODIFIED_TO_DIAL, RIL_E_SS_MODIFIED_TO_USSD,
         RIL_E_SS_MODIFIED_TO_SS, RIL_E_INVALID_ARGUMENTS, RIL_E_NO_MEMORY, RIL_E_MODEM_ERR, RIL_E_INTERNAL_ERR,
         RIL_E_SYSTEM_ERR, RIL_E_FDN_CHECK_FAILURE, RIL_E_NO_RESOURCES, RIL_E_CANCELLED,
         RIL_E_REQUEST_NOT_SUPPORTED]),
     Message ''RIL_REQUEST_QUERY_NETWORK_SELECTION_MODE'' 45 [Null] [Ints]
       (Errors [RIL_E_SUCCESS, RIL_E_RADIO_NOT_AVAILABLE, RIL_E_NO_MEMORY, RIL_E_INTERNAL_ERR, RIL_E_SYSTEM_ERR,
         RIL_E_INVALID_ARGUMENTS, RIL_E_MODEM_ERR, RIL_E_REQUEST_NOT_SUPPORTED, RIL_E_NO_RESOURCES,
         RIL_E_CANCELLED])]"

definition ril_requests_46 :: "message list" where
  "ril_requests_46 =
    [Message ''RIL_REQUEST_SET_NETWORK_SELECTION_AUTOMATIC'' 46 [Null] [Null]
       (Errors [RIL_E_SUCCESS, RIL_E_RADIO_NOT_AVAILABLE, RIL_E_ILLEGAL_SIM_OR_ME, RIL_E_OPERATION_NOT_ALLOWED,
         RIL_E_NO_MEMORY, RIL_E_INTERNAL_ERR, RIL_E_SYSTEM_ERR, RIL_E_INVALID_ARGUMENTS, RIL_E_MODEM_ERR,
         RIL_E_REQUEST_NOT_SUPPORTED, RIL_E_NO_RESOURCES, RIL_E_CANCELLED]),
     Message ''RIL_REQUEST_SET_NETWORK_SELECTION_MANUAL'' 47 [String] [Null]
       (Errors [RIL_E_SUCCESS, RIL_E_RADIO_NOT_AVAILABLE, RIL_E_ILLEGAL_SIM_OR_ME, RIL_E_OPERATION_NOT_ALLOWED,
         RIL_E_INVALID_STATE, RIL_E_NO_MEMORY, RIL_E_INTERNAL_ERR, RIL_E_SYSTEM_ERR, RIL_E_INVALID_ARGUMENTS,
         RIL_E_MODEM_ERR, RIL_E_REQUEST_NOT_SUPPORTED, RIL_E_NO_RESOURCES, RIL_E_CANCELLED]),
     Message ''RIL_REQUEST_QUERY_AVAILABLE_NETWORKS'' 48 [Null] [Strings]
       (Errors [RIL_E_SUCCESS, RIL_E_RADIO_NOT_AVAILABLE, RIL_E_OPERATION_NOT_ALLOWED, RIL_E_ABORTED,
         RIL_E_DEVICE_IN_USE, RIL_E_INTERNAL_ERR, RIL_E_NO_MEMORY, RIL_E_MODEM_ERR, RIL_E_REQUEST_NOT_SUPPORTED,
         RIL_E_CANCELLED, RIL_E_NO_RESOURCES]),
     Message ''RIL_REQUEST_DTMF_START'' 49 [String] [Null]
       (Errors [RIL_E_SUCCESS, RIL_E_RADIO_NOT_AVAILABLE, RIL_E_INVALID_ARGUMENTS, RIL_E_NO_RESOURCES,
         RIL_E_NO_MEMORY, RIL_E_SYSTEM_ERR, RIL_E_MODEM_ERR, RIL_E_INTERNAL_ERR, RIL_E_INVALID_CALL_ID,
         RIL_E_CANCELLED, RIL_E_INVALID_MODEM_STATE, RIL_E_REQUEST_NOT_SUPPORTED])]"

definition ril_requests_50 :: "message list" where
  "ril_requests_50 =
    [Message ''RIL_REQUEST_DTMF_STOP'' 50 [Null] [Null]
       (Errors [RIL_E_SUCCESS, RIL_E_RADIO_NOT_AVAILABLE, RIL_E_OPERATION_NOT_ALLOWED, RIL_E_NO_RESOURCES,
         RIL_E_NO_MEMORY, RIL_E_INVALID_ARGUMENTS, RIL_E_SYSTEM_ERR, RIL_E_MODEM_ERR, RIL_E_INTERNAL_ERR,
         RIL_E_INVALID_CALL_ID, RIL_E_CANCELLED, RIL_E_INVALID_MODEM_STATE, RIL_E_REQUEST_NOT_SUPPORTED]),
     Message ''RIL_REQUEST_BASEBAND_VERSION'' 51 [Null] [String]
       (Errors [RIL_E_SUCCESS, RIL_E_RADIO_NOT_AVAILABLE, RIL_E_EMPTY_RECORD, RIL_E_NO_MEMORY, RIL_E_INTERNAL_ERR,
         RIL_E_SYSTEM_ERR, RIL_E_MODEM_ERR, RIL_E_NOT_PROVISIONED, RIL_E_REQUEST_NOT_SUPPORTED, RIL_E_NO_RESOURCES,
         RIL_E_CANCELLED]),
     Message ''RIL_REQUEST_SEPARATE_CONNECTION'' 52 [Ints] [Null]
       (Errors [RIL_E_SUCCESS, RIL_E_RADIO_NOT_AVAILABLE, RIL_E_INVALID_ARGUMENTS, RIL_E_INVALID_STATE,
         RIL_E_NO_RESOURCES, RIL_E_NO_MEMORY, RIL_E_SYSTEM_ERR, RIL_E_MODEM_ERR, RIL_E_INTERNAL_ERR,
         RIL_E_INVALID_CALL_ID, RIL_E_OPERATION_NOT_ALLOWED, RIL_E_CANCELLED, RIL_E_REQUEST_NOT_SUPPORTED]),
     Message ''RIL_REQUEST_SET_MUTE'' 53 [Ints] [Null]
       (Errors [RIL_E_SUCCESS, RIL_E_RADIO_NOT_AVAILABLE, RIL_E_INVALID_ARGUMENTS, RIL_E_NO_MEMORY,
         RIL_E_REQUEST_RATE_LIMITED, RIL_E_INTERNAL_ERR, RIL_E_NO_RESOURCES, RIL_E_CANCELLED,
         RIL_E_REQUEST_NOT_SUPPORTED]),
     Message ''RIL_REQUEST_GET_MUTE'' 54 [Null] [Ints]
       (Errors [RIL_E_SUCCESS, RIL_E_RADIO_NOT_AVAILABLE, RIL_E_SS_MODIFIED_TO_DIAL, RIL_E_SS_MODIFIED_TO_USSD,
         RIL_E_SS_MODIFIED_TO_SS, RIL_E_NO_MEMORY, RIL_E_REQUEST_RATE_LIMITED, RIL_E_INTERNAL_ERR,
         RIL_E_NO_RESOURCES, RIL_E_CANCELLED, RIL_E_REQUEST_NOT_SUPPORTED])]"

definition ril_requests_55 :: "message list" where
  "ril_requests_55 =
    [Message ''RIL_REQUEST_QUERY_CLIP'' 55 [Null] [Ints]
       (Errors [RIL_E_SUCCESS, RIL_E_RADIO_NOT_AVAILABLE, RIL_E_NO_MEMORY, RIL_E_SYSTEM_ERR, RIL_E_MODEM_ERR,
         RIL_E_INTERNAL_ERR, RIL_E_FDN_CHECK_FAILURE, RIL_E_NO_RESOURCES, RIL_E_CANCELLED,
         RIL_E_REQUEST_NOT_SUPPORTED]),
     Message ''RIL_REQUEST_LAST_DATA_CALL_FAIL_CAUSE'' 56 [Null] [Ints]
       (Errors [RIL_E_SUCCESS, RIL_E_RADIO_NOT_AVAILABLE, RIL_E_INTERNAL_ERR, RIL_E_NO_MEMORY, RIL_E_NO_RESOURCES,
         RIL_E_CANCELLED, RIL_E_REQUEST_NOT_SUPPORTED]),
     Message ''RIL_REQUEST_DATA_CALL_LIST'' 57 [Null] [Structs ''RIL_Data_Call_Response_v6'']
       (Errors [RIL_E_SUCCESS, RIL_E_RADIO_NOT_AVAILABLE, RIL_E_INTERNAL_ERR, RIL_E_NO_MEMORY, RIL_E_NO_RESOURCES,
         RIL_E_CANCELLED, RIL_E_REQUEST_NOT_SUPPORTED]),
     Message ''RIL_REQUEST_RESET_RADIO'' 58 [Null] [Null]
       (Errors [RIL_E_SUCCESS, RIL_E_RADIO_NOT_AVAILABLE, RIL_E_REQUEST_NOT_SUPPORTED]),
     Message ''RIL_REQUEST_OEM_HOOK_RAW'' 59 [String] [String] Any_error]"

definition ril_requests_60 :: "message list" where
  "ril_requests_60 =
    [Message ''RIL_REQUEST_OEM_HOOK_STRINGS'' 60 [Strings] [Strings] Any_error,
     Message ''RIL_REQUEST_SCREEN_STATE'' 61 [Ints] [Null]
       (Errors [RIL_E_SUCCESS, RIL_E_NO_MEMORY, RIL_E_INTERNAL_ERR, RIL_E_SYSTEM_ERR, RIL_E_INVALID_ARGUMENTS,
         RIL_E_NO_RESOURCES, RIL_E_CANCELLED, RIL_E_REQUEST_NOT_SUPPORTED]),
     Message ''RIL_REQUEST_SET_SUPP_SVC_NOTIFICATION'' 62 [Ints] [Null]
       (Errors [RIL_E_SUCCESS, RIL_E_RADIO_NOT_AVAILABLE, RIL_E_SIM_BUSY, RIL_E_INVALID_ARGUMENTS, RIL_E_NO_MEMORY,
         RIL_E_SYSTEM_ERR, RIL_E_MODEM_ERR, RIL_E_INTERNAL_ERR, RIL_E_NO_RESOURCES, RIL_E_CANCELLED,
         RIL_E_REQUEST_NOT_SUPPORTED]),
     Message ''RIL_REQUEST_WRITE_SMS_TO_SIM'' 63 [Struct ''RIL_SMS_WriteArgs''] [Ints]
       (Errors [RIL_E_SUCCESS, RIL_E_SIM_FULL, RIL_E_INVALID_ARGUMENTS, RIL_E_INVALID_SMS_FORMAT,
         RIL_E_INTERNAL_ERR, RIL_E_MODEM_ERR, RIL_E_ENCODING_ERR, RIL_E_NO_MEMORY, RIL_E_NO_RESOURCES,
         RIL_E_INVALID_MODEM_STATE, RIL_E_OPERATION_NOT_ALLOWED, RIL_E_INVALID_SMSC_ADDRESS, RIL_E_CANCELLED,
         RIL_E_REQUEST_NOT_SUPPORTED]),
     Message ''RIL_REQUEST_DELETE_SMS_ON_SIM'' 64 [Ints] [Null]
       (Errors [RIL_E_SUCCESS, RIL_E_SIM_FULL, RIL_E_INVALID_ARGUMENTS, RIL_E_NO_MEMORY,
         RIL_E_REQUEST_RATE_LIMITED, RIL_E_SYSTEM_ERR, RIL_E_MODEM_ERR, RIL_E_NO_SUCH_ENTRY, RIL_E_INTERNAL_ERR,
         RIL_E_NO_RESOURCES, RIL_E_CANCELLED, RIL_E_INVALID_MODEM_STATE, RIL_E_REQUEST_NOT_SUPPORTED])]"

definition ril_requests_65 :: "message list" where
  "ril_requests_65 =
    [Message ''RIL_REQUEST_SET_BAND_MODE'' 65 [Ints] [Null]
       (Errors [RIL_E_SUCCESS, RIL_E_RADIO_NOT_AVAILABLE, RIL_E_OPERATION_NOT_ALLOWED, RIL_E_NO_MEMORY,
         RIL_E_INTERNAL_ERR, RIL_E_SYSTEM_ERR, RIL_E_INVALID_ARGUMENTS, RIL_E_MODEM_ERR,
         RIL_E_REQUEST_NOT_SUPPORTED, RIL_E_NO_RESOURCES, RIL_E_CANCELLED]),
     Message ''RIL_REQUEST_QUERY_AVAILABLE_BAND_MODE'' 66 [Null] [Ints]
       (Errors [RIL_E_SUCCESS, RIL_E_RADIO_NOT_AVAILABLE, RIL_E_NO_MEMORY, RIL_E_INTERNAL_ERR, RIL_E_SYSTEM_ERR,
         RIL_E_MODEM_ERR, RIL_E_REQUEST_NOT_SUPPORTED, RIL_E_NO_RESOURCES, RIL_E_CANCELLED]),
     Message ''RIL_REQUEST_STK_GET_PROFILE'' 67 [Null] [String]
       (Errors [RIL_E_SUCCESS, RIL_E_RADIO_NOT_AVAILABLE, RIL_E_INTERNAL_ERR, RIL_E_NO_MEMORY, RIL_E_NO_RESOURCES,
         RIL_E_CANCELLED, RIL_E_REQUEST_NOT_SUPPORTED]),
     Message ''RIL_REQUEST_STK_SET_PROFILE'' 68 [String] [Null]
       (Errors [RIL_E_SUCCESS, RIL_E_RADIO_NOT_AVAILABLE, RIL_E_INTERNAL_ERR, RIL_E_NO_MEMORY, RIL_E_NO_RESOURCES,
         RIL_E_CANCELLED, RIL_E_REQUEST_NOT_SUPPORTED]),
     Message ''RIL_REQUEST_STK_SEND_ENVELOPE_COMMAND'' 69 [String] [String]
       (Errors [RIL_E_SUCCESS, RIL_E_RADIO_NOT_AVAILABLE, RIL_E_SIM_BUSY, RIL_E_OPERATION_NOT_ALLOWED,
         RIL_E_INTERNAL_ERR, RIL_E_NO_MEMORY, RIL_E_NO_RESOURCES, RIL_E_CANCELLED, RIL_E_INVALID_ARGUMENTS,
         RIL_E_MODEM_ERR, RIL_E_REQUEST_NOT_SUPPORTED]),
     Message ''RIL_REQUEST_STK_SEND_TERMINAL_RESPONSE'' 70 [String] [Null]
       (Errors [RIL_E_SUCCESS, RIL_E_RADIO_NOT_AVAILABLE, RIL_E_OPERATION_NOT_ALLOWED, RIL_E_INTERNAL_ERR,
         RIL_E_NO_MEMORY, RIL_E_NO_RESOURCES, RIL_E_CANCELLED, RIL_E_INVALID_MODEM_STATE,
         RIL_E_REQUEST_NOT_SUPPORTED])]"

definition ril_requests_71 :: "message list" where
  "ril_requests_71 =
    [Message ''RIL_REQUEST_STK_HANDLE_CALL_SETUP_REQUESTED_FROM_SIM'' 71 [Ints] [Null]
       (Errors [RIL_E_SUCCESS, RIL_E_RADIO_NOT_AVAILABLE, RIL_E_OPERATION_NOT_ALLOWED, RIL_E_INTERNAL_ERR,
         RIL_E_NO_MEMORY, RIL_E_NO_RESOURCES, RIL_E_CANCELLED, RIL_E_REQUEST_NOT_SUPPORTED]),
     Message ''RIL_REQUEST_EXPLICIT_CALL_TRANSFER'' 72 [Null] [Null]
       (Errors [RIL_E_SUCCESS, RIL_E_RADIO_NOT_AVAILABLE, RIL_E_INVALID_STATE, RIL_E_NO_RESOURCES, RIL_E_NO_MEMORY,
         RIL_E_INVALID_ARGUMENTS, RIL_E_SYSTEM_ERR, RIL_E_MODEM_ERR, RIL_E_INTERNAL_ERR, RIL_E_INVALID_CALL_ID,
         RIL_E_OPERATION_NOT_ALLOWED, RIL_E_CANCELLED, RIL_E_REQUEST_NOT_SUPPORTED]),
     Message ''RIL_REQUEST_SET_PREFERRED_NETWORK_TYPE'' 73 [Ints] [Null]
       (Errors [RIL_E_SUCCESS, RIL_E_RADIO_NOT_AVAILABLE, RIL_E_OPERATION_NOT_ALLOWED, RIL_E_MODE_NOT_SUPPORTED,
         RIL_E_NO_MEMORY, RIL_E_INTERNAL_ERR, RIL_E_SYSTEM_ERR, RIL_E_INVALID_ARGUMENTS, RIL_E_MODEM_ERR,
         RIL_E_REQUEST_NOT_SUPPORTED, RIL_E_NO_RESOURCES, RIL_E_CANCELLED]),
     Message ''RIL_REQUEST_GET_PREFERRED_NETWORK_TYPE'' 74 [Null] [Ints]
       (Errors [RIL_E_SUCCESS, RIL_E_RADIO_NOT_AVAILABLE, RIL_E_NO_MEMORY, RIL_E_INTERNAL_ERR, RIL_E_SYSTEM_ERR,
         RIL_E_INVALID_ARGUMENTS, RIL_E_MODEM_ERR, RIL_E_REQUEST_NOT_SUPPORTED, RIL_E_NO_RESOURCES,
         RIL_E_CANCELLED]),
     Message ''RIL_REQUEST_GET_NEIGHBORING_CELL_IDS'' 75 [Null] [Structs ''RIL_NeighboringCell'']
       (Errors [RIL_E_SUCCESS, RIL_E_RADIO_NOT_AVAILABLE, RIL_E_NO_MEMORY, RIL_E_INTERNAL_ERR, RIL_E_SYSTEM_ERR,
         RIL_E_MODEM_ERR, RIL_E_NO_NETWORK_FOUND, RIL_E_REQUEST_NOT_SUPPORTED, RIL_E_NO_RESOURCES,
         RIL_E_CANCELLED])]"

definition ril_requests_76 :: "message list" where
  "ril_requests_76 =
    [Message ''RIL_REQUEST_SET_LOCATION_UPDATES'' 76 [Ints] [Null]
       (Errors [RIL_E_SUCCESS, RIL_E_RADIO_NOT_AVAILABLE, RIL_E_NO_MEMORY, RIL_E_INTERNAL_ERR, RIL_E_SYSTEM_ERR,
         RIL_E_INVALID_ARGUMENTS, RIL_E_MODEM_ERR, RIL_E_REQUEST_NOT_SUPPORTED, RIL_E_NO_RESOURCES,
         RIL_E_CANCELLED]),
     Message ''RIL_REQUEST_CDMA_SET_SUBSCRIPTION_SOURCE'' 77 [Ints] [Null]
       (Errors [RIL_E_SUCCESS, RIL_E_RADIO_NOT_AVAILABLE, RIL_E_SIM_ABSENT, RIL_E_SUBSCRIPTION_NOT_AVAILABLE,
         RIL_E_INTERNAL_ERR, RIL_E_NO_MEMORY, RIL_E_NO_RESOURCES, RIL_E_CANCELLED, RIL_E_REQUEST_NOT_SUPPORTED]),
     Message ''RIL_REQUEST_CDMA_SET_ROAMING_PREFERENCE'' 78 [Ints] [Null]
       (Errors [RIL_E_SUCCESS, RIL_E_RADIO_NOT_AVAILABLE, RIL_E_NO_MEMORY, RIL_E_INTERNAL_ERR, RIL_E_SYSTEM_ERR,
         RIL_E_INVALID_ARGUMENTS, RIL_E_MODEM_ERR, RIL_E_REQUEST_NOT_SUPPORTED, RIL_E_OPERATION_NOT_ALLOWED,
         RIL_E_NO_RESOURCES, RIL_E_CANCELLED]),
     Message ''RIL_REQUEST_CDMA_QUERY_ROAMING_PREFERENCE'' 79 [Null] [Ints, Null]
       (Errors [RIL_E_SUCCESS, RIL_E_RADIO_NOT_AVAILABLE, RIL_E_NO_MEMORY, RIL_E_INTERNAL_ERR, RIL_E_SYSTEM_ERR,
         RIL_E_INVALID_ARGUMENTS, RIL_E_MODEM_ERR, RIL_E_REQUEST_NOT_SUPPORTED, RIL_E_NO_RESOURCES,
         RIL_E_CANCELLED]),
     Message ''RIL_REQUEST_SET_TTY_MODE'' 80 [Ints] [Null]
       (Errors [RIL_E_SUCCESS, RIL_E_RADIO_NOT_AVAILABLE, RIL_E_INVALID_ARGUMENTS, RIL_E_MODEM_ERR,
         RIL_E_INTERNAL_ERR, RIL_E_NO_MEMORY, RIL_E_NO_RESOURCES, RIL_E_CANCELLED, RIL_E_REQUEST_NOT_SUPPORTED])]"

definition ril_requests_81 :: "message list" where
  "ril_requests_81 =
    [Message ''RIL_REQUEST_QUERY_TTY_MODE'' 81 [Null] [Ints, Null]
       (Errors [RIL_E_SUCCESS, RIL_E_RADIO_NOT_AVAILABLE, RIL_E_MODEM_ERR, RIL_E_INTERNAL_ERR, RIL_E_NO_MEMORY,
         RIL_E_INVALID_ARGUMENTS, RIL_E_NO_RESOURCES, RIL_E_CANCELLED, RIL_E_REQUEST_NOT_SUPPORTED]),
     Message ''RIL_REQUEST_CDMA_SET_PREFERRED_VOICE_PRIVACY_MODE'' 82 [Ints] [Null]
       (Errors [RIL_E_SUCCESS, RIL_E_RADIO_NOT_AVAILABLE, RIL_E_INVALID_ARGUMENTS, RIL_E_SYSTEM_ERR,
         RIL_E_MODEM_ERR, RIL_E_INTERNAL_ERR, RIL_E_NO_MEMORY, RIL_E_INVALID_CALL_ID, RIL_E_NO_RESOURCES,
         RIL_E_CANCELLED, RIL_E_REQUEST_NOT_SUPPORTED]),
     Message ''RIL_REQUEST_CDMA_QUERY_PREFERRED_VOICE_PRIVACY_MODE'' 83 [Null] [Ints, Null]
       (Errors [RIL_E_SUCCESS, RIL_E_RADIO_NOT_AVAILABLE, RIL_E_MODEM_ERR, RIL_E_INTERNAL_ERR, RIL_E_NO_MEMORY,
         RIL_E_INVALID_ARGUMENTS, RIL_E_NO_RESOURCES, RIL_E_CANCELLED, RIL_E_REQUEST_NOT_SUPPORTED]),
     Message ''RIL_REQUEST_CDMA_FLASH'' 84 [String] [Null]
       (Errors [RIL_E_SUCCESS, RIL_E_RADIO_NOT_AVAILABLE, RIL_E_INVALID_ARGUMENTS, RIL_E_NO_MEMORY,
         RIL_E_SYSTEM_ERR, RIL_E_MODEM_ERR, RIL_E_INTERNAL_ERR, RIL_E_INVALID_CALL_ID, RIL_E_INVALID_STATE,
         RIL_E_NO_RESOURCES, RIL_E_CANCELLED, RIL_E_REQUEST_NOT_SUPPORTED]),
     Message ''RIL_REQUEST_CDMA_BURST_DTMF'' 85 [Strings] [Null]
       (Errors [RIL_E_SUCCESS, RIL_E_RADIO_NOT_AVAILABLE, RIL_E_INVALID_ARGUMENTS, RIL_E_NO_MEMORY,
         RIL_E_SYSTEM_ERR, RIL_E_MODEM_ERR, RIL_E_INTERNAL_ERR, RIL_E_INVALID_CALL_ID, RIL_E_NO_RESOURCES,
         RIL_E_CANCELLED, RIL_E_OPERATION_NOT_ALLOWED, RIL_E_REQUEST_NOT_SUPPORTED])]"

definition ril_requests_86 :: "message list" where
  "ril_requests_86 =
    [Message ''RIL_REQUEST_CDMA_VALIDATE_AND_WRITE_AKEY'' 86 [String] [Null]
       (Errors [RIL_E_SUCCESS, RIL_E_RADIO_NOT_AVAILABLE, RIL_E_NO_MEMORY, RIL_E_INTERNAL_ERR, RIL_E_SYSTEM_ERR,
         RIL_E_INVALID_ARGUMENTS, RIL_E_MODEM_ERR, RIL_E_REQUEST_NOT_SUPPORTED, RIL_E_NO_RESOURCES,
         RIL_E_CANCELLED]),
     Message ''RIL_REQUEST_CDMA_SEND_SMS'' 87 [Struct ''RIL_CDMA_SMS_Message''] [Struct ''RIL_SMS_Response'']
       (Errors [RIL_E_SUCCESS, RIL_E_RADIO_NOT_AVAILABLE, RIL_E_SMS_SEND_FAIL_RETRY, RIL_E_NETWORK_REJECT,
         RIL_E_INVALID_STATE, RIL_E_INVALID_ARGUMENTS, RIL_E_NO_MEMORY, RIL_E_REQUEST_RATE_LIMITED,
         RIL_E_INVALID_SMS_FORMAT, RIL_E_SYSTEM_ERR, RIL_E_FDN_CHECK_FAILURE, RIL_E_MODEM_ERR, RIL_E_NETWORK_ERR,
         RIL_E_ENCODING_ERR, RIL_E_INVALID_SMSC_ADDRESS, RIL_E_OPERATION_NOT_ALLOWED, RIL_E_NO_RESOURCES,
         RIL_E_CANCELLED, RIL_E_REQUEST_NOT_SUPPORTED]),
     Message ''RIL_REQUEST_CDMA_SMS_ACKNOWLEDGE'' 88 [Struct ''RIL_CDMA_SMS_Ack''] [Null]
       (Errors [RIL_E_SUCCESS, RIL_E_RADIO_NOT_AVAILABLE, RIL_E_INVALID_ARGUMENTS, RIL_E_NO_SMS_TO_ACK,
         RIL_E_INVALID_STATE, RIL_E_NO_MEMORY, RIL_E_REQUEST_RATE_LIMITED, RIL_E_SYSTEM_ERR, RIL_E_MODEM_ERR,
         RIL_E_OPERATION_NOT_ALLOWED, RIL_E_NETWORK_NOT_READY, RIL_E_INVALID_MODEM_STATE,
         RIL_E_REQUEST_NOT_SUPPORTED]),
     Message ''RIL_REQUEST_GSM_GET_BROADCAST_SMS_CONFIG'' 89 [Null] [Structs ''RIL_GSM_BroadcastSmsConfigInfo'']
       (Errors [RIL_E_SUCCESS, RIL_E_RADIO_NOT_AVAILABLE, RIL_E_INVALID_STATE, RIL_E_NO_MEMORY,
         RIL_E_REQUEST_RATE_LIMITED, RIL_E_SYSTEM_ERR, RIL_E_NO_RESOURCES, RIL_E_MODEM_ERR, RIL_E_INTERNAL_ERR,
         RIL_E_CANCELLED, RIL_E_INVALID_MODEM_STATE, RIL_E_REQUEST_NOT_SUPPORTED])]"

definition ril_requests_90 :: "message list" where
  "ril_requests_90 =
    [Message ''RIL_REQUEST_GSM_SET_BROADCAST_SMS_CONFIG'' 90 [Structs ''RIL_GSM_BroadcastSmsConfigInfo''] [Null]
       (Errors [RIL_E_SUCCESS, RIL_E_RADIO_NOT_AVAILABLE, RIL_E_INVALID_STATE, RIL_E_INVALID_ARGUMENTS,
         RIL_E_NO_MEMORY, RIL_E_SYSTEM_ERR, RIL_E_REQUEST_RATE_LIMITED, RIL_E_MODEM_ERR, RIL_E_INTERNAL_ERR,
         RIL_E_NO_RESOURCES, RIL_E_CANCELLED, RIL_E_INVALID_MODEM_STATE, RIL_E_REQUEST_NOT_SUPPORTED]),
     Message ''RIL_REQUEST_GSM_SMS_BROADCAST_ACTIVATION'' 91 [Ints] [Null]
       (Errors [RIL_E_SUCCESS, RIL_E_RADIO_NOT_AVAILABLE, RIL_E_INVALID_STATE, RIL_E_INVALID_ARGUMENTS,
         RIL_E_NO_MEMORY, RIL_E_SYSTEM_ERR, RIL_E_REQUEST_RATE_LIMITED, RIL_E_MODEM_ERR, RIL_E_INTERNAL_ERR,
         RIL_E_NO_RESOURCES, RIL_E_CANCELLED, RIL_E_INVALID_MODEM_STATE, RIL_E_REQUEST_NOT_SUPPORTED]),
     Message ''RIL_REQUEST_CDMA_GET_BROADCAST_SMS_CONFIG'' 92 [Null] [Structs ''RIL_CDMA_BroadcastSmsConfigInfo'']
       (Errors [RIL_E_SUCCESS, RIL_E_RADIO_NOT_AVAILABLE, RIL_E_INVALID_STATE, RIL_E_NO_MEMORY,
         RIL_E_REQUEST_RATE_LIMITED, RIL_E_SYSTEM_ERR, RIL_E_NO_RESOURCES, RIL_E_MODEM_ERR, RIL_E_INTERNAL_ERR,
         RIL_E_CANCELLED, RIL_E_INVALID_MODEM_STATE, RIL_E_REQUEST_NOT_SUPPORTED]),
     Message ''RIL_REQUEST_CDMA_SET_BROADCAST_SMS_CONFIG'' 93 [Structs ''RIL_CDMA_BroadcastSmsConfigInfo''] [Null]
       (Errors [RIL_E_SUCCESS, RIL_E_RADIO_NOT_AVAILABLE, RIL_E_INVALID_STATE, RIL_E_INVALID_ARGUMENTS,
         RIL_E_NO_MEMORY, RIL_E_SYSTEM_ERR, RIL_E_REQUEST_RATE_LIMITED, RIL_E_MODEM_ERR, RIL_E_INTERNAL_ERR,
         RIL_E_NO_RESOURCES, RIL_E_CANCELLED, RIL_E_INVALID_MODEM_STATE, RIL_E_REQUEST_NOT_SUPPORTED]),
     Message ''RIL_REQUEST_CDMA_SMS_BROADCAST_ACTIVATION'' 94 [Ints] [Null]
       (Errors [RIL_E_SUCCESS, RIL_E_RADIO_NOT_AVAILABLE, RIL_E_INVALID_STATE, RIL_E_INVALID_ARGUMENTS,
         RIL_E_NO_MEMORY, RIL_E_SYSTEM_ERR, RIL_E_REQUEST_RATE_LIMITED, RIL_E_MODEM_ERR, RIL_E_INTERNAL_ERR,
         RIL_E_NO_RESOURCES, RIL_E_CANCELLED, RIL_E_INVALID_MODEM_STATE, RIL_E_REQUEST_NOT_SUPPORTED])]"

definition ril_requests_95 :: "message list" where
  "ril_requests_95 =
    [Message ''RIL_REQUEST_CDMA_SUBSCRIPTION'' 95 [] [Strings]
       (Errors [RIL_E_SUCCESS, RIL_E_SUBSCRIPTION_NOT_AVAILABLE, RIL_E_NO_MEMORY, RIL_E_INTERNAL_ERR,
         RIL_E_SYSTEM_ERR, RIL_E_INVALID_ARGUMENTS, RIL_E_MODEM_ERR, RIL_E_NOT_PROVISIONED,
         RIL_E_REQUEST_NOT_SUPPORTED, RIL_E_NO_RESOURCES, RIL_E_CANCELLED]),
     Message ''RIL_REQUEST_CDMA_WRITE_SMS_TO_RUIM'' 96 [Struct ''RIL_CDMA_SMS_WriteArgs''] [Ints]
       (Errors [RIL_E_SUCCESS, RIL_E_RADIO_NOT_AVAILABLE, RIL_E_SIM_FULL, RIL_E_INVALID_ARGUMENTS,
         RIL_E_INVALID_SMS_FORMAT, RIL_E_INTERNAL_ERR, RIL_E_MODEM_ERR, RIL_E_ENCODING_ERR, RIL_E_NO_MEMORY,
         RIL_E_NO_RESOURCES, RIL_E_INVALID_MODEM_STATE, RIL_E_OPERATION_NOT_ALLOWED, RIL_E_INVALID_SMSC_ADDRESS,
         RIL_E_CANCELLED, RIL_E_REQUEST_NOT_SUPPORTED]),
     Message ''RIL_REQUEST_CDMA_DELETE_SMS_ON_RUIM'' 97 [Ints] [Null]
       (Errors [RIL_E_SUCCESS, RIL_E_RADIO_NOT_AVAILABLE, RIL_E_INVALID_ARGUMENTS, RIL_E_NO_MEMORY,
         RIL_E_REQUEST_RATE_LIMITED, RIL_E_SYSTEM_ERR, RIL_E_MODEM_ERR, RIL_E_NO_SUCH_ENTRY, RIL_E_INTERNAL_ERR,
         RIL_E_NO_RESOURCES, RIL_E_CANCELLED, RIL_E_INVALID_MODEM_STATE, RIL_E_REQUEST_NOT_SUPPORTED]),
     Message ''RIL_REQUEST_DEVICE_IDENTITY'' 98 [] [Strings]
       (Errors [RIL_E_SUCCESS, RIL_E_RADIO_NOT_AVAILABLE, RIL_E_NO_MEMORY, RIL_E_INTERNAL_ERR, RIL_E_SYSTEM_ERR,
         RIL_E_INVALID_ARGUMENTS, RIL_E_MODEM_ERR, RIL_E_NOT_PROVISIONED, RIL_E_REQUEST_NOT_SUPPORTED,
         RIL_E_NO_RESOURCES, RIL_E_CANCELLED])]"

definition ril_requests_99 :: "message list" where
  "ril_requests_99 =
    [Message ''RIL_REQUEST_EXIT_EMERGENCY_CALLBACK_MODE'' 99 [Null] [Null]
       (Errors [RIL_E_SUCCESS, RIL_E_RADIO_NOT_AVAILABLE, RIL_E_OPERATION_NOT_ALLOWED, RIL_E_NO_MEMORY,
         RIL_E_INTERNAL_ERR, RIL_E_SYSTEM_ERR, RIL_E_INVALID_ARGUMENTS, RIL_E_MODEM_ERR,
         RIL_E_REQUEST_NOT_SUPPORTED, RIL_E_NO_RESOURCES, RIL_E_CANCELLED]),
     Message ''RIL_REQUEST_GET_SMSC_ADDRESS'' 100 [Null] [String]
       (Errors [RIL_E_SUCCESS, RIL_E_RADIO_NOT_AVAILABLE, RIL_E_NO_MEMORY, RIL_E_REQUEST_RATE_LIMITED,
         RIL_E_SYSTEM_ERR, RIL_E_INTERNAL_ERR, RIL_E_MODEM_ERR, RIL_E_INVALID_ARGUMENTS, RIL_E_INVALID_MODEM_STATE,
         RIL_E_NOT_PROVISIONED, RIL_E_NO_RESOURCES, RIL_E_CANCELLED, RIL_E_REQUEST_NOT_SUPPORTED]),
     Message ''RIL_REQUEST_SET_SMSC_ADDRESS'' 101 [String] [Null]
       (Errors [RIL_E_SUCCESS, RIL_E_RADIO_NOT_AVAILABLE, RIL_E_INVALID_ARGUMENTS, RIL_E_INVALID_SMS_FORMAT,
         RIL_E_NO_MEMORY, RIL_E_SYSTEM_ERR, RIL_E_REQUEST_RATE_LIMITED, RIL_E_MODEM_ERR, RIL_E_NO_RESOURCES,
         RIL_E_INTERNAL_ERR, RIL_E_CANCELLED, RIL_E_REQUEST_NOT_SUPPORTED]),
     Message ''RIL_REQUEST_REPORT_SMS_MEMORY_STATUS'' 102 [Ints] [Null]
       (Errors [RIL_E_SUCCESS, RIL_E_RADIO_NOT_AVAILABLE, RIL_E_INVALID_ARGUMENTS, RIL_E_NO_MEMORY,
         RIL_E_INVALID_STATE, RIL_E_SYSTEM_ERR, RIL_E_REQUEST_RATE_LIMITED, RIL_E_MODEM_ERR, RIL_E_INTERNAL_ERR,
         RIL_E_NO_RESOURCES, RIL_E_CANCELLED, RIL_E_REQUEST_NOT_SUPPORTED]),
     Message ''RIL_REQUEST_REPORT_STK_SERVICE_IS_RUNNING'' 103 [Null] [Null]
       (Errors [RIL_E_SUCCESS, RIL_E_RADIO_NOT_AVAILABLE, RIL_E_INTERNAL_ERR, RIL_E_NO_MEMORY, RIL_E_NO_RESOURCES,
         RIL_E_CANCELLED, RIL_E_REQUEST_NOT_SUPPORTED])]"

definition ril_requests_104 :: "message list" where
  "ril_requests_104 =
    [Message ''RIL_REQUEST_CDMA_GET_SUBSCRIPTION_SOURCE'' 104 [Null] [Ints]
       (Errors [RIL_E_SUCCESS, RIL_E_RADIO_NOT_AVAILABLE, RIL_E_SUBSCRIPTION_NOT_AVAILABLE, RIL_E_INTERNAL_ERR,
         RIL_E_NO_MEMORY, RIL_E_NO_RESOURCES, RIL_E_CANCELLED, RIL_E_REQUEST_NOT_SUPPORTED]),
     Message ''RIL_REQUEST_ISIM_AUTHENTICATION'' 105 [String] [String]
       (Errors [RIL_E_SUCCESS, RIL_E_RADIO_NOT_AVAILABLE, RIL_E_INTERNAL_ERR, RIL_E_NO_MEMORY, RIL_E_NO_RESOURCES,
         RIL_E_CANCELLED, RIL_E_REQUEST_NOT_SUPPORTED]),
     Message ''RIL_REQUEST_ACKNOWLEDGE_INCOMING_GSM_SMS_WITH_PDU'' 106 [Strings] [Null]
       (Errors [RIL_E_SUCCESS, RIL_E_RADIO_NOT_AVAILABLE, RIL_E_INTERNAL_ERR, RIL_E_NO_MEMORY, RIL_E_NO_RESOURCES,
         RIL_E_CANCELLED, RIL_E_REQUEST_NOT_SUPPORTED]),
     Message ''RIL_REQUEST_STK_SEND_ENVELOPE_WITH_STATUS'' 107 [String] [Struct ''RIL_SIM_IO_Response'']
       (Errors [RIL_E_SUCCESS, RIL_E_RADIO_NOT_AVAILABLE, RIL_E_SIM_BUSY, RIL_E_OPERATION_NOT_ALLOWED,
         RIL_E_INTERNAL_ERR, RIL_E_NO_MEMORY, RIL_E_NO_RESOURCES, RIL_E_CANCELLED, RIL_E_REQUEST_NOT_SUPPORTED]),
     Message ''RIL_REQUEST_VOICE_RADIO_TECH'' 108 [Null] [Ints]
       (Errors [RIL_E_SUCCESS, RIL_E_RADIO_NOT_AVAILABLE, RIL_E_INTERNAL_ERR, RIL_E_NO_MEMORY, RIL_E_NO_RESOURCES,
         RIL_E_CANCELLED, RIL_E_REQUEST_NOT_SUPPORTED]),
     Message ''RIL_REQUEST_GET_CELL_INFO_LIST'' 109 [Null] [Structs ''RIL_CellInfo_v12'']
       (Errors [RIL_E_SUCCESS, RIL_E_RADIO_NOT_AVAILABLE, RIL_E_NO_MEMORY, RIL_E_INTERNAL_ERR, RIL_E_SYSTEM_ERR,
         RIL_E_MODEM_ERR, RIL_E_NO_NETWORK_FOUND, RIL_E_REQUEST_NOT_SUPPORTED, RIL_E_NO_RESOURCES,
         RIL_E_CANCELLED])]"

definition ril_requests_110 :: "message list" where
  "ril_requests_110 =
    [Message ''RIL_REQUEST_SET_UNSOL_CELL_INFO_LIST_RATE'' 110 [Ints] [Null]
       (Errors [RIL_E_SUCCESS, RIL_E_RADIO_NOT_AVAILABLE, RIL_E_NO_MEMORY, RIL_E_INTERNAL_ERR, RIL_E_SYSTEM_ERR,
         RIL_E_INVALID_ARGUMENTS, RIL_E_REQUEST_NOT_SUPPORTED, RIL_E_NO_RESOURCES, RIL_E_CANCELLED]),
     Message ''RIL_REQUEST_SET_INITIAL_ATTACH_APN'' 111 [Strings] [Null]
       (Errors [RIL_E_SUCCESS, RIL_E_RADIO_NOT_AVAILABLE, RIL_E_SUBSCRIPTION_NOT_AVAILABLE, RIL_E_NO_MEMORY,
         RIL_E_INTERNAL_ERR, RIL_E_SYSTEM_ERR, RIL_E_INVALID_ARGUMENTS, RIL_E_MODEM_ERR, RIL_E_NOT_PROVISIONED,
         RIL_E_REQUEST_NOT_SUPPORTED, RIL_E_NO_RESOURCES, RIL_E_CANCELLED]),
     Message ''RIL_REQUEST_IMS_REGISTRATION_STATE'' 112 [Null] [Ints]
       (Errors [RIL_E_SUCCESS, RIL_E_RADIO_NOT_AVAILABLE, RIL_E_INTERNAL_ERR, RIL_E_NO_MEMORY, RIL_E_NO_RESOURCES,
         RIL_E_CANCELLED, RIL_E_INVALID_MODEM_STATE, RIL_E_REQUEST_NOT_SUPPORTED]),
     Message ''RIL_REQUEST_IMS_SEND_SMS'' 113 [Struct ''RIL_IMS_SMS_Message''] [Struct ''RIL_SMS_Response'']
       (Errors [RIL_E_SUCCESS, RIL_E_RADIO_NOT_AVAILABLE, RIL_E_SMS_SEND_FAIL_RETRY, RIL_E_FDN_CHECK_FAILURE,
         RIL_E_NETWORK_REJECT, RIL_E_INVALID_ARGUMENTS, RIL_E_INVALID_STATE, RIL_E_NO_MEMORY,
         RIL_E_INVALID_SMS_FORMAT, RIL_E_SYSTEM_ERR, RIL_E_REQUEST_RATE_LIMITED, RIL_E_MODEM_ERR,
         RIL_E_NETWORK_ERR, RIL_E_ENCODING_ERR, RIL_E_INVALID_SMSC_ADDRESS, RIL_E_OPERATION_NOT_ALLOWED,
         RIL_E_INTERNAL_ERR, RIL_E_NO_RESOURCES, RIL_E_CANCELLED, RIL_E_REQUEST_NOT_SUPPORTED])]"

definition ril_requests_114 :: "message list" where
  "ril_requests_114 =
    [Message ''RIL_REQUEST_SIM_TRANSMIT_APDU_BASIC'' 114 [Struct ''RIL_SIM_APDU''] [Struct ''RIL_SIM_IO_Response'']
       (Errors [RIL_E_SUCCESS, RIL_E_RADIO_NOT_AVAILABLE, RIL_E_INTERNAL_ERR, RIL_E_NO_MEMORY, RIL_E_NO_RESOURCES,
         RIL_E_CANCELLED, RIL_E_REQUEST_NOT_SUPPORTED]),
     Message ''RIL_REQUEST_SIM_OPEN_CHANNEL'' 115 [Struct ''RIL_OpenChannelParam''] [Ints]
       (Errors [RIL_E_SUCCESS, RIL_E_RADIO_NOT_AVAILABLE, RIL_E_MISSING_RESOURCE, RIL_E_NO_SUCH_ELEMENT,
         RIL_E_INTERNAL_ERR, RIL_E_NO_MEMORY, RIL_E_NO_RESOURCES, RIL_E_CANCELLED, RIL_E_SIM_ERR,
         RIL_E_INVALID_SIM_STATE, RIL_E_REQUEST_NOT_SUPPORTED]),
     Message ''RIL_REQUEST_SIM_CLOSE_CHANNEL'' 116 [Ints] [Null]
       (Errors [RIL_E_SUCCESS, RIL_E_RADIO_NOT_AVAILABLE, RIL_E_INTERNAL_ERR, RIL_E_NO_MEMORY, RIL_E_NO_RESOURCES,
         RIL_E_CANCELLED, RIL_E_REQUEST_NOT_SUPPORTED]),
     Message ''RIL_REQUEST_SIM_TRANSMIT_APDU_CHANNEL'' 117 [Struct ''RIL_SIM_APDU''] [Struct ''RIL_SIM_IO_Response'']
       (Errors [RIL_E_SUCCESS, RIL_E_RADIO_NOT_AVAILABLE, RIL_E_INTERNAL_ERR, RIL_E_NO_MEMORY, RIL_E_NO_RESOURCES,
         RIL_E_CANCELLED, RIL_E_REQUEST_NOT_SUPPORTED]),
     Message ''RIL_REQUEST_NV_READ_ITEM'' 118 [Struct ''RIL_NV_ReadItem''] [String]
       (Errors [RIL_E_SUCCESS, RIL_E_RADIO_NOT_AVAILABLE, RIL_E_REQUEST_NOT_SUPPORTED]),
     Message ''RIL_REQUEST_NV_WRITE_ITEM'' 119 [Struct ''RIL_NV_WriteItem''] [Null]
       (Errors [RIL_E_SUCCESS, RIL_E_RADIO_NOT_AVAILABLE, RIL_E_REQUEST_NOT_SUPPORTED]),
     Message ''RIL_REQUEST_NV_WRITE_CDMA_PRL'' 120 [String] [Null]
       (Errors [RIL_E_SUCCESS, RIL_E_RADIO_NOT_AVAILABLE, RIL_E_REQUEST_NOT_SUPPORTED])]"

definition ril_requests_121 :: "message list" where
  "ril_requests_121 =
    [Message ''RIL_REQUEST_NV_RESET_CONFIG'' 121 [Ints] [Null]
       (Errors [RIL_E_SUCCESS, RIL_E_RADIO_NOT_AVAILABLE, RIL_E_REQUEST_NOT_SUPPORTED]),
     Message ''RIL_REQUEST_SET_UICC_SUBSCRIPTION'' 122 [Struct ''RIL_SelectUiccSub''] [Null]
       (Errors [RIL_E_SUCCESS, RIL_E_RADIO_NOT_AVAILABLE, RIL_E_SUBSCRIPTION_NOT_SUPPORTED, RIL_E_NO_MEMORY,
         RIL_E_INTERNAL_ERR, RIL_E_SYSTEM_ERR, RIL_E_INVALID_ARGUMENTS, RIL_E_MODEM_ERR,
         RIL_E_REQUEST_NOT_SUPPORTED, RIL_E_NO_RESOURCES, RIL_E_CANCELLED]),
     Message ''RIL_REQUEST_ALLOW_DATA'' 123 [Ints] [Null]
       (Errors [RIL_E_SUCCESS, RIL_E_RADIO_NOT_AVAILABLE, RIL_E_NO_MEMORY, RIL_E_INTERNAL_ERR, RIL_E_SYSTEM_ERR,
         RIL_E_MODEM_ERR, RIL_E_INVALID_ARGUMENTS, RIL_E_DEVICE_IN_USE, RIL_E_INVALID_MODEM_STATE,
         RIL_E_REQUEST_NOT_SUPPORTED, RIL_E_NO_RESOURCES, RIL_E_CANCELLED]),
     Message ''RIL_REQUEST_GET_HARDWARE_CONFIG'' 124 [Null] [Structs ''RIL_HardwareConfig'']
       (Errors [RIL_E_RADIO_NOT_AVAILABLE, RIL_E_REQUEST_NOT_SUPPORTED]),
     Message ''RIL_REQUEST_SIM_AUTHENTICATION'' 125 [String] [String]
       (Errors [RIL_E_RADIO_NOT_AVAILABLE, RIL_E_INTERNAL_ERR, RIL_E_NO_MEMORY, RIL_E_NO_RESOURCES,
         RIL_E_CANCELLED, RIL_E_INVALID_MODEM_STATE, RIL_E_INVALID_ARGUMENTS, RIL_E_SIM_ERR,
         RIL_E_REQUEST_NOT_SUPPORTED]),
     Message ''RIL_REQUEST_GET_DC_RT_INFO'' 126 [Null] [Struct ''RIL_DcRtInfo'']
       (Errors [RIL_E_SUCCESS, RIL_E_RADIO_NOT_AVAILABLE, RIL_E_REQUEST_NOT_SUPPORTED, RIL_E_INTERNAL_ERR,
         RIL_E_NO_MEMORY, RIL_E_NO_RESOURCES, RIL_E_CANCELLED])]"

definition ril_requests_127 :: "message list" where
  "ril_requests_127 =
    [Message ''RIL_REQUEST_SET_DC_RT_INFO_RATE'' 127 [Ints] [Null]
       (Errors [RIL_E_SUCCESS]),
     Message ''RIL_REQUEST_SET_DATA_PROFILE'' 128 [Structs ''RIL_DataProfileInfo''] [Null]
       (Errors [RIL_E_SUCCESS, RIL_E_RADIO_NOT_AVAILABLE, RIL_E_SUBSCRIPTION_NOT_AVAILABLE, RIL_E_INTERNAL_ERR,
         RIL_E_NO_MEMORY, RIL_E_NO_RESOURCES, RIL_E_CANCELLED, RIL_E_REQUEST_NOT_SUPPORTED]),
     Message ''RIL_REQUEST_SHUTDOWN'' 129 [Null] [Null]
       (Errors [RIL_E_SUCCESS, RIL_E_RADIO_NOT_AVAILABLE, RIL_E_OPERATION_NOT_ALLOWED, RIL_E_NO_MEMORY,
         RIL_E_INTERNAL_ERR, RIL_E_SYSTEM_ERR, RIL_E_REQUEST_NOT_SUPPORTED, RIL_E_NO_RESOURCES, RIL_E_CANCELLED]),
     Message ''RIL_REQUEST_GET_RADIO_CAPABILITY'' 130 [Struct ''RIL_RadioCapability''] []
       (Errors [RIL_E_SUCCESS, RIL_E_RADIO_NOT_AVAILABLE, RIL_E_OPERATION_NOT_ALLOWED, RIL_E_INVALID_STATE,
         RIL_E_REQUEST_NOT_SUPPORTED, RIL_E_INTERNAL_ERR, RIL_E_NO_MEMORY, RIL_E_NO_RESOURCES, RIL_E_CANCELLED]),
     Message ''RIL_REQUEST_SET_RADIO_CAPABILITY'' 131 [Struct ''RIL_RadioCapability''] [Struct ''RIL_RadioCapability'']
       (Errors [RIL_E_SUCCESS, RIL_E_RADIO_NOT_AVAILABLE, RIL_E_OPERATION_NOT_ALLOWED, RIL_E_NO_MEMORY,
         RIL_E_INTERNAL_ERR, RIL_E_SYSTEM_ERR, RIL_E_INVALID_ARGUMENTS, RIL_E_MODEM_ERR, RIL_E_INVALID_STATE,
         RIL_E_REQUEST_NOT_SUPPORTED, RIL_E_NO_RESOURCES, RIL_E_CANCELLED]),
     Message ''RIL_REQUEST_START_LCE'' 132 [Ints] [Struct ''RIL_LceStatusInfo'']
       (Errors [RIL_E_SUCCESS, RIL_E_RADIO_NOT_AVAILABLE, RIL_E_LCE_NOT_SUPPORTED, RIL_E_INTERNAL_ERR,
         RIL_E_REQUEST_NOT_SUPPORTED, RIL_E_NO_MEMORY, RIL_E_NO_RESOURCES, RIL_E_CANCELLED])]"

definition ril_requests_133 :: "message list" where
  "ril_requests_133 =
    [Message ''RIL_REQUEST_STOP_LCE'' 133 [] [Struct ''RIL_LceStatusInfo'']
       (Errors [RIL_E_SUCCESS, RIL_E_RADIO_NOT_AVAILABLE, RIL_E_LCE_NOT_SUPPORTED, RIL_E_INTERNAL_ERR,
         RIL_E_NO_MEMORY, RIL_E_NO_RESOURCES, RIL_E_CANCELLED, RIL_E_REQUEST_NOT_SUPPORTED]),
     Message ''RIL_REQUEST_PULL_LCEDATA'' 134 [] [Struct ''RIL_LceDataInfo'']
       (Errors [RIL_E_SUCCESS, RIL_E_RADIO_NOT_AVAILABLE, RIL_E_LCE_NOT_SUPPORTED, RIL_E_INTERNAL_ERR,
         RIL_E_NO_MEMORY, RIL_E_NO_RESOURCES, RIL_E_CANCELLED, RIL_E_REQUEST_NOT_SUPPORTED]),
     Message ''RIL_REQUEST_GET_ACTIVITY_INFO'' 135 [Null] [Struct ''RIL_ActivityStatsInfo'']
       (Errors [RIL_E_SUCCESS, RIL_E_RADIO_NOT_AVAILABLE, RIL_E_NO_MEMORY, RIL_E_INTERNAL_ERR, RIL_E_SYSTEM_ERR,
         RIL_E_MODEM_ERR, RIL_E_NOT_PROVISIONED, RIL_E_REQUEST_NOT_SUPPORTED, RIL_E_NO_RESOURCES, RIL_E_CANCELLED]),
     Message ''RIL_REQUEST_SET_CARRIER_RESTRICTIONS'' 136 [Struct ''RIL_CarrierRestrictions''] [Ints]
       (Errors [RIL_E_SUCCESS, RIL_E_INVALID_ARGUMENTS, RIL_E_RADIO_NOT_AVAILABLE, RIL_E_REQUEST_NOT_SUPPORTED,
         RIL_E_INTERNAL_ERR, RIL_E_NO_MEMORY, RIL_E_NO_RESOURCES, RIL_E_CANCELLED]),
     Message ''RIL_REQUEST_GET_CARRIER_RESTRICTIONS'' 137 [Null] [Struct ''RIL_CarrierRestrictions'']
       (Errors [RIL_E_SUCCESS, RIL_E_RADIO_NOT_AVAILABLE, RIL_E_REQUEST_NOT_SUPPORTED, RIL_E_INTERNAL_ERR,
         RIL_E_NO_MEMORY, RIL_E_NO_RESOURCES, RIL_E_CANCELLED]),
     Message ''RIL_REQUEST_SEND_DEVICE_STATE'' 138 [Ints] [Null]
       (Errors [RIL_E_SUCCESS, RIL_E_RADIO_NOT_AVAILABLE, RIL_E_NO_MEMORY, RIL_E_INTERNAL_ERR, RIL_E_SYSTEM_ERR,
         RIL_E_INVALID_ARGUMENTS, RIL_E_REQUEST_NOT_SUPPORTED, RIL_E_NO_RESOURCES, RIL_E_CANCELLED])]"

definition ril_requests_139 :: "message list" where
  "ril_requests_139 =
    [Message ''RIL_REQUEST_SET_UNSOLICITED_RESPONSE_FILTER'' 139 [Ints] [Null]
       (Errors [RIL_E_SUCCESS, RIL_E_INVALID_ARGUMENTS, RIL_E_RADIO_NOT_AVAILABLE, RIL_E_NO_MEMORY,
         RIL_E_INTERNAL_ERR, RIL_E_SYSTEM_ERR, RIL_E_REQUEST_NOT_SUPPORTED, RIL_E_NO_RESOURCES, RIL_E_CANCELLED]),
     Message ''RIL_REQUEST_SET_SIM_CARD_POWER'' 140 [Ints] [Null]
       (Errors [RIL_E_SUCCESS, RIL_E_RADIO_NOT_AVAILABLE, RIL_E_REQUEST_NOT_SUPPORTED, RIL_E_SIM_ABSENT,
         RIL_E_INVALID_ARGUMENTS, RIL_E_INTERNAL_ERR, RIL_E_NO_MEMORY, RIL_E_NO_RESOURCES, RIL_E_CANCELLED]),
     Message ''RIL_REQUEST_SET_CARRIER_INFO_IMSI_ENCRYPTION'' 141 [Struct ''RIL_CarrierInfoForImsiEncryption''] [Null]
       (Errors [RIL_E_SUCCESS, RIL_E_RADIO_NOT_AVAILABLE, RIL_E_SIM_ABSENT, RIL_E_REQUEST_NOT_SUPPORTED,
         RIL_E_INVALID_ARGUMENTS, RIL_E_INTERNAL_ERR, RIL_E_NO_MEMORY, RIL_E_NO_RESOURCES, RIL_E_CANCELLED]),
     Message ''RIL_REQUEST_START_NETWORK_SCAN'' 142 [Struct ''RIL_NetworkScanRequest''] [Null]
       (Errors [RIL_E_SUCCESS, RIL_E_RADIO_NOT_AVAILABLE, RIL_E_OPERATION_NOT_ALLOWED, RIL_E_DEVICE_IN_USE,
         RIL_E_INTERNAL_ERR, RIL_E_NO_MEMORY, RIL_E_MODEM_ERR, RIL_E_INVALID_ARGUMENTS,
         RIL_E_REQUEST_NOT_SUPPORTED, RIL_E_NO_RESOURCES, RIL_E_CANCELLED]),
     Message ''RIL_REQUEST_STOP_NETWORK_SCAN'' 143 [Null] [Null]
       (Errors [RIL_E_SUCCESS, RIL_E_INTERNAL_ERR, RIL_E_MODEM_ERR, RIL_E_NO_MEMORY, RIL_E_NO_RESOURCES,
         RIL_E_CANCELLED, RIL_E_REQUEST_NOT_SUPPORTED])]"

definition ril_requests_144 :: "message list" where
  "ril_requests_144 =
    [Message ''RIL_REQUEST_START_KEEPALIVE'' 144 [Struct ''RIL_RequestKeepalive''] [Struct ''RIL_KeepaliveStatus'']
       (Errors [RIL_E_SUCCESS, RIL_E_NO_RESOURCES, RIL_E_INVALID_ARGUMENTS]),
     Message ''RIL_REQUEST_STOP_KEEPALIVE'' 145 [Ints] [Null]
       (Errors [RIL_E_SUCCESS, RIL_E_INVALID_ARGUMENTS])]"

definition ril_notifications_1000 :: "message list" where
  "ril_notifications_1000 =
    [Message ''RIL_UNSOL_RESPONSE_RADIO_STATE_CHANGED'' 1000 [Null] [] (Errors []),
     Message ''RIL_UNSOL_RESPONSE_CALL_STATE_CHANGED'' 1001 [Null] [] (Errors []),
     Message ''RIL_UNSOL_RESPONSE_VOICE_NETWORK_STATE_CHANGED'' 1002 [Null] [] (Errors []),
     Message ''RIL_UNSOL_RESPONSE_NEW_SMS'' 1003 [String] [] (Errors []),
     Message ''RIL_UNSOL_RESPONSE_NEW_SMS_STATUS_REPORT'' 1004 [String] [] (Errors []),
     Message ''RIL_UNSOL_RESPONSE_NEW_SMS_ON_SIM'' 1005 [Ints] [] (Errors []),
     Message ''RIL_UNSOL_ON_USSD'' 1006 [Strings] [] (Errors []),
     Message ''RIL_UNSOL_ON_USSD_REQUEST'' 1007 [] [] (Errors []),
     Message ''RIL_UNSOL_NITZ_TIME_RECEIVED'' 1008 [String] [] (Errors []),
     Message ''RIL_UNSOL_SIGNAL_STRENGTH'' 1009 [Struct ''RIL_SignalStrength''] [] (Errors [])]"

definition ril_notifications_1010 :: "message list" where
  "ril_notifications_1010 =
    [Message ''RIL_UNSOL_DATA_CALL_LIST_CHANGED'' 1010 [Structs ''RIL_Data_Call_Response_v6''] [] (Errors []),
     Message ''RIL_UNSOL_SUPP_SVC_NOTIFICATION'' 1011 [Struct ''RIL_SuppSvcNotification''] [] (Errors []),
     Message ''RIL_UNSOL_STK_SESSION_END'' 1012 [Null] [] (Errors []),
     Message ''RIL_UNSOL_STK_PROACTIVE_COMMAND'' 1013 [String] [] (Errors []),
     Message ''RIL_UNSOL_STK_EVENT_NOTIFY'' 1014 [String] [] (Errors []),
     Message ''RIL_UNSOL_STK_CALL_SETUP'' 1015 [Ints] [] (Errors []),
     Message ''RIL_UNSOL_SIM_SMS_STORAGE_FULL'' 1016 [Null] [] (Errors []),
     Message ''RIL_UNSOL_SIM_REFRESH'' 1017 [Ints, Struct ''RIL_SimRefreshResponse_v7''] [] (Errors []),
     Message ''RIL_UNSOL_CALL_RING'' 1018 [Null, Struct ''RIL_CDMA_SignalInfoRecord''] [] (Errors []),
     Message ''RIL_UNSOL_RESPONSE_SIM_STATUS_CHANGED'' 1019 [Null] [] (Errors [])]"

definition ril_notifications_1020 :: "message list" where
  "ril_notifications_1020 =
    [Message ''RIL_UNSOL_RESPONSE_CDMA_NEW_SMS'' 1020 [Struct ''RIL_CDMA_SMS_Message''] [] (Errors []),
     Message ''RIL_UNSOL_RESPONSE_NEW_BROADCAST_SMS'' 1021 [Bytes] [] (Errors []),
     Message ''RIL_UNSOL_CDMA_RUIM_SMS_STORAGE_FULL'' 1022 [Null] [] (Errors []),
     Message ''RIL_UNSOL_RESTRICTED_STATE_CHANGED'' 1023 [Ints] [] (Errors []),
     Message ''RIL_UNSOL_ENTER_EMERGENCY_CALLBACK_MODE'' 1024 [Null] [] (Errors []),
     Message ''RIL_UNSOL_CDMA_CALL_WAITING'' 1025 [Struct ''RIL_CDMA_CallWaiting''] [] (Errors []),
     Message ''RIL_UNSOL_CDMA_OTA_PROVISION_STATUS'' 1026 [Ints] [] (Errors []),
     Message ''RIL_UNSOL_CDMA_INFO_REC'' 1027 [Struct ''RIL_CDMA_InformationRecords''] [] (Errors []),
     Message ''RIL_UNSOL_OEM_HOOK_RAW'' 1028 [Bytes] [] (Errors []),
     Message ''RIL_UNSOL_RINGBACK_TONE'' 1029 [Ints] [] (Errors []),
     Message ''RIL_UNSOL_RESEND_INCALL_MUTE'' 1030 [Null] [] (Errors []),
     Message ''RIL_UNSOL_CDMA_SUBSCRIPTION_SOURCE_CHANGED'' 1031 [Ints] [] (Errors [])]"

definition ril_notifications_1032 :: "message list" where
  "ril_notifications_1032 =
    [Message ''RIL_UNSOL_CDMA_PRL_CHANGED'' 1032 [Ints] [] (Errors []),
     Message ''RIL_UNSOL_EXIT_EMERGENCY_CALLBACK_MODE'' 1033 [Null] [] (Errors []),
     Message ''RIL_UNSOL_RIL_CONNECTED'' 1034 [Ints] [] (Errors []),
     Message ''RIL_UNSOL_VOICE_RADIO_TECH_CHANGED'' 1035 [Ints] [] (Errors []),
     Message ''RIL_UNSOL_CELL_INFO_LIST'' 1036 [Null] [Structs ''RIL_CellInfo_v12''] (Errors []),
     Message ''RIL_UNSOL_RESPONSE_IMS_NETWORK_STATE_CHANGED'' 1037 [Null] [] (Errors []),
     Message ''RIL_UNSOL_UICC_SUBSCRIPTION_STATUS_CHANGED'' 1038 [Ints] [] (Errors []),
     Message ''RIL_UNSOL_SRVCC_STATE_NOTIFY'' 1039 [Ints] [] (Errors []),
     Message ''RIL_UNSOL_HARDWARE_CONFIG_CHANGED'' 1040 [Structs ''RIL_HardwareConfig''] [] (Errors []),
     Message ''RIL_UNSOL_DC_RT_INFO_CHANGED'' 1041 [Struct ''RIL_DcRtInfo''] [] (Errors []),
     Message ''RIL_UNSOL_RADIO_CAPABILITY'' 1042 [Struct ''RIL_RadioCapability''] [] (Errors []),
     Message ''RIL_UNSOL_ON_SS'' 1043 [Struct ''RIL_StkCcUnsolSsResponse''] [] (Errors [])]"

definition ril_notifications_1044 :: "message list" where
  "ril_notifications_1044 =
    [Message ''RIL_UNSOL_STK_CC_ALPHA_NOTIFY'' 1044 [String] [] (Errors []),
     Message ''RIL_UNSOL_LCEDATA_RECV'' 1045 [Struct ''RIL_LceDataInfo''] [] (Errors []),
     Message ''RIL_UNSOL_PCO_DATA'' 1046 [Struct ''RIL_PCO_Data''] [] (Errors []),
     Message ''RIL_UNSOL_MODEM_RESTART'' 1047 [] [] (Errors []),
     Message ''RIL_UNSOL_CARRIER_INFO_IMSI_ENCRYPTION'' 1048 [Null] [] (Errors []),
     Message ''RIL_UNSOL_NETWORK_SCAN_RESULT'' 1049 [Null] [Struct ''RIL_NetworkScanResult''] (Errors []),
     Message ''RIL_UNSOL_KEEPALIVE_STATUS'' 1050 [Null] [Struct ''RIL_KeepaliveStatus''] (Errors [])]"

definition ril_requests :: "message list" where
  "ril_requests =
    ril_requests_1 @ ril_requests_6 @ ril_requests_11 @ ril_requests_15 @ ril_requests_19 @ ril_requests_24 @
    ril_requests_27 @ ril_requests_29 @ ril_requests_33 @ ril_requests_37 @ ril_requests_42 @ ril_requests_46 @
    ril_requests_50 @ ril_requests_55 @ ril_requests_60 @ ril_requests_65 @ ril_requests_71 @ ril_requests_76 @
    ril_requests_81 @ ril_requests_86 @ ril_requests_90 @ ril_requests_95 @ ril_requests_99 @
    ril_requests_104 @ ril_requests_110 @ ril_requests_114 @ ril_requests_121 @ ril_requests_127 @
    ril_requests_133 @ ril_requests_139 @ ril_requests_144"

definition ril_notifications :: "message list" where
  "ril_notifications =
    ril_notifications_1000 @ ril_notifications_1010 @ ril_notifications_1020 @ ril_notifications_1032 @
    ril_notifications_1044"

definition RIL_RESPONSE_ACKNOWLEDGEMENT :: nat where "RIL_RESPONSE_ACKNOWLEDGEMENT = 800"
definition RIL_UNSOL_RESPONSE_BASE :: nat where "RIL_UNSOL_RESPONSE_BASE = 1000"

lemmas request_defs = ril_requests_1_def ril_requests_6_def ril_requests_11_def ril_requests_15_def ril_requests_19_def
  ril_requests_24_def ril_requests_27_def ril_requests_29_def ril_requests_33_def ril_requests_37_def
  ril_requests_42_def ril_requests_46_def ril_requests_50_def ril_requests_55_def ril_requests_60_def
  ril_requests_65_def ril_requests_71_def ril_requests_76_def ril_requests_81_def ril_requests_86_def
  ril_requests_90_def ril_requests_95_def ril_requests_99_def ril_requests_104_def ril_requests_110_def
  ril_requests_114_def ril_requests_121_def ril_requests_127_def ril_requests_133_def ril_requests_139_def
  ril_requests_144_def

lemmas notification_defs = ril_notifications_1000_def ril_notifications_1010_def ril_notifications_1020_def ril_notifications_1032_def
  ril_notifications_1044_def

subsection \<open>Numbers\<close>

lemma request_numbers: "map m_number ril_requests = [1 ..< 16] @ 15 # [16 ..< 146]"
  by (simp add: ril_requests_def request_defs upt_rec)

lemma notification_numbers: "map m_number ril_notifications = [1000 ..< 1051]"
  by (simp add: ril_notifications_def notification_defs upt_rec)

subsection \<open>Errors\<close>

definition allows :: "int \<Rightarrow> message \<Rightarrow> bool" where
  "allows e m = (case m_errors m of Errors es \<Rightarrow> e \<in> set es | Any_error \<Rightarrow> True)"

lemma allows_simps [simp]: "allows e (Message n k d r (Errors es)) = (e \<in> set es)" "allows e (Message n k d r Any_error)"
  by (simp_all add: allows_def)

lemma group_success:
  "map m_number (filter (\<lambda>m. \<not> allows RIL_E_SUCCESS m) ril_requests_1) = []"
  "map m_number (filter (\<lambda>m. \<not> allows RIL_E_SUCCESS m) ril_requests_6) = []"
  "map m_number (filter (\<lambda>m. \<not> allows RIL_E_SUCCESS m) ril_requests_11) = []"
  "map m_number (filter (\<lambda>m. \<not> allows RIL_E_SUCCESS m) ril_requests_15) = []"
  "map m_number (filter (\<lambda>m. \<not> allows RIL_E_SUCCESS m) ril_requests_19) = []"
  "map m_number (filter (\<lambda>m. \<not> allows RIL_E_SUCCESS m) ril_requests_24) = []"
  "map m_number (filter (\<lambda>m. \<not> allows RIL_E_SUCCESS m) ril_requests_27) = []"
  "map m_number (filter (\<lambda>m. \<not> allows RIL_E_SUCCESS m) ril_requests_29) = []"
  "map m_number (filter (\<lambda>m. \<not> allows RIL_E_SUCCESS m) ril_requests_33) = []"
  "map m_number (filter (\<lambda>m. \<not> allows RIL_E_SUCCESS m) ril_requests_37) = []"
  "map m_number (filter (\<lambda>m. \<not> allows RIL_E_SUCCESS m) ril_requests_42) = []"
  "map m_number (filter (\<lambda>m. \<not> allows RIL_E_SUCCESS m) ril_requests_46) = []"
  "map m_number (filter (\<lambda>m. \<not> allows RIL_E_SUCCESS m) ril_requests_50) = []"
  "map m_number (filter (\<lambda>m. \<not> allows RIL_E_SUCCESS m) ril_requests_55) = []"
  "map m_number (filter (\<lambda>m. \<not> allows RIL_E_SUCCESS m) ril_requests_60) = []"
  "map m_number (filter (\<lambda>m. \<not> allows RIL_E_SUCCESS m) ril_requests_65) = []"
  "map m_number (filter (\<lambda>m. \<not> allows RIL_E_SUCCESS m) ril_requests_71) = []"
  "map m_number (filter (\<lambda>m. \<not> allows RIL_E_SUCCESS m) ril_requests_76) = []"
  "map m_number (filter (\<lambda>m. \<not> allows RIL_E_SUCCESS m) ril_requests_81) = []"
  "map m_number (filter (\<lambda>m. \<not> allows RIL_E_SUCCESS m) ril_requests_86) = []"
  "map m_number (filter (\<lambda>m. \<not> allows RIL_E_SUCCESS m) ril_requests_90) = []"
  "map m_number (filter (\<lambda>m. \<not> allows RIL_E_SUCCESS m) ril_requests_95) = []"
  "map m_number (filter (\<lambda>m. \<not> allows RIL_E_SUCCESS m) ril_requests_99) = []"
  "map m_number (filter (\<lambda>m. \<not> allows RIL_E_SUCCESS m) ril_requests_104) = []"
  "map m_number (filter (\<lambda>m. \<not> allows RIL_E_SUCCESS m) ril_requests_110) = []"
  "map m_number (filter (\<lambda>m. \<not> allows RIL_E_SUCCESS m) ril_requests_114) = []"
  "map m_number (filter (\<lambda>m. \<not> allows RIL_E_SUCCESS m) ril_requests_121) = [124, 125]"
  "map m_number (filter (\<lambda>m. \<not> allows RIL_E_SUCCESS m) ril_requests_127) = []"
  "map m_number (filter (\<lambda>m. \<not> allows RIL_E_SUCCESS m) ril_requests_133) = []"
  "map m_number (filter (\<lambda>m. \<not> allows RIL_E_SUCCESS m) ril_requests_139) = []"
  "map m_number (filter (\<lambda>m. \<not> allows RIL_E_SUCCESS m) ril_requests_144) = []"
  by (simp_all add: request_defs)

lemma group_radio:
  "map m_number (filter (\<lambda>m. \<not> allows RIL_E_RADIO_NOT_AVAILABLE m) ril_requests_1) = []"
  "map m_number (filter (\<lambda>m. \<not> allows RIL_E_RADIO_NOT_AVAILABLE m) ril_requests_6) = []"
  "map m_number (filter (\<lambda>m. \<not> allows RIL_E_RADIO_NOT_AVAILABLE m) ril_requests_11) = []"
  "map m_number (filter (\<lambda>m. \<not> allows RIL_E_RADIO_NOT_AVAILABLE m) ril_requests_15) = []"
  "map m_number (filter (\<lambda>m. \<not> allows RIL_E_RADIO_NOT_AVAILABLE m) ril_requests_19) = []"
  "map m_number (filter (\<lambda>m. \<not> allows RIL_E_RADIO_NOT_AVAILABLE m) ril_requests_24) = []"
  "map m_number (filter (\<lambda>m. \<not> allows RIL_E_RADIO_NOT_AVAILABLE m) ril_requests_27) = []"
  "map m_number (filter (\<lambda>m. \<not> allows RIL_E_RADIO_NOT_AVAILABLE m) ril_requests_29) = []"
  "map m_number (filter (\<lambda>m. \<not> allows RIL_E_RADIO_NOT_AVAILABLE m) ril_requests_33) = []"
  "map m_number (filter (\<lambda>m. \<not> allows RIL_E_RADIO_NOT_AVAILABLE m) ril_requests_37) = []"
  "map m_number (filter (\<lambda>m. \<not> allows RIL_E_RADIO_NOT_AVAILABLE m) ril_requests_42) = []"
  "map m_number (filter (\<lambda>m. \<not> allows RIL_E_RADIO_NOT_AVAILABLE m) ril_requests_46) = []"
  "map m_number (filter (\<lambda>m. \<not> allows RIL_E_RADIO_NOT_AVAILABLE m) ril_requests_50) = []"
  "map m_number (filter (\<lambda>m. \<not> allows RIL_E_RADIO_NOT_AVAILABLE m) ril_requests_55) = []"
  "map m_number (filter (\<lambda>m. \<not> allows RIL_E_RADIO_NOT_AVAILABLE m) ril_requests_60) = [61, 63, 64]"
  "map m_number (filter (\<lambda>m. \<not> allows RIL_E_RADIO_NOT_AVAILABLE m) ril_requests_65) = []"
  "map m_number (filter (\<lambda>m. \<not> allows RIL_E_RADIO_NOT_AVAILABLE m) ril_requests_71) = []"
  "map m_number (filter (\<lambda>m. \<not> allows RIL_E_RADIO_NOT_AVAILABLE m) ril_requests_76) = []"
  "map m_number (filter (\<lambda>m. \<not> allows RIL_E_RADIO_NOT_AVAILABLE m) ril_requests_81) = []"
  "map m_number (filter (\<lambda>m. \<not> allows RIL_E_RADIO_NOT_AVAILABLE m) ril_requests_86) = []"
  "map m_number (filter (\<lambda>m. \<not> allows RIL_E_RADIO_NOT_AVAILABLE m) ril_requests_90) = []"
  "map m_number (filter (\<lambda>m. \<not> allows RIL_E_RADIO_NOT_AVAILABLE m) ril_requests_95) = [95]"
  "map m_number (filter (\<lambda>m. \<not> allows RIL_E_RADIO_NOT_AVAILABLE m) ril_requests_99) = []"
  "map m_number (filter (\<lambda>m. \<not> allows RIL_E_RADIO_NOT_AVAILABLE m) ril_requests_104) = []"
  "map m_number (filter (\<lambda>m. \<not> allows RIL_E_RADIO_NOT_AVAILABLE m) ril_requests_110) = []"
  "map m_number (filter (\<lambda>m. \<not> allows RIL_E_RADIO_NOT_AVAILABLE m) ril_requests_114) = []"
  "map m_number (filter (\<lambda>m. \<not> allows RIL_E_RADIO_NOT_AVAILABLE m) ril_requests_121) = []"
  "map m_number (filter (\<lambda>m. \<not> allows RIL_E_RADIO_NOT_AVAILABLE m) ril_requests_127) = [127]"
  "map m_number (filter (\<lambda>m. \<not> allows RIL_E_RADIO_NOT_AVAILABLE m) ril_requests_133) = []"
  "map m_number (filter (\<lambda>m. \<not> allows RIL_E_RADIO_NOT_AVAILABLE m) ril_requests_139) = [143]"
  "map m_number (filter (\<lambda>m. \<not> allows RIL_E_RADIO_NOT_AVAILABLE m) ril_requests_144) = [144, 145]"
  by (simp_all add: request_defs)

lemma never_allowed:
  "map m_number (filter (\<lambda>m. \<not> allows RIL_E_SUCCESS m) ril_requests) = [124, 125]"
  "map m_number (filter (\<lambda>m. \<not> allows RIL_E_RADIO_NOT_AVAILABLE m) ril_requests) = [61, 63, 64, 95, 127, 143, 144, 145]"
  by (simp_all add: ril_requests_def group_success group_radio)

subsection \<open>Payloads\<close>

fun struct_name :: "payload \<Rightarrow> string list" where
  "struct_name (Struct s) = [s]"
| "struct_name (Structs s) = [s]"
| "struct_name _ = []"

definition named_structs :: "message list \<Rightarrow> string list" where
  "named_structs ms = concat (map (\<lambda>m. concat (map struct_name (m_data m @ m_response m))) ms)"

lemma named_structs_append: "named_structs (xs @ ys) = named_structs xs @ named_structs ys"
  by (simp add: named_structs_def)

lemma group_structs:
  "named_structs ril_requests_1 =
     [''RIL_CardStatus_v6'']"
  "named_structs ril_requests_6 =
     [''RIL_Call'', ''RIL_Dial'']"
  "named_structs ril_requests_11 =
     []"
  "named_structs ril_requests_15 =
     [''RIL_LastCallFailCauseInfo'']"
  "named_structs ril_requests_19 =
     [''RIL_SignalStrength'', ''RIL_VoiceRegistrationStateResponse'', ''RIL_DataRegistrationStateResponse'']"
  "named_structs ril_requests_24 =
     [''RIL_SMS_Response'', ''RIL_SMS_Response'']"
  "named_structs ril_requests_27 =
     [''RIL_Data_Call_Response_v11'', ''RIL_SIM_IO_v6'', ''RIL_SIM_IO_Response'']"
  "named_structs ril_requests_29 =
     []"
  "named_structs ril_requests_33 =
     [''RIL_CallForwardInfo'', ''RIL_CallForwardInfo'', ''RIL_CallForwardInfo'']"
  "named_structs ril_requests_37 =
     []"
  "named_structs ril_requests_42 =
     []"
  "named_structs ril_requests_46 =
     []"
  "named_structs ril_requests_50 =
     []"
  "named_structs ril_requests_55 =
     [''RIL_Data_Call_Response_v6'']"
  "named_structs ril_requests_60 =
     [''RIL_SMS_WriteArgs'']"
  "named_structs ril_requests_65 =
     []"
  "named_structs ril_requests_71 =
     [''RIL_NeighboringCell'']"
  "named_structs ril_requests_76 =
     []"
  "named_structs ril_requests_81 =
     []"
  "named_structs ril_requests_86 =
     [''RIL_CDMA_SMS_Message'', ''RIL_SMS_Response'', ''RIL_CDMA_SMS_Ack'', ''RIL_GSM_BroadcastSmsConfigInfo'']"
  "named_structs ril_requests_90 =
     [''RIL_GSM_BroadcastSmsConfigInfo'', ''RIL_CDMA_BroadcastSmsConfigInfo'',
     ''RIL_CDMA_BroadcastSmsConfigInfo'']"
  "named_structs ril_requests_95 =
     [''RIL_CDMA_SMS_WriteArgs'']"
  "named_structs ril_requests_99 =
     []"
  "named_structs ril_requests_104 =
     [''RIL_SIM_IO_Response'', ''RIL_CellInfo_v12'']"
  "named_structs ril_requests_110 =
     [''RIL_IMS_SMS_Message'', ''RIL_SMS_Response'']"
  "named_structs ril_requests_114 =
     [''RIL_SIM_APDU'', ''RIL_SIM_IO_Response'', ''RIL_OpenChannelParam'', ''RIL_SIM_APDU'',
     ''RIL_SIM_IO_Response'', ''RIL_NV_ReadItem'', ''RIL_NV_WriteItem'']"
  "named_structs ril_requests_121 =
     [''RIL_SelectUiccSub'', ''RIL_HardwareConfig'', ''RIL_DcRtInfo'']"
  "named_structs ril_requests_127 =
     [''RIL_DataProfileInfo'', ''RIL_RadioCapability'', ''RIL_RadioCapability'', ''RIL_RadioCapability'',
     ''RIL_LceStatusInfo'']"
  "named_structs ril_requests_133 =
     [''RIL_LceStatusInfo'', ''RIL_LceDataInfo'', ''RIL_ActivityStatsInfo'', ''RIL_CarrierRestrictions'',
     ''RIL_CarrierRestrictions'']"
  "named_structs ril_requests_139 =
     [''RIL_CarrierInfoForImsiEncryption'', ''RIL_NetworkScanRequest'']"
  "named_structs ril_requests_144 =
     [''RIL_RequestKeepalive'', ''RIL_KeepaliveStatus'']"
  "named_structs ril_notifications_1000 =
     [''RIL_SignalStrength'']"
  "named_structs ril_notifications_1010 =
     [''RIL_Data_Call_Response_v6'', ''RIL_SuppSvcNotification'', ''RIL_SimRefreshResponse_v7'',
     ''RIL_CDMA_SignalInfoRecord'']"
  "named_structs ril_notifications_1020 =
     [''RIL_CDMA_SMS_Message'', ''RIL_CDMA_CallWaiting'', ''RIL_CDMA_InformationRecords'']"
  "named_structs ril_notifications_1032 =
     [''RIL_CellInfo_v12'', ''RIL_HardwareConfig'', ''RIL_DcRtInfo'', ''RIL_RadioCapability'',
     ''RIL_StkCcUnsolSsResponse'']"
  "named_structs ril_notifications_1044 =
     [''RIL_LceDataInfo'', ''RIL_PCO_Data'', ''RIL_NetworkScanResult'', ''RIL_KeepaliveStatus'']"
  by (simp_all add: named_structs_def request_defs notification_defs)

text \<open>The structures the interface declares, by name.\<close>

definition ril_structs :: "ctype \<Rightarrow> (string \<times> fields) list" where
  "ril_structs nv_item =
    [(''RIL_RadioCapability'', RIL_RadioCapability),
     (''RIL_UUS_Info'', RIL_UUS_Info),
     (''RIL_CDMA_SignalInfoRecord'', RIL_CDMA_SignalInfoRecord),
     (''RIL_Call'', RIL_Call),
     (''RIL_Data_Call_Response_v4'', RIL_Data_Call_Response_v4),
     (''RIL_Data_Call_Response_v6'', RIL_Data_Call_Response_v6),
     (''RIL_Data_Call_Response_v9'', RIL_Data_Call_Response_v9),
     (''RIL_Data_Call_Response_v11'', RIL_Data_Call_Response_v11),
     (''RIL_IMS_SMS_Message'', RIL_IMS_SMS_Message),
     (''RIL_SMS_Response'', RIL_SMS_Response),
     (''RIL_SMS_Response_Ext'', RIL_SMS_Response_Ext),
     (''RIL_SMS_WriteArgs'', RIL_SMS_WriteArgs),
     (''RIL_Dial'', RIL_Dial),
     (''RIL_SIM_IO_v5'', RIL_SIM_IO_v5),
     (''RIL_SIM_IO_v6'', RIL_SIM_IO_v6),
     (''RIL_SIM_APDU'', RIL_SIM_APDU),
     (''RIL_SIM_IO_Response'', RIL_SIM_IO_Response),
     (''RIL_CallForwardInfo'', RIL_CallForwardInfo),
     (''RIL_NeighboringCell'', RIL_NeighboringCell),
     (''RIL_LceStatusInfo'', RIL_LceStatusInfo),
     (''RIL_LceDataInfo'', RIL_LceDataInfo),
     (''RIL_Carrier'', RIL_Carrier),
     (''RIL_CarrierRestrictions'', RIL_CarrierRestrictions),
     (''RIL_CarrierInfoForImsiEncryption'', RIL_CarrierInfoForImsiEncryption),
     (''RIL_LastCallFailCauseInfo'', RIL_LastCallFailCauseInfo),
     (''RIL_SuppSvcNotification'', RIL_SuppSvcNotification),
     (''RIL_AppStatus'', RIL_AppStatus),
     (''RIL_CardStatus_v5'', RIL_CardStatus_v5),
     (''RIL_CardStatus_v6'', RIL_CardStatus_v6),
     (''RIL_SimRefreshResponse_v7'', RIL_SimRefreshResponse_v7),
     (''RIL_CDMA_CallWaiting_v5'', RIL_CDMA_CallWaiting_v5),
     (''RIL_CDMA_CallWaiting_v6'', RIL_CDMA_CallWaiting_v6),
     (''RIL_GSM_BroadcastSmsConfigInfo'', RIL_GSM_BroadcastSmsConfigInfo),
     (''RIL_GW_SignalStrength'', RIL_GW_SignalStrength),
     (''RIL_GSM_SignalStrength_v12'', RIL_GSM_SignalStrength_v12),
     (''RIL_SignalStrengthWcdma'', RIL_SignalStrengthWcdma),
     (''RIL_CDMA_SignalStrength'', RIL_CDMA_SignalStrength),
     (''RIL_EVDO_SignalStrength'', RIL_EVDO_SignalStrength),
     (''RIL_LTE_SignalStrength'', RIL_LTE_SignalStrength),
     (''RIL_LTE_SignalStrength_v8'', RIL_LTE_SignalStrength_v8),
     (''RIL_TD_SCDMA_SignalStrength'', RIL_TD_SCDMA_SignalStrength),
     (''RIL_SignalStrength_v5'', RIL_SignalStrength_v5),
     (''RIL_SignalStrength_v6'', RIL_SignalStrength_v6),
     (''RIL_SignalStrength_v8'', RIL_SignalStrength_v8),
     (''RIL_SignalStrength_v10'', RIL_SignalStrength_v10),
     (''RIL_CellIdentityGsm'', RIL_CellIdentityGsm),
     (''RIL_CellIdentityGsm_v12'', RIL_CellIdentityGsm_v12),
     (''RIL_CellIdentityWcdma'', RIL_CellIdentityWcdma),
     (''RIL_CellIdentityWcdma_v12'', RIL_CellIdentityWcdma_v12),
     (''RIL_CellIdentityCdma'', RIL_CellIdentityCdma),
     (''RIL_CellIdentityLte'', RIL_CellIdentityLte),
     (''RIL_CellIdentityLte_v12'', RIL_CellIdentityLte_v12),
     (''RIL_CellIdentityTdscdma'', RIL_CellIdentityTdscdma),
     (''RIL_CellInfoGsm'', RIL_CellInfoGsm),
     (''RIL_CellInfoGsm_v12'', RIL_CellInfoGsm_v12),
     (''RIL_CellInfoWcdma'', RIL_CellInfoWcdma),
     (''RIL_CellInfoWcdma_v12'', RIL_CellInfoWcdma_v12),
     (''RIL_CellInfoCdma'', RIL_CellInfoCdma),
     (''RIL_CellInfoLte'', RIL_CellInfoLte),
     (''RIL_CellInfoLte_v12'', RIL_CellInfoLte_v12),
     (''RIL_CellInfoTdscdma'', RIL_CellInfoTdscdma),
     (''RIL_CellInfo'', RIL_CellInfo),
     (''RIL_CellInfo_v12'', RIL_CellInfo_v12),
     (''RIL_CellIdentity_v16'', RIL_CellIdentity_v16),
     (''RIL_VoiceRegistrationStateResponse'', RIL_VoiceRegistrationStateResponse),
     (''RIL_DataRegistrationStateResponse'', RIL_DataRegistrationStateResponse),
     (''RIL_CDMA_DisplayInfoRecord'', RIL_CDMA_DisplayInfoRecord),
     (''RIL_CDMA_NumberInfoRecord'', RIL_CDMA_NumberInfoRecord),
     (''RIL_CDMA_RedirectingNumberInfoRecord'', RIL_CDMA_RedirectingNumberInfoRecord),
     (''RIL_CDMA_LineControlInfoRecord'', RIL_CDMA_LineControlInfoRecord),
     (''RIL_CDMA_T53_CLIRInfoRecord'', RIL_CDMA_T53_CLIRInfoRecord),
     (''RIL_CDMA_T53_AudioControlInfoRecord'', RIL_CDMA_T53_AudioControlInfoRecord),
     (''RIL_CDMA_InformationRecord'', RIL_CDMA_InformationRecord),
     (''RIL_CDMA_InformationRecords'', RIL_CDMA_InformationRecords),
     (''RIL_NV_ReadItem'', RIL_NV_ReadItem nv_item),
     (''RIL_NV_WriteItem'', RIL_NV_WriteItem nv_item),
     (''RIL_HardwareConfig_Modem'', RIL_HardwareConfig_Modem),
     (''RIL_HardwareConfig_Sim'', RIL_HardwareConfig_Sim),
     (''RIL_HardwareConfig'', RIL_HardwareConfig),
     (''RIL_CfData'', RIL_CfData),
     (''RIL_StkCcUnsolSsResponse'', RIL_StkCcUnsolSsResponse),
     (''RIL_DcRtInfo'', RIL_DcRtInfo),
     (''RIL_DataProfileInfo'', RIL_DataProfileInfo),
     (''RIL_DataProfileInfo_v15'', RIL_DataProfileInfo_v15),
     (''RIL_ActivityStatsInfo'', RIL_ActivityStatsInfo),
     (''RIL_OpenChannelParams'', RIL_OpenChannelParams),
     (''RIL_RadioAccessSpecifier'', RIL_RadioAccessSpecifier),
     (''RIL_NetworkScanRequest'', RIL_NetworkScanRequest),
     (''RIL_NetworkScanResult'', RIL_NetworkScanResult),
     (''RIL_RadioFunctions'', RIL_RadioFunctions),
     (''RIL_InitialAttachApn'', RIL_InitialAttachApn),
     (''RIL_InitialAttachApn_v15'', RIL_InitialAttachApn_v15),
     (''RIL_SimAuthentication'', RIL_SimAuthentication),
     (''RIL_PCO_Data'', RIL_PCO_Data),
     (''RIL_KeepaliveRequest'', RIL_KeepaliveRequest),
     (''RIL_KeepaliveStatus'', RIL_KeepaliveStatus)]"

definition undeclared :: "ctype \<Rightarrow> string \<Rightarrow> bool" where
  "undeclared nv_item s \<longleftrightarrow> s \<notin> set (map fst (ril_structs nv_item))"

lemma group_undeclared:
  "filter (undeclared nv_item) (named_structs ril_requests_1) = []"
  "filter (undeclared nv_item) (named_structs ril_requests_6) = []"
  "filter (undeclared nv_item) (named_structs ril_requests_11) = []"
  "filter (undeclared nv_item) (named_structs ril_requests_15) = []"
  "filter (undeclared nv_item) (named_structs ril_requests_19) = [''RIL_SignalStrength'']"
  "filter (undeclared nv_item) (named_structs ril_requests_24) = []"
  "filter (undeclared nv_item) (named_structs ril_requests_27) = []"
  "filter (undeclared nv_item) (named_structs ril_requests_29) = []"
  "filter (undeclared nv_item) (named_structs ril_requests_33) = []"
  "filter (undeclared nv_item) (named_structs ril_requests_37) = []"
  "filter (undeclared nv_item) (named_structs ril_requests_42) = []"
  "filter (undeclared nv_item) (named_structs ril_requests_46) = []"
  "filter (undeclared nv_item) (named_structs ril_requests_50) = []"
  "filter (undeclared nv_item) (named_structs ril_requests_55) = []"
  "filter (undeclared nv_item) (named_structs ril_requests_60) = []"
  "filter (undeclared nv_item) (named_structs ril_requests_65) = []"
  "filter (undeclared nv_item) (named_structs ril_requests_71) = []"
  "filter (undeclared nv_item) (named_structs ril_requests_76) = []"
  "filter (undeclared nv_item) (named_structs ril_requests_81) = []"
  "filter (undeclared nv_item) (named_structs ril_requests_86) = [''RIL_CDMA_SMS_Message'', ''RIL_CDMA_SMS_Ack'']"
  "filter (undeclared nv_item) (named_structs ril_requests_90) = [''RIL_CDMA_BroadcastSmsConfigInfo'', ''RIL_CDMA_BroadcastSmsConfigInfo'']"
  "filter (undeclared nv_item) (named_structs ril_requests_95) = [''RIL_CDMA_SMS_WriteArgs'']"
  "filter (undeclared nv_item) (named_structs ril_requests_99) = []"
  "filter (undeclared nv_item) (named_structs ril_requests_104) = []"
  "filter (undeclared nv_item) (named_structs ril_requests_110) = []"
  "filter (undeclared nv_item) (named_structs ril_requests_114) = [''RIL_OpenChannelParam'']"
  "filter (undeclared nv_item) (named_structs ril_requests_121) = [''RIL_SelectUiccSub'']"
  "filter (undeclared nv_item) (named_structs ril_requests_127) = []"
  "filter (undeclared nv_item) (named_structs ril_requests_133) = []"
  "filter (undeclared nv_item) (named_structs ril_requests_139) = []"
  "filter (undeclared nv_item) (named_structs ril_requests_144) = [''RIL_RequestKeepalive'']"
  "filter (undeclared nv_item) (named_structs ril_notifications_1000) = [''RIL_SignalStrength'']"
  "filter (undeclared nv_item) (named_structs ril_notifications_1010) = []"
  "filter (undeclared nv_item) (named_structs ril_notifications_1020) = [''RIL_CDMA_SMS_Message'', ''RIL_CDMA_CallWaiting'']"
  "filter (undeclared nv_item) (named_structs ril_notifications_1032) = []"
  "filter (undeclared nv_item) (named_structs ril_notifications_1044) = []"
  by (simp_all add: group_structs undeclared_def ril_structs_def)

text \<open>The structures the contracts name are declared here or in headers the interface includes, except
  for \<open>RIL_SignalStrength\<close> and \<open>RIL_CDMA_CallWaiting\<close>, which have versions, and for
  \<open>RIL_OpenChannelParam\<close> and \<open>RIL_RequestKeepalive\<close>, which are declared under other names.\<close>

lemma undeclared_structs:
  "filter (undeclared nv_item) (named_structs (ril_requests @ ril_notifications)) =
     [''RIL_SignalStrength'', ''RIL_CDMA_SMS_Message'', ''RIL_CDMA_SMS_Ack'',
     ''RIL_CDMA_BroadcastSmsConfigInfo'', ''RIL_CDMA_BroadcastSmsConfigInfo'', ''RIL_CDMA_SMS_WriteArgs'',
     ''RIL_OpenChannelParam'', ''RIL_SelectUiccSub'', ''RIL_RequestKeepalive'', ''RIL_SignalStrength'',
     ''RIL_CDMA_SMS_Message'', ''RIL_CDMA_CallWaiting'']"
  by (simp add: ril_requests_def ril_notifications_def named_structs_append group_undeclared)

end
