(* ===== verification/Ril_Functions.thy ===== *)
theory Ril_Functions
  imports Ril_Layout
begin

text \<open>
  The functions of \<open>include/telephony/ril.h\<close> by which the radio library and the telephony service
  call each other.  None of them has a body in the repository; what the header fixes is their
  signatures, and these depend on two macros of the build: \<open>ANDROID_MULTI_SIM\<close> adds the socket to
  some of them, \<open>RIL_SHLIB\<close> decides whether the service hands its functions to the library in a
  \<open>RIL_Env\<close> or exports them by name.  The lemmas say that both ways offer the same functions, and
  what a caller and a callee built for different numbers of sockets still agree on.
\<close>

subsection \<open>Signatures\<close>

text \<open>The type of the result, \<open>None\<close> for \<open>void\<close>, and the types of the parameters.  \<open>size_t\<close> is
  \<open>unsigned int\<close> on the target; an empty pair of parentheses is read as no parameter, as C++ does.\<close>

record fsig =
  sig_result :: "ctype option"
  sig_params :: "ctype list"

abbreviation RIL_Token :: ctype where
  "RIL_Token \<equiv> CPtr ''void''"

abbreviation size_t :: ctype where
  "size_t \<equiv> CUInt"

abbreviation socket_param :: "bool \<Rightarrow> ctype list" where
  "socket_param multi \<equiv> (if multi then [CEnum ''RIL_SOCKET_ID''] else [])"

subsection \<open>What the library offers: the types of \<open>RIL_RadioFunctions\<close>\<close>

definition RIL_RequestFunc :: "bool \<Rightarrow> fsig" where
  "RIL_RequestFunc multi =
    (if multi
     then \<lparr>sig_result = None, sig_params = [CInt, CPtr ''void'', size_t, RIL_Token, CEnum ''RIL_SOCKET_ID'']\<rparr>
     else \<lparr>sig_result = None, sig_params = [CInt, CPtr ''void'', size_t, RIL_Token]\<rparr>)"

definition RIL_RadioStateRequest :: "bool \<Rightarrow> fsig" where
  "RIL_RadioStateRequest multi =
    (if multi
     then \<lparr>sig_result = Some (CEnum ''RIL_RadioState''), sig_params = [CEnum ''RIL_SOCKET_ID'']\<rparr>
     else \<lparr>sig_result = Some (CEnum ''RIL_RadioState''), sig_params = []\<rparr>)"

definition RIL_Supports :: fsig where
  "RIL_Supports = \<lparr>sig_result = Some CInt, sig_params = [CInt]\<rparr>"

definition RIL_Cancel :: fsig where
  "RIL_Cancel = \<lparr>sig_result = None, sig_params = [RIL_Token]\<rparr>"

definition RIL_TimedCallback :: fsig where
  "RIL_TimedCallback = \<lparr>sig_result = None, sig_params = [CPtr ''void'']\<rparr>"

definition RIL_GetVersion :: fsig where
  "RIL_GetVersion = \<lparr>sig_result = Some (CPtr ''const char''), sig_params = []\<rparr>"

text \<open>The type of a function pointer that is named by a \<open>typedef\<close>.\<close>

definition function_types :: "bool \<Rightarrow> (string \<times> fsig) list" where
  "function_types multi =
    [(''RIL_RequestFunc'', RIL_RequestFunc multi), (''RIL_RadioStateRequest'', RIL_RadioStateRequest multi),
     (''RIL_Supports'', RIL_Supports), (''RIL_Cancel'', RIL_Cancel), (''RIL_TimedCallback'', RIL_TimedCallback),
     (''RIL_GetVersion'', RIL_GetVersion)]"

subsection \<open>What the service offers\<close>

definition RIL_Env :: "bool \<Rightarrow> (string \<times> fsig) list" where
  "RIL_Env multi =
    [(''OnRequestComplete'', \<lparr>sig_result = None, sig_params = [RIL_Token, CEnum ''RIL_Errno'', CPtr ''void'', size_t]\<rparr>),
     (''OnUnsolicitedResponse'',
        if multi
        then \<lparr>sig_result = None, sig_params = [CInt, CPtr ''const void'', size_t, CEnum ''RIL_SOCKET_ID'']\<rparr>
        else \<lparr>sig_result = None, sig_params = [CInt, CPtr ''const void'', size_t]\<rparr>),
     (''RequestTimedCallback'',
        \<lparr>sig_result = None, sig_params = [CPtr ''RIL_TimedCallback'', CPtr ''void'', CPtr ''const struct timeval'']\<rparr>),
     (''OnRequestAck'', \<lparr>sig_result = None, sig_params = [RIL_Token]\<rparr>)]"

text \<open>The structure is a list of function pointers.\<close>

definition RIL_Env_fields :: "bool \<Rightarrow> fields" where
  "RIL_Env_fields multi = map (\<lambda>(n, _). (n, CPtr n)) (RIL_Env multi)"

definition RIL_Init :: fsig where
  "RIL_Init = \<lparr>sig_result = Some (CPtr ''const RIL_RadioFunctions''),
     sig_params = [CPtr ''const struct RIL_Env'', CInt, CPtr ''char *'']\<rparr>"

definition RIL_SAP_Init :: fsig where
  "RIL_SAP_Init = \<lparr>sig_result = Some (CPtr ''const RIL_RadioFunctions''),
     sig_params = [CPtr ''const struct RIL_Env'', CInt, CPtr ''char *'']\<rparr>"

definition RIL_register :: fsig where
  "RIL_register = \<lparr>sig_result = None, sig_params = [CPtr ''const RIL_RadioFunctions'']\<rparr>"

definition rilc_thread_pool :: fsig where
  "rilc_thread_pool = \<lparr>sig_result = None, sig_params = []\<rparr>"

definition RIL_onRequestComplete :: fsig where
  "RIL_onRequestComplete =
    \<lparr>sig_result = None, sig_params = [RIL_Token, CEnum ''RIL_Errno'', CPtr ''void'', size_t]\<rparr>"

definition RIL_onRequestAck :: fsig where
  "RIL_onRequestAck = \<lparr>sig_result = None, sig_params = [RIL_Token]\<rparr>"

definition RIL_onUnsolicitedResponse :: "bool \<Rightarrow> fsig" where
  "RIL_onUnsolicitedResponse multi =
    (if multi
     then \<lparr>sig_result = None, sig_params = [CInt, CPtr ''const void'', size_t, CEnum ''RIL_SOCKET_ID'']\<rparr>
     else \<lparr>sig_result = None, sig_params = [CInt, CPtr ''const void'', size_t]\<rparr>)"

definition RIL_requestTimedCallback :: fsig where
  "RIL_requestTimedCallback =
    \<lparr>sig_result = None, sig_params = [CPtr ''RIL_TimedCallback'', CPtr ''void'', CPtr ''const struct timeval'']\<rparr>"

text \<open>The functions declared in a build: with \<open>RIL_SHLIB\<close> those the library has to define, without it
  those of the service.\<close>

definition ril_prototypes :: "bool \<Rightarrow> bool \<Rightarrow> (string \<times> fsig) list" where
  "ril_prototypes shlib multi =
    (if shlib then [(''RIL_Init'', RIL_Init), (''RIL_SAP_Init'', RIL_SAP_Init)]
     else [(''RIL_register'', RIL_register), (''rilc_thread_pool'', rilc_thread_pool),
           (''RIL_onRequestComplete'', RIL_onRequestComplete), (''RIL_onRequestAck'', RIL_onRequestAck),
           (''RIL_onUnsolicitedResponse'', RIL_onUnsolicitedResponse multi),
           (''RIL_requestTimedCallback'', RIL_requestTimedCallback)])"

subsection \<open>The two builds\<close>

text \<open>The exported name of a function of the environment: its own with \<open>RIL_\<close> and a small letter.\<close>

definition exported_name :: "string \<Rightarrow> string" where
  "exported_name n = ''RIL_'' @ (if hd n = CHR ''O'' then CHR ''o'' else CHR ''r'') # tl n"

text \<open>A shared library is handed every service function under the type under which the other build
  exports it, and no other; only registering itself and the thread pool have no counterpart.\<close>

lemma env_is_exported:
  "(n, s) \<in> set (RIL_Env multi) \<Longrightarrow> map_of (ril_prototypes False multi) (exported_name n) = Some s"
  by (auto simp: RIL_Env_def ril_prototypes_def exported_name_def RIL_onRequestComplete_def RIL_onRequestAck_def
      RIL_onUnsolicitedResponse_def RIL_requestTimedCallback_def)

lemma exported_in_env:
  "(n, s) \<in> set (ril_prototypes False multi) \<Longrightarrow> n \<notin> exported_name ` fst ` set (RIL_Env multi) \<Longrightarrow>
    n = ''RIL_register'' \<or> n = ''rilc_thread_pool''"
  by (auto simp: RIL_Env_def ril_prototypes_def exported_name_def)

text \<open>The types of all pointers in \<open>RIL_RadioFunctions\<close> are declared.\<close>

lemma radio_functions_typed:
  "(n, CPtr t) \<in> set RIL_RadioFunctions \<Longrightarrow> t \<in> fst ` set (function_types multi)"
  by (auto simp: RIL_RadioFunctions_def function_types_def)

subsection \<open>One socket and several\<close>

text \<open>The build for several cards only appends the socket, to three functions; the pointers stay at
  their places in \<open>RIL_Env\<close>.  A callee for one card that is called by a service for several therefore
  finds its own parameters; a callee for several that is called for one has no socket.\<close>

lemma sockets_append:
  "map_of (function_types True) n = Some s \<Longrightarrow> \<exists>s'. map_of (function_types False) n = Some s' \<and>
     sig_result s = sig_result s' \<and>
     sig_params s = sig_params s' @ socket_param (n = ''RIL_RequestFunc'' \<or> n = ''RIL_RadioStateRequest'')"
  by (auto simp: function_types_def RIL_RequestFunc_def RIL_RadioStateRequest_def split: if_splits)

lemma env_sockets_append:
  "map_of (RIL_Env True) n = Some s \<Longrightarrow> \<exists>s'. map_of (RIL_Env False) n = Some s' \<and>
     sig_result s = sig_result s' \<and> sig_params s = sig_params s' @ socket_param (n = ''OnUnsolicitedResponse'')"
  by (auto simp: RIL_Env_def split: if_splits)

lemma env_same_layout: "RIL_Env_fields True = RIL_Env_fields False"
  by (simp add: RIL_Env_fields_def RIL_Env_def)

end
