(* ===== verification/Device_Constants.thy ===== *)
theory Device_Constants
  imports Prelude_C Complex_Main
begin

text \<open>
  The headers that other projects read when they are built for this device: the nodes and factors
  of the lights (\<open>samsung_lights.h\<close>), the infrared transmitter (\<open>samsung_ir.h\<close>), the files of
  the MAC address loader (\<open>samsung_macloader.h\<close>), the owners of system properties
  (\<open>device_perms.h\<close>) and the Bluetooth stack's options (\<open>bdroid_buildcfg.h\<close>).  The code that
  reads them is not in the repository; what the headers say of their values is proved of them.
\<close>

subsection \<open>Lights\<close>

definition PANEL_BRIGHTNESS_NODE :: string where
  "PANEL_BRIGHTNESS_NODE = ''/sys/class/leds/lcd-backlight/brightness''"
definition PANEL_MAX_BRIGHTNESS_NODE :: string where
  "PANEL_MAX_BRIGHTNESS_NODE = ''/sys/class/leds/lcd-backlight/max_brightness''"
definition BUTTON_BRIGHTNESS_NODE :: string where
  "BUTTON_BRIGHTNESS_NODE = ''/sys/class/sec/sec_touchkey/brightness''"
definition LED_BLINK_NODE :: string where
  "LED_BLINK_NODE = ''/sys/class/sec/led/led_blink''"

definition LED_ADJUSTMENT_R :: rat where "LED_ADJUSTMENT_R = 1"
definition LED_ADJUSTMENT_G :: rat where "LED_ADJUSTMENT_G = 1"
definition LED_ADJUSTMENT_B :: rat where "LED_ADJUSTMENT_B = 1"

definition LED_BRIGHTNESS_BATTERY :: nat where "LED_BRIGHTNESS_BATTERY = 255"
definition LED_BRIGHTNESS_NOTIFICATION :: nat where "LED_BRIGHTNESS_NOTIFICATION = 255"
definition LED_BRIGHTNESS_ATTENTION :: nat where "LED_BRIGHTNESS_ATTENTION = 255"

text \<open>The ranges the header gives for its factors.\<close>

lemma light_ranges:
  "\<forall>f\<in>{LED_ADJUSTMENT_R, LED_ADJUSTMENT_G, LED_ADJUSTMENT_B}. 0 \<le> f \<and> f \<le> 1"
  "\<forall>b\<in>{LED_BRIGHTNESS_BATTERY, LED_BRIGHTNESS_NOTIFICATION, LED_BRIGHTNESS_ATTENTION}. b \<le> 255"
  by (simp_all add: LED_ADJUSTMENT_R_def LED_ADJUSTMENT_G_def LED_ADJUSTMENT_B_def LED_BRIGHTNESS_BATTERY_def
      LED_BRIGHTNESS_NOTIFICATION_def LED_BRIGHTNESS_ATTENTION_def)

subsection \<open>Infrared\<close>

definition IR_PATH :: string where "IR_PATH = ''/sys/class/sec/sec_ir/ir_send''"

text \<open>Defined: the signal is passed on without a conversion to pulses.\<close>

definition MS_IR_SIGNAL :: bool where "MS_IR_SIGNAL = True"

record ConsumerIrFreqRange =
  ir_min :: nat
  ir_max :: nat

definition consumerirFreqs :: "ConsumerIrFreqRange list" where
  "consumerirFreqs =
    [\<lparr>ir_min = 30000, ir_max = 30000\<rparr>, \<lparr>ir_min = 33000, ir_max = 33000\<rparr>,
     \<lparr>ir_min = 36000, ir_max = 36000\<rparr>, \<lparr>ir_min = 38000, ir_max = 38000\<rparr>,
     \<lparr>ir_min = 40000, ir_max = 40000\<rparr>, \<lparr>ir_min = 56000, ir_max = 56000\<rparr>]"

text \<open>The ranges are not empty, disjoint and ascending.\<close>

lemma frequencies_ascending:
  "(\<forall>r\<in>set consumerirFreqs. ir_min r \<le> ir_max r) \<and> sorted_wrt (\<lambda>r s. ir_max r < ir_min s) consumerirFreqs"
  by (simp add: consumerirFreqs_def)

subsection \<open>Wireless\<close>

definition WIFI_DRIVER_NVRAM_PATH :: string where
  "WIFI_DRIVER_NVRAM_PATH = ''/vendor/etc/wifi/nvram_net.txt''"
definition WIFI_DRIVER_NVRAM_PATH_PARAM :: string where
  "WIFI_DRIVER_NVRAM_PATH_PARAM = ''/sys/module/dhd/parameters/nvram_path''"
definition MACADDR_PATH :: string where "MACADDR_PATH = ''/efs/wifi/.mac.info''"
definition CID_PATH :: string where "CID_PATH = ''/data/.cid.info''"

subsection \<open>Property owners\<close>

datatype aid = AID_SYSTEM | AID_MEDIA

definition PROPERTY_PERMS_APPEND :: "(string \<times> aid \<times> nat) list" where
  "PROPERTY_PERMS_APPEND =
    [(''persist.audio.'', AID_SYSTEM, 0), (''persist.sys.camera.'', AID_MEDIA, 0), (''wlan.hdcp2.'', AID_MEDIA, 0)]"

subsection \<open>Bluetooth\<close>

definition BTM_DEF_LOCAL_NAME :: string where "BTM_DEF_LOCAL_NAME = ''Samsung Galaxy S5''"
definition BTA_DISABLE_DELAY :: nat where "BTA_DISABLE_DELAY = 1000"
definition BTM_WBS_INCLUDED :: bool where "BTM_WBS_INCLUDED = True"
definition BTIF_HF_WBS_PREFERRED :: bool where "BTIF_HF_WBS_PREFERRED = True"

end
