(* ===== verification/Spec2Isabelle.thy ===== *)
theory Spec2Isabelle
  imports Sha1_Props Pn547_Firmware Tz_Enroll Fp_Sections Fp_Interleave Fp_Lifecycle Tz_Structs Camera_Props
    Recovery Ril_Requests Ril_Functions Device_Constants
begin

text \<open>
  Verification library for the common device tree of the Samsung klte phones.  The tree holds
  configuration for the most part; its own program code is the fingerprint HAL
  (\<open>fingerprint/\<close>), the camera wrapper (\<open>camera/\<close>), the firmware image of the NFC chip
  (\<open>nfc/pn547/\<close>), a shim (\<open>libshims/\<close>) and the key table of the recovery (\<open>recovery/\<close>).
  Its headers declare the interface to the radio library (\<open>include/telephony/ril.h\<close>) and constants
  for other projects (\<open>include/\<close>, \<open>bluetooth/\<close>).

  \<^bold>\<open>The parts and how they interact.\<close>  The framework calls the entry points of
  \<open>fingerprint.c\<close>.  They talk to the sensor through \<open>ioctl\<close>, keep the enrolled fingers in
  \<open>tz.finger\<close> and in a SQLite table per group, and start the worker threads of
  \<open>fingerprint_tz.c\<close>: one authenticates, one enrols, one times an enrolment out.  The threads send
  commands to the trusted application \<open>securefp\<close> through a shared buffer and the wrapper
  \<open>QSEEComAPI.c\<close>, and report to the framework by a callback.  Threads and entry points
  meet in one variable, \<open>tz.state\<close>: an entry point sets SCAN, ENROLL or CANCEL, the thread
  answers with IDLE.  \<open>hash.c\<close> gives the challenge and the authenticator id.

  \<^bold>\<open>Theories and sources.\<close>
  \<^item> \<open>Prelude_C\<close>: bytes, little-endian stores and loads, \<open>memcpy\<close>/\<open>memset\<close>, the judgements
    \<open>on_return\<close> (if it returns, then) and \<open>returns\<close> (it returns, and then) with their rules.
  \<^item> \<open>Sha1\<close>, \<open>Sha1_Correct\<close>, \<open>Sha1_Props\<close>: \<open>hash.c\<close>, against a byte-list specification of
    FIPS 180-4; what the callers of the hash really hash.
  \<^item> \<open>Fp_State\<close>: \<open>fingerprint_common.h\<close>, the globals \<open>tz\<close> and \<open>sensor\<close>, the device
    object, the mutexes, and the calls that leave the program.
  \<^item> \<open>Qseecom\<close>: \<open>QSEEComAPI.c\<close>.  \<open>Tz_Layout\<close>: \<open>fingerprint_tz.h\<close>, sizes, offsets,
    command numbers, \<open>QSEECOM_ALIGN\<close>.
  \<^item> \<open>Fp_Sensor\<close>, \<open>Fp_Notice\<close>, \<open>Fp_Db\<close>, \<open>Fp_Hal\<close>: \<open>fingerprint.c\<close>, the functions
    \<open>sensor_*\<close>, \<open>send_*_notice\<close>, \<open>db_*\<close> and \<open>fingerprint_*\<close>.
  \<^item> \<open>Tz_Session\<close>, \<open>Tz_Capture\<close>, \<open>Tz_Workers\<close>: \<open>fingerprint_tz.c\<close>, the session with the
    application, the capture of an image, the threads and the functions that start them.
  \<^item> \<open>Camera\<close>, \<open>Camera_Props\<close>: \<open>CameraWrapper.cpp\<close>.  \<open>Recovery\<close>:
    \<open>recovery_keys.c\<close> and \<open>camera_shim.c\<close>.
  \<^item> \<open>C_Layout\<close>: sizes, alignment and offsets of C structures on the 32-bit target.
    \<open>Tz_Structs\<close>: the structures of \<open>fingerprint_tz.h\<close>, \<open>QSEEComAPI.h\<close> and \<open>vfs61xx_ioctl.h\<close>.
  \<^item> \<open>Ril\<close>, \<open>Ril_Layout\<close>, \<open>Ril_Requests\<close>, \<open>Ril_Functions\<close>: the enumerations, the structures, the
    requests and notifications, the function types and prototypes of \<open>ril.h\<close>.  \<open>Device_Constants\<close>: \<open>samsung_lights.h\<close>, \<open>samsung_ir.h\<close>,
    \<open>samsung_macloader.h\<close>, \<open>device_perms.h\<close>, \<open>bdroid_buildcfg.h\<close>.
  \<^item> \<open>Pn547_Rows_A\<close>, \<open>Pn547_Rows_B\<close>, \<open>Pn547_Firmware\<close>: \<open>libpn547_fw.c\<close>, byte for byte.

  \<^bold>\<open>The model of the fingerprint HAL.\<close>  A function of the source is a function from a
  \<open>world\<close> (the globals, the device, the shared buffer, the mutexes, the trace of calls that left the
  program) to an optional result and world.  \<open>None\<close> is undefined behaviour or not returning: a NULL
  or dead handle, an index outside an array, locking a mutex the caller holds, a loop that does
  not end.  Loops over an unknown number of rounds are \<open>partial_function (option)\<close>, so no fuel is
  chosen anywhere; that they return is proved where it is claimed.  Numbers keep the widths of
  the source where they can wrap.  What is outside the repository (the QSEECom library and the
  application, SQLite, the kernel, the clock) answers through an \<open>env\<close>, whose components are
  functions of the trace, so every answer may depend on everything that has happened.

  Other threads act at the calls where the code gives them an occasion (taking a mutex, waiting,
  joining a thread, sleeping): there the environment supplies a list of events, each the effect of a whole locked
  section of another thread: a write of the worker state or the sensor's signal.
  \<open>Fp_Sections\<close> shows that the functions that have these effects,
  run alone, do exactly what the events say.

  \<^bold>\<open>Interfaces.\<close>  \<open>Fp_Frame\<close> states what a component promises to its callers as a locale:
  \<open>world_frame\<close> assumes of a relation on worlds that it is reflexive, transitive and contains the
  steps that every function of the HAL is made of; its extensions add the steps that only
  some functions make (\<open>capture_frame\<close>, \<open>match_frame\<close>, \<open>authenticate_frame\<close>, \<open>image_frame\<close>,
  \<open>finger_frame\<close>, \<open>enroll_frame\<close>, \<open>removal_frame\<close>, \<open>service_frame\<close>, \<open>hal_frame\<close>).  In each the relation is
  carried once through all functions; an interpretation on a relation of the model then gives
  one fact for every function: mutexes are given back (\<open>locks\<close>), commands keep to the
  buffer (\<open>layout\<close>), the sensor is switched on and off as its driver wants (\<open>driver\<close>), the slots, the group, the messages of a kind, the storage and the handles are
  kept (\<open>fingers\<close>, \<open>device\<close>, \<open>images\<close>, \<open>storage\<close>, \<open>app\<close>).

  \<^bold>\<open>What is shown.\<close>
  \<^item> Authentication (\<open>Tz_Match\<close>, \<open>Tz_Auth\<close>, \<open>Tz_Live\<close>): a finger is reported only after a match
    the application accepted, and it is the finger the application named; a thread whose sensor
    and application answer does report; waiting and capturing end when asked to; what a look at the
    worker state does before each step of a capture.
  \<^item> Enrolment (\<open>Tz_Enroll\<close>, \<open>Fp_Entry\<close>): only the free slot is written, every number reported counts
    an image the application has just accepted, bad tokens are refused without an effect, a full device
    hangs.  Removing (\<open>Fp_Entry\<close>): the statements executed, their answers and the messages.
  \<^item> Starting and cancelling (\<open>Fp_Start\<close>, \<open>Fp_Cancel\<close>, \<open>Fp_Races\<close>): what a busy or failed start leaves
    behind, what a refused enrolment leaves switched on, when a cancellation is reported, when it
    returns and when it never does, what the timeout thread reports and when it ends, and the race
    of a cancellation with a thread that finishes.
  \<^item> Storage (\<open>Fp_Store\<close>, \<open>Fp_Mirror\<close>): the slots show the newest stored rows of the group's table after
    every insertion, removal, reload and whole run; slot 5 is the exception at a change of group.
  \<^item> The whole device (\<open>Fp_System\<close>): runs of entry points, threads and signals in any order
    keep the device well-formed.
  \<^item> Power (\<open>Fp_Power\<close>): the requests to the driver form the sequence it accepts, \<open>sensor.init\<close> says
    whether the sensor has power, and closing leaves nothing switched on.
  \<^item> Lifecycle (\<open>Fp_Lifecycle\<close>): a device is opened, used for an enrolment and authentications, and
    closed; every call returns.
  \<^item> Sessions (\<open>Fp_Session\<close>): an enrolment completes and makes exactly one finger; from a device at
    rest, an enrolment and any number of authentications with their threads all return and report
    what was asked for, in order; the challenge 0 is accepted after \<open>fingerprint_post_enroll\<close>.
  \<^item> Interleavings: \<open>Fp_Split\<close> cuts the authenticating thread where the application has answered; a
    finger removed there makes the thread report another one.  \<open>Fp_Interleave\<close> cuts the enrolling
    thread where it announces that it is at rest, which is before it shuts the application down, and
    behind its first image, where a cancellation makes it store the finger; and shows that a refused
    authentication changes the operation that the running one reports.
  \<^item> \<open>Fp_Sections\<close>: mutexes, layout of the commands, refinement of the events.
  \<^item> Camera: which keys the wrapper changes on the way to the vendor; NULL devices; closing and
    opening.  Firmware: its exported size.
  \<^item> Declarations (\<open>C_Layout\<close>, \<open>Tz_Structs\<close>, \<open>Ril_Layout\<close>, \<open>Ril_Requests\<close>): fields are aligned,
    do not overlap, and stay where they are when others are added behind them; the numbers with
    which the HAL uses the shared buffer are those of the declared structures; which versions of
    the RIL structures can be read as older ones; the numbering and the contracts of its messages;
    the builds of the radio library agree on the functions by which they call each other.

  \<^bold>\<open>Bounds.\<close>  The firmware image is checked in blocks of at most 150 rows, the blocks that its
  definitions have.  SHA-1 is specified for messages of fewer than \<open>2 ^ 64\<close> bits, where the two
  length words of the code do not overflow.

  \<^bold>\<open>Not modelled.\<close>  The tables of function pointers by which Android finds the entry points;
  log messages; entry points other than those that set the worker state as events in the middle of
  a thread, in particular the removal of fingers during an enrolment (\<open>Fp_Split\<close> and
  \<open>Fp_Interleave\<close> run some entry points between the two halves of a thread); the messages of a timeout
  thread that another thread joins, and its not ending: \<open>pthread_join\<close> always returns in the model; failure of \<open>strdup\<close>, and NULL strings handed to \<open>CameraParameters\<close>, in the camera
  wrapper.  \<open>CameraParameters\<close> itself is a parameter of the camera model.  The functions of \<open>ril.h\<close>
  have no body in the repository, only their signatures are modelled, and of its comments the data,
  the answer and the errors of a message.  The functions of
  \<open>QSEEComAPI.h\<close> without a definition in \<open>QSEEComAPI.c\<close>.  XML, init scripts, audio routes,
  overlays, policies and makefiles are data without program logic.
\<close>

end
